(* ===== verification/Prelude.thy ===== *)
theory Prelude
  imports Main "HOL-Library.Word"
begin

unbundle bit_operations_syntax

text \<open>
  Shared vocabulary of the development: the machine integers of the C++ sources, the
  truncating division of C++, byte strings and their secure clearing, and the generic
  lemmas on words the component theories rest on.

  Unsigned integers are words of their width, so that they wrap exactly where the code
  wraps.  Signed integers are \<open>int\<close>: signed overflow is undefined behaviour in C++, so the
  model computes exact values, and the component theories prove that every value stays in
  the range \<open>in_i64\<close> of its type.
\<close>

type_synonym u8 = "8 word"
type_synonym u16 = "16 word"
type_synonym u32 = "32 word"
type_synonym u64 = "64 word"
type_synonym i64 = int
type_synonym i32 = int

named_theorems word_nat
  \<comment> \<open>reading 64-bit words as natural numbers\<close>

subsection \<open>Signed 64-bit range and conversions\<close>

definition INT64_MAX :: int where "INT64_MAX = 9223372036854775807"

definition INT64_MIN :: int where "INT64_MIN = -9223372036854775808"

definition in_i64 :: "int \<Rightarrow> bool" where
  "in_i64 x \<longleftrightarrow> INT64_MIN \<le> x \<and> x \<le> INT64_MAX"

definition fit_i64 :: "int \<Rightarrow> int option" where
  "fit_i64 x = (if in_i64 x then Some x else None)"

text \<open>\<open>static_cast\<close> between \<open>std::int64_t\<close> and \<open>std::uint64_t\<close>.\<close>

definition u64_of_i64 :: "i64 \<Rightarrow> u64" where
  "u64_of_i64 x = word_of_int x"

definition i64_of_u64 :: "u64 \<Rightarrow> i64" where
  "i64_of_u64 w = sint w"

text \<open>The largest signed value, as the unsigned word the code compares against.\<close>

definition INT64_MAX_U :: u64 where "INT64_MAX_U = 9223372036854775807"

lemmas i64_limits = INT64_MAX_def INT64_MIN_def in_i64_def

lemma in_i64_0 [simp]: "in_i64 0" and in_i64_1 [simp]: "in_i64 1"
  by (simp_all add: i64_limits)

lemma fit_i64_Some_iff: "fit_i64 x = Some y \<longleftrightarrow> y = x \<and> in_i64 x"
  by (auto simp: fit_i64_def)

lemma fit_i64_None_iff: "fit_i64 x = None \<longleftrightarrow> \<not> in_i64 x"
  by (simp add: fit_i64_def)

lemma u64_bound [simp]: "unat (w :: u64) < 18446744073709551616"
proof -
  have "unat w < 2 ^ LENGTH(64)" by (rule unsigned_less)
  then show ?thesis by simp
qed

lemma unat_le_max_u64: "unat (w :: u64) \<le> 18446744073709551615"
  using u64_bound [of w] by linarith

lemma unat_u64_of_i64:
  assumes "0 \<le> x" and "x \<le> INT64_MAX"
  shows "unat (u64_of_i64 x) = nat x"
proof -
  have "unat (word_of_int x :: u64) = nat (take_bit 64 x)"
    by (simp add: unat_eq_nat_uint unsigned_of_int)
  moreover have "take_bit 64 x = x"
    by (rule take_bit_int_eq_self) (use assms in \<open>simp_all add: INT64_MAX_def\<close>)
  ultimately show ?thesis by (simp add: u64_of_i64_def)
qed

lemma sint_small:
  assumes "w \<le> INT64_MAX_U"
  shows "sint (w :: u64) = int (unat w)"
proof -
  from assms have "unat w \<le> 9223372036854775807"
    by (simp add: word_le_nat_alt INT64_MAX_U_def)
  then have "int (unat w) < 9223372036854775808"
    by linarith
  then have "uint w < 2 ^ 63"
    by simp
  moreover have "- (2 ^ 63) \<le> uint w"
    by (rule order_trans [of _ 0]) simp_all
  ultimately have "signed_take_bit 63 (uint w) = uint w"
    by (intro signed_take_bit_int_eq_self)
  then show ?thesis
    by (simp add: sint_uint)
qed

lemma i64_of_u64_range:
  assumes "0 < w" and "w \<le> INT64_MAX_U"
  shows "0 < i64_of_u64 w" and "in_i64 (i64_of_u64 w)" and "i64_of_u64 w = int (unat w)"
proof -
  from assms(2) have eq: "i64_of_u64 w = int (unat w)"
    by (simp add: i64_of_u64_def sint_small)
  from assms(2) have "unat w \<le> 9223372036854775807"
    by (simp add: word_le_nat_alt INT64_MAX_U_def)
  moreover from assms(1) have "0 < unat w"
    by (simp add: word_less_nat_alt)
  ultimately show "0 < i64_of_u64 w" and "in_i64 (i64_of_u64 w)"
    unfolding eq i64_limits by linarith+
  show "i64_of_u64 w = int (unat w)" by (fact eq)
qed

lemma unat_drop_bit_u64 [word_nat]:
  "unat (drop_bit n (w :: u64)) = unat w div 2 ^ n"
  unfolding unsigned_drop_bit_eq by (simp add: take_bit_nat_eq_self drop_bit_eq_div)

lemma unat_take_bit_u64 [word_nat]:
  "unat (take_bit n (w :: u64)) = unat w mod 2 ^ n"
  unfolding unsigned_take_bit_eq by (simp add: take_bit_eq_mod)

lemma unat_of_nat_u64 [word_nat]:
  "unat (word_of_nat x :: u64) = x mod 18446744073709551616"
  by (simp add: unat_of_nat)

lemma unat_add_u64:
  "unat a + unat b < 18446744073709551616 \<Longrightarrow> unat (a + b :: u64) = unat a + unat b"
  by (simp add: unat_word_ariths)

lemma unat_mult_u64:
  "unat a * unat b < 18446744073709551616 \<Longrightarrow> unat (a * b :: u64) = unat a * unat b"
  by (simp add: unat_word_ariths)

lemma unat_push_bit_u64 [word_nat]:
  "unat (push_bit n (w :: u64)) = unat w * 2 ^ n mod 18446744073709551616"
  unfolding unsigned_push_bit_eq by (simp add: push_bit_eq_mult take_bit_eq_mod)

lemma unat_or_disjoint_u64:
  assumes "a AND b = (0 :: u64)"
  shows "unat (a OR b) = unat a + unat b"
proof -
  have "unat a AND unat b = 0"
    using assms by (simp flip: unsigned_and_eq)
  then show ?thesis
    by (simp add: unsigned_or_eq disjunctive_add_eq_or)
qed

lemma bit_u64_iff_odd: "bit (w :: u64) n \<longleftrightarrow> odd (unat w div 2 ^ n)"
proof -
  have "bit w n \<longleftrightarrow> bit (unat w) n"
    by (simp add: bit_unsigned_iff)
  also have "\<dots> \<longleftrightarrow> odd (unat w div 2 ^ n)"
    by (rule bit_iff_odd)
  finally show ?thesis .
qed

subsection \<open>Truncating division\<close>

text \<open>C++ \<open>/\<close> and \<open>%\<close> on signed integers truncate towards zero.\<close>

definition cdiv :: "int \<Rightarrow> int \<Rightarrow> int" where
  "cdiv a b = sgn a * sgn b * (\<bar>a\<bar> div \<bar>b\<bar>)"

definition cmod :: "int \<Rightarrow> int \<Rightarrow> int" where
  "cmod a b = a - cdiv a b * b"

lemma div_le_self_int: "0 \<le> a \<Longrightarrow> 0 < b \<Longrightarrow> a div b \<le> (a :: int)"
  by (cases "a = 0") (simp_all add: int_div_le_self)

lemma cdiv_nonneg: "0 \<le> a \<Longrightarrow> 0 < b \<Longrightarrow> cdiv a b = a div b"
  by (cases "a = 0") (simp_all add: cdiv_def)

lemma cdiv_neg: "a < 0 \<Longrightarrow> 0 < b \<Longrightarrow> cdiv a b = - ((- a) div b)"
  by (simp add: cdiv_def)

lemma cmod_nonneg: "0 \<le> a \<Longrightarrow> 0 < b \<Longrightarrow> cmod a b = a mod b"
  by (simp add: cmod_def cdiv_nonneg minus_div_mult_eq_mod)

lemma cdiv_cdiv:
  assumes "0 < b" and "0 < c"
  shows "cdiv (cdiv a b) c = cdiv a (b * c)"
proof (cases "0 \<le> a")
  case True
  with assms show ?thesis
    by (simp add: cdiv_nonneg zdiv_zmult2_eq pos_imp_zdiv_nonneg_iff)
next
  case False
  define m where "m = - a div b"
  from False assms have m: "0 \<le> m"
    by (simp add: m_def pos_imp_zdiv_nonneg_iff)
  have "- a div (b * c) = m div c"
    using assms by (simp add: m_def zdiv_zmult2_eq)
  moreover have "cdiv (- m) c = - (m div c)"
    using m assms by (cases "m = 0") (simp_all add: cdiv_neg cdiv_def)
  ultimately show ?thesis
    using False assms by (simp add: cdiv_neg m_def [symmetric])
qed

lemma cdiv_range:
  assumes "in_i64 a" and "0 < b"
  shows "in_i64 (cdiv a b)"
proof (cases "0 \<le> a")
  case True
  have "a div b \<le> a" using True assms(2) by (simp add: div_le_self_int)
  moreover have "0 \<le> a div b" using True assms(2) by (simp add: pos_imp_zdiv_nonneg_iff)
  ultimately show ?thesis using assms True by (simp add: cdiv_nonneg i64_limits)
next
  case False
  have "- a div b \<le> - a" using False assms(2) by (simp add: div_le_self_int)
  moreover have "0 \<le> - a div b" using False assms(2) by (simp add: pos_imp_zdiv_nonneg_iff)
  ultimately show ?thesis using assms False by (simp add: cdiv_neg i64_limits)
qed

subsection \<open>Byte strings\<close>

text \<open>
  \<open>secureClear\<close> of the sources overwrites every byte of the buffer with zero through a
  volatile pointer and then empties the string.  The model keeps both steps: the buffer
  after the loop, and its logical value, the first \<open>0\<close> bytes of it.
\<close>

definition secureClear_bytes :: "string \<Rightarrow> string" where
  "secureClear_bytes v = map (\<lambda>_. CHR 0x00) v"

definition secureClear :: "string \<Rightarrow> string" where
  "secureClear v = take 0 (secureClear_bytes v)"

lemma secureClear_empty [simp]: "secureClear v = []"
  by (simp add: secureClear_def)

lemma secureClear_bytes_zero: "\<forall>c \<in> set (secureClear_bytes v). c = CHR 0x00"
  by (simp add: secureClear_bytes_def)

definition byte_of :: "char \<Rightarrow> nat" where
  "byte_of c = of_char c"

lemma byte_of_lt: "byte_of c < 256"
  by (simp add: byte_of_def)

lemma byte_of_inject: "byte_of c = byte_of d \<longleftrightarrow> c = d"
  by (simp add: byte_of_def)

subsection \<open>Runs of a machine\<close>

text \<open>A deterministic component is a step function; a run folds it over the calls made.\<close>

definition run_machine :: "('e \<Rightarrow> 's \<Rightarrow> 's) \<Rightarrow> 'e list \<Rightarrow> 's \<Rightarrow> 's" where
  "run_machine step es s = foldl (\<lambda>s e. step e s) s es"

lemma run_machine_Nil [simp]: "run_machine step [] s = s"
  and run_machine_Cons [simp]:
    "run_machine step (e # es) s = run_machine step es (step e s)"
  and run_machine_append:
    "run_machine step (es @ fs) s = run_machine step fs (run_machine step es s)"
  by (simp_all add: run_machine_def)

lemma run_machine_invariant:
  assumes "\<And>e s. I s \<Longrightarrow> I (step e s)" and "I s"
  shows "I (run_machine step es s)"
  using assms(2) by (induction es arbitrary: s) (auto intro: assms(1))

end
