(* ===== verification/Financial.thy ===== *)
theory Financial
  imports Prelude
begin

text \<open>
  Fixed-point arithmetic of the namespace \<open>Financial\<close> (include/FinancialMath.hpp,
  src/FinancialMath.cpp): scaled 64-bit values, the 128-bit product and the bit-serial
  division on 64-bit words, the three rounding modes, and the checked operations of the
  accounting code.  The first lemmas show that the word-level routines compute the exact
  product and quot; the rest is derived from the resulting exact specification
  \<open>round_div\<close>.
\<close>

unbundle bit_operations_syntax

subsection \<open>Data\<close>

definition SCALE :: u8 where "SCALE = 8"

definition SCALE_FACTOR :: i64 where "SCALE_FACTOR = 100000000"

datatype rounding = TowardZero | RejectUnaligned | NearestTiesAwayFromZero

datatype price_tag = PriceTag
datatype quantity_tag = QuantityTag
datatype money_tag = MoneyTag
datatype fraction_tag = FractionTag

text \<open>The template \<open>Value<Tag>\<close>: a scaled integer with a phantom tag.\<close>

datatype 'tag fvalue = FValue (units: i64)

type_synonym price = "price_tag fvalue"
type_synonym quantity = "quantity_tag fvalue"
type_synonym money = "money_tag fvalue"
type_synonym fraction = "fraction_tag fvalue"

definition isPositive :: "'tag fvalue \<Rightarrow> bool" where
  "isPositive v \<longleftrightarrow> units v > 0"

definition isNegative :: "'tag fvalue \<Rightarrow> bool" where
  "isNegative v \<longleftrightarrow> units v < 0"

definition isZero :: "'tag fvalue \<Rightarrow> bool" where
  "isZero v \<longleftrightarrow> units v = 0"

lemmas fvalue_sign_defs = isPositive_def isNegative_def isZero_def

record uint128 =
  high :: u64
  low :: u64

subsection \<open>Word-level routines\<close>

definition magnitude :: "i64 \<Rightarrow> u64" where
  "magnitude value =
     (if value \<ge> 0 then u64_of_i64 value
      else u64_of_i64 (- (value + 1)) + 1)"

definition MASK :: u64 where "MASK = 0xffffffff"

definition multiplyWide :: "u64 \<Rightarrow> u64 \<Rightarrow> uint128" where
  "multiplyWide lhs rhs =
     (let lhsLow = lhs AND MASK;
          lhsHigh = drop_bit 32 lhs;
          rhsLow = rhs AND MASK;
          rhsHigh = drop_bit 32 rhs;
          lowLow = lhsLow * rhsLow;
          lowHigh = lhsLow * rhsHigh;
          highLow = lhsHigh * rhsLow;
          highHigh = lhsHigh * rhsHigh;
          middle = drop_bit 32 lowLow + (lowHigh AND MASK) + (highLow AND MASK)
      in \<lparr> high = highHigh + drop_bit 32 lowHigh + drop_bit 32 highLow + drop_bit 32 middle,
           low = push_bit 32 middle OR (lowLow AND MASK) \<rparr>)"

definition bitAt :: "uint128 \<Rightarrow> nat \<Rightarrow> bool" where
  "bitAt value index =
     (if index \<ge> 64 then (drop_bit (index - 64) (high value) AND 1) \<noteq> 0
      else (drop_bit index (low value) AND 1) \<noteq> 0)"

text \<open>
  The loop \<open>for (int bit = 127; bit >= 0; --bit)\<close> of \<open>divideWide\<close>: the argument is the
  number of bits still to process, the accumulators are \<open>quot\<close> and \<open>remainder\<close>.
\<close>

primrec divideWide_loop ::
  "nat \<Rightarrow> uint128 \<Rightarrow> u64 \<Rightarrow> u64 \<Rightarrow> u64 \<Rightarrow> (u64 \<times> u64) option" where
  "divideWide_loop 0 numerator denominator quot remainder = Some (quot, remainder)"
| "divideWide_loop (Suc bitIndex) numerator denominator quot remainder =
     (let incoming = bitAt numerator bitIndex;
          carry = drop_bit 63 remainder \<noteq> 0;
          shifted = push_bit 1 remainder OR (if incoming then 1 else 0);
          quotientBit = (carry \<or> shifted \<ge> denominator);
          remainder' = (if quotientBit then shifted - denominator else shifted)
      in if quotientBit
         then if bitIndex \<ge> 64 then None
              else divideWide_loop bitIndex numerator denominator (quot OR push_bit bitIndex 1) remainder'
         else divideWide_loop bitIndex numerator denominator quot remainder')"

definition divideWide :: "uint128 \<Rightarrow> u64 \<Rightarrow> (u64 \<times> u64) option" where
  "divideWide numerator denominator =
     (if denominator = 0 then None else divideWide_loop 128 numerator denominator 0 0)"

definition signedQuotient :: "uint128 \<Rightarrow> u64 \<Rightarrow> bool \<Rightarrow> rounding \<Rightarrow> i64 option" where
  "signedQuotient numerator denominator negative rounding =
     (case divideWide numerator denominator of
        None \<Rightarrow> None
      | Some (quot, remainder) \<Rightarrow>
          if rounding = RejectUnaligned \<and> remainder \<noteq> 0 then None
          else
            let roundUp = (rounding = NearestTiesAwayFromZero
                           \<and> remainder \<ge> denominator div 2 + denominator mod 2)
            in if roundUp \<and> quot = - 1 then None
               else
                 let quot = (if roundUp then quot + 1 else quot);
                     positiveLimit = u64_of_i64 INT64_MAX;
                     negativeLimit = positiveLimit + 1
                 in if (\<not> negative \<and> quot > positiveLimit)
                       \<or> (negative \<and> quot > negativeLimit) then None
                    else if negative \<and> quot = negativeLimit then Some INT64_MIN
                    else let signedValue = i64_of_u64 quot
                         in Some (if negative then - signedValue else signedValue))"

subsection \<open>Checked and scaled operations\<close>

definition checkedAdd :: "i64 \<Rightarrow> i64 \<Rightarrow> i64 option" where
  "checkedAdd lhs rhs =
     (if (rhs > 0 \<and> lhs > INT64_MAX - rhs) \<or> (rhs < 0 \<and> lhs < INT64_MIN - rhs)
      then None else Some (lhs + rhs))"

definition checkedSubtract :: "i64 \<Rightarrow> i64 \<Rightarrow> i64 option" where
  "checkedSubtract lhs rhs =
     (if (rhs > 0 \<and> lhs < INT64_MIN + rhs) \<or> (rhs < 0 \<and> lhs > INT64_MAX + rhs)
      then None else Some (lhs - rhs))"

definition scaledProduct :: "i64 \<Rightarrow> i64 \<Rightarrow> rounding \<Rightarrow> i64 option" where
  "scaledProduct lhs rhs rounding =
     (let negative = ((lhs < 0) \<noteq> (rhs < 0))
      in signedQuotient (multiplyWide (magnitude lhs) (magnitude rhs))
           (u64_of_i64 SCALE_FACTOR) negative rounding)"

definition scaledRatio :: "i64 \<Rightarrow> i64 \<Rightarrow> rounding \<Rightarrow> i64 option" where
  "scaledRatio numerator denominator rounding =
     (if denominator = 0 then None
      else
        let negative = ((numerator < 0) \<noteq> (denominator < 0))
        in signedQuotient (multiplyWide (magnitude numerator) (u64_of_i64 SCALE_FACTOR))
             (magnitude denominator) negative rounding)"

definition proportionalUnits :: "i64 \<Rightarrow> i64 \<Rightarrow> i64 \<Rightarrow> rounding \<Rightarrow> i64 option" where
  "proportionalUnits whole_amount part whole rounding =
     (if whole = 0 then None
      else
        let negative = (((whole_amount < 0) \<noteq> (part < 0)) \<noteq> (whole < 0))
        in signedQuotient (multiplyWide (magnitude whole_amount) (magnitude part))
             (magnitude whole) negative rounding)"

definition add_value :: "'tag fvalue \<Rightarrow> 'tag fvalue \<Rightarrow> 'tag fvalue option" where
  "add_value lhs rhs = map_option FValue (checkedAdd (units lhs) (units rhs))"

definition subtract_value :: "'tag fvalue \<Rightarrow> 'tag fvalue \<Rightarrow> 'tag fvalue option" where
  "subtract_value lhs rhs = map_option FValue (checkedSubtract (units lhs) (units rhs))"

definition notional :: "price \<Rightarrow> quantity \<Rightarrow> rounding \<Rightarrow> money option" where
  "notional priceValue quantityValue rounding =
     map_option FValue (scaledProduct (units priceValue) (units quantityValue) rounding)"

definition fee :: "money \<Rightarrow> fraction \<Rightarrow> rounding \<Rightarrow> money option" where
  "fee notionalValue rate rounding =
     map_option FValue (scaledProduct (units notionalValue) (units rate) rounding)"

definition applySlippage :: "price \<Rightarrow> fraction \<Rightarrow> bool \<Rightarrow> rounding \<Rightarrow> price option" where
  "applySlippage marketPrice slippageRate buySide rounding =
     (if \<not> isPositive marketPrice \<or> isNegative slippageRate
         \<or> units slippageRate \<ge> SCALE_FACTOR then None
      else
        let multiplier = (if buySide then SCALE_FACTOR + units slippageRate
                          else SCALE_FACTOR - units slippageRate)
        in case scaledProduct (units marketPrice) multiplier rounding of
             None \<Rightarrow> None
           | Some u \<Rightarrow> if u > 0 then Some (FValue u) else None)"

definition quantityForNotional :: "money \<Rightarrow> price \<Rightarrow> rounding \<Rightarrow> quantity option" where
  "quantityForNotional notionalBudget priceValue rounding =
     (if isNegative notionalBudget \<or> \<not> isPositive priceValue then None
      else map_option FValue (scaledRatio (units notionalBudget) (units priceValue) rounding))"

definition notionalBeforeFee :: "money \<Rightarrow> fraction \<Rightarrow> rounding \<Rightarrow> money option" where
  "notionalBeforeFee totalBudget feeRate rounding =
     (if isNegative totalBudget \<or> isNegative feeRate then None
      else case checkedAdd SCALE_FACTOR (units feeRate) of
             None \<Rightarrow> None
           | Some denominator \<Rightarrow>
               if denominator \<le> 0 then None
               else map_option FValue (scaledRatio (units totalBudget) denominator rounding))"

definition averagePrice :: "money \<Rightarrow> quantity \<Rightarrow> rounding \<Rightarrow> price option" where
  "averagePrice costBasis quantityValue rounding =
     (if isNegative costBasis \<or> \<not> isPositive quantityValue then None
      else map_option FValue (scaledRatio (units costBasis) (units quantityValue) rounding))"

definition proportional :: "money \<Rightarrow> quantity \<Rightarrow> quantity \<Rightarrow> rounding \<Rightarrow> money option" where
  "proportional whole_amount part whole rounding =
     (if isNegative part \<or> \<not> isPositive whole \<or> units part > units whole then None
      else map_option FValue
             (proportionalUnits (units whole_amount) (units part) (units whole) rounding))"

subsection \<open>The 128-bit product\<close>

definition wide_value :: "uint128 \<Rightarrow> nat" where
  "wide_value v = unat (high v) * 18446744073709551616 + unat (low v)"

lemma MASK_take_bit: "w AND MASK = take_bit 32 w"
  by (simp add: MASK_def take_bit_eq_mask mask_eq_exp_minus_1)

lemma magnitude_nat:
  assumes "in_i64 x"
  shows "unat (magnitude x) = nat \<bar>x\<bar>"
proof (cases "0 \<le> x")
  case True
  with assms show ?thesis by (simp add: magnitude_def unat_u64_of_i64 in_i64_def)
next
  case False
  with assms have r: "0 \<le> - (x + 1)" "- (x + 1) \<le> INT64_MAX"
    by (simp_all add: i64_limits)
  have u: "unat (u64_of_i64 (- (x + 1))) = nat (- (x + 1))"
    by (rule unat_u64_of_i64 [OF r])
  have "nat (- (x + 1)) + 1 < 18446744073709551616"
    using r by (simp add: i64_limits)
  with u have "unat (u64_of_i64 (- (x + 1)) + 1) = nat (- (x + 1)) + 1"
    by (subst unat_add_u64) simp_all
  moreover have "nat (- (x + 1)) + 1 = nat \<bar>x\<bar>"
    using False by simp
  ultimately show ?thesis using False by (simp add: magnitude_def)
qed

lemma split_product_linear:
  fixes hh lh lhd lhm hl hld hlm ll lld llm mq mr B :: nat
  assumes "lh = lhd * B + lhm" "hl = hld * B + hlm" "ll = lld * B + llm"
    and "lld + lhm + hlm = mq * B + mr"
  shows "hh * (B * B) + (lh + hl) * B + ll =
    (hh + lhd + hld + mq) * (B * B) + (mr * B + llm)"
proof -
  have "(lld + lhm + hlm) * B = (mq * B + mr) * B"
    using assms(4) by simp
  then show ?thesis
    unfolding assms(1-3) by (simp add: algebra_simps)
qed

lemma split_product_arith:
  fixes a1 a0 b1 b0 B :: nat
  assumes "m = a0 * b0 div B + a0 * b1 mod B + a1 * b0 mod B"
  shows "(a1 * B + a0) * (b1 * B + b0) =
    (a1 * b1 + a0 * b1 div B + a1 * b0 div B + m div B) * (B * B)
    + ((m mod B) * B + a0 * b0 mod B)"
proof -
  have "(a1 * B + a0) * (b1 * B + b0) =
      (a1 * b1) * (B * B) + (a0 * b1 + a1 * b0) * B + a0 * b0"
    by (simp add: algebra_simps)
  also have "\<dots> = (a1 * b1 + a0 * b1 div B + a1 * b0 div B + m div B) * (B * B)
      + ((m mod B) * B + a0 * b0 mod B)"
    by (rule split_product_linear) (simp_all add: assms)
  finally show ?thesis .
qed

lemma wide_high_bound:
  fixes x h l N :: nat
  assumes "x = h * N + l" and "x < N * N"
  shows "h < N"
proof (rule ccontr)
  assume "\<not> h < N"
  then have "N * N \<le> h * N" by (intro mult_le_mono1) simp
  with assms show False by linarith
qed

lemma unat_mask32: "unat (w AND MASK) = unat w mod 4294967296"
  by (simp add: MASK_take_bit unat_take_bit_u64)

lemma unat_high32: "unat (drop_bit 32 (w :: u64)) = unat w div 4294967296"
  by (simp add: unat_drop_bit_u64)

lemma multiplyWide_exact: "wide_value (multiplyWide a b) = unat a * unat b"
proof -
  define B :: nat where "B = 4294967296"
  define a0 a1 b0 b1 where "a0 = unat a mod B" and "a1 = unat a div B"
    and "b0 = unat b mod B" and "b1 = unat b div B"
  have lt: "a0 < B" "b0 < B" "a1 < B" "b1 < B"
    using u64_bound [of a] u64_bound [of b]
    by (simp_all add: a0_def b0_def a1_def b1_def B_def less_mult_imp_div_less)
  have prod_lt: "x * y \<le> 18446744065119617025" if "x < B" "y < B" for x y
    using mult_le_mono [of x 4294967295 y 4294967295] that by (simp add: B_def)
  define ll lh hl hh where "ll = (a AND MASK) * (b AND MASK)"
    and "lh = (a AND MASK) * drop_bit 32 b" and "hl = drop_bit 32 a * (b AND MASK)"
    and "hh = drop_bit 32 a * drop_bit 32 b"
  have u: "unat ll = a0 * b0" "unat lh = a0 * b1" "unat hl = a1 * b0" "unat hh = a1 * b1"
    unfolding ll_def lh_def hl_def hh_def
    using prod_lt [OF lt(1,2)] prod_lt [OF lt(1,4)] prod_lt [OF lt(3,2)] prod_lt [OF lt(3,4)]
    by (subst unat_mult_u64; simp add: unat_mask32 unat_high32 a0_def a1_def b0_def b1_def B_def)+
  define m where "m = drop_bit 32 ll + (lh AND MASK) + (hl AND MASK)"
  have m: "unat m = a0 * b0 div B + a0 * b1 mod B + a1 * b0 mod B"
  proof -
    have s: "a0 * b0 div B < B" "a0 * b1 mod B < B" "a1 * b0 mod B < B"
      using prod_lt [OF lt(1,2)] by (simp_all add: B_def less_mult_imp_div_less)
    have "unat (drop_bit 32 ll + (lh AND MASK)) = a0 * b0 div B + a0 * b1 mod B"
      using s by (subst unat_add_u64) (simp_all add: u unat_mask32 unat_high32 B_def)
    then show ?thesis
      unfolding m_def using s by (subst unat_add_u64) (simp_all add: u unat_mask32 B_def)
  qed
  have ab: "unat a = a1 * B + a0" "unat b = b1 * B + b0"
    by (simp_all add: a0_def a1_def b0_def b1_def B_def)
  have arith: "unat a * unat b =
      (a1 * b1 + a0 * b1 div B + a1 * b0 div B + unat m div B) * (B * B)
      + ((unat m mod B) * B + a0 * b0 mod B)"
    unfolding ab by (rule split_product_arith [OF m])
  have N: "B * B = 18446744073709551616" by (simp add: B_def)
  have hi_lt: "a1 * b1 + a0 * b1 div B + a1 * b0 div B + unat m div B < 18446744073709551616"
    using wide_high_bound [OF arith] mult_strict_mono' [OF u64_bound [of a] u64_bound [of b]]
    by (simp add: N)
  have hi: "unat (hh + drop_bit 32 lh + drop_bit 32 hl + drop_bit 32 m)
      = a1 * b1 + a0 * b1 div B + a1 * b0 div B + unat m div B"
    using hi_lt
    by (simp add: unat_add_u64 unat_high32 u B_def)
  have lo: "unat (push_bit 32 m OR (ll AND MASK)) = (unat m mod B) * B + a0 * b0 mod B"
  proof -
    have p: "unat (push_bit 32 m) = (unat m mod B) * B"
      by (simp add: unat_push_bit_u64 B_def mult_mod_left)
    have d: "push_bit 32 m AND (ll AND MASK) = 0"
      unfolding MASK_take_bit by (rule bit_word_eqI) (auto simp: bit_simps)
    from unat_or_disjoint_u64 [OF d] show ?thesis
      by (simp add: p unat_mask32 u B_def)
  qed
  have "multiplyWide a b = \<lparr>high = hh + drop_bit 32 lh + drop_bit 32 hl + drop_bit 32 m,
      low = push_bit 32 m OR (ll AND MASK)\<rparr>"
    by (simp add: multiplyWide_def Let_def m_def ll_def lh_def hl_def hh_def)
  then show ?thesis
    unfolding wide_value_def arith N using hi lo by simp
qed

subsection \<open>The bit-serial division\<close>

lemma and_1_neq_0_iff_bit: "drop_bit k (w :: u64) AND 1 \<noteq> 0 \<longleftrightarrow> bit w k"
  by (simp add: bit_iff_odd_drop_bit and_one_eq mod2_eq_if)

lemma wide_value_div_high:
  assumes "64 \<le> i"
  shows "wide_value v div 2 ^ i = unat (high v) div 2 ^ (i - 64)"
proof -
  have "(2::nat) ^ i = 18446744073709551616 * 2 ^ (i - 64)"
    using assms power_add [of "2::nat" 64 "i - 64"] by simp
  moreover have "wide_value v div 18446744073709551616 = unat (high v)"
    by (simp add: wide_value_def)
  ultimately show ?thesis by (metis div_mult2_eq)
qed

lemma odd_wide_value_div_low:
  assumes "i < 64"
  shows "odd (wide_value v div 2 ^ i) \<longleftrightarrow> odd (unat (low v) div 2 ^ i)"
proof -
  have p: "(18446744073709551616::nat) = 2 ^ (64 - i) * 2 ^ i"
    using assms power_add [of "2::nat" "64 - i" i] by simp
  have "wide_value v div 2 ^ i = unat (high v) * 2 ^ (64 - i) + unat (low v) div 2 ^ i"
    unfolding wide_value_def p by (simp flip: mult.assoc)
  with assms show ?thesis by simp
qed

lemma bitAt_iff_odd: "bitAt v i \<longleftrightarrow> odd (wide_value v div 2 ^ i)"
  by (simp add: bitAt_def and_1_neq_0_iff_bit bit_u64_iff_odd wide_value_div_high
      odd_wide_value_div_low)

lemma wide_value_bound: "wide_value v < 18446744073709551616 * 18446744073709551616"
  using u64_bound [of "high v"] u64_bound [of "low v"] unfolding wide_value_def by linarith

text \<open>One step of long division, on numbers.\<close>

lemma long_division_step:
  fixes h D b :: nat
  assumes "0 < D" and "b < 2"
  defines "r \<equiv> 2 * (h mod D) + b"
  shows "(2 * h + b) div D = 2 * (h div D) + (if D \<le> r then 1 else 0)"
    and "(2 * h + b) mod D = (if D \<le> r then r - D else r)"
    and "r < 2 * D"
proof -
  have m: "h mod D < D" using assms(1) by simp
  with assms(2) show r: "r < 2 * D" unfolding r_def by linarith
  define q where "q = 2 * (h div D)"
  have "2 * h + b = 2 * (h div D * D + h mod D) + b" by simp
  also have "\<dots> = q * D + r"
    unfolding r_def q_def by (simp only: algebra_simps)
  finally have e: "2 * h + b = q * D + r" .
  show "(2 * h + b) div D = 2 * (h div D) + (if D \<le> r then 1 else 0)"
    unfolding e q_def [symmetric] using r assms(1)
    by (auto simp: div_nat_eqI algebra_simps)
  show "(2 * h + b) mod D = (if D \<le> r then r - D else r)"
    unfolding e using r by (simp add: le_mod_geq)
qed

lemma double_plus_mod:
  assumes "b < (2 :: nat)" and "0 < K"
  shows "2 * r mod (2 * K) + b = (2 * r + b) mod (2 * K)"
proof -
  have e: "2 * r mod (2 * K) = 2 * (r mod K)"
    by simp
  have "(2 * r + b) mod (2 * K) = (2 * (r mod K) + b) mod (2 * K)"
    by (metis e mod_add_left_eq)
  also have "2 * (r mod K) + b < 2 * K"
    using assms mod_less_divisor [of K r] by linarith
  then have "(2 * (r mod K) + b) mod (2 * K) = 2 * (r mod K) + b"
    by simp
  finally show ?thesis by (simp add: e)
qed

lemma divideWide_shift:
  fixes r :: u64
  assumes "b < 2"
  shows "push_bit 1 r OR (if odd b then 1 else 0) = word_of_nat (2 * unat r + b)"
proof -
  have "push_bit 1 r AND (if odd b then 1 else 0) = 0"
    by (rule bit_word_eqI) (auto simp: bit_simps bit_0 intro!: gr0I)
  from unat_or_disjoint_u64 [OF this]
  have "unat (push_bit 1 r OR (if odd b then 1 else 0))
      = unat (push_bit 1 r) + unat (if odd b then 1 else 0 :: u64)" .
  also have "unat (push_bit 1 r) = 2 * unat r mod 18446744073709551616"
    by (subst unat_push_bit_u64) (simp add: mult.commute)
  also have "unat (if odd b then 1 else 0 :: u64) = b"
    using assms by (cases b) auto
  also have "2 * unat r mod 18446744073709551616 + b = (2 * unat r + b) mod 18446744073709551616"
    using double_plus_mod [OF assms, of 9223372036854775808 "unat r"] by simp
  finally show ?thesis
    by (simp only: word_unat_eq_iff unat_of_nat_u64)
qed

lemma quotient_bit_iff:
  fixes r d :: u64
  assumes "unat r < unat d" and "b < 2"
  shows "drop_bit 63 r \<noteq> 0 \<or> d \<le> word_of_nat (2 * unat r + b) \<longleftrightarrow> unat d \<le> 2 * unat r + b"
proof (cases "drop_bit 63 r = 0")
  case True
  then have "unat r div 9223372036854775808 = 0"
    using unat_drop_bit_u64 [of 63 r] by simp
  then have "2 * unat r + b < 18446744073709551616"
    using assms(2) by (simp add: div_eq_0_iff)
  then have "unat (word_of_nat (2 * unat r + b) :: u64) = 2 * unat r + b"
    by (simp only: unat_of_nat_u64 mod_less)
  with True show ?thesis by (simp only: word_le_nat_alt simp_thms)
next
  case False
  then have "unat (drop_bit 63 r) \<noteq> 0" by (simp only: unat_0_iff not_False_eq_True)
  then have "9223372036854775808 \<le> unat r"
    using unat_drop_bit_u64 [of 63 r] by (simp add: div_eq_0_iff)
  then have "unat d \<le> 2 * unat r + b" using u64_bound [of d] by linarith
  with False show ?thesis by simp
qed

lemma quotient_too_wide:
  fixes N D :: nat
  assumes "0 < D" and "64 \<le> n" and "0 < N div 2 ^ n div D"
  shows "18446744073709551616 \<le> N div D"
proof -
  have "N div 2 ^ n div D = N div D div 2 ^ n"
    by (simp add: div_mult2_eq [symmetric] mult.commute)
  with assms(3) have "2 ^ n \<le> N div D"
    by (simp add: div_greater_zero_iff)
  moreover have "(18446744073709551616::nat) \<le> 2 ^ n"
    using power_increasing [OF assms(2), of "2::nat"] by simp
  ultimately show ?thesis by linarith
qed

lemma quotient_set_bit:
  fixes q :: u64
  assumes "unat q = k * 2 ^ Suc n" and "n < 64"
  shows "unat (q OR push_bit n 1) = (2 * k + 1) * 2 ^ n"
proof -
  have "\<not> bit q n" by (simp add: bit_u64_iff_odd assms(1))
  then have disj: "q AND push_bit n 1 = 0"
    by (intro bit_word_eqI) (auto simp: bit_simps)
  have "(2::nat) ^ n < 18446744073709551616"
    using assms(2) power_strict_increasing [of n 64 "2::nat"] by simp
  then have "unat (push_bit n 1 :: u64) = 2 ^ n"
    by (subst unat_push_bit_u64) simp
  then show ?thesis
    by (simp add: unat_or_disjoint_u64 [OF disj] assms(1) del: push_bit_of_1)
qed

text \<open>
  The loop invariant: after the bits from 127 down to \<open>n\<close>, the remainder is that of the
  bits read so far, and the quotient holds their quotient, shifted to its place.
\<close>

lemma divideWide_loop_exact:
  fixes d :: u64
  assumes "0 < unat d"
    and "unat r = (wide_value v div 2 ^ n) mod unat d"
    and "unat q = (wide_value v div 2 ^ n div unat d) * 2 ^ n"
  shows "divideWide_loop n v d q r =
    (if wide_value v div unat d < 18446744073709551616
     then Some (word_of_nat (wide_value v div unat d), word_of_nat (wide_value v mod unat d))
     else None)"
  using assms(2-3)
proof (induction n arbitrary: q r)
  case 0
  have "q = word_of_nat (unat q)" and "r = word_of_nat (unat r)" by simp_all
  moreover have "wide_value v div unat d < 18446744073709551616"
    using 0 u64_bound [of q] by simp
  ultimately show ?case using 0 by simp
next
  case (Suc n)
  define D N h b where "D = unat d" and "N = wide_value v"
    and "h = N div 2 ^ Suc n" and "b = N div 2 ^ n mod 2"
  define r2 sh where "r2 = 2 * (h mod D) + b" and "sh = (word_of_nat r2 :: u64)"
  have "h = N div 2 ^ n div 2"
    by (simp only: h_def power_Suc2 div_mult2_eq)
  then have h': "N div 2 ^ n = 2 * h + b" by (simp add: b_def)
  have D: "0 < D" "D < 18446744073709551616" and b: "b < 2"
    using assms(1) by (simp_all add: D_def b_def)
  note step = long_division_step [OF D(1) b, of h, folded r2_def]
  have r: "unat r = h mod D" and q: "unat q = h div D * 2 ^ Suc n"
    using Suc.prems by (simp_all add: h_def N_def D_def)
  have sh: "push_bit 1 r OR (if bitAt v n then 1 else 0) = sh"
    using divideWide_shift [OF b, of r]
    by (simp add: sh_def bitAt_iff_odd r2_def r b_def N_def)
  have qb: "drop_bit 63 r \<noteq> 0 \<or> d \<le> sh \<longleftrightarrow> D \<le> r2"
    using quotient_bit_iff [of r d b] r b D(1) by (simp add: sh_def r2_def D_def)
  note unfolded = divideWide_loop.simps(2) [of n v d q r, unfolded Let_def sh qb]
  show ?case
  proof (cases "D \<le> r2")
    case False
    then have "unat sh = r2" using D by (simp add: sh_def unat_of_nat)
    with False show ?thesis
      unfolding unfolded using step(1,2) q
      by (simp add: Suc.IH h' [folded N_def] flip: N_def D_def)
  next
    case True
    have "sh - d = word_of_nat (r2 - D)"
      using True by (simp add: sh_def of_nat_diff D_def)
    then have sub: "unat (sh - d) = r2 - D" using step(3) D by (simp add: unat_of_nat)
    have pos: "0 < N div 2 ^ n div D" using step(1) True by (simp add: h')
    show ?thesis
    proof (cases "64 \<le> n")
      case big: True
      with quotient_too_wide [OF D(1) big pos] True show ?thesis
        unfolding unfolded by (simp flip: N_def D_def)
    next
      case False
      with quotient_set_bit [OF q] step(1,2) True sub show ?thesis
        unfolding unfolded by (simp add: Suc.IH h' flip: N_def D_def)
    qed
  qed
qed

lemma divideWide_exact:
  "divideWide v d =
    (if d \<noteq> 0 \<and> wide_value v div unat d < 18446744073709551616
     then Some (word_of_nat (wide_value v div unat d), word_of_nat (wide_value v mod unat d))
     else None)"
proof (cases "d = 0")
  case True
  then show ?thesis by (simp add: divideWide_def)
next
  case False
  then have "0 < unat d" by (simp add: unat_gt_0)
  moreover have "wide_value v div 2 ^ 128 = 0"
    using wide_value_bound [of v] by simp
  ultimately show ?thesis
    using False divideWide_loop_exact [of d 0 v 128 0] by (simp add: divideWide_def)
qed

subsection \<open>Exact specification of the rounded quotients\<close>

text \<open>
  The reference: the quotient of two naturals under a rounding mode (ties away from zero is
  the floor of the quotient plus one half), and its signed version on integers.
\<close>

primrec round_quot :: "rounding \<Rightarrow> nat \<Rightarrow> nat \<Rightarrow> nat option" where
  "round_quot TowardZero n d = Some (n div d)"
| "round_quot RejectUnaligned n d = (if d dvd n then Some (n div d) else None)"
| "round_quot NearestTiesAwayFromZero n d = Some ((2 * n + d) div (2 * d))"

definition round_div :: "rounding \<Rightarrow> int \<Rightarrow> int \<Rightarrow> int option" where
  "round_div r a b =
     (if b = 0 then None
      else map_option (\<lambda>q. sgn a * sgn b * int q) (round_quot r (nat \<bar>a\<bar>) (nat \<bar>b\<bar>)))"

lemma nearest_quot_eq:
  assumes "0 < (d :: nat)"
  shows "(2 * n + d) div (2 * d) = n div d + (if d \<le> 2 * (n mod d) then 1 else 0)"
proof -
  define q r where "q = n div d" and "r = n mod d"
  have n: "n = q * d + r" and r: "r < d" using assms by (simp_all add: q_def r_def)
  have e: "2 * n + d = q * (2 * d) + (2 * r + d)"
    unfolding n by (simp add: algebra_simps)
  have "(2 * n + d) div (2 * d) = q + (2 * r + d) div (2 * d)"
    unfolding e using assms by simp
  also have "(2 * r + d) div (2 * d) = (if d \<le> 2 * r then 1 else 0)"
    using r assms by (auto intro!: div_nat_eqI)
  finally show ?thesis by (simp add: q_def r_def)
qed

lemma round_quot_lower: "0 < d \<Longrightarrow> round_quot r n d = Some q \<Longrightarrow> n div d \<le> q"
  by (cases r) (auto simp: nearest_quot_eq split: if_splits)

lemma half_up_word:
  fixes x d :: u64
  shows "d div 2 + d mod 2 \<le> x \<longleftrightarrow> unat d \<le> 2 * unat x"
proof -
  have "unat (d div 2 + d mod 2) = unat d div 2 + unat d mod 2"
  proof -
    have "unat d div 2 + unat d mod 2 < 18446744073709551616"
      using u64_bound [of d] by presburger
    then show ?thesis by (simp add: unat_add_u64 unat_div unat_mod_distrib)
  qed
  then have "d div 2 + d mod 2 \<le> x \<longleftrightarrow> unat d div 2 + unat d mod 2 \<le> unat x"
    by (simp only: word_le_nat_alt)
  also have "\<dots> \<longleftrightarrow> unat d \<le> 2 * unat x" by presburger
  finally show ?thesis .
qed

lemma signed_limits_exact:
  fixes w :: u64
  shows "(if (\<not> neg \<and> w > u64_of_i64 INT64_MAX) \<or> (neg \<and> w > u64_of_i64 INT64_MAX + 1) then None
     else if neg \<and> w = u64_of_i64 INT64_MAX + 1 then Some INT64_MIN
     else Some (if neg then - i64_of_u64 w else i64_of_u64 w))
   = fit_i64 (if neg then - int (unat w) else int (unat w))"
proof -
  have pl: "u64_of_i64 INT64_MAX = INT64_MAX_U"
    by (simp add: u64_of_i64_def INT64_MAX_def INT64_MAX_U_def)
  have nl: "unat (INT64_MAX_U + 1) = 9223372036854775808" and p: "unat INT64_MAX_U = 9223372036854775807"
    by (simp_all add: INT64_MAX_U_def)
  have gt: "w > INT64_MAX_U \<longleftrightarrow> 9223372036854775807 < unat w"
    and gt1: "w > INT64_MAX_U + 1 \<longleftrightarrow> 9223372036854775808 < unat w"
    and eq: "w = INT64_MAX_U + 1 \<longleftrightarrow> unat w = 9223372036854775808"
    by (simp_all only: word_less_nat_alt word_unat_eq_iff nl p)
  define m where "m = unat w"
  have val: "i64_of_u64 w = int m" if "m \<le> 9223372036854775807"
    unfolding i64_of_u64_def m_def
    by (rule sint_small) (use that in \<open>simp only: word_le_nat_alt p m_def\<close>)
  show ?thesis
    unfolding pl gt gt1 eq m_def [symmetric]
    by (cases neg; cases "m \<le> 9223372036854775807") (auto simp: val fit_i64_def i64_limits)
qed

lemma signedQuotient_exact:
  assumes "0 < unat d"
  shows "signedQuotient v d neg r =
    (case round_quot r (wide_value v) (unat d) of
       None \<Rightarrow> None
     | Some q \<Rightarrow> fit_i64 (if neg then - int q else int q))"
proof (cases "wide_value v div unat d < 18446744073709551616")
  case False
  then have "fit_i64 (if neg then - int q else int q) = None"
    if "round_quot r (wide_value v) (unat d) = Some q" for q
    using round_quot_lower [OF assms that] by (simp add: fit_i64_def i64_limits)
  with False show ?thesis
    by (simp add: signedQuotient_def divideWide_exact split: option.split)
next
  case True
  define N D where "N = wide_value v" and "D = unat d"
  define w x where "w = (word_of_nat (N div D) :: u64)" and "x = (word_of_nat (N mod D) :: u64)"
  have D: "0 < D" "D < 18446744073709551616" using assms by (simp_all add: D_def)
  have w: "unat w = N div D" using True by (simp add: w_def N_def D_def unat_of_nat_u64)
  have "N mod D < D" using D(1) by (rule mod_less_divisor)
  then have "N mod D < 18446744073709551616" using D(2) by (rule less_trans)
  then have x: "unat x = N mod D" by (simp only: x_def unat_of_nat_u64 mod_less)
  have dw: "divideWide v d = Some (w, x)"
    using True assms by (simp add: divideWide_exact w_def x_def N_def D_def unat_gt_0)
  have x0: "x \<noteq> 0 \<longleftrightarrow> \<not> D dvd N"
    by (simp add: dvd_eq_mod_eq_0 x flip: unat_0_iff)
  have up: "d div 2 + d mod 2 \<le> x \<longleftrightarrow> D \<le> 2 * (N mod D)"
    by (simp only: half_up_word x D_def)
  have m1: "w = - 1 \<longleftrightarrow> N div D = 18446744073709551615"
    by (simp add: word_unat_eq_iff w unsigned_minus_1_eq_mask mask_eq_exp_minus_1)
  have w1: "unat (w + 1) = N div D + 1" if "w \<noteq> - 1"
  proof -
    have "N div D < 18446744073709551615" using that m1 True by (simp add: N_def D_def)
    then show ?thesis by (subst unat_add_u64) (simp_all add: w)
  qed
  define upq where "upq \<longleftrightarrow> r = NearestTiesAwayFromZero \<and> D \<le> 2 * (N mod D)"
  define y where "y = (if upq then w + 1 else w)"
  have unfolded: "signedQuotient v d neg r =
    (if r = RejectUnaligned \<and> x \<noteq> 0 then None
     else if upq \<and> w = - 1 then None
     else fit_i64 (if neg then - int (unat y) else int (unat y)))"
    by (simp only: signedQuotient_def dw option.case prod.case Let_def signed_limits_exact
        up upq_def y_def)
  have top: "fit_i64 (if neg then - int 18446744073709551616 else int 18446744073709551616) = None"
    by (simp add: fit_i64_def i64_limits)
  show ?thesis
  proof (cases "upq \<and> w = - 1")
    case True
    with m1 have "N div D + 1 = 18446744073709551616" by simp
    with True top show ?thesis
      unfolding unfolded by (simp add: upq_def nearest_quot_eq [OF D(1)] flip: N_def D_def)
  next
    case False
    with w1 w have y: "unat y = N div D + (if upq then 1 else 0)" by (simp add: y_def)
    show ?thesis
      unfolding unfolded using False
      by (cases r) (auto simp: y x0 nearest_quot_eq [OF D(1)] upq_def
          simp flip: N_def D_def)
  qed
qed

lemma round_quot_0 [simp]: "0 < d \<Longrightarrow> round_quot r 0 d = Some 0"
  by (cases r) simp_all

lemma signedQuotient_round_div:
  assumes "wide_value v = nat \<bar>a\<bar>" and "unat d = nat \<bar>b\<bar>" and "b \<noteq> 0"
    and "a \<noteq> 0 \<Longrightarrow> neg = ((a < 0) \<noteq> (b < 0))"
  shows "signedQuotient v d neg r = Option.bind (round_div r a b) fit_i64"
proof -
  have d: "0 < unat d" using assms(2,3) by simp
  show ?thesis
  proof (cases "a = 0")
    case True
    with assms(1-3) show ?thesis
      by (simp add: signedQuotient_exact [OF d] round_div_def fit_i64_def)
  next
    case False
    then have "sgn a * sgn b = (if neg then -1 else 1)"
      using assms(3,4) by (auto simp: sgn_if)
    then show ?thesis
      using assms(1-3)
      by (auto simp: signedQuotient_exact [OF d] round_div_def split: option.split)
  qed
qed

lemma SCALE_FACTOR_word: "unat (u64_of_i64 SCALE_FACTOR) = 100000000"
  by (simp add: unat_u64_of_i64 SCALE_FACTOR_def i64_limits)

lemma scaledProduct_exact:
  assumes "in_i64 lhs" and "in_i64 rhs"
  shows "scaledProduct lhs rhs r = Option.bind (round_div r (lhs * rhs) SCALE_FACTOR) fit_i64"
  unfolding scaledProduct_def Let_def
  by (rule signedQuotient_round_div)
     (use assms in \<open>auto simp: multiplyWide_exact magnitude_nat abs_mult nat_mult_distrib
        SCALE_FACTOR_word SCALE_FACTOR_word [unfolded SCALE_FACTOR_def] SCALE_FACTOR_def
        mult_less_0_iff\<close>)

lemma scaledRatio_exact:
  assumes "in_i64 n" and "in_i64 d"
  shows "scaledRatio n d r = Option.bind (round_div r (n * SCALE_FACTOR) d) fit_i64"
proof (cases "d = 0")
  case True
  then show ?thesis by (simp add: scaledRatio_def round_div_def)
next
  case False
  then show ?thesis
    unfolding scaledRatio_def Let_def
    using assms
    by (simp add: SCALE_FACTOR_def, intro signedQuotient_round_div)
       (auto simp: multiplyWide_exact magnitude_nat abs_mult nat_mult_distrib
         SCALE_FACTOR_word [unfolded SCALE_FACTOR_def] mult_less_0_iff)
qed

lemma proportionalUnits_exact:
  assumes "in_i64 t" and "in_i64 p" and "in_i64 w"
  shows "proportionalUnits t p w r = Option.bind (round_div r (t * p) w) fit_i64"
proof (cases "w = 0")
  case True
  then show ?thesis by (simp add: proportionalUnits_def round_div_def)
next
  case False
  then show ?thesis
    unfolding proportionalUnits_def Let_def
    using assms
    by (simp, intro signedQuotient_round_div)
       (auto simp: multiplyWide_exact magnitude_nat abs_mult nat_mult_distrib mult_less_0_iff)
qed

text \<open>Evaluation uses the exact results in place of the 128-bit arithmetic.\<close>

lemma int_nat_abs_div: "int (nat \<bar>a\<bar> div nat \<bar>b\<bar>) = \<bar>a\<bar> div \<bar>b\<bar>"
  by (simp add: zdiv_int)

lemma nat_abs_dvd: "nat \<bar>b\<bar> dvd nat \<bar>a\<bar> \<longleftrightarrow> \<bar>a\<bar> mod \<bar>b\<bar> = 0"
  by (simp add: nat_abs_dvd_iff mod_eq_0_iff_dvd)

lemma int_nearest:
  "int ((2 * nat \<bar>a\<bar> + nat \<bar>b\<bar>) div (2 * nat \<bar>b\<bar>)) = (2 * \<bar>a\<bar> + \<bar>b\<bar>) div (2 * \<bar>b\<bar>)"
  by (simp only: zdiv_int of_nat_add of_nat_mult of_nat_numeral int_nat_eq abs_ge_zero if_True)

lemma round_div_code [code]:
  "round_div r a b =
     (if b = 0 then None
      else case r of
        TowardZero \<Rightarrow> Some (sgn a * sgn b * (\<bar>a\<bar> div \<bar>b\<bar>))
      | RejectUnaligned \<Rightarrow>
          if \<bar>a\<bar> mod \<bar>b\<bar> = 0 then Some (sgn a * sgn b * (\<bar>a\<bar> div \<bar>b\<bar>)) else None
      | NearestTiesAwayFromZero \<Rightarrow>
          Some (sgn a * sgn b * ((2 * \<bar>a\<bar> + \<bar>b\<bar>) div (2 * \<bar>b\<bar>))))"
  by (cases r)
    (simp_all only: round_div_def round_quot.simps option.map int_nat_abs_div int_nearest
      nat_abs_dvd rounding.case if_distrib [of "map_option f" for f])

lemma scaledProduct_code [code]:
  "scaledProduct lhs rhs rounding =
     (if in_i64 lhs \<and> in_i64 rhs
      then Option.bind (round_div rounding (lhs * rhs) SCALE_FACTOR) fit_i64
      else signedQuotient (multiplyWide (magnitude lhs) (magnitude rhs))
             (u64_of_i64 SCALE_FACTOR) ((lhs < 0) \<noteq> (rhs < 0)) rounding)"
  by (simp add: scaledProduct_exact) (simp add: scaledProduct_def)

lemma scaledRatio_code [code]:
  "scaledRatio numerator denominator rounding =
     (if in_i64 numerator \<and> in_i64 denominator
      then Option.bind (round_div rounding (numerator * SCALE_FACTOR) denominator) fit_i64
      else if denominator = 0 then None
      else signedQuotient (multiplyWide (magnitude numerator) (u64_of_i64 SCALE_FACTOR))
             (magnitude denominator) ((numerator < 0) \<noteq> (denominator < 0)) rounding)"
  by (simp add: scaledRatio_exact) (simp add: scaledRatio_def)

lemma proportionalUnits_code [code]:
  "proportionalUnits t part whole rounding =
     (if in_i64 t \<and> in_i64 part \<and> in_i64 whole
      then Option.bind (round_div rounding (t * part) whole) fit_i64
      else if whole = 0 then None
      else signedQuotient (multiplyWide (magnitude t) (magnitude part))
             (magnitude whole) (((t < 0) \<noteq> (part < 0)) \<noteq> (whole < 0)) rounding)"
  by (simp add: proportionalUnits_exact) (simp add: proportionalUnits_def)

subsection \<open>Bounds of the rounded quotient\<close>

lemma round_quot_bounds:
  assumes "0 < d" and "round_quot r n d = Some q"
  shows "2 * q * d \<le> 2 * n + d" and "2 * n < 2 * q * d + 2 * d"
    and "r \<noteq> NearestTiesAwayFromZero \<Longrightarrow> q * d \<le> n"
proof -
  define k m where "k = n div d" and "m = n mod d"
  have n: "n = k * d + m" and m: "m < d" using assms(1) by (simp_all add: k_def m_def)
  have "q = k + (if r = NearestTiesAwayFromZero \<and> d \<le> 2 * m then 1 else 0)"
    using assms by (cases r) (auto simp: nearest_quot_eq k_def m_def split: if_splits)
  then show "2 * q * d \<le> 2 * n + d" and "2 * n < 2 * q * d + 2 * d"
    and "r \<noteq> NearestTiesAwayFromZero \<Longrightarrow> q * d \<le> n"
    unfolding n using m by (auto simp: algebra_simps split: if_splits)
qed

text \<open>A quotient whose dividend is at most \<open>k\<close> divisors rounds to at most \<open>k\<close>, in every mode.\<close>

lemma round_quot_le:
  assumes "0 < d" and "round_quot r n d = Some q" and "n \<le> k * d"
  shows "q \<le> k"
proof (rule ccontr)
  assume "\<not> q \<le> k"
  then have "(k + 1) * d \<le> q * d" by (intro mult_le_mono1) simp
  with round_quot_bounds(1) [OF assms(1,2)] assms(1,3) show False
    by (simp add: algebra_simps)
qed

lemma round_quot_ge:
  assumes "0 < d" and "round_quot r n d = Some q" and "k * d \<le> n"
  shows "k \<le> q"
proof -
  have "k \<le> n div d" using assms(1,3) by (simp add: less_eq_div_iff_mult_less_eq)
  with round_quot_lower [OF assms(1,2)] show ?thesis by linarith
qed

lemma round_div_nonneg:
  assumes "0 \<le> a" and "0 < b" and "round_div r a b = Some q"
  shows "0 \<le> q" and "round_quot r (nat a) (nat b) = Some (nat q)"
  using assms by (auto simp: round_div_def sgn_if split: if_splits)

lemma round_div_le:
  assumes "0 \<le> a" and "0 < b" and "round_div r a b = Some q" and "a \<le> k * b"
  shows "q \<le> k"
proof -
  have k: "0 \<le> k" using assms(1,2,4) by (smt (verit) mult_neg_pos)
  have "nat a \<le> nat k * nat b"
    using assms(4) k by (simp add: nat_mult_distrib [symmetric] nat_mono)
  then have "nat q \<le> nat k"
    using assms(2) by (intro round_quot_le [OF _ round_div_nonneg(2) [OF assms(1-3)]]) simp_all
  then show ?thesis using k by linarith
qed

lemma round_div_ge:
  assumes "0 \<le> a" and "0 < b" and "round_div r a b = Some q" and "0 \<le> k" and "k * b \<le> a"
  shows "k \<le> q"
proof -
  have "nat k * nat b \<le> nat a"
    using assms(4,5) by (simp add: nat_mult_distrib [symmetric] nat_mono)
  then have "nat k \<le> nat q"
    using assms(2) by (intro round_quot_ge [OF _ round_div_nonneg(2) [OF assms(1-3)]]) simp_all
  then show ?thesis using round_div_nonneg(1) [OF assms(1-3)] by linarith
qed

end
