(* ===== verification/FinancialProps.thy ===== *)
theory FinancialProps
  imports Financial
begin

text \<open>
  What the fixed-point operations of src/FinancialMath.cpp promise the accounting code:
  exact results with the stated rounding, no overflow, rounding that never favours the
  taker of a budget, and proportional parts that never exceed their whole.  Every proof goes
  through the exact specification \<open>round_div\<close> of the theory Financial.
\<close>

subsection \<open>Properties of the accounting operations\<close>

lemmas scaled_exact = scaledProduct_exact scaledRatio_exact proportionalUnits_exact

lemma in_i64_SCALE_FACTOR [simp]: "in_i64 SCALE_FACTOR"
  by (simp add: SCALE_FACTOR_def i64_limits)

lemma bind_fit_Some_iff:
  "Option.bind x fit_i64 = Some y \<longleftrightarrow> x = Some y \<and> in_i64 y"
  by (cases x) (auto simp: fit_i64_Some_iff)

lemma round_div_total:
  assumes "r \<noteq> RejectUnaligned" and "b \<noteq> 0"
  shows "\<exists>q. round_div r a b = Some q"
  using assms by (cases r) (simp_all add: round_div_def)

text \<open>A rounded part of a whole never exceeds the whole in magnitude, and keeps its sign.\<close>

lemma round_div_part:
  assumes "0 \<le> p" and "p \<le> w" and "0 < w" and "round_div r (t * p) w = Some q"
  shows "\<bar>q\<bar> \<le> \<bar>t\<bar> \<and> 0 \<le> q * sgn t"
proof -
  obtain m where m: "round_quot r (nat \<bar>t * p\<bar>) (nat w) = Some m"
    and q: "q = sgn (t * p) * int m"
    using assms(3,4) by (auto simp: round_div_def sgn_if split: if_splits)
  have "\<bar>t\<bar> * p \<le> \<bar>t\<bar> * w" using assms(2) by (intro mult_left_mono) simp_all
  then have "nat \<bar>t * p\<bar> \<le> nat \<bar>t\<bar> * nat w"
    using assms(1,3) by (simp add: abs_mult nat_mult_distrib [symmetric] nat_mono)
  then have "m \<le> nat \<bar>t\<bar>"
    using round_quot_le [OF _ m] assms(3) by simp
  then have "int m \<le> \<bar>t\<bar>" by linarith
  moreover have "sgn (t * p) = sgn t \<or> sgn (t * p) = 0"
    using assms(1) by (cases "p = 0") (auto simp: sgn_mult)
  ultimately show ?thesis
    unfolding q by (auto simp: sgn_if)
qed

lemma checked_add_subtract_raw:
  assumes "in_i64 lhs" and "in_i64 rhs"
  shows "checkedAdd lhs rhs = fit_i64 (lhs + rhs)"
    and "checkedSubtract lhs rhs = fit_i64 (lhs - rhs)"
  using assms by (auto simp: checkedAdd_def checkedSubtract_def fit_i64_def i64_limits)

lemma nearest_error:
  assumes "0 \<le> a" and "0 < b" and "round_div NearestTiesAwayFromZero a b = Some q"
  shows "\<bar>2 * (q * b) - 2 * a\<bar> \<le> b"
proof -
  note nn = round_div_nonneg [OF assms]
  have k: "0 < nat b" using assms(2) by simp
  from nearest_quot_eq [OF k, of "nat a"] nn(2)
  have q: "nat q = nat a div nat b + (if nat b \<le> 2 * (nat a mod nat b) then 1 else 0)"
    by simp
  define j m where "j = a div b" and "m = a mod b"
  have a: "a = j * b + m" and m: "0 \<le> m" "m < b" using assms(2) by (simp_all add: j_def m_def)
  have "q = j + (if b \<le> 2 * m then 1 else 0)"
    using q nn(1) assms(1,2)
    by (auto simp: j_def m_def nat_div_distrib [symmetric] nat_mod_distrib [symmetric]
        pos_imp_zdiv_nonneg_iff nat_eq_iff split: if_splits)
  then show ?thesis unfolding a using m by (auto simp: algebra_simps split: if_splits)
qed

text \<open>
  C35. \<open>scaledProduct\<close> (the kernel of \<open>notional\<close>, \<open>fee\<close> and \<open>applySlippage\<close>), computed by
  four 32-bit partial products and a 128-step bit-serial division, returns exactly the
  product divided by the scale, rounded in the given mode, and \<open>nullopt\<close> exactly when that
  value is not aligned (in the rejecting mode) or does not fit 64 bits.
\<close>

theorem scaledProduct_correct:
  assumes "in_i64 lhs" and "in_i64 rhs"
  shows "scaledProduct lhs rhs r =
    (case round_div r (lhs * rhs) SCALE_FACTOR of
       None \<Rightarrow> None
     | Some q \<Rightarrow> if in_i64 q then Some q else None)"
  by (simp add: scaledProduct_exact [OF assms] fit_i64_def Option.bind_eq_Some_conv
      split: option.split)

theorem scaledProduct_correct_witness:
  "scaledProduct (-250000000) 30000001 NearestTiesAwayFromZero = Some (-75000003)"
  by (subst scaledProduct_correct)
     (simp_all add: i64_limits round_div_def SCALE_FACTOR_def)

text \<open>
  \<open>scaledRatio\<close> (the kernel of \<open>quantityForNotional\<close>, \<open>notionalBeforeFee\<close> and
  \<open>averagePrice\<close>) is the exact rounded quotient of the rescaled numerator, and refuses a
  zero denominator and every result outside 64 bits.
\<close>

theorem scaledRatio_correct:
  assumes "in_i64 n" and "in_i64 d"
  shows "scaledRatio n d r =
    (if d = 0 then None
     else case round_div r (n * SCALE_FACTOR) d of
       None \<Rightarrow> None
     | Some q \<Rightarrow> if in_i64 q then Some q else None)"
  by (simp add: scaledRatio_exact [OF assms] round_div_def fit_i64_def split: option.split)

theorem scaledRatio_correct_witness:
  "scaledRatio 200000000 (-300000000) NearestTiesAwayFromZero = Some (-66666667)"
  by (subst scaledRatio_correct)
     (simp_all add: i64_limits round_div_def SCALE_FACTOR_def)

text \<open>
  The checked addition and subtraction behind \<open>add\<close> and \<open>subtract\<close> return the exact
  sum and difference when it fits 64 bits and \<open>nullopt\<close> otherwise; the bounds they compare
  against never overflow themselves.
\<close>

theorem checked_add_subtract_correct:
  assumes "in_i64 lhs" and "in_i64 rhs"
  shows "checkedAdd lhs rhs = (if in_i64 (lhs + rhs) then Some (lhs + rhs) else None)
    \<and> checkedSubtract lhs rhs = (if in_i64 (lhs - rhs) then Some (lhs - rhs) else None)
    \<and> (rhs > 0 \<longrightarrow> in_i64 (INT64_MAX - rhs) \<and> in_i64 (INT64_MIN + rhs))
    \<and> (rhs < 0 \<longrightarrow> in_i64 (INT64_MIN - rhs) \<and> in_i64 (INT64_MAX + rhs))"
  using assms by (auto simp: checkedAdd_def checkedSubtract_def i64_limits)

theorem checked_add_subtract_correct_witness:
  "checkedAdd INT64_MAX 1 = None \<and> checkedSubtract INT64_MIN (-1) = Some (INT64_MIN + 1)"
  using checked_add_subtract_correct [of INT64_MAX 1]
    checked_add_subtract_correct [of INT64_MIN "-1"]
  by (simp add: i64_limits)

text \<open>
  Slippage always moves the price against the trader: a buy fills at or above the market
  price, a sell at or below it, and an accepted price is positive and fits 64 bits.
\<close>

theorem applySlippage_adverse:
  assumes "in_i64 (units p)" and "applySlippage p f buySide r = Some q"
  shows "0 < units q \<and> in_i64 (units q)
    \<and> (if buySide then units p \<le> units q else units q \<le> units p)"
proof -
  define m where "m = (if buySide then SCALE_FACTOR + units f else SCALE_FACTOR - units f)"
  from assms(2) have pos: "0 < units p" and f: "0 \<le> units f" "units f < SCALE_FACTOR"
    and sp: "scaledProduct (units p) m r = Some (units q)" and q: "0 < units q"
    by (auto simp: applySlippage_def m_def fvalue_sign_defs Let_def
        split: if_splits option.splits)
  have m: "0 < m" "in_i64 m"
    using f by (auto simp: m_def SCALE_FACTOR_def i64_limits)
  from sp have rd: "round_div r (units p * m) SCALE_FACTOR = Some (units q)"
    and fits: "in_i64 (units q)"
    by (simp_all add: scaledProduct_exact [OF assms(1) m(2)] bind_fit_Some_iff)
  have S: "0 < SCALE_FACTOR" by (simp add: SCALE_FACTOR_def)
  have a: "0 \<le> units p * m" using pos m by simp
  have "units p \<le> units q" if buySide
    using that f pos
    by (intro round_div_ge [OF a S rd]) (simp_all add: m_def mult_left_mono)
  moreover have "units q \<le> units p" if "\<not> buySide"
    using that f pos
    by (intro round_div_le [OF a S rd]) (simp add: m_def mult_left_mono)
  ultimately show ?thesis using q fits by simp
qed

theorem applySlippage_adverse_witness:
  "\<exists>q. applySlippage (FValue 10000000000) (FValue 50000) True NearestTiesAwayFromZero = Some q
     \<and> 10000000000 \<le> units q"
proof -
  have e: "applySlippage (FValue 10000000000) (FValue 50000) True NearestTiesAwayFromZero
      = Some (FValue 10005000000)"
    by (simp add: applySlippage_def fvalue_sign_defs SCALE_FACTOR_def Let_def
        scaledProduct_exact i64_limits round_div_def fit_i64_def)
  from applySlippage_adverse [OF _ e] show ?thesis
    by (simp add: e i64_limits)
qed

text \<open>
  Sizing an order never overspends: after \<open>notionalBeforeFee\<close> (rounded towards zero) has
  taken the fee out of a budget, the notional plus the fee charged on it, in whatever
  rounding mode, stays within the budget.
\<close>

theorem notionalBeforeFee_within_budget:
  assumes "in_i64 (units budget)" and "in_i64 (units rate)"
    and "notionalBeforeFee budget rate TowardZero = Some n"
    and "fee n rate r = Some c"
  shows "0 \<le> units n \<and> 0 \<le> units c \<and> units n + units c \<le> units budget"
proof -
  define S f T where "S = SCALE_FACTOR" and "f = units rate" and "T = units budget"
  have S: "0 < S" by (simp add: S_def SCALE_FACTOR_def)
  from assms(2,3) have T: "0 \<le> T" and f: "0 \<le> f" and Sf: "in_i64 (S + f)"
    and n: "round_div TowardZero (T * S) (S + f) = Some (units n)" "in_i64 (units n)"
    using checked_add_subtract_raw [of SCALE_FACTOR "units rate"]
    by (auto simp: notionalBeforeFee_def fvalue_sign_defs T_def f_def S_def fit_i64_def
        scaledRatio_exact [OF assms(1)] bind_fit_Some_iff split: option.splits if_splits)
  from assms(4) n(2) assms(2) have c: "round_div r (units n * f) S = Some (units c)"
    by (auto simp: fee_def f_def S_def scaledProduct_exact bind_fit_Some_iff)
  have TS: "0 \<le> T * S" and d: "0 < S + f" using T S f by simp_all
  note n_nonneg = round_div_nonneg [OF TS d n(1)]
  have "nat (units n) * nat (S + f) \<le> nat (T * S)"
    using round_quot_bounds(3) [OF _ n_nonneg(2)] d by simp
  then have spend: "units n * (S + f) \<le> T * S"
    using n_nonneg(1) d TS by (simp add: nat_mult_distrib [symmetric] nat_le_eq_zle)
  have nf: "0 \<le> units n * f" using n_nonneg(1) f by simp
  have "units c \<le> T - units n"
    by (rule round_div_le [OF nf S c]) (use spend in \<open>simp add: algebra_simps\<close>)
  with n_nonneg(1) round_div_nonneg(1) [OF nf S c] show ?thesis by (simp add: T_def)
qed

theorem notionalBeforeFee_within_budget_witness:
  "\<exists>n c. notionalBeforeFee (FValue 100000000000) (FValue 100000) TowardZero = Some n
     \<and> fee n (FValue 100000) NearestTiesAwayFromZero = Some c
     \<and> units n + units c \<le> 100000000000"
proof -
  have n: "notionalBeforeFee (FValue 100000000000) (FValue 100000) TowardZero
      = Some (FValue 99900099900)"
    by (simp add: notionalBeforeFee_def fvalue_sign_defs SCALE_FACTOR_def checkedAdd_def
        i64_limits scaledRatio_exact round_div_def fit_i64_def)
  have c: "fee (FValue 99900099900) (FValue 100000) NearestTiesAwayFromZero
      = Some (FValue 99900100)"
    by (simp add: fee_def SCALE_FACTOR_def i64_limits scaledProduct_exact round_div_def
        fit_i64_def)
  from notionalBeforeFee_within_budget [OF _ _ n c] n c show ?thesis
    by (auto simp: i64_limits)
qed

text \<open>
  A proportional share (the cost basis released by a partial close) always exists in the
  non-rejecting modes, never exceeds the whole amount in magnitude, never changes its sign,
  and is the whole amount when the part is the whole.
\<close>

theorem proportional_share:
  assumes "in_i64 (units t)" and "in_i64 (units part)" and "in_i64 (units whole)"
    and "0 \<le> units part" and "units part \<le> units whole" and "0 < units whole"
    and "r \<noteq> RejectUnaligned"
  shows "\<exists>m. proportional t part whole r = Some m
    \<and> \<bar>units m\<bar> \<le> \<bar>units t\<bar> \<and> 0 \<le> units m * sgn (units t)
    \<and> (units part = units whole \<longrightarrow> m = t)"
proof -
  obtain q where q: "round_div r (units t * units part) (units whole) = Some q"
    using round_div_total [OF assms(7)] assms(6) by (metis less_irrefl)
  note part = round_div_part [OF assms(4-6) q]
  then have fits: "in_i64 q \<or> q = - INT64_MIN"
    using assms(1) by (auto simp: i64_limits)
  have "q \<noteq> - INT64_MIN"
  proof
    assume "q = - INT64_MIN"
    with part have "units t \<le> INT64_MIN \<or> - INT64_MIN \<le> units t" and "0 \<le> sgn (units t)"
      by (auto simp: INT64_MIN_def zero_le_mult_iff)
    with assms(1) show False by (auto simp: i64_limits sgn_if split: if_splits)
  qed
  with fits have "in_i64 q" by simp
  with q assms have "proportional t part whole r = Some (FValue q)"
    by (simp add: proportional_def fvalue_sign_defs proportionalUnits_exact fit_i64_def)
  moreover have "q = units t" if "units part = units whole"
  proof -
    have "sgn (units t * units whole) * sgn (units whole) * \<bar>units t\<bar> = units t"
      using assms(6)
      by (cases "units t" "0 :: int" rule: linorder_cases) (simp_all add: sgn_mult)
    moreover have "round_quot r (nat \<bar>units t * units whole\<bar>) (nat \<bar>units whole\<bar>)
        = Some (nat \<bar>units t\<bar>)"
      using assms(6) by (cases r) (simp_all add: abs_mult nat_mult_distrib nearest_quot_eq)
    ultimately show ?thesis using q that assms(6) by (simp add: round_div_def)
  qed
  ultimately show ?thesis using part by (cases t) auto
qed

theorem proportional_share_witness:
  "\<exists>m. proportional (FValue (-1000)) (FValue 1) (FValue 3) NearestTiesAwayFromZero = Some m
     \<and> \<bar>units m\<bar> \<le> 1000"
  using proportional_share [of "FValue (-1000)" "FValue 1" "FValue 3" NearestTiesAwayFromZero]
  by (auto simp: i64_limits)

text \<open>
  The average price recovers the cost basis up to rounding: valuing the position at
  \<open>averagePrice\<close> differs from its cost by at most half a unit plus half a price unit per
  unit of quantity (in scaled integers: twice the scale times the error is at most the
  quantity plus the scale).
\<close>

theorem averagePrice_recovers_cost:
  assumes "in_i64 (units cost)" and "in_i64 (units q)"
    and "averagePrice cost q NearestTiesAwayFromZero = Some p"
    and "notional p q NearestTiesAwayFromZero = Some v"
  shows "2 * SCALE_FACTOR * \<bar>units v - units cost\<bar> \<le> units q + SCALE_FACTOR"
proof -
  define S Q C where "S = SCALE_FACTOR" and "Q = units q" and "C = units cost"
  have S: "0 < S" by (simp add: S_def SCALE_FACTOR_def)
  from assms(3) have C: "0 \<le> C" and Q: "0 < Q"
    and p: "round_div NearestTiesAwayFromZero (C * S) Q = Some (units p)" "in_i64 (units p)"
    using assms(1,2) by (auto simp: averagePrice_def fvalue_sign_defs C_def Q_def S_def
        scaledRatio_exact bind_fit_Some_iff split: if_splits)
  from assms(4) p(2) have v: "round_div NearestTiesAwayFromZero (units p * Q) S = Some (units v)"
    using assms(2) by (auto simp: notional_def Q_def S_def scaledProduct_exact bind_fit_Some_iff)
  have CS: "0 \<le> C * S" using C S by simp
  have P: "0 \<le> units p" by (rule round_div_nonneg(1) [OF CS Q p(1)])
  have PQ: "0 \<le> units p * Q" using P Q by simp
  have "\<bar>2 * (units p * Q) - 2 * (C * S)\<bar> \<le> Q"
    using nearest_error [OF CS Q p(1)] by (simp add: algebra_simps)
  moreover have "\<bar>2 * (units v * S) - 2 * (units p * Q)\<bar> \<le> S"
    using nearest_error [OF PQ S v] by (simp add: algebra_simps)
  ultimately have "\<bar>2 * (units v * S) - 2 * (C * S)\<bar> \<le> Q + S" by linarith
  moreover have "2 * (units v * S) - 2 * (C * S) = 2 * S * (units v - C)"
    by (simp add: algebra_simps)
  ultimately show ?thesis
    using S by (simp add: abs_mult C_def Q_def S_def [symmetric])
qed

theorem averagePrice_recovers_cost_witness:
  "\<exists>p v. averagePrice (FValue 10000000001) (FValue 300000000) NearestTiesAwayFromZero = Some p
     \<and> notional p (FValue 300000000) NearestTiesAwayFromZero = Some v
     \<and> 2 * SCALE_FACTOR * \<bar>units v - 10000000001\<bar> \<le> 300000000 + SCALE_FACTOR"
proof -
  have p: "averagePrice (FValue 10000000001) (FValue 300000000) NearestTiesAwayFromZero
      = Some (FValue 3333333334)"
    by (simp add: averagePrice_def fvalue_sign_defs scaledRatio_exact i64_limits
        SCALE_FACTOR_def round_div_def fit_i64_def)
  have v: "notional (FValue 3333333334) (FValue 300000000) NearestTiesAwayFromZero
      = Some (FValue 10000000002)"
    by (simp add: notional_def scaledProduct_exact i64_limits SCALE_FACTOR_def round_div_def
        fit_i64_def)
  from averagePrice_recovers_cost [OF _ _ p v] p v show ?thesis
    by (auto simp: i64_limits)
qed

end
