(* ===== verification/BrokerContracts.thy ===== *)
theory BrokerContracts
  imports Prelude
begin

text \<open>
  The broker-neutral values and events of include/BrokerAdapterContracts.hpp: enumerations as
  datatypes, structures as records (each field carries its structure's prefix), and the
  integer decimal \<open>Decimal64\<close>.  The conversions of \<open>Decimal64\<close> from and to binary
  floating point are in the theory FloatConversion.
\<close>

datatype decimal_rounding = D_TowardZero | D_RejectUnaligned | D_NearestTiesAwayFromZero

record decimal64 =
  dec_units :: i64
  dec_scale :: u8

definition MAX_SCALE :: u8 where "MAX_SCALE = 12"

definition decimal :: "i64 \<Rightarrow> u8 \<Rightarrow> decimal64" where
  "decimal u s = \<lparr>dec_units = u, dec_scale = s\<rparr>"

definition decimal_default :: decimal64 where
  "decimal_default = decimal 0 0"

definition dec_isPositive :: "decimal64 \<Rightarrow> bool" where
  "dec_isPositive d \<longleftrightarrow> dec_units d > 0"

definition dec_isNegative :: "decimal64 \<Rightarrow> bool" where
  "dec_isNegative d \<longleftrightarrow> dec_units d < 0"

definition dec_isZero :: "decimal64 \<Rightarrow> bool" where
  "dec_isZero d \<longleftrightarrow> dec_units d = 0"

lemmas dec_sign_defs = dec_isPositive_def dec_isNegative_def dec_isZero_def

lemma decimal_sel [simp]: "dec_units (decimal u s) = u" "dec_scale (decimal u s) = s"
  by (simp_all add: decimal_def)

lemma decimal_eq_iff: "d = decimal u s \<longleftrightarrow> dec_units d = u \<and> dec_scale d = s"
  by (cases d) (auto simp: decimal_def)

subsection \<open>Enumerations\<close>

datatype order_side = Buy | Sell

datatype broker_order_type = OT_Market | OT_Limit | OT_Stop | OT_Unknown

datatype order_state =
    Created | RiskChecked | Submitted | Accepted | PartiallyFilled | Filled
  | CancelRequested | Canceled | Expired | Rejected | Timeout | Unknown | Reconciled

datatype failure_category =
    F_None | F_Validation | F_Rejected | F_Transport | F_Timeout | F_Authentication
  | F_RateLimited | F_StaleData | F_MalformedEvent | F_ReconciliationMismatch | F_Unknown

datatype adapter_health_state =
    H_Disconnected | H_Connected | H_Degraded | H_Stale | H_RateLimited
  | H_AuthenticationFailed | H_Unknown

datatype cancel_disposition =
    C_Accepted | C_Rejected | C_AlreadyFilled | C_AlreadyCanceled | C_Unknown

datatype reconciliation_status =
    R_Matched | R_LocalOnly | R_ExternalOnly | R_QuantityMismatch | R_PriceOrCostMismatch
  | R_IdentityMismatch | R_Stale | R_Unsupported | R_Unknown

datatype rule_breach_action =
    B_Warn | B_Pause | B_Flatten | B_CancelPending | B_CloseOnly | B_ReadOnly | B_Halt
  | B_Termination | B_RewardAdjustment

subsection \<open>Requests and events\<close>

record order_request =
  req_schemaVersion :: u32
  req_localOrderId :: u64
  req_canonicalSymbol :: string
  req_side :: order_side
  req_type :: broker_order_type
  req_quantity :: decimal64
  req_limitPrice :: "decimal64 option"
  req_stopPrice :: "decimal64 option"
  req_referencePrice :: "decimal64 option"
  req_sourceId :: string
  req_timestampNs :: u64
  req_sequence :: u64
  req_idempotencyKey :: string

record normalized_order =
  nrm_request :: order_request
  nrm_executionSymbol :: string
  nrm_normalizedQuantity :: decimal64
  nrm_normalizedLimitPrice :: "decimal64 option"
  nrm_normalizedStopPrice :: "decimal64 option"
  nrm_normalizedReferencePrice :: "decimal64 option"
  nrm_instrumentVersion :: u64

record order_acknowledgement =
  ack_schemaVersion :: u32
  ack_localOrderId :: u64
  ack_externalOrderId :: string
  ack_accepted :: bool
  ack_failure :: failure_category
  ack_reason :: string
  ack_timestampNs :: u64
  ack_sequence :: u64
  ack_eventKey :: string

record execution_event =
  exe_schemaVersion :: u32
  exe_localOrderId :: u64
  exe_externalOrderId :: string
  exe_cumulativeFilledQuantity :: decimal64
  exe_remainingQuantity :: decimal64
  exe_fillPrice :: decimal64
  exe_fee :: decimal64
  exe_timestampNs :: u64
  exe_sequence :: u64
  exe_eventKey :: string

record cancel_request =
  cxl_schemaVersion :: u32
  cxl_localOrderId :: u64
  cxl_externalOrderId :: string
  cxl_timestampNs :: u64
  cxl_sequence :: u64
  cxl_idempotencyKey :: string

record cancel_result =
  cre_schemaVersion :: u32
  cre_localOrderId :: u64
  cre_disposition :: cancel_disposition
  cre_failure :: failure_category
  cre_reason :: string
  cre_timestampNs :: u64
  cre_sequence :: u64
  cre_eventKey :: string

subsection \<open>Snapshots, instruments, health and risk\<close>

record position_snapshot =
  pos_canonicalSymbol :: string
  pos_quantity :: decimal64
  pos_averagePrice :: decimal64
  pos_logicalPositionId :: string

record account_snapshot =
  acc_schemaVersion :: u32
  acc_snapshotVersion :: u64
  acc_balance :: decimal64
  acc_equity :: decimal64
  acc_realizedPnl :: decimal64
  acc_unrealizedPnl :: decimal64
  acc_marginUsed :: decimal64
  acc_freeMargin :: decimal64
  acc_currency :: string
  acc_sourceTimestampNs :: u64
  acc_ingestionTimestampNs :: u64
  acc_complete :: bool
  acc_missingFields :: "string list"

record instrument_spec =
  ins_schemaVersion :: u32
  ins_version :: u64
  ins_canonicalSymbol :: string
  ins_executionAlias :: string
  ins_tickSize :: decimal64
  ins_contractSize :: decimal64
  ins_minimumQuantity :: decimal64
  ins_maximumQuantity :: decimal64
  ins_quantityStep :: decimal64
  ins_effectiveTimestampNs :: u64
  ins_complete :: bool

record reconciliation_snapshot =
  rcn_schemaVersion :: u32
  rcn_snapshotVersion :: u64
  rcn_timestampNs :: u64
  rcn_account :: account_snapshot
  rcn_positions :: "position_snapshot list"
  rcn_orderStates :: "u64 \<rightharpoonup> order_state"
  rcn_status :: reconciliation_status

record adapter_health_event =
  hea_schemaVersion :: u32
  hea_state :: adapter_health_state
  hea_timestampNs :: u64
  hea_sequence :: u64
  hea_latencyMs :: u32
  hea_failure :: failure_category
  hea_reason :: string
  hea_eventKey :: string

record rule_limit =
  lim_name :: string
  lim_threshold :: decimal64
  lim_action :: rule_breach_action

record rule_profile =
  rul_schemaVersion :: u32
  rul_profileId :: string
  rul_version :: u64
  rul_timezone :: string
  rul_limits :: "rule_limit list"

record risk_decision =
  rsk_allowed :: bool
  rsk_riskIncreasing :: bool
  rsk_failure :: failure_category
  rsk_action :: rule_breach_action
  rsk_reason :: string

subsection \<open>Default member initialisers\<close>

definition instrument_default :: instrument_spec where
  "instrument_default =
     \<lparr>ins_schemaVersion = 1, ins_version = 0, ins_canonicalSymbol = '''', ins_executionAlias = '''',
      ins_tickSize = decimal_default, ins_contractSize = decimal_default,
      ins_minimumQuantity = decimal_default, ins_maximumQuantity = decimal_default,
      ins_quantityStep = decimal_default, ins_effectiveTimestampNs = 0, ins_complete = False\<rparr>"

definition account_default :: account_snapshot where
  "account_default =
     \<lparr>acc_schemaVersion = 1, acc_snapshotVersion = 0, acc_balance = decimal_default,
      acc_equity = decimal_default, acc_realizedPnl = decimal_default,
      acc_unrealizedPnl = decimal_default, acc_marginUsed = decimal_default,
      acc_freeMargin = decimal_default, acc_currency = '''', acc_sourceTimestampNs = 0,
      acc_ingestionTimestampNs = 0, acc_complete = False, acc_missingFields = []\<rparr>"

definition reconciliation_default :: reconciliation_snapshot where
  "reconciliation_default =
     \<lparr>rcn_schemaVersion = 1, rcn_snapshotVersion = 0, rcn_timestampNs = 0,
      rcn_account = account_default, rcn_positions = [], rcn_orderStates = Map.empty,
      rcn_status = R_Unknown\<rparr>"

definition health_default :: adapter_health_event where
  "health_default =
     \<lparr>hea_schemaVersion = 1, hea_state = H_Unknown, hea_timestampNs = 0, hea_sequence = 0,
      hea_latencyMs = 0, hea_failure = F_None, hea_reason = '''', hea_eventKey = ''''\<rparr>"

end
