(* ===== verification/Interfaces.thy ===== *)
theory Interfaces
  imports Prelude
begin

text \<open>
  The contracts several components share, as locales: machines with terminal states that
  hold no secret once terminal (the OAuth guard and the two proof gates), stores that apply
  every event key at most once (the order lifecycle store), and bounded first-in first-out
  buffers.  The component theories interpret them on the model of the code.
\<close>

subsection \<open>Machines that end in a cleared terminal state\<close>

locale one_shot =
  fixes step :: "'e \<Rightarrow> 's \<Rightarrow> 's"
    and terminal :: "'s \<Rightarrow> bool"
    and cleared :: "'s \<Rightarrow> bool"
    and inv :: "'s \<Rightarrow> bool"
  assumes terminal_step: "terminal s \<Longrightarrow> terminal (step e s)"
    and inv_step: "inv s \<Longrightarrow> inv (step e s)"
    and terminal_cleared: "inv s \<Longrightarrow> terminal s \<Longrightarrow> cleared s"
begin

lemma terminal_run: "terminal s \<Longrightarrow> terminal (run_machine step es s)"
  by (rule run_machine_invariant [where I = terminal]) (auto intro: terminal_step)

lemma inv_run: "inv s \<Longrightarrow> inv (run_machine step es s)"
  by (rule run_machine_invariant [where I = inv]) (auto intro: inv_step)

lemma cleared_after_terminal:
  assumes "inv s" and "terminal (run_machine step es s)"
  shows "cleared (run_machine step (es @ fs) s)"
  using assms terminal_run inv_run by (auto simp: run_machine_append intro!: terminal_cleared)

end

text \<open>
  A machine with a numbered sequence of stages: every step stays, advances by one stage on
  the one kind of event the stage waits for, or becomes terminal.
\<close>

locale staged = one_shot +
  fixes stage :: "'s \<Rightarrow> nat"
    and kind :: "'e \<Rightarrow> nat"
    and failed :: "'s \<Rightarrow> bool"
  assumes stage_step:
    "inv s \<Longrightarrow> \<not> failed (step e s) \<Longrightarrow> stage (step e s) = stage s
       \<or> (stage (step e s) = Suc (stage s) \<and> kind e = stage s)"
    and failed_step: "failed s \<Longrightarrow> failed (step e s)"
begin

lemma failed_run: "failed s \<Longrightarrow> failed (run_machine step es s)"
  by (rule run_machine_invariant [where I = failed]) (auto intro: failed_step)

lemma stage_reached:
  assumes "inv s" and "\<not> failed (run_machine step es s)"
  shows "stage s \<le> stage (run_machine step es s)
    \<and> (\<forall>k. stage s \<le> k \<and> k < stage (run_machine step es s) \<longrightarrow> k \<in> kind ` set es)"
  using assms
proof (induction es arbitrary: s)
  case Nil
  then show ?case by simp
next
  case (Cons e es)
  let ?t = "step e s" and ?r = "run_machine step es (step e s)"
  from Cons.prems have nf: "\<not> failed ?r" and inv: "inv ?t" by (simp_all add: inv_step)
  then have "\<not> failed ?t" using failed_run by blast
  note st = stage_step [OF Cons.prems(1) this]
  from Cons.IH [OF inv nf] have le: "stage ?t \<le> stage ?r"
    and ks: "\<And>k. stage ?t \<le> k \<Longrightarrow> k < stage ?r \<Longrightarrow> k \<in> kind ` set es"
    by blast+
  have "k \<in> kind ` set (e # es)" if "stage s \<le> k" "k < stage ?r" for k
  proof (cases "stage ?t \<le> k")
    case True
    with ks that show ?thesis by simp
  next
    case False
    with st that have "k = stage s" and "kind e = stage s" by auto
    then show ?thesis by (metis image_eqI list.set_intros(1))
  qed
  with le st show ?case by auto
qed

end

subsection \<open>Stores that apply an event key at most once\<close>

locale idempotent_store =
  fixes exec :: "'e \<Rightarrow> 's \<Rightarrow> 's"
    and key_of :: "'e \<Rightarrow> 'k"
    and seen :: "'s \<Rightarrow> 'k set"
  assumes seen_mono: "seen s \<subseteq> seen (exec e s)"
    and seen_noop: "key_of e \<in> seen s \<Longrightarrow> exec e s = s"
    and change_records: "exec e s \<noteq> s \<Longrightarrow> key_of e \<in> seen (exec e s)"
begin

lemma seen_run: "seen s \<subseteq> seen (run_machine exec es s)"
proof (induction es arbitrary: s)
  case (Cons e es)
  then show ?case using seen_mono [of s e] by (auto intro: subset_trans)
qed simp

lemma replay_noop:
  assumes "exec e s \<noteq> s" and "key_of e' = key_of e"
  shows "exec e' (run_machine exec es (exec e s)) = run_machine exec es (exec e s)"
proof -
  have "key_of e' \<in> seen (run_machine exec es (exec e s))"
    using change_records [OF assms(1)] seen_run [of "exec e s" es] assms(2) by auto
  then show ?thesis by (rule seen_noop)
qed

end

subsection \<open>Bounded queues\<close>

locale bounded_queue =
  fixes push :: "'a \<Rightarrow> 'q \<Rightarrow> 'q option"
    and pop :: "'q \<Rightarrow> ('a \<times> 'q) option"
    and contents :: "'q \<Rightarrow> 'a list"
    and invar :: "'q \<Rightarrow> bool"
    and bound :: nat
  assumes push_spec: "invar q \<Longrightarrow>
      (case push x q of
         None \<Rightarrow> length (contents q) = bound
       | Some q' \<Rightarrow> invar q' \<and> contents q' = contents q @ [x])"
    and pop_spec: "invar q \<Longrightarrow>
      (case pop q of
         None \<Rightarrow> contents q = []
       | Some (x, q') \<Rightarrow> invar q' \<and> contents q = x # contents q')"
    and bounded: "invar q \<Longrightarrow> length (contents q) \<le> bound"
begin

lemma push_succeeds_iff:
  "invar q \<Longrightarrow> (\<exists>q'. push x q = Some q') \<longleftrightarrow> length (contents q) < bound"
proof -
  assume q: "invar q"
  show ?thesis
  proof (cases "push x q")
    case None
    with push_spec [OF q, of x] show ?thesis by simp
  next
    case (Some q')
    with push_spec [OF q, of x] bounded [of q'] show ?thesis by simp
  qed
qed

lemma pop_after_push_empty:
  assumes "invar q" and "contents q = []" and "push x q = Some q'"
  shows "\<exists>q''. pop q' = Some (x, q'') \<and> contents q'' = []"
  using assms push_spec [OF assms(1), of x] pop_spec [of q']
  by (auto split: option.splits)

end

end
