(* ===== verification/Lifecycle.thy ===== *)
theory Lifecycle
  imports BrokerContracts Interfaces
begin

text \<open>
  The order lifecycle store (include/OrderLifecycleStore.hpp, src/OrderLifecycleStore.cpp):
  one record per local order, the set of event keys already applied, and one function per
  operation, each returning the store and its \<open>LifecycleApplyResult\<close>.
\<close>

datatype apply_result = Applied | Duplicate | UnknownOrder | InvalidEvent | InvalidTransition

record audit_entry =
  aud_state :: order_state
  aud_reconciledState :: "order_state option"
  aud_eventKey :: string
  aud_failure :: failure_category
  aud_reason :: string
  aud_timestampNs :: u64
  aud_sequence :: u64

record lifecycle_record =
  lr_request :: order_request
  lr_state :: order_state
  lr_preCancelState :: order_state
  lr_externalOrderId :: string
  lr_filledQuantity :: decimal64
  lr_remainingQuantity :: decimal64
  lr_failure :: failure_category
  lr_reason :: string
  lr_lastTimestampNs :: u64
  lr_lastSequence :: u64
  lr_reconciledState :: "order_state option"
  lr_auditHistory :: "audit_entry list"

record lifecycle_store =
  m_records :: "u64 \<rightharpoonup> lifecycle_record"
  m_appliedEventKeys :: "string set"

definition empty_store :: lifecycle_store where
  "empty_store = \<lparr>m_records = Map.empty, m_appliedEventKeys = {}\<rparr>"

subsection \<open>Guards\<close>

definition eventIsOlder :: "lifecycle_record \<Rightarrow> u64 \<Rightarrow> u64 \<Rightarrow> bool" where
  "eventIsOlder record timestampNs sequence =
     (if sequence > 0 \<and> lr_lastSequence record > 0
      then sequence \<le> lr_lastSequence record
      else timestampNs > 0 \<and> lr_lastTimestampNs record > 0
           \<and> timestampNs < lr_lastTimestampNs record)"

definition isTerminal :: "order_state \<Rightarrow> bool" where
  "isTerminal state \<longleftrightarrow> state = Filled \<or> state = Canceled \<or> state = Expired
     \<or> state = Rejected \<or> state = Reconciled"

definition canTransition :: "order_state \<Rightarrow> order_state \<Rightarrow> bool" where
  "canTransition from to =
     (if isTerminal from then False
      else case to of
        RiskChecked \<Rightarrow> from = Created
      | Submitted \<Rightarrow> from = RiskChecked
      | Accepted \<Rightarrow> from = Submitted
      | Rejected \<Rightarrow> from = Submitted
      | PartiallyFilled \<Rightarrow> from = Submitted \<or> from = Accepted \<or> from = PartiallyFilled
          \<or> from = CancelRequested \<or> from = Timeout \<or> from = Unknown
      | Filled \<Rightarrow> from = Submitted \<or> from = Accepted \<or> from = PartiallyFilled
          \<or> from = CancelRequested \<or> from = Timeout \<or> from = Unknown
      | CancelRequested \<Rightarrow> from = Accepted \<or> from = PartiallyFilled
      | Canceled \<Rightarrow> from = Accepted \<or> from = PartiallyFilled \<or> from = CancelRequested
          \<or> from = Unknown
      | Expired \<Rightarrow> from = Accepted \<or> from = PartiallyFilled \<or> from = CancelRequested
          \<or> from = Unknown
      | Timeout \<Rightarrow> from = Submitted \<or> from = Accepted \<or> from = PartiallyFilled
          \<or> from = CancelRequested \<or> from = Timeout
      | Unknown \<Rightarrow> from = Submitted \<or> from = Accepted \<or> from = PartiallyFilled
          \<or> from = CancelRequested \<or> from = Timeout
      | Reconciled \<Rightarrow> from = Unknown \<or> from = Timeout \<or> from = CancelRequested
          \<or> from = PartiallyFilled
      | Created \<Rightarrow> False)"

definition validQuantities :: "lifecycle_record \<Rightarrow> decimal64 \<Rightarrow> decimal64 \<Rightarrow> bool" where
  "validQuantities record cumulativeFilled remaining =
     (if dec_scale cumulativeFilled \<noteq> dec_scale (req_quantity (lr_request record))
         \<or> dec_scale remaining \<noteq> dec_scale (req_quantity (lr_request record))
         \<or> dec_units cumulativeFilled < 0 \<or> dec_units remaining < 0
      then False
      else if dec_units cumulativeFilled > INT64_MAX - dec_units remaining then False
      else dec_units cumulativeFilled + dec_units remaining
             = dec_units (req_quantity (lr_request record)))"

subsection \<open>State updates\<close>

definition appendAudit ::
  "lifecycle_record \<Rightarrow> string \<Rightarrow> u64 \<Rightarrow> u64 \<Rightarrow> order_state option \<Rightarrow> lifecycle_record" where
  "appendAudit record eventKey timestampNs sequence reconciledState =
     record\<lparr>lr_auditHistory := lr_auditHistory record @
       [\<lparr>aud_state = lr_state record, aud_reconciledState = reconciledState,
         aud_eventKey = eventKey, aud_failure = lr_failure record,
         aud_reason = lr_reason record, aud_timestampNs = timestampNs,
         aud_sequence = sequence\<rparr>]\<rparr>"

definition recordEventKey :: "string \<Rightarrow> lifecycle_store \<Rightarrow> lifecycle_store" where
  "recordEventKey eventKey s =
     (if eventKey = [] then s
      else s\<lparr>m_appliedEventKeys := insert eventKey (m_appliedEventKeys s)\<rparr>)"

text \<open>Writing through \<open>it->second\<close>: the entry of the map is the mutated record.\<close>

definition put_record :: "u64 \<Rightarrow> lifecycle_record \<Rightarrow> lifecycle_store \<Rightarrow> lifecycle_store" where
  "put_record localOrderId record s = s\<lparr>m_records := (m_records s)(localOrderId \<mapsto> record)\<rparr>"

subsection \<open>Operations\<close>

definition create :: "order_request \<Rightarrow> lifecycle_store \<Rightarrow> lifecycle_store \<times> bool" where
  "create request s =
     (if req_localOrderId request = 0 \<or> req_canonicalSymbol request = []
         \<or> \<not> dec_isPositive (req_quantity request) \<or> req_idempotencyKey request = []
         \<or> dec_scale (req_quantity request) > MAX_SCALE
      then (s, False)
      else if m_records s (req_localOrderId request) \<noteq> None
              \<or> req_idempotencyKey request \<in> m_appliedEventKeys s
      then (s, False)
      else
        let record = \<lparr>lr_request = request, lr_state = Created, lr_preCancelState = Created,
              lr_externalOrderId = [],
              lr_filledQuantity = decimal 0 (dec_scale (req_quantity request)),
              lr_remainingQuantity = req_quantity request,
              lr_failure = F_None, lr_reason = [],
              lr_lastTimestampNs = req_timestampNs request,
              lr_lastSequence = req_sequence request,
              lr_reconciledState = None, lr_auditHistory = []\<rparr>;
            record = appendAudit record (req_idempotencyKey request)
              (req_timestampNs request) (req_sequence request) None
        in (s\<lparr>m_records := (m_records s)(req_localOrderId request \<mapsto> record),
              m_appliedEventKeys := insert (req_idempotencyKey request) (m_appliedEventKeys s)\<rparr>,
            True))"

definition transition ::
  "u64 \<Rightarrow> order_state \<Rightarrow> string \<Rightarrow> u64 \<Rightarrow> u64 \<Rightarrow> lifecycle_store
   \<Rightarrow> lifecycle_store \<times> apply_result" where
  "transition localOrderId next_state eventKey timestampNs sequence s =
     (case m_records s localOrderId of
        None \<Rightarrow> (s, UnknownOrder)
      | Some r \<Rightarrow>
          if eventKey = [] then (s, InvalidEvent)
          else if eventKey \<in> m_appliedEventKeys s then (s, Duplicate)
          else if eventIsOlder r timestampNs sequence then (s, InvalidEvent)
          else if \<not> canTransition (lr_state r) next_state then (s, InvalidTransition)
          else
            let s = recordEventKey eventKey s;
                r = r\<lparr>lr_state := next_state, lr_lastTimestampNs := timestampNs,
                      lr_lastSequence := sequence\<rparr>;
                r = appendAudit r eventKey timestampNs sequence None
            in (put_record localOrderId r s, Applied))"

definition markRiskChecked ::
  "u64 \<Rightarrow> string \<Rightarrow> u64 \<Rightarrow> u64 \<Rightarrow> lifecycle_store \<Rightarrow> lifecycle_store \<times> apply_result" where
  "markRiskChecked localOrderId eventKey timestampNs sequence s =
     transition localOrderId RiskChecked eventKey timestampNs sequence s"

definition markSubmitted ::
  "u64 \<Rightarrow> string \<Rightarrow> u64 \<Rightarrow> u64 \<Rightarrow> lifecycle_store \<Rightarrow> lifecycle_store \<times> apply_result" where
  "markSubmitted localOrderId eventKey timestampNs sequence s =
     transition localOrderId Submitted eventKey timestampNs sequence s"

definition markTimeout ::
  "u64 \<Rightarrow> string \<Rightarrow> u64 \<Rightarrow> u64 \<Rightarrow> lifecycle_store \<Rightarrow> lifecycle_store \<times> apply_result" where
  "markTimeout localOrderId eventKey timestampNs sequence s =
     transition localOrderId Timeout eventKey timestampNs sequence s"

definition markUnknown ::
  "u64 \<Rightarrow> string \<Rightarrow> failure_category \<Rightarrow> string \<Rightarrow> u64 \<Rightarrow> u64 \<Rightarrow> lifecycle_store
   \<Rightarrow> lifecycle_store \<times> apply_result" where
  "markUnknown localOrderId eventKey failure reason timestampNs sequence s =
     (let (s, applied) = transition localOrderId Unknown eventKey timestampNs sequence s
      in if applied = Applied
         then case m_records s localOrderId of
                None \<Rightarrow> (s, applied)
              | Some r \<Rightarrow>
                  let audit = last (lr_auditHistory r);
                      audit = audit\<lparr>aud_failure := failure, aud_reason := reason\<rparr>;
                      r = r\<lparr>lr_failure := failure, lr_reason := reason,
                            lr_auditHistory := butlast (lr_auditHistory r) @ [audit]\<rparr>
                  in (put_record localOrderId r s, applied)
         else (s, applied))"

definition applyAcknowledgement ::
  "order_acknowledgement \<Rightarrow> lifecycle_store \<Rightarrow> lifecycle_store \<times> apply_result" where
  "applyAcknowledgement ack s =
     (case m_records s (ack_localOrderId ack) of
        None \<Rightarrow> (s, UnknownOrder)
      | Some r \<Rightarrow>
          if ack_eventKey ack = [] then (s, InvalidEvent)
          else if ack_eventKey ack \<in> m_appliedEventKeys s then (s, Duplicate)
          else if eventIsOlder r (ack_timestampNs ack) (ack_sequence ack) then (s, InvalidEvent)
          else if ack_accepted ack \<and> ack_externalOrderId ack = [] then (s, InvalidEvent)
          else
            let next_state = (if ack_accepted ack then Accepted else Rejected)
            in if \<not> canTransition (lr_state r) next_state then (s, InvalidTransition)
               else
                 let s = recordEventKey (ack_eventKey ack) s;
                     r = r\<lparr>lr_state := next_state,
                           lr_externalOrderId := ack_externalOrderId ack,
                           lr_failure := ack_failure ack, lr_reason := ack_reason ack,
                           lr_lastTimestampNs := ack_timestampNs ack,
                           lr_lastSequence := ack_sequence ack\<rparr>;
                     r = appendAudit r (ack_eventKey ack) (ack_timestampNs ack)
                           (ack_sequence ack) None
                 in (put_record (ack_localOrderId ack) r s, Applied))"

definition applyExecution ::
  "execution_event \<Rightarrow> lifecycle_store \<Rightarrow> lifecycle_store \<times> apply_result" where
  "applyExecution execution s =
     (case m_records s (exe_localOrderId execution) of
        None \<Rightarrow> (s, UnknownOrder)
      | Some r \<Rightarrow>
          if exe_eventKey execution = [] then (s, InvalidEvent)
          else if exe_eventKey execution \<in> m_appliedEventKeys s then (s, Duplicate)
          else if eventIsOlder r (exe_timestampNs execution) (exe_sequence execution)
                  \<or> \<not> validQuantities r (exe_cumulativeFilledQuantity execution)
                         (exe_remainingQuantity execution)
                  \<or> dec_units (exe_cumulativeFilledQuantity execution)
                       < dec_units (lr_filledQuantity r)
          then (s, InvalidEvent)
          else
            let next_state = (if dec_isZero (exe_remainingQuantity execution)
                              then Filled else PartiallyFilled)
            in if \<not> canTransition (lr_state r) next_state then (s, InvalidTransition)
               else
                 let s = recordEventKey (exe_eventKey execution) s;
                     r = r\<lparr>lr_state := next_state,
                           lr_externalOrderId := exe_externalOrderId execution,
                           lr_filledQuantity := exe_cumulativeFilledQuantity execution,
                           lr_remainingQuantity := exe_remainingQuantity execution,
                           lr_lastTimestampNs := exe_timestampNs execution,
                           lr_lastSequence := exe_sequence execution\<rparr>;
                     r = appendAudit r (exe_eventKey execution) (exe_timestampNs execution)
                           (exe_sequence execution) None
                 in (put_record (exe_localOrderId execution) r s, Applied))"

definition requestCancel ::
  "cancel_request \<Rightarrow> lifecycle_store \<Rightarrow> lifecycle_store \<times> apply_result" where
  "requestCancel request s =
     (case m_records s (cxl_localOrderId request) of
        None \<Rightarrow> (s, UnknownOrder)
      | Some r \<Rightarrow>
          if cxl_idempotencyKey request = [] then (s, InvalidEvent)
          else if cxl_idempotencyKey request \<in> m_appliedEventKeys s then (s, Duplicate)
          else if eventIsOlder r (cxl_timestampNs request) (cxl_sequence request)
                  \<or> \<not> canTransition (lr_state r) CancelRequested
          then (s, InvalidTransition)
          else
            let s = recordEventKey (cxl_idempotencyKey request) s;
                r = r\<lparr>lr_preCancelState := lr_state r\<rparr>;
                r = r\<lparr>lr_state := CancelRequested,
                      lr_lastTimestampNs := cxl_timestampNs request,
                      lr_lastSequence := cxl_sequence request\<rparr>;
                r = appendAudit r (cxl_idempotencyKey request) (cxl_timestampNs request)
                      (cxl_sequence request) None
            in (put_record (cxl_localOrderId request) r s, Applied))"

text \<open>The \<open>switch\<close> on the disposition: \<open>None\<close> is its early return with \<open>InvalidEvent\<close>.\<close>

definition cancel_next_state :: "cancel_disposition \<Rightarrow> lifecycle_record \<Rightarrow> order_state option" where
  "cancel_next_state disposition r =
     (case disposition of
        C_Accepted \<Rightarrow> Some Canceled
      | C_AlreadyCanceled \<Rightarrow> Some Canceled
      | C_AlreadyFilled \<Rightarrow>
          if \<not> dec_isZero (lr_remainingQuantity r) then None else Some Filled
      | C_Rejected \<Rightarrow> Some (lr_preCancelState r)
      | C_Unknown \<Rightarrow> Some Unknown)"

definition applyCancelResult ::
  "cancel_result \<Rightarrow> lifecycle_store \<Rightarrow> lifecycle_store \<times> apply_result" where
  "applyCancelResult result s =
     (case m_records s (cre_localOrderId result) of
        None \<Rightarrow> (s, UnknownOrder)
      | Some r \<Rightarrow>
          if cre_eventKey result = [] then (s, InvalidEvent)
          else if cre_eventKey result \<in> m_appliedEventKeys s then (s, Duplicate)
          else if eventIsOlder r (cre_timestampNs result) (cre_sequence result)
                  \<or> lr_state r \<noteq> CancelRequested
          then (s, InvalidTransition)
          else case cancel_next_state (cre_disposition result) r of
            None \<Rightarrow> (s, InvalidEvent)
          | Some next_state \<Rightarrow>
              let s = recordEventKey (cre_eventKey result) s;
                  r = r\<lparr>lr_state := next_state, lr_failure := cre_failure result,
                        lr_reason := cre_reason result,
                        lr_lastTimestampNs := cre_timestampNs result,
                        lr_lastSequence := cre_sequence result\<rparr>;
                  r = appendAudit r (cre_eventKey result) (cre_timestampNs result)
                        (cre_sequence result) None
              in (put_record (cre_localOrderId result) r s, Applied))"

definition applyReconciliation ::
  "u64 \<Rightarrow> order_state \<Rightarrow> decimal64 \<Rightarrow> decimal64 \<Rightarrow> string \<Rightarrow> u64 \<Rightarrow> u64 \<Rightarrow> lifecycle_store
   \<Rightarrow> lifecycle_store \<times> apply_result" where
  "applyReconciliation localOrderId resolvedState cumulativeFilled remaining eventKey
     timestampNs sequence s =
     (case m_records s localOrderId of
        None \<Rightarrow> (s, UnknownOrder)
      | Some r \<Rightarrow>
          if eventKey = [] then (s, InvalidEvent)
          else if eventKey \<in> m_appliedEventKeys s then (s, Duplicate)
          else if eventIsOlder r timestampNs sequence
                  \<or> \<not> validQuantities r cumulativeFilled remaining
          then (s, InvalidEvent)
          else if \<not> canTransition (lr_state r) Reconciled then (s, InvalidTransition)
          else if resolvedState \<noteq> Filled \<and> resolvedState \<noteq> PartiallyFilled
                  \<and> resolvedState \<noteq> Canceled \<and> resolvedState \<noteq> Expired
                  \<and> resolvedState \<noteq> Rejected
          then (s, InvalidTransition)
          else
            let s = recordEventKey eventKey s;
                r = r\<lparr>lr_state := Reconciled, lr_reconciledState := Some resolvedState,
                      lr_filledQuantity := cumulativeFilled,
                      lr_remainingQuantity := remaining,
                      lr_lastTimestampNs := timestampNs, lr_lastSequence := sequence\<rparr>;
                r = appendAudit r eventKey timestampNs sequence (Some resolvedState)
            in (put_record localOrderId r s, Applied))"

definition find_record :: "u64 \<Rightarrow> lifecycle_store \<Rightarrow> lifecycle_record option" where
  "find_record localOrderId s = m_records s localOrderId"

definition store_size :: "lifecycle_store \<Rightarrow> nat" where
  "store_size s = card (dom (m_records s))"

definition appliedEventCount :: "lifecycle_store \<Rightarrow> nat" where
  "appliedEventCount s = card (m_appliedEventKeys s)"

end
