(* ===== verification/LifecycleProps.thy ===== *)
theory LifecycleProps
  imports Lifecycle
begin

text \<open>
  Correctness of the order lifecycle store.  \<open>order_step\<close> is the abstract life of one order
  (its state, the state before a cancel request, its filled and remaining quantity); the
  store's operations simulate it, and the invariants of orders are proved once on the
  abstract relation.  The store side adds the bookkeeping: event keys applied once, audit
  histories that record exactly the applied events.
\<close>

subsection \<open>One call on the store\<close>

datatype lifecycle_call =
    Call_create order_request
  | Call_riskChecked u64 string u64 u64
  | Call_submitted u64 string u64 u64
  | Call_acknowledge order_acknowledgement
  | Call_execution execution_event
  | Call_requestCancel cancel_request
  | Call_cancelResult cancel_result
  | Call_timeout u64 string u64 u64
  | Call_unknown u64 string failure_category string u64 u64
  | Call_reconcile u64 order_state decimal64 decimal64 string u64 u64

fun call_id :: "lifecycle_call \<Rightarrow> u64" where
  "call_id (Call_create q) = req_localOrderId q"
| "call_id (Call_riskChecked i k t n) = i"
| "call_id (Call_submitted i k t n) = i"
| "call_id (Call_acknowledge a) = ack_localOrderId a"
| "call_id (Call_execution e) = exe_localOrderId e"
| "call_id (Call_requestCancel c) = cxl_localOrderId c"
| "call_id (Call_cancelResult c) = cre_localOrderId c"
| "call_id (Call_timeout i k t n) = i"
| "call_id (Call_unknown i k f w t n) = i"
| "call_id (Call_reconcile i st c m k t n) = i"

fun call_key :: "lifecycle_call \<Rightarrow> string" where
  "call_key (Call_create q) = req_idempotencyKey q"
| "call_key (Call_riskChecked i k t n) = k"
| "call_key (Call_submitted i k t n) = k"
| "call_key (Call_acknowledge a) = ack_eventKey a"
| "call_key (Call_execution e) = exe_eventKey e"
| "call_key (Call_requestCancel c) = cxl_idempotencyKey c"
| "call_key (Call_cancelResult c) = cre_eventKey c"
| "call_key (Call_timeout i k t n) = k"
| "call_key (Call_unknown i k f w t n) = k"
| "call_key (Call_reconcile i st c m k t n) = k"

fun exec_call :: "lifecycle_call \<Rightarrow> lifecycle_store \<Rightarrow> lifecycle_store \<times> apply_result" where
  "exec_call (Call_create q) s =
     (let (s', ok) = create q s in (s', if ok then Applied else InvalidEvent))"
| "exec_call (Call_riskChecked i k t n) s = markRiskChecked i k t n s"
| "exec_call (Call_submitted i k t n) s = markSubmitted i k t n s"
| "exec_call (Call_acknowledge a) s = applyAcknowledgement a s"
| "exec_call (Call_execution e) s = applyExecution e s"
| "exec_call (Call_requestCancel c) s = requestCancel c s"
| "exec_call (Call_cancelResult c) s = applyCancelResult c s"
| "exec_call (Call_timeout i k t n) s = markTimeout i k t n s"
| "exec_call (Call_unknown i k f w t n) s = markUnknown i k f w t n s"
| "exec_call (Call_reconcile i st c m k t n) s = applyReconciliation i st c m k t n s"

definition store_step :: "lifecycle_call \<Rightarrow> lifecycle_store \<Rightarrow> lifecycle_store" where
  "store_step c s = fst (exec_call c s)"

subsection \<open>The abstract life of one order\<close>

record order_view =
  v_state :: order_state
  v_pre :: order_state
  v_filled :: int
  v_remaining :: int
  v_total :: int

definition view :: "lifecycle_record \<Rightarrow> order_view" where
  "view r = \<lparr>v_state = lr_state r, v_pre = lr_preCancelState r,
     v_filled = dec_units (lr_filledQuantity r),
     v_remaining = dec_units (lr_remainingQuantity r),
     v_total = dec_units (req_quantity (lr_request r))\<rparr>"

inductive order_step :: "order_view \<Rightarrow> order_view \<Rightarrow> bool" where
  advance: "canTransition (v_state v) st \<Longrightarrow>
     st \<in> {RiskChecked, Submitted, Accepted, Rejected, Timeout, Unknown} \<Longrightarrow>
     order_step v (v\<lparr>v_state := st\<rparr>)"
| fill: "v_filled v \<le> f \<Longrightarrow> 0 \<le> f \<Longrightarrow> 0 \<le> m \<Longrightarrow> f + m = v_total v \<Longrightarrow>
     st = (if m = 0 then Filled else PartiallyFilled) \<Longrightarrow> canTransition (v_state v) st \<Longrightarrow>
     order_step v (v\<lparr>v_state := st, v_filled := f, v_remaining := m\<rparr>)"
| cancel_request: "canTransition (v_state v) CancelRequested \<Longrightarrow>
     order_step v (v\<lparr>v_state := CancelRequested, v_pre := v_state v\<rparr>)"
| cancel_done: "v_state v = CancelRequested \<Longrightarrow> order_step v (v\<lparr>v_state := Canceled\<rparr>)"
| cancel_filled: "v_state v = CancelRequested \<Longrightarrow> v_remaining v = 0 \<Longrightarrow>
     order_step v (v\<lparr>v_state := Filled\<rparr>)"
| cancel_rejected: "v_state v = CancelRequested \<Longrightarrow> order_step v (v\<lparr>v_state := v_pre v\<rparr>)"
| cancel_unknown: "v_state v = CancelRequested \<Longrightarrow> order_step v (v\<lparr>v_state := Unknown\<rparr>)"
| reconcile: "canTransition (v_state v) Reconciled \<Longrightarrow> 0 \<le> f \<Longrightarrow> 0 \<le> m \<Longrightarrow>
     f + m = v_total v \<Longrightarrow>
     order_step v (v\<lparr>v_state := Reconciled, v_filled := f, v_remaining := m\<rparr>)"

inductive_cases order_stepE: "order_step v w"

definition view_inv :: "order_view \<Rightarrow> bool" where
  "view_inv v \<longleftrightarrow>
     0 < v_total v \<and> 0 \<le> v_filled v \<and> 0 \<le> v_remaining v
     \<and> v_filled v + v_remaining v = v_total v
     \<and> (v_remaining v = 0 \<longrightarrow> v_state v = Filled \<or> v_state v = Reconciled)
     \<and> (v_state v = Filled \<longrightarrow> v_remaining v = 0)
     \<and> v_state v \<noteq> Expired
     \<and> (v_state v = CancelRequested \<longrightarrow> v_pre v = Accepted \<or> v_pre v = PartiallyFilled)
     \<and> (v_state v \<in> {Created, RiskChecked, Submitted, Accepted, Rejected} \<longrightarrow> v_filled v = 0)
     \<and> (v_state v = CancelRequested \<and> v_pre v = Accepted \<longrightarrow> v_filled v = 0)"

lemma order_step_view_inv: "order_step v w \<Longrightarrow> view_inv v \<Longrightarrow> view_inv w"
  by (induction rule: order_step.induct)
     (auto simp: view_inv_def canTransition_def isTerminal_def split: if_splits)

lemma order_step_not_terminal: "order_step v w \<Longrightarrow> \<not> isTerminal (v_state v)"
  by (induction rule: order_step.induct)
     (auto simp: canTransition_def isTerminal_def split: if_splits)

lemma order_step_edge:
  "order_step v w \<Longrightarrow> view_inv v \<Longrightarrow>
     canTransition (v_state v) (v_state w)
     \<or> (v_state v = CancelRequested \<and> v_state w = v_pre v)"
  by (induction rule: order_step.induct)
     (auto simp: view_inv_def canTransition_def isTerminal_def split: if_splits)

subsection \<open>The store simulates the abstract orders\<close>

text \<open>What an applied call does to the record it addresses.\<close>

definition audit_tail :: "lifecycle_record \<Rightarrow> audit_entry \<Rightarrow> bool" where
  "audit_tail r a \<longleftrightarrow> aud_timestampNs a = lr_lastTimestampNs r
     \<and> aud_sequence a = lr_lastSequence r"

definition record_extends :: "lifecycle_record \<Rightarrow> string \<Rightarrow> lifecycle_record \<Rightarrow> bool" where
  "record_extends r key r' \<longleftrightarrow>
     order_step (view r) (view r') \<and> lr_request r' = lr_request r
     \<and> (dec_scale (lr_filledQuantity r) = dec_scale (req_quantity (lr_request r))
        \<and> dec_scale (lr_remainingQuantity r) = dec_scale (req_quantity (lr_request r))
        \<longrightarrow> dec_scale (lr_filledQuantity r') = dec_scale (req_quantity (lr_request r))
        \<and> dec_scale (lr_remainingQuantity r') = dec_scale (req_quantity (lr_request r)))
     \<and> (\<exists>a. lr_auditHistory r' = lr_auditHistory r @ [a] \<and> aud_eventKey a = key
            \<and> aud_state a = lr_state r' \<and> audit_tail r' a
            \<and> \<not> eventIsOlder r (aud_timestampNs a) (aud_sequence a))"

definition record_initial :: "u64 \<Rightarrow> string \<Rightarrow> lifecycle_record \<Rightarrow> bool" where
  "record_initial i key r \<longleftrightarrow>
     i \<noteq> 0 \<and> req_localOrderId (lr_request r) = i \<and> lr_state r = Created
     \<and> dec_isPositive (req_quantity (lr_request r))
     \<and> dec_scale (req_quantity (lr_request r)) \<le> MAX_SCALE
     \<and> lr_filledQuantity r = decimal 0 (dec_scale (req_quantity (lr_request r)))
     \<and> lr_remainingQuantity r = req_quantity (lr_request r)
     \<and> (\<exists>a. lr_auditHistory r = [a] \<and> aud_eventKey a = key \<and> aud_state a = Created
            \<and> audit_tail r a)"

definition committed :: "u64 \<Rightarrow> string \<Rightarrow> lifecycle_store \<Rightarrow> lifecycle_store \<Rightarrow> bool" where
  "committed i key s s' \<longleftrightarrow> key \<noteq> [] \<and> key \<notin> m_appliedEventKeys s
     \<and> (\<exists>r'. s' = \<lparr>m_records = (m_records s)(i \<mapsto> r'),
                   m_appliedEventKeys = insert key (m_appliedEventKeys s)\<rparr>
          \<and> (case m_records s i of
               None \<Rightarrow> record_initial i key r'
             | Some r \<Rightarrow> record_extends r key r'))"

lemmas store_update_defs =
  put_record_def recordEventKey_def appendAudit_def audit_tail_def Let_def

lemma create_committed:
  "create q s = (s', ok) \<Longrightarrow>
     (if ok then committed (req_localOrderId q) (req_idempotencyKey q) s s' else s' = s)"
  by (cases s)
     (auto simp: create_def committed_def record_initial_def store_update_defs not_less
       split: if_splits)

lemma transition_committed:
  "transition i st k t n s = (s', res) \<Longrightarrow>
     st \<in> {RiskChecked, Submitted, Accepted, Rejected, Timeout, Unknown} \<Longrightarrow>
     (if res = Applied then committed i k s s' else s' = s)"
  by (cases s)
     (auto simp: transition_def committed_def record_extends_def view_def store_update_defs
       intro!: order_step.advance [where v = "view _", unfolded view_def, simplified]
       split: option.splits if_splits)

lemma applyAcknowledgement_committed:
  "applyAcknowledgement a s = (s', res) \<Longrightarrow>
     (if res = Applied then committed (ack_localOrderId a) (ack_eventKey a) s s' else s' = s)"
  by (cases s)
     (auto simp: applyAcknowledgement_def committed_def record_extends_def view_def
       store_update_defs
       intro!: order_step.advance [where v = "view _", unfolded view_def, simplified]
       split: option.splits if_splits)

lemma view_fill:
  assumes "validQuantities r f m" and "dec_units (lr_filledQuantity r) \<le> dec_units f"
    and "canTransition (lr_state r) (if dec_isZero m then Filled else PartiallyFilled)"
  shows "order_step (view r)
    \<lparr>v_state = if dec_isZero m then Filled else PartiallyFilled, v_pre = lr_preCancelState r,
     v_filled = dec_units f, v_remaining = dec_units m,
     v_total = dec_units (req_quantity (lr_request r))\<rparr>"
  using order_step.fill [of "view r" "dec_units f" "dec_units m" _]
    assms by (auto simp: view_def validQuantities_def dec_isZero_def split: if_splits)

lemma applyExecution_committed:
  "applyExecution e s = (s', res) \<Longrightarrow>
     (if res = Applied then committed (exe_localOrderId e) (exe_eventKey e) s s' else s' = s)"
  using view_fill [of "the (m_records s (exe_localOrderId e))" "exe_cumulativeFilledQuantity e"
      "exe_remainingQuantity e"]
  by (cases s)
     (auto simp: applyExecution_def committed_def record_extends_def view_def
       store_update_defs validQuantities_def split: option.splits if_splits)

lemma requestCancel_committed:
  "requestCancel c s = (s', res) \<Longrightarrow>
     (if res = Applied then committed (cxl_localOrderId c) (cxl_idempotencyKey c) s s'
      else s' = s)"
  using order_step.cancel_request [of "view (the (m_records s (cxl_localOrderId c)))"]
  by (cases s)
     (auto simp: requestCancel_def committed_def record_extends_def view_def store_update_defs
       split: option.splits if_splits)

lemma view_cancel_result:
  assumes "lr_state r = CancelRequested" and "cancel_next_state d r = Some st"
  shows "order_step (view r) (view r\<lparr>v_state := st\<rparr>)"
  using assms order_step.cancel_done [of "view r"] order_step.cancel_filled [of "view r"]
    order_step.cancel_rejected [of "view r"] order_step.cancel_unknown [of "view r"]
  by (auto simp: cancel_next_state_def view_def dec_isZero_def
      split: cancel_disposition.splits if_splits)

lemma applyCancelResult_committed:
  "applyCancelResult c s = (s', res) \<Longrightarrow>
     (if res = Applied then committed (cre_localOrderId c) (cre_eventKey c) s s' else s' = s)"
  using view_cancel_result [of "the (m_records s (cre_localOrderId c))" "cre_disposition c"]
  by (cases s)
     (auto simp: applyCancelResult_def committed_def record_extends_def view_def
       store_update_defs split: option.splits if_splits)

lemma view_reconcile:
  assumes "validQuantities r f m" and "canTransition (lr_state r) Reconciled"
  shows "order_step (view r)
    \<lparr>v_state = Reconciled, v_pre = lr_preCancelState r, v_filled = dec_units f,
     v_remaining = dec_units m, v_total = dec_units (req_quantity (lr_request r))\<rparr>"
  using order_step.reconcile [of "view r" "dec_units f" "dec_units m"] assms
  by (auto simp: view_def validQuantities_def split: if_splits)

lemma applyReconciliation_committed:
  "applyReconciliation i st f m k t n s = (s', res) \<Longrightarrow>
     (if res = Applied then committed i k s s' else s' = s)"
  using view_reconcile [of "the (m_records s i)" f m]
  by (cases s)
     (auto simp: applyReconciliation_def committed_def record_extends_def view_def
       store_update_defs validQuantities_def split: option.splits if_splits)

text \<open>\<open>markUnknown\<close> rewrites the failure and reason of the record and its last audit entry.\<close>

lemma committed_rewrite_last:
  assumes "committed i k s s'" and "m_records s' i = Some r" and "m_records s i = Some r0"
    and "view r' = view r" and "lr_request r' = lr_request r"
    and "lr_filledQuantity r' = lr_filledQuantity r"
    and "lr_remainingQuantity r' = lr_remainingQuantity r"
    and "lr_auditHistory r' = butlast (lr_auditHistory r) @ [a]"
    and "aud_eventKey a = aud_eventKey (last (lr_auditHistory r))"
    and "aud_state a = aud_state (last (lr_auditHistory r))"
    and "aud_sequence a = aud_sequence (last (lr_auditHistory r))"
    and "aud_timestampNs a = aud_timestampNs (last (lr_auditHistory r))"
    and "lr_lastSequence r' = lr_lastSequence r"
    and "lr_lastTimestampNs r' = lr_lastTimestampNs r"
  shows "committed i k s (put_record i r' s')"
proof -
  have st: "lr_state r' = lr_state r" using assms(4) by (simp add: view_def)
  from assms(1-3) have "record_extends r0 k r" and k: "k \<noteq> []" "k \<notin> m_appliedEventKeys s"
    and s': "s' = \<lparr>m_records = (m_records s)(i \<mapsto> r),
        m_appliedEventKeys = insert k (m_appliedEventKeys s)\<rparr>"
    by (auto simp: committed_def)
  then have "record_extends r0 k r'"
    using assms(4-14) st by (auto simp: record_extends_def audit_tail_def)
  with k s' assms(3) show ?thesis
    by (auto simp: committed_def put_record_def)
qed

lemma markUnknown_committed:
  "markUnknown i k f w t n s = (s', res) \<Longrightarrow>
     (if res = Applied then committed i k s s' else s' = s)"
proof -
  assume run: "markUnknown i k f w t n s = (s', res)"
  obtain s1 res1 where t: "transition i Unknown k t n s = (s1, res1)" by fastforce
  note c = transition_committed [OF t, simplified]
  show ?thesis
  proof (cases "res1 = Applied")
    case False
    with run t c show ?thesis by (auto simp: markUnknown_def split: if_splits)
  next
    case True
    with c have cm: "committed i k s s1" by simp
    then obtain r where r: "m_records s1 i = Some r" by (auto simp: committed_def)
    from t True obtain r0 where r0: "m_records s i = Some r0"
      by (auto simp: transition_def split: option.splits)
    from run t True r
    have "res = Applied" and "s' = put_record i
        (r\<lparr>lr_failure := f, lr_reason := w, lr_auditHistory := butlast (lr_auditHistory r) @
           [last (lr_auditHistory r)\<lparr>aud_failure := f, aud_reason := w\<rparr>]\<rparr>) s1"
      by (auto simp: markUnknown_def Let_def)
    then show ?thesis
      by (auto intro!: committed_rewrite_last [OF cm r r0] simp: view_def)
  qed
qed

lemma exec_call_committed:
  assumes "exec_call c s = (s', res)"
  shows "if res = Applied then committed (call_id c) (call_key c) s s' else s' = s"
proof (cases c)
  case (Call_create q)
  obtain s1 ok where "create q s = (s1, ok)" by fastforce
  with assms Call_create create_committed [OF this] show ?thesis by (auto split: if_splits)
next
  case (Call_riskChecked i k t n)
  with assms transition_committed [of i RiskChecked k t n s s' res] show ?thesis
    by (simp add: markRiskChecked_def)
next
  case (Call_submitted i k t n)
  with assms transition_committed [of i Submitted k t n s s' res] show ?thesis
    by (simp add: markSubmitted_def)
next
  case (Call_timeout i k t n)
  with assms transition_committed [of i Timeout k t n s s' res] show ?thesis
    by (simp add: markTimeout_def)
next
  case (Call_acknowledge a)
  with assms applyAcknowledgement_committed [of a s s' res] show ?thesis by simp
next
  case (Call_execution e)
  with assms applyExecution_committed [of e s s' res] show ?thesis by simp
next
  case (Call_requestCancel q)
  with assms requestCancel_committed [of q s s' res] show ?thesis by simp
next
  case (Call_cancelResult q)
  with assms applyCancelResult_committed [of q s s' res] show ?thesis by simp
next
  case (Call_unknown i k f w t n)
  with assms markUnknown_committed [of i k f w t n s s' res] show ?thesis by simp
next
  case (Call_reconcile i st f m k t n)
  with assms applyReconciliation_committed [of i st f m k t n s s' res] show ?thesis by simp
qed

lemma store_step_cases:
  "store_step c s = s \<or> committed (call_id c) (call_key c) s (store_step c s)"
  using exec_call_committed [of c s "store_step c s" "snd (exec_call c s)"]
  by (auto simp: store_step_def split: if_splits)

subsection \<open>The invariant of the store\<close>

definition audit_keys :: "lifecycle_record \<Rightarrow> string list" where
  "audit_keys r = map aud_eventKey (lr_auditHistory r)"

text \<open>Consecutive audit entries follow the transition relation (or undo a cancel request).\<close>

definition audit_edge :: "order_state \<Rightarrow> order_state \<Rightarrow> bool" where
  "audit_edge x y \<longleftrightarrow> canTransition x y
     \<or> (x = CancelRequested \<and> (y = Accepted \<or> y = PartiallyFilled))"

text \<open>The order two consecutive entries keep: by sequence number when both have one, else
  by time when both are stamped.\<close>

definition audit_ordered :: "audit_entry \<Rightarrow> audit_entry \<Rightarrow> bool" where
  "audit_ordered a b \<longleftrightarrow>
     (if aud_sequence b > 0 \<and> aud_sequence a > 0 then aud_sequence a < aud_sequence b
      else aud_timestampNs b > 0 \<and> aud_timestampNs a > 0
           \<longrightarrow> aud_timestampNs a \<le> aud_timestampNs b)"

definition audit_path :: "lifecycle_record \<Rightarrow> bool" where
  "audit_path r \<longleftrightarrow> lr_auditHistory r \<noteq> []
     \<and> aud_state (hd (lr_auditHistory r)) = Created
     \<and> aud_state (last (lr_auditHistory r)) = lr_state r
     \<and> successively (\<lambda>a b. audit_edge (aud_state a) (aud_state b)) (lr_auditHistory r)
     \<and> audit_tail r (last (lr_auditHistory r))
     \<and> successively audit_ordered (lr_auditHistory r)"

definition record_inv :: "u64 \<Rightarrow> lifecycle_record \<Rightarrow> bool" where
  "record_inv i r \<longleftrightarrow>
     i \<noteq> 0 \<and> req_localOrderId (lr_request r) = i
     \<and> dec_scale (req_quantity (lr_request r)) \<le> MAX_SCALE
     \<and> dec_scale (lr_filledQuantity r) = dec_scale (req_quantity (lr_request r))
     \<and> dec_scale (lr_remainingQuantity r) = dec_scale (req_quantity (lr_request r))
     \<and> view_inv (view r) \<and> audit_path r \<and> distinct (audit_keys r)"

definition store_inv :: "lifecycle_store \<Rightarrow> bool" where
  "store_inv s \<longleftrightarrow>
     finite (dom (m_records s))
     \<and> (\<forall>i r. m_records s i = Some r \<longrightarrow> record_inv i r)
     \<and> m_appliedEventKeys s = (\<Union>r \<in> ran (m_records s). set (audit_keys r))
     \<and> (\<forall>i j r q. m_records s i = Some r \<and> m_records s j = Some q \<and> i \<noteq> j
          \<longrightarrow> set (audit_keys r) \<inter> set (audit_keys q) = {})"

lemma store_inv_empty: "store_inv empty_store"
  by (simp add: store_inv_def empty_store_def)

lemma record_initial_inv:
  "record_initial i key r \<Longrightarrow> record_inv i r \<and> audit_keys r = [key]"
  by (auto simp: record_initial_def record_inv_def view_inv_def view_def dec_sign_defs
      audit_path_def audit_keys_def)

lemma record_extends_inv:
  assumes "record_extends r key r'" and "record_inv i r" and "key \<notin> set (audit_keys r)"
  shows "record_inv i r' \<and> audit_keys r' = audit_keys r @ [key]"
proof -
  obtain a where a: "lr_auditHistory r' = lr_auditHistory r @ [a]" "aud_eventKey a = key"
      "aud_state a = lr_state r'" "audit_tail r' a"
      "\<not> eventIsOlder r (aud_timestampNs a) (aud_sequence a)"
    and step: "order_step (view r) (view r')" and req: "lr_request r' = lr_request r"
    using assms(1) by (auto simp: record_extends_def)
  have keys: "audit_keys r' = audit_keys r @ [key]"
    by (simp add: audit_keys_def a)
  have vi: "view_inv (view r)" and path: "audit_path r"
    using assms(2) by (simp_all add: record_inv_def)
  have states: "v_state (view z) = lr_state z" "v_pre (view z) = lr_preCancelState z" for z
    by (simp_all add: view_def)
  have "v_state (view r) = CancelRequested \<Longrightarrow> v_pre (view r) = Accepted \<or> v_pre (view r) = PartiallyFilled"
    using vi unfolding view_inv_def by blast
  then have "audit_edge (lr_state r) (lr_state r')"
    using order_step_edge [OF step vi] unfolding audit_edge_def states by metis
  moreover have "audit_ordered (last (lr_auditHistory r)) a"
    using a(5) path by (auto simp: audit_path_def audit_tail_def audit_ordered_def
        eventIsOlder_def not_less not_le split: if_splits)
  ultimately have "audit_path r'"
    using path a by (auto simp: audit_path_def successively_append_iff)
  with assms order_step_view_inv [OF step vi] req keys show ?thesis
    by (simp add: record_inv_def record_extends_def)
qed

lemma ran_fun_upd_set:
  "(\<Union>r \<in> ran (m(i \<mapsto> r')). F r) = F r' \<union> (\<Union>r \<in> {r. \<exists>j. j \<noteq> i \<and> m j = Some r}. F r)"
  by (auto simp: ran_def split: if_splits)

lemma ran_split_set:
  "m i = Some r0 \<Longrightarrow>
     (\<Union>r \<in> ran m. F r) = F r0 \<union> (\<Union>r \<in> {r. \<exists>j. j \<noteq> i \<and> m j = Some r}. F r)"
  by (auto simp: ran_def) (metis option.inject)

lemma ran_other_set:
  "m i = None \<Longrightarrow> (\<Union>r \<in> ran m. F r) = (\<Union>r \<in> {r. \<exists>j. j \<noteq> i \<and> m j = Some r}. F r)"
  by (auto simp: ran_def) (metis option.distinct(1))

lemma committed_inv:
  assumes "committed i key s s'" and "store_inv s"
  shows "store_inv s'"
proof -
  obtain r' where key: "key \<notin> m_appliedEventKeys s"
    and recs: "m_records s' = (m_records s)(i \<mapsto> r')"
    and keys: "m_appliedEventKeys s' = insert key (m_appliedEventKeys s)"
    and r': "case m_records s i of None \<Rightarrow> record_initial i key r'
             | Some r \<Rightarrow> record_extends r key r'"
    using assms(1) by (auto simp: committed_def)
  have all: "set (audit_keys r) \<subseteq> m_appliedEventKeys s" and ok: "record_inv j r"
    if "m_records s j = Some r" for j r
    using assms(2) that by (auto simp: store_inv_def ran_def)
  have disj: "set (audit_keys r) \<inter> set (audit_keys q) = {}"
    if "m_records s j = Some r" "m_records s l = Some q" "j \<noteq> l" for j l r q
    using assms(2) that by (auto simp: store_inv_def)
  have new: "record_inv i r' \<and>
      set (audit_keys r') = insert key (case m_records s i of None \<Rightarrow> {} | Some r \<Rightarrow> set (audit_keys r))"
  proof (cases "m_records s i")
    case None
    with r' record_initial_inv show ?thesis by simp
  next
    case (Some r)
    with key all [OF Some] have "key \<notin> set (audit_keys r)" by blast
    with Some r' record_extends_inv [of r key r' i] ok [OF Some] show ?thesis by simp
  qed
  have "m_appliedEventKeys s' = (\<Union>r \<in> ran (m_records s'). set (audit_keys r))"
  proof (cases "m_records s i")
    case None
    with assms(2) new show ?thesis
      by (simp add: keys recs ran_fun_upd_set store_inv_def ran_other_set [of "m_records s", OF None])
  next
    case (Some r)
    with assms(2) new show ?thesis
      by (simp add: keys recs ran_fun_upd_set store_inv_def ran_split_set [of "m_records s", OF Some])
  qed
  moreover have apart: "set (audit_keys r') \<inter> set (audit_keys q) = {}"
    if "m_records s j = Some q" "j \<noteq> i" for j q
    using new key all [OF that(1)] disj [OF _ that(1), of i] that(2)
    by (cases "m_records s i") auto
  have "set (audit_keys p) \<inter> set (audit_keys q) = {}"
    if "m_records s' j = Some p" "m_records s' l = Some q" "j \<noteq> l" for j l p q
    using that apart [of l q] apart [of j p] disj [of j p l q]
    by (cases "j = i"; cases "l = i") (simp_all add: recs Int_commute)
  moreover have "record_inv j p" if "m_records s' j = Some p" for j p
    using that ok [of j p] new by (cases "j = i") (simp_all add: recs)
  moreover have "finite (dom (m_records s'))"
    using assms(2) by (simp add: store_inv_def recs)
  ultimately show ?thesis
    unfolding store_inv_def by blast
qed

lemma store_step_inv: "store_inv s \<Longrightarrow> store_inv (store_step c s)"
  using store_step_cases [of c s] committed_inv by auto

interpretation lifecycle: idempotent_store store_step call_key m_appliedEventKeys
proof
  fix s e
  show "m_appliedEventKeys s \<subseteq> m_appliedEventKeys (store_step e s)"
    using store_step_cases [of e s] by (auto simp: committed_def)
  show "store_step e s = s" if "call_key e \<in> m_appliedEventKeys s"
    using store_step_cases [of e s] that by (auto simp: committed_def)
  show "call_key e \<in> m_appliedEventKeys (store_step e s)" if "store_step e s \<noteq> s"
    using store_step_cases [of e s] that by (auto simp: committed_def)
qed

end
