(* ===== verification/LifecycleClaims.thy ===== *)
theory LifecycleClaims
  imports LifecycleProps
begin

text \<open>
  What the order lifecycle store promises: the invariant of every run, the simulation of the
  abstract order, the once-only application of event keys, and that no order gets stuck.
\<close>

lemma view_sel: "v_state (view r) = lr_state r" "v_pre (view r) = lr_preCancelState r"
    "v_filled (view r) = dec_units (lr_filledQuantity r)"
    "v_remaining (view r) = dec_units (lr_remainingQuantity r)"
    "v_total (view r) = dec_units (req_quantity (lr_request r))"
  by (simp_all add: view_def)

subsection \<open>Lifting single calls to runs\<close>

lemma run_inv: "store_inv s \<Longrightarrow> store_inv (run_machine store_step cs s)"
  by (rule run_machine_invariant [where I = store_inv]) (auto intro: store_step_inv)

lemma run_inv_empty: "store_inv (run_machine store_step cs empty_store)"
  by (rule run_inv [OF store_inv_empty])

lemma run_record_inv:
  "m_records (run_machine store_step cs empty_store) i = Some r \<Longrightarrow> record_inv i r"
  using run_inv_empty [of cs] by (simp add: store_inv_def)

text \<open>What a call may do to a record that is already in the store.\<close>

definition record_follows :: "lifecycle_record \<Rightarrow> lifecycle_record \<Rightarrow> bool" where
  "record_follows r r' \<longleftrightarrow> order_step\<^sup>*\<^sup>* (view r) (view r') \<and> lr_request r' = lr_request r
     \<and> (\<exists>as. lr_auditHistory r' = lr_auditHistory r @ as)"

lemma record_follows_refl: "record_follows r r"
  by (simp add: record_follows_def)

lemma record_follows_trans:
  "record_follows r r' \<Longrightarrow> record_follows r' r'' \<Longrightarrow> record_follows r r''"
  by (auto simp: record_follows_def)

lemma record_extends_follows: "record_extends r key r' \<Longrightarrow> record_follows r r'"
  by (auto simp: record_extends_def record_follows_def)

lemma store_step_record:
  assumes "m_records s i = Some r"
  shows "\<exists>r'. m_records (store_step c s) i = Some r' \<and> record_follows r r'
     \<and> (isTerminal (lr_state r) \<longrightarrow> r' = r)"
proof -
  consider "store_step c s = s" | "committed (call_id c) (call_key c) s (store_step c s)"
    using store_step_cases by blast
  then show ?thesis
  proof cases
    case 1
    with assms show ?thesis by (simp add: record_follows_refl)
  next
    case 2
    then obtain r' where recs: "m_records (store_step c s) = (m_records s)(call_id c \<mapsto> r')"
      and r': "case m_records s (call_id c) of None \<Rightarrow> record_initial (call_id c) (call_key c) r'
               | Some r \<Rightarrow> record_extends r (call_key c) r'"
      by (auto simp: committed_def)
    show ?thesis
    proof (cases "call_id c = i")
      case True
      with r' assms have ext: "record_extends r (call_key c) r'" by simp
      then have "\<not> isTerminal (lr_state r)"
        using order_step_not_terminal [of "view r" "view r'"]
        by (auto simp: record_extends_def view_sel)
      with True recs ext show ?thesis by (auto intro: record_extends_follows)
    next
      case False
      with recs assms show ?thesis by (simp add: record_follows_refl)
    qed
  qed
qed

lemma run_record:
  "m_records s i = Some r \<Longrightarrow>
     \<exists>r'. m_records (run_machine store_step cs s) i = Some r' \<and> record_follows r r'
       \<and> (isTerminal (lr_state r) \<longrightarrow> r' = r)"
proof (induction cs arbitrary: s r)
  case Nil
  then show ?case by (simp add: record_follows_refl)
next
  case (Cons c cs)
  obtain r1 where r1: "m_records (store_step c s) i = Some r1" "record_follows r r1"
      "isTerminal (lr_state r) \<longrightarrow> r1 = r"
    using store_step_record [OF Cons.prems] by blast
  from Cons.IH [OF r1(1)] r1(2,3) show ?case by (auto intro: record_follows_trans)
qed

lemma order_steps_filled:
  "order_step\<^sup>*\<^sup>* v w \<Longrightarrow> v_state w \<noteq> Reconciled \<Longrightarrow> v_filled v \<le> v_filled w"
proof (induction rule: rtranclp_induct)
  case (step w u)
  have "v_state w \<noteq> Reconciled" and "v_filled w \<le> v_filled u"
    using step.hyps(2) step.prems order_step_not_terminal [OF step.hyps(2)]
    by (auto elim!: order_stepE simp: isTerminal_def)
  with step.IH show ?case by simp
qed simp

lemma order_steps_total: "order_step\<^sup>*\<^sup>* v w \<Longrightarrow> v_total w = v_total v"
  by (induction rule: rtranclp_induct) (auto elim!: order_stepE)

lemma exec_call_fst: "fst (exec_call c s) = store_step c s"
  by (simp add: store_step_def)

lemma exec_call_applied:
  "snd (exec_call c s) = Applied \<Longrightarrow> committed (call_id c) (call_key c) s (store_step c s)"
  using exec_call_committed [OF surjective_pairing, of c s] by (simp add: store_step_def)

lemma committed_keys:
  "committed i k s s' \<Longrightarrow> k \<notin> m_appliedEventKeys s \<and> k \<in> m_appliedEventKeys s'"
  by (auto simp: committed_def)

text \<open>The store after a sequence of calls on an empty one.\<close>

definition store_after :: "lifecycle_call list \<Rightarrow> lifecycle_store" where
  "store_after cs = run_machine store_step cs empty_store"

text \<open>Sample calls, used to instantiate the properties.\<close>

definition sample_request :: "u64 \<Rightarrow> order_request" where
  "sample_request i = \<lparr>req_schemaVersion = 1, req_localOrderId = i,
     req_canonicalSymbol = ''XAUUSD'', req_side = Buy, req_type = OT_Limit,
     req_quantity = decimal 100 2, req_limitPrice = None, req_stopPrice = None,
     req_referencePrice = None, req_sourceId = ''s'', req_timestampNs = 10, req_sequence = 1,
     req_idempotencyKey = ''k1''\<rparr>"

definition sample_ack :: "u64 \<Rightarrow> bool \<Rightarrow> order_acknowledgement" where
  "sample_ack i ok = \<lparr>ack_schemaVersion = 1, ack_localOrderId = i, ack_externalOrderId = ''x'',
     ack_accepted = ok, ack_failure = F_None, ack_reason = [], ack_timestampNs = 13,
     ack_sequence = 4, ack_eventKey = ''k4''\<rparr>"

definition sample_fill :: "u64 \<Rightarrow> int \<Rightarrow> u64 \<Rightarrow> string \<Rightarrow> execution_event" where
  "sample_fill i n q k = \<lparr>exe_schemaVersion = 1, exe_localOrderId = i,
     exe_externalOrderId = ''x'', exe_cumulativeFilledQuantity = decimal n 2,
     exe_remainingQuantity = decimal (100 - n) 2, exe_fillPrice = decimal 1 0,
     exe_fee = decimal 0 0, exe_timestampNs = 14, exe_sequence = q, exe_eventKey = k\<rparr>"

definition sample_calls :: "lifecycle_call list" where
  "sample_calls = [Call_create (sample_request 7), Call_riskChecked 7 ''k2'' 11 2,
     Call_submitted 7 ''k3'' 12 3, Call_acknowledge (sample_ack 7 True),
     Call_execution (sample_fill 7 40 5 ''k5'')]"

definition holds_at :: "lifecycle_store \<Rightarrow> u64 \<Rightarrow> (lifecycle_record \<Rightarrow> bool) \<Rightarrow> bool" where
  "holds_at s i P = (case m_records s i of None \<Rightarrow> False | Some r \<Rightarrow> P r)"

lemma holds_at_iff: "holds_at s i P \<longleftrightarrow> (\<exists>r. m_records s i = Some r \<and> P r)"
  by (simp add: holds_at_def split: option.splits)

lemma sample_state:
  "holds_at (store_after sample_calls) 7 (\<lambda>r. lr_state r = PartiallyFilled
     \<and> lr_request r = sample_request 7 \<and> lr_filledQuantity r = decimal 40 2)"
  by code_simp

subsection \<open>Invariant of every run\<close>

lemma store_after_inv: "store_inv (store_after cs)"
  by (simp add: store_after_def run_inv_empty)

lemma store_after_record_inv: "m_records (store_after cs) i = Some r \<Longrightarrow> record_inv i r"
  using store_after_inv [of cs] by (simp add: store_inv_def)

text \<open>
  C1. In every store reached by any sequence of calls (creations, acknowledgements, fills,
  cancels, timeouts, reconciliations, in any order and with any arguments) each order is filed
  under its own nonzero id, its filled and remaining quantities are non-negative, have the
  scale of the requested quantity and add up to it; an order is fully filled exactly when its
  state says so (or it was reconciled); created, submitted, accepted and rejected orders have
  no fill; and no order is ever \<open>Expired\<close>.
\<close>

theorem lifecycle_run_invariant:
  assumes "m_records (store_after cs) i = Some r"
  shows "i \<noteq> 0 \<and> req_localOrderId (lr_request r) = i
    \<and> 0 \<le> dec_units (lr_filledQuantity r) \<and> 0 \<le> dec_units (lr_remainingQuantity r)
    \<and> dec_units (lr_filledQuantity r) + dec_units (lr_remainingQuantity r)
        = dec_units (req_quantity (lr_request r))
    \<and> dec_scale (lr_filledQuantity r) = dec_scale (req_quantity (lr_request r))
    \<and> dec_scale (lr_remainingQuantity r) = dec_scale (req_quantity (lr_request r))
    \<and> (lr_state r = Filled \<longrightarrow> dec_isZero (lr_remainingQuantity r))
    \<and> (dec_isZero (lr_remainingQuantity r) \<longrightarrow> lr_state r = Filled \<or> lr_state r = Reconciled)
    \<and> (lr_state r \<in> {Created, RiskChecked, Submitted, Accepted, Rejected}
         \<longrightarrow> dec_isZero (lr_filledQuantity r))
    \<and> lr_state r \<noteq> Expired"
  using store_after_record_inv [OF assms]
  by (simp add: record_inv_def view_inv_def view_sel dec_isZero_def)

lemma lifecycle_run_invariant_witness:
  "\<exists>r. m_records (store_after sample_calls) 7 = Some r
     \<and> dec_units (lr_filledQuantity r) + dec_units (lr_remainingQuantity r) = 100"
proof -
  obtain r where r: "m_records (store_after sample_calls) 7 = Some r"
    and q: "lr_request r = sample_request 7"
    using sample_state by (auto simp: holds_at_iff)
  from lifecycle_run_invariant [OF r] q r show ?thesis
    by (simp add: sample_request_def)
qed

subsection \<open>Orders follow the abstract life\<close>

text \<open>
  C2. Refinement: whatever calls arrive after an order is in the store, the order stays in the
  store with the same request, its state and quantities move only by steps of the abstract
  order relation \<open>order_step\<close>, and its audit history only grows.
\<close>

theorem lifecycle_refines_order_steps:
  assumes "m_records (store_after cs) i = Some r"
  shows "\<exists>r'. m_records (store_after (cs @ ds)) i = Some r'
    \<and> order_step\<^sup>*\<^sup>* (view r) (view r') \<and> lr_request r' = lr_request r
    \<and> (\<exists>as. lr_auditHistory r' = lr_auditHistory r @ as)"
  using run_record [of "store_after cs" i r ds] assms
  by (auto simp: store_after_def run_machine_append record_follows_def)

lemma lifecycle_refines_order_steps_witness:
  "\<exists>r r'. m_records (store_after sample_calls) 7 = Some r
     \<and> m_records (store_after (sample_calls @ [Call_execution (sample_fill 7 100 6 ''k6'')])) 7
         = Some r' \<and> order_step\<^sup>*\<^sup>* (view r) (view r')"
proof -
  obtain r where r: "m_records (store_after sample_calls) 7 = Some r"
    using sample_state by (auto simp: holds_at_iff)
  from lifecycle_refines_order_steps [OF r, of "[Call_execution (sample_fill 7 100 6 ''k6'')]"]
  show ?thesis using r by blast
qed

text \<open>
  C34. A terminal order is frozen: once an order is filled, canceled, expired, rejected or
  reconciled, no further call, whatever it is, changes anything in its record.
\<close>

theorem lifecycle_terminal_frozen:
  assumes "m_records (store_after cs) i = Some r" and "isTerminal (lr_state r)"
  shows "m_records (store_after (cs @ ds)) i = Some r"
  using run_record [of "store_after cs" i r ds] assms
  by (auto simp: store_after_def run_machine_append)

definition filled_calls :: "lifecycle_call list" where
  "filled_calls = sample_calls @ [Call_execution (sample_fill 7 100 6 ''k6'')]"

lemma lifecycle_terminal_frozen_witness:
  "\<exists>r. m_records (store_after (filled_calls @ [Call_timeout 7 ''k9'' 20 9])) 7 = Some r
     \<and> lr_state r = Filled"
proof -
  have "holds_at (store_after filled_calls) 7 (\<lambda>r. lr_state r = Filled)" by code_simp
  then obtain r where r: "m_records (store_after filled_calls) 7 = Some r" "lr_state r = Filled"
    by (auto simp: holds_at_iff)
  then have "isTerminal (lr_state r)" by (simp add: isTerminal_def)
  from lifecycle_terminal_frozen [OF r(1) this, of "[Call_timeout 7 ''k9'' 20 9]"] r
  show ?thesis by simp
qed

text \<open>
  C33. Fills are monotone: unless the broker's reconciliation overrides the quantities, the
  filled quantity of an order never decreases along a run, and it never exceeds the requested
  quantity.
\<close>

theorem lifecycle_fills_monotone:
  assumes "m_records (store_after cs) i = Some r"
    and "m_records (store_after (cs @ ds)) i = Some r'"
    and "lr_state r' \<noteq> Reconciled"
  shows "dec_units (lr_filledQuantity r) \<le> dec_units (lr_filledQuantity r')
    \<and> dec_units (lr_filledQuantity r') \<le> dec_units (req_quantity (lr_request r))"
proof -
  obtain q where "m_records (store_after (cs @ ds)) i = Some q" and "record_follows r q"
    using run_record [of "store_after cs" i r ds] assms(1)
    by (auto simp: store_after_def run_machine_append)
  with assms(2) have follows: "record_follows r r'" by simp
  have "v_filled (view r) \<le> v_filled (view r')"
    using order_steps_filled [of "view r" "view r'"] follows assms(3)
    by (simp add: record_follows_def view_sel)
  moreover have "view_inv (view r')"
    using store_after_record_inv [OF assms(2)] by (simp add: record_inv_def)
  ultimately show ?thesis
    using follows by (simp add: view_inv_def view_sel record_follows_def)
qed

lemma lifecycle_fills_monotone_witness:
  "\<exists>r r'. m_records (store_after sample_calls) 7 = Some r
     \<and> m_records (store_after (sample_calls @ [Call_timeout 7 ''k9'' 20 9])) 7 = Some r'
     \<and> dec_units (lr_filledQuantity r) \<le> dec_units (lr_filledQuantity r')"
proof -
  obtain r where r: "m_records (store_after sample_calls) 7 = Some r"
    using sample_state by (auto simp: holds_at_iff)
  have "holds_at (store_after (sample_calls @ [Call_timeout 7 ''k9'' 20 9])) 7
      (\<lambda>r. lr_state r = Timeout)" by code_simp
  then obtain r' where r': "lr_state r' = Timeout"
      "m_records (store_after (sample_calls @ [Call_timeout 7 ''k9'' 20 9])) 7 = Some r'"
    by (auto simp: holds_at_iff)
  from lifecycle_fills_monotone [OF r r'(2)] r r' show ?thesis by simp
qed

subsection \<open>Event keys and audit histories\<close>

text \<open>
  C32. Once-only application: after a call that changed the store, any later call with the
  same event key (of whatever kind, on whatever order, with whatever payload, after any other
  calls) leaves the store exactly as it is and does not report \<open>Applied\<close>.
\<close>

theorem lifecycle_event_key_once:
  assumes "store_step c s \<noteq> s" and "call_key c' = call_key c"
  shows "store_step c' (run_machine store_step ds (store_step c s))
      = run_machine store_step ds (store_step c s)
    \<and> snd (exec_call c' (run_machine store_step ds (store_step c s))) \<noteq> Applied"
proof -
  let ?t = "run_machine store_step ds (store_step c s)"
  have same: "store_step c' ?t = ?t"
    by (rule lifecycle.replay_noop [OF assms])
  moreover have "snd (exec_call c' ?t) \<noteq> Applied"
  proof
    assume "snd (exec_call c' ?t) = Applied"
    from committed_keys [OF exec_call_applied [OF this]] same show False by simp
  qed
  ultimately show ?thesis by blast
qed

lemma lifecycle_event_key_once_witness:
  "store_step (Call_execution (sample_fill 7 90 9 ''k1''))
      (run_machine store_step [Call_riskChecked 7 ''k2'' 11 2]
        (store_step (Call_create (sample_request 7)) empty_store))
    = run_machine store_step [Call_riskChecked 7 ''k2'' 11 2]
        (store_step (Call_create (sample_request 7)) empty_store)"
proof -
  have "holds_at (store_step (Call_create (sample_request 7)) empty_store) 7 (\<lambda>r. True)"
    by code_simp
  then have "store_step (Call_create (sample_request 7)) empty_store \<noteq> empty_store"
    by (auto simp: holds_at_iff empty_store_def)
  moreover have "call_key (Call_execution (sample_fill 7 90 9 ''k1''))
      = call_key (Call_create (sample_request 7))"
    by (simp add: sample_fill_def sample_request_def)
  ultimately show ?thesis
    using lifecycle_event_key_once [of "Call_create (sample_request 7)" empty_store
        "Call_execution (sample_fill 7 90 9 ''k1'')" "[Call_riskChecked 7 ''k2'' 11 2]"]
    by blast
qed

lemma distinct_audit_count:
  assumes "store_inv s"
  shows "appliedEventCount s = (\<Sum>i \<in> dom (m_records s). length (lr_auditHistory (the (m_records s i))))"
proof -
  let ?K = "\<lambda>i. set (audit_keys (the (m_records s i)))"
  have "m_appliedEventKeys s = (\<Union>i \<in> dom (m_records s). ?K i)"
    using assms by (force simp: store_inv_def ran_def)
  moreover have "card (\<Union>i \<in> dom (m_records s). ?K i) = (\<Sum>i \<in> dom (m_records s). card (?K i))"
    using assms by (intro card_UN_disjoint) (force simp: store_inv_def)+
  moreover have "card (?K i) = length (lr_auditHistory (the (m_records s i)))"
    if "i \<in> dom (m_records s)" for i
  proof -
    have "distinct (audit_keys (the (m_records s i)))"
      using that assms by (auto simp: store_inv_def record_inv_def)
    then show ?thesis by (metis distinct_card audit_keys_def length_map)
  qed
  ultimately show ?thesis by (simp add: appliedEventCount_def)
qed

text \<open>
  The audit trail is complete and exact: the number of event keys the store has recorded
  equals the total length of the audit histories of its orders, so each applied event is
  audited in exactly one order, exactly once.
\<close>

theorem lifecycle_audit_complete:
  "appliedEventCount (store_after cs)
     = (\<Sum>i \<in> dom (m_records (store_after cs)).
          length (lr_auditHistory (the (m_records (store_after cs) i))))"
  by (rule distinct_audit_count [OF store_after_inv])

text \<open>
  Each audit history is a legal life: it starts in \<open>Created\<close>, ends in the order's current
  state, every two consecutive entries are related by \<open>canTransition\<close> (or undo a cancel
  request, back to \<open>Accepted\<close> or \<open>PartiallyFilled\<close>), the event keys in it are distinct, and
  consecutive entries that both carry a sequence number carry increasing ones.
\<close>

theorem lifecycle_audit_legal:
  assumes "m_records (store_after cs) i = Some r"
  shows "lr_auditHistory r \<noteq> [] \<and> aud_state (hd (lr_auditHistory r)) = Created
    \<and> aud_state (last (lr_auditHistory r)) = lr_state r
    \<and> distinct (map aud_eventKey (lr_auditHistory r))
    \<and> (\<forall>k. Suc k < length (lr_auditHistory r) \<longrightarrow>
        (let a = lr_auditHistory r ! k; b = lr_auditHistory r ! Suc k in
          (canTransition (aud_state a) (aud_state b)
           \<or> aud_state a = CancelRequested \<and> aud_state b \<in> {Accepted, PartiallyFilled})
          \<and> (aud_sequence a > 0 \<and> aud_sequence b > 0 \<longrightarrow> aud_sequence a < aud_sequence b)))"
proof -
  have path: "audit_path r" and keys: "distinct (audit_keys r)"
    using store_after_record_inv [OF assms] by (simp_all add: record_inv_def)
  have "audit_edge (aud_state (lr_auditHistory r ! k)) (aud_state (lr_auditHistory r ! Suc k))
      \<and> audit_ordered (lr_auditHistory r ! k) (lr_auditHistory r ! Suc k)"
    if "Suc k < length (lr_auditHistory r)" for k
    using path that by (auto simp: audit_path_def successively_conv_nth)
  with path keys show ?thesis
    by (auto simp: audit_path_def audit_keys_def audit_edge_def audit_ordered_def Let_def)
qed

lemma lifecycle_audit_legal_witness:
  "\<exists>r. m_records (store_after sample_calls) 7 = Some r
     \<and> aud_state (hd (lr_auditHistory r)) = Created
     \<and> aud_state (last (lr_auditHistory r)) = PartiallyFilled"
proof -
  obtain r where r: "m_records (store_after sample_calls) 7 = Some r" "lr_state r = PartiallyFilled"
    using sample_state by (auto simp: holds_at_iff)
  from lifecycle_audit_legal [OF r(1)] r show ?thesis by simp
qed

subsection \<open>Cancels\<close>

text \<open>
  A cancel result that says the order was already filled is never applied: in every
  reachable store it leaves the store unchanged, because an order in \<open>CancelRequested\<close> always
  has quantity remaining.
\<close>

theorem lifecycle_already_filled_never_applies:
  assumes "cre_disposition c = C_AlreadyFilled"
  shows "fst (applyCancelResult c (store_after cs)) = store_after cs
    \<and> snd (applyCancelResult c (store_after cs)) \<noteq> Applied"
proof -
  have "\<not> dec_isZero (lr_remainingQuantity r)"
    if "m_records (store_after cs) (cre_localOrderId c) = Some r" "lr_state r = CancelRequested"
    for r
    using store_after_record_inv [OF that(1)] that(2)
    by (auto simp: record_inv_def view_inv_def view_sel dec_isZero_def)
  with assms show ?thesis
    by (auto simp: applyCancelResult_def cancel_next_state_def split: option.splits)
qed

definition sample_cancel :: "cancel_disposition \<Rightarrow> cancel_result" where
  "sample_cancel d = \<lparr>cre_schemaVersion = 1, cre_localOrderId = 7, cre_disposition = d,
     cre_failure = F_None, cre_reason = [], cre_timestampNs = 0, cre_sequence = 0,
     cre_eventKey = ''k8''\<rparr>"

definition sample_cancel_request :: cancel_request where
  "sample_cancel_request = \<lparr>cxl_schemaVersion = 1, cxl_localOrderId = 7,
     cxl_externalOrderId = ''x'', cxl_timestampNs = 15, cxl_sequence = 0,
     cxl_idempotencyKey = ''k7''\<rparr>"

lemma lifecycle_already_filled_never_applies_witness:
  "fst (applyCancelResult (sample_cancel C_AlreadyFilled)
        (store_after (sample_calls @ [Call_requestCancel sample_cancel_request])))
     = store_after (sample_calls @ [Call_requestCancel sample_cancel_request])"
  using lifecycle_already_filled_never_applies [of "sample_cancel C_AlreadyFilled"
      "sample_calls @ [Call_requestCancel sample_cancel_request]"]
  by (simp add: sample_cancel_def)

definition same_order :: "lifecycle_record \<Rightarrow> lifecycle_record \<Rightarrow> bool" where
  "same_order r r' \<longleftrightarrow> lr_request r' = lr_request r
    \<and> lr_externalOrderId r' = lr_externalOrderId r
    \<and> lr_filledQuantity r' = lr_filledQuantity r
    \<and> lr_remainingQuantity r' = lr_remainingQuantity r"

lemma requestCancel_applied:
  assumes "requestCancel q s = (s1, Applied)" and "m_records s (cxl_localOrderId q) = Some r"
  obtains r1 where "m_records s1 = (m_records s)(cxl_localOrderId q \<mapsto> r1)"
    "lr_preCancelState r1 = lr_state r" "same_order r r1"
  using assms
  by (auto simp: requestCancel_def store_update_defs same_order_def split: if_splits)

lemma cancel_rejected_applied:
  assumes "applyCancelResult c s = (s1, Applied)"
    and "m_records s (cre_localOrderId c) = Some r" and "cre_disposition c = C_Rejected"
  obtains r1 where "m_records s1 = (m_records s)(cre_localOrderId c \<mapsto> r1)"
    "lr_state r1 = lr_preCancelState r" "same_order r r1"
  using assms
  by (auto simp: applyCancelResult_def cancel_next_state_def store_update_defs same_order_def
      split: if_splits)

text \<open>
  Cancel and reject is a round trip: when a cancel request is applied to an order and the
  broker's next event rejects it, the order is back in the state it had before the request,
  with the same request, external id and quantities; all other orders are untouched.
\<close>

theorem lifecycle_cancel_reject_roundtrip:
  assumes "requestCancel q s = (s1, Applied)" and "applyCancelResult c s1 = (s2, Applied)"
    and "cre_localOrderId c = cxl_localOrderId q" and "cre_disposition c = C_Rejected"
    and "m_records s (cxl_localOrderId q) = Some r"
  shows "\<exists>r'. m_records s2 = (m_records s)(cxl_localOrderId q \<mapsto> r')
    \<and> lr_state r' = lr_state r \<and> lr_request r' = lr_request r
    \<and> lr_externalOrderId r' = lr_externalOrderId r
    \<and> lr_filledQuantity r' = lr_filledQuantity r
    \<and> lr_remainingQuantity r' = lr_remainingQuantity r"
proof -
  obtain r1 where s1: "m_records s1 = (m_records s)(cxl_localOrderId q \<mapsto> r1)"
    and r1: "lr_preCancelState r1 = lr_state r" "same_order r r1"
    by (rule requestCancel_applied [OF assms(1,5)])
  then have "m_records s1 (cre_localOrderId c) = Some r1" by (simp add: assms(3))
  then obtain r2 where "m_records s2 = (m_records s1)(cre_localOrderId c \<mapsto> r2)"
    and r2: "lr_state r2 = lr_preCancelState r1" "same_order r1 r2"
    by (rule cancel_rejected_applied [OF assms(2) _ assms(4)])
  with s1 assms(3) have "m_records s2 = (m_records s)(cxl_localOrderId q \<mapsto> r2)" by simp
  with r1 r2 show ?thesis by (auto simp: same_order_def)
qed

lemma lifecycle_cancel_reject_roundtrip_witness:
  "\<exists>s r r'. m_records s 7 = Some r
     \<and> m_records (fst (applyCancelResult (sample_cancel C_Rejected)
          (fst (requestCancel sample_cancel_request s)))) 7 = Some r'
     \<and> lr_state r = PartiallyFilled \<and> lr_state r' = lr_state r"
proof -
  let ?s = "store_after sample_calls"
  let ?a = "requestCancel sample_cancel_request ?s"
  let ?b = "applyCancelResult (sample_cancel C_Rejected) (fst ?a)"
  obtain r where r: "m_records ?s 7 = Some r" "lr_state r = PartiallyFilled"
    using sample_state by (auto simp: holds_at_iff)
  have "snd ?a = Applied" by code_simp
  then have a: "requestCancel sample_cancel_request ?s = (fst ?a, Applied)"
    by (metis surjective_pairing)
  have "snd ?b = Applied" by code_simp
  then have b: "applyCancelResult (sample_cancel C_Rejected) (fst ?a) = (fst ?b, Applied)"
    by (metis surjective_pairing)
  have ids: "cre_localOrderId (sample_cancel C_Rejected) = cxl_localOrderId sample_cancel_request"
    "cre_disposition (sample_cancel C_Rejected) = C_Rejected"
    "cxl_localOrderId sample_cancel_request = 7"
    by (simp_all add: sample_cancel_def sample_cancel_request_def)
  obtain r' where "m_records (fst ?b) = (m_records ?s)(7 \<mapsto> r')" "lr_state r' = lr_state r"
    using lifecycle_cancel_reject_roundtrip [OF a b ids(1,2)] r(1) ids(3) by auto
  with r show ?thesis by (metis fun_upd_same)
qed

subsection \<open>No order gets stuck\<close>

lemma store_inv_finite_keys: "store_inv s \<Longrightarrow> finite (m_appliedEventKeys s)"
  by (simp add: store_inv_def finite_ran)

lemma fresh_key:
  assumes "store_inv s"
  obtains k where "k \<noteq> ([] :: string)" and "k \<notin> m_appliedEventKeys s"
proof -
  have "finite (insert [] (m_appliedEventKeys s))"
    using store_inv_finite_keys [OF assms] by simp
  then obtain k where "k \<notin> insert [] (m_appliedEventKeys s)"
    using ex_new_if_finite [OF infinite_UNIV_listI] by blast
  with that show ?thesis by blast
qed

definition ends_within :: "nat \<Rightarrow> u64 \<Rightarrow> lifecycle_store \<Rightarrow> bool" where
  "ends_within n i s \<longleftrightarrow> (\<exists>cs r. length cs \<le> n
     \<and> m_records (run_machine store_step cs s) i = Some r \<and> isTerminal (lr_state r))"

lemma ends_within_now: "m_records s i = Some r \<Longrightarrow> isTerminal (lr_state r) \<Longrightarrow> ends_within n i s"
  unfolding ends_within_def by (intro exI [of _ "[]"] exI [of _ r]) simp

lemma ends_within_step: "ends_within n i (store_step c s) \<Longrightarrow> ends_within (Suc n) i s"
  unfolding ends_within_def by (metis Suc_le_mono length_Cons run_machine_Cons)

lemma ends_within_mono: "ends_within n i s \<Longrightarrow> n \<le> m \<Longrightarrow> ends_within m i s"
  unfolding ends_within_def by (meson le_trans)

text \<open>Events without a sequence number and a time are never older than the last one.\<close>

lemma unstamped_not_older [simp]: "\<not> eventIsOlder r 0 0"
  by (simp add: eventIsOlder_def)

lemma transition_step:
  assumes "m_records s i = Some r" and "canTransition (lr_state r) st"
    and "k \<noteq> []" and "k \<notin> m_appliedEventKeys s"
  shows "\<exists>r'. m_records (fst (transition i st k 0 0 s)) i = Some r' \<and> lr_state r' = st"
  using assms by (simp add: transition_def store_update_defs)

lemma cancel_step:
  assumes "m_records s i = Some r" and "lr_state r = CancelRequested" and "store_inv s"
  shows "ends_within 1 i s"
proof -
  obtain k where "k \<noteq> []" "k \<notin> m_appliedEventKeys s" by (rule fresh_key [OF assms(3)])
  then have "\<exists>r'. m_records (store_step (Call_cancelResult \<lparr>cre_schemaVersion = 1,
      cre_localOrderId = i, cre_disposition = C_Accepted, cre_failure = F_None,
      cre_reason = [], cre_timestampNs = 0, cre_sequence = 0, cre_eventKey = k\<rparr>) s) i = Some r'
      \<and> lr_state r' = Canceled"
    using assms by (simp add: store_step_def applyCancelResult_def cancel_next_state_def
        store_update_defs)
  then show ?thesis
    by (auto simp: isTerminal_def intro!: ends_within_step [of 0, simplified] ends_within_now)
qed

lemma cancel_request_step:
  assumes "m_records s i = Some r" and "lr_state r = Accepted" and "store_inv s"
  shows "ends_within 2 i s"
proof -
  obtain k where "k \<noteq> []" "k \<notin> m_appliedEventKeys s" by (rule fresh_key [OF assms(3)])
  let ?c = "Call_requestCancel \<lparr>cxl_schemaVersion = 1, cxl_localOrderId = i,
      cxl_externalOrderId = [], cxl_timestampNs = 0, cxl_sequence = 0, cxl_idempotencyKey = k\<rparr>"
  have "\<exists>r'. m_records (store_step ?c s) i = Some r' \<and> lr_state r' = CancelRequested"
    using assms \<open>k \<noteq> []\<close> \<open>k \<notin> m_appliedEventKeys s\<close>
    by (simp add: store_step_def requestCancel_def store_update_defs canTransition_def
        isTerminal_def)
  then have "ends_within 1 i (store_step ?c s)"
    using cancel_step store_step_inv [OF assms(3)] by blast
  then show ?thesis using ends_within_step [of 1 i ?c s] by (simp add: numeral_2_eq_2)
qed

lemma reject_step:
  assumes "m_records s i = Some r" and "lr_state r = Submitted" and "store_inv s"
  shows "ends_within 1 i s"
proof -
  obtain k where "k \<noteq> []" "k \<notin> m_appliedEventKeys s" by (rule fresh_key [OF assms(3)])
  then have "\<exists>r'. m_records (store_step (Call_acknowledge \<lparr>ack_schemaVersion = 1,
      ack_localOrderId = i, ack_externalOrderId = [], ack_accepted = False,
      ack_failure = F_None, ack_reason = [], ack_timestampNs = 0, ack_sequence = 0,
      ack_eventKey = k\<rparr>) s) i = Some r' \<and> lr_state r' = Rejected"
    using assms by (simp add: store_step_def applyAcknowledgement_def store_update_defs
        canTransition_def isTerminal_def)
  then show ?thesis
    by (auto simp: isTerminal_def intro!: ends_within_step [of 0, simplified] ends_within_now)
qed

lemma reconcile_step:
  assumes "m_records s i = Some r" and "canTransition (lr_state r) Reconciled" and "store_inv s"
    and "in_i64 (dec_units (req_quantity (lr_request r)))"
  shows "ends_within 1 i s"
proof -
  obtain k where k: "k \<noteq> []" "k \<notin> m_appliedEventKeys s" by (rule fresh_key [OF assms(3)])
  have "record_inv i r" using assms(1,3) by (simp add: store_inv_def)
  then have "dec_scale (lr_filledQuantity r) = dec_scale (req_quantity (lr_request r))"
    "dec_scale (lr_remainingQuantity r) = dec_scale (req_quantity (lr_request r))"
    "view_inv (view r)"
    by (simp_all add: record_inv_def)
  moreover have "dec_units (req_quantity (lr_request r)) \<le> INT64_MAX"
    using assms(4) by (simp add: in_i64_def)
  ultimately have "validQuantities r (lr_filledQuantity r) (lr_remainingQuantity r)"
    by (simp add: validQuantities_def view_inv_def view_sel)
  then have "\<exists>r'. m_records (store_step (Call_reconcile i Canceled (lr_filledQuantity r)
      (lr_remainingQuantity r) k 0 0) s) i = Some r' \<and> lr_state r' = Reconciled"
    using assms k by (simp add: store_step_def applyReconciliation_def store_update_defs)
  then show ?thesis
    by (auto simp: isTerminal_def intro!: ends_within_step [of 0, simplified] ends_within_now)
qed

lemma submitted_step:
  assumes "m_records s i = Some r" and "lr_state r = RiskChecked" and "store_inv s"
  shows "ends_within 2 i s"
proof -
  obtain k where k: "k \<noteq> []" "k \<notin> m_appliedEventKeys s" by (rule fresh_key [OF assms(3)])
  let ?c = "Call_submitted i k 0 0"
  have "\<exists>r'. m_records (store_step ?c s) i = Some r' \<and> lr_state r' = Submitted"
    using transition_step [OF assms(1) _ k, of Submitted] assms(2)
    by (simp add: store_step_def markSubmitted_def canTransition_def isTerminal_def)
  then have "ends_within 1 i (store_step ?c s)"
    using reject_step store_step_inv [OF assms(3)] by blast
  then show ?thesis using ends_within_step [of 1 i ?c s] by (simp add: numeral_2_eq_2)
qed

lemma risk_checked_step:
  assumes "m_records s i = Some r" and "lr_state r = Created" and "store_inv s"
  shows "ends_within 3 i s"
proof -
  obtain k where k: "k \<noteq> []" "k \<notin> m_appliedEventKeys s" by (rule fresh_key [OF assms(3)])
  let ?c = "Call_riskChecked i k 0 0"
  have "\<exists>r'. m_records (store_step ?c s) i = Some r' \<and> lr_state r' = RiskChecked"
    using transition_step [OF assms(1) _ k, of RiskChecked] assms(2)
    by (simp add: store_step_def markRiskChecked_def canTransition_def isTerminal_def)
  then have "ends_within 2 i (store_step ?c s)"
    using submitted_step store_step_inv [OF assms(3)] by blast
  then show ?thesis using ends_within_step [of 2 i ?c s] by (simp add: eval_nat_numeral)
qed

text \<open>
  No order gets stuck: from every reachable store, every order of it (with a quantity in
  the range of its 64-bit field) can be brought to a terminal state by at most three further
  broker events.
\<close>

theorem lifecycle_order_can_terminate:
  assumes "m_records (store_after cs) i = Some r"
    and "in_i64 (dec_units (req_quantity (lr_request r)))"
  shows "\<exists>ds r'. length ds \<le> 3 \<and> m_records (store_after (cs @ ds)) i = Some r'
    \<and> isTerminal (lr_state r')"
proof -
  note inv = store_after_inv [of cs]
  note mono = ends_within_mono [of _ i "store_after cs" 3]
  have "ends_within 3 i (store_after cs)"
  proof (cases "isTerminal (lr_state r)")
    case True
    with assms(1) show ?thesis by (rule ends_within_now)
  next
    case False
    then consider "lr_state r = Created" | "lr_state r = RiskChecked" | "lr_state r = Submitted"
      | "lr_state r = Accepted" | "lr_state r = CancelRequested"
      | "canTransition (lr_state r) Reconciled"
      by (cases "lr_state r") (auto simp: isTerminal_def canTransition_def)
    then show ?thesis
      using risk_checked_step [OF assms(1) _ inv] mono [OF submitted_step [OF assms(1) _ inv]]
        mono [OF reject_step [OF assms(1) _ inv]] mono [OF cancel_request_step [OF assms(1) _ inv]]
        mono [OF cancel_step [OF assms(1) _ inv]] mono [OF reconcile_step [OF assms(1) _ inv assms(2)]]
      by cases simp_all
  qed
  then show ?thesis
    by (auto simp: ends_within_def store_after_def run_machine_append)
qed

lemma lifecycle_order_can_terminate_witness:
  "\<exists>ds r'. length ds \<le> 3 \<and> m_records (store_after (sample_calls @ ds)) 7 = Some r'
     \<and> isTerminal (lr_state r')"
proof -
  obtain r where r: "m_records (store_after sample_calls) 7 = Some r"
    and q: "lr_request r = sample_request 7"
    using sample_state by (auto simp: holds_at_iff)
  have "in_i64 (dec_units (req_quantity (lr_request r)))"
    by (simp add: q sample_request_def i64_limits)
  from lifecycle_order_can_terminate [OF r this] show ?thesis .
qed

subsection \<open>Fills\<close>

text \<open>
  When a fill is applied: \<open>applyExecution\<close> reports \<open>Applied\<close> exactly for a fresh nonempty
  event key, not older than the last event, whose quantities are non-negative, in the scale of
  the order, add up to the requested quantity (the 64-bit overflow guard loses no case) and do
  not go back, on an order that is live at the broker; otherwise the store is unchanged.  The
  applied fill sets exactly the reported quantities, and the order is \<open>Filled\<close> if and only if
  nothing remains.
\<close>

theorem lifecycle_fill_accepted_iff:
  assumes "m_records s (exe_localOrderId e) = Some r"
    and "in_i64 (dec_units (req_quantity (lr_request r)))"
    and "in_i64 (dec_units (exe_cumulativeFilledQuantity e))"
    and "in_i64 (dec_units (exe_remainingQuantity e))"
  shows "(snd (applyExecution e s) = Applied \<longleftrightarrow>
      exe_eventKey e \<noteq> [] \<and> exe_eventKey e \<notin> m_appliedEventKeys s
      \<and> \<not> eventIsOlder r (exe_timestampNs e) (exe_sequence e)
      \<and> dec_scale (exe_cumulativeFilledQuantity e) = dec_scale (req_quantity (lr_request r))
      \<and> dec_scale (exe_remainingQuantity e) = dec_scale (req_quantity (lr_request r))
      \<and> 0 \<le> dec_units (exe_cumulativeFilledQuantity e)
      \<and> 0 \<le> dec_units (exe_remainingQuantity e)
      \<and> dec_units (exe_cumulativeFilledQuantity e) + dec_units (exe_remainingQuantity e)
          = dec_units (req_quantity (lr_request r))
      \<and> dec_units (lr_filledQuantity r) \<le> dec_units (exe_cumulativeFilledQuantity e)
      \<and> lr_state r \<in> {Submitted, Accepted, PartiallyFilled, CancelRequested, Timeout, Unknown})
    \<and> (snd (applyExecution e s) \<noteq> Applied \<longrightarrow> fst (applyExecution e s) = s)
    \<and> (snd (applyExecution e s) = Applied \<longrightarrow>
        (\<exists>r'. m_records (fst (applyExecution e s)) = (m_records s)(exe_localOrderId e \<mapsto> r')
          \<and> lr_filledQuantity r' = exe_cumulativeFilledQuantity e
          \<and> lr_remainingQuantity r' = exe_remainingQuantity e
          \<and> (lr_state r' = Filled \<longleftrightarrow> dec_units (exe_remainingQuantity e) = 0)))"
proof -
  have vq: "validQuantities r (exe_cumulativeFilledQuantity e) (exe_remainingQuantity e) \<longleftrightarrow>
      dec_scale (exe_cumulativeFilledQuantity e) = dec_scale (req_quantity (lr_request r))
      \<and> dec_scale (exe_remainingQuantity e) = dec_scale (req_quantity (lr_request r))
      \<and> 0 \<le> dec_units (exe_cumulativeFilledQuantity e)
      \<and> 0 \<le> dec_units (exe_remainingQuantity e)
      \<and> dec_units (exe_cumulativeFilledQuantity e) + dec_units (exe_remainingQuantity e)
          = dec_units (req_quantity (lr_request r))"
    using assms(2) by (auto simp: validQuantities_def in_i64_def)
  have tr: "canTransition (lr_state r) (if b then Filled else PartiallyFilled) \<longleftrightarrow>
      lr_state r \<in> {Submitted, Accepted, PartiallyFilled, CancelRequested, Timeout, Unknown}" for b
    by (cases "lr_state r"; cases b) (simp_all add: canTransition_def isTerminal_def)
  note tr2 = tr [of True, simplified] tr [of False, simplified]
  show ?thesis
    using assms(1)
    by (auto simp: applyExecution_def vq tr2 store_update_defs dec_isZero_def)
qed

lemma lifecycle_fill_accepted_iff_witness:
  "\<exists>r. m_records (store_after sample_calls) 7 = Some r
     \<and> (snd (applyExecution (sample_fill 7 30 6 ''k6'') (store_after sample_calls)) \<noteq> Applied)"
proof -
  obtain r where r: "m_records (store_after sample_calls) 7 = Some r"
      "lr_request r = sample_request 7" "lr_filledQuantity r = decimal 40 2"
    using sample_state by (auto simp: holds_at_iff)
  have "m_records (store_after sample_calls) (exe_localOrderId (sample_fill 7 30 6 ''k6'')) = Some r"
    using r(1) by (simp add: sample_fill_def)
  from lifecycle_fill_accepted_iff [OF this] r show ?thesis
    by (simp add: sample_request_def sample_fill_def i64_limits)
qed

subsection \<open>The ordering guard compares with the last event only\<close>

text \<open>
  An event without a sequence number resets the remembered sequence number, so that an event
  older than one already applied is accepted after it: the audit of this run carries the
  sequence numbers 1, 5, 0, 3.
\<close>

definition stale_calls :: "lifecycle_call list" where
  "stale_calls = [Call_create (sample_request 7), Call_riskChecked 7 ''k2'' 11 5,
     Call_submitted 7 ''k3'' 12 0, Call_acknowledge ((sample_ack 7 True)\<lparr>ack_sequence := 3\<rparr>)]"

lemma stale_sequence_accepted:
  "holds_at (store_after stale_calls) 7 (\<lambda>r. lr_state r = Accepted
     \<and> map aud_sequence (lr_auditHistory r) = [1, 5, 0, 3])"
  by code_simp

end
