(* ===== verification/RingBuffer.thy ===== *)
theory RingBuffer
  imports Interfaces
begin

text \<open>
  The single-producer single-consumer ring buffer (include/LockFreeRingBuffer.hpp): the two
  indices as 64-bit words, \<open>Capacity\<close> as the argument \<open>cap\<close>.  The sequential operations
  implement a bounded queue of \<open>cap - 1\<close> entries.  The second half runs \<open>push\<close> and \<open>pop\<close>
  concurrently, one atomic access per step, and shows that every interleaving is first-in
  first-out and that the two threads never touch the same slot at the same time.
\<close>

record 'a ring =
  m_data :: "'a list"
  m_head :: u64
  m_tail :: u64

subsection \<open>Operations\<close>

definition increment :: "u64 \<Rightarrow> u64 \<Rightarrow> u64" where
  "increment cap idx = (idx + 1) mod cap"

definition ring_init :: "u64 \<Rightarrow> 'a \<Rightarrow> 'a ring" where
  "ring_init cap dflt = \<lparr>m_data = replicate (unat cap) dflt, m_head = 0, m_tail = 0\<rparr>"

text \<open>\<open>None\<close> is the result \<open>false\<close>: the buffer is unchanged.\<close>

definition ring_push :: "u64 \<Rightarrow> 'a \<Rightarrow> 'a ring \<Rightarrow> 'a ring option" where
  "ring_push cap value r =
     (let head = m_head r; next_head = increment cap head in
      if next_head = m_tail r then None
      else Some (r\<lparr>m_data := (m_data r)[unat head := value], m_head := next_head\<rparr>))"

definition ring_pop :: "u64 \<Rightarrow> 'a ring \<Rightarrow> ('a \<times> 'a ring) option" where
  "ring_pop cap r =
     (let tail = m_tail r in
      if tail = m_head r then None
      else Some (m_data r ! unat tail, r\<lparr>m_tail := increment cap tail\<rparr>))"

text \<open>The overload returning an optional: it pops into a default value first.\<close>

definition ring_pop_value :: "u64 \<Rightarrow> 'a \<Rightarrow> 'a ring \<Rightarrow> 'a option \<times> 'a ring" where
  "ring_pop_value cap dflt r =
     (let (value, popped, r') = (case ring_pop cap r of
          None \<Rightarrow> (dflt, False, r)
        | Some (out, r') \<Rightarrow> (out, True, r'))
      in if \<not> popped then (None, r') else (Some value, r'))"

definition ring_size :: "u64 \<Rightarrow> 'a ring \<Rightarrow> u64" where
  "ring_size cap r =
     (if m_head r \<ge> m_tail r then m_head r - m_tail r
      else cap - (m_tail r - m_head r))"

subsection \<open>Index arithmetic\<close>

definition ring_len :: "nat \<Rightarrow> nat \<Rightarrow> nat \<Rightarrow> nat" where
  "ring_len c h t = (if h \<ge> t then h - t else c - (t - h))"

definition slots :: "nat \<Rightarrow> nat \<Rightarrow> nat \<Rightarrow> nat list" where
  "slots c t n = map (\<lambda>k. (t + k) mod c) [0..<n]"

lemma mod_once: "x < 2 * c \<Longrightarrow> x mod c = (if x < c then x else x - c)" for x c :: nat
  by (auto simp: mod_if)

lemma ring_len_lt: "h < c \<Longrightarrow> t < c \<Longrightarrow> ring_len c h t < c"
  by (auto simp: ring_len_def)

lemma ring_len_push:
  assumes "h < c" and "t < c" and "Suc h mod c \<noteq> t"
  shows "ring_len c (Suc h mod c) t = Suc (ring_len c h t)"
  using assms by (cases "Suc h = c") (auto simp: ring_len_def)

lemma ring_len_full:
  assumes "h < c" and "t < c" and "Suc h mod c = t"
  shows "Suc (ring_len c h t) = c"
  using assms by (cases "Suc h = c") (auto simp: ring_len_def)

lemma ring_len_pop:
  assumes "h < c" and "t < c" and "t \<noteq> h"
  shows "Suc (ring_len c h (Suc t mod c)) = ring_len c h t"
  using assms by (cases "Suc t = c") (auto simp: ring_len_def)

lemma slots_Suc: "slots c t (Suc n) = slots c t n @ [(t + n) mod c]"
  by (simp add: slots_def)

lemma slots_Cons:
  assumes "t < c"
  shows "slots c t (Suc n) = t # slots c (Suc t mod c) n"
proof -
  have "map (\<lambda>k. (t + k) mod c) [0..<Suc n]
      = t mod c # map (\<lambda>k. (t + Suc k) mod c) [0..<n]"
    by (subst upt_conv_Cons) (simp_all add: map_Suc_upt [symmetric] del: upt_Suc)
  moreover have "(t + Suc k) mod c = (Suc t mod c + k) mod c" for k
    by (simp add: mod_add_left_eq)
  ultimately show ?thesis using assms by (simp add: slots_def)
qed

lemma slots_end:
  assumes "h < c" and "t < c"
  shows "(t + ring_len c h t) mod c = h"
  using assms by (auto simp: ring_len_def mod_once)

lemma slots_not_head:
  assumes "h < c" and "t < c" and "n \<le> ring_len c h t"
  shows "h \<notin> set (slots c t n)"
proof -
  have "h \<noteq> (t + k) mod c" if "k < n" for k
    using that assms ring_len_lt [OF assms(1,2)]
    by (auto simp: mod_once ring_len_def split: if_splits)
  then have "\<not> (\<exists>k < n. h = (t + k) mod c)" by blast
  then show ?thesis by (simp add: slots_def image_iff Bex_def)
qed

lemma slots_bound: "0 < c \<Longrightarrow> x \<in> set (slots c t n) \<Longrightarrow> x < c"
  by (auto simp: slots_def)

subsection \<open>The queue a buffer holds\<close>

definition ring_inv :: "u64 \<Rightarrow> 'a ring \<Rightarrow> bool" where
  "ring_inv cap r \<longleftrightarrow> 1 < cap \<and> length (m_data r) = unat cap
     \<and> m_head r < cap \<and> m_tail r < cap"

definition window :: "u64 \<Rightarrow> 'a list \<Rightarrow> u64 \<Rightarrow> u64 \<Rightarrow> 'a list" where
  "window cap xs h t = map ((!) xs) (slots (unat cap) (unat t) (ring_len (unat cap) (unat h) (unat t)))"

definition ring_contents :: "u64 \<Rightarrow> 'a ring \<Rightarrow> 'a list" where
  "ring_contents cap r = window cap (m_data r) (m_head r) (m_tail r)"

lemma unat_increment:
  assumes "idx < cap"
  shows "unat (increment cap idx) = Suc (unat idx) mod unat cap"
proof -
  have "unat idx < unat cap" using assms by (simp add: word_less_nat_alt)
  moreover have "unat cap < 18446744073709551616" by (rule u64_bound)
  ultimately have "unat idx + unat (1 :: u64) < 18446744073709551616" unfolding unat_1 by linarith
  from unat_add_u64 [OF this] have "unat (idx + 1) = Suc (unat idx)" by simp
  then show ?thesis by (simp add: increment_def unat_mod)
qed

lemma increment_lt: "1 < cap \<Longrightarrow> increment cap idx < cap"
  by (simp add: increment_def word_less_nat_alt unat_mod)

lemma window_push:
  assumes "length xs = unat cap" and "h < cap" and "t < cap" and "increment cap h \<noteq> t"
  shows "window cap (xs[unat h := x]) (increment cap h) t = window cap xs h t @ [x]"
proof -
  let ?c = "unat cap" and ?h = "unat h" and ?t = "unat t"
  have lt: "?h < ?c" "?t < ?c" using assms(2,3) by (simp_all add: word_less_nat_alt)
  have ne: "Suc ?h mod ?c \<noteq> ?t"
    using assms(4) unat_increment [OF assms(2)] by (metis word_unat_eq_iff)
  have "map ((!) (xs[?h := x])) (slots ?c ?t (ring_len ?c ?h ?t))
      = map ((!) xs) (slots ?c ?t (ring_len ?c ?h ?t))"
    using slots_not_head [OF lt le_refl] by (auto intro!: nth_list_update_neq)
  then show ?thesis
    using lt assms(1)
    by (simp add: window_def unat_increment [OF assms(2)] ring_len_push [OF lt ne] slots_Suc
        slots_end)
qed

lemma window_pop:
  assumes "h < cap" and "t < cap" and "t \<noteq> h"
  shows "window cap xs h t = xs ! unat t # window cap xs h (increment cap t)"
proof -
  have lt: "unat h < unat cap" "unat t < unat cap"
    using assms(1,2) by (simp_all add: word_less_nat_alt)
  have "unat t \<noteq> unat h" using assms(3) by (simp add: word_unat_eq_iff)
  note len = ring_len_pop [OF lt this]
  show ?thesis
    by (simp add: window_def unat_increment [OF assms(2)] len [symmetric] slots_Cons [OF lt(2)])
qed

lemma window_empty_iff:
  "h < cap \<Longrightarrow> t < cap \<Longrightarrow> window cap xs h t = [] \<longleftrightarrow> h = t"
  by (auto simp: window_def slots_def ring_len_def word_less_nat_alt word_unat_eq_iff)

lemma window_length: "length (window cap xs h t) = ring_len (unat cap) (unat h) (unat t)"
  by (simp add: window_def slots_def)

interpretation ring: bounded_queue
    "ring_push cap" "ring_pop cap" "ring_contents cap" "ring_inv cap" "unat cap - 1" for cap
proof
  fix q :: "'a ring" and x :: 'a
  assume q: "ring_inv cap q"
  then have lt: "m_head q < cap" "m_tail q < cap" and len: "length (m_data q) = unat cap"
    and ltn: "unat (m_head q) < unat cap" "unat (m_tail q) < unat cap"
    by (auto simp: ring_inv_def word_less_nat_alt)
  show "case ring_push cap x q of
      None \<Rightarrow> length (ring_contents cap q) = unat cap - 1
    | Some q' \<Rightarrow> ring_inv cap q' \<and> ring_contents cap q' = ring_contents cap q @ [x]"
  proof (cases "increment cap (m_head q) = m_tail q")
    case True
    then have "Suc (unat (m_head q)) mod unat cap = unat (m_tail q)"
      using unat_increment [OF lt(1)] by simp
    from ring_len_full [OF ltn this] True show ?thesis
      by (simp add: ring_push_def ring_contents_def window_length Let_def)
  next
    case False
    with q window_push [OF len lt False] show ?thesis
      by (simp add: ring_push_def ring_contents_def ring_inv_def increment_lt Let_def)
  qed
  show "case ring_pop cap q of
      None \<Rightarrow> ring_contents cap q = []
    | Some (y, q') \<Rightarrow> ring_inv cap q' \<and> ring_contents cap q = y # ring_contents cap q'"
    using q window_pop [OF lt] window_empty_iff [OF lt]
    by (auto simp: ring_pop_def ring_contents_def ring_inv_def increment_lt Let_def)
  show "length (ring_contents cap q) \<le> unat cap - 1"
    using ring_len_lt [OF ltn] by (simp add: ring_contents_def window_length)
qed

subsection \<open>Sequential properties\<close>

lemma ring_init_inv: "1 < cap \<Longrightarrow> ring_inv cap (ring_init cap d)"
  by (auto simp: ring_inv_def ring_init_def word_less_nat_alt)

lemma unat_ring_size:
  assumes "ring_inv cap r"
  shows "unat (ring_size cap r) = length (ring_contents cap r)"
proof -
  have lt: "unat (m_head r) < unat cap" "unat (m_tail r) < unat cap"
    using assms by (simp_all add: ring_inv_def word_less_nat_alt)
  show ?thesis
  proof (cases "m_tail r \<le> m_head r")
    case True
    then show ?thesis
      by (simp add: ring_size_def ring_contents_def window_length ring_len_def unat_sub
          word_le_nat_alt)
  next
    case False
    then have a: "unat (m_tail r - m_head r) = unat (m_tail r) - unat (m_head r)"
      by (intro unat_sub) simp
    then have "m_tail r - m_head r \<le> cap" using lt by (simp add: word_le_nat_alt)
    from unat_sub [OF this] False a show ?thesis
      by (simp add: ring_size_def ring_contents_def window_length ring_len_def word_le_nat_alt)
  qed
qed

text \<open>
  The ring buffer is a bounded first-in first-out queue of \<open>cap - 1\<close> entries: a push
  fails exactly when the queue is full and otherwise appends at the end, a pop fails exactly
  when it is empty and otherwise removes the oldest entry, both keep the representation
  invariant, and \<open>size\<close> is the number of entries (never \<open>cap\<close> or more).
\<close>

theorem ring_is_bounded_queue:
  assumes "ring_inv cap r"
  shows "(ring_push cap x r = None \<longleftrightarrow> unat (ring_size cap r) = unat cap - 1)
    \<and> (\<forall>r'. ring_push cap x r = Some r' \<longrightarrow>
          ring_inv cap r' \<and> ring_contents cap r' = ring_contents cap r @ [x])
    \<and> (ring_pop cap r = None \<longleftrightarrow> ring_size cap r = 0)
    \<and> (\<forall>y r'. ring_pop cap r = Some (y, r') \<longrightarrow>
          ring_inv cap r' \<and> ring_contents cap r = y # ring_contents cap r')
    \<and> unat (ring_size cap r) = length (ring_contents cap r)
    \<and> unat (ring_size cap r) < unat cap"
proof -
  note push = ring.push_spec [OF assms, of x] and pop = ring.pop_spec [OF assms]
    and iff = ring.push_succeeds_iff [OF assms, of x] and bound = ring.bounded [OF assms]
  have size: "unat (ring_size cap r) = length (ring_contents cap r)"
    by (rule unat_ring_size [OF assms])
  have "1 < unat cap" using assms by (simp add: ring_inv_def word_less_nat_alt)
  moreover have "ring_size cap r = 0 \<longleftrightarrow> ring_contents cap r = []"
    using size by (simp add: word_unat_eq_iff)
  ultimately show ?thesis
    using push pop iff bound size by (auto split: option.splits)
qed

lemma ring_is_bounded_queue_witness:
  "ring_inv 3 (ring_init 3 (0::nat)) \<and> ring_pop 3 (ring_init 3 (0::nat)) = None
     \<and> (\<exists>r. ring_push 3 7 (ring_init 3 (0::nat)) = Some r \<and> ring_contents 3 r = [7])"
proof -
  have inv: "ring_inv 3 (ring_init 3 (0::nat))" by (rule ring_init_inv) simp
  have size: "ring_size 3 (ring_init 3 (0::nat)) = 0"
    by (simp add: ring_size_def ring_init_def)
  obtain r where r: "ring_push 3 7 (ring_init 3 (0::nat)) = Some r"
    by (simp add: ring_push_def ring_init_def increment_def Let_def)
  from ring_is_bounded_queue [OF inv, of 7] inv size r show ?thesis by auto
qed

subsection \<open>One producer and one consumer\<close>

text \<open>
  The threads' program counters: each constructor is the point after one atomic access of
  \<open>push\<close> or \<open>pop\<close>, with the locals read so far.  The acquire and release accesses are
  taken in one sequentially consistent order.  \<open>sp_pushed\<close> and \<open>sp_popped\<close> record the values
  whose \<open>push\<close> and \<open>pop\<close> have published.
\<close>

datatype 'a prod_pc = P_idle | P_loaded 'a u64 | P_write 'a u64 u64 | P_publish 'a u64

datatype 'a cons_pc = K_idle | K_loaded u64 | K_read u64 | K_publish 'a u64

record 'a spsc =
  sp_ring :: "'a ring"
  sp_prod :: "'a prod_pc"
  sp_cons :: "'a cons_pc"
  sp_pushed :: "'a list"
  sp_popped :: "'a list"

definition spsc_init :: "u64 \<Rightarrow> 'a \<Rightarrow> 'a spsc" where
  "spsc_init cap d = \<lparr>sp_ring = ring_init cap d, sp_prod = P_idle, sp_cons = K_idle,
     sp_pushed = [], sp_popped = []\<rparr>"

inductive spsc_step :: "u64 \<Rightarrow> 'a spsc \<Rightarrow> 'a spsc \<Rightarrow> bool" for cap where
  push_start: "sp_prod s = P_idle \<Longrightarrow>
     spsc_step cap s (s\<lparr>sp_prod := P_loaded v (m_head (sp_ring s))\<rparr>)"
| push_full: "sp_prod s = P_loaded v h \<Longrightarrow> increment cap h = m_tail (sp_ring s) \<Longrightarrow>
     spsc_step cap s (s\<lparr>sp_prod := P_idle\<rparr>)"
| push_room: "sp_prod s = P_loaded v h \<Longrightarrow> increment cap h \<noteq> m_tail (sp_ring s) \<Longrightarrow>
     spsc_step cap s (s\<lparr>sp_prod := P_write v h (increment cap h)\<rparr>)"
| push_write: "sp_prod s = P_write v h n \<Longrightarrow>
     spsc_step cap s (s\<lparr>sp_ring := (sp_ring s)\<lparr>m_data := (m_data (sp_ring s))[unat h := v]\<rparr>,
       sp_prod := P_publish v n\<rparr>)"
| push_publish: "sp_prod s = P_publish v n \<Longrightarrow>
     spsc_step cap s (s\<lparr>sp_ring := (sp_ring s)\<lparr>m_head := n\<rparr>, sp_prod := P_idle,
       sp_pushed := sp_pushed s @ [v]\<rparr>)"
| pop_start: "sp_cons s = K_idle \<Longrightarrow>
     spsc_step cap s (s\<lparr>sp_cons := K_loaded (m_tail (sp_ring s))\<rparr>)"
| pop_empty: "sp_cons s = K_loaded t \<Longrightarrow> t = m_head (sp_ring s) \<Longrightarrow>
     spsc_step cap s (s\<lparr>sp_cons := K_idle\<rparr>)"
| pop_some: "sp_cons s = K_loaded t \<Longrightarrow> t \<noteq> m_head (sp_ring s) \<Longrightarrow>
     spsc_step cap s (s\<lparr>sp_cons := K_read t\<rparr>)"
| pop_read: "sp_cons s = K_read t \<Longrightarrow>
     spsc_step cap s (s\<lparr>sp_cons := K_publish (m_data (sp_ring s) ! unat t) (increment cap t)\<rparr>)"
| pop_publish: "sp_cons s = K_publish v n \<Longrightarrow>
     spsc_step cap s (s\<lparr>sp_ring := (sp_ring s)\<lparr>m_tail := n\<rparr>, sp_cons := K_idle,
       sp_popped := sp_popped s @ [v]\<rparr>)"

fun prod_inv :: "u64 \<Rightarrow> 'a ring \<Rightarrow> 'a prod_pc \<Rightarrow> bool" where
  "prod_inv cap r P_idle = True"
| "prod_inv cap r (P_loaded v h) = (h = m_head r)"
| "prod_inv cap r (P_write v h n) =
     (h = m_head r \<and> n = increment cap h \<and> n \<noteq> m_tail r)"
| "prod_inv cap r (P_publish v n) =
     (n = increment cap (m_head r) \<and> n \<noteq> m_tail r \<and> m_data r ! unat (m_head r) = v)"

fun cons_inv :: "u64 \<Rightarrow> 'a ring \<Rightarrow> 'a cons_pc \<Rightarrow> bool" where
  "cons_inv cap r K_idle = True"
| "cons_inv cap r (K_loaded t) = (t = m_tail r)"
| "cons_inv cap r (K_read t) = (t = m_tail r \<and> t \<noteq> m_head r)"
| "cons_inv cap r (K_publish v n) =
     (n = increment cap (m_tail r) \<and> m_tail r \<noteq> m_head r \<and> m_data r ! unat (m_tail r) = v)"

definition spsc_inv :: "u64 \<Rightarrow> 'a spsc \<Rightarrow> bool" where
  "spsc_inv cap s \<longleftrightarrow> ring_inv cap (sp_ring s)
     \<and> prod_inv cap (sp_ring s) (sp_prod s) \<and> cons_inv cap (sp_ring s) (sp_cons s)
     \<and> sp_pushed s = sp_popped s @ ring_contents cap (sp_ring s)"

lemma increment_inj:
  assumes "a < cap" and "b < cap" and "increment cap a = increment cap b"
  shows "a = b"
proof -
  have "unat a < unat cap" "unat b < unat cap"
    using assms(1,2) by (simp_all add: word_less_nat_alt)
  moreover have "Suc (unat a) mod unat cap = Suc (unat b) mod unat cap"
    using assms(3) unat_increment [OF assms(1)] unat_increment [OF assms(2)] by simp
  ultimately have "unat a = unat b"
    by (cases "Suc (unat a) = unat cap"; cases "Suc (unat b) = unat cap") auto
  then show ?thesis by (simp add: word_unat_eq_iff)
qed

lemma window_write_head:
  assumes "h < cap" and "t < cap"
  shows "window cap (xs[unat h := x]) h t = window cap xs h t"
proof -
  have "unat h < unat cap" "unat t < unat cap"
    using assms by (simp_all add: word_less_nat_alt)
  from slots_not_head [OF this le_refl] show ?thesis
    by (auto simp: window_def intro!: nth_list_update_neq)
qed

lemma window_publish:
  assumes "length xs = unat cap" and "h < cap" and "t < cap" and "increment cap h \<noteq> t"
  shows "window cap xs (increment cap h) t = window cap xs h t @ [xs ! unat h]"
  using window_push [OF assms, of "xs ! unat h"] by simp

lemma unat_ne: "h \<noteq> t \<Longrightarrow> unat h \<noteq> unat t" for h t :: u64
  by (simp add: word_unat_eq_iff)

lemma spsc_step_inv:
  assumes "spsc_step cap s s'" and "spsc_inv cap s"
  shows "spsc_inv cap s'"
proof -
  have lt: "m_head (sp_ring s) < cap" "m_tail (sp_ring s) < cap"
    and len: "length (m_data (sp_ring s)) = unat cap" and cap: "1 < cap"
    using assms(2) by (simp_all add: spsc_inv_def ring_inv_def)
  note inj = increment_inj [OF lt] increment_inj [OF lt(2,1)]
  from assms show ?thesis
  proof cases
    case (push_write v h n)
    moreover have "unat (m_head (sp_ring s)) < length (m_data (sp_ring s))"
      using lt(1) len by (simp add: word_less_nat_alt)
    ultimately show ?thesis
      using assms(2) lt by (cases "sp_cons s")
         (auto simp: spsc_inv_def ring_inv_def ring_contents_def window_write_head
           dest: unat_ne)
  next
    case (push_publish v n)
    with assms(2) lt len cap window_publish [OF len lt] show ?thesis
      by (cases "sp_cons s")
         (auto simp: spsc_inv_def ring_inv_def ring_contents_def increment_lt)
  next
    case (pop_publish v n)
    with assms(2) lt cap inj window_pop [OF lt, of "m_data (sp_ring s)"] show ?thesis
      by (cases "sp_prod s")
         (auto simp: spsc_inv_def ring_inv_def ring_contents_def increment_lt)
  qed (auto simp: spsc_inv_def)
qed

lemma spsc_reachable_inv:
  assumes "1 < cap" and "(spsc_step cap)\<^sup>*\<^sup>* (spsc_init cap d) s"
  shows "spsc_inv cap s"
  using assms(2)
proof (induction rule: rtranclp_induct)
  case base
  have "ring_contents cap (ring_init cap d) = []"
    by (simp add: ring_contents_def ring_init_def window_def slots_def ring_len_def)
  with ring_init_inv [OF assms(1), of d] show ?case
    by (simp add: spsc_inv_def spsc_init_def)
next
  case (step s s')
  then show ?case by (blast intro: spsc_step_inv)
qed

text \<open>
  C31. Under every interleaving of one producer and one consumer the buffer is first-in
  first-out and loses nothing: the published values are the popped values followed by the
  buffer's contents; a producer about to write and a consumer about to read are at different
  slots; and a producer that sees "full" sees a buffer that does hold \<open>cap - 1\<close> entries, a
  consumer that sees "empty" one that holds none.
\<close>

theorem spsc_fifo_race_free:
  assumes "1 < cap" and "(spsc_step cap)\<^sup>*\<^sup>* (spsc_init cap d) s"
  shows "sp_pushed s = sp_popped s @ ring_contents cap (sp_ring s)
    \<and> length (ring_contents cap (sp_ring s)) \<le> unat cap - 1
    \<and> (\<forall>v h n t. sp_prod s = P_write v h n \<and> sp_cons s = K_read t \<longrightarrow> h \<noteq> t)
    \<and> (\<forall>v h. sp_prod s = P_loaded v h \<and> increment cap h = m_tail (sp_ring s) \<longrightarrow>
          length (ring_contents cap (sp_ring s)) = unat cap - 1)
    \<and> (\<forall>t. sp_cons s = K_loaded t \<and> t = m_head (sp_ring s) \<longrightarrow>
          ring_contents cap (sp_ring s) = [])"
proof -
  have inv: "spsc_inv cap s" by (rule spsc_reachable_inv [OF assms])
  then have ri: "ring_inv cap (sp_ring s)" by (simp add: spsc_inv_def)
  then have lt: "m_head (sp_ring s) < cap" "m_tail (sp_ring s) < cap"
    by (simp_all add: ring_inv_def)
  have "length (ring_contents cap (sp_ring s)) = unat cap - 1"
    if "increment cap (m_head (sp_ring s)) = m_tail (sp_ring s)"
    using ring.push_spec [OF ri] that by (auto simp: ring_push_def Let_def)
  with inv ring.bounded [OF ri] window_empty_iff [OF lt] show ?thesis
    by (auto simp: spsc_inv_def ring_contents_def)
qed

lemma spsc_fifo_race_free_witness:
  "\<exists>s. (spsc_step 2)\<^sup>*\<^sup>* (spsc_init 2 (0::nat)) s \<and> sp_pushed s = [5]
     \<and> sp_pushed s = sp_popped s @ ring_contents 2 (sp_ring s)"
proof -
  let ?i = "spsc_init 2 (0::nat)"
  let ?s1 = "?i\<lparr>sp_prod := P_loaded 5 0\<rparr>"
  let ?s2 = "?s1\<lparr>sp_prod := P_write 5 0 1\<rparr>"
  let ?s3 = "?s2\<lparr>sp_ring := (sp_ring ?s2)\<lparr>m_data := (m_data (sp_ring ?s2))[unat (0::u64) := 5]\<rparr>,
      sp_prod := P_publish 5 1\<rparr>"
  let ?s4 = "?s3\<lparr>sp_ring := (sp_ring ?s3)\<lparr>m_head := 1\<rparr>, sp_prod := P_idle,
      sp_pushed := sp_pushed ?s3 @ [5]\<rparr>"
  have "spsc_step 2 ?i ?s1"
    using push_start [of ?i 2 5] by (simp add: spsc_init_def ring_init_def)
  moreover have "spsc_step 2 ?s1 ?s2"
    using push_room [of ?s1 5 0 2] by (simp add: spsc_init_def ring_init_def increment_def)
  moreover have "spsc_step 2 ?s2 ?s3" by (rule push_write) simp
  moreover have "spsc_step 2 ?s3 ?s4" by (rule push_publish) simp
  ultimately have r: "(spsc_step 2)\<^sup>*\<^sup>* ?i ?s4"
    by (meson converse_rtranclp_into_rtranclp rtranclp.rtrancl_refl)
  have "(1 :: u64) < 2" by simp
  from spsc_fifo_race_free [OF this r] r show ?thesis
    by (intro exI [of _ ?s4]) (simp add: spsc_init_def)
qed

end
