(* ===== verification/OAuthCorrelation.thy ===== *)
theory OAuthCorrelation
  imports Interfaces
begin

text \<open>
  The one-shot correlation guard of the OAuth loopback callback
  (include/CTraderOAuthCorrelation.hpp, src/CTraderOAuthCorrelation.cpp): encoding of the
  random state, strict parsing of the callback's query, and the guard's operations.  A string
  is a list of bytes; the steady clock is a signed 64-bit count of nanoseconds, kept as
  \<open>int\<close>.  The entropy source of the operating system and the failure of an allocation are
  arguments (\<open>None\<close> and \<open>oom\<close>).
\<close>

subsection \<open>Constants\<close>

definition LOOPBACK_ADDRESS :: string where "LOOPBACK_ADDRESS = ''127.0.0.1''"
definition LOOPBACK_PORT :: u16 where "LOOPBACK_PORT = 18080"
definition CALLBACK_PATH :: string where "CALLBACK_PATH = ''/ctrader/oauth/callback''"
definition CALLBACK_HOST :: string where "CALLBACK_HOST = ''127.0.0.1:18080''"
definition CORRELATION_LIFETIME :: int where "CORRELATION_LIFETIME = 60 * 1000000000"
definition ENTROPY_BYTES :: nat where "ENTROPY_BYTES = 32"
definition MAX_QUERY_PARAMETERS :: nat where "MAX_QUERY_PARAMETERS = 16"

definition BASE64URL_ALPHABET :: string where
  "BASE64URL_ALPHABET = ''ABCDEFGHIJKLMNOPQRSTUVWXYZabcdefghijklmnopqrstuvwxyz0123456789-_''"

datatype oauth_decision =
    OD_Unarmed | OD_Armed | OD_ListenerBindingRejected | OD_EntropyUnavailable
  | OD_AlreadyTerminal | OD_CallbackBeforeArming | OD_CallbackExpired | OD_Cancelled
  | OD_UnexpectedRemote | OD_UnexpectedMethod | OD_UnexpectedHost | OD_UnexpectedPath
  | OD_MalformedQuery | OD_DuplicateParameter | OD_AuthorizationRejected | OD_StateMissing
  | OD_StateMismatch | OD_CodeMissing | OD_CorrelationMatchedCodeDiscarded

datatype oauth_phase = OP_Unarmed | OP_Armed | OP_Terminal

record listener_binding =
  lis_address :: string
  lis_port :: u16

record callback_request =
  cb_remoteAddress :: string
  cb_method :: string
  cb_host :: string
  cb_path :: string
  cb_rawQuery :: string

record oauth_guard =
  og_phase :: oauth_phase
  og_lastDecision :: oauth_decision
  og_armedAt :: int
  og_expiresAt :: int
  og_state :: string

definition oauth_guard_init :: oauth_guard where
  "oauth_guard_init = \<lparr>og_phase = OP_Unarmed, og_lastDecision = OD_Unarmed, og_armedAt = 0,
     og_expiresAt = 0, og_state = []\<rparr>"

subsection \<open>Encoding the random state\<close>

definition sextet :: "u32 \<Rightarrow> nat \<Rightarrow> char" where
  "sextet block n = BASE64URL_ALPHABET ! unat (drop_bit n block AND 0x3f)"

fun base64UrlEncode :: "u8 list \<Rightarrow> string" where
  "base64UrlEncode (a # b # c # rest) =
     (let block = push_bit 16 (ucast a) OR push_bit 8 (ucast b) OR (ucast c :: u32)
      in [sextet block 18, sextet block 12, sextet block 6, sextet block 0]
         @ base64UrlEncode rest)"
| "base64UrlEncode [a] =
     (let block = push_bit 16 (ucast a :: u32) in [sextet block 18, sextet block 12])"
| "base64UrlEncode [a, b] =
     (let block = push_bit 16 (ucast a) OR push_bit 8 (ucast b :: u32)
      in [sextet block 18, sextet block 12, sextet block 6])"
| "base64UrlEncode [] = []"

subsection \<open>Validation of the callback's query\<close>

definition isHex :: "char \<Rightarrow> bool" where
  "isHex c \<longleftrightarrow> byte_of CHR ''0'' \<le> byte_of c \<and> byte_of c \<le> byte_of CHR ''9''
     \<or> byte_of CHR ''a'' \<le> byte_of c \<and> byte_of c \<le> byte_of CHR ''f''
     \<or> byte_of CHR ''A'' \<le> byte_of c \<and> byte_of c \<le> byte_of CHR ''F''"

fun hasValidEncoding :: "string \<Rightarrow> bool" where
  "hasValidEncoding [] = True"
| "hasValidEncoding (c # value) =
     (if byte_of c < 0x20 \<or> byte_of c = 0x7f then False
      else if c = CHR ''%'' then
        (case value of
           x # y # value' \<Rightarrow> if \<not> isHex x \<or> \<not> isHex y then False else hasValidEncoding value'
         | _ \<Rightarrow> False)
      else hasValidEncoding value)"

definition constantTimeEqual :: "string \<Rightarrow> string \<Rightarrow> bool" where
  "constantTimeEqual expected actual =
     (if length expected \<noteq> length actual then False
      else foldl (\<lambda>difference (e, a). difference OR (of_char e XOR of_char a)) (0 :: u8)
             (zip expected actual) = 0)"

text \<open>The checks after the loop of \<open>parseQuery\<close>.\<close>

definition query_verdict :: "bool \<Rightarrow> bool \<Rightarrow> string \<Rightarrow> oauth_decision \<times> string" where
  "query_verdict hasCode hasError state =
     (if hasError then
        if hasCode then (OD_MalformedQuery, []) else (OD_AuthorizationRejected, [])
      else if state = [] then (OD_StateMissing, [])
      else if \<not> hasCode then (OD_CodeMissing, [])
      else (OD_CorrelationMatchedCodeDiscarded, state))"

text \<open>
  The loop of \<open>parseQuery\<close>: \<open>rest\<close> is the query from \<open>start\<close> on, \<open>names\<close> the names found so
  far.
\<close>

function parseQuery_loop ::
  "string list \<Rightarrow> bool \<Rightarrow> bool \<Rightarrow> string \<Rightarrow> string \<Rightarrow> oauth_decision \<times> string" where
  "parseQuery_loop names hasCode hasError state rest =
     (if rest = [] then query_verdict hasCode hasError state
      else if length names = MAX_QUERY_PARAMETERS then (OD_MalformedQuery, [])
      else
        let parameter = takeWhile (\<lambda>c. c \<noteq> CHR ''&'') rest;
            tail = dropWhile (\<lambda>c. c \<noteq> CHR ''&'') rest;
            name = takeWhile (\<lambda>c. c \<noteq> CHR ''='') parameter;
            value = drop (length name + 1) parameter
        in if parameter = [] \<or> CHR ''='' \<notin> set parameter \<or> name = [] then (OD_MalformedQuery, [])
           else if \<not> hasValidEncoding name \<or> \<not> hasValidEncoding value
           then (OD_MalformedQuery, [])
           else if name \<in> set names then (OD_DuplicateParameter, [])
           else if name = ''code'' \<and> value = [] then (OD_CodeMissing, [])
           else if name = ''state'' \<and> value = [] then (OD_StateMissing, [])
           else if name = ''error'' \<and> value = [] then (OD_MalformedQuery, [])
           else
             let hasCode = (hasCode \<or> name = ''code'');
                 hasError = (hasError \<or> name = ''error'');
                 state = (if name = ''state'' then value else state)
             in if tail = [] then query_verdict hasCode hasError state
                else if tl tail = [] then (OD_MalformedQuery, [])
                else parseQuery_loop (names @ [name]) hasCode hasError state (tl tail))"
  by pat_completeness auto

lemma tl_dropWhile_shorter: "xs \<noteq> [] \<Longrightarrow> length (tl (dropWhile P xs)) < length xs"
  by (cases xs) (auto simp: less_Suc_eq_le intro: order_trans [OF diff_le_self length_dropWhile_le])

termination parseQuery_loop
  by (relation "measure (\<lambda>(names, hasCode, hasError, state, rest). length rest)")
     (auto simp: tl_dropWhile_shorter simp del: length_tl)

declare parseQuery_loop.simps [simp del]

definition parseQuery :: "string \<Rightarrow> oauth_decision \<times> string" where
  "parseQuery query =
     (if query = [] \<or> hd query = CHR ''?'' \<or> last query = CHR ''&''
      then (OD_MalformedQuery, [])
      else parseQuery_loop [] False False [] query)"

subsection \<open>The guard\<close>

definition og_clearSensitiveState :: "oauth_guard \<Rightarrow> oauth_guard" where
  "og_clearSensitiveState g = g\<lparr>og_state := secureClear (og_state g)\<rparr>"

definition og_finish :: "oauth_decision \<Rightarrow> oauth_guard \<Rightarrow> oauth_guard \<times> oauth_decision" where
  "og_finish decision g =
     ((og_clearSensitiveState g)\<lparr>og_phase := OP_Terminal, og_lastDecision := decision\<rparr>, decision)"

definition og_replay :: "oauth_guard \<Rightarrow> oauth_guard \<times> oauth_decision" where
  "og_replay g = (g\<lparr>og_lastDecision := OD_AlreadyTerminal\<rparr>, OD_AlreadyTerminal)"

definition rearm_rejected :: "oauth_guard \<Rightarrow> oauth_guard \<times> bool" where
  "rearm_rejected g =
     (if og_phase g = OP_Armed then (fst (og_finish OD_AlreadyTerminal g), False)
      else (g\<lparr>og_lastDecision := OD_AlreadyTerminal\<rparr>, False))"

definition armWithEntropy ::
  "bool \<Rightarrow> listener_binding \<Rightarrow> int \<Rightarrow> u8 list \<Rightarrow> oauth_guard \<Rightarrow> oauth_guard \<times> bool" where
  "armWithEntropy oom binding now entropy g =
     (if og_phase g \<noteq> OP_Unarmed then rearm_rejected g
      else if lis_address binding \<noteq> LOOPBACK_ADDRESS \<or> lis_port binding \<noteq> LOOPBACK_PORT
      then (g\<lparr>og_phase := OP_Terminal, og_lastDecision := OD_ListenerBindingRejected\<rparr>, False)
      else if now > INT64_MAX - CORRELATION_LIFETIME
      then (g\<lparr>og_phase := OP_Terminal, og_lastDecision := OD_CallbackExpired\<rparr>, False)
      else if oom
      then ((og_clearSensitiveState g)
              \<lparr>og_phase := OP_Terminal, og_lastDecision := OD_EntropyUnavailable\<rparr>, False)
      else (g\<lparr>og_state := base64UrlEncode entropy, og_armedAt := now,
              og_expiresAt := now + CORRELATION_LIFETIME, og_phase := OP_Armed,
              og_lastDecision := OD_Armed\<rparr>, True))"

text \<open>\<open>entropy\<close> is what \<open>fillSecureEntropy\<close> delivers; its local copy is cleared on return.\<close>

definition arm ::
  "u8 list option \<Rightarrow> bool \<Rightarrow> listener_binding \<Rightarrow> int \<Rightarrow> oauth_guard \<Rightarrow> oauth_guard \<times> bool" where
  "arm entropy oom binding now g =
     (if og_phase g \<noteq> OP_Unarmed then rearm_rejected g
      else case entropy of
        None \<Rightarrow> (g\<lparr>og_phase := OP_Terminal, og_lastDecision := OD_EntropyUnavailable\<rparr>, False)
      | Some bytes \<Rightarrow> armWithEntropy oom binding now bytes g)"

definition stateForAuthorizationRequest :: "oauth_guard \<Rightarrow> string" where
  "stateForAuthorizationRequest g = (if og_phase g = OP_Armed then og_state g else [])"

definition consume ::
  "callback_request \<Rightarrow> int \<Rightarrow> oauth_guard \<Rightarrow> oauth_guard \<times> oauth_decision" where
  "consume request now g =
     (if og_phase g = OP_Unarmed then og_finish OD_CallbackBeforeArming g
      else if og_phase g = OP_Terminal then og_replay g
      else if now < og_armedAt g then og_finish OD_CallbackBeforeArming g
      else if now \<ge> og_expiresAt g then og_finish OD_CallbackExpired g
      else if cb_remoteAddress request \<noteq> LOOPBACK_ADDRESS then og_finish OD_UnexpectedRemote g
      else if cb_method request \<noteq> ''GET'' then og_finish OD_UnexpectedMethod g
      else if cb_host request \<noteq> CALLBACK_HOST then og_finish OD_UnexpectedHost g
      else if cb_path request \<noteq> CALLBACK_PATH then og_finish OD_UnexpectedPath g
      else
        let (decision, state) = parseQuery (cb_rawQuery request)
        in if decision \<noteq> OD_CorrelationMatchedCodeDiscarded then og_finish decision g
           else if \<not> constantTimeEqual (og_state g) state then og_finish OD_StateMismatch g
           else og_finish OD_CorrelationMatchedCodeDiscarded g)"

definition expireIfDue :: "int \<Rightarrow> oauth_guard \<Rightarrow> oauth_guard \<times> oauth_decision" where
  "expireIfDue now g =
     (if og_phase g = OP_Unarmed then og_finish OD_CallbackBeforeArming g
      else if og_phase g = OP_Terminal then og_replay g
      else if now < og_armedAt g then og_finish OD_CallbackBeforeArming g
      else if now < og_expiresAt g then (g\<lparr>og_lastDecision := OD_Armed\<rparr>, OD_Armed)
      else og_finish OD_CallbackExpired g)"

definition og_cancel :: "oauth_guard \<Rightarrow> oauth_guard \<times> oauth_decision" where
  "og_cancel g = (if og_phase g = OP_Terminal then og_replay g else og_finish OD_Cancelled g)"

definition og_isArmed :: "oauth_guard \<Rightarrow> bool" where
  "og_isArmed g \<longleftrightarrow> og_phase g = OP_Armed"

definition og_isTerminal :: "oauth_guard \<Rightarrow> bool" where
  "og_isTerminal g \<longleftrightarrow> og_phase g = OP_Terminal"

text \<open>Moves return the new object and the one moved from.\<close>

definition og_moved_from :: "oauth_guard \<Rightarrow> oauth_guard" where
  "og_moved_from other = (og_clearSensitiveState other)
     \<lparr>og_phase := OP_Terminal, og_lastDecision := OD_AlreadyTerminal\<rparr>"

definition og_move_construct :: "oauth_guard \<Rightarrow> oauth_guard \<times> oauth_guard" where
  "og_move_construct other =
     (\<lparr>og_phase = og_phase other, og_lastDecision = og_lastDecision other,
       og_armedAt = og_armedAt other, og_expiresAt = og_expiresAt other,
       og_state = og_state other\<rparr>, og_moved_from other)"

text \<open>\<open>same\<close>: both references denote the same object.\<close>

definition og_move_assign ::
  "bool \<Rightarrow> oauth_guard \<Rightarrow> oauth_guard \<Rightarrow> oauth_guard \<times> oauth_guard" where
  "og_move_assign same this other =
     (if same then (this, other)
      else ((og_clearSensitiveState this)
              \<lparr>og_phase := og_phase other, og_lastDecision := og_lastDecision other,
               og_armedAt := og_armedAt other, og_expiresAt := og_expiresAt other,
               og_state := og_state other\<rparr>, og_moved_from other))"

definition og_safeDiagnostic :: "oauth_decision \<Rightarrow> string" where
  "og_safeDiagnostic decision =
     (case decision of
        OD_Unarmed \<Rightarrow> ''oauth_correlation_unarmed''
      | OD_Armed \<Rightarrow> ''oauth_correlation_armed''
      | OD_ListenerBindingRejected \<Rightarrow> ''oauth_loopback_binding_rejected''
      | OD_EntropyUnavailable \<Rightarrow> ''oauth_secure_entropy_unavailable''
      | OD_AlreadyTerminal \<Rightarrow> ''oauth_callback_replay_rejected''
      | OD_CallbackBeforeArming \<Rightarrow> ''oauth_callback_before_arming''
      | OD_CallbackExpired \<Rightarrow> ''oauth_callback_expired''
      | OD_Cancelled \<Rightarrow> ''oauth_correlation_cancelled''
      | OD_UnexpectedRemote \<Rightarrow> ''oauth_callback_remote_rejected''
      | OD_UnexpectedMethod \<Rightarrow> ''oauth_callback_method_rejected''
      | OD_UnexpectedHost \<Rightarrow> ''oauth_callback_host_rejected''
      | OD_UnexpectedPath \<Rightarrow> ''oauth_callback_path_rejected''
      | OD_MalformedQuery \<Rightarrow> ''oauth_callback_malformed''
      | OD_DuplicateParameter \<Rightarrow> ''oauth_callback_duplicate_parameter''
      | OD_AuthorizationRejected \<Rightarrow> ''oauth_authorization_rejected''
      | OD_StateMissing \<Rightarrow> ''oauth_correlation_missing''
      | OD_StateMismatch \<Rightarrow> ''oauth_correlation_mismatch''
      | OD_CodeMissing \<Rightarrow> ''oauth_authorization_code_missing''
      | OD_CorrelationMatchedCodeDiscarded \<Rightarrow> ''oauth_correlation_matched_code_discarded'')"

end
