(* ===== verification/OAuthQuery.thy ===== *)
theory OAuthQuery
  imports OAuthProps
begin

text \<open>
  The grammar of callback queries and the correctness of \<open>parseQuery\<close> against it: the parser
  accepts exactly the renderings of well-formed parameter lists that carry a code and a state
  and no error.
\<close>

type_synonym query_param = "string \<times> string"

definition render_param :: "query_param \<Rightarrow> string" where
  "render_param p = fst p @ CHR ''='' # snd p"

fun render_query :: "query_param list \<Rightarrow> string" where
  "render_query [] = []"
| "render_query [p] = render_param p"
| "render_query (p # ps) = render_param p @ CHR ''&'' # render_query ps"

text \<open>One parameter: a nonempty name without separators, a value without \<open>&\<close>, both with valid
  percent encoding, and a nonempty value for the three names the parser knows.\<close>

definition param_ok :: "query_param \<Rightarrow> bool" where
  "param_ok p \<longleftrightarrow> fst p \<noteq> [] \<and> CHR ''='' \<notin> set (fst p) \<and> CHR ''&'' \<notin> set (fst p)
     \<and> CHR ''&'' \<notin> set (snd p) \<and> hasValidEncoding (fst p) \<and> hasValidEncoding (snd p)
     \<and> (fst p \<in> {''code'', ''state'', ''error''} \<longrightarrow> snd p \<noteq> [])"

definition params_ok :: "string list \<Rightarrow> query_param list \<Rightarrow> bool" where
  "params_ok names ps \<longleftrightarrow> (\<forall>p \<in> set ps. param_ok p) \<and> distinct (names @ map fst ps)
     \<and> length names + length ps \<le> MAX_QUERY_PARAMETERS"

lemma render_query_Cons:
  "render_query (p # ps) = render_param p @ (if ps = [] then [] else CHR ''&'' # render_query ps)"
  by (cases ps) simp_all

lemma render_param_nonempty: "render_param p \<noteq> []"
  by (simp add: render_param_def)

lemma render_query_empty_iff: "render_query ps = [] \<longleftrightarrow> ps = []"
  by (cases ps) (simp_all add: render_query_Cons render_param_nonempty)

lemma param_ok_no_amp: "param_ok p \<Longrightarrow> CHR ''&'' \<notin> set (render_param p)"
  by (auto simp: param_ok_def render_param_def)

lemma takeWhile_amp:
  "CHR ''&'' \<notin> set xs \<Longrightarrow> takeWhile (\<lambda>c. c \<noteq> CHR ''&'') (xs @ CHR ''&'' # ys) = xs"
  "CHR ''&'' \<notin> set xs \<Longrightarrow> takeWhile (\<lambda>c. c \<noteq> CHR ''&'') xs = xs"
  by (induction xs) auto

lemma dropWhile_amp:
  "CHR ''&'' \<notin> set xs \<Longrightarrow> dropWhile (\<lambda>c. c \<noteq> CHR ''&'') (xs @ CHR ''&'' # ys) = CHR ''&'' # ys"
  "CHR ''&'' \<notin> set xs \<Longrightarrow> dropWhile (\<lambda>c. c \<noteq> CHR ''&'') xs = []"
  by (induction xs) auto

lemma takeWhile_eq_param:
  "CHR ''='' \<notin> set (fst p) \<Longrightarrow> takeWhile (\<lambda>c. c \<noteq> CHR ''='') (render_param p) = fst p"
  unfolding render_param_def by (induction "fst p" arbitrary: p) (auto simp: takeWhile_append2)

text \<open>One round of the loop on a well-formed parameter.\<close>

lemma parse_round:
  assumes "param_ok p" and "fst p \<notin> set names" and "length names < MAX_QUERY_PARAMETERS"
  shows "parseQuery_loop names hasCode hasError state
      (render_param p @ (if ps = [] then [] else CHR ''&'' # render_query ps))
    = (let hasCode' = (hasCode \<or> fst p = ''code''); hasError' = (hasError \<or> fst p = ''error'');
           state' = (if fst p = ''state'' then snd p else state)
       in if ps = [] then query_verdict hasCode' hasError' state'
          else parseQuery_loop (names @ [fst p]) hasCode' hasError' state' (render_query ps))"
proof -
  note amp = param_ok_no_amp [OF assms(1)]
  have eq: "CHR ''='' \<notin> set (fst p)" using assms(1) by (simp add: param_ok_def)
  have val: "drop (length (fst p) + 1) (render_param p) = snd p"
    by (simp add: render_param_def)
  have mem: "CHR ''='' \<in> set (render_param p)" by (simp add: render_param_def)
  let ?rest = "render_param p @ (if ps = [] then [] else CHR ''&'' # render_query ps)"
  have split: "takeWhile (\<lambda>c. c \<noteq> CHR ''&'') ?rest = render_param p"
    "dropWhile (\<lambda>c. c \<noteq> CHR ''&'') ?rest = (if ps = [] then [] else CHR ''&'' # render_query ps)"
    using takeWhile_amp [OF amp] dropWhile_amp [OF amp] by simp_all
  have guards: "fst p \<noteq> []" "hasValidEncoding (fst p)" "hasValidEncoding (snd p)"
    "fst p = ''code'' \<Longrightarrow> snd p \<noteq> []" "fst p = ''state'' \<Longrightarrow> snd p \<noteq> []"
    "fst p = ''error'' \<Longrightarrow> snd p \<noteq> []"
    using assms(1) by (auto simp: param_ok_def)
  show ?thesis
    unfolding parseQuery_loop.simps [of names hasCode hasError state ?rest] split
      takeWhile_eq_param [OF eq] val Let_def
    using guards assms(2,3) mem by (auto simp: render_param_nonempty render_query_empty_iff)
qed

definition param_value :: "string \<Rightarrow> query_param list \<Rightarrow> string" where
  "param_value n ps = (case map_of ps n of None \<Rightarrow> [] | Some v \<Rightarrow> v)"

lemma parse_render:
  "ps \<noteq> [] \<Longrightarrow> params_ok names ps \<Longrightarrow>
     parseQuery_loop names hasCode hasError state (render_query ps)
       = query_verdict (hasCode \<or> ''code'' \<in> fst ` set ps) (hasError \<or> ''error'' \<in> fst ` set ps)
           (case map_of ps ''state'' of None \<Rightarrow> state | Some v \<Rightarrow> v)"
proof (induction ps arbitrary: names hasCode hasError state)
  case (Cons p ps)
  have ok: "param_ok p" "fst p \<notin> set names" "length names < MAX_QUERY_PARAMETERS"
    and rest: "params_ok (names @ [fst p]) ps" and fresh: "fst p \<notin> fst ` set ps"
    using Cons.prems(2) by (auto simp: params_ok_def)
  have flip: "''code'' = fst p \<longleftrightarrow> fst p = ''code''" "''error'' = fst p \<longleftrightarrow> fst p = ''error''"
    by auto
  show ?case
  proof (cases "ps = []")
    case True
    then show ?thesis
      unfolding render_query_Cons parse_round [OF ok] Let_def by (simp add: flip)
  next
    case False
    have "map_of ps (fst p) = None" using fresh by (simp add: map_of_eq_None_iff)
    with False show ?thesis
      unfolding render_query_Cons parse_round [OF ok] Let_def
      by (auto simp: Cons.IH [OF False rest] flip split: option.splits)
  qed
qed simp

lemma split_at_eq:
  assumes "CHR ''='' \<in> set xs"
  shows "xs = render_param (takeWhile (\<lambda>c. c \<noteq> CHR ''='') xs,
    drop (length (takeWhile (\<lambda>c. c \<noteq> CHR ''='') xs) + 1) xs)"
  using assms by (induction xs) (auto simp: render_param_def)

lemma parse_accepts:
  "parseQuery_loop names hasCode hasError state rest = (OD_CorrelationMatchedCodeDiscarded, st) \<Longrightarrow>
     rest \<noteq> [] \<Longrightarrow> distinct names \<Longrightarrow> length names \<le> MAX_QUERY_PARAMETERS \<Longrightarrow>
     \<exists>ps. ps \<noteq> [] \<and> rest = render_query ps \<and> params_ok names ps"
proof (induction rest arbitrary: names hasCode hasError state rule: length_induct)
  case (1 rest)
  let ?amp = "\<lambda>c. c \<noteq> CHR ''&''" and ?eq = "\<lambda>c. c \<noteq> CHR ''=''"
  define param where "param = takeWhile ?amp rest"
  define tail where "tail = dropWhile ?amp rest"
  define p where "p = (takeWhile ?eq param, drop (length (takeWhile ?eq param) + 1) param)"
  have rest: "rest = param @ tail" by (simp add: param_def tail_def)
  note run = "1.prems"(1) [unfolded parseQuery_loop.simps [of names hasCode hasError state rest]
      Let_def, folded param_def tail_def]
  have room: "length names < MAX_QUERY_PARAMETERS"
    using run "1.prems"(2,4) by (auto split: if_splits)
  have mem: "CHR ''='' \<in> set param"
    using run room "1.prems"(2) by (auto split: if_splits)
  have render: "param = render_param p"
    unfolding p_def by (rule split_at_eq [OF mem])
  have no_amp: "CHR ''&'' \<notin> set param"
    unfolding param_def by (auto dest: set_takeWhileD)
  have no_eq: "CHR ''='' \<notin> set (fst p)"
    unfolding p_def by (auto dest: set_takeWhileD)
  have guards: "fst p \<noteq> []" "hasValidEncoding (fst p)" "hasValidEncoding (snd p)"
    "fst p \<notin> set names" "fst p \<in> {''code'', ''state'', ''error''} \<longrightarrow> snd p \<noteq> []"
    using run room mem "1.prems"(2) by (auto simp: p_def split: if_splits)
  have ok: "param_ok p"
    using guards no_eq no_amp by (auto simp: param_ok_def render render_param_def)
  show ?case
  proof (cases "tail = []")
    case True
    with rest render ok guards(4) room "1.prems"(3) show ?thesis
      by (intro exI [of _ "[p]"]) (simp add: params_ok_def)
  next
    case False
    then have tl: "tail = CHR ''&'' # tl tail"
      using hd_dropWhile [of ?amp rest] unfolding tail_def by (metis list.collapse)
    have shorter: "length (tl tail) < length rest"
      unfolding tail_def by (rule tl_dropWhile_shorter [OF "1.prems"(2)])
    obtain hc he st' where "tl tail \<noteq> []"
      and more: "parseQuery_loop (names @ [fst p]) hc he st' (tl tail)
        = (OD_CorrelationMatchedCodeDiscarded, st)"
      using run room mem False "1.prems"(2) guards by (auto simp: p_def split: if_splits)
    moreover have "distinct (names @ [fst p])" "length (names @ [fst p]) \<le> MAX_QUERY_PARAMETERS"
      using "1.prems"(3) guards(4) room by auto
    ultimately obtain ps where ps: "ps \<noteq> []" "tl tail = render_query ps"
        "params_ok (names @ [fst p]) ps"
      using "1.IH" shorter by blast
    have "rest = render_query (p # ps)"
      using rest render tl ps(1,2) by (simp add: render_query_Cons)
    moreover have "params_ok names (p # ps)"
      using ps(3) ok by (auto simp: params_ok_def)
    ultimately show ?thesis by blast
  qed
qed

text \<open>The well-formed queries that carry a code and the state \<open>st\<close>, and no error.\<close>

definition query_carries :: "string \<Rightarrow> string \<Rightarrow> bool" where
  "query_carries query st \<longleftrightarrow> (\<exists>ps. query = render_query ps \<and> params_ok [] ps
     \<and> hd query \<noteq> CHR ''?'' \<and> map_of ps ''state'' = Some st
     \<and> ''code'' \<in> fst ` set ps \<and> ''error'' \<notin> fst ` set ps)"

lemma query_last:
  "ps \<noteq> [] \<Longrightarrow> params_ok names ps \<Longrightarrow> last (render_query ps) \<noteq> CHR ''&''"
proof (induction ps arbitrary: names)
  case (Cons p ps)
  have ok: "param_ok p" and rest: "params_ok (names @ [fst p]) ps"
    using Cons.prems(2) by (auto simp: params_ok_def)
  have "last (render_param p) \<noteq> CHR ''&''"
    using param_ok_no_amp [OF ok] last_in_set [OF render_param_nonempty] by metis
  with Cons.IH [OF _ rest] show ?case
    by (auto simp: render_query_Cons render_query_empty_iff render_param_nonempty)
qed simp

theorem parseQuery_accepts_iff:
  "parseQuery query = (OD_CorrelationMatchedCodeDiscarded, st) \<longleftrightarrow> query_carries query st"
proof
  assume run: "parseQuery query = (OD_CorrelationMatchedCodeDiscarded, st)"
  then have ne: "query \<noteq> []" and hd: "hd query \<noteq> CHR ''?''"
    and loop: "parseQuery_loop [] False False [] query = (OD_CorrelationMatchedCodeDiscarded, st)"
    by (auto simp: parseQuery_def split: if_splits)
  obtain ps where ps: "ps \<noteq> []" "query = render_query ps" "params_ok [] ps"
    using parse_accepts [OF loop ne] by auto
  with loop parse_render [OF ps(1,3), of False False "[]"] hd show "query_carries query st"
    unfolding query_carries_def
    by (intro exI [of _ ps]) (auto simp: query_verdict_def split: if_splits option.splits)
next
  assume "query_carries query st"
  then obtain ps where ps: "query = render_query ps" "params_ok [] ps" "hd query \<noteq> CHR ''?''"
      "map_of ps ''state'' = Some st" "''code'' \<in> fst ` set ps" "''error'' \<notin> fst ` set ps"
    by (auto simp: query_carries_def)
  then have ne: "ps \<noteq> []" by auto
  have "param_ok (''state'', st)"
    using ps(2) map_of_SomeD [OF ps(4)] by (auto simp: params_ok_def)
  then have "st \<noteq> []" by (simp add: param_ok_def)
  with ps parse_render [OF ne ps(2), of False False "[]"] query_last [OF ne ps(2)] ne
  show "parseQuery query = (OD_CorrelationMatchedCodeDiscarded, st)"
    by (simp add: parseQuery_def query_verdict_def render_query_empty_iff)
qed

end
