(* ===== verification/OAuthClaims.thy ===== *)
theory OAuthClaims
  imports OAuthQuery
begin

text \<open>The promises of the OAuth correlation guard, over single calls and over whole runs.\<close>

subsection \<open>Runs of the guard\<close>

datatype oauth_call =
    OC_arm "u8 list option" bool listener_binding int
  | OC_consume callback_request int
  | OC_expireIfDue int
  | OC_cancel

fun oauth_exec :: "oauth_call \<Rightarrow> oauth_guard \<Rightarrow> oauth_guard \<times> oauth_decision option" where
  "oauth_exec (OC_arm entropy oom binding now) g = (fst (arm entropy oom binding now g), None)"
| "oauth_exec (OC_consume request now) g = (let (g', d) = consume request now g in (g', Some d))"
| "oauth_exec (OC_expireIfDue now) g = (let (g', d) = expireIfDue now g in (g', Some d))"
| "oauth_exec OC_cancel g = (let (g', d) = og_cancel g in (g', Some d))"

definition oauth_step :: "oauth_call \<Rightarrow> oauth_guard \<Rightarrow> oauth_guard" where
  "oauth_step c g = fst (oauth_exec c g)"

fun match_count :: "oauth_call list \<Rightarrow> oauth_guard \<Rightarrow> nat" where
  "match_count [] g = 0"
| "match_count (c # cs) g =
     (if snd (oauth_exec c g) = Some OD_CorrelationMatchedCodeDiscarded then 1 else 0)
       + match_count cs (oauth_step c g)"

definition og_inv :: "oauth_guard \<Rightarrow> bool" where
  "og_inv g \<longleftrightarrow> (og_phase g \<noteq> OP_Armed \<longrightarrow> og_state g = [])
     \<and> (og_phase g = OP_Armed \<longrightarrow> og_expiresAt g = og_armedAt g + CORRELATION_LIFETIME
          \<and> og_expiresAt g \<le> INT64_MAX)"

lemmas og_defs = og_finish_def og_replay_def og_clearSensitiveState_def rearm_rejected_def

lemma consume_terminal: "og_phase (fst (consume q t g)) = OP_Terminal"
  by (cases "og_phase g") (auto simp: consume_def og_defs Let_def split: prod.splits)

lemma consume_inv: "og_inv g \<Longrightarrow> og_inv (fst (consume q t g))"
  by (cases "og_phase g") (auto simp: consume_def og_defs og_inv_def Let_def split: prod.splits)

lemma expireIfDue_inv: "og_inv g \<Longrightarrow> og_inv (fst (expireIfDue t g))"
  by (auto simp: expireIfDue_def og_defs og_inv_def)

lemma og_cancel_inv: "og_inv g \<Longrightarrow> og_inv (fst (og_cancel g))"
  by (auto simp: og_cancel_def og_defs og_inv_def)

lemma arm_inv: "og_inv g \<Longrightarrow> og_inv (fst (arm e oom b t g))"
  by (auto simp: arm_def armWithEntropy_def og_defs og_inv_def split: option.splits)

interpretation oauth: one_shot oauth_step og_isTerminal "\<lambda>g. og_state g = []" og_inv
proof
  fix g c
  show "og_isTerminal g \<Longrightarrow> og_isTerminal (oauth_step c g)"
    by (cases c) (auto simp: oauth_step_def og_isTerminal_def arm_def consume_def expireIfDue_def
        og_cancel_def og_defs split: option.splits prod.splits)
  show "og_inv g \<Longrightarrow> og_inv (oauth_step c g)"
    using consume_inv [of g] expireIfDue_inv [of g] og_cancel_inv [of g] arm_inv [of g]
    by (cases c) (simp_all add: oauth_step_def split_beta Let_def)
  show "og_inv g \<Longrightarrow> og_isTerminal g \<Longrightarrow> og_state g = []"
    by (simp add: og_inv_def og_isTerminal_def)
qed

lemma og_inv_init: "og_inv oauth_guard_init"
  by (simp add: og_inv_def oauth_guard_init_def)

lemma terminal_no_match: "og_isTerminal g \<Longrightarrow> match_count cs g = 0"
proof (induction cs arbitrary: g)
  case (Cons c cs)
  have "snd (oauth_exec c g) \<noteq> Some OD_CorrelationMatchedCodeDiscarded"
    using Cons.prems by (cases c) (auto simp: og_isTerminal_def consume_def expireIfDue_def
        og_cancel_def og_defs split: prod.splits)
  with Cons oauth.terminal_step show ?case by simp
qed simp

lemma match_terminal:
  "snd (oauth_exec c g) = Some OD_CorrelationMatchedCodeDiscarded \<Longrightarrow> og_isTerminal (oauth_step c g)"
  using consume_terminal [of _ _ g]
  by (cases c) (auto simp: oauth_step_def og_isTerminal_def split_beta Let_def
      expireIfDue_def og_cancel_def og_defs split: if_splits)

subsection \<open>Properties\<close>

text \<open>
  The comparison of the expected and the received state, a length check and a loop that
  accumulates the differences of all bytes, is equality of strings.
\<close>

theorem constantTimeEqual_is_equality: "constantTimeEqual expected actual \<longleftrightarrow> expected = actual"
  by (rule constantTimeEqual_iff)

text \<open>
  The random state of 32 entropy bytes is encoded as 43 characters of the URL-safe base64
  alphabet, and distinct entropies have distinct encodings.
\<close>

theorem base64_state_faithful:
  assumes "length e = ENTROPY_BYTES" and "length e' = ENTROPY_BYTES"
  shows "length (base64UrlEncode e) = 43 \<and> set (base64UrlEncode e) \<subseteq> set BASE64URL_ALPHABET
    \<and> (base64UrlEncode e = base64UrlEncode e' \<longleftrightarrow> e = e')"
  using base64_length [of e 10] base64_alphabet [of e] base64_inject [of e 10 e'] assms
  by (auto simp: ENTROPY_BYTES_def)

lemma base64_state_faithful_witness:
  "base64UrlEncode (replicate 32 0) \<noteq> base64UrlEncode (replicate 31 0 @ [1])"
  using base64_state_faithful [of "replicate 32 0" "replicate 31 0 @ [1]"]
  by (simp add: ENTROPY_BYTES_def numeral_eq_Suc)

text \<open>
  The parser of the callback's query accepts exactly the renderings of at most 16
  parameters with distinct nonempty names and valid percent encoding that carry a nonempty
  code and a nonempty state and no error, and it returns that state.
\<close>

theorem parseQuery_sound_complete:
  "parseQuery query = (OD_CorrelationMatchedCodeDiscarded, st) \<longleftrightarrow>
     (\<exists>ps. query = render_query ps \<and> hd query \<noteq> CHR ''?''
        \<and> length ps \<le> 16 \<and> distinct (map fst ps) \<and> (\<forall>p \<in> set ps. param_ok p)
        \<and> map_of ps ''state'' = Some st \<and> ''code'' \<in> fst ` set ps \<and> ''error'' \<notin> fst ` set ps)"
  by (simp add: parseQuery_accepts_iff query_carries_def params_ok_def MAX_QUERY_PARAMETERS_def
      conj_ac)

lemma parseQuery_sound_complete_witness:
  "parseQuery ''code=abc&state=s1'' = (OD_CorrelationMatchedCodeDiscarded, ''s1'')"
proof -
  have "param_ok (''code'', ''abc'') \<and> param_ok (''state'', ''s1'')"
    by (simp add: param_ok_def byte_of_def)
  moreover have "''code=abc&state=s1'' = render_query [(''code'', ''abc''), (''state'', ''s1'')]"
    by (simp add: render_param_def)
  ultimately show ?thesis
    by (subst parseQuery_sound_complete)
       (intro exI [of _ "[(''code'', ''abc''), (''state'', ''s1'')]"], simp add: render_param_def)
qed

text \<open>
  C30. When a callback is accepted: \<open>consume\<close> reports a match exactly for an armed guard, a
  time in the half-open interval from arming to expiry, the loopback peer, the method GET, the
  exact host and path, and a well-formed query that carries a code and exactly the guard's
  state; and whatever it reports, the guard is terminal afterwards.
\<close>

theorem consume_matches_iff:
  "(snd (consume q now g) = OD_CorrelationMatchedCodeDiscarded \<longleftrightarrow>
      og_phase g = OP_Armed \<and> og_armedAt g \<le> now \<and> now < og_expiresAt g
      \<and> cb_remoteAddress q = ''127.0.0.1'' \<and> cb_method q = ''GET''
      \<and> cb_host q = ''127.0.0.1:18080'' \<and> cb_path q = ''/ctrader/oauth/callback''
      \<and> query_carries (cb_rawQuery q) (og_state g))
   \<and> og_isTerminal (fst (consume q now g))"
proof -
  obtain d st where parsed: "parseQuery (cb_rawQuery q) = (d, st)" by fastforce
  have "query_carries (cb_rawQuery q) (og_state g) \<longleftrightarrow>
      d = OD_CorrelationMatchedCodeDiscarded \<and> og_state g = st"
    using parseQuery_accepts_iff [of "cb_rawQuery q" "og_state g"] parsed by auto
  then have "snd (consume q now g) = OD_CorrelationMatchedCodeDiscarded \<longleftrightarrow>
      og_phase g = OP_Armed \<and> og_armedAt g \<le> now \<and> now < og_expiresAt g
      \<and> cb_remoteAddress q = ''127.0.0.1'' \<and> cb_method q = ''GET''
      \<and> cb_host q = ''127.0.0.1:18080'' \<and> cb_path q = ''/ctrader/oauth/callback''
      \<and> query_carries (cb_rawQuery q) (og_state g)"
    by (cases "og_phase g")
       (auto simp: consume_def parsed constantTimeEqual_iff og_defs LOOPBACK_ADDRESS_def
         CALLBACK_HOST_def CALLBACK_PATH_def)
  then show ?thesis using consume_terminal by (simp add: og_isTerminal_def)
qed

text \<open>
  C37. One shot: in every sequence of calls, from any state of the guard, at most one callback is
  reported as a match.
\<close>

theorem oauth_match_at_most_once: "match_count cs g \<le> 1"
proof (induction cs arbitrary: g)
  case (Cons c cs)
  then show ?case using match_terminal [of c g] terminal_no_match by auto
qed simp

text \<open>
  The state never outlives the armed phase: after every sequence of calls on a fresh guard
  the stored state is empty unless the guard is armed, and once the guard was terminal it stays
  terminal and empty whatever is called.
\<close>

theorem oauth_state_cleared:
  "(og_phase (run_machine oauth_step cs oauth_guard_init) \<noteq> OP_Armed \<longrightarrow>
      og_state (run_machine oauth_step cs oauth_guard_init) = [])
   \<and> (og_isTerminal (run_machine oauth_step cs oauth_guard_init) \<longrightarrow>
      og_isTerminal (run_machine oauth_step (cs @ ds) oauth_guard_init)
      \<and> og_state (run_machine oauth_step (cs @ ds) oauth_guard_init) = [])"
  using oauth.inv_run [OF og_inv_init, of cs] oauth.cleared_after_terminal [OF og_inv_init, of cs ds]
    oauth.terminal_run [of "run_machine oauth_step cs oauth_guard_init" ds]
  by (auto simp: og_inv_def run_machine_append)

lemma oauth_state_cleared_witness:
  "og_state (run_machine oauth_step ([OC_cancel] @ [OC_expireIfDue 5]) oauth_guard_init) = []"
proof -
  have "og_isTerminal (run_machine oauth_step [OC_cancel] oauth_guard_init)"
    by (simp add: oauth_step_def og_cancel_def oauth_guard_init_def og_isTerminal_def og_defs)
  with oauth_state_cleared [of "[OC_cancel]" "[OC_expireIfDue 5]"] show ?thesis by blast
qed

lemma alphabet_plain:
  "c \<in> set BASE64URL_ALPHABET \<Longrightarrow>
     c \<noteq> CHR ''&'' \<and> c \<noteq> CHR ''='' \<and> c \<noteq> CHR ''%'' \<and> 0x20 \<le> byte_of c \<and> byte_of c \<noteq> 0x7f"
proof -
  have "list_all (\<lambda>c. c \<noteq> CHR ''&'' \<and> c \<noteq> CHR ''='' \<and> c \<noteq> CHR ''%'' \<and> 0x20 \<le> byte_of c
      \<and> byte_of c \<noteq> 0x7f) BASE64URL_ALPHABET"
    by code_simp
  then show "c \<in> set BASE64URL_ALPHABET \<Longrightarrow> ?thesis" by (auto simp: list_all_iff)
qed

lemma alphabet_encoding: "set xs \<subseteq> set BASE64URL_ALPHABET \<Longrightarrow> hasValidEncoding xs"
  by (induction xs) (auto dest: alphabet_plain)

text \<open>
  The regular handshake succeeds: a fresh guard armed on the loopback binding with 32 bytes
  of entropy accepts, at any time in the following 60 seconds, the callback of the loopback
  peer whose query carries a well-formed nonempty code and the state the guard gave to the
  authorization request; and it accepts no such callback that carries another well-formed state.
\<close>

theorem oauth_handshake_succeeds:
  assumes "arm (Some e) False \<lparr>lis_address = LOOPBACK_ADDRESS, lis_port = LOOPBACK_PORT\<rparr> t
      oauth_guard_init = (g, True)"
    and "length e = ENTROPY_BYTES" and "t \<le> now" and "now < t + CORRELATION_LIFETIME"
    and "param_ok (''code'', c)"
    and "q = \<lparr>cb_remoteAddress = LOOPBACK_ADDRESS, cb_method = ''GET'', cb_host = CALLBACK_HOST,
      cb_path = CALLBACK_PATH, cb_rawQuery = render_query [(''code'', c), (''state'', st)]\<rparr>"
  shows "(st = stateForAuthorizationRequest g \<longrightarrow>
      snd (consume q now g) = OD_CorrelationMatchedCodeDiscarded)
    \<and> (st \<noteq> stateForAuthorizationRequest g \<and> param_ok (''state'', st) \<longrightarrow>
      snd (consume q now g) \<noteq> OD_CorrelationMatchedCodeDiscarded)"
proof -
  have g: "og_phase g = OP_Armed" "og_armedAt g = t" "og_expiresAt g = t + CORRELATION_LIFETIME"
    "og_state g = base64UrlEncode e"
    using assms(1) by (auto simp: arm_def armWithEntropy_def oauth_guard_init_def split: if_splits)
  then have req: "stateForAuthorizationRequest g = og_state g"
    by (simp add: stateForAuthorizationRequest_def)
  have raw: "cb_rawQuery q = render_query [(''code'', c), (''state'', st)]"
    using assms(6) by simp
  have matches: "snd (consume q now g) = OD_CorrelationMatchedCodeDiscarded \<longleftrightarrow>
      query_carries (cb_rawQuery q) (og_state g)"
    using assms(3,4,6) g consume_matches_iff [of q now g]
    by (auto simp: LOOPBACK_ADDRESS_def CALLBACK_HOST_def CALLBACK_PATH_def)
  have carries: "query_carries (cb_rawQuery q) st" if "param_ok (''state'', st)"
    using assms(5) that unfolding query_carries_def raw
    by (intro exI [of _ "[(''code'', c), (''state'', st)]"])
       (simp add: params_ok_def MAX_QUERY_PARAMETERS_def render_param_def)
  have "param_ok (''state'', st)" if "st = og_state g"
  proof -
    have "st \<noteq> []" "set st \<subseteq> set BASE64URL_ALPHABET"
      using that base64_length [of e 10] base64_alphabet [of e] assms(2)
      by (auto simp: g ENTROPY_BYTES_def)
    then show ?thesis
      by (auto simp: param_ok_def byte_of_def alphabet_encoding dest!: alphabet_plain subsetD)
  qed
  moreover have "st = x" if "query_carries (cb_rawQuery q) x" "param_ok (''state'', st)" for x
    using carries [OF that(2)] that(1) by (simp add: parseQuery_accepts_iff [symmetric])
  ultimately show ?thesis using matches req carries by auto
qed

lemma oauth_handshake_succeeds_witness:
  "\<exists>g q. arm (Some (replicate 32 7)) False \<lparr>lis_address = LOOPBACK_ADDRESS,
       lis_port = LOOPBACK_PORT\<rparr> 5 oauth_guard_init = (g, True)
     \<and> snd (consume q 6 g) = OD_CorrelationMatchedCodeDiscarded"
proof -
  let ?b = "\<lparr>lis_address = LOOPBACK_ADDRESS, lis_port = LOOPBACK_PORT\<rparr>"
  let ?g = "fst (arm (Some (replicate 32 7)) False ?b 5 oauth_guard_init)"
  have armed: "arm (Some (replicate 32 7)) False ?b 5 oauth_guard_init = (?g, True)"
    by (simp add: arm_def armWithEntropy_def oauth_guard_init_def CORRELATION_LIFETIME_def
        INT64_MAX_def)
  have code: "param_ok (''code'', ''abc'')" by (simp add: param_ok_def byte_of_def)
  have "length (replicate 32 (7 :: u8)) = ENTROPY_BYTES" "(6 :: int) < 5 + CORRELATION_LIFETIME"
    by (simp_all add: ENTROPY_BYTES_def CORRELATION_LIFETIME_def)
  from oauth_handshake_succeeds [OF armed this(1) _ this(2) code refl] armed
  show ?thesis by auto
qed

text \<open>
  Moving a guard transfers the single use: the object moved from is terminal with its state
  cleared, and the target has exactly the phase, decision, times and state of the source.
\<close>

theorem oauth_move_transfers:
  "(let (new, old) = og_move_construct g in new = g \<and> og_isTerminal old \<and> og_state old = [])
   \<and> (let (this', old) = og_move_assign False this g in
        this' = g \<and> og_isTerminal old \<and> og_state old = [])
   \<and> og_move_assign True this this = (this, this)"
  by (simp add: og_move_construct_def og_move_assign_def og_moved_from_def og_isTerminal_def
      og_clearSensitiveState_def)

end
