(* ===== verification/OAuthDiagnostics.thy ===== *)
theory OAuthDiagnostics
  imports OAuthCorrelation
begin

text \<open>
  The OAuth boundary of the quote proof (include/CTraderGate7OAuthDiagnostics.hpp,
  src/CTraderGate7OAuthDiagnostics.cpp): the deadline and the size limit under which the
  callback is read, and the fixed, non-sensitive failure categories.
\<close>

datatype oauth_failure =
    OF_None | OF_ListenerSocketFailed | OF_ListenerBindFailed | OF_ListenerListenFailed
  | OF_ListenerNonBlockingFailed | OF_CorrelationArmFailed | OF_AuthorizationUrlFailed
  | OF_BrowserLaunchFailed | OF_CallbackTimeout | OF_CallbackWaitFailed
  | OF_CallbackAcceptFailed | OF_CallbackReadFailed | OF_CallbackMalformed
  | OF_CallbackRemoteRejected | OF_CallbackMethodRejected | OF_CallbackHostRejected
  | OF_CallbackPathRejected | OF_CallbackQueryMalformed | OF_AuthorizationDenied
  | OF_CallbackBeforeArming | OF_StateMissing | OF_StateMismatch | OF_CodeMissing
  | OF_CodeExtractionFailed | OF_CallbackReplayRejected | OF_CallbackCancelled
  | OF_ResourceExhausted

definition GATE7_OAUTH_CALLBACK_READ_TIMEOUT :: int where
  "GATE7_OAUTH_CALLBACK_READ_TIMEOUT = 2 * 1000000000"

definition gate7OAuthCallbackReadDeadline :: "int \<Rightarrow> int \<Rightarrow> int" where
  "gate7OAuthCallbackReadDeadline correlationDeadline now =
     (if now \<ge> correlationDeadline then correlationDeadline
      else if now > INT64_MAX - GATE7_OAUTH_CALLBACK_READ_TIMEOUT then correlationDeadline
      else min correlationDeadline (now + GATE7_OAUTH_CALLBACK_READ_TIMEOUT))"

text \<open>The request buffer and the result; \<open>oom\<close>: the append fails and leaves the buffer.\<close>

definition appendGate7OAuthCallbackBytes ::
  "bool \<Rightarrow> string \<Rightarrow> string \<Rightarrow> nat \<Rightarrow> string \<times> oauth_failure" where
  "appendGate7OAuthCallbackBytes oom request bytes maximumBytes =
     (if length request > maximumBytes \<or> length bytes > maximumBytes - length request
      then (request, OF_CallbackMalformed)
      else if oom then (request, OF_ResourceExhausted)
      else (request @ bytes, OF_None))"

fun classifyOAuthCorrelationFailure :: "oauth_decision \<Rightarrow> oauth_failure" where
  "classifyOAuthCorrelationFailure OD_Armed = OF_None"
| "classifyOAuthCorrelationFailure OD_Unarmed = OF_CorrelationArmFailed"
| "classifyOAuthCorrelationFailure OD_ListenerBindingRejected = OF_CorrelationArmFailed"
| "classifyOAuthCorrelationFailure OD_EntropyUnavailable = OF_CorrelationArmFailed"
| "classifyOAuthCorrelationFailure OD_AlreadyTerminal = OF_CallbackReplayRejected"
| "classifyOAuthCorrelationFailure OD_CallbackBeforeArming = OF_CallbackBeforeArming"
| "classifyOAuthCorrelationFailure OD_CallbackExpired = OF_CallbackTimeout"
| "classifyOAuthCorrelationFailure OD_Cancelled = OF_CallbackCancelled"
| "classifyOAuthCorrelationFailure OD_UnexpectedRemote = OF_CallbackRemoteRejected"
| "classifyOAuthCorrelationFailure OD_UnexpectedMethod = OF_CallbackMethodRejected"
| "classifyOAuthCorrelationFailure OD_UnexpectedHost = OF_CallbackHostRejected"
| "classifyOAuthCorrelationFailure OD_UnexpectedPath = OF_CallbackPathRejected"
| "classifyOAuthCorrelationFailure OD_MalformedQuery = OF_CallbackQueryMalformed"
| "classifyOAuthCorrelationFailure OD_DuplicateParameter = OF_CallbackQueryMalformed"
| "classifyOAuthCorrelationFailure OD_AuthorizationRejected = OF_AuthorizationDenied"
| "classifyOAuthCorrelationFailure OD_StateMissing = OF_StateMissing"
| "classifyOAuthCorrelationFailure OD_StateMismatch = OF_StateMismatch"
| "classifyOAuthCorrelationFailure OD_CodeMissing = OF_CodeMissing"
| "classifyOAuthCorrelationFailure OD_CorrelationMatchedCodeDiscarded = OF_None"

primrec safeOAuthDiagnostic :: "oauth_failure \<Rightarrow> string" where
  "safeOAuthDiagnostic OF_None = ''gate7_oauth_ok''"
| "safeOAuthDiagnostic OF_ListenerSocketFailed = ''gate7_oauth_listener_socket_failed''"
| "safeOAuthDiagnostic OF_ListenerBindFailed = ''gate7_oauth_listener_bind_failed''"
| "safeOAuthDiagnostic OF_ListenerListenFailed = ''gate7_oauth_listener_listen_failed''"
| "safeOAuthDiagnostic OF_ListenerNonBlockingFailed = ''gate7_oauth_listener_nonblocking_failed''"
| "safeOAuthDiagnostic OF_CorrelationArmFailed = ''gate7_oauth_correlation_arm_failed''"
| "safeOAuthDiagnostic OF_AuthorizationUrlFailed = ''gate7_oauth_authorization_url_failed''"
| "safeOAuthDiagnostic OF_BrowserLaunchFailed = ''gate7_oauth_browser_launch_failed''"
| "safeOAuthDiagnostic OF_CallbackTimeout = ''gate7_oauth_callback_timeout''"
| "safeOAuthDiagnostic OF_CallbackWaitFailed = ''gate7_oauth_callback_wait_failed''"
| "safeOAuthDiagnostic OF_CallbackAcceptFailed = ''gate7_oauth_callback_accept_failed''"
| "safeOAuthDiagnostic OF_CallbackReadFailed = ''gate7_oauth_callback_read_failed''"
| "safeOAuthDiagnostic OF_CallbackMalformed = ''gate7_oauth_callback_malformed''"
| "safeOAuthDiagnostic OF_CallbackRemoteRejected = ''gate7_oauth_callback_remote_rejected''"
| "safeOAuthDiagnostic OF_CallbackMethodRejected = ''gate7_oauth_callback_method_rejected''"
| "safeOAuthDiagnostic OF_CallbackHostRejected = ''gate7_oauth_callback_host_rejected''"
| "safeOAuthDiagnostic OF_CallbackPathRejected = ''gate7_oauth_callback_path_rejected''"
| "safeOAuthDiagnostic OF_CallbackQueryMalformed = ''gate7_oauth_callback_query_malformed''"
| "safeOAuthDiagnostic OF_AuthorizationDenied = ''gate7_oauth_authorization_denied''"
| "safeOAuthDiagnostic OF_CallbackBeforeArming = ''gate7_oauth_callback_before_arming''"
| "safeOAuthDiagnostic OF_StateMissing = ''gate7_oauth_state_missing''"
| "safeOAuthDiagnostic OF_StateMismatch = ''gate7_oauth_state_mismatch''"
| "safeOAuthDiagnostic OF_CodeMissing = ''gate7_oauth_code_missing''"
| "safeOAuthDiagnostic OF_CodeExtractionFailed = ''gate7_oauth_code_extraction_failed''"
| "safeOAuthDiagnostic OF_CallbackReplayRejected = ''gate7_oauth_callback_replay_rejected''"
| "safeOAuthDiagnostic OF_CallbackCancelled = ''gate7_oauth_callback_cancelled''"
| "safeOAuthDiagnostic OF_ResourceExhausted = ''gate7_oauth_resource_exhausted''"

subsection \<open>Reading the callback\<close>

text \<open>A read loop: the fragments in order until one of them fails.\<close>

fun read_callback :: "nat \<Rightarrow> string \<Rightarrow> string list \<Rightarrow> string \<times> oauth_failure" where
  "read_callback maximumBytes request [] = (request, OF_None)"
| "read_callback maximumBytes request (bytes # frags) =
     (let (request', failure) = appendGate7OAuthCallbackBytes False request bytes maximumBytes
      in if failure = OF_None then read_callback maximumBytes request' frags
         else (request', failure))"

text \<open>
  Reading the callback in fragments is bounded and lossless: with room for the buffer it
  started with, the buffer never exceeds the limit, reading succeeds exactly when all fragments
  fit, and then the buffer is the old content followed by all the fragments in order.
\<close>

theorem callback_read_bounded:
  assumes "length request \<le> maximumBytes"
  shows "length (fst (read_callback maximumBytes request frags)) \<le> maximumBytes
    \<and> (snd (read_callback maximumBytes request frags) = OF_None \<longleftrightarrow>
         length request + length (concat frags) \<le> maximumBytes)
    \<and> (snd (read_callback maximumBytes request frags) = OF_None \<longrightarrow>
         fst (read_callback maximumBytes request frags) = request @ concat frags)"
  using assms
proof (induction frags arbitrary: request)
  case (Cons bytes frags)
  show ?case
  proof (cases "length bytes > maximumBytes - length request")
    case True
    with Cons.prems show ?thesis by (simp add: appendGate7OAuthCallbackBytes_def)
  next
    case False
    with Cons.prems have "length (request @ bytes) \<le> maximumBytes" by simp
    from Cons.IH [OF this] False Cons.prems show ?thesis
      by (simp add: appendGate7OAuthCallbackBytes_def add.assoc)
  qed
qed simp

lemma callback_read_bounded_witness:
  "read_callback 5 ''a'' [''bc'', ''de''] = (''abcde'', OF_None)"
proof -
  have "length ''a'' \<le> (5 :: nat)" by simp
  from callback_read_bounded [OF this, of "[''bc'', ''de'']"] show ?thesis
    by (cases "read_callback 5 ''a'' [''bc'', ''de'']") simp
qed

text \<open>
  The read deadline: for clock values in the 64-bit range nothing overflows, the deadline
  never exceeds the deadline of the correlation, it is exactly the earlier of that deadline and
  two seconds from now while the correlation is still open, and it is not in the past.
\<close>

theorem read_deadline_exact:
  assumes "in_i64 deadline" and "in_i64 now"
  shows "in_i64 (gate7OAuthCallbackReadDeadline deadline now)
    \<and> gate7OAuthCallbackReadDeadline deadline now
        = (if now < deadline then min deadline (now + 2 * 1000000000) else deadline)
    \<and> (now < deadline \<longrightarrow> now < gate7OAuthCallbackReadDeadline deadline now)"
  using assms
  by (auto simp: gate7OAuthCallbackReadDeadline_def GATE7_OAUTH_CALLBACK_READ_TIMEOUT_def
      in_i64_def min_def)

lemma read_deadline_exact_witness:
  "gate7OAuthCallbackReadDeadline 9000000000 1000000000 = 3000000000"
  using read_deadline_exact [of 9000000000 1000000000] by (simp add: i64_limits)

text \<open>
  Diagnostics reveal the category and nothing else: the fixed texts of distinct failures are
  distinct, and a correlation decision is classified as "no failure" exactly when the guard was
  armed or the callback matched.
\<close>

theorem oauth_diagnostics_faithful:
  "(safeOAuthDiagnostic f = safeOAuthDiagnostic f' \<longleftrightarrow> f = f')
   \<and> (og_safeDiagnostic d = og_safeDiagnostic d' \<longleftrightarrow> d = d')
   \<and> (classifyOAuthCorrelationFailure d = OF_None \<longleftrightarrow>
        d = OD_Armed \<or> d = OD_CorrelationMatchedCodeDiscarded)"
proof -
  have "safeOAuthDiagnostic f = safeOAuthDiagnostic f' \<longleftrightarrow> f = f'"
    by (cases f; cases f') simp_all
  moreover have "og_safeDiagnostic d = og_safeDiagnostic d' \<longleftrightarrow> d = d'"
    by (cases d; cases d') (simp_all add: og_safeDiagnostic_def)
  ultimately show ?thesis by (cases d) simp_all
qed

end
