(* ===== verification/Gate6.thy ===== *)
theory Gate6
  imports Interfaces "HOL-Library.Char_ord" "HOL-Library.List_Lexorder"
begin

text \<open>
  The two-step proof that selects one demo account (include/CTraderGate6Proof.hpp,
  src/CTraderGate6Proof.cpp).  Gate 6A lists the eligible demo accounts, the operator confirms
  one title, gate 6B finds that title again on a new connection, and the account
  authentication must answer for exactly that account.  Allocation failures are arguments.
\<close>

subsection \<open>Configuration\<close>

definition G6_AUTHORIZATION_HOST :: string where "G6_AUTHORIZATION_HOST = ''id.ctrader.com''"
definition G6_TOKEN_HOST :: string where "G6_TOKEN_HOST = ''openapi.ctrader.com''"
definition DEMO_HOST :: string where "DEMO_HOST = ''demo.ctraderapi.com''"
definition DEMO_PORT :: u16 where "DEMO_PORT = 5035"
definition G6_OAUTH_SCOPE :: string where "G6_OAUTH_SCOPE = ''trading''"

definition g6_isAllowedOpenApiEndpoint :: "string \<Rightarrow> u16 \<Rightarrow> bool" where
  "g6_isAllowedOpenApiEndpoint host port \<longleftrightarrow> host = DEMO_HOST \<and> port = DEMO_PORT"

definition g6_isAllowedOutboundPayload :: "u32 \<Rightarrow> bool" where
  "g6_isAllowedOutboundPayload payloadType \<longleftrightarrow>
     payloadType = 51 \<or> payloadType = 2100 \<or> payloadType = 2102 \<or> payloadType = 2149"

subsection \<open>Sensitive strings\<close>

text \<open>The owner of a secret; moves return the target and the object moved from.\<close>

record sensitive_string =
  sen_value :: string

definition sensitive_clear :: "sensitive_string \<Rightarrow> sensitive_string" where
  "sensitive_clear s = s\<lparr>sen_value := secureClear (sen_value s)\<rparr>"

definition sensitive_of :: "string \<Rightarrow> sensitive_string" where
  "sensitive_of v = \<lparr>sen_value = v\<rparr>"

definition sensitive_move :: "sensitive_string \<Rightarrow> sensitive_string \<times> sensitive_string" where
  "sensitive_move other = (\<lparr>sen_value = sen_value other\<rparr>, sensitive_clear other)"

definition sensitive_move_assign ::
  "bool \<Rightarrow> sensitive_string \<Rightarrow> sensitive_string \<Rightarrow> sensitive_string \<times> sensitive_string" where
  "sensitive_move_assign same this other =
     (if same then (this, other)
      else ((sensitive_clear this)\<lparr>sen_value := sen_value other\<rparr>, sensitive_clear other))"

subsection \<open>State\<close>

datatype gate6_decision =
    G6_Ready | G6_AwaitingWadeCheckpoint | G6_ReadyForGate6B
  | G6_ReadyForAccountAuthentication | G6_AccountProofSucceeded | G6_Cancelled
  | G6_AlreadyTerminal | G6_WrongPhase | G6_StaleConnectionGeneration | G6_CorrelationRejected
  | G6_TokenOwnershipRejected | G6_TradingScopeRequired | G6_LiveAccountExcluded
  | G6_MissingAccountMetadata | G6_UnsafeBrokerMetadata | G6_InvalidAccountIdentifier
  | G6_NoEligibleDemoAccount | G6_AmbiguousDemoAccount | G6_WadeSelectionRejected
  | G6_AccountAuthenticationMismatch | G6_ResourceExhausted

datatype gate6_phase =
  PH_Gate6AReady | PH_AwaitingWade | PH_Gate6BReady | PH_AccountAuthReady | PH_Complete | PH_Terminal

record gate6_account =
  ga_accountId :: u64
  ga_isLive :: "bool option"
  ga_brokerTitleShort :: "string option"

record gate6_evidence =
  ge_currentConnectionGeneration :: bool
  ge_correlationMatched :: bool
  ge_tokenOwned :: bool
  ge_tradingScope :: bool
  ge_accounts :: "gate6_account list"

record volatile_candidate =
  vc_accountId :: u64
  vc_brokerTitleShort :: string

record safe_candidate =
  sc_isLive :: bool
  sc_brokerTitleShort :: string

record gate6_proof =
  g6_phase :: gate6_phase
  g6_lastDecision :: gate6_decision
  g6_volatileCandidates :: "volatile_candidate list"
  g6_safeCandidates :: "safe_candidate list"
  g6_approvedBrokerTitle :: string
  g6_selectedAccountId :: u64

definition gate6_init :: gate6_proof where
  "gate6_init = \<lparr>g6_phase = PH_Gate6AReady, g6_lastDecision = G6_Ready,
     g6_volatileCandidates = [], g6_safeCandidates = [], g6_approvedBrokerTitle = [],
     g6_selectedAccountId = 0\<rparr>"

definition isSafeBrokerTitle :: "string \<Rightarrow> bool" where
  "isSafeBrokerTitle value =
     (if value = [] \<or> length value > 128 then False
      else \<not> list_ex (\<lambda>c. byte_of c < 0x20 \<or> byte_of c = 0x7f) value)"

definition isUsableAccountId :: "u64 \<Rightarrow> bool" where
  "isUsableAccountId accountId \<longleftrightarrow> accountId > 0 \<and> accountId \<le> 0x7FFFFFFFFFFFFFFF"

definition validateEvidence :: "gate6_evidence \<Rightarrow> gate6_decision" where
  "validateEvidence e =
     (if \<not> ge_currentConnectionGeneration e then G6_StaleConnectionGeneration
      else if \<not> ge_correlationMatched e then G6_CorrelationRejected
      else if \<not> ge_tokenOwned e then G6_TokenOwnershipRejected
      else if \<not> ge_tradingScope e then G6_TradingScopeRequired
      else G6_Ready)"

subsection \<open>Clearing\<close>

definition clear_volatile :: "volatile_candidate \<Rightarrow> volatile_candidate" where
  "clear_volatile c = c\<lparr>vc_accountId := 0, vc_brokerTitleShort := secureClear (vc_brokerTitleShort c)\<rparr>"

definition clear_safe :: "safe_candidate \<Rightarrow> safe_candidate" where
  "clear_safe c = c\<lparr>sc_brokerTitleShort := secureClear (sc_brokerTitleShort c)\<rparr>"

definition g6_clearAccountIdentifiers :: "gate6_proof \<Rightarrow> gate6_proof" where
  "g6_clearAccountIdentifiers s =
     s\<lparr>g6_volatileCandidates := take 0 (map clear_volatile (g6_volatileCandidates s)),
       g6_selectedAccountId := 0\<rparr>"

definition g6_clearAll :: "gate6_proof \<Rightarrow> gate6_proof" where
  "g6_clearAll s =
     (let s = g6_clearAccountIdentifiers s
      in s\<lparr>g6_safeCandidates := take 0 (map clear_safe (g6_safeCandidates s)),
           g6_approvedBrokerTitle := secureClear (g6_approvedBrokerTitle s)\<rparr>)"

definition g6_finish :: "gate6_decision \<Rightarrow> gate6_proof \<Rightarrow> gate6_proof \<times> gate6_decision" where
  "g6_finish decision s =
     ((g6_clearAll s)\<lparr>g6_phase := PH_Terminal, g6_lastDecision := decision\<rparr>, decision)"

definition g6_isTerminal :: "gate6_proof \<Rightarrow> bool" where
  "g6_isTerminal s \<longleftrightarrow> g6_phase s = PH_Terminal \<or> g6_phase s = PH_Complete"

definition g6_decide :: "gate6_decision \<Rightarrow> gate6_proof \<Rightarrow> gate6_proof \<times> gate6_decision" where
  "g6_decide decision s = (s\<lparr>g6_lastDecision := decision\<rparr>, decision)"

subsection \<open>Gate 6A\<close>

text \<open>
  The loop over the accounts.  \<open>fails k\<close>: the \<open>k\<close>th allocation of the call throws, result
  \<open>None\<close>; \<open>Inl\<close> is an early return.
\<close>

fun g6_collect :: "(nat \<Rightarrow> bool) \<Rightarrow> gate6_account list \<Rightarrow> volatile_candidate list
    \<Rightarrow> (gate6_decision + volatile_candidate list) option" where
  "g6_collect fails [] candidates = Some (Inr candidates)"
| "g6_collect fails (account # accounts) candidates =
     (case ga_isLive account of
        None \<Rightarrow> g6_collect fails accounts candidates
      | Some True \<Rightarrow> g6_collect fails accounts candidates
      | Some False \<Rightarrow>
          (case ga_brokerTitleShort account of
             None \<Rightarrow> g6_collect fails accounts candidates
           | Some title \<Rightarrow>
               if \<not> isSafeBrokerTitle title then Some (Inl G6_UnsafeBrokerMetadata)
               else if \<not> isUsableAccountId (ga_accountId account)
               then Some (Inl G6_InvalidAccountIdentifier)
               else if fails (length candidates) then None
               else g6_collect fails accounts (candidates @
                 [\<lparr>vc_accountId = ga_accountId account, vc_brokerTitleShort = title\<rparr>])))"

text \<open>The loop comparing neighbours after the sort.\<close>

fun has_adjacent_duplicate :: "volatile_candidate list \<Rightarrow> bool" where
  "has_adjacent_duplicate (a # b # cs) =
     (vc_brokerTitleShort a = vc_brokerTitleShort b \<or> has_adjacent_duplicate (b # cs))"
| "has_adjacent_duplicate cs = False"

definition acceptGate6AImpl ::
  "(nat \<Rightarrow> bool) \<Rightarrow> gate6_evidence \<Rightarrow> gate6_proof \<Rightarrow> (gate6_proof \<times> gate6_decision) option" where
  "acceptGate6AImpl fails e s =
     (if g6_phase s = PH_Terminal \<or> g6_phase s = PH_Complete
      then Some (g6_decide G6_AlreadyTerminal s)
      else if g6_phase s \<noteq> PH_Gate6AReady then Some (g6_finish G6_WrongPhase s)
      else if validateEvidence e \<noteq> G6_Ready then Some (g6_finish (validateEvidence e) s)
      else
        let s = (g6_clearAccountIdentifiers s)\<lparr>g6_safeCandidates := []\<rparr>
        in case g6_collect fails (ge_accounts e) [] of
             None \<Rightarrow> None
           | Some (Inl decision) \<Rightarrow> Some (g6_finish decision s)
           | Some (Inr candidates) \<Rightarrow>
               if candidates = [] then Some (g6_finish G6_NoEligibleDemoAccount s)
               else
                 let sorted_candidates = sort_key vc_brokerTitleShort candidates;
                     s = s\<lparr>g6_volatileCandidates := sorted_candidates\<rparr>
                 in if has_adjacent_duplicate sorted_candidates
                    then Some (g6_finish G6_AmbiguousDemoAccount s)
                    else if list_ex fails [length candidates ..< 2 * length candidates + 1]
                    then None
                    else
                      let s = s\<lparr>g6_safeCandidates :=
                            map (\<lambda>c. \<lparr>sc_isLive = False,
                                     sc_brokerTitleShort = vc_brokerTitleShort c\<rparr>)
                              sorted_candidates,
                            g6_phase := PH_AwaitingWade\<rparr>
                      in Some (g6_decide G6_AwaitingWadeCheckpoint s))"

text \<open>
  The \<open>catch\<close> clears everything whatever the failed call left behind, so the state it works on
  is taken from before the call.
\<close>

definition acceptGate6A ::
  "(nat \<Rightarrow> bool) \<Rightarrow> gate6_evidence \<Rightarrow> gate6_proof \<Rightarrow> gate6_proof \<times> gate6_decision" where
  "acceptGate6A fails e s =
     (case acceptGate6AImpl fails e s of
        None \<Rightarrow> g6_finish G6_ResourceExhausted s
      | Some result \<Rightarrow> result)"

subsection \<open>The operator's selection\<close>

definition confirmWadeSelectionImpl ::
  "bool \<Rightarrow> string \<Rightarrow> gate6_proof \<Rightarrow> (gate6_proof \<times> gate6_decision) option" where
  "confirmWadeSelectionImpl oom title s =
     (if g6_phase s = PH_Terminal \<or> g6_phase s = PH_Complete
      then Some (g6_decide G6_AlreadyTerminal s)
      else if g6_phase s \<noteq> PH_AwaitingWade \<or> \<not> isSafeBrokerTitle title
      then Some (g6_finish G6_WadeSelectionRejected s)
      else if find (\<lambda>c. vc_brokerTitleShort c = title) (g6_volatileCandidates s) = None
      then Some (g6_finish G6_WadeSelectionRejected s)
      else if oom then None
      else
        let s = s\<lparr>g6_approvedBrokerTitle := title\<rparr>;
            s = (g6_clearAccountIdentifiers s)\<lparr>g6_safeCandidates := [], g6_phase := PH_Gate6BReady\<rparr>
        in Some (g6_decide G6_ReadyForGate6B s))"

definition confirmWadeSelection ::
  "bool \<Rightarrow> string \<Rightarrow> gate6_proof \<Rightarrow> gate6_proof \<times> gate6_decision" where
  "confirmWadeSelection oom title s =
     (case confirmWadeSelectionImpl oom title s of
        None \<Rightarrow> g6_finish G6_ResourceExhausted s
      | Some result \<Rightarrow> result)"

subsection \<open>Gate 6B and the account authentication\<close>

text \<open>The loop of gate 6B: the last match and the number of matches, or an early return.\<close>

fun g6_match :: "string \<Rightarrow> gate6_account list \<Rightarrow> u64 \<Rightarrow> nat \<Rightarrow> gate6_decision + u64 \<times> nat" where
  "g6_match approved [] match_id matchCount = Inr (match_id, matchCount)"
| "g6_match approved (account # accounts) match_id matchCount =
     (if ga_isLive account = None \<or> ga_isLive account = Some True
         \<or> ga_brokerTitleShort account = None
      then g6_match approved accounts match_id matchCount
      else if \<not> isSafeBrokerTitle (the (ga_brokerTitleShort account))
      then Inl G6_UnsafeBrokerMetadata
      else if the (ga_brokerTitleShort account) \<noteq> approved
      then g6_match approved accounts match_id matchCount
      else if \<not> isUsableAccountId (ga_accountId account) then Inl G6_InvalidAccountIdentifier
      else g6_match approved accounts (ga_accountId account) (matchCount + 1))"

definition acceptGate6B ::
  "gate6_evidence \<Rightarrow> gate6_proof \<Rightarrow> gate6_proof \<times> gate6_decision" where
  "acceptGate6B e s =
     (if g6_phase s = PH_Terminal \<or> g6_phase s = PH_Complete then g6_decide G6_AlreadyTerminal s
      else if g6_phase s \<noteq> PH_Gate6BReady \<or> g6_approvedBrokerTitle s = []
      then g6_finish G6_WrongPhase s
      else if validateEvidence e \<noteq> G6_Ready then g6_finish (validateEvidence e) s
      else case g6_match (g6_approvedBrokerTitle s) (ge_accounts e) 0 0 of
        Inl decision \<Rightarrow> g6_finish decision s
      | Inr (match_id, matchCount) \<Rightarrow>
          if matchCount = 0 then g6_finish G6_NoEligibleDemoAccount s
          else if matchCount \<noteq> 1 then g6_finish G6_AmbiguousDemoAccount s
          else g6_decide G6_ReadyForAccountAuthentication
                 (s\<lparr>g6_selectedAccountId := match_id, g6_phase := PH_AccountAuthReady\<rparr>))"

definition g6_accountIdForAuthentication :: "gate6_proof \<Rightarrow> int option" where
  "g6_accountIdForAuthentication s =
     (if g6_phase s \<noteq> PH_AccountAuthReady \<or> \<not> isUsableAccountId (g6_selectedAccountId s)
      then None else Some (i64_of_u64 (g6_selectedAccountId s)))"

definition g6_acceptAccountAuthentication ::
  "int \<Rightarrow> gate6_proof \<Rightarrow> gate6_proof \<times> gate6_decision" where
  "g6_acceptAccountAuthentication responseAccountId s =
     (if g6_phase s = PH_Terminal \<or> g6_phase s = PH_Complete then g6_decide G6_AlreadyTerminal s
      else
        let matches = (g6_phase s = PH_AccountAuthReady \<and> responseAccountId > 0
              \<and> u64_of_i64 responseAccountId = g6_selectedAccountId s)
        in if \<not> matches then g6_finish G6_AccountAuthenticationMismatch s
           else g6_decide G6_AccountProofSucceeded ((g6_clearAll s)\<lparr>g6_phase := PH_Complete\<rparr>))"

definition g6_cancel :: "gate6_proof \<Rightarrow> gate6_proof \<times> gate6_decision" where
  "g6_cancel s =
     (if g6_phase s = PH_Terminal \<or> g6_phase s = PH_Complete then g6_decide G6_AlreadyTerminal s
      else g6_finish G6_Cancelled s)"

definition g6_isAwaitingWadeCheckpoint :: "gate6_proof \<Rightarrow> bool" where
  "g6_isAwaitingWadeCheckpoint s \<longleftrightarrow> g6_phase s = PH_AwaitingWade"

definition g6_safeDiagnostic :: "gate6_decision \<Rightarrow> string" where
  "g6_safeDiagnostic decision =
     (case decision of
        G6_Ready \<Rightarrow> ''gate6_ready''
      | G6_AwaitingWadeCheckpoint \<Rightarrow> ''gate6_checkpoint_wait''
      | G6_ReadyForGate6B \<Rightarrow> ''gate6b_ready''
      | G6_ReadyForAccountAuthentication \<Rightarrow> ''gate6_account_auth_ready''
      | G6_AccountProofSucceeded \<Rightarrow> ''gate6_account_proof_succeeded''
      | G6_Cancelled \<Rightarrow> ''gate6_cancelled''
      | G6_AlreadyTerminal \<Rightarrow> ''gate6_terminal_replay_rejected''
      | G6_WrongPhase \<Rightarrow> ''gate6_wrong_phase''
      | G6_StaleConnectionGeneration \<Rightarrow> ''gate6_stale_generation''
      | G6_CorrelationRejected \<Rightarrow> ''gate6_correlation_rejected''
      | G6_TokenOwnershipRejected \<Rightarrow> ''gate6_token_ownership_rejected''
      | G6_TradingScopeRequired \<Rightarrow> ''gate6_trading_scope_required''
      | G6_LiveAccountExcluded \<Rightarrow> ''gate6_live_account_excluded''
      | G6_MissingAccountMetadata \<Rightarrow> ''gate6_account_metadata_missing''
      | G6_UnsafeBrokerMetadata \<Rightarrow> ''gate6_broker_metadata_rejected''
      | G6_InvalidAccountIdentifier \<Rightarrow> ''gate6_account_identifier_rejected''
      | G6_NoEligibleDemoAccount \<Rightarrow> ''gate6_demo_account_missing''
      | G6_AmbiguousDemoAccount \<Rightarrow> ''gate6_demo_account_ambiguous''
      | G6_WadeSelectionRejected \<Rightarrow> ''gate6_wade_selection_rejected''
      | G6_AccountAuthenticationMismatch \<Rightarrow> ''gate6_account_auth_mismatch''
      | G6_ResourceExhausted \<Rightarrow> ''gate6_resource_exhausted'')"

end
