(* ===== verification/Gate6Props.thy ===== *)
theory Gate6Props
  imports Gate6 "HOL-Library.Multiset"
begin

text \<open>
  Correctness of the account proof: what its loops compute, the account it hands out for
  authentication and where that account comes from, the order of its steps and the erasure of
  everything it held.
\<close>

subsection \<open>Runs\<close>

datatype gate6_call =
    GC_6A "nat \<Rightarrow> bool" gate6_evidence
  | GC_confirm bool string
  | GC_6B gate6_evidence
  | GC_auth int
  | GC_cancel

fun g6_exec :: "gate6_call \<Rightarrow> gate6_proof \<Rightarrow> gate6_proof \<times> gate6_decision" where
  "g6_exec (GC_6A fails e) s = acceptGate6A fails e s"
| "g6_exec (GC_confirm oom title) s = confirmWadeSelection oom title s"
| "g6_exec (GC_6B e) s = acceptGate6B e s"
| "g6_exec (GC_auth x) s = g6_acceptAccountAuthentication x s"
| "g6_exec GC_cancel s = g6_cancel s"

definition g6_step :: "gate6_call \<Rightarrow> gate6_proof \<Rightarrow> gate6_proof" where
  "g6_step c s = fst (g6_exec c s)"

subsection \<open>The loops\<close>

definition eligible :: "gate6_account \<Rightarrow> bool" where
  "eligible a \<longleftrightarrow> ga_isLive a = Some False \<and> ga_brokerTitleShort a \<noteq> None"

definition title_of :: "gate6_account \<Rightarrow> string" where
  "title_of a = the (ga_brokerTitleShort a)"

definition candidate_of :: "gate6_account \<Rightarrow> volatile_candidate" where
  "candidate_of a = \<lparr>vc_accountId = ga_accountId a, vc_brokerTitleShort = title_of a\<rparr>"

definition acceptable :: "gate6_account \<Rightarrow> bool" where
  "acceptable a \<longleftrightarrow> isSafeBrokerTitle (title_of a) \<and> isUsableAccountId (ga_accountId a)"

lemma g6_collect_result:
  "g6_collect fails as cs = Some (Inr cs') \<Longrightarrow>
     cs' = cs @ map candidate_of (filter eligible as)
     \<and> (\<forall>a \<in> set as. eligible a \<longrightarrow> acceptable a)"
proof (induction as arbitrary: cs)
  case (Cons a as)
  then show ?case
    using Cons.IH [of cs] Cons.IH [of "cs @ [candidate_of a]"]
    by (auto simp: eligible_def candidate_of_def title_of_def acceptable_def
        split: option.splits bool.splits if_splits)
qed simp

lemma g6_collect_succeeds:
  "\<forall>a \<in> set as. eligible a \<longrightarrow> acceptable a \<Longrightarrow>
     g6_collect (\<lambda>_. False) as cs = Some (Inr (cs @ map candidate_of (filter eligible as)))"
  by (induction as arbitrary: cs)
     (auto simp: eligible_def candidate_of_def title_of_def acceptable_def
       split: option.splits bool.splits)

definition titled :: "string \<Rightarrow> gate6_account \<Rightarrow> bool" where
  "titled t a \<longleftrightarrow> eligible a \<and> title_of a = t"

lemma g6_match_result:
  "g6_match t as m n = Inr (m', n') \<Longrightarrow>
     n' = n + length (filter (titled t) as)
     \<and> m' = (if filter (titled t) as = [] then m else ga_accountId (last (filter (titled t) as)))
     \<and> (\<forall>a \<in> set as. titled t a \<longrightarrow> isUsableAccountId (ga_accountId a))"
proof (induction as arbitrary: m n)
  case (Cons a as)
  have t: "titled t a \<longleftrightarrow> \<not> (ga_isLive a = None \<or> ga_isLive a = Some True
      \<or> ga_brokerTitleShort a = None) \<and> the (ga_brokerTitleShort a) = t"
    by (auto simp: titled_def eligible_def title_of_def)
  show ?case
  proof (cases "titled t a")
    case True
    with Cons.prems t have "isUsableAccountId (ga_accountId a)"
      and "g6_match t as (ga_accountId a) (n + 1) = Inr (m', n')"
      by (auto split: if_splits)
    with Cons.IH [OF this(2)] True show ?thesis by simp
  next
    case False
    with Cons.prems t have "g6_match t as m n = Inr (m', n')"
      by (auto split: if_splits)
    with Cons.IH [OF this] False show ?thesis by simp
  qed
qed simp

lemma g6_match_succeeds:
  "\<forall>a \<in> set as. eligible a \<longrightarrow> acceptable a \<Longrightarrow>
     g6_match t as m n = Inr (if filter (titled t) as = [] then m
         else ga_accountId (last (filter (titled t) as)), n + length (filter (titled t) as))"
  by (induction as arbitrary: m n)
     (auto simp: titled_def eligible_def title_of_def acceptable_def)

lemma adjacent_duplicate_iff:
  "sorted (map vc_brokerTitleShort cs) \<Longrightarrow>
     has_adjacent_duplicate cs \<longleftrightarrow> \<not> distinct (map vc_brokerTitleShort cs)"
proof (induction cs rule: has_adjacent_duplicate.induct)
  case (1 a b cs)
  then show ?case by (auto simp: image_iff dest: antisym)
qed simp_all

lemma sort_distinct_titles:
  "distinct (map vc_brokerTitleShort (sort_key vc_brokerTitleShort cs))
     \<longleftrightarrow> distinct (map vc_brokerTitleShort cs)"
  by (rule mset_eq_imp_distinct_iff) simp

lemma sort_nonempty: "sort_key f xs = [] \<longleftrightarrow> xs = []"
  by (metis length_0_conv length_sort)

lemma adjacent_duplicate_sort:
  "has_adjacent_duplicate (sort_key vc_brokerTitleShort cs) \<longleftrightarrow>
     \<not> distinct (map vc_brokerTitleShort cs)"
  using adjacent_duplicate_iff [of "sort_key vc_brokerTitleShort cs"] sort_distinct_titles [of cs]
  by simp

subsection \<open>Invariant\<close>

definition g6_cleared :: "gate6_proof \<Rightarrow> bool" where
  "g6_cleared s \<longleftrightarrow> g6_volatileCandidates s = [] \<and> g6_safeCandidates s = []
     \<and> g6_approvedBrokerTitle s = [] \<and> g6_selectedAccountId s = 0"

definition g6_inv :: "gate6_proof \<Rightarrow> bool" where
  "g6_inv s \<longleftrightarrow>
     (case g6_phase s of
        PH_Gate6AReady \<Rightarrow> g6_cleared s
      | PH_AwaitingWade \<Rightarrow> g6_approvedBrokerTitle s = [] \<and> g6_selectedAccountId s = 0
          \<and> g6_volatileCandidates s \<noteq> []
          \<and> distinct (map vc_brokerTitleShort (g6_volatileCandidates s))
          \<and> sorted (map vc_brokerTitleShort (g6_volatileCandidates s))
          \<and> map sc_brokerTitleShort (g6_safeCandidates s)
              = map vc_brokerTitleShort (g6_volatileCandidates s)
          \<and> list_all (\<lambda>c. \<not> sc_isLive c) (g6_safeCandidates s)
      | PH_Gate6BReady \<Rightarrow> g6_volatileCandidates s = [] \<and> g6_safeCandidates s = []
          \<and> isSafeBrokerTitle (g6_approvedBrokerTitle s) \<and> g6_selectedAccountId s = 0
      | PH_AccountAuthReady \<Rightarrow> g6_volatileCandidates s = [] \<and> g6_safeCandidates s = []
          \<and> isUsableAccountId (g6_selectedAccountId s)
      | PH_Complete \<Rightarrow> g6_cleared s
      | PH_Terminal \<Rightarrow> g6_cleared s)"

lemmas g6_defs = g6_finish_def g6_decide_def g6_clearAll_def g6_clearAccountIdentifiers_def Let_def

lemma g6_finish_inv: "g6_inv (fst (g6_finish d s))"
  by (simp add: g6_inv_def g6_cleared_def g6_defs)

lemma g6_finish_phase: "g6_phase (fst (g6_finish d s)) = PH_Terminal"
  by (simp add: g6_defs)

lemma g6_finish_eqD: "g6_finish d s = (a, b) \<Longrightarrow> g6_inv a \<and> g6_phase a = PH_Terminal"
  by (metis fst_conv g6_finish_inv g6_finish_phase)

text \<open>Either a call ends the proof, or it does one of five things.\<close>

lemma acceptGate6A_cases:
  obtains (ended) "g6_phase (fst (acceptGate6A fails e s)) = PH_Terminal"
      "g6_inv (fst (acceptGate6A fails e s))" "\<not> g6_isTerminal s"
  | (replay) "g6_isTerminal s" "acceptGate6A fails e s = g6_decide G6_AlreadyTerminal s"
  | (advance) cs where "g6_phase s = PH_Gate6AReady" "validateEvidence e = G6_Ready"
      "cs = sort_key vc_brokerTitleShort (map candidate_of (filter eligible (ge_accounts e)))"
      "cs \<noteq> []" "distinct (map vc_brokerTitleShort cs)"
      "\<forall>a \<in> set (ge_accounts e). eligible a \<longrightarrow> acceptable a"
      "acceptGate6A fails e s = g6_decide G6_AwaitingWadeCheckpoint
         ((g6_clearAccountIdentifiers s)\<lparr>g6_volatileCandidates := cs,
            g6_safeCandidates := map (\<lambda>c. \<lparr>sc_isLive = False,
               sc_brokerTitleShort = vc_brokerTitleShort c\<rparr>) cs, g6_phase := PH_AwaitingWade\<rparr>)"
proof -
  consider "g6_isTerminal s" | "\<not> g6_isTerminal s" "g6_phase s \<noteq> PH_Gate6AReady"
    | "g6_phase s = PH_Gate6AReady" "validateEvidence e \<noteq> G6_Ready"
    | "g6_phase s = PH_Gate6AReady" "validateEvidence e = G6_Ready"
    by (auto simp: g6_isTerminal_def)
  then show thesis
  proof cases
    case 1
    then show thesis
      using replay by (auto simp: acceptGate6A_def acceptGate6AImpl_def g6_isTerminal_def)
  next
    case 2
    then show thesis
      using ended by (auto simp: acceptGate6A_def acceptGate6AImpl_def g6_isTerminal_def
          g6_finish_inv g6_finish_phase)
  next
    case 3
    then show thesis
      using ended by (auto simp: acceptGate6A_def acceptGate6AImpl_def g6_isTerminal_def
          g6_finish_inv g6_finish_phase)
  next
    case 4
    show thesis
    proof (cases "g6_phase (fst (acceptGate6A fails e s)) = PH_Terminal")
      case True
      then have "g6_inv (fst (acceptGate6A fails e s))"
        using 4 by (auto simp: acceptGate6A_def acceptGate6AImpl_def g6_finish_inv g6_decide_def
            Let_def split: option.splits sum.splits if_splits dest!: g6_finish_eqD)
      with True 4 show thesis using ended by (simp add: g6_isTerminal_def)
    next
      case False
      then obtain cs where cs: "g6_collect fails (ge_accounts e) [] = Some (Inr cs)"
        using 4 by (auto simp: acceptGate6A_def acceptGate6AImpl_def g6_finish_phase Let_def
            split: option.splits sum.splits dest!: g6_finish_eqD)
      note res = g6_collect_result [OF cs]
      show thesis
        using advance [of "sort_key vc_brokerTitleShort cs"] 4 cs res False
        by (auto simp: acceptGate6A_def acceptGate6AImpl_def g6_finish_phase Let_def
            adjacent_duplicate_sort sort_nonempty sort_distinct_titles
            g6_clearAccountIdentifiers_def split: if_splits)
    qed
  qed
qed

lemma confirm_cases:
  obtains (ended) "g6_phase (fst (confirmWadeSelection oom t s)) = PH_Terminal"
      "g6_inv (fst (confirmWadeSelection oom t s))" "\<not> g6_isTerminal s"
  | (replay) "g6_isTerminal s" "confirmWadeSelection oom t s = g6_decide G6_AlreadyTerminal s"
  | (advance) "g6_phase s = PH_AwaitingWade" "isSafeBrokerTitle t" "\<not> oom"
      "t \<in> vc_brokerTitleShort ` set (g6_volatileCandidates s)"
      "confirmWadeSelection oom t s = g6_decide G6_ReadyForGate6B
         ((g6_clearAccountIdentifiers (s\<lparr>g6_approvedBrokerTitle := t\<rparr>))
            \<lparr>g6_safeCandidates := [], g6_phase := PH_Gate6BReady\<rparr>)"
proof -
  let ?r = "confirmWadeSelection oom t s"
  let ?ok = "g6_phase s = PH_AwaitingWade \<and> isSafeBrokerTitle t \<and> \<not> oom
      \<and> t \<in> vc_brokerTitleShort ` set (g6_volatileCandidates s)"
  have found: "find (\<lambda>c. vc_brokerTitleShort c = t) (g6_volatileCandidates s) = None
      \<longleftrightarrow> t \<notin> vc_brokerTitleShort ` set (g6_volatileCandidates s)"
    by (auto simp: find_None_iff)
  consider "g6_isTerminal s" | "\<not> g6_isTerminal s" "\<not> ?ok" | "\<not> g6_isTerminal s" ?ok by blast
  then show thesis
  proof cases
    case 1
    then show thesis
      by (intro replay)
         (simp_all add: confirmWadeSelection_def confirmWadeSelectionImpl_def g6_isTerminal_def)
  next
    case 2
    then have "\<exists>d. ?r = g6_finish d s"
      by (auto simp: confirmWadeSelection_def confirmWadeSelectionImpl_def g6_isTerminal_def found)
    with 2(1) show thesis using ended g6_finish_inv g6_finish_phase by metis
  next
    case 3
    then show thesis
      by (intro advance)
         (simp_all add: confirmWadeSelection_def confirmWadeSelectionImpl_def found Let_def)
  qed
qed

lemma acceptGate6B_cases:
  obtains (ended) "g6_phase (fst (acceptGate6B e s)) = PH_Terminal"
      "g6_inv (fst (acceptGate6B e s))" "\<not> g6_isTerminal s"
  | (replay) "g6_isTerminal s" "acceptGate6B e s = g6_decide G6_AlreadyTerminal s"
  | (advance) a where "g6_phase s = PH_Gate6BReady" "g6_approvedBrokerTitle s \<noteq> []"
      "validateEvidence e = G6_Ready"
      "filter (titled (g6_approvedBrokerTitle s)) (ge_accounts e) = [a]"
      "isUsableAccountId (ga_accountId a)"
      "acceptGate6B e s = g6_decide G6_ReadyForAccountAuthentication
         (s\<lparr>g6_selectedAccountId := ga_accountId a, g6_phase := PH_AccountAuthReady\<rparr>)"
proof -
  let ?t = "g6_approvedBrokerTitle s"
  let ?r = "acceptGate6B e s"
  let ?m = "g6_match ?t (ge_accounts e) 0 0"
  let ?ok = "g6_phase s = PH_Gate6BReady \<and> ?t \<noteq> [] \<and> validateEvidence e = G6_Ready
      \<and> (\<exists>m. ?m = Inr (m, 1))"
  consider "g6_isTerminal s" | "\<not> g6_isTerminal s" "\<not> ?ok" | "\<not> g6_isTerminal s" ?ok by blast
  then show thesis
  proof cases
    case 1
    then show thesis by (intro replay) (simp_all add: acceptGate6B_def g6_isTerminal_def)
  next
    case 2
    then have "\<exists>d. ?r = g6_finish d s"
      by (auto simp: acceptGate6B_def g6_isTerminal_def split: sum.splits)
    with 2(1) show thesis using ended g6_finish_inv g6_finish_phase by metis
  next
    case 3
    then obtain m where m: "?m = Inr (m, 1)" by blast
    note res = g6_match_result [OF m]
    then have "length (filter (titled ?t) (ge_accounts e)) = Suc 0" by simp
    then obtain a where a: "filter (titled ?t) (ge_accounts e) = [a]"
      by (auto simp only: length_Suc_conv length_0_conv)
    then have "a \<in> set (filter (titled ?t) (ge_accounts e))" by simp
    with res have "isUsableAccountId (ga_accountId a)" by simp
    with 3 m a res show thesis
      by (intro advance [OF _ _ _ a]) (simp_all add: acceptGate6B_def g6_isTerminal_def)
  qed
qed

lemma auth_cases:
  obtains (ended) "g6_phase (fst (g6_acceptAccountAuthentication x s)) = PH_Terminal"
      "g6_inv (fst (g6_acceptAccountAuthentication x s))" "\<not> g6_isTerminal s"
  | (replay) "g6_isTerminal s"
      "g6_acceptAccountAuthentication x s = g6_decide G6_AlreadyTerminal s"
  | (advance) "g6_phase s = PH_AccountAuthReady" "0 < x"
      "u64_of_i64 x = g6_selectedAccountId s"
      "g6_acceptAccountAuthentication x s
         = g6_decide G6_AccountProofSucceeded ((g6_clearAll s)\<lparr>g6_phase := PH_Complete\<rparr>)"
proof -
  let ?r = "g6_acceptAccountAuthentication x s"
  let ?ok = "g6_phase s = PH_AccountAuthReady \<and> 0 < x \<and> u64_of_i64 x = g6_selectedAccountId s"
  consider "g6_isTerminal s" | "\<not> g6_isTerminal s" "\<not> ?ok" | "\<not> g6_isTerminal s" ?ok by blast
  then show thesis
  proof cases
    case 1
    then show thesis
      by (intro replay) (simp_all add: g6_acceptAccountAuthentication_def g6_isTerminal_def)
  next
    case 2
    then have "?r = g6_finish G6_AccountAuthenticationMismatch s"
      by (auto simp: g6_acceptAccountAuthentication_def g6_isTerminal_def)
    with 2(1) show thesis using ended g6_finish_inv g6_finish_phase by metis
  next
    case 3
    then show thesis
      by (intro advance) (simp_all add: g6_acceptAccountAuthentication_def)
  qed
qed

lemma cancel_cases:
  obtains (ended) "g6_phase (fst (g6_cancel s)) = PH_Terminal" "g6_inv (fst (g6_cancel s))"
      "\<not> g6_isTerminal s"
  | (replay) "g6_isTerminal s" "g6_cancel s = g6_decide G6_AlreadyTerminal s"
  using that
  by (auto simp: g6_cancel_def g6_isTerminal_def g6_finish_inv g6_finish_phase split: if_splits)

fun g6_stage :: "gate6_phase \<Rightarrow> nat" where
  "g6_stage PH_Gate6AReady = 0"
| "g6_stage PH_AwaitingWade = 1"
| "g6_stage PH_Gate6BReady = 2"
| "g6_stage PH_AccountAuthReady = 3"
| "g6_stage PH_Complete = 4"
| "g6_stage PH_Terminal = 5"

fun g6_kind :: "gate6_call \<Rightarrow> nat" where
  "g6_kind (GC_6A fails e) = 0"
| "g6_kind (GC_confirm oom t) = 1"
| "g6_kind (GC_6B e) = 2"
| "g6_kind (GC_auth x) = 3"
| "g6_kind GC_cancel = 4"

text \<open>Every call replays on a terminal proof, ends the proof, or advances it by one stage.\<close>

lemma g6_step_cases:
  assumes "g6_inv s"
  shows "(g6_isTerminal s \<and> g6_step c s = s\<lparr>g6_lastDecision := G6_AlreadyTerminal\<rparr>)
    \<or> (\<not> g6_isTerminal s \<and> g6_phase (g6_step c s) = PH_Terminal \<and> g6_inv (g6_step c s))
    \<or> (\<not> g6_isTerminal s \<and> g6_phase (g6_step c s) \<noteq> PH_Terminal
       \<and> g6_stage (g6_phase (g6_step c s)) = Suc (g6_stage (g6_phase s))
       \<and> g6_kind c = g6_stage (g6_phase s) \<and> g6_inv (g6_step c s))"
proof (cases c)
  case (GC_6A f e)
  with assms show ?thesis
    by (cases rule: acceptGate6A_cases [of f e s])
       (auto simp: g6_step_def g6_isTerminal_def g6_inv_def g6_defs g6_cleared_def list_all_iff
         comp_def)
next
  case (GC_confirm oom t)
  with assms show ?thesis
    by (cases rule: confirm_cases [of oom t s])
       (auto simp: g6_step_def g6_isTerminal_def g6_inv_def g6_defs)
next
  case (GC_6B e)
  with assms show ?thesis
    by (cases rule: acceptGate6B_cases [of e s])
       (auto simp: g6_step_def g6_isTerminal_def g6_inv_def g6_defs)
next
  case (GC_auth x)
  then show ?thesis
    by (cases rule: auth_cases [of x s])
       (auto simp: g6_step_def g6_isTerminal_def g6_inv_def g6_defs g6_cleared_def)
next
  case GC_cancel
  then show ?thesis
    by (cases rule: cancel_cases [of s])
       (auto simp: g6_step_def g6_isTerminal_def g6_inv_def g6_defs)
qed

end
