(* ===== verification/Gate6Claims.thy ===== *)
theory Gate6Claims
  imports Gate6Props
begin

text \<open>The promises of the account proof over single calls and over whole runs.\<close>

subsection \<open>Order of the stages\<close>

lemma g6_inv_init: "g6_inv gate6_init"
  by (simp add: g6_inv_def g6_cleared_def gate6_init_def)

lemma g6_step_inv: "g6_inv s \<Longrightarrow> g6_inv (g6_step c s)"
  using g6_step_cases [of s c] by (auto simp: g6_inv_def g6_cleared_def g6_isTerminal_def)

lemma g6_terminal_step:
  "g6_isTerminal s \<Longrightarrow> g6_step c s = s\<lparr>g6_lastDecision := G6_AlreadyTerminal\<rparr>"
  by (cases c)
     (auto simp: g6_step_def g6_isTerminal_def acceptGate6A_def acceptGate6AImpl_def
       confirmWadeSelection_def confirmWadeSelectionImpl_def acceptGate6B_def
       g6_acceptAccountAuthentication_def g6_cancel_def g6_decide_def)

interpretation gate6: staged g6_step g6_isTerminal g6_cleared g6_inv
    "\<lambda>s. g6_stage (g6_phase s)" g6_kind "\<lambda>s. g6_phase s = PH_Terminal"
proof
  fix s c
  show "g6_isTerminal s \<Longrightarrow> g6_isTerminal (g6_step c s)"
    using g6_terminal_step [of s c] by (auto simp: g6_isTerminal_def)
  show "g6_inv s \<Longrightarrow> g6_inv (g6_step c s)"
    by (rule g6_step_inv)
  show "g6_inv s \<Longrightarrow> g6_isTerminal s \<Longrightarrow> g6_cleared s"
    by (auto simp: g6_inv_def g6_isTerminal_def)
  show "g6_inv s \<Longrightarrow> g6_phase (g6_step c s) \<noteq> PH_Terminal \<Longrightarrow>
      g6_stage (g6_phase (g6_step c s)) = g6_stage (g6_phase s)
      \<or> g6_stage (g6_phase (g6_step c s)) = Suc (g6_stage (g6_phase s))
        \<and> g6_kind c = g6_stage (g6_phase s)"
    using g6_step_cases [of s c] by auto
  show "g6_phase s = PH_Terminal \<Longrightarrow> g6_phase (g6_step c s) = PH_Terminal"
    using g6_terminal_step [of s c] by (auto simp: g6_isTerminal_def)
qed

definition g6_after :: "gate6_call list \<Rightarrow> gate6_proof" where
  "g6_after cs = run_machine g6_step cs gate6_init"

lemma g6_after_snoc: "g6_after (cs @ [c]) = g6_step c (g6_after cs)"
  by (simp add: g6_after_def run_machine_append)

lemma g6_after_inv: "g6_inv (g6_after cs)"
  unfolding g6_after_def
  by (rule run_machine_invariant [where I = g6_inv]) (auto intro: g6_step_inv g6_inv_init)

text \<open>
  C39. No step can be skipped: in any sequence of calls that has completed the account proof, the
  calls include gate 6A, a confirmation, gate 6B and an account authentication; and once the
  proof is complete or ended, every later call is answered as a replay and no account id,
  title or candidate is left in it.
\<close>

theorem gate6_complete_and_cleared:
  "(g6_phase (g6_after cs) = PH_Complete \<longrightarrow> (\<forall>k < 4. \<exists>c \<in> set cs. g6_kind c = k))
   \<and> (g6_isTerminal (g6_after cs) \<longrightarrow>
        g6_isTerminal (g6_after (cs @ ds)) \<and> g6_volatileCandidates (g6_after (cs @ ds)) = []
        \<and> g6_safeCandidates (g6_after (cs @ ds)) = []
        \<and> g6_approvedBrokerTitle (g6_after (cs @ ds)) = []
        \<and> g6_selectedAccountId (g6_after (cs @ ds)) = 0
        \<and> snd (g6_exec d (g6_after (cs @ ds))) = G6_AlreadyTerminal)"
proof -
  have start: "g6_phase gate6_init = PH_Gate6AReady" by (simp add: gate6_init_def)
  have kinds: "\<exists>c \<in> set cs. g6_kind c = k"
    if "g6_phase (g6_after cs) = PH_Complete" "k < 4" for k
  proof -
    have "k \<in> g6_kind ` set cs"
      using gate6.stage_reached [OF g6_inv_init, of cs, folded g6_after_def] that start by simp
    then show ?thesis by blast
  qed
  have ended: "g6_isTerminal (g6_after (cs @ ds)) \<and> g6_cleared (g6_after (cs @ ds))"
    if "g6_isTerminal (g6_after cs)"
    using gate6.cleared_after_terminal [OF g6_inv_init, of cs ds]
      gate6.terminal_run [of "g6_after cs" ds] that
    by (simp add: g6_after_def run_machine_append)
  have replay: "snd (g6_exec d s) = G6_AlreadyTerminal" if "g6_isTerminal s" for s
    using that by (cases d)
     (auto simp: g6_isTerminal_def acceptGate6A_def acceptGate6AImpl_def
       confirmWadeSelection_def confirmWadeSelectionImpl_def acceptGate6B_def
       g6_acceptAccountAuthentication_def g6_cancel_def g6_decide_def)
  show ?thesis using kinds ended replay by (auto simp: g6_cleared_def)
qed

definition sample_accounts :: "gate6_account list" where
  "sample_accounts =
     [\<lparr>ga_accountId = 11, ga_isLive = Some False, ga_brokerTitleShort = Some ''Pepper''\<rparr>,
      \<lparr>ga_accountId = 12, ga_isLive = Some True, ga_brokerTitleShort = Some ''Live''\<rparr>,
      \<lparr>ga_accountId = 13, ga_isLive = Some False, ga_brokerTitleShort = Some ''Broker''\<rparr>]"

definition sample_evidence :: gate6_evidence where
  "sample_evidence = \<lparr>ge_currentConnectionGeneration = True, ge_correlationMatched = True,
     ge_tokenOwned = True, ge_tradingScope = True, ge_accounts = sample_accounts\<rparr>"

definition sample_selection :: "gate6_call list" where
  "sample_selection = [GC_6A (\<lambda>_. False) sample_evidence, GC_confirm False ''Broker'',
     GC_6B sample_evidence]"

lemma gate6_complete_and_cleared_witness:
  "\<exists>c \<in> set (sample_selection @ [GC_auth 13]). g6_kind c = 2"
proof -
  have "g6_phase (g6_after (sample_selection @ [GC_auth 13])) = PH_Complete" by code_simp
  moreover have "(2 :: nat) < 4" by simp
  ultimately show ?thesis
    using gate6_complete_and_cleared [of "sample_selection @ [GC_auth 13]"] by blast
qed

subsection \<open>Where the account comes from\<close>

definition demo_titles :: "gate6_evidence \<Rightarrow> string set" where
  "demo_titles e = title_of ` {a \<in> set (ge_accounts e). eligible a}"

text \<open>The title was listed as a demo account by an accepted gate 6A and then confirmed.\<close>

definition confirmed_title :: "gate6_call list \<Rightarrow> string \<Rightarrow> bool" where
  "confirmed_title cs t \<longleftrightarrow> (\<exists>oom. GC_confirm oom t \<in> set cs)
     \<and> (\<exists>fails e. GC_6A fails e \<in> set cs \<and> validateEvidence e = G6_Ready \<and> t \<in> demo_titles e)"

definition only_demo_account :: "gate6_evidence \<Rightarrow> string \<Rightarrow> u64 \<Rightarrow> bool" where
  "only_demo_account e t i \<longleftrightarrow> validateEvidence e = G6_Ready
     \<and> (\<exists>a. filter (titled t) (ge_accounts e) = [a] \<and> ga_accountId a = i)"

definition g6_history :: "gate6_call list \<Rightarrow> gate6_proof \<Rightarrow> bool" where
  "g6_history cs s \<longleftrightarrow>
     (g6_phase s = PH_AwaitingWade \<longrightarrow> (\<exists>fails e. GC_6A fails e \<in> set cs
        \<and> validateEvidence e = G6_Ready
        \<and> vc_brokerTitleShort ` set (g6_volatileCandidates s) \<subseteq> demo_titles e))
     \<and> (g6_phase s = PH_Gate6BReady \<longrightarrow> confirmed_title cs (g6_approvedBrokerTitle s))
     \<and> (g6_phase s = PH_AccountAuthReady \<longrightarrow> (\<exists>t e. confirmed_title cs t \<and> GC_6B e \<in> set cs
        \<and> only_demo_account e t (g6_selectedAccountId s)))"

lemma confirmed_title_mono: "confirmed_title cs t \<Longrightarrow> confirmed_title (cs @ [c]) t"
  by (auto simp: confirmed_title_def)

lemma g6_history_step:
  assumes "g6_history cs s"
  shows "g6_history (cs @ [c]) (g6_step c s)"
proof (cases c)
  case (GC_6A f e)
  then show ?thesis
    by (cases rule: acceptGate6A_cases [of f e s])
       (auto simp: g6_step_def g6_history_def g6_isTerminal_def g6_defs demo_titles_def
         candidate_of_def intro!: exI [of _ f] exI [of _ e])
next
  case (GC_confirm oom t)
  then show ?thesis
    using assms
    by (cases rule: confirm_cases [of oom t s])
       (auto simp: g6_step_def g6_history_def g6_isTerminal_def g6_defs confirmed_title_def)
next
  case (GC_6B e)
  then show ?thesis
    using assms
    by (cases rule: acceptGate6B_cases [of e s])
       (auto simp: g6_step_def g6_history_def g6_isTerminal_def g6_defs only_demo_account_def
         intro: confirmed_title_mono)
next
  case (GC_auth x)
  then show ?thesis
    by (cases rule: auth_cases [of x s])
       (auto simp: g6_step_def g6_history_def g6_isTerminal_def g6_defs)
next
  case GC_cancel
  then show ?thesis
    by (cases rule: cancel_cases [of s])
       (auto simp: g6_step_def g6_history_def g6_isTerminal_def g6_defs)
qed

lemma g6_after_history: "g6_history cs (g6_after cs)"
proof (induction cs rule: rev_induct)
  case Nil
  then show ?case by (simp add: g6_history_def g6_after_def gate6_init_def)
next
  case (snoc c cs)
  then show ?case by (simp add: g6_after_snoc g6_history_step)
qed

text \<open>
  C29. Only a confirmed demo account is ever authenticated: in every run, when the proof hands
  out an account id for authentication, some accepted gate 6A evidence of the run listed a demo
  account with a certain title, the operator confirmed exactly that title, an accepted gate 6B
  evidence contains exactly one demo account with it, and the id is that account's, in the
  positive range of the signed 64-bit field.
\<close>

theorem gate6_account_provenance:
  assumes "g6_accountIdForAuthentication (g6_after cs) = Some x"
  shows "\<exists>t e. confirmed_title cs t \<and> GC_6B e \<in> set cs \<and> validateEvidence e = G6_Ready
    \<and> (\<exists>a. filter (titled t) (ge_accounts e) = [a] \<and> ga_isLive a = Some False
          \<and> x = int (unat (ga_accountId a)) \<and> 0 < x \<and> x \<le> INT64_MAX)"
proof -
  have ph: "g6_phase (g6_after cs) = PH_AccountAuthReady"
    and ok: "isUsableAccountId (g6_selectedAccountId (g6_after cs))"
    and x: "x = i64_of_u64 (g6_selectedAccountId (g6_after cs))"
    using assms by (auto simp: g6_accountIdForAuthentication_def split: if_splits)
  obtain t e a where te: "confirmed_title cs t" "GC_6B e \<in> set cs" "validateEvidence e = G6_Ready"
      "filter (titled t) (ge_accounts e) = [a]" "ga_accountId a = g6_selectedAccountId (g6_after cs)"
    using g6_after_history [of cs] ph by (auto simp: g6_history_def only_demo_account_def)
  have "a \<in> set (filter (titled t) (ge_accounts e))" using te(4) by simp
  then have "ga_isLive a = Some False" by (simp add: titled_def eligible_def)
  moreover have "x = int (unat (ga_accountId a)) \<and> 0 < x \<and> x \<le> INT64_MAX"
    using i64_of_u64_range [of "ga_accountId a"] ok x te(5)
    by (simp add: isUsableAccountId_def INT64_MAX_U_def in_i64_def)
  ultimately show ?thesis using te by blast
qed

lemma gate6_account_provenance_witness:
  "\<exists>t. confirmed_title sample_selection t
     \<and> g6_accountIdForAuthentication (g6_after sample_selection) = Some 13"
proof -
  have "g6_accountIdForAuthentication (g6_after sample_selection) = Some 13" by code_simp
  from gate6_account_provenance [OF this] this show ?thesis by blast
qed

subsection \<open>What the gates accept\<close>

lemma g6_collect_early:
  "g6_collect fails as cs = Some (Inl d) \<Longrightarrow>
     d = G6_UnsafeBrokerMetadata \<or> d = G6_InvalidAccountIdentifier"
  by (induction as arbitrary: cs) (auto split: option.splits bool.splits if_splits)

lemma gate6A_checkpoint_phase:
  "snd (acceptGate6A f e s) = G6_AwaitingWadeCheckpoint \<Longrightarrow>
     g6_phase (fst (acceptGate6A f e s)) = PH_AwaitingWade"
proof -
  assume run: "snd (acceptGate6A f e s) = G6_AwaitingWadeCheckpoint"
  have valid: "validateEvidence e \<noteq> G6_AwaitingWadeCheckpoint"
    by (simp add: validateEvidence_def)
  have finish: "snd (g6_finish d q) = d" "snd (g6_decide d q) = d" for d q
    by (simp_all add: g6_finish_def g6_decide_def)
  show ?thesis
  proof (cases rule: acceptGate6A_cases [of f e s])
    case ended
    then have "snd (acceptGate6A f e s) \<noteq> G6_AwaitingWadeCheckpoint"
    proof (cases "g6_phase s = PH_Gate6AReady \<and> validateEvidence e = G6_Ready")
      case False
      with ended(3) valid finish show ?thesis
        by (auto simp: acceptGate6A_def acceptGate6AImpl_def g6_isTerminal_def)
    next
      case True
      then show ?thesis
      proof (cases "g6_collect f (ge_accounts e) []")
        case None
        with True finish show ?thesis by (simp add: acceptGate6A_def acceptGate6AImpl_def)
      next
        case (Some r)
        show ?thesis
        proof (cases r)
          case (Inl d)
          with True Some finish g6_collect_early [of f "ge_accounts e" "[]" d] show ?thesis
            by (auto simp: acceptGate6A_def acceptGate6AImpl_def Let_def)
        next
          case (Inr cs)
          with True Some finish ended(1) show ?thesis
            by (auto simp: acceptGate6A_def acceptGate6AImpl_def Let_def g6_decide_def
                split: if_splits)
        qed
      qed
    qed
    with run show ?thesis by simp
  next
    case replay
    with run finish show ?thesis by simp
  next
    case (advance cs)
    then show ?thesis by (simp add: g6_decide_def)
  qed
qed

lemma titles_sorted:
  "map vc_brokerTitleShort (sort_key vc_brokerTitleShort (map candidate_of as))
     = sort (map title_of as)"
proof -
  have "map vc_brokerTitleShort (map candidate_of as) = map title_of as"
    by (simp add: candidate_of_def)
  moreover have "sort (map vc_brokerTitleShort cs)
      = map vc_brokerTitleShort (sort_key vc_brokerTitleShort cs)" for cs
    by (rule properties_for_sort) simp_all
  ultimately show ?thesis by metis
qed

lemma gate6A_advances:
  assumes "validateEvidence e = G6_Ready" and "filter eligible (ge_accounts e) \<noteq> []"
    and "\<forall>a \<in> set (ge_accounts e). eligible a \<longrightarrow> acceptable a"
    and "distinct (map title_of (filter eligible (ge_accounts e)))"
  shows "snd (acceptGate6A (\<lambda>_. False) e gate6_init) = G6_AwaitingWadeCheckpoint"
proof -
  let ?cs = "map candidate_of (filter eligible (ge_accounts e))"
  have "\<not> has_adjacent_duplicate (sort_key vc_brokerTitleShort ?cs)"
    using assms(4) by (simp add: adjacent_duplicate_sort candidate_of_def comp_def)
  then show ?thesis
    using assms(1,2) g6_collect_succeeds [OF assms(3), of "[]"]
    by (simp add: acceptGate6A_def acceptGate6AImpl_def gate6_init_def g6_decide_def Let_def
        list_ex_iff)
qed

lemma gate6A_checkpoint_aux:
  assumes "snd (acceptGate6A (\<lambda>_. False) e gate6_init) = G6_AwaitingWadeCheckpoint"
  shows "validateEvidence e = G6_Ready \<and> filter eligible (ge_accounts e) \<noteq> []
    \<and> (\<forall>a \<in> set (ge_accounts e). eligible a \<longrightarrow> acceptable a)
    \<and> distinct (map title_of (filter eligible (ge_accounts e)))
    \<and> map sc_brokerTitleShort (g6_safeCandidates (fst (acceptGate6A (\<lambda>_. False) e gate6_init)))
        = sort (map title_of (filter eligible (ge_accounts e)))
    \<and> list_all (\<lambda>c. \<not> sc_isLive c)
        (g6_safeCandidates (fst (acceptGate6A (\<lambda>_. False) e gate6_init)))
    \<and> map vc_brokerTitleShort
        (g6_volatileCandidates (fst (acceptGate6A (\<lambda>_. False) e gate6_init)))
        = sort (map title_of (filter eligible (ge_accounts e)))"
proof (cases rule: acceptGate6A_cases [of "\<lambda>_. False" e gate6_init])
  case ended
  with gate6A_checkpoint_phase [OF assms] show ?thesis by simp
next
  case replay
  then show ?thesis by (simp add: g6_isTerminal_def gate6_init_def)
next
  case (advance cs)
  have titles: "map vc_brokerTitleShort cs = sort (map title_of (filter eligible (ge_accounts e)))"
    using advance(3) titles_sorted by simp
  with advance(5) have "distinct (map title_of (filter eligible (ge_accounts e)))"
    by simp
  with titles advance show ?thesis by (auto simp: g6_defs comp_def list_all_iff sort_nonempty)
qed

text \<open>
  Gate 6A on a fresh proof stops at the operator's checkpoint exactly when the evidence is
  valid, there is at least one demo account with a title, all of these have a safe title and a
  usable id, and their titles are distinct (allocations succeeding); and then it offers
  exactly these titles, in lexicographic order, none of them live.
\<close>

theorem gate6A_checkpoint_iff:
  "(snd (acceptGate6A (\<lambda>_. False) e gate6_init) = G6_AwaitingWadeCheckpoint \<longleftrightarrow>
      validateEvidence e = G6_Ready
      \<and> filter eligible (ge_accounts e) \<noteq> []
      \<and> (\<forall>a \<in> set (ge_accounts e). eligible a \<longrightarrow>
            isSafeBrokerTitle (title_of a) \<and> isUsableAccountId (ga_accountId a))
      \<and> distinct (map title_of (filter eligible (ge_accounts e))))
   \<and> (snd (acceptGate6A (\<lambda>_. False) e gate6_init) = G6_AwaitingWadeCheckpoint \<longrightarrow>
        map sc_brokerTitleShort (g6_safeCandidates (fst (acceptGate6A (\<lambda>_. False) e gate6_init)))
          = sort (map title_of (filter eligible (ge_accounts e)))
        \<and> list_all (\<lambda>c. \<not> sc_isLive c)
            (g6_safeCandidates (fst (acceptGate6A (\<lambda>_. False) e gate6_init))))"
proof -
  let ?r = "acceptGate6A (\<lambda>_. False) e gate6_init"
  show ?thesis
    using gate6A_checkpoint_aux [of e] gate6A_advances [of e] unfolding acceptable_def by blast
qed

lemma gate6A_checkpoint_iff_witness:
  "map sc_brokerTitleShort (g6_safeCandidates (fst (acceptGate6A (\<lambda>_. False) sample_evidence
     gate6_init))) = [''Broker'', ''Pepper'']"
proof -
  have "snd (acceptGate6A (\<lambda>_. False) sample_evidence gate6_init) = G6_AwaitingWadeCheckpoint"
    by code_simp
  moreover have "sort (map title_of (filter eligible (ge_accounts sample_evidence)))
      = [''Broker'', ''Pepper'']" by code_simp
  ultimately show ?thesis using gate6A_checkpoint_iff [of sample_evidence] by simp
qed

lemma confirm_advances:
  assumes "g6_phase s = PH_AwaitingWade" and "isSafeBrokerTitle t"
    and "t \<in> vc_brokerTitleShort ` set (g6_volatileCandidates s)"
  shows "g6_phase (fst (confirmWadeSelection False t s)) = PH_Gate6BReady
    \<and> g6_approvedBrokerTitle (fst (confirmWadeSelection False t s)) = t"
proof -
  have "find (\<lambda>c. vc_brokerTitleShort c = t) (g6_volatileCandidates s) \<noteq> None"
    using assms(3) by (auto simp: find_None_iff)
  with assms(1,2) show ?thesis
    by (auto simp: confirmWadeSelection_def confirmWadeSelectionImpl_def g6_decide_def
        g6_clearAccountIdentifiers_def Let_def)
qed

lemma titled_singleton:
  assumes "distinct (map title_of (filter eligible as))" and "a \<in> set as" and "eligible a"
  shows "filter (titled (title_of a)) as = [a]"
  using assms
proof (induction as)
  case (Cons b as)
  have none: "filter (titled (title_of a)) as = []" if "title_of a \<notin> title_of ` {x \<in> set as. eligible x}"
    using that by (fastforce simp: filter_empty_conv titled_def image_iff)
  show ?case
  proof (cases "b = a")
    case True
    moreover from this Cons.prems(3) have "titled (title_of a) b" by (simp add: titled_def)
    ultimately show ?thesis using Cons.prems(1,3) none by simp
  next
    case False
    then have "a \<in> set as" using Cons.prems(2) by simp
    moreover from this False Cons.prems have "\<not> titled (title_of a) b"
      by (auto simp: titled_def split: if_splits)
    ultimately show ?thesis using Cons by (auto split: if_splits)
  qed
qed simp

lemma acceptGate6B_advances:
  assumes "g6_phase s = PH_Gate6BReady" and "g6_approvedBrokerTitle s \<noteq> []"
    and "validateEvidence e = G6_Ready"
    and "\<forall>a \<in> set (ge_accounts e). eligible a \<longrightarrow> acceptable a"
    and "filter (titled (g6_approvedBrokerTitle s)) (ge_accounts e) = [a]"
  shows "g6_phase (fst (acceptGate6B e s)) = PH_AccountAuthReady
    \<and> g6_selectedAccountId (fst (acceptGate6B e s)) = ga_accountId a"
  using assms g6_match_succeeds [OF assms(4), of "g6_approvedBrokerTitle s" 0 0]
  by (simp add: acceptGate6B_def g6_decide_def)

text \<open>
  The selection succeeds: with evidence that passes the checkpoint, confirming the title of
  any of its demo accounts and presenting the same evidence again hands out exactly the id of
  that account, and the authentication answer for that id, and only that one, completes the
  proof.
\<close>

theorem gate6_selection_succeeds:
  assumes "snd (acceptGate6A (\<lambda>_. False) e gate6_init) = G6_AwaitingWadeCheckpoint"
    and "a \<in> set (ge_accounts e)" and "eligible a"
    and "s = g6_after [GC_6A (\<lambda>_. False) e, GC_confirm False (title_of a), GC_6B e]"
  shows "g6_accountIdForAuthentication s = Some (int (unat (ga_accountId a)))
    \<and> (\<forall>x. in_i64 x \<longrightarrow>
         (snd (g6_acceptAccountAuthentication x s) = G6_AccountProofSucceeded
            \<longleftrightarrow> x = int (unat (ga_accountId a))))"
proof -
  let ?t = "title_of a"
  let ?s1 = "fst (acceptGate6A (\<lambda>_. False) e gate6_init)"
  let ?s2 = "fst (confirmWadeSelection False ?t ?s1)"
  have pass: "validateEvidence e = G6_Ready" "distinct (map title_of (filter eligible (ge_accounts e)))"
    and titles: "map vc_brokerTitleShort (g6_volatileCandidates ?s1)
        = sort (map title_of (filter eligible (ge_accounts e)))"
    and ok: "\<forall>a \<in> set (ge_accounts e). eligible a \<longrightarrow> acceptable a"
    using gate6A_checkpoint_aux [OF assms(1)] by auto
  have a: "isSafeBrokerTitle ?t" "isUsableAccountId (ga_accountId a)"
    using ok assms(2,3) by (auto simp: acceptable_def)
  have "?t \<in> set (map vc_brokerTitleShort (g6_volatileCandidates ?s1))"
    unfolding titles using assms(2,3) by simp
  then have s2: "g6_phase ?s2 = PH_Gate6BReady" "g6_approvedBrokerTitle ?s2 = ?t" "?t \<noteq> []"
    using confirm_advances [OF gate6A_checkpoint_phase [OF assms(1)] a(1)] a(1)
    by (auto simp: isSafeBrokerTitle_def)
  have s: "s = fst (acceptGate6B e ?s2)"
    by (simp add: assms(4) g6_after_def g6_step_def)
  have "filter (titled ?t) (ge_accounts e) = [a]"
    by (rule titled_singleton [OF pass(2) assms(2,3)])
  with acceptGate6B_advances [OF s2(1) _ pass(1) ok] s2
  have s': "g6_phase s = PH_AccountAuthReady" "g6_selectedAccountId s = ga_accountId a"
    unfolding s by auto
  note range = i64_of_u64_range [of "ga_accountId a"]
  have id: "i64_of_u64 (ga_accountId a) = int (unat (ga_accountId a))" "0 < ga_accountId a"
    using a(2) range by (simp_all add: isUsableAccountId_def INT64_MAX_U_def)
  have "0 < x \<and> u64_of_i64 x = ga_accountId a \<longleftrightarrow> x = int (unat (ga_accountId a))"
    if "in_i64 x" for x
  proof -
    have pos: "0 < unat (ga_accountId a)" using id(2) by (simp add: word_less_nat_alt)
    have "unat (u64_of_i64 x) = nat x" if "0 < x"
      using that \<open>in_i64 x\<close> by (intro unat_u64_of_i64) (simp_all add: in_i64_def)
    then have "u64_of_i64 x = ga_accountId a \<longleftrightarrow> nat x = unat (ga_accountId a)" if "0 < x"
      using that by (simp add: word_unat_eq_iff)
    with pos show ?thesis by (metis int_nat_eq nat_int of_nat_0_less_iff order_less_imp_le)
  qed
  then show ?thesis
    using s' id a(2)
    by (simp add: g6_accountIdForAuthentication_def g6_acceptAccountAuthentication_def
        g6_finish_def g6_decide_def Let_def)
qed

lemma gate6_selection_succeeds_witness:
  "g6_accountIdForAuthentication (g6_after sample_selection) = Some 13"
proof -
  let ?a = "\<lparr>ga_accountId = 13, ga_isLive = Some False, ga_brokerTitleShort = Some ''Broker''\<rparr>"
  have "snd (acceptGate6A (\<lambda>_. False) sample_evidence gate6_init) = G6_AwaitingWadeCheckpoint"
    by code_simp
  moreover have "?a \<in> set (ge_accounts sample_evidence)" "eligible ?a" "title_of ?a = ''Broker''"
    by (simp_all add: sample_evidence_def sample_accounts_def eligible_def title_of_def)
  ultimately show ?thesis
    using gate6_selection_succeeds [of sample_evidence ?a "g6_after sample_selection"]
    by (simp add: sample_selection_def)
qed

end
