(* ===== verification/Gate7Config.thy ===== *)
theory Gate7Config
  imports Prelude
begin

text \<open>
  The fixed tables around the quote proof (include/CTraderGate7Proof.hpp,
  src/CTraderGate7Proof.cpp): the endpoint and payload allowlists, the heartbeat cadence and
  the classification of transport and provider failures into non-sensitive categories.
\<close>

subsection \<open>Allowlists\<close>

definition G7_DEMO_HOST :: string where "G7_DEMO_HOST = ''demo.ctraderapi.com''"
definition G7_DEMO_PORT :: u16 where "G7_DEMO_PORT = 5035"

definition g7_isAllowedOpenApiEndpoint :: "string \<Rightarrow> u16 \<Rightarrow> bool" where
  "g7_isAllowedOpenApiEndpoint host port \<longleftrightarrow> host = G7_DEMO_HOST \<and> port = G7_DEMO_PORT"

definition g7_outbound :: "u32 list" where
  "g7_outbound = [51, 2100, 2102, 2114, 2116, 2127, 2129, 2149]"

definition g7_isAllowedOutboundPayload :: "u32 \<Rightarrow> bool" where
  "g7_isAllowedOutboundPayload payloadType \<longleftrightarrow> payloadType \<in> set g7_outbound"

definition g7_inbound :: "u32 list" where
  "g7_inbound = [50, 51, 2101, 2103, 2115, 2117, 2128, 2130, 2131, 2142, 2147, 2148, 2150, 2164]"

definition g7_isAllowedInboundPayload :: "u32 \<Rightarrow> bool" where
  "g7_isAllowedInboundPayload payloadType \<longleftrightarrow> payloadType \<in> set g7_inbound"

subsection \<open>Heartbeats\<close>

record heartbeat_cadence =
  hb_nextDue :: int
  hb_armed :: bool

definition heartbeat_init :: heartbeat_cadence where
  "heartbeat_init = \<lparr>hb_nextDue = 0, hb_armed = False\<rparr>"

definition HEARTBEAT_INTERVAL :: int where "HEARTBEAT_INTERVAL = 9 * 1000000000"

definition markOutbound :: "int \<Rightarrow> heartbeat_cadence \<Rightarrow> heartbeat_cadence" where
  "markOutbound now h = h\<lparr>hb_nextDue := now + HEARTBEAT_INTERVAL, hb_armed := True\<rparr>"

definition heartbeat_due :: "int \<Rightarrow> heartbeat_cadence \<Rightarrow> bool" where
  "heartbeat_due now h \<longleftrightarrow> hb_armed h \<and> now \<ge> hb_nextDue h"

definition boundedWaitDeadline :: "int \<Rightarrow> int \<Rightarrow> heartbeat_cadence \<Rightarrow> int" where
  "boundedWaitDeadline absoluteDeadline now h =
     (if \<not> hb_armed h \<or> absoluteDeadline \<le> now then absoluteDeadline
      else min absoluteDeadline (hb_nextDue h))"

subsection \<open>Failure categories\<close>

datatype provider_error_category =
    PE_None | PE_AccountRejected | PE_TokenInvalidated | PE_SymbolRejected | PE_RateLimited
  | PE_ProviderUnavailable | PE_Other

datatype send_outcome =
    SO_Sent | SO_InactiveConnection | SO_PayloadRejected | SO_CorrelationRejected
  | SO_MessageUninitialized | SO_SerializationFailed | SO_FrameTooLarge
  | SO_WriteTimeout | SO_TransportClosed | SO_WriteFailed | SO_ResourceExhausted

datatype transport_outcome =
    TO_Expected | TO_Timeout | TO_TransportClosed | TO_CommonProviderError
  | TO_OpenApiProviderError | TO_TokenInvalidated | TO_AccountDisconnected
  | TO_ClientDisconnected | TO_UnexpectedAllowedPayload | TO_CorrelationMismatch
  | TO_MalformedEnvelope | TO_InboundTypeRejected | TO_ResourceExhausted

datatype residual_failure =
    RF_None | RF_SubscriptionStateUnavailable | RF_SubscriptionSendFailed
  | RF_SubscriptionResponseTimeout | RF_SubscriptionTransportClosed
  | RF_SubscriptionAccountRejected | RF_SubscriptionTokenInvalidated
  | RF_SubscriptionSymbolRejected | RF_SubscriptionRateLimited
  | RF_SubscriptionProviderUnavailable | RF_SubscriptionProviderRejected
  | RF_SubscriptionUnexpectedPayload | RF_SubscriptionPriorStageResponse
  | RF_SubscriptionUnrequestedUnsubscribeResponse
  | RF_SubscriptionSpotBeforeAcknowledgement | RF_SubscriptionSymbolChangedEvent
  | RF_SubscriptionTraderUpdatedEvent | RF_SubscriptionProhibitedAsyncEvent
  | RF_SubscriptionOtherSchemaPayload | RF_SubscriptionUnknownPayload
  | RF_SubscriptionCorrelationRejected | RF_SubscriptionResponseMalformed
  | RF_SubscriptionAccountMismatch | RF_SubscriptionProofRejected
  | RF_SubscriptionResourceExhausted | RF_SpotResponseTimeout | RF_SpotTransportClosed
  | RF_SpotAccountRejected | RF_SpotTokenInvalidated | RF_SpotSymbolRejected
  | RF_SpotRateLimited | RF_SpotProviderUnavailable | RF_SpotProviderRejected
  | RF_SpotUnexpectedPayload | RF_SpotResponseMalformed | RF_SpotAccountMismatch
  | RF_SpotSymbolMismatch | RF_SpotIncompleteSideTimeout
  | RF_SpotTimestampMissingTimeout | RF_SpotCompleteBboTimeout | RF_SpotProofRejected
  | RF_SpotResourceExhausted

definition classifyGate7ProviderError :: "string \<Rightarrow> provider_error_category" where
  "classifyGate7ProviderError errorCode =
     (if errorCode \<in> {''ACCOUNT_NOT_AUTHORIZED'',
           ''RET_NO_SUCH_LOGIN'',
           ''RET_ACCOUNT_DISABLED'',
           ''CH_CTID_TRADER_ACCOUNT_NOT_FOUND'',
           ''CHANNEL_IS_BLOCKED''}
      then PE_AccountRejected
      else if errorCode \<in> {''OA_AUTH_TOKEN_EXPIRED'',
           ''CH_ACCESS_TOKEN_INVALID''}
      then PE_TokenInvalidated
      else if errorCode \<in> {''SYMBOL_NOT_FOUND'',
           ''UNKNOWN_SYMBOL'',
           ''NO_QUOTES'',
           ''NOT_SUBSCRIBED_TO_SPOTS''}
      then PE_SymbolRejected
      else if errorCode \<in> {''BLOCKED_PAYLOAD_TYPE'',
           ''REQUEST_FREQUENCY_EXCEEDED'',
           ''CONNECTIONS_LIMIT_EXCEEDED''}
      then PE_RateLimited
      else if errorCode \<in> {''SERVER_IS_UNDER_MAINTENANCE'',
           ''CH_SERVER_NOT_REACHABLE'',
           ''CANT_ROUTE_REQUEST'',
           ''TIMEOUT_ERROR''}
      then PE_ProviderUnavailable
      else PE_Other)"

fun classifyGate7SubscriptionSendFailure :: "send_outcome \<Rightarrow> residual_failure" where
  "classifyGate7SubscriptionSendFailure SO_Sent = RF_None"
| "classifyGate7SubscriptionSendFailure SO_ResourceExhausted = RF_SubscriptionResourceExhausted"
| "classifyGate7SubscriptionSendFailure SO_InactiveConnection = RF_SubscriptionTransportClosed"
| "classifyGate7SubscriptionSendFailure SO_TransportClosed = RF_SubscriptionTransportClosed"
| "classifyGate7SubscriptionSendFailure SO_PayloadRejected = RF_SubscriptionSendFailed"
| "classifyGate7SubscriptionSendFailure SO_CorrelationRejected = RF_SubscriptionSendFailed"
| "classifyGate7SubscriptionSendFailure SO_MessageUninitialized = RF_SubscriptionSendFailed"
| "classifyGate7SubscriptionSendFailure SO_SerializationFailed = RF_SubscriptionSendFailed"
| "classifyGate7SubscriptionSendFailure SO_FrameTooLarge = RF_SubscriptionSendFailed"
| "classifyGate7SubscriptionSendFailure SO_WriteTimeout = RF_SubscriptionSendFailed"
| "classifyGate7SubscriptionSendFailure SO_WriteFailed = RF_SubscriptionSendFailed"

fun providerFailure :: "bool \<Rightarrow> provider_error_category \<Rightarrow> residual_failure" where
  "providerFailure subscription PE_AccountRejected =
     (if subscription then RF_SubscriptionAccountRejected else RF_SpotAccountRejected)"
| "providerFailure subscription PE_TokenInvalidated =
     (if subscription then RF_SubscriptionTokenInvalidated else RF_SpotTokenInvalidated)"
| "providerFailure subscription PE_SymbolRejected =
     (if subscription then RF_SubscriptionSymbolRejected else RF_SpotSymbolRejected)"
| "providerFailure subscription PE_RateLimited =
     (if subscription then RF_SubscriptionRateLimited else RF_SpotRateLimited)"
| "providerFailure subscription PE_ProviderUnavailable =
     (if subscription then RF_SubscriptionProviderUnavailable else RF_SpotProviderUnavailable)"
| "providerFailure subscription PE_None =
     (if subscription then RF_SubscriptionProviderRejected else RF_SpotProviderRejected)"
| "providerFailure subscription PE_Other =
     (if subscription then RF_SubscriptionProviderRejected else RF_SpotProviderRejected)"

fun classifyGate7SubscriptionReceiveFailure ::
  "transport_outcome \<Rightarrow> provider_error_category \<Rightarrow> residual_failure" where
  "classifyGate7SubscriptionReceiveFailure TO_Expected category =
     RF_None"
| "classifyGate7SubscriptionReceiveFailure TO_Timeout category =
     RF_SubscriptionResponseTimeout"
| "classifyGate7SubscriptionReceiveFailure TO_TransportClosed category =
     RF_SubscriptionTransportClosed"
| "classifyGate7SubscriptionReceiveFailure TO_AccountDisconnected category =
     RF_SubscriptionTransportClosed"
| "classifyGate7SubscriptionReceiveFailure TO_ClientDisconnected category =
     RF_SubscriptionTransportClosed"
| "classifyGate7SubscriptionReceiveFailure TO_CommonProviderError category =
     providerFailure True category"
| "classifyGate7SubscriptionReceiveFailure TO_OpenApiProviderError category =
     providerFailure True category"
| "classifyGate7SubscriptionReceiveFailure TO_TokenInvalidated category =
     RF_SubscriptionTokenInvalidated"
| "classifyGate7SubscriptionReceiveFailure TO_UnexpectedAllowedPayload category =
     RF_SubscriptionUnexpectedPayload"
| "classifyGate7SubscriptionReceiveFailure TO_InboundTypeRejected category =
     RF_SubscriptionUnexpectedPayload"
| "classifyGate7SubscriptionReceiveFailure TO_CorrelationMismatch category =
     RF_SubscriptionCorrelationRejected"
| "classifyGate7SubscriptionReceiveFailure TO_MalformedEnvelope category =
     RF_SubscriptionResponseMalformed"
| "classifyGate7SubscriptionReceiveFailure TO_ResourceExhausted category =
     RF_SubscriptionResourceExhausted"

fun classifyGate7SpotReceiveFailure ::
  "transport_outcome \<Rightarrow> provider_error_category \<Rightarrow> residual_failure" where
  "classifyGate7SpotReceiveFailure TO_Expected category =
     RF_None"
| "classifyGate7SpotReceiveFailure TO_Timeout category =
     RF_SpotResponseTimeout"
| "classifyGate7SpotReceiveFailure TO_TransportClosed category =
     RF_SpotTransportClosed"
| "classifyGate7SpotReceiveFailure TO_AccountDisconnected category =
     RF_SpotTransportClosed"
| "classifyGate7SpotReceiveFailure TO_ClientDisconnected category =
     RF_SpotTransportClosed"
| "classifyGate7SpotReceiveFailure TO_CommonProviderError category =
     providerFailure False category"
| "classifyGate7SpotReceiveFailure TO_OpenApiProviderError category =
     providerFailure False category"
| "classifyGate7SpotReceiveFailure TO_TokenInvalidated category =
     RF_SpotTokenInvalidated"
| "classifyGate7SpotReceiveFailure TO_UnexpectedAllowedPayload category =
     RF_SpotUnexpectedPayload"
| "classifyGate7SpotReceiveFailure TO_CorrelationMismatch category =
     RF_SpotUnexpectedPayload"
| "classifyGate7SpotReceiveFailure TO_InboundTypeRejected category =
     RF_SpotUnexpectedPayload"
| "classifyGate7SpotReceiveFailure TO_MalformedEnvelope category =
     RF_SpotResponseMalformed"
| "classifyGate7SpotReceiveFailure TO_ResourceExhausted category =
     RF_SpotResourceExhausted"

definition classifyGate7UnexpectedSubscriptionPayload :: "u32 \<Rightarrow> residual_failure" where
  "classifyGate7UnexpectedSubscriptionPayload payloadType =
     (if payloadType \<in> {2101, 2103, 2115, 2117, 2150}
      then RF_SubscriptionPriorStageResponse
      else if payloadType = 2130
      then RF_SubscriptionUnrequestedUnsubscribeResponse
      else if payloadType = 2131
      then RF_SubscriptionSpotBeforeAcknowledgement
      else if payloadType = 2120
      then RF_SubscriptionSymbolChangedEvent
      else if payloadType = 2123
      then RF_SubscriptionTraderUpdatedEvent
      else if payloadType \<in> {2107, 2126, 2132, 2141, 2155, 2171, 2172}
      then RF_SubscriptionProhibitedAsyncEvent
      else if payloadType \<ge> 2100 \<and> payloadType \<le> 2188 then RF_SubscriptionOtherSchemaPayload
      else RF_SubscriptionUnknownPayload)"

primrec safeGate7ResidualDiagnostic :: "residual_failure \<Rightarrow> string" where
  "safeGate7ResidualDiagnostic RF_None =
     ''gate7_residual_ok''"
| "safeGate7ResidualDiagnostic RF_SubscriptionStateUnavailable =
     ''gate7_subscription_state_unavailable''"
| "safeGate7ResidualDiagnostic RF_SubscriptionSendFailed =
     ''gate7_subscription_send_failed''"
| "safeGate7ResidualDiagnostic RF_SubscriptionResponseTimeout =
     ''gate7_subscription_response_timeout''"
| "safeGate7ResidualDiagnostic RF_SubscriptionTransportClosed =
     ''gate7_subscription_transport_closed''"
| "safeGate7ResidualDiagnostic RF_SubscriptionAccountRejected =
     ''gate7_subscription_account_rejected''"
| "safeGate7ResidualDiagnostic RF_SubscriptionTokenInvalidated =
     ''gate7_subscription_token_invalidated''"
| "safeGate7ResidualDiagnostic RF_SubscriptionSymbolRejected =
     ''gate7_subscription_symbol_rejected''"
| "safeGate7ResidualDiagnostic RF_SubscriptionRateLimited =
     ''gate7_subscription_rate_limited''"
| "safeGate7ResidualDiagnostic RF_SubscriptionProviderUnavailable =
     ''gate7_subscription_provider_unavailable''"
| "safeGate7ResidualDiagnostic RF_SubscriptionProviderRejected =
     ''gate7_subscription_provider_rejected''"
| "safeGate7ResidualDiagnostic RF_SubscriptionUnexpectedPayload =
     ''gate7_subscription_unexpected_payload''"
| "safeGate7ResidualDiagnostic RF_SubscriptionPriorStageResponse =
     ''gate7_subscription_prior_stage_response''"
| "safeGate7ResidualDiagnostic RF_SubscriptionUnrequestedUnsubscribeResponse =
     ''gate7_subscription_unrequested_unsubscribe_response''"
| "safeGate7ResidualDiagnostic RF_SubscriptionSpotBeforeAcknowledgement =
     ''gate7_subscription_spot_before_ack''"
| "safeGate7ResidualDiagnostic RF_SubscriptionSymbolChangedEvent =
     ''gate7_subscription_symbol_changed_event''"
| "safeGate7ResidualDiagnostic RF_SubscriptionTraderUpdatedEvent =
     ''gate7_subscription_trader_updated_event''"
| "safeGate7ResidualDiagnostic RF_SubscriptionProhibitedAsyncEvent =
     ''gate7_subscription_prohibited_async_event''"
| "safeGate7ResidualDiagnostic RF_SubscriptionOtherSchemaPayload =
     ''gate7_subscription_other_schema_payload''"
| "safeGate7ResidualDiagnostic RF_SubscriptionUnknownPayload =
     ''gate7_subscription_unknown_payload''"
| "safeGate7ResidualDiagnostic RF_SubscriptionCorrelationRejected =
     ''gate7_subscription_correlation_rejected''"
| "safeGate7ResidualDiagnostic RF_SubscriptionResponseMalformed =
     ''gate7_subscription_response_malformed''"
| "safeGate7ResidualDiagnostic RF_SubscriptionAccountMismatch =
     ''gate7_subscription_account_mismatch''"
| "safeGate7ResidualDiagnostic RF_SubscriptionProofRejected =
     ''gate7_subscription_proof_rejected''"
| "safeGate7ResidualDiagnostic RF_SubscriptionResourceExhausted =
     ''gate7_subscription_resource_exhausted''"
| "safeGate7ResidualDiagnostic RF_SpotResponseTimeout =
     ''gate7_spot_response_timeout''"
| "safeGate7ResidualDiagnostic RF_SpotTransportClosed =
     ''gate7_spot_transport_closed''"
| "safeGate7ResidualDiagnostic RF_SpotAccountRejected =
     ''gate7_spot_account_rejected''"
| "safeGate7ResidualDiagnostic RF_SpotTokenInvalidated =
     ''gate7_spot_token_invalidated''"
| "safeGate7ResidualDiagnostic RF_SpotSymbolRejected =
     ''gate7_spot_symbol_rejected''"
| "safeGate7ResidualDiagnostic RF_SpotRateLimited =
     ''gate7_spot_rate_limited''"
| "safeGate7ResidualDiagnostic RF_SpotProviderUnavailable =
     ''gate7_spot_provider_unavailable''"
| "safeGate7ResidualDiagnostic RF_SpotProviderRejected =
     ''gate7_spot_provider_rejected''"
| "safeGate7ResidualDiagnostic RF_SpotUnexpectedPayload =
     ''gate7_spot_unexpected_payload''"
| "safeGate7ResidualDiagnostic RF_SpotResponseMalformed =
     ''gate7_spot_response_malformed''"
| "safeGate7ResidualDiagnostic RF_SpotAccountMismatch =
     ''gate7_spot_account_mismatch''"
| "safeGate7ResidualDiagnostic RF_SpotSymbolMismatch =
     ''gate7_spot_symbol_mismatch''"
| "safeGate7ResidualDiagnostic RF_SpotIncompleteSideTimeout =
     ''gate7_spot_incomplete_side_timeout''"
| "safeGate7ResidualDiagnostic RF_SpotTimestampMissingTimeout =
     ''gate7_spot_timestamp_missing_timeout''"
| "safeGate7ResidualDiagnostic RF_SpotCompleteBboTimeout =
     ''gate7_spot_complete_bbo_timeout''"
| "safeGate7ResidualDiagnostic RF_SpotProofRejected =
     ''gate7_spot_proof_rejected''"
| "safeGate7ResidualDiagnostic RF_SpotResourceExhausted =
     ''gate7_spot_resource_exhausted''"

subsection \<open>Properties\<close>

definition residual_failures :: "residual_failure list" where
  "residual_failures =
    [RF_None, RF_SubscriptionStateUnavailable, RF_SubscriptionSendFailed,
     RF_SubscriptionResponseTimeout, RF_SubscriptionTransportClosed, RF_SubscriptionAccountRejected,
     RF_SubscriptionTokenInvalidated, RF_SubscriptionSymbolRejected, RF_SubscriptionRateLimited,
     RF_SubscriptionProviderUnavailable, RF_SubscriptionProviderRejected, RF_SubscriptionUnexpectedPayload,
     RF_SubscriptionPriorStageResponse, RF_SubscriptionUnrequestedUnsubscribeResponse, RF_SubscriptionSpotBeforeAcknowledgement,
     RF_SubscriptionSymbolChangedEvent, RF_SubscriptionTraderUpdatedEvent, RF_SubscriptionProhibitedAsyncEvent,
     RF_SubscriptionOtherSchemaPayload, RF_SubscriptionUnknownPayload, RF_SubscriptionCorrelationRejected,
     RF_SubscriptionResponseMalformed, RF_SubscriptionAccountMismatch, RF_SubscriptionProofRejected,
     RF_SubscriptionResourceExhausted, RF_SpotResponseTimeout, RF_SpotTransportClosed,
     RF_SpotAccountRejected, RF_SpotTokenInvalidated, RF_SpotSymbolRejected,
     RF_SpotRateLimited, RF_SpotProviderUnavailable, RF_SpotProviderRejected,
     RF_SpotUnexpectedPayload, RF_SpotResponseMalformed, RF_SpotAccountMismatch,
     RF_SpotSymbolMismatch, RF_SpotIncompleteSideTimeout, RF_SpotTimestampMissingTimeout,
     RF_SpotCompleteBboTimeout, RF_SpotProofRejected, RF_SpotResourceExhausted]"

lemma residual_failures_complete: "f \<in> set residual_failures"
  by (cases f) (simp_all add: residual_failures_def)

lemma residual_diagnostics_distinct: "distinct (map safeGate7ResidualDiagnostic residual_failures)"
  by code_simp

text \<open>
  The residual diagnostics name the failure and nothing else: distinct failures have distinct
  fixed texts, and the classifiers report "no failure" exactly for a request that was sent and
  for the expected response, whatever the provider's error category.
\<close>

theorem residual_diagnostics_faithful:
  "(safeGate7ResidualDiagnostic f = safeGate7ResidualDiagnostic g \<longleftrightarrow> f = g)
   \<and> (classifyGate7SubscriptionSendFailure sent = RF_None \<longleftrightarrow> sent = SO_Sent)
   \<and> (classifyGate7SubscriptionReceiveFailure received category = RF_None
        \<longleftrightarrow> received = TO_Expected)
   \<and> (classifyGate7SpotReceiveFailure received category = RF_None \<longleftrightarrow> received = TO_Expected)"
proof -
  have provider: "providerFailure b c \<noteq> RF_None" for b c by (cases c) simp_all
  have "safeGate7ResidualDiagnostic f = safeGate7ResidualDiagnostic g \<longleftrightarrow> f = g"
    using residual_diagnostics_distinct residual_failures_complete
    by (auto simp: distinct_map dest: inj_onD)
  moreover have "classifyGate7SubscriptionSendFailure sent = RF_None \<longleftrightarrow> sent = SO_Sent"
    by (cases sent) simp_all
  moreover have "classifyGate7SubscriptionReceiveFailure received category = RF_None
      \<longleftrightarrow> received = TO_Expected"
    by (cases received) (simp_all add: provider)
  moreover have "classifyGate7SpotReceiveFailure received category = RF_None
      \<longleftrightarrow> received = TO_Expected"
    by (cases received) (simp_all add: provider)
  ultimately show ?thesis by blast
qed

text \<open>
  No heartbeat is slept over: after an outbound message at \<open>t\<close> the heartbeat is due exactly
  from nine seconds later on, a wait that starts before its absolute deadline never ends after
  it, it ends after its start unless the heartbeat is already due, and when it ends before the
  absolute deadline the heartbeat is due.
\<close>

theorem heartbeat_never_missed:
  "(heartbeat_due now (markOutbound t h) \<longleftrightarrow> t + 9000000000 \<le> now)
   \<and> (now < d \<longrightarrow> boundedWaitDeadline d now (markOutbound t h) \<le> d)
   \<and> (now < d \<and> \<not> heartbeat_due now (markOutbound t h) \<longrightarrow>
        now < boundedWaitDeadline d now (markOutbound t h))
   \<and> (now < d \<and> boundedWaitDeadline d now (markOutbound t h) < d \<longrightarrow>
        heartbeat_due (boundedWaitDeadline d now (markOutbound t h)) (markOutbound t h))"
  by (auto simp: heartbeat_due_def markOutbound_def boundedWaitDeadline_def HEARTBEAT_INTERVAL_def)

lemma heartbeat_never_missed_witness:
  "heartbeat_due (boundedWaitDeadline 20000000000 5 (markOutbound 1 heartbeat_init))
     (markOutbound 1 heartbeat_init)"
proof -
  have "boundedWaitDeadline 20000000000 5 (markOutbound 1 heartbeat_init) < 20000000000"
    by (simp add: boundedWaitDeadline_def markOutbound_def HEARTBEAT_INTERVAL_def)
  moreover have "(5 :: int) < 20000000000" by simp
  ultimately show ?thesis
    using heartbeat_never_missed [of 5 1 heartbeat_init 20000000000] by blast
qed

end
