(* ===== verification/Gate7Numeric.thy ===== *)
theory Gate7Numeric
  imports Financial BrokerContracts
begin

text \<open>
  The numeric and textual checks of the quote proof (src/CTraderGate7Proof.cpp): the canonical
  symbol test, the conversion of wire prices (five decimals) to the symbol's digits, and the
  classification of a provider timestamp whose unit is not known.
\<close>

subsection \<open>The canonical symbol\<close>

text \<open>
  The loop over the symbol's bytes; \<open>output\<close> is the filled part of the six-byte buffer, \<open>None\<close>
  an early \<open>return false\<close>.
\<close>

fun canonical_loop :: "string \<Rightarrow> string \<Rightarrow> bool \<Rightarrow> string option" where
  "canonical_loop output [] slashSeen = Some output"
| "canonical_loop output (c # symbolName) slashSeen =
     (if c = CHR ''/'' then
        if slashSeen then None else canonical_loop output symbolName True
      else if byte_of CHR ''a'' \<le> byte_of c \<and> byte_of c \<le> byte_of CHR ''z'' then
        if length output \<ge> 6 then None
        else canonical_loop (output @ [char_of (byte_of c - (byte_of CHR ''a'' - byte_of CHR ''A''))])
               symbolName slashSeen
      else if byte_of CHR ''A'' \<le> byte_of c \<and> byte_of c \<le> byte_of CHR ''Z'' then
        if length output \<ge> 6 then None
        else canonical_loop (output @ [c]) symbolName slashSeen
      else None)"

definition isCanonicalXauusd :: "string \<Rightarrow> bool" where
  "isCanonicalXauusd symbolName =
     (case canonical_loop [] symbolName False of
        None \<Rightarrow> False
      | Some output \<Rightarrow> length output = 6 \<and> output = ''XAUUSD'')"

subsection \<open>Prices\<close>

text \<open>The checked loop multiplying by ten, \<open>n\<close> times.\<close>

fun checked_pow10 :: "nat \<Rightarrow> i64 \<Rightarrow> i64 option" where
  "checked_pow10 0 factor = Some factor"
| "checked_pow10 (Suc n) factor =
     (if factor > cdiv INT64_MAX 10 then None else checked_pow10 n (factor * 10))"

fun pow10_loop :: "nat \<Rightarrow> i64 \<Rightarrow> i64" where
  "pow10_loop 0 factor = factor"
| "pow10_loop (Suc n) factor = pow10_loop n (factor * 10)"

definition normalizeSignedScale5 :: "i64 \<Rightarrow> i32 \<Rightarrow> i64 option" where
  "normalizeSignedScale5 u digits =
     (if digits < 0 \<or> digits > int (unat MAX_SCALE) then None
      else if digits = 5 then Some u
      else if digits > 5 then
        (case checked_pow10 (nat (digits - 5)) 1 of
           None \<Rightarrow> None
         | Some factor \<Rightarrow>
             if u > 0 \<and> u > cdiv INT64_MAX factor then None
             else if u < 0 \<and> u < cdiv INT64_MIN factor then None
             else Some (u * factor))
      else
        let factor = u64_of_i64 (pow10_loop (nat (5 - digits)) 1);
            magnitude = (if u < 0 then u64_of_i64 (- (u + 1)) + 1 else u64_of_i64 u);
            quot = magnitude div factor;
            remainder = magnitude mod factor
        in if remainder * 2 \<ge> factor \<and> quot = INT64_MAX_U then None
           else
             let quot = (if remainder * 2 \<ge> factor then quot + 1 else quot)
             in if quot > INT64_MAX_U then None
                else
                  let rounded = i64_of_u64 quot
                  in Some (if u < 0 then - rounded else rounded))"

definition normalizeSpotPrice :: "u64 \<Rightarrow> i32 \<Rightarrow> decimal64 option" where
  "normalizeSpotPrice rawWire digits =
     (if rawWire = 0 \<or> rawWire > INT64_MAX_U then None
      else case normalizeSignedScale5 (i64_of_u64 rawWire) digits of
        None \<Rightarrow> None
      | Some normalized \<Rightarrow> Some (decimal normalized (word_of_int digits)))"

subsection \<open>Timestamps\<close>

datatype timestamp_unit = TU_Seconds | TU_Milliseconds | TU_Microseconds | TU_Nanoseconds | TU_Unproven

datatype gate7_decision =
    G7_Ready | G7_AccountAuthenticationReady | G7_SymbolListReady | G7_FullSymbolReady
  | G7_SubscriptionReady | G7_QuoteProofSucceeded | G7_AlreadyTerminal | G7_WrongPhase
  | G7_StaleConnectionGeneration | G7_CorrelationRejected | G7_TokenOwnershipRejected
  | G7_TradingScopeRequired | G7_InvalidAccountIdentifier | G7_NoFiboDemoAccount
  | G7_AmbiguousFiboDemoAccount | G7_MissingSymbolMetadata | G7_NoCanonicalXauusd
  | G7_AmbiguousCanonicalXauusd | G7_FullSymbolMismatch | G7_SymbolMetadataRejected
  | G7_SubscriptionMismatch | G7_IncompleteSpotSide | G7_IncompleteSpotTimestamp
  | G7_SpotAccountMismatch | G7_SpotSymbolMismatch | G7_InvalidSpot | G7_CrossedMarket
  | G7_CheckedArithmeticFailed | G7_TimestampUnitUnproven | G7_TimestampStale
  | G7_TimestampFuture | G7_ProviderError | G7_Timeout | G7_Cancelled | G7_MalformedFrame
  | G7_ResourceExhausted

record timestamp_proof =
  tp_unit :: timestamp_unit
  tp_timestampNs :: u64
  tp_receiptTimestampNs :: u64
  tp_freshnessDeltaNs :: i64

definition timestamp_units :: "(u64 \<times> timestamp_unit) list" where
  "timestamp_units = [(1000000000, TU_Seconds), (1000000, TU_Milliseconds),
     (1000, TU_Microseconds), (1, TU_Nanoseconds)]"

definition MAX_AGE_NS :: u64 where "MAX_AGE_NS = 120 * 1000000000"
definition MAX_FUTURE_NS :: u64 where "MAX_FUTURE_NS = 5 * 1000000000"

record timestamp_scan =
  ts_result :: "timestamp_proof option"
  ts_closestDistance :: "u64 option"
  ts_closestTimestamp :: u64
  ts_closestTied :: bool

text \<open>The update of the closest candidate in one round of the loop.\<close>

definition ts_closest :: "u64 \<Rightarrow> u64 \<Rightarrow> timestamp_scan \<Rightarrow> timestamp_scan" where
  "ts_closest timestampNs distance a =
     (if ts_closestDistance a = None \<or> distance < the (ts_closestDistance a)
      then a\<lparr>ts_closestDistance := Some distance, ts_closestTimestamp := timestampNs,
             ts_closestTied := False\<rparr>
      else if distance = the (ts_closestDistance a) then a\<lparr>ts_closestTied := True\<rparr>
      else a)"

text \<open>The loop over the units; \<open>None\<close> is its early return for a second plausible unit.\<close>

fun timestamp_loop ::
  "u64 \<Rightarrow> u64 \<Rightarrow> (u64 \<times> timestamp_unit) list \<Rightarrow> timestamp_scan \<Rightarrow> timestamp_scan option" where
  "timestamp_loop raw receipt [] a = Some a"
| "timestamp_loop raw receipt ((multiplier, unit) # rest) a =
     (if raw > (- 1) div multiplier then timestamp_loop raw receipt rest a
      else
        let timestampNs = raw * multiplier;
            distance = (if timestampNs \<le> receipt then receipt - timestampNs
                        else timestampNs - receipt);
            a = ts_closest timestampNs distance a
        in if timestampNs \<le> receipt \<and> receipt - timestampNs > MAX_AGE_NS
           then timestamp_loop raw receipt rest a
           else if \<not> timestampNs \<le> receipt \<and> timestampNs - receipt > MAX_FUTURE_NS
           then timestamp_loop raw receipt rest a
           else
             let delta = (if timestampNs \<le> receipt then i64_of_u64 (receipt - timestampNs)
                          else - i64_of_u64 (timestampNs - receipt))
             in if ts_result a \<noteq> None then None
                else timestamp_loop raw receipt rest
                  (a\<lparr>ts_result := Some \<lparr>tp_unit = unit, tp_timestampNs = timestampNs,
                       tp_receiptTimestampNs = receipt, tp_freshnessDeltaNs = delta\<rparr>\<rparr>))"

definition scan_init :: timestamp_scan where
  "scan_init = \<lparr>ts_result = None, ts_closestDistance = None, ts_closestTimestamp = 0,
     ts_closestTied = False\<rparr>"

definition classifyTimestampDetailed ::
  "u64 \<Rightarrow> u64 \<Rightarrow> gate7_decision \<times> timestamp_proof option" where
  "classifyTimestampDetailed raw receipt =
     (if receipt = 0 then (G7_TimestampUnitUnproven, None)
      else case timestamp_loop raw receipt timestamp_units scan_init of
        None \<Rightarrow> (G7_TimestampUnitUnproven, None)
      | Some a \<Rightarrow>
          if ts_result a \<noteq> None then (G7_Ready, ts_result a)
          else if ts_closestDistance a = None \<or> ts_closestTied a then (G7_TimestampUnitUnproven, None)
          else (if ts_closestTimestamp a < receipt then G7_TimestampStale else G7_TimestampFuture, None))"

definition classifyTimestamp :: "u64 \<Rightarrow> u64 \<Rightarrow> timestamp_proof option" where
  "classifyTimestamp raw receipt = snd (classifyTimestampDetailed raw receipt)"

fun timestampUnitName :: "timestamp_unit \<Rightarrow> string" where
  "timestampUnitName TU_Seconds = ''seconds''"
| "timestampUnitName TU_Milliseconds = ''milliseconds''"
| "timestampUnitName TU_Microseconds = ''microseconds''"
| "timestampUnitName TU_Nanoseconds = ''nanoseconds''"
| "timestampUnitName TU_Unproven = ''unproven''"

end
