(* ===== verification/Gate7.thy ===== *)
theory Gate7
  imports Gate7Numeric Interfaces
begin

text \<open>
  The quote proof (\<open>CTraderGate7Proof\<close> of include/CTraderGate7Proof.hpp and
  src/CTraderGate7Proof.cpp): from the list of accounts to one verified XAUUSD quote of the
  demo account, one function per accepted response.  Responses arrive as evidence records whose
  destructors erase them; the model keeps the state of the proof object.  \<open>oom\<close>: the first
  allocation the call makes fails.
\<close>

subsection \<open>Evidence\<close>

record gate7_account =
  g7a_accountId :: "u64 option"
  g7a_isLive :: "bool option"
  g7a_brokerTitleShort :: "string option"

record gate7_account_list =
  gal_connectionGeneration :: u64
  gal_currentConnectionGeneration :: bool
  gal_correlationMatched :: bool
  gal_tokenOwned :: bool
  gal_tradingScope :: bool
  gal_accounts :: "gate7_account list"

record gate7_light_symbol =
  gls_symbolId :: "i64 option"
  gls_symbolName :: "string option"
  gls_enabled :: "bool option"
  gls_archived :: bool

record gate7_symbols_list =
  gsl_connectionGeneration :: u64
  gsl_currentConnectionGeneration :: bool
  gsl_correlationMatched :: bool
  gsl_accountId :: i64
  gsl_includeArchivedSymbols :: bool
  gsl_symbols :: "gate7_light_symbol list"
  gsl_archivedSymbolIds :: "i64 list"

record gate7_full_symbol =
  gfs_symbolId :: "i64 option"
  gfs_symbolName :: "string option"
  gfs_enabled :: "bool option"
  gfs_archived :: "bool option"
  gfs_digits :: "i32 option"
  gfs_pipPosition :: "i32 option"
  gfs_minVolume :: "i64 option"
  gfs_maxVolume :: "i64 option"
  gfs_stepVolume :: "i64 option"
  gfs_lotSize :: "i64 option"

record gate7_full_symbol_evidence =
  gfe_connectionGeneration :: u64
  gfe_currentConnectionGeneration :: bool
  gfe_correlationMatched :: bool
  gfe_accountId :: i64
  gfe_symbols :: "gate7_full_symbol list"
  gfe_archivedSymbolIds :: "i64 list"

record gate7_subscription =
  gsu_connectionGeneration :: u64
  gsu_currentConnectionGeneration :: bool
  gsu_correlationMatched :: bool
  gsu_accountId :: i64
  gsu_symbolId :: i64
  gsu_requestedSymbolCount :: u64

record gate7_spot =
  gsp_connectionGeneration :: u64
  gsp_currentConnectionGeneration :: bool
  gsp_subscriptionMatched :: bool
  gsp_accountId :: i64
  gsp_symbolId :: i64
  gsp_bid :: "u64 option"
  gsp_ask :: "u64 option"
  gsp_timestamp :: "i64 option"
  gsp_receiptTimestampNs :: u64

record gate7_quote =
  gq_canonicalSymbol :: string
  gq_executionAlias :: string
  gq_instrument :: instrument_spec
  gq_pipPosition :: i32
  gq_bid :: decimal64
  gq_ask :: decimal64
  gq_spread :: decimal64
  gq_timestamp :: timestamp_proof

subsection \<open>State\<close>

datatype gate7_phase =
    P7_AccountList | P7_AccountAuthentication | P7_SymbolsList | P7_FullSymbol
  | P7_Subscription | P7_Spot | P7_Complete | P7_Terminal

record gate7_proof =
  g7_connectionGeneration :: u64
  g7_phase :: gate7_phase
  g7_lastDecision :: gate7_decision
  g7_accountId :: i64
  g7_symbolId :: i64
  g7_pipPosition :: i32
  g7_symbolName :: string
  g7_instrument :: "instrument_spec option"
  g7_subscriptionReady :: bool
  g7_quoteEvidence :: "gate7_quote option"

definition gate7_init :: "u64 \<Rightarrow> gate7_proof" where
  "gate7_init generation = \<lparr>g7_connectionGeneration = generation, g7_phase = P7_AccountList,
     g7_lastDecision = G7_Ready, g7_accountId = 0, g7_symbolId = 0, g7_pipPosition = 0,
     g7_symbolName = [], g7_instrument = None, g7_subscriptionReady = False,
     g7_quoteEvidence = None\<rparr>"

definition g7_isTerminal :: "gate7_proof \<Rightarrow> bool" where
  "g7_isTerminal s \<longleftrightarrow> g7_phase s = P7_Complete \<or> g7_phase s = P7_Terminal"

subsection \<open>Erasure\<close>

definition clearInstrument :: "instrument_spec \<Rightarrow> instrument_spec" where
  "clearInstrument i = i\<lparr>ins_canonicalSymbol := secureClear (ins_canonicalSymbol i),
     ins_executionAlias := secureClear (ins_executionAlias i), ins_tickSize := decimal_default,
     ins_contractSize := decimal_default, ins_minimumQuantity := decimal_default,
     ins_maximumQuantity := decimal_default, ins_quantityStep := decimal_default,
     ins_effectiveTimestampNs := 0, ins_version := 0, ins_complete := False\<rparr>"

text \<open>An erased optional is cleared in place and then reset: its logical value is \<open>None\<close>.\<close>

definition reset_cleared :: "('a \<Rightarrow> 'a) \<Rightarrow> 'a option \<Rightarrow> 'a option" where
  "reset_cleared clr v = (case v of None \<Rightarrow> None | Some x \<Rightarrow> Option.bind (Some (clr x)) (\<lambda>_. None))"

definition g7_clearSensitiveState :: "gate7_proof \<Rightarrow> gate7_proof" where
  "g7_clearSensitiveState s = s\<lparr>g7_accountId := 0, g7_symbolId := 0, g7_pipPosition := 0,
     g7_symbolName := secureClear (g7_symbolName s),
     g7_instrument := reset_cleared clearInstrument (g7_instrument s),
     g7_subscriptionReady := False\<rparr>"

definition clear_quote :: "gate7_quote \<Rightarrow> gate7_quote" where
  "clear_quote q = q\<lparr>gq_canonicalSymbol := secureClear (gq_canonicalSymbol q),
     gq_executionAlias := secureClear (gq_executionAlias q),
     gq_instrument := clearInstrument (gq_instrument q)\<rparr>"

definition g7_clearAll :: "gate7_proof \<Rightarrow> gate7_proof" where
  "g7_clearAll s = (g7_clearSensitiveState s)
     \<lparr>g7_quoteEvidence := reset_cleared clear_quote (g7_quoteEvidence s),
      g7_connectionGeneration := 0\<rparr>"

definition g7_finish :: "gate7_decision \<Rightarrow> gate7_proof \<Rightarrow> gate7_proof \<times> gate7_decision" where
  "g7_finish decision s =
     ((g7_clearAll s)\<lparr>g7_phase := P7_Terminal, g7_lastDecision := decision\<rparr>, decision)"

definition g7_terminal :: "gate7_decision \<Rightarrow> gate7_proof \<Rightarrow> gate7_proof \<times> gate7_decision" where
  "g7_terminal decision s =
     (if g7_isTerminal s
      then (s\<lparr>g7_lastDecision := G7_AlreadyTerminal\<rparr>, G7_AlreadyTerminal)
      else g7_finish decision s)"

definition g7_decide :: "gate7_decision \<Rightarrow> gate7_proof \<Rightarrow> gate7_proof \<times> gate7_decision" where
  "g7_decide decision s = (s\<lparr>g7_lastDecision := decision\<rparr>, decision)"

subsection \<open>Checks shared by the responses\<close>

definition g7_isUsableAccountId :: "u64 \<Rightarrow> bool" where
  "g7_isUsableAccountId v \<longleftrightarrow> v > 0 \<and> v \<le> INT64_MAX_U"

definition isUsableProviderId :: "i64 \<Rightarrow> bool" where
  "isUsableProviderId v \<longleftrightarrow> v > 0"

definition isSafeText :: "string \<Rightarrow> bool" where
  "isSafeText v =
     (if v = [] \<or> length v > 256 then False
      else \<not> list_ex (\<lambda>c. byte_of c < 0x20 \<or> byte_of c = 0x7f) v)"

definition containsId :: "i64 list \<Rightarrow> i64 \<Rightarrow> bool" where
  "containsId ids i \<longleftrightarrow> i \<in> set ids"

definition validateTransportEvidence ::
  "u64 \<Rightarrow> bool \<Rightarrow> bool \<Rightarrow> gate7_proof \<Rightarrow> gate7_decision" where
  "validateTransportEvidence generation currentGeneration correlationMatched s =
     (if \<not> currentGeneration \<or> generation = 0 \<or> generation \<noteq> g7_connectionGeneration s
      then G7_StaleConnectionGeneration
      else if \<not> correlationMatched then G7_CorrelationRejected
      else G7_Ready)"

subsection \<open>Accounts\<close>

definition fibo_demo :: "gate7_account \<Rightarrow> bool" where
  "fibo_demo a \<longleftrightarrow>
     (case g7a_accountId a of None \<Rightarrow> False | Some i \<Rightarrow> g7_isUsableAccountId i)
     \<and> \<not> (g7a_isLive a = None \<or> g7a_isLive a = Some True)
     \<and> (case g7a_brokerTitleShort a of None \<Rightarrow> False | Some t \<Rightarrow> isSafeText t \<and> t = ''FIBO'')"

fun scan_accounts :: "gate7_account list \<Rightarrow> u64 \<Rightarrow> nat \<Rightarrow> u64 \<times> nat" where
  "scan_accounts [] found matches = (found, matches)"
| "scan_accounts (a # accounts) found matches =
     (if \<not> fibo_demo a then scan_accounts accounts found matches
      else scan_accounts accounts (the (g7a_accountId a)) (matches + 1))"

definition acceptAccountList ::
  "gate7_account_list \<Rightarrow> gate7_proof \<Rightarrow> gate7_proof \<times> gate7_decision" where
  "acceptAccountList e s =
     (if g7_isTerminal s then (s, G7_AlreadyTerminal)
      else if g7_phase s \<noteq> P7_AccountList then g7_finish G7_WrongPhase s
      else
        let transport = validateTransportEvidence (gal_connectionGeneration e)
              (gal_currentConnectionGeneration e) (gal_correlationMatched e) s
        in if transport \<noteq> G7_Ready then g7_finish transport s
           else if \<not> gal_tokenOwned e then g7_finish G7_TokenOwnershipRejected s
           else if \<not> gal_tradingScope e then g7_finish G7_TradingScopeRequired s
           else
             let (found, matches) = scan_accounts (gal_accounts e) 0 0
             in if matches = 0 then g7_finish G7_NoFiboDemoAccount s
                else if matches \<noteq> 1 then g7_finish G7_AmbiguousFiboDemoAccount s
                else g7_decide G7_AccountAuthenticationReady
                  (s\<lparr>g7_accountId := i64_of_u64 found, g7_phase := P7_AccountAuthentication\<rparr>))"

definition g7_accountIdForAuthentication :: "gate7_proof \<Rightarrow> i64 option" where
  "g7_accountIdForAuthentication s =
     (if g7_phase s \<noteq> P7_AccountAuthentication \<or> g7_accountId s \<le> 0 then None
      else Some (g7_accountId s))"

definition g7_acceptAccountAuthentication ::
  "i64 \<Rightarrow> gate7_proof \<Rightarrow> gate7_proof \<times> gate7_decision" where
  "g7_acceptAccountAuthentication responseAccountId s =
     (let matched = (g7_phase s = P7_AccountAuthentication \<and> responseAccountId > 0
            \<and> responseAccountId = g7_accountId s)
      in if \<not> matched then g7_finish G7_InvalidAccountIdentifier s
         else g7_decide G7_SymbolListReady (s\<lparr>g7_phase := P7_SymbolsList\<rparr>))"

subsection \<open>Symbols\<close>

definition symbol_candidate :: "i64 list \<Rightarrow> gate7_light_symbol \<Rightarrow> bool" where
  "symbol_candidate archivedIds y \<longleftrightarrow>
     (case gls_symbolId y of None \<Rightarrow> False
      | Some i \<Rightarrow> isUsableProviderId i \<and> \<not> containsId archivedIds i)
     \<and> gls_enabled y = Some True \<and> \<not> gls_archived y
     \<and> (case gls_symbolName y of None \<Rightarrow> False | Some n \<Rightarrow> isCanonicalXauusd n)"

text \<open>The first loop: the last candidate's id and name, and the number of candidates.\<close>

fun scan_symbols ::
  "i64 list \<Rightarrow> gate7_light_symbol list \<Rightarrow> i64 \<Rightarrow> string \<Rightarrow> nat \<Rightarrow> i64 \<times> string \<times> nat" where
  "scan_symbols archivedIds [] found name matches = (found, name, matches)"
| "scan_symbols archivedIds (y # symbols) found name matches =
     (if \<not> symbol_candidate archivedIds y
      then scan_symbols archivedIds symbols found name matches
      else scan_symbols archivedIds symbols (the (gls_symbolId y)) (the (gls_symbolName y))
             (matches + 1))"

definition acceptSymbolsListImpl ::
  "bool \<Rightarrow> gate7_symbols_list \<Rightarrow> gate7_proof \<Rightarrow> (gate7_proof \<times> gate7_decision) option" where
  "acceptSymbolsListImpl oom e s =
     (if g7_isTerminal s then Some (s, G7_AlreadyTerminal)
      else if g7_phase s \<noteq> P7_SymbolsList then Some (g7_finish G7_WrongPhase s)
      else
        let transport = validateTransportEvidence (gsl_connectionGeneration e)
              (gsl_currentConnectionGeneration e) (gsl_correlationMatched e) s
        in if transport \<noteq> G7_Ready then Some (g7_finish transport s)
           else if gsl_accountId e \<le> 0 \<or> gsl_accountId e \<noteq> g7_accountId s
           then Some (g7_finish G7_InvalidAccountIdentifier s)
           else if gsl_includeArchivedSymbols e
           then Some (g7_finish G7_MissingSymbolMetadata s)
           else
             let archivedIds = gsl_archivedSymbolIds e;
                 (found, name, matches) = scan_symbols archivedIds (gsl_symbols e) 0 [] 0;
                 foundName = (name \<noteq> [])
             in if matches \<noteq> 0 \<and> oom then None
                else if matches = 0 then Some (g7_finish G7_NoCanonicalXauusd s)
                else if matches \<noteq> 1 then Some (g7_finish G7_AmbiguousCanonicalXauusd s)
                else
                  let s = (case find (symbol_candidate archivedIds) (gsl_symbols e) of
                        None \<Rightarrow> s
                      | Some y \<Rightarrow> s\<lparr>g7_symbolId := the (gls_symbolId y),
                                   g7_symbolName := the (gls_symbolName y)\<rparr>)
                  in if g7_symbolId s \<le> 0 \<or> \<not> foundName
                     then Some (g7_finish G7_MissingSymbolMetadata s)
                     else Some (g7_decide G7_FullSymbolReady (s\<lparr>g7_phase := P7_FullSymbol\<rparr>)))"

definition acceptSymbolsList ::
  "bool \<Rightarrow> gate7_symbols_list \<Rightarrow> gate7_proof \<Rightarrow> gate7_proof \<times> gate7_decision" where
  "acceptSymbolsList oom e s =
     (case acceptSymbolsListImpl oom e s of
        None \<Rightarrow> g7_finish G7_ResourceExhausted s
      | Some result \<Rightarrow> result)"

definition symbolIdForFullRequest :: "gate7_proof \<Rightarrow> i64 option" where
  "symbolIdForFullRequest s =
     (if g7_phase s \<noteq> P7_FullSymbol \<or> g7_symbolId s \<le> 0 then None else Some (g7_symbolId s))"

text \<open>The loop over the full symbols: the last match (the pointer) and the number of matches.\<close>

fun scan_full_symbols ::
  "i64 \<Rightarrow> gate7_full_symbol list \<Rightarrow> gate7_full_symbol option \<Rightarrow> nat \<Rightarrow> gate7_full_symbol option \<times> nat" where
  "scan_full_symbols i [] found matchCount = (found, matchCount)"
| "scan_full_symbols i (y # symbols) found matchCount =
     (if gfs_symbolId y = Some i then scan_full_symbols i symbols (Some y) (matchCount + 1)
      else scan_full_symbols i symbols found matchCount)"

definition valid_symbol_metadata :: "i32 \<Rightarrow> i32 \<Rightarrow> i64 \<Rightarrow> i64 \<Rightarrow> i64 \<Rightarrow> i64 \<Rightarrow> bool" where
  "valid_symbol_metadata digits pipPosition minVolume maxVolume stepVolume lotSize \<longleftrightarrow>
     \<not> (digits < 0 \<or> pipPosition < 0 \<or> digits > int (unat MAX_SCALE)
        \<or> pipPosition > int (unat MAX_SCALE) \<or> pipPosition > digits
        \<or> minVolume \<le> 0 \<or> maxVolume \<le> 0 \<or> stepVolume \<le> 0 \<or> lotSize \<le> 0
        \<or> minVolume > maxVolume \<or> cmod minVolume stepVolume \<noteq> 0
        \<or> cmod maxVolume stepVolume \<noteq> 0)"

definition symbol_spec :: "string \<Rightarrow> i32 \<Rightarrow> i64 \<Rightarrow> i64 \<Rightarrow> i64 \<Rightarrow> i64 \<Rightarrow> instrument_spec" where
  "symbol_spec name digits minVolume maxVolume stepVolume lotSize =
     instrument_default\<lparr>ins_version := 1, ins_canonicalSymbol := ''XAUUSD'',
       ins_executionAlias := name, ins_tickSize := decimal 1 (word_of_int digits),
       ins_contractSize := decimal lotSize 2, ins_minimumQuantity := decimal minVolume 2,
       ins_maximumQuantity := decimal maxVolume 2, ins_quantityStep := decimal stepVolume 2,
       ins_complete := True\<rparr>"

definition acceptFullSymbolImpl ::
  "bool \<Rightarrow> gate7_full_symbol_evidence \<Rightarrow> gate7_proof \<Rightarrow> (gate7_proof \<times> gate7_decision) option" where
  "acceptFullSymbolImpl oom e s =
     (if g7_isTerminal s then Some (s, G7_AlreadyTerminal)
      else if g7_phase s \<noteq> P7_FullSymbol then Some (g7_finish G7_WrongPhase s)
      else
        let transport = validateTransportEvidence (gfe_connectionGeneration e)
              (gfe_currentConnectionGeneration e) (gfe_correlationMatched e) s
        in if transport \<noteq> G7_Ready then Some (g7_finish transport s)
           else if gfe_accountId e \<noteq> g7_accountId s \<or> gfe_accountId e \<le> 0
           then Some (g7_finish G7_InvalidAccountIdentifier s)
           else if containsId (gfe_archivedSymbolIds e) (g7_symbolId s)
           then Some (g7_finish G7_SymbolMetadataRejected s)
           else case scan_full_symbols (g7_symbolId s) (gfe_symbols e) None 0 of
             (None, matchCount) \<Rightarrow> Some (g7_finish G7_FullSymbolMismatch s)
           | (Some y, matchCount) \<Rightarrow>
               if matchCount \<noteq> 1 then Some (g7_finish G7_FullSymbolMismatch s)
               else if gfs_symbolName y \<noteq> None \<and> gfs_symbolName y \<noteq> Some (g7_symbolName s)
               then Some (g7_finish G7_SymbolMetadataRejected s)
               else if gfs_enabled y = Some False
               then Some (g7_finish G7_SymbolMetadataRejected s)
               else if gfs_archived y = Some True
               then Some (g7_finish G7_SymbolMetadataRejected s)
               else case (gfs_digits y, gfs_pipPosition y, gfs_minVolume y, gfs_maxVolume y,
                          gfs_stepVolume y, gfs_lotSize y) of
                 (Some digits, Some pipPosition, Some minVolume, Some maxVolume,
                  Some stepVolume, Some lotSize) \<Rightarrow>
                   if \<not> valid_symbol_metadata digits pipPosition minVolume maxVolume
                           stepVolume lotSize
                   then Some (g7_finish G7_SymbolMetadataRejected s)
                   else if oom then None
                   else Some (g7_decide G7_SubscriptionReady
                     (s\<lparr>g7_instrument := Some (symbol_spec (g7_symbolName s) digits minVolume
                          maxVolume stepVolume lotSize),
                        g7_pipPosition := pipPosition, g7_phase := P7_Subscription\<rparr>))
               | _ \<Rightarrow> Some (g7_finish G7_MissingSymbolMetadata s))"

definition acceptFullSymbol ::
  "bool \<Rightarrow> gate7_full_symbol_evidence \<Rightarrow> gate7_proof \<Rightarrow> gate7_proof \<times> gate7_decision" where
  "acceptFullSymbol oom e s =
     (case acceptFullSymbolImpl oom e s of
        None \<Rightarrow> g7_finish G7_ResourceExhausted s
      | Some result \<Rightarrow> result)"

definition symbolIdForSubscription :: "gate7_proof \<Rightarrow> i64 option" where
  "symbolIdForSubscription s =
     (if g7_phase s \<noteq> P7_Subscription \<or> g7_symbolId s \<le> 0 then None else Some (g7_symbolId s))"

subsection \<open>Subscription and spot\<close>

definition acceptSubscription ::
  "gate7_subscription \<Rightarrow> gate7_proof \<Rightarrow> gate7_proof \<times> gate7_decision" where
  "acceptSubscription e s =
     (if g7_isTerminal s then (s, G7_AlreadyTerminal)
      else if g7_phase s \<noteq> P7_Subscription then g7_finish G7_WrongPhase s
      else
        let transport = validateTransportEvidence (gsu_connectionGeneration e)
              (gsu_currentConnectionGeneration e) (gsu_correlationMatched e) s
        in if transport \<noteq> G7_Ready then g7_finish transport s
           else
             let matched = (gsu_accountId e = g7_accountId s \<and> gsu_accountId e > 0
                   \<and> gsu_symbolId e = g7_symbolId s \<and> gsu_symbolId e > 0
                   \<and> gsu_requestedSymbolCount e = 1)
             in if \<not> matched then g7_finish G7_SubscriptionMismatch s
                else g7_decide G7_SubscriptionReady
                  (s\<lparr>g7_subscriptionReady := True, g7_phase := P7_Spot\<rparr>))"

definition bad_side :: "u64 option \<Rightarrow> bool" where
  "bad_side v = (case v of None \<Rightarrow> False | Some p \<Rightarrow> p = 0 \<or> p > INT64_MAX_U)"

text \<open>The part of \<open>acceptSpotImpl\<close> with both sides present.\<close>

definition accept_sides ::
  "bool \<Rightarrow> u64 \<Rightarrow> u64 \<Rightarrow> gate7_spot \<Rightarrow> gate7_proof \<Rightarrow> (gate7_proof \<times> gate7_decision) option" where
  "accept_sides oom rawBid rawAsk e s =
     (if rawBid > rawAsk then Some (g7_finish G7_CrossedMarket s)
      else case g7_instrument s of
        None \<Rightarrow> Some (g7_finish G7_WrongPhase s)
      | Some spec \<Rightarrow>
          let digits = int (unat (dec_scale (ins_tickSize spec)))
          in case (normalizeSpotPrice rawBid digits, normalizeSpotPrice rawAsk digits) of
               (Some bid, Some ask) \<Rightarrow>
                 if dec_units bid > dec_units ask then Some (g7_finish G7_CrossedMarket s)
                 else (case gsp_timestamp e of
                     None \<Rightarrow> Some (g7_decide G7_IncompleteSpotTimestamp s)
                   | Some ts \<Rightarrow>
                       (case classifyTimestampDetailed (u64_of_i64 ts) (gsp_receiptTimestampNs e) of
                          (decision, None) \<Rightarrow> Some (g7_finish decision s)
                        | (decision, Some proof) \<Rightarrow>
                            let rawSpread = i64_of_u64 rawAsk - i64_of_u64 rawBid;
                                normalizedSpread = dec_units ask - dec_units bid
                            in if rawSpread < 0 \<or> normalizedSpread < 0
                               then Some (g7_finish G7_CrossedMarket s)
                               else if oom then None
                               else
                                 let quote = \<lparr>gq_canonicalSymbol = ''XAUUSD'',
                                       gq_executionAlias = g7_symbolName s,
                                       gq_instrument = spec,
                                       gq_pipPosition = g7_pipPosition s, gq_bid = bid,
                                       gq_ask = ask,
                                       gq_spread = decimal normalizedSpread (dec_scale bid),
                                       gq_timestamp = proof\<rparr>;
                                     s = g7_clearSensitiveState (s\<lparr>g7_quoteEvidence := Some quote\<rparr>)
                                 in Some (g7_decide G7_QuoteProofSucceeded
                                      (s\<lparr>g7_phase := P7_Complete\<rparr>))))
             | _ \<Rightarrow> Some (g7_finish G7_CheckedArithmeticFailed s))"

definition acceptSpotImpl ::
  "bool \<Rightarrow> gate7_spot \<Rightarrow> gate7_proof \<Rightarrow> (gate7_proof \<times> gate7_decision) option" where
  "acceptSpotImpl oom e s =
     (if g7_isTerminal s then Some (s, G7_AlreadyTerminal)
      else if g7_phase s \<noteq> P7_Spot \<or> \<not> g7_subscriptionReady s
      then Some (g7_finish G7_WrongPhase s)
      else if \<not> gsp_currentConnectionGeneration e
           \<or> gsp_connectionGeneration e \<noteq> g7_connectionGeneration s
      then Some (g7_finish G7_StaleConnectionGeneration s)
      else if \<not> gsp_subscriptionMatched e then Some (g7_finish G7_SubscriptionMismatch s)
      else if gsp_accountId e \<noteq> g7_accountId s \<or> gsp_accountId e \<le> 0
      then Some (g7_finish G7_SpotAccountMismatch s)
      else if gsp_symbolId e \<noteq> g7_symbolId s \<or> gsp_symbolId e \<le> 0
      then Some (g7_finish G7_SpotSymbolMismatch s)
      else if bad_side (gsp_bid e) \<or> bad_side (gsp_ask e) then Some (g7_finish G7_InvalidSpot s)
      else if (case gsp_timestamp e of None \<Rightarrow> False | Some ts \<Rightarrow> ts < 0)
      then Some (g7_finish G7_TimestampUnitUnproven s)
      else
        let early = (case gsp_timestamp e of
              None \<Rightarrow> None
            | Some ts \<Rightarrow>
                if gsp_bid e = None \<or> gsp_ask e = None then
                  (case classifyTimestampDetailed (u64_of_i64 ts) (gsp_receiptTimestampNs e) of
                     (decision, None) \<Rightarrow> Some decision
                   | (decision, Some _) \<Rightarrow> None)
                else None)
        in case early of
             Some decision \<Rightarrow> Some (g7_finish decision s)
           | None \<Rightarrow>
               (case (gsp_bid e, gsp_ask e) of
                  (Some rawBid, Some rawAsk) \<Rightarrow> accept_sides oom rawBid rawAsk e s
                | _ \<Rightarrow> Some (g7_decide G7_IncompleteSpotSide s)))"

definition acceptSpot ::
  "bool \<Rightarrow> gate7_spot \<Rightarrow> gate7_proof \<Rightarrow> gate7_proof \<times> gate7_decision" where
  "acceptSpot oom e s =
     (case acceptSpotImpl oom e s of
        None \<Rightarrow> g7_finish G7_ResourceExhausted s
      | Some result \<Rightarrow> result)"

subsection \<open>Diagnostics\<close>

primrec g7_safeDiagnostic :: "gate7_decision \<Rightarrow> string" where
  "g7_safeDiagnostic G7_Ready = ''gate7_ready''"
| "g7_safeDiagnostic G7_AccountAuthenticationReady = ''gate7_account_auth_ready''"
| "g7_safeDiagnostic G7_SymbolListReady = ''gate7_symbol_list_ready''"
| "g7_safeDiagnostic G7_FullSymbolReady = ''gate7_full_symbol_ready''"
| "g7_safeDiagnostic G7_SubscriptionReady = ''gate7_subscription_ready''"
| "g7_safeDiagnostic G7_QuoteProofSucceeded = ''gate7_quote_proof_succeeded''"
| "g7_safeDiagnostic G7_AlreadyTerminal = ''gate7_terminal_replay_rejected''"
| "g7_safeDiagnostic G7_WrongPhase = ''gate7_wrong_phase''"
| "g7_safeDiagnostic G7_StaleConnectionGeneration = ''gate7_stale_generation''"
| "g7_safeDiagnostic G7_CorrelationRejected = ''gate7_correlation_rejected''"
| "g7_safeDiagnostic G7_TokenOwnershipRejected = ''gate7_token_ownership_rejected''"
| "g7_safeDiagnostic G7_TradingScopeRequired = ''gate7_trading_scope_required''"
| "g7_safeDiagnostic G7_InvalidAccountIdentifier = ''gate7_account_identifier_rejected''"
| "g7_safeDiagnostic G7_NoFiboDemoAccount = ''gate7_fibo_demo_missing''"
| "g7_safeDiagnostic G7_AmbiguousFiboDemoAccount = ''gate7_fibo_demo_ambiguous''"
| "g7_safeDiagnostic G7_MissingSymbolMetadata = ''gate7_symbol_metadata_missing''"
| "g7_safeDiagnostic G7_NoCanonicalXauusd = ''gate7_xauusd_missing''"
| "g7_safeDiagnostic G7_AmbiguousCanonicalXauusd = ''gate7_xauusd_ambiguous''"
| "g7_safeDiagnostic G7_FullSymbolMismatch = ''gate7_full_symbol_mismatch''"
| "g7_safeDiagnostic G7_SymbolMetadataRejected = ''gate7_symbol_metadata_rejected''"
| "g7_safeDiagnostic G7_SubscriptionMismatch = ''gate7_subscription_mismatch''"
| "g7_safeDiagnostic G7_IncompleteSpotSide = ''gate7_spot_side_incomplete''"
| "g7_safeDiagnostic G7_IncompleteSpotTimestamp = ''gate7_spot_timestamp_missing''"
| "g7_safeDiagnostic G7_SpotAccountMismatch = ''gate7_spot_account_mismatch''"
| "g7_safeDiagnostic G7_SpotSymbolMismatch = ''gate7_spot_symbol_mismatch''"
| "g7_safeDiagnostic G7_InvalidSpot = ''gate7_spot_invalid''"
| "g7_safeDiagnostic G7_CrossedMarket = ''gate7_crossed_market''"
| "g7_safeDiagnostic G7_CheckedArithmeticFailed = ''gate7_checked_arithmetic_failed''"
| "g7_safeDiagnostic G7_TimestampUnitUnproven = ''timestamp_unit_unproven''"
| "g7_safeDiagnostic G7_TimestampStale = ''gate7_timestamp_stale''"
| "g7_safeDiagnostic G7_TimestampFuture = ''gate7_timestamp_future''"
| "g7_safeDiagnostic G7_ProviderError = ''gate7_provider_error''"
| "g7_safeDiagnostic G7_Timeout = ''gate7_timeout''"
| "g7_safeDiagnostic G7_Cancelled = ''gate7_cancelled''"
| "g7_safeDiagnostic G7_MalformedFrame = ''gate7_malformed_frame''"
| "g7_safeDiagnostic G7_ResourceExhausted = ''gate7_resource_exhausted''"

end
