(* ===== verification/Gate7NumericProps.thy ===== *)
theory Gate7NumericProps
  imports Gate7Numeric
begin

text \<open>
  Correctness of the quote proof's numeric checks against mathematical specifications: the
  symbol test, the exactness of price scaling, and the uniqueness of the timestamp's unit.
\<close>

subsection \<open>The canonical symbol\<close>

definition upper :: "char \<Rightarrow> char" where
  "upper c = (if byte_of CHR ''a'' \<le> byte_of c \<and> byte_of c \<le> byte_of CHR ''z''
              then char_of (byte_of c - (byte_of CHR ''a'' - byte_of CHR ''A'')) else c)"

definition letter :: "char \<Rightarrow> bool" where
  "letter c \<longleftrightarrow> byte_of CHR ''a'' \<le> byte_of c \<and> byte_of c \<le> byte_of CHR ''z''
     \<or> byte_of CHR ''A'' \<le> byte_of c \<and> byte_of c \<le> byte_of CHR ''Z''"

lemma canonical_loop_iff:
  "length buf \<le> 6 \<Longrightarrow>
     canonical_loop buf s slashSeen = Some r \<longleftrightarrow>
       r = buf @ map upper (filter (\<lambda>c. c \<noteq> CHR ''/'') s)
       \<and> count_list s CHR ''/'' + of_bool slashSeen \<le> 1
       \<and> (\<forall>c \<in> set s. c = CHR ''/'' \<or> letter c) \<and> length r \<le> 6"
proof (induction s arbitrary: buf slashSeen)
  case Nil
  then show ?case by auto
next
  case (Cons c s)
  have slash: "\<not> letter CHR ''/''" by (simp add: letter_def byte_of_def)
  show ?case
  proof (cases "c = CHR ''/''")
    case True
    with Cons.IH [OF Cons.prems, of True] slash show ?thesis by (cases slashSeen) auto
  next
    case False
    then consider "letter c" "6 \<le> length buf" | "letter c" "length (buf @ [upper c]) \<le> 6"
      | "\<not> letter c"
      by fastforce
    then show ?thesis
    proof cases
      case 1
      with False have "canonical_loop buf (c # s) slashSeen = None"
        by (simp add: letter_def)
      with False 1 show ?thesis by auto
    next
      case 2
      with False have "canonical_loop buf (c # s) slashSeen
          = canonical_loop (buf @ [upper c]) s slashSeen"
        by (auto simp: letter_def upper_def)
      with Cons.IH [OF 2(2), of slashSeen] False 2(1) show ?thesis by simp
    next
      case 3
      with False have "canonical_loop buf (c # s) slashSeen = None"
        by (auto simp: letter_def)
      with False 3 show ?thesis by auto
    qed
  qed
qed

lemma upper_letter: "upper c \<in> set ''XAUUSD'' \<Longrightarrow> letter c"
  by (auto simp: upper_def letter_def byte_of_def split: if_splits)

lemma isCanonicalXauusd_iff:
  "isCanonicalXauusd s \<longleftrightarrow> count_list s CHR ''/'' \<le> 1
     \<and> map upper (filter (\<lambda>c. c \<noteq> CHR ''/'') s) = ''XAUUSD''"
proof -
  have "isCanonicalXauusd s \<longleftrightarrow> canonical_loop [] s False = Some ''XAUUSD''"
    by (auto simp: isCanonicalXauusd_def split: option.splits)
  also have "\<dots> \<longleftrightarrow> ''XAUUSD'' = map upper (filter (\<lambda>c. c \<noteq> CHR ''/'') s)
      \<and> count_list s CHR ''/'' \<le> 1 \<and> (\<forall>c \<in> set s. c = CHR ''/'' \<or> letter c)"
    using canonical_loop_iff [of "[]" s False "''XAUUSD''"] by simp
  also have "\<dots> \<longleftrightarrow> count_list s CHR ''/'' \<le> 1
      \<and> map upper (filter (\<lambda>c. c \<noteq> CHR ''/'') s) = ''XAUUSD''"
  proof -
    have "c = CHR ''/'' \<or> letter c"
      if "map upper (filter (\<lambda>c. c \<noteq> CHR ''/'') s) = ''XAUUSD''" "c \<in> set s" for c
    proof (cases "c = CHR ''/''")
      case False
      then have "upper c \<in> set (map upper (filter (\<lambda>c. c \<noteq> CHR ''/'') s))" using that(2) by simp
      then show ?thesis using upper_letter unfolding that(1) by blast
    qed simp
    then show ?thesis by (metis (no_types, lifting))
  qed
  finally show ?thesis .
qed

subsection \<open>Prices\<close>

lemma small_cases: "n \<le> 7 \<Longrightarrow> n = 0 \<or> n = 1 \<or> n = 2 \<or> n = 3 \<or> n = 4 \<or> n = 5 \<or> n = 6 \<or> n = (7 :: nat)"
  by linarith

lemma checked_pow10_ok: "n \<le> 7 \<Longrightarrow> checked_pow10 n 1 = Some (10 ^ n)"
  by (drule small_cases) (auto simp: eval_nat_numeral cdiv_def i64_limits)

lemma pow10_loop_eq: "pow10_loop n f = f * 10 ^ n"
  by (induction n arbitrary: f) simp_all

lemma le_div_iff_int: "0 < f \<Longrightarrow> u \<le> n div f \<longleftrightarrow> u * f \<le> n" for u n f :: int
proof
  assume f: "0 < f" and "u \<le> n div f"
  then have "u * f \<le> n div f * f" by simp
  also have "\<dots> \<le> n" using f using minus_mod_eq_div_mult [of n f] by (simp add: minus_mod_eq_div_mult [symmetric])
  finally show "u * f \<le> n" .
next
  assume f: "0 < f" and "u * f \<le> n"
  from zdiv_mono1 [OF this(2) f] f show "u \<le> n div f" by simp
qed

lemma mul_fits_iff:
  assumes "0 < f"
  shows "\<not> (u > 0 \<and> u > cdiv INT64_MAX f) \<and> \<not> (u < 0 \<and> u < cdiv INT64_MIN f)
    \<longleftrightarrow> in_i64 (u * f)"
proof -
  have "u \<le> cdiv INT64_MAX f \<longleftrightarrow> u * f \<le> INT64_MAX"
    using assms le_div_iff_int [OF assms, of u INT64_MAX] by (simp add: cdiv_nonneg INT64_MAX_def)
  moreover have "cdiv INT64_MIN f \<le> u \<longleftrightarrow> INT64_MIN \<le> u * f"
    using assms le_div_iff_int [OF assms, of "- u" "- INT64_MIN"]
    by (simp add: cdiv_neg INT64_MIN_def) linarith
  moreover have "u > 0 \<Longrightarrow> u * f > 0" "u < 0 \<Longrightarrow> u * f < 0"
    using assms by (simp_all add: mult_neg_pos)
  ultimately show ?thesis
    unfolding in_i64_def using i64_limits(1,2) by (cases "u = 0") (auto simp: not_less)
qed

definition scale5_spec :: "int \<Rightarrow> int \<Rightarrow> int option" where
  "scale5_spec u d =
     (if d < 0 \<or> 12 < d then None
      else if 5 \<le> d then fit_i64 (u * 10 ^ nat (d - 5))
      else round_div NearestTiesAwayFromZero u (10 ^ nat (5 - d)))"

lemma unat_magnitude:
  assumes "in_i64 u"
  shows "unat (if u < 0 then u64_of_i64 (- (u + 1)) + 1 else u64_of_i64 u) = nat \<bar>u\<bar>"
proof -
  have "(if u < 0 then u64_of_i64 (- (u + 1)) + 1 else u64_of_i64 u) = magnitude u"
    by (auto simp: magnitude_def)
  then show ?thesis using magnitude_nat [OF assms] by (simp only:)
qed

lemma scale5_down:
  assumes u: "in_i64 u" and "0 \<le> d" and "d < 5"
  shows "normalizeSignedScale5 u d = round_div NearestTiesAwayFromZero u (10 ^ nat (5 - d))"
proof -
  define f where "f = u64_of_i64 (pow10_loop (nat (5 - d)) 1)"
  define F n where "F = unat f" and "n = nat \<bar>u\<bar>"
  define m where "m = (if u < 0 then u64_of_i64 (- (u + 1)) + 1 else u64_of_i64 u)"
  define q where "q = (if m mod f * 2 \<ge> f then m div f + 1 else m div f)"
  have "nat (5 - d) = 1 \<or> nat (5 - d) = 2 \<or> nat (5 - d) = 3 \<or> nat (5 - d) = 4 \<or> nat (5 - d) = 5"
    using assms(2,3) by linarith
  then have pow: "(10 :: int) ^ nat (5 - d) = int F \<and> 10 \<le> F \<and> F \<le> 100000"
    unfolding F_def f_def pow10_loop_eq
    by (elim disjE) (simp_all add: unat_u64_of_i64 i64_limits)
  have m: "unat m = n" unfolding m_def n_def by (rule unat_magnitude [OF u])
  have n: "n \<le> 9223372036854775808" using u by (auto simp: n_def in_i64_def i64_limits)
  have rem: "unat (m mod f) = n mod F" and quot: "unat (m div f) = n div F"
    by (simp_all add: unat_mod unat_div m F_def)
  have "n mod F < F" using pow by simp
  with pow have "n mod F * 2 < 18446744073709551616" by linarith
  then have "unat (m mod f * 2) = 2 * (n mod F)"
    using unat_mult_u64 [of "m mod f" 2] rem by simp
  then have tie: "m mod f * 2 \<ge> f \<longleftrightarrow> F \<le> 2 * (n mod F)"
    by (simp add: word_le_nat_alt F_def)
  have "n div F \<le> n div 10" using pow by (intro div_le_mono2) simp_all
  then have small: "n div F \<le> 922337203685477580" using n by linarith
  then have "unat (m div f + 1) = n div F + 1"
    using unat_add_u64 [of "m div f" 1] quot by simp
  then have q: "unat q = n div F + (if F \<le> 2 * (n mod F) then 1 else 0)"
    by (simp add: q_def tie quot)
  have ne: "m div f \<noteq> INT64_MAX_U"
    using small quot by (auto simp: INT64_MAX_U_def word_unat_eq_iff)
  have le: "q \<le> INT64_MAX_U" using small q by (simp add: word_le_nat_alt INT64_MAX_U_def)
  have "normalizeSignedScale5 u d =
      (if m mod f * 2 \<ge> f \<and> m div f = INT64_MAX_U then None
       else if q > INT64_MAX_U then None
       else Some (if u < 0 then - i64_of_u64 q else i64_of_u64 q))"
    using assms(2,3)
    unfolding normalizeSignedScale5_def Let_def f_def [symmetric] m_def [symmetric]
      q_def [symmetric]
    by (simp add: MAX_SCALE_def)
  moreover have "i64_of_u64 q = int (unat q)"
    using sint_small [OF le] by (simp add: i64_of_u64_def)
  ultimately have "normalizeSignedScale5 u d
      = Some (if u < 0 then - int (unat q) else int (unat q))"
    using le ne by (simp only: not_le [symmetric] if_False simp_thms)
  moreover have "round_div NearestTiesAwayFromZero u (int F)
      = Some (if u < 0 then - int (unat q) else int (unat q))"
    using pow nearest_quot_eq [of F n] q
    by (auto simp: round_div_def n_def sgn_if)
  ultimately show ?thesis by (simp only: conjunct1 [OF pow])
qed

lemma normalizeSignedScale5_exact:
  assumes "in_i64 u"
  shows "normalizeSignedScale5 u d = scale5_spec u d"
proof -
  consider "d < 0 \<or> 12 < d" | "d = 5" | "5 < d" "d \<le> 12" | "0 \<le> d" "d < 5" by linarith
  then show ?thesis
  proof cases
    case 1
    then show ?thesis by (auto simp: normalizeSignedScale5_def scale5_spec_def MAX_SCALE_def)
  next
    case 2
    with assms show ?thesis
      by (simp add: normalizeSignedScale5_def scale5_spec_def MAX_SCALE_def fit_i64_def)
  next
    case 3
    then have "checked_pow10 (nat (d - 5)) 1 = Some (10 ^ nat (d - 5))"
      by (intro checked_pow10_ok) simp
    with 3 mul_fits_iff [of "10 ^ nat (d - 5)" u] show ?thesis
      by (auto simp: normalizeSignedScale5_def scale5_spec_def MAX_SCALE_def fit_i64_def)
  next
    case 4
    with scale5_down [OF assms 4] show ?thesis by (simp add: scale5_spec_def)
  qed
qed

subsection \<open>Timestamps\<close>

text \<open>A unit is plausible when the timestamp in it is at most 120 s old and 5 s ahead.\<close>

definition plausible :: "u64 \<Rightarrow> u64 \<Rightarrow> u64 \<times> timestamp_unit \<Rightarrow> bool" where
  "plausible raw receipt mu \<longleftrightarrow>
     (let ts = unat raw * unat (fst mu); now = unat receipt
      in ts < 18446744073709551616 \<and> now \<le> ts + 120000000000 \<and> ts \<le> now + 5000000000)"

definition proof_of :: "u64 \<Rightarrow> u64 \<Rightarrow> u64 \<times> timestamp_unit \<Rightarrow> timestamp_proof" where
  "proof_of raw receipt mu = \<lparr>tp_unit = snd mu, tp_timestampNs = raw * fst mu,
     tp_receiptTimestampNs = receipt,
     tp_freshnessDeltaNs = int (unat receipt) - int (unat raw * unat (fst mu))\<rparr>"

lemma ts_closest_result [simp]: "ts_result (ts_closest t d a) = ts_result a"
  by (simp add: ts_closest_def)

text \<open>One round of the loop.\<close>

lemma fits_u64_iff:
  fixes raw m :: u64
  assumes "0 < unat m"
  shows "raw > (- 1) div m \<longleftrightarrow> \<not> unat raw * unat m < 18446744073709551616"
proof -
  have max: "unat (- 1 :: u64) = 18446744073709551615"
    by (simp add: unsigned_minus_1_eq_mask mask_eq_exp_minus_1)
  have "unat raw \<le> 18446744073709551615 div unat m \<longleftrightarrow> unat raw * unat m \<le> 18446744073709551615"
    using assms by (simp add: less_eq_div_iff_mult_less_eq)
  then have "\<not> unat raw \<le> 18446744073709551615 div unat m
      \<longleftrightarrow> \<not> unat raw * unat m < 18446744073709551616"
    by linarith
  then show ?thesis by (simp only: word_less_nat_alt unat_div max not_le)
qed

lemma timestamp_round:
  assumes "0 < unat m"
  shows "\<exists>a'. ts_result a' = ts_result a \<and>
    timestamp_loop raw receipt ((m, t) # rest) a =
      (if plausible raw receipt (m, t) then
         if ts_result a \<noteq> None then None
         else timestamp_loop raw receipt rest
                (a'\<lparr>ts_result := Some (proof_of raw receipt (m, t))\<rparr>)
       else timestamp_loop raw receipt rest a')"
proof (cases "unat raw * unat m < 18446744073709551616")
  case False
  then have "\<not> plausible raw receipt (m, t)"
    by (simp add: plausible_def Let_def)
  moreover have "raw > (- 1) div m" using fits_u64_iff [OF assms] False by blast
  ultimately show ?thesis by auto
next
  case True
  define a' where "a' = ts_closest (raw * m) (if raw * m \<le> receipt then receipt - raw * m
      else raw * m - receipt) a"
  have ts: "unat (raw * m) = unat raw * unat m" by (rule unat_mult_u64 [OF True])
  have fits: "\<not> raw > (- 1) div m" using fits_u64_iff [OF assms] True by blast
  have age: "unat (receipt - raw * m) = unat receipt - unat (raw * m)" if "raw * m \<le> receipt"
    using that by (rule unat_sub)
  have future: "unat (raw * m - receipt) = unat (raw * m) - unat receipt"
    if "\<not> raw * m \<le> receipt"
    using that by (intro unat_sub) simp
  have plaus: "plausible raw receipt (m, t) \<longleftrightarrow>
      (if raw * m \<le> receipt then \<not> receipt - raw * m > MAX_AGE_NS
       else \<not> raw * m - receipt > MAX_FUTURE_NS)"
    using True age future ts
    by (auto simp: plausible_def Let_def MAX_AGE_NS_def MAX_FUTURE_NS_def word_le_nat_alt
        word_less_nat_alt)
  have delta: "(if raw * m \<le> receipt then i64_of_u64 (receipt - raw * m)
      else - i64_of_u64 (raw * m - receipt))
    = int (unat receipt) - int (unat raw * unat m)" if "plausible raw receipt (m, t)"
  proof (cases "raw * m \<le> receipt")
    case le: True
    then have "receipt - raw * m \<le> INT64_MAX_U"
      using that plaus by (simp add: MAX_AGE_NS_def INT64_MAX_U_def word_le_nat_alt word_less_nat_alt)
    from sint_small [OF this] le age ts show ?thesis
      by (simp only: i64_of_u64_def word_le_nat_alt of_nat_diff if_True if_False ts)
  next
    case gt: False
    then have "raw * m - receipt \<le> INT64_MAX_U"
      using that plaus by (simp add: MAX_FUTURE_NS_def INT64_MAX_U_def word_le_nat_alt word_less_nat_alt)
    from sint_small [OF this] gt
    have "(if raw * m \<le> receipt then i64_of_u64 (receipt - raw * m)
        else - i64_of_u64 (raw * m - receipt)) = - int (unat (raw * m - receipt))"
      by (simp only: i64_of_u64_def if_False)
    moreover have "unat receipt \<le> unat (raw * m)" using gt by (simp add: word_le_nat_alt)
    then have "int (unat (raw * m - receipt)) = int (unat (raw * m)) - int (unat receipt)"
      using future [OF gt] by (simp only: of_nat_diff)
    ultimately show ?thesis by (simp only: ts minus_diff_eq)
  qed
  have res: "ts_result a' = ts_result a" by (simp add: a'_def)
  have loop: "timestamp_loop raw receipt ((m, t) # rest) a =
      (if raw * m \<le> receipt \<and> receipt - raw * m > MAX_AGE_NS
       then timestamp_loop raw receipt rest a'
       else if \<not> raw * m \<le> receipt \<and> raw * m - receipt > MAX_FUTURE_NS
       then timestamp_loop raw receipt rest a'
       else if ts_result a' \<noteq> None then None
       else timestamp_loop raw receipt rest
         (a'\<lparr>ts_result := Some \<lparr>tp_unit = t, tp_timestampNs = raw * m,
           tp_receiptTimestampNs = receipt,
           tp_freshnessDeltaNs = (if raw * m \<le> receipt then i64_of_u64 (receipt - raw * m)
             else - i64_of_u64 (raw * m - receipt))\<rparr>\<rparr>))"
    using fits unfolding timestamp_loop.simps Let_def a'_def [symmetric] by (simp only: if_False)
  have "timestamp_loop raw receipt ((m, t) # rest) a =
      (if plausible raw receipt (m, t) then
         if ts_result a \<noteq> None then None
         else timestamp_loop raw receipt rest
                (a'\<lparr>ts_result := Some (proof_of raw receipt (m, t))\<rparr>)
       else timestamp_loop raw receipt rest a')"
  proof (cases "plausible raw receipt (m, t)")
    case p: True
    then have "\<not> (raw * m \<le> receipt \<and> receipt - raw * m > MAX_AGE_NS)"
      "\<not> (\<not> raw * m \<le> receipt \<and> raw * m - receipt > MAX_FUTURE_NS)"
      using plaus by (auto split: if_splits)
    with p res show ?thesis
      unfolding loop delta [OF p] proof_of_def fst_conv snd_conv by (simp only: if_True if_False)
  next
    case False
    with plaus show ?thesis unfolding loop by (auto split: if_splits)
  qed
  with res show ?thesis by blast
qed

lemma timestamp_loop_some:
  "\<forall>mu \<in> set ms. 0 < unat (fst mu) \<Longrightarrow> ts_result a = Some p \<Longrightarrow>
     (if filter (plausible raw receipt) ms = []
      then \<exists>a'. timestamp_loop raw receipt ms a = Some a' \<and> ts_result a' = Some p
      else timestamp_loop raw receipt ms a = None)"
proof (induction ms arbitrary: a)
  case (Cons mu ms)
  obtain m t where mu: "mu = (m, t)" by fastforce
  then have pos: "0 < unat m" using Cons.prems(1) by simp
  obtain a' where "ts_result a' = ts_result a"
    and step: "timestamp_loop raw receipt (mu # ms) a =
      (if plausible raw receipt mu then
         if ts_result a \<noteq> None then None
         else timestamp_loop raw receipt ms (a'\<lparr>ts_result := Some (proof_of raw receipt mu)\<rparr>)
       else timestamp_loop raw receipt ms a')"
    using timestamp_round [OF pos, of a raw receipt t ms] unfolding mu by blast
  with Cons.IH [of a'] Cons.prems show ?case by auto
qed simp

lemma timestamp_loop_none:
  "\<forall>mu \<in> set ms. 0 < unat (fst mu) \<Longrightarrow> ts_result a = None \<Longrightarrow>
     (case filter (plausible raw receipt) ms of
        [] \<Rightarrow> \<exists>a'. timestamp_loop raw receipt ms a = Some a' \<and> ts_result a' = None
      | [mu] \<Rightarrow> \<exists>a'. timestamp_loop raw receipt ms a = Some a'
                  \<and> ts_result a' = Some (proof_of raw receipt mu)
      | _ \<Rightarrow> timestamp_loop raw receipt ms a = None)"
proof (induction ms arbitrary: a)
  case (Cons mu ms)
  obtain m t where mu: "mu = (m, t)" by fastforce
  then have pos: "0 < unat m" using Cons.prems(1) by simp
  obtain a' where a': "ts_result a' = ts_result a"
    and step: "timestamp_loop raw receipt (mu # ms) a =
      (if plausible raw receipt mu then
         if ts_result a \<noteq> None then None
         else timestamp_loop raw receipt ms (a'\<lparr>ts_result := Some (proof_of raw receipt mu)\<rparr>)
       else timestamp_loop raw receipt ms a')"
    using timestamp_round [OF pos, of a raw receipt t ms] unfolding mu by blast
  show ?case
  proof (cases "plausible raw receipt mu")
    case True
    then show ?thesis
      using step a' Cons.prems timestamp_loop_some
        [of ms "a'\<lparr>ts_result := Some (proof_of raw receipt mu)\<rparr>" "proof_of raw receipt mu"
          raw receipt]
      by (auto split: list.splits)
  next
    case False
    with step have eq: "timestamp_loop raw receipt (mu # ms) a = timestamp_loop raw receipt ms a'"
      by simp
    from False a' Cons.IH [of a'] Cons.prems show ?thesis unfolding eq by simp
  qed
qed simp

lemma units_positive: "\<forall>mu \<in> set timestamp_units. 0 < unat (fst mu)"
  by (simp add: timestamp_units_def)

lemma classifyTimestamp_iff:
  "classifyTimestamp raw receipt = Some p \<longleftrightarrow>
     receipt \<noteq> 0 \<and> (\<exists>mu. filter (plausible raw receipt) timestamp_units = [mu]
       \<and> p = proof_of raw receipt mu)"
proof -
  note loop = timestamp_loop_none [OF units_positive, of scan_init raw receipt]
  show ?thesis
    using loop
    by (auto simp: classifyTimestamp_def classifyTimestampDetailed_def scan_init_def
        split: list.splits option.splits)
qed

subsection \<open>Properties\<close>

text \<open>
  A symbol name counts as the canonical XAUUSD exactly when, apart from at most one slash at
  any position and the case of its letters, it is "XAUUSD"; no other byte is tolerated.
\<close>

theorem canonical_symbol_exact:
  "isCanonicalXauusd s \<longleftrightarrow> count_list s CHR ''/'' \<le> 1
     \<and> map upper (filter (\<lambda>c. c \<noteq> CHR ''/'') s) = ''XAUUSD''"
  by (rule isCanonicalXauusd_iff)

text \<open>
  The conversion of a price with five decimals to \<open>d\<close> digits is exact: it succeeds only for
  0 to 12 digits; towards more digits it is the product by the power of ten, refused exactly when
  that leaves the signed 64-bit range; towards fewer digits it is the mathematical quotient
  rounded to nearest with ties away from zero, for every 64-bit input, the minimum included.
\<close>

theorem price_scaling_exact:
  assumes "in_i64 u"
  shows "normalizeSignedScale5 u d =
    (if d < 0 \<or> 12 < d then None
     else if 5 \<le> d then if in_i64 (u * 10 ^ nat (d - 5)) then Some (u * 10 ^ nat (d - 5)) else None
     else round_div NearestTiesAwayFromZero u (10 ^ nat (5 - d)))"
  using normalizeSignedScale5_exact [OF assms, of d] by (simp add: scale5_spec_def fit_i64_def)

lemma price_scaling_exact_witness:
  "normalizeSignedScale5 (- 9223372036854775808) 4 = Some (- 922337203685477581)"
proof -
  have "in_i64 (- 9223372036854775808)" by (simp add: i64_limits)
  from price_scaling_exact [OF this, of 4] show ?thesis by (simp add: round_div_def)
qed

lemma scale5_mono:
  assumes "0 \<le> u" and "u \<le> w" and "scale5_spec u d = Some x" and "scale5_spec w d = Some y"
  shows "0 \<le> x \<and> x \<le> y"
proof (cases "5 \<le> d")
  case True
  with assms show ?thesis
    by (auto simp: scale5_spec_def fit_i64_def mult_right_mono split: if_splits)
next
  case False
  define F where "F = nat (10 ^ nat (5 - d))"
  have F: "(10 :: int) ^ nat (5 - d) = int F" "0 < F" by (simp_all add: F_def)
  have rd: "round_div NearestTiesAwayFromZero v (int F) = Some (int ((2 * nat v + F) div (2 * F)))"
    if "0 \<le> v" for v
    using that F(2) by (cases "v = 0") (auto simp: round_div_def nearest_quot_eq sgn_if)
  have "x = int ((2 * nat u + F) div (2 * F))" "y = int ((2 * nat w + F) div (2 * F))"
    using assms False rd [of u] rd [of w] by (auto simp: scale5_spec_def F split: if_splits)
  then show ?thesis using assms(1,2) by (auto intro!: div_le_mono)
qed

lemma scale5_range:
  "scale5_spec u d = Some x \<Longrightarrow> 0 < u \<Longrightarrow> in_i64 u \<Longrightarrow> in_i64 x"
proof (cases "5 \<le> d")
  case False
  assume x: "scale5_spec u d = Some x" and u: "0 < u" "in_i64 u"
  have rd: "round_div NearestTiesAwayFromZero u (10 ^ nat (5 - d)) = Some x"
    using x False by (auto simp: scale5_spec_def split: if_splits)
  have "u * 1 \<le> u * 10 ^ nat (5 - d)" using u(1) by (intro mult_left_mono) simp_all
  with round_div_le [OF _ _ rd, of u] round_div_nonneg(1) [OF _ _ rd] u show ?thesis
    by (simp add: in_i64_def i64_limits)
qed (auto simp: scale5_spec_def fit_i64_def split: if_splits)

text \<open>
  Normalising prices never crosses an uncrossed market: for raw wire prices with bid at most
  ask, whenever both can be converted the converted bid is at most the converted ask, both are
  non-negative and 64-bit, and both carry the symbol's digits as their scale.
\<close>

lemma spot_prices_stay_uncrossed:
  assumes "rawBid \<le> rawAsk"
    and "normalizeSpotPrice rawBid digits = Some bid" and "normalizeSpotPrice rawAsk digits = Some ask"
  shows "0 \<le> dec_units bid \<and> dec_units bid \<le> dec_units ask \<and> in_i64 (dec_units ask)
    \<and> dec_scale bid = word_of_int digits \<and> dec_scale ask = word_of_int digits
    \<and> 0 \<le> digits \<and> digits \<le> 12"
proof -
  have pos: "0 < rawBid" "0 < rawAsk" "rawBid \<le> INT64_MAX_U" "rawAsk \<le> INT64_MAX_U"
    using assms(2,3) by (auto simp: normalizeSpotPrice_def word_neq_0_conv not_less
        split: if_splits)
  note bid = i64_of_u64_range [OF pos(1,3)] and ask = i64_of_u64_range [OF pos(2,4)]
  obtain x y where x: "scale5_spec (i64_of_u64 rawBid) digits = Some x" "bid = decimal x (word_of_int digits)"
    and y: "scale5_spec (i64_of_u64 rawAsk) digits = Some y" "ask = decimal y (word_of_int digits)"
    using assms(2,3) normalizeSignedScale5_exact [OF bid(2)] normalizeSignedScale5_exact [OF ask(2)]
    by (auto simp: normalizeSpotPrice_def split: if_splits option.splits)
  have "i64_of_u64 rawBid \<le> i64_of_u64 rawAsk"
    using assms(1) unfolding bid(3) ask(3) word_le_nat_alt by (simp only: of_nat_le_iff)
  from scale5_mono [OF _ this x(1) y(1)] bid(1) have "0 \<le> x \<and> x \<le> y" by simp
  moreover have "in_i64 y"
    using y(1) ask(1,2) scale5_range by blast
  moreover have "0 \<le> digits \<and> digits \<le> 12"
    using x(1) by (simp add: scale5_spec_def split: if_splits)
  ultimately show ?thesis using x(2) y(2) by simp
qed

text \<open>
  A timestamp is accepted exactly when its unit is unambiguous: with a nonzero receipt time,
  exactly one of seconds, milliseconds, microseconds and nanoseconds makes it, without overflow,
  at most 120 seconds old and at most 5 seconds ahead; and then the reported unit is that one,
  the reported time is the exact product, and the reported freshness is the exact difference.
\<close>

theorem timestamp_unit_unique:
  "classifyTimestamp raw receipt = Some p \<longleftrightarrow>
     receipt \<noteq> 0 \<and> (\<exists>m. filter (\<lambda>(m, t). unat raw * unat m < 18446744073709551616
         \<and> unat receipt \<le> unat raw * unat m + 120000000000
         \<and> unat raw * unat m \<le> unat receipt + 5000000000) timestamp_units = [(m, tp_unit p)]
       \<and> unat (tp_timestampNs p) = unat raw * unat m \<and> tp_receiptTimestampNs p = receipt
       \<and> tp_freshnessDeltaNs p = int (unat receipt) - int (unat raw * unat m))"
proof -
  have filt: "filter (plausible raw receipt) timestamp_units
      = filter (\<lambda>(m, t). unat raw * unat m < 18446744073709551616
         \<and> unat receipt \<le> unat raw * unat m + 120000000000
         \<and> unat raw * unat m \<le> unat receipt + 5000000000) timestamp_units"
    by (rule filter_cong) (auto simp: plausible_def Let_def)
  have "p = proof_of raw receipt (m, t) \<longleftrightarrow> tp_unit p = t
      \<and> unat (tp_timestampNs p) = unat raw * unat m \<and> tp_receiptTimestampNs p = receipt
      \<and> tp_freshnessDeltaNs p = int (unat receipt) - int (unat raw * unat m)"
    if "unat raw * unat m < 18446744073709551616" for m t
    using unat_mult_u64 [OF that] by (cases p) (auto simp: proof_of_def word_unat_eq_iff)
  moreover have "unat raw * unat m < 18446744073709551616"
    if "filter (plausible raw receipt) timestamp_units = [(m, t)]" for m t
  proof -
    have "(m, t) \<in> set (filter (plausible raw receipt) timestamp_units)" using that by simp
    then show ?thesis by (simp add: plausible_def Let_def)
  qed
  ultimately show ?thesis
    unfolding classifyTimestamp_iff filt [symmetric] by (metis surj_pair)
qed

end
