(* ===== verification/Gate7Props.thy ===== *)
theory Gate7Props
  imports Gate7 Gate7NumericProps
begin

text \<open>
  What one call of the quote proof can do: replay on a terminal proof, end it, wait for a
  complete spot event, or advance it by one phase, with the exact conditions of each advance.
\<close>

subsection \<open>The loops\<close>

lemma scan_accounts_eq:
  "scan_accounts as found n =
     (if filter fibo_demo as = [] then found
      else the (g7a_accountId (last (filter fibo_demo as))), n + length (filter fibo_demo as))"
  by (induction as arbitrary: found n) auto

lemma scan_symbols_eq:
  "scan_symbols ids ys found name n =
     (let hits = filter (symbol_candidate ids) ys
      in (if hits = [] then found else the (gls_symbolId (last hits)),
          if hits = [] then name else the (gls_symbolName (last hits)), n + length hits))"
  by (induction ys arbitrary: found name n) (auto simp: Let_def)

lemma scan_full_symbols_eq:
  "scan_full_symbols i ys found n =
     (let hits = filter (\<lambda>y. gfs_symbolId y = Some i) ys
      in (if hits = [] then found else Some (last hits), n + length hits))"
  by (induction ys arbitrary: found n) (auto simp: Let_def)

lemma find_singleton: "filter P xs = [x] \<Longrightarrow> find P xs = Some x"
  by (induction xs) (auto split: if_splits)

lemma candidate_fields:
  assumes "symbol_candidate ids y"
  shows "0 < the (gls_symbolId y)" "isCanonicalXauusd (the (gls_symbolName y))"
    "the (gls_symbolName y) \<noteq> []" "the (gls_symbolId y) \<notin> set ids"
  using assms
  by (auto simp: symbol_candidate_def isUsableProviderId_def containsId_def isCanonicalXauusd_def
      split: option.splits)

lemma find_filter_None: "filter P xs = [] \<Longrightarrow> find P xs = None"
  by (induction xs) (auto split: if_splits)

subsection \<open>Ends and replays\<close>

lemmas g7_defs = g7_finish_def g7_decide_def g7_clearAll_def g7_clearSensitiveState_def
  reset_cleared_def Let_def

definition g7_cleared :: "gate7_proof \<Rightarrow> bool" where
  "g7_cleared s \<longleftrightarrow> g7_accountId s = 0 \<and> g7_symbolId s = 0 \<and> g7_pipPosition s = 0
     \<and> g7_symbolName s = [] \<and> g7_instrument s = None \<and> \<not> g7_subscriptionReady s"

text \<open>The result of a call that ends the proof, and of a call on a terminal proof.\<close>

definition g7_ended :: "gate7_proof \<Rightarrow> gate7_proof \<times> gate7_decision \<Rightarrow> bool" where
  "g7_ended s r \<longleftrightarrow> \<not> g7_isTerminal s \<and> (\<exists>d. r = g7_finish d s)"

lemma reset_cleared_none [simp]: "reset_cleared f v = None"
  by (cases v) (simp_all add: reset_cleared_def)

lemma g7_finish_cleared:
  "g7_phase (fst (g7_finish d s)) = P7_Terminal" "g7_cleared (fst (g7_finish d s))"
  "g7_quoteEvidence (fst (g7_finish d s)) = None" "snd (g7_finish d s) = d"
  "g7_connectionGeneration (fst (g7_finish d s)) = 0"
  by (simp_all add: g7_cleared_def g7_finish_def g7_clearAll_def g7_clearSensitiveState_def
      secureClear_def)

lemma terminal_phases:
  "g7_isTerminal s \<longleftrightarrow> g7_phase s \<notin> {P7_AccountList, P7_AccountAuthentication, P7_SymbolsList,
     P7_FullSymbol, P7_Subscription, P7_Spot}"
  by (cases "g7_phase s") (simp_all add: g7_isTerminal_def)

text \<open>Transport evidence of this connection, matched with its request.\<close>

lemma transport_ready_iff:
  "validateTransportEvidence g current matched s = G7_Ready \<longleftrightarrow>
     current \<and> matched \<and> g = g7_connectionGeneration s \<and> g \<noteq> 0"
  by (auto simp: validateTransportEvidence_def)

subsection \<open>One call\<close>

definition accounts_accepted :: "gate7_account_list \<Rightarrow> gate7_account \<Rightarrow> bool" where
  "accounts_accepted e a \<longleftrightarrow> gal_currentConnectionGeneration e \<and> gal_correlationMatched e
     \<and> gal_tokenOwned e \<and> gal_tradingScope e \<and> filter fibo_demo (gal_accounts e) = [a]"

lemma acceptAccountList_cases:
  obtains (replay) "g7_isTerminal s" "acceptAccountList e s = (s, G7_AlreadyTerminal)"
  | (ended) "g7_ended s (acceptAccountList e s)"
  | (advance) a where "g7_phase s = P7_AccountList" "accounts_accepted e a"
      "gal_connectionGeneration e = g7_connectionGeneration s"
      "acceptAccountList e s = g7_decide G7_AccountAuthenticationReady
         (s\<lparr>g7_accountId := i64_of_u64 (the (g7a_accountId a)),
            g7_phase := P7_AccountAuthentication\<rparr>)"
proof -
  let ?hits = "filter fibo_demo (gal_accounts e)"
  let ?ok = "g7_phase s = P7_AccountList
      \<and> validateTransportEvidence (gal_connectionGeneration e)
          (gal_currentConnectionGeneration e) (gal_correlationMatched e) s = G7_Ready
      \<and> gal_tokenOwned e \<and> gal_tradingScope e \<and> length ?hits = 1"
  consider "g7_isTerminal s" | "\<not> g7_isTerminal s" "\<not> ?ok" | "\<not> g7_isTerminal s" ?ok by blast
  then show thesis
  proof cases
    case 1
    then show thesis by (intro replay) (simp_all add: acceptAccountList_def)
  next
    case 2
    then have "\<exists>d. acceptAccountList e s = g7_finish d s"
      by (auto simp: acceptAccountList_def scan_accounts_eq Let_def)
    with 2(1) show thesis by (intro ended) (simp add: g7_ended_def)
  next
    case 3
    then obtain a where "?hits = [a]" by (metis One_nat_def length_0_conv length_Suc_conv)
    with 3 show thesis
      by (intro advance [of a])
         (auto simp: acceptAccountList_def scan_accounts_eq accounts_accepted_def
           transport_ready_iff)
  qed
qed

lemma g7_authentication_cases:
  obtains (ended) "\<exists>d. g7_acceptAccountAuthentication x s = g7_finish d s"
  | (advance) "g7_phase s = P7_AccountAuthentication" "0 < x" "x = g7_accountId s"
      "g7_acceptAccountAuthentication x s
         = g7_decide G7_SymbolListReady (s\<lparr>g7_phase := P7_SymbolsList\<rparr>)"
  by (cases "g7_phase s = P7_AccountAuthentication \<and> 0 < x \<and> x = g7_accountId s")
     (auto simp: g7_acceptAccountAuthentication_def Let_def)

definition symbols_accepted :: "gate7_symbols_list \<Rightarrow> i64 \<Rightarrow> gate7_light_symbol \<Rightarrow> bool" where
  "symbols_accepted e account y \<longleftrightarrow> gsl_currentConnectionGeneration e \<and> gsl_correlationMatched e
     \<and> gsl_accountId e = account \<and> \<not> gsl_includeArchivedSymbols e
     \<and> filter (symbol_candidate (gsl_archivedSymbolIds e)) (gsl_symbols e) = [y]"

lemma acceptSymbolsList_cases:
  obtains (replay) "g7_isTerminal s" "acceptSymbolsList oom e s = (s, G7_AlreadyTerminal)"
  | (ended) "g7_ended s (acceptSymbolsList oom e s)"
  | (advance) y where "g7_phase s = P7_SymbolsList" "symbols_accepted e (g7_accountId s) y"
      "gsl_connectionGeneration e = g7_connectionGeneration s" "symbol_candidate (gsl_archivedSymbolIds e) y"
      "acceptSymbolsList oom e s = g7_decide G7_FullSymbolReady
         (s\<lparr>g7_symbolId := the (gls_symbolId y), g7_symbolName := the (gls_symbolName y),
            g7_phase := P7_FullSymbol\<rparr>)"
proof -
  let ?hits = "filter (symbol_candidate (gsl_archivedSymbolIds e)) (gsl_symbols e)"
  let ?r = "acceptSymbolsList oom e s"
  let ?pre = "g7_phase s = P7_SymbolsList
      \<and> validateTransportEvidence (gsl_connectionGeneration e)
          (gsl_currentConnectionGeneration e) (gsl_correlationMatched e) s = G7_Ready
      \<and> 0 < gsl_accountId e \<and> gsl_accountId e = g7_accountId s
      \<and> \<not> gsl_includeArchivedSymbols e"
  consider "g7_isTerminal s" | "\<not> g7_isTerminal s" "\<not> ?pre"
    | "\<not> g7_isTerminal s" ?pre "length ?hits = 1" "\<not> oom"
    | "\<not> g7_isTerminal s" ?pre "length ?hits \<noteq> 1 \<or> oom" by blast
  then show thesis
  proof cases
    case 1
    then show thesis
      by (intro replay) (simp_all add: acceptSymbolsList_def acceptSymbolsListImpl_def)
  next
    case 2
    then have "\<exists>d. ?r = g7_finish d s"
      by (auto simp: acceptSymbolsList_def acceptSymbolsListImpl_def Let_def)
    with 2(1) show thesis by (intro ended) (simp add: g7_ended_def)
  next
    case 3
    then obtain y where y: "?hits = [y]" by (metis One_nat_def length_0_conv length_Suc_conv)
    then have cand: "symbol_candidate (gsl_archivedSymbolIds e) y"
      by (metis list.set_intros(1) mem_Collect_eq set_filter)
    note f = candidate_fields [OF cand]
    from 3 y f find_singleton [OF y]
    have "?r = g7_decide G7_FullSymbolReady
         (s\<lparr>g7_symbolId := the (gls_symbolId y), g7_symbolName := the (gls_symbolName y),
            g7_phase := P7_FullSymbol\<rparr>)"
      by (simp add: acceptSymbolsList_def acceptSymbolsListImpl_def scan_symbols_eq
          g7_isTerminal_def)
    with 3 y cand show thesis
      by (intro advance [of y]) (simp_all add: symbols_accepted_def transport_ready_iff)
  next
    case 4
    then have "\<exists>d. ?r = g7_finish d s"
      by (cases "length ?hits = 0")
         (auto simp: acceptSymbolsList_def acceptSymbolsListImpl_def scan_symbols_eq Let_def
           simp del: length_0_conv length_greater_0_conv)
    with 4(1) show thesis by (intro ended) (simp add: g7_ended_def)
  qed
qed

text \<open>The metadata a full symbol must carry, and the specification built from it.\<close>

definition full_symbol_accepted ::
  "gate7_full_symbol_evidence \<Rightarrow> i64 \<Rightarrow> i64 \<Rightarrow> string \<Rightarrow> gate7_full_symbol \<Rightarrow> instrument_spec \<Rightarrow> i32 \<Rightarrow> bool" where
  "full_symbol_accepted e account symbol name y spec pipPosition \<longleftrightarrow>
     gfe_currentConnectionGeneration e \<and> gfe_correlationMatched e \<and> gfe_accountId e = account
     \<and> symbol \<notin> set (gfe_archivedSymbolIds e)
     \<and> filter (\<lambda>y. gfs_symbolId y = Some symbol) (gfe_symbols e) = [y]
     \<and> (gfs_symbolName y = None \<or> gfs_symbolName y = Some name)
     \<and> gfs_enabled y \<noteq> Some False \<and> gfs_archived y \<noteq> Some True
     \<and> (\<exists>digits minVolume maxVolume stepVolume lotSize.
          gfs_digits y = Some digits \<and> gfs_pipPosition y = Some pipPosition
          \<and> gfs_minVolume y = Some minVolume \<and> gfs_maxVolume y = Some maxVolume
          \<and> gfs_stepVolume y = Some stepVolume \<and> gfs_lotSize y = Some lotSize
          \<and> valid_symbol_metadata digits pipPosition minVolume maxVolume stepVolume lotSize
          \<and> spec = symbol_spec name digits minVolume maxVolume stepVolume lotSize)"

lemma six_fields:
  "(case (a, b, c, d, e, f) of
      (Some a, Some b, Some c, Some d, Some e, Some f) \<Rightarrow> P a b c d e f
    | _ \<Rightarrow> q)
   = (if a = None \<or> b = None \<or> c = None \<or> d = None \<or> e = None \<or> f = None then q
      else P (the a) (the b) (the c) (the d) (the e) (the f))"
  by (cases a; cases b; cases c; cases d; cases e; cases f) simp_all

lemma acceptFullSymbol_cases:
  obtains (replay) "g7_isTerminal s" "acceptFullSymbol oom e s = (s, G7_AlreadyTerminal)"
  | (ended) "g7_ended s (acceptFullSymbol oom e s)"
  | (advance) y spec pip where "g7_phase s = P7_FullSymbol"
      "full_symbol_accepted e (g7_accountId s) (g7_symbolId s) (g7_symbolName s) y spec pip"
      "gfe_connectionGeneration e = g7_connectionGeneration s"
      "acceptFullSymbol oom e s = g7_decide G7_SubscriptionReady
         (s\<lparr>g7_instrument := Some spec, g7_pipPosition := pip, g7_phase := P7_Subscription\<rparr>)"
proof -
  let ?hits = "filter (\<lambda>y. gfs_symbolId y = Some (g7_symbolId s)) (gfe_symbols e)"
  let ?r = "acceptFullSymbol oom e s"
  let ?pre = "g7_phase s = P7_FullSymbol
      \<and> validateTransportEvidence (gfe_connectionGeneration e)
          (gfe_currentConnectionGeneration e) (gfe_correlationMatched e) s = G7_Ready
      \<and> 0 < gfe_accountId e \<and> gfe_accountId e = g7_accountId s
      \<and> g7_symbolId s \<notin> set (gfe_archivedSymbolIds e)"
  note defs = acceptFullSymbol_def acceptFullSymbolImpl_def containsId_def Let_def
  consider "g7_isTerminal s" | "\<not> g7_isTerminal s" "\<not> ?pre"
    | "\<not> g7_isTerminal s" ?pre "length ?hits \<noteq> 1"
    | y where "\<not> g7_isTerminal s" ?pre "?hits = [y]"
    by (metis One_nat_def length_0_conv length_Suc_conv)
  then show thesis
  proof cases
    case 1
    then show thesis by (intro replay) (simp_all add: defs)
  next
    case 2
    then have "\<exists>d. ?r = g7_finish d s" by (auto simp: defs)
    with 2(1) show thesis by (intro ended) (simp add: g7_ended_def)
  next
    case 3
    then have "\<exists>d. ?r = g7_finish d s"
      by (cases "?hits = []") (auto simp: defs scan_full_symbols_eq)
    with 3(1) show thesis by (intro ended) (simp add: g7_ended_def)
  next
    case 4
    note scan = scan_full_symbols_eq [of "g7_symbolId s" "gfe_symbols e" None 0, unfolded 4(3),
        simplified]
    show thesis
    proof (cases "\<exists>spec pip. full_symbol_accepted e (g7_accountId s) (g7_symbolId s)
        (g7_symbolName s) y spec pip \<and> \<not> oom")
      case True
      then show thesis
        using 4 scan
        by (elim exE conjE, intro advance)
           (auto simp: full_symbol_accepted_def defs transport_ready_iff)
    next
      case False
      let ?text = "(gfs_symbolName y = None \<or> gfs_symbolName y = Some (g7_symbolName s))
          \<and> gfs_enabled y \<noteq> Some False \<and> gfs_archived y \<noteq> Some True"
      have "\<exists>d. ?r = g7_finish d s"
      proof (cases ?text)
        case bad: False
        then consider "gfs_symbolName y \<noteq> None \<and> gfs_symbolName y \<noteq> Some (g7_symbolName s)"
          | "gfs_enabled y = Some False" | "gfs_archived y = Some True" by argo
        then have "?r = g7_finish G7_SymbolMetadataRejected s"
          by cases (use 4(1,2) scan in \<open>simp_all add: defs\<close>)
        then show ?thesis by blast
      next
        case ok: True
        show ?thesis
        proof (rule ccontr)
          assume "\<not> (\<exists>d. ?r = g7_finish d s)"
          with 4(1,2) scan ok have "gfs_digits y \<noteq> None" "gfs_pipPosition y \<noteq> None"
            "gfs_minVolume y \<noteq> None" "gfs_maxVolume y \<noteq> None" "gfs_stepVolume y \<noteq> None"
            "gfs_lotSize y \<noteq> None" "\<not> oom"
            "valid_symbol_metadata (the (gfs_digits y)) (the (gfs_pipPosition y))
               (the (gfs_minVolume y)) (the (gfs_maxVolume y)) (the (gfs_stepVolume y))
               (the (gfs_lotSize y))"
            by (auto simp: defs six_fields [unfolded prod.case] split: if_splits)
          with 4(2,3) ok False show False
            by (auto simp: full_symbol_accepted_def transport_ready_iff)
        qed
      qed
      with 4(1) show thesis by (intro ended) (simp add: g7_ended_def)
    qed
  qed
qed

definition subscription_accepted :: "gate7_subscription \<Rightarrow> i64 \<Rightarrow> i64 \<Rightarrow> bool" where
  "subscription_accepted e account symbol \<longleftrightarrow> gsu_currentConnectionGeneration e
     \<and> gsu_correlationMatched e \<and> gsu_accountId e = account \<and> gsu_symbolId e = symbol
     \<and> gsu_requestedSymbolCount e = 1"

lemma acceptSubscription_cases:
  obtains (replay) "g7_isTerminal s" "acceptSubscription e s = (s, G7_AlreadyTerminal)"
  | (ended) "g7_ended s (acceptSubscription e s)"
  | (advance) "g7_phase s = P7_Subscription"
      "subscription_accepted e (g7_accountId s) (g7_symbolId s)"
      "acceptSubscription e s = g7_decide G7_SubscriptionReady
         (s\<lparr>g7_subscriptionReady := True, g7_phase := P7_Spot\<rparr>)"
proof -
  let ?ok = "g7_phase s = P7_Subscription
      \<and> validateTransportEvidence (gsu_connectionGeneration e)
          (gsu_currentConnectionGeneration e) (gsu_correlationMatched e) s = G7_Ready
      \<and> subscription_accepted e (g7_accountId s) (g7_symbolId s)
      \<and> 0 < g7_accountId s \<and> 0 < g7_symbolId s"
  consider "g7_isTerminal s" | "\<not> g7_isTerminal s" "\<not> ?ok" | "\<not> g7_isTerminal s" ?ok by blast
  then show thesis
  proof cases
    case 1
    then show thesis by (intro replay) (simp_all add: acceptSubscription_def)
  next
    case 2
    then have "\<exists>d. acceptSubscription e s = g7_finish d s"
      by (auto simp: acceptSubscription_def subscription_accepted_def transport_ready_iff Let_def)
    with 2(1) show thesis by (intro ended) (simp add: g7_ended_def)
  next
    case 3
    then show thesis
      by (intro advance) (auto simp: acceptSubscription_def subscription_accepted_def
          transport_ready_iff Let_def)
  qed
qed

text \<open>The quote a complete spot event gives, from the state in which it is accepted.\<close>

definition spot_accepted ::
  "gate7_spot \<Rightarrow> i64 \<Rightarrow> i64 \<Rightarrow> string \<Rightarrow> instrument_spec \<Rightarrow> i32 \<Rightarrow> gate7_quote \<Rightarrow> bool" where
  "spot_accepted e account symbol name spec pip q \<longleftrightarrow>
     gsp_currentConnectionGeneration e \<and> gsp_subscriptionMatched e
     \<and> gsp_accountId e = account \<and> gsp_symbolId e = symbol
     \<and> (\<exists>rawBid rawAsk ts. gsp_bid e = Some rawBid \<and> gsp_ask e = Some rawAsk \<and> rawBid \<le> rawAsk
          \<and> normalizeSpotPrice rawBid (int (unat (dec_scale (ins_tickSize spec)))) = Some (gq_bid q)
          \<and> normalizeSpotPrice rawAsk (int (unat (dec_scale (ins_tickSize spec)))) = Some (gq_ask q)
          \<and> dec_units (gq_bid q) \<le> dec_units (gq_ask q)
          \<and> gsp_timestamp e = Some ts \<and> 0 \<le> ts
          \<and> classifyTimestamp (u64_of_i64 ts) (gsp_receiptTimestampNs e) = Some (gq_timestamp q))
     \<and> gq_canonicalSymbol q = ''XAUUSD'' \<and> gq_executionAlias q = name \<and> gq_instrument q = spec
     \<and> gq_pipPosition q = pip
     \<and> gq_spread q = decimal (dec_units (gq_ask q) - dec_units (gq_bid q)) (dec_scale (gq_bid q))"

definition g7_quoted :: "gate7_proof \<Rightarrow> gate7_quote \<Rightarrow> gate7_proof" where
  "g7_quoted s q = (g7_clearSensitiveState (s\<lparr>g7_quoteEvidence := Some q\<rparr>))
     \<lparr>g7_phase := P7_Complete\<rparr>"

lemma accept_sides_cases:
  assumes "gsp_bid e = Some rawBid" and "gsp_ask e = Some rawAsk"
    and "gsp_currentConnectionGeneration e" and "gsp_subscriptionMatched e"
    and "gsp_accountId e = g7_accountId s" and "gsp_symbolId e = g7_symbolId s"
    and "\<forall>ts. gsp_timestamp e = Some ts \<longrightarrow> 0 \<le> ts"
  obtains (ended) "\<exists>d. accept_sides oom rawBid rawAsk e s = Some (g7_finish d s)
      \<or> accept_sides oom rawBid rawAsk e s = None"
  | (wait) "accept_sides oom rawBid rawAsk e s = Some (g7_decide G7_IncompleteSpotTimestamp s)"
  | (advance) spec q where "g7_instrument s = Some spec"
      "spot_accepted e (g7_accountId s) (g7_symbolId s) (g7_symbolName s) spec (g7_pipPosition s) q"
      "accept_sides oom rawBid rawAsk e s = Some (g7_decide G7_QuoteProofSucceeded (g7_quoted s q))"
proof -
  let ?r = "accept_sides oom rawBid rawAsk e s"
  show thesis
  proof (cases "rawBid \<le> rawAsk \<and> g7_instrument s \<noteq> None")
    case False
    then have "\<exists>d. ?r = Some (g7_finish d s)"
      by (cases "g7_instrument s") (auto simp: accept_sides_def)
    then show thesis using ended by blast
  next
    case True
    then obtain spec where spec: "g7_instrument s = Some spec" and le: "\<not> rawBid > rawAsk" by auto
    define digits where "digits = int (unat (dec_scale (ins_tickSize spec)))"
    note r = accept_sides_def [of oom rawBid rawAsk e s, unfolded spec option.case Let_def,
        folded digits_def]
    consider "normalizeSpotPrice rawBid digits = None \<or> normalizeSpotPrice rawAsk digits = None"
      | bid ask where "normalizeSpotPrice rawBid digits = Some bid"
          "normalizeSpotPrice rawAsk digits = Some ask" by fastforce
    then show thesis
    proof cases
      case 1
      then have "?r = Some (g7_finish G7_CheckedArithmeticFailed s)"
        unfolding r using le by (auto split: option.splits)
      then show thesis using ended by blast
    next
      case prices: 2
      show thesis
      proof (cases "gsp_timestamp e")
        case None
        with prices le
        have "?r = (if dec_units bid > dec_units ask then Some (g7_finish G7_CrossedMarket s)
            else Some (g7_decide G7_IncompleteSpotTimestamp s))"
          by (simp add: r)
        then show thesis using ended wait by metis
      next
        case (Some ts)
        obtain d p where d: "classifyTimestampDetailed (u64_of_i64 ts) (gsp_receiptTimestampNs e) = (d, p)"
          by fastforce
        show thesis
        proof (cases p)
          case None
          with Some d prices le
          have "?r = (if dec_units bid > dec_units ask then Some (g7_finish G7_CrossedMarket s)
              else Some (g7_finish d s))"
            by (simp add: r)
          then show thesis using ended by metis
        next
          case p: (Some t)
          let ?q = "\<lparr>gq_canonicalSymbol = ''XAUUSD'', gq_executionAlias = g7_symbolName s,
              gq_instrument = spec, gq_pipPosition = g7_pipPosition s, gq_bid = bid, gq_ask = ask,
              gq_spread = decimal (dec_units ask - dec_units bid) (dec_scale bid),
              gq_timestamp = t\<rparr>"
          have q: "spot_accepted e (g7_accountId s) (g7_symbolId s) (g7_symbolName s) spec
              (g7_pipPosition s) ?q" if "dec_units bid \<le> dec_units ask"
            using that assms Some d p prices le
            by (simp add: spot_accepted_def classifyTimestamp_def digits_def)
          show thesis
          proof (cases "\<not> dec_units bid > dec_units ask
              \<and> \<not> i64_of_u64 rawAsk - i64_of_u64 rawBid < 0 \<and> \<not> oom")
            case True
            with Some d p prices le
            have "?r = Some (g7_decide G7_QuoteProofSucceeded (g7_quoted s ?q))"
              unfolding r g7_quoted_def by simp
            with True show thesis by (intro advance [OF spec q]) auto
          next
            case False
            with Some d p prices le show thesis
              by (intro ended) (auto simp: r)
          qed
        qed
      qed
    qed
  qed
qed

text \<open>A chain of guards, each of which ends the proof.\<close>

lemma finish_chain:
  "(\<not> b \<Longrightarrow> \<exists>d. x = Some (g7_finish d s)) \<Longrightarrow>
     \<exists>d. (if b then Some (g7_finish d0 s) else x) = Some (g7_finish d s)"
  by auto

lemma acceptSpot_cases:
  obtains (replay) "g7_isTerminal s" "acceptSpot oom e s = (s, G7_AlreadyTerminal)"
  | (ended) "g7_ended s (acceptSpot oom e s)"
  | (wait) "g7_phase s = P7_Spot" "\<exists>d. acceptSpot oom e s = g7_decide d s"
  | (advance) spec q where "g7_phase s = P7_Spot" "g7_instrument s = Some spec"
      "gsp_connectionGeneration e = g7_connectionGeneration s"
      "spot_accepted e (g7_accountId s) (g7_symbolId s) (g7_symbolName s) spec (g7_pipPosition s) q"
      "acceptSpot oom e s = g7_decide G7_QuoteProofSucceeded (g7_quoted s q)"
proof -
  let ?r = "acceptSpot oom e s"
  let ?early = "case gsp_timestamp e of None \<Rightarrow> None
     | Some ts \<Rightarrow> if gsp_bid e = None \<or> gsp_ask e = None then
         (case classifyTimestampDetailed (u64_of_i64 ts) (gsp_receiptTimestampNs e) of
            (decision, None) \<Rightarrow> Some decision
          | (decision, Some _) \<Rightarrow> None)
         else None"
  let ?pre = "g7_phase s = P7_Spot \<and> g7_subscriptionReady s \<and> gsp_currentConnectionGeneration e
      \<and> gsp_connectionGeneration e = g7_connectionGeneration s \<and> gsp_subscriptionMatched e
      \<and> gsp_accountId e = g7_accountId s \<and> \<not> gsp_accountId e \<le> 0
      \<and> gsp_symbolId e = g7_symbolId s \<and> \<not> gsp_symbolId e \<le> 0
      \<and> \<not> bad_side (gsp_bid e) \<and> \<not> bad_side (gsp_ask e)
      \<and> \<not> (case gsp_timestamp e of None \<Rightarrow> False | Some ts \<Rightarrow> ts < 0)"
  consider "g7_isTerminal s" | "\<not> g7_isTerminal s" "\<not> ?pre" | "\<not> g7_isTerminal s" ?pre by blast
  then show thesis
  proof cases
    case 1
    then show thesis by (intro replay) (simp_all add: acceptSpot_def acceptSpotImpl_def)
  next
    case 2
    then have "\<exists>d. acceptSpotImpl oom e s = Some (g7_finish d s)"
      unfolding acceptSpotImpl_def by (simp only: if_False) (intro finish_chain, blast)
    with 2(1) show thesis by (intro ended) (auto simp: g7_ended_def acceptSpot_def)
  next
    case 3
    note r = acceptSpotImpl_def [of oom e s, unfolded Let_def]
    have ts: "\<forall>ts. gsp_timestamp e = Some ts \<longrightarrow> 0 \<le> ts" using 3(2) by auto
    have impl: "acceptSpotImpl oom e s = (case ?early of
        Some decision \<Rightarrow> Some (g7_finish decision s)
      | None \<Rightarrow> (case (gsp_bid e, gsp_ask e) of
          (Some rawBid, Some rawAsk) \<Rightarrow> accept_sides oom rawBid rawAsk e s
        | _ \<Rightarrow> Some (g7_decide G7_IncompleteSpotSide s)))"
      unfolding r using 3 by (simp del: option.case_eq_if split del: option.split)
    consider d where "?early = Some d" | "?early = None" "gsp_bid e = None \<or> gsp_ask e = None"
      | rawBid rawAsk where "?early = None" "gsp_bid e = Some rawBid" "gsp_ask e = Some rawAsk"
      by fastforce
    then show thesis
    proof cases
      case early: 1
      then have "acceptSpotImpl oom e s = Some (g7_finish d s)" unfolding impl by (simp only: option.case)
      with 3(1) show thesis by (intro ended) (auto simp: g7_ended_def acceptSpot_def)
    next
      case side: 2
      then have "acceptSpotImpl oom e s = Some (g7_decide G7_IncompleteSpotSide s)"
        unfolding impl side(1) by (auto split: option.splits)
      with 3 show thesis by (intro wait) (auto simp: acceptSpot_def)
    next
      case both: 3
      then have "acceptSpotImpl oom e s = accept_sides oom rawBid rawAsk e s"
        unfolding impl both(1) by simp
      then have eq: "?r = (case accept_sides oom rawBid rawAsk e s of
          None \<Rightarrow> g7_finish G7_ResourceExhausted s | Some result \<Rightarrow> result)"
        by (simp add: acceptSpot_def)
      have pre: "gsp_currentConnectionGeneration e" "gsp_subscriptionMatched e"
        "gsp_accountId e = g7_accountId s" "gsp_symbolId e = g7_symbolId s" using 3(2) by blast+
      show thesis
      proof (cases rule: accept_sides_cases [OF both(2,3) pre ts, of oom,
            case_names final wait advance])
        case final
        then have "\<exists>d. ?r = g7_finish d s" by (auto simp: eq)
        with 3(1) show thesis by (intro ended) (simp add: g7_ended_def)
      next
        case wait': wait
        with 3(2) show thesis by (intro wait) (auto simp: eq)
      next
        case (advance spec q)
        with 3(2) show thesis by (intro that(4) [of spec q]) (simp_all add: eq)
      qed
    qed
  qed
qed

end
