(* ===== verification/Gate7Claims.thy ===== *)
theory Gate7Claims
  imports Gate7Props
begin

text \<open>
  The promises of the quote proof over whole runs: the order of its phases, where every part of
  the published quote comes from, the ranges of its numbers, and what later calls do to it.
\<close>

subsection \<open>Runs\<close>

datatype gate7_call =
    G7C_accounts gate7_account_list
  | G7C_auth i64
  | G7C_symbols bool gate7_symbols_list
  | G7C_full bool gate7_full_symbol_evidence
  | G7C_subscribe gate7_subscription
  | G7C_spot bool gate7_spot
  | G7C_terminal gate7_decision

fun g7_exec :: "gate7_call \<Rightarrow> gate7_proof \<Rightarrow> gate7_proof \<times> gate7_decision" where
  "g7_exec (G7C_accounts e) s = acceptAccountList e s"
| "g7_exec (G7C_auth x) s = g7_acceptAccountAuthentication x s"
| "g7_exec (G7C_symbols oom e) s = acceptSymbolsList oom e s"
| "g7_exec (G7C_full oom e) s = acceptFullSymbol oom e s"
| "g7_exec (G7C_subscribe e) s = acceptSubscription e s"
| "g7_exec (G7C_spot oom e) s = acceptSpot oom e s"
| "g7_exec (G7C_terminal d) s = g7_terminal d s"

definition g7_step :: "gate7_call \<Rightarrow> gate7_proof \<Rightarrow> gate7_proof" where
  "g7_step c s = fst (g7_exec c s)"

fun g7_stage :: "gate7_phase \<Rightarrow> nat" where
  "g7_stage P7_AccountList = 0"
| "g7_stage P7_AccountAuthentication = 1"
| "g7_stage P7_SymbolsList = 2"
| "g7_stage P7_FullSymbol = 3"
| "g7_stage P7_Subscription = 4"
| "g7_stage P7_Spot = 5"
| "g7_stage P7_Complete = 6"
| "g7_stage P7_Terminal = 7"

fun g7_kind :: "gate7_call \<Rightarrow> nat" where
  "g7_kind (G7C_accounts e) = 0"
| "g7_kind (G7C_auth x) = 1"
| "g7_kind (G7C_symbols oom e) = 2"
| "g7_kind (G7C_full oom e) = 3"
| "g7_kind (G7C_subscribe e) = 4"
| "g7_kind (G7C_spot oom e) = 5"
| "g7_kind (G7C_terminal d) = 6"

lemma g7_stage_inject: "g7_stage p = g7_stage q \<longleftrightarrow> p = q"
  by (cases p; cases q) simp_all

text \<open>The phases are ordered by their stage.\<close>

instantiation gate7_phase :: linorder
begin

definition less_eq_gate7_phase :: "gate7_phase \<Rightarrow> gate7_phase \<Rightarrow> bool" where
  "less_eq_gate7_phase p q \<longleftrightarrow> g7_stage p \<le> g7_stage q"

definition less_gate7_phase :: "gate7_phase \<Rightarrow> gate7_phase \<Rightarrow> bool" where
  "less_gate7_phase p q \<longleftrightarrow> g7_stage p < g7_stage q"

instance
  by standard (auto simp: less_eq_gate7_phase_def less_gate7_phase_def g7_stage_inject)

end

definition g7_inv :: "gate7_proof \<Rightarrow> bool" where
  "g7_inv s \<longleftrightarrow> (g7_isTerminal s \<longrightarrow> g7_cleared s)
     \<and> (g7_quoteEvidence s \<noteq> None \<longleftrightarrow> g7_phase s = P7_Complete)"

text \<open>
  Every call leaves the state but for the last decision, ends the proof, or advances it by one
  phase.  An account authentication ends even a completed proof.
\<close>

definition g7_unchanged :: "gate7_proof \<Rightarrow> gate7_proof \<Rightarrow> bool" where
  "g7_unchanged s s' \<longleftrightarrow> (\<exists>d. s' = s\<lparr>g7_lastDecision := d\<rparr>)"

definition g7_advanced :: "gate7_call \<Rightarrow> gate7_proof \<Rightarrow> gate7_proof \<Rightarrow> bool" where
  "g7_advanced c s s' \<longleftrightarrow> \<not> g7_isTerminal s \<and> g7_stage (g7_phase s') = Suc (g7_stage (g7_phase s))
     \<and> g7_kind c = g7_stage (g7_phase s) \<and> (g7_inv s \<longrightarrow> g7_inv s')
     \<and> g7_connectionGeneration s' = g7_connectionGeneration s"

lemma g7_unchanged_self: "g7_unchanged s s"
  unfolding g7_unchanged_def by (rule exI [of _ "g7_lastDecision s"]) simp

lemma g7_step_disj:
  "g7_unchanged s (g7_step c s)
   \<or> ((\<exists>d. g7_step c s = fst (g7_finish d s)) \<and> (g7_isTerminal s \<longrightarrow> g7_kind c = 1))
   \<or> g7_advanced c s (g7_step c s)"
proof (cases c)
  case (G7C_accounts e)
  then show ?thesis
    by (cases rule: acceptAccountList_cases [of s e])
       (auto simp: g7_step_def g7_ended_def g7_isTerminal_def g7_inv_def g7_decide_def
         g7_advanced_def g7_unchanged_self)
next
  case (G7C_auth x)
  then show ?thesis
    by (cases rule: g7_authentication_cases [of x s])
       (auto simp: g7_step_def g7_isTerminal_def g7_inv_def g7_decide_def g7_advanced_def)
next
  case (G7C_symbols oom e)
  then show ?thesis
    by (cases rule: acceptSymbolsList_cases [of s oom e])
       (auto simp: g7_step_def g7_ended_def g7_isTerminal_def g7_inv_def g7_decide_def
         g7_advanced_def g7_unchanged_self)
next
  case (G7C_full oom e)
  then show ?thesis
    by (cases rule: acceptFullSymbol_cases [of s oom e])
       (auto simp: g7_step_def g7_ended_def g7_isTerminal_def g7_inv_def g7_decide_def
         g7_advanced_def g7_unchanged_self)
next
  case (G7C_subscribe e)
  then show ?thesis
    by (cases rule: acceptSubscription_cases [of s e])
       (auto simp: g7_step_def g7_ended_def g7_isTerminal_def g7_inv_def g7_decide_def
         g7_advanced_def g7_unchanged_self)
next
  case (G7C_spot oom e)
  show ?thesis
  proof (cases rule: acceptSpot_cases [of s oom e])
    case wait
    with G7C_spot show ?thesis
      by (auto simp: g7_step_def g7_unchanged_def g7_decide_def)
  next
    case (advance spec q)
    with G7C_spot show ?thesis
      by (auto simp: g7_step_def g7_isTerminal_def g7_inv_def g7_cleared_def g7_defs
          g7_quoted_def secureClear_def g7_advanced_def)
  qed (use G7C_spot in \<open>auto simp: g7_step_def g7_ended_def g7_unchanged_self\<close>)
next
  case (G7C_terminal d)
  then show ?thesis
    by (cases "g7_isTerminal s") (auto simp: g7_step_def g7_terminal_def g7_unchanged_def)
qed

lemma g7_step_cases:
  obtains (same) "g7_unchanged s (g7_step c s)"
  | (ended) d where "g7_step c s = fst (g7_finish d s)" "g7_isTerminal s \<longrightarrow> g7_kind c = 1"
  | (advance) "g7_advanced c s (g7_step c s)"
  using g7_step_disj [of s c] by blast

lemma g7_finish_inv: "g7_inv (fst (g7_finish d s))"
  using g7_finish_cleared [of d s] by (simp add: g7_inv_def)

lemma g7_unchanged_facts:
  assumes "g7_unchanged s s'"
  shows "g7_inv s' = g7_inv s" "g7_phase s' = g7_phase s" "g7_isTerminal s' = g7_isTerminal s"
    "g7_quoteEvidence s' = g7_quoteEvidence s"
  using assms by (auto simp: g7_unchanged_def g7_inv_def g7_cleared_def g7_isTerminal_def)

lemma g7_step_inv: "g7_inv s \<Longrightarrow> g7_inv (g7_step c s)"
  by (cases rule: g7_step_cases [of s c])
     (auto simp: g7_finish_inv g7_unchanged_facts g7_advanced_def)

lemma g7_inv_init: "g7_inv (gate7_init g)"
  by (simp add: g7_inv_def g7_isTerminal_def gate7_init_def)

lemma g7_terminal_step:
  assumes "g7_isTerminal s"
  shows "g7_isTerminal (g7_step c s)"
    and "g7_phase s = P7_Terminal \<Longrightarrow> g7_phase (g7_step c s) = P7_Terminal"
    and "g7_kind c \<noteq> 1 \<Longrightarrow> g7_unchanged s (g7_step c s)"
  using assms
  by (cases rule: g7_step_cases [of s c],
      auto simp: g7_finish_cleared g7_isTerminal_def g7_unchanged_facts g7_advanced_def)+

interpretation gate7: staged g7_step g7_isTerminal g7_cleared g7_inv
    "\<lambda>s. g7_stage (g7_phase s)" g7_kind "\<lambda>s. g7_phase s = P7_Terminal"
proof
  fix s c
  show "g7_inv s \<Longrightarrow> g7_inv (g7_step c s)"
    by (rule g7_step_inv)
  show "g7_inv s \<Longrightarrow> g7_isTerminal s \<Longrightarrow> g7_cleared s"
    by (simp add: g7_inv_def)
  show "g7_inv s \<Longrightarrow> g7_phase (g7_step c s) \<noteq> P7_Terminal \<Longrightarrow>
      g7_stage (g7_phase (g7_step c s)) = g7_stage (g7_phase s)
      \<or> g7_stage (g7_phase (g7_step c s)) = Suc (g7_stage (g7_phase s))
        \<and> g7_kind c = g7_stage (g7_phase s)"
    by (cases rule: g7_step_cases [of s c])
       (auto simp: g7_finish_cleared g7_unchanged_facts g7_advanced_def)
  show "g7_phase s = P7_Terminal \<Longrightarrow> g7_phase (g7_step c s) = P7_Terminal"
    using g7_terminal_step(2) by (simp add: g7_isTerminal_def)
  show "g7_isTerminal s \<Longrightarrow> g7_isTerminal (g7_step c s)"
    by (rule g7_terminal_step)
qed

definition g7_after :: "u64 \<Rightarrow> gate7_call list \<Rightarrow> gate7_proof" where
  "g7_after g cs = run_machine g7_step cs (gate7_init g)"

lemma g7_after_snoc: "g7_after g (cs @ [c]) = g7_step c (g7_after g cs)"
  by (simp add: g7_after_def run_machine_append)

lemma g7_after_inv: "g7_inv (g7_after g cs)"
  unfolding g7_after_def
  by (rule run_machine_invariant [where I = g7_inv]) (auto intro: g7_step_inv g7_inv_init)

subsection \<open>Order and erasure\<close>

text \<open>
  C38. No phase of the quote proof can be skipped, and it keeps nothing: in any sequence of calls
  that has completed it, the calls include an account list, an authentication, a symbol list, a
  full symbol, a subscription and a spot event; a quote is published exactly when it is complete; and once it is
  complete or ended, it stays so and no account id, symbol id, symbol name or instrument is left
  in the working state.
\<close>

theorem gate7_complete_and_cleared:
  "(g7_phase (g7_after g cs) = P7_Complete \<longrightarrow> (\<forall>k < 6. \<exists>c \<in> set cs. g7_kind c = k))
   \<and> (g7_quoteEvidence (g7_after g cs) \<noteq> None \<longleftrightarrow> g7_phase (g7_after g cs) = P7_Complete)
   \<and> (g7_isTerminal (g7_after g cs) \<longrightarrow>
        g7_isTerminal (g7_after g (cs @ ds)) \<and> g7_accountId (g7_after g (cs @ ds)) = 0
        \<and> g7_symbolId (g7_after g (cs @ ds)) = 0 \<and> g7_symbolName (g7_after g (cs @ ds)) = []
        \<and> g7_instrument (g7_after g (cs @ ds)) = None)"
proof -
  have start: "g7_phase (gate7_init g) = P7_AccountList" by (simp add: gate7_init_def)
  have kinds: "\<exists>c \<in> set cs. g7_kind c = k"
    if "g7_phase (g7_after g cs) = P7_Complete" "k < 6" for k
  proof -
    have "k \<in> g7_kind ` set cs"
      using gate7.stage_reached [OF g7_inv_init [of g], of cs, folded g7_after_def] that start by simp
    then show ?thesis by blast
  qed
  have ended: "g7_isTerminal (g7_after g (cs @ ds)) \<and> g7_cleared (g7_after g (cs @ ds))"
    if "g7_isTerminal (g7_after g cs)"
    using gate7.cleared_after_terminal [OF g7_inv_init [of g], of cs ds]
      gate7.terminal_run [of "g7_after g cs" ds] that
    by (simp add: g7_after_def run_machine_append)
  show ?thesis
    using kinds ended g7_after_inv [of g cs] by (auto simp: g7_cleared_def g7_inv_def)
qed

definition sample_account_list :: gate7_account_list where
  "sample_account_list = \<lparr>gal_connectionGeneration = 4, gal_currentConnectionGeneration = True,
     gal_correlationMatched = True, gal_tokenOwned = True, gal_tradingScope = True,
     gal_accounts =
      [\<lparr>g7a_accountId = Some 70, g7a_isLive = Some True, g7a_brokerTitleShort = Some ''FIBO''\<rparr>,
       \<lparr>g7a_accountId = Some 71, g7a_isLive = Some False, g7a_brokerTitleShort = Some ''FIBO''\<rparr>]\<rparr>"

definition sample_symbols :: gate7_symbols_list where
  "sample_symbols = \<lparr>gsl_connectionGeneration = 4, gsl_currentConnectionGeneration = True,
     gsl_correlationMatched = True, gsl_accountId = 71, gsl_includeArchivedSymbols = False,
     gsl_symbols =
      [\<lparr>gls_symbolId = Some 1, gls_symbolName = Some ''EURUSD'', gls_enabled = Some True,
         gls_archived = False\<rparr>,
       \<lparr>gls_symbolId = Some 41, gls_symbolName = Some ''XAU/USD'', gls_enabled = Some True,
         gls_archived = False\<rparr>],
     gsl_archivedSymbolIds = [9]\<rparr>"

definition sample_full :: gate7_full_symbol_evidence where
  "sample_full = \<lparr>gfe_connectionGeneration = 4, gfe_currentConnectionGeneration = True,
     gfe_correlationMatched = True, gfe_accountId = 71,
     gfe_symbols =
      [\<lparr>gfs_symbolId = Some 41, gfs_symbolName = None, gfs_enabled = None, gfs_archived = None,
         gfs_digits = Some 2, gfs_pipPosition = Some 1, gfs_minVolume = Some 100,
         gfs_maxVolume = Some 100000, gfs_stepVolume = Some 100, gfs_lotSize = Some 10000\<rparr>],
     gfe_archivedSymbolIds = []\<rparr>"

definition sample_subscription :: gate7_subscription where
  "sample_subscription = \<lparr>gsu_connectionGeneration = 4, gsu_currentConnectionGeneration = True,
     gsu_correlationMatched = True, gsu_accountId = 71, gsu_symbolId = 41,
     gsu_requestedSymbolCount = 1\<rparr>"

definition sample_spot :: gate7_spot where
  "sample_spot = \<lparr>gsp_connectionGeneration = 4, gsp_currentConnectionGeneration = True,
     gsp_subscriptionMatched = True, gsp_accountId = 71, gsp_symbolId = 41,
     gsp_bid = Some 234567890, gsp_ask = Some 234590000, gsp_timestamp = Some 1700000000123,
     gsp_receiptTimestampNs = 1700000001000000000\<rparr>"

definition sample_quote_run :: "gate7_call list" where
  "sample_quote_run = [G7C_accounts sample_account_list, G7C_auth 71,
     G7C_symbols False sample_symbols, G7C_full False sample_full,
     G7C_subscribe sample_subscription, G7C_spot False sample_spot]"

lemma sample_quote_completes: "g7_phase (g7_after 4 sample_quote_run) = P7_Complete"
  by code_simp

lemma gate7_complete_and_cleared_witness:
  "(\<exists>c \<in> set sample_quote_run. g7_kind c = 3) \<and> g7_quoteEvidence (g7_after 4 sample_quote_run) \<noteq> None"
proof -
  have "(3 :: nat) < 6" by simp
  with gate7_complete_and_cleared [of 4 sample_quote_run "[]"] sample_quote_completes
  show ?thesis by blast
qed

subsection \<open>Where the quote comes from\<close>

definition account_chosen :: "gate7_call list \<Rightarrow> i64 \<Rightarrow> bool" where
  "account_chosen cs account \<longleftrightarrow> (\<exists>e a. G7C_accounts e \<in> set cs \<and> accounts_accepted e a
     \<and> account = i64_of_u64 (the (g7a_accountId a)))"

definition symbol_chosen :: "gate7_call list \<Rightarrow> i64 \<Rightarrow> i64 \<Rightarrow> string \<Rightarrow> bool" where
  "symbol_chosen cs account symbol name \<longleftrightarrow> (\<exists>oom e y. G7C_symbols oom e \<in> set cs
     \<and> symbols_accepted e account y \<and> symbol_candidate (gsl_archivedSymbolIds e) y
     \<and> gls_symbolId y = Some symbol \<and> gls_symbolName y = Some name)"

definition spec_chosen ::
  "gate7_call list \<Rightarrow> i64 \<Rightarrow> i64 \<Rightarrow> string \<Rightarrow> instrument_spec \<Rightarrow> i32 \<Rightarrow> bool" where
  "spec_chosen cs account symbol name spec pip \<longleftrightarrow> (\<exists>oom e y. G7C_full oom e \<in> set cs
     \<and> full_symbol_accepted e account symbol name y spec pip)"

definition subscribed :: "gate7_call list \<Rightarrow> i64 \<Rightarrow> i64 \<Rightarrow> bool" where
  "subscribed cs account symbol \<longleftrightarrow>
     (\<exists>e. G7C_subscribe e \<in> set cs \<and> subscription_accepted e account symbol)"

text \<open>The whole chain of evidence behind a published quote.\<close>

definition quote_proved :: "gate7_call list \<Rightarrow> gate7_quote \<Rightarrow> bool" where
  "quote_proved cs q \<longleftrightarrow> (\<exists>account symbol name spec pip oom e.
     account_chosen cs account \<and> G7C_auth account \<in> set cs
     \<and> symbol_chosen cs account symbol name \<and> spec_chosen cs account symbol name spec pip
     \<and> subscribed cs account symbol
     \<and> G7C_spot oom e \<in> set cs \<and> spot_accepted e account symbol name spec pip q)"

definition g7_history :: "gate7_call list \<Rightarrow> gate7_proof \<Rightarrow> bool" where
  "g7_history cs s \<longleftrightarrow>
     (g7_phase s \<in> {P7_AccountAuthentication..P7_Spot}
        \<longrightarrow> account_chosen cs (g7_accountId s))
     \<and> (g7_phase s \<in> {P7_SymbolsList..P7_Spot}
        \<longrightarrow> G7C_auth (g7_accountId s) \<in> set cs)
     \<and> (g7_phase s \<in> {P7_FullSymbol..P7_Spot}
        \<longrightarrow> symbol_chosen cs (g7_accountId s) (g7_symbolId s) (g7_symbolName s))
     \<and> (g7_phase s \<in> {P7_Subscription..P7_Spot} \<longrightarrow> (\<exists>spec. g7_instrument s = Some spec
        \<and> spec_chosen cs (g7_accountId s) (g7_symbolId s) (g7_symbolName s) spec (g7_pipPosition s)))
     \<and> (g7_phase s = P7_Spot \<longrightarrow> subscribed cs (g7_accountId s) (g7_symbolId s))
     \<and> (\<forall>q. g7_quoteEvidence s = Some q \<longrightarrow> quote_proved cs q)"

lemma chosen_mono:
  "account_chosen cs i \<Longrightarrow> account_chosen (cs @ [c]) i"
  "symbol_chosen cs i j n \<Longrightarrow> symbol_chosen (cs @ [c]) i j n"
  "spec_chosen cs i j n sp pip \<Longrightarrow> spec_chosen (cs @ [c]) i j n sp pip"
  "subscribed cs i j \<Longrightarrow> subscribed (cs @ [c]) i j"
  by (auto simp: account_chosen_def symbol_chosen_def spec_chosen_def subscribed_def)

lemma quote_proved_mono: "quote_proved cs q \<Longrightarrow> quote_proved (cs @ [c]) q"
  unfolding quote_proved_def using chosen_mono by (metis Un_iff set_append)

lemma g7_history_mono: "g7_history cs s \<Longrightarrow> g7_history (cs @ [c]) s"
  unfolding g7_history_def set_append Un_iff
  by (elim conjE, intro conjI; blast intro: chosen_mono quote_proved_mono)

lemma g7_history_unchanged: "g7_unchanged s s' \<Longrightarrow> g7_history cs s' = g7_history cs s"
  unfolding g7_unchanged_def by (elim exE) (simp add: g7_history_def)

lemma g7_history_finish: "g7_history cs (fst (g7_finish d s))"
  by (simp add: g7_history_def g7_finish_cleared less_eq_gate7_phase_def)

lemma g7_history_step:
  assumes "g7_history cs s" and "g7_inv s"
  shows "g7_history (cs @ [c]) (g7_step c s)"
proof (cases rule: g7_step_cases [of s c])
  case same
  with assms(1) show ?thesis by (simp add: g7_history_unchanged g7_history_mono)
next
  case (ended d)
  then show ?thesis by (simp add: g7_history_finish)
next
  case advance
  have h: "g7_history (cs @ [c]) s" by (rule g7_history_mono [OF assms(1)])
  have live: "\<not> g7_isTerminal s" "g7_phase (g7_step c s) \<noteq> P7_Terminal"
    "g7_phase (g7_step c s) \<noteq> g7_phase s"
    using advance by (cases "g7_phase s"; auto simp: g7_advanced_def g7_isTerminal_def)+
  have none: "g7_quoteEvidence s = None"
    using assms(2) live(1) by (auto simp: g7_inv_def g7_isTerminal_def)
  note finish = g7_ended_def g7_step_def g7_finish_cleared
  show ?thesis
  proof (cases c)
    case (G7C_accounts e)
    then show ?thesis
    proof (cases rule: acceptAccountList_cases [of s e])
      case (advance a)
      with G7C_accounts none show ?thesis
        by (simp add: g7_history_def g7_step_def g7_decide_def less_eq_gate7_phase_def account_chosen_def)
           (rule exI [of _ e], simp, blast)
    qed (use live in \<open>auto simp: finish\<close>)
  next
    case (G7C_auth x)
    then show ?thesis
    proof (cases rule: g7_authentication_cases [of x s])
      case advance
      with G7C_auth none h show ?thesis
        by (simp add: g7_history_def g7_step_def g7_decide_def less_eq_gate7_phase_def)
    qed (use live in \<open>auto simp: finish\<close>)
  next
    case (G7C_symbols oom e)
    then show ?thesis
    proof (cases rule: acceptSymbolsList_cases [of s oom e])
      case (advance y)
      then have "gls_symbolId y \<noteq> None" "gls_symbolName y \<noteq> None"
        by (auto simp: symbol_candidate_def split: option.splits)
      with advance G7C_symbols have "symbol_chosen (cs @ [c]) (g7_accountId s)
          (the (gls_symbolId y)) (the (gls_symbolName y))"
        unfolding symbol_chosen_def
        by (intro exI [of _ oom] exI [of _ e] exI [of _ y]) auto
      with advance G7C_symbols none h show ?thesis
        by (simp add: g7_history_def g7_step_def g7_decide_def less_eq_gate7_phase_def)
    qed (use live in \<open>auto simp: finish\<close>)
  next
    case (G7C_full oom e)
    then show ?thesis
    proof (cases rule: acceptFullSymbol_cases [of s oom e])
      case (advance y spec pip)
      with G7C_full have "spec_chosen (cs @ [c]) (g7_accountId s) (g7_symbolId s)
          (g7_symbolName s) spec pip"
        unfolding spec_chosen_def by (intro exI [of _ oom] exI [of _ e] exI [of _ y]) simp
      with advance G7C_full none h show ?thesis
        by (simp add: g7_history_def g7_step_def g7_decide_def less_eq_gate7_phase_def)
    qed (use live in \<open>auto simp: finish\<close>)
  next
    case (G7C_subscribe e)
    then show ?thesis
    proof (cases rule: acceptSubscription_cases [of s e])
      case advance
      with G7C_subscribe none h show ?thesis
        by (simp add: g7_history_def g7_step_def g7_decide_def less_eq_gate7_phase_def subscribed_def)
           (rule exI [of _ e], simp)
    qed (use live in \<open>auto simp: finish\<close>)
  next
    case (G7C_spot oom e)
    then show ?thesis
    proof (cases rule: acceptSpot_cases [of s oom e])
      case (advance spec q)
      have "quote_proved (cs @ [c]) q"
        unfolding quote_proved_def
        using h advance G7C_spot
        by (intro exI [of _ "g7_accountId s"] exI [of _ "g7_symbolId s"] exI [of _ "g7_symbolName s"]
            exI [of _ spec] exI [of _ "g7_pipPosition s"] exI [of _ oom] exI [of _ e])
           (simp add: g7_history_def less_eq_gate7_phase_def)
      with advance G7C_spot show ?thesis
        by (simp add: g7_history_def g7_step_def g7_decide_def g7_quoted_def g7_clearSensitiveState_def
            less_eq_gate7_phase_def)
    qed (use live in \<open>auto simp: finish g7_decide_def\<close>)
  next
    case (G7C_terminal d)
    with live show ?thesis by (auto simp: g7_step_def g7_terminal_def g7_finish_cleared)
  qed
qed

lemma g7_after_history: "g7_history cs (g7_after g cs)"
proof (induction cs rule: rev_induct)
  case Nil
  then show ?case by (simp add: g7_history_def g7_after_def gate7_init_def less_eq_gate7_phase_def)
next
  case (snoc c cs)
  then show ?case by (simp add: g7_after_snoc g7_history_step g7_after_inv)
qed

text \<open>
  C28. Every published quote is backed by the whole chain of evidence of its run: a token-owned,
  correlated account list of this connection with exactly one FIBO demo account; an
  authentication answer for that account; a symbol list of that account with exactly one
  enabled, non-archived canonical XAUUSD; one full-symbol record of that symbol with valid
  metadata; a subscription to exactly that symbol; and a spot event for that account and symbol
  whose prices and timestamp are the published ones.
\<close>

theorem gate7_quote_provenance:
  assumes "g7_quoteEvidence (g7_after g cs) = Some q"
  shows "\<exists>account symbol name spec pip.
     (\<exists>e a. G7C_accounts e \<in> set cs \<and> gal_tokenOwned e \<and> gal_tradingScope e
        \<and> gal_currentConnectionGeneration e \<and> gal_correlationMatched e
        \<and> filter fibo_demo (gal_accounts e) = [a] \<and> g7a_isLive a = Some False
        \<and> account = i64_of_u64 (the (g7a_accountId a)))
     \<and> G7C_auth account \<in> set cs
     \<and> (\<exists>oom e y. G7C_symbols oom e \<in> set cs \<and> gsl_accountId e = account
          \<and> filter (symbol_candidate (gsl_archivedSymbolIds e)) (gsl_symbols e) = [y]
          \<and> gls_symbolId y = Some symbol \<and> gls_symbolName y = Some name
          \<and> isCanonicalXauusd name \<and> symbol \<notin> set (gsl_archivedSymbolIds e))
     \<and> (\<exists>oom e y. G7C_full oom e \<in> set cs
          \<and> full_symbol_accepted e account symbol name y spec pip)
     \<and> (\<exists>e. G7C_subscribe e \<in> set cs \<and> subscription_accepted e account symbol)
     \<and> (\<exists>oom e. G7C_spot oom e \<in> set cs \<and> spot_accepted e account symbol name spec pip q)"
proof -
  have "quote_proved cs q" using g7_after_history [of cs g] assms by (simp add: g7_history_def)
  then obtain account symbol name spec pip oom e
    where c: "account_chosen cs account" "G7C_auth account \<in> set cs"
      "symbol_chosen cs account symbol name" "spec_chosen cs account symbol name spec pip"
      "subscribed cs account symbol"
      and s: "G7C_spot oom e \<in> set cs" "spot_accepted e account symbol name spec pip q"
    unfolding quote_proved_def by blast
  obtain ea a where a: "G7C_accounts ea \<in> set cs" "accounts_accepted ea a"
      "account = i64_of_u64 (the (g7a_accountId a))"
    using c(1) unfolding account_chosen_def by blast
  have "a \<in> set (filter fibo_demo (gal_accounts ea))" using a(2) by (simp add: accounts_accepted_def)
  then have live: "g7a_isLive a = Some False" by (cases "g7a_isLive a") (auto simp: fibo_demo_def)
  obtain oom' es y where y: "G7C_symbols oom' es \<in> set cs" "symbols_accepted es account y"
      "symbol_candidate (gsl_archivedSymbolIds es) y" "gls_symbolId y = Some symbol"
      "gls_symbolName y = Some name"
    using c(3) unfolding symbol_chosen_def by blast
  have canonical: "isCanonicalXauusd name" "symbol \<notin> set (gsl_archivedSymbolIds es)"
    using candidate_fields [OF y(3)] y(4,5) by simp_all
  note list = a(2) [unfolded accounts_accepted_def] and symbols = y(2) [unfolded symbols_accepted_def]
  have account_part: "\<exists>e a. G7C_accounts e \<in> set cs \<and> gal_tokenOwned e \<and> gal_tradingScope e
      \<and> gal_currentConnectionGeneration e \<and> gal_correlationMatched e
      \<and> filter fibo_demo (gal_accounts e) = [a] \<and> g7a_isLive a = Some False
      \<and> account = i64_of_u64 (the (g7a_accountId a))"
    by (intro exI [of _ ea] exI [of _ a]) (simp add: a list live)
  have symbol_part: "\<exists>oom e y. G7C_symbols oom e \<in> set cs \<and> gsl_accountId e = account
        \<and> filter (symbol_candidate (gsl_archivedSymbolIds e)) (gsl_symbols e) = [y]
        \<and> gls_symbolId y = Some symbol \<and> gls_symbolName y = Some name
        \<and> isCanonicalXauusd name \<and> symbol \<notin> set (gsl_archivedSymbolIds e)"
    by (intro exI [of _ oom'] exI [of _ es] exI [of _ y]) (simp add: y symbols canonical)
  have full_part: "\<exists>oom e y. G7C_full oom e \<in> set cs
        \<and> full_symbol_accepted e account symbol name y spec pip"
    using c(4) by (simp add: spec_chosen_def)
  have subscription_part: "\<exists>e. G7C_subscribe e \<in> set cs \<and> subscription_accepted e account symbol"
    using c(5) by (simp add: subscribed_def)
  have spot_part: "\<exists>oom e. G7C_spot oom e \<in> set cs \<and> spot_accepted e account symbol name spec pip q"
    using s by blast
  show ?thesis
    by (rule exI [of _ account], rule exI [of _ symbol], rule exI [of _ name],
        rule exI [of _ spec], rule exI [of _ pip],
        intro conjI account_part c(2) symbol_part full_part subscription_part spot_part)
qed

lemma gate7_quote_provenance_witness:
  "\<exists>q. g7_quoteEvidence (g7_after 4 sample_quote_run) = Some q
     \<and> G7C_auth 71 \<in> set sample_quote_run \<and> gq_executionAlias q = ''XAU/USD''"
proof -
  obtain q where q: "g7_quoteEvidence (g7_after 4 sample_quote_run) = Some q"
    using sample_quote_completes g7_after_inv [of 4 sample_quote_run]
    by (auto simp: g7_inv_def)
  obtain name symbol where "(\<exists>oom e y. G7C_symbols oom e \<in> set sample_quote_run
        \<and> filter (symbol_candidate (gsl_archivedSymbolIds e)) (gsl_symbols e) = [y]
        \<and> gls_symbolName y = Some name)" "gq_executionAlias q = name"
    using gate7_quote_provenance [OF q] unfolding spot_accepted_def by blast
  moreover have "filter (symbol_candidate (gsl_archivedSymbolIds sample_symbols)) (gsl_symbols sample_symbols)
      = [\<lparr>gls_symbolId = Some 41, gls_symbolName = Some ''XAU/USD'', gls_enabled = Some True,
         gls_archived = False\<rparr>]" by code_simp
  ultimately show ?thesis using q by (auto simp: sample_quote_run_def)
qed

subsection \<open>The numbers of the quote\<close>

lemma proof_window:
  assumes "classifyTimestamp raw receipt = Some p"
  shows "- 5000000000 \<le> tp_freshnessDeltaNs p \<and> tp_freshnessDeltaNs p \<le> 120000000000
    \<and> int (unat (tp_timestampNs p)) = int (unat receipt) - tp_freshnessDeltaNs p"
proof -
  obtain mu where "filter (plausible raw receipt) timestamp_units = [mu]"
    and p: "p = proof_of raw receipt mu"
    using assms by (auto simp: classifyTimestamp_iff)
  then have "mu \<in> set (filter (plausible raw receipt) timestamp_units)" by simp
  then have bounds: "unat raw * unat (fst mu) < 18446744073709551616"
      "unat receipt \<le> unat raw * unat (fst mu) + 120000000000"
      "unat raw * unat (fst mu) \<le> unat receipt + 5000000000"
    by (auto simp: plausible_def Let_def)
  from unat_mult_u64 [OF bounds(1)] bounds(2,3) show ?thesis
    unfolding p proof_of_def timestamp_proof.simps by linarith
qed

text \<open>
  The numbers of every published quote are sound: both prices are non-negative 64-bit values
  at the symbol's scale with bid at most ask, the spread is exactly their difference at that
  scale, the instrument is complete with positive step and lot size whose volume bounds are
  ordered multiples of the step, and the spot was at most 120 seconds old and at most 5 seconds
  ahead of its receipt.
\<close>

theorem gate7_quote_sound:
  assumes "g7_quoteEvidence (g7_after g cs) = Some q"
  shows "0 \<le> dec_units (gq_bid q) \<and> dec_units (gq_bid q) \<le> dec_units (gq_ask q)
    \<and> in_i64 (dec_units (gq_ask q))
    \<and> dec_scale (gq_bid q) = dec_scale (ins_tickSize (gq_instrument q))
    \<and> dec_scale (gq_ask q) = dec_scale (ins_tickSize (gq_instrument q))
    \<and> gq_spread q = decimal (dec_units (gq_ask q) - dec_units (gq_bid q)) (dec_scale (gq_ask q))
    \<and> gq_canonicalSymbol q = ''XAUUSD'' \<and> isCanonicalXauusd (gq_executionAlias q)
    \<and> ins_complete (gq_instrument q) \<and> 0 < dec_units (ins_quantityStep (gq_instrument q))
    \<and> 0 < dec_units (ins_contractSize (gq_instrument q))
    \<and> 0 < dec_units (ins_minimumQuantity (gq_instrument q))
    \<and> dec_units (ins_minimumQuantity (gq_instrument q)) \<le> dec_units (ins_maximumQuantity (gq_instrument q))
    \<and> dec_units (ins_quantityStep (gq_instrument q)) dvd dec_units (ins_minimumQuantity (gq_instrument q))
    \<and> - 5000000000 \<le> tp_freshnessDeltaNs (gq_timestamp q)
    \<and> tp_freshnessDeltaNs (gq_timestamp q) \<le> 120000000000"
proof -
  have "quote_proved cs q" using g7_after_history [of cs g] assms by (simp add: g7_history_def)
  then obtain account symbol name spec pip oom e
    where c: "symbol_chosen cs account symbol name" "spec_chosen cs account symbol name spec pip"
      and s: "spot_accepted e account symbol name spec pip q"
    unfolding quote_proved_def by blast
  let ?d = "int (unat (dec_scale (ins_tickSize spec)))"
  obtain rawBid rawAsk ts where n: "rawBid \<le> rawAsk" "normalizeSpotPrice rawBid ?d = Some (gq_bid q)"
      "normalizeSpotPrice rawAsk ?d = Some (gq_ask q)"
      "classifyTimestamp (u64_of_i64 ts) (gsp_receiptTimestampNs e) = Some (gq_timestamp q)"
    using s unfolding spot_accepted_def by blast
  have w: "word_of_int ?d = dec_scale (ins_tickSize spec)"
    by simp
  obtain digits minV maxV step lot where m: "valid_symbol_metadata digits pip minV maxV step lot"
      "spec = symbol_spec name digits minV maxV step lot"
    using c(2) unfolding spec_chosen_def full_symbol_accepted_def by blast
  have name: "isCanonicalXauusd name"
    using c(1) candidate_fields(2) unfolding symbol_chosen_def by (metis option.sel)
  have "step dvd minV"
    using m(1) by (auto simp: valid_symbol_metadata_def cmod_nonneg dvd_eq_mod_eq_0)
  with spot_prices_stay_uncrossed [OF n(1-3)] proof_window [OF n(4)] s m name show ?thesis
    unfolding w spot_accepted_def
    by (auto simp: symbol_spec_def valid_symbol_metadata_def instrument_default_def decimal_def)
qed

lemma gate7_quote_sound_witness:
  "\<exists>q. g7_quoteEvidence (g7_after 4 sample_quote_run) = Some q
     \<and> dec_units (gq_bid q) \<le> dec_units (gq_ask q)"
proof -
  obtain q where q: "g7_quoteEvidence (g7_after 4 sample_quote_run) = Some q"
    using sample_quote_completes g7_after_inv [of 4 sample_quote_run]
    by (auto simp: g7_inv_def)
  with gate7_quote_sound [OF q] show ?thesis by blast
qed

text \<open>
  A published quote survives every later call but one: account lists, symbol lists, full
  symbols, subscriptions, spots and transport errors leave it as it is, but any later account
  authentication, whatever its account, erases the quote and reports an invalid account
  identifier (it does not check whether the proof is already terminal).
\<close>

theorem gate7_quote_lost_to_authentication:
  assumes "g7_quoteEvidence (g7_after g cs) = Some q"
  shows "g7_quoteEvidence (g7_after g (cs @ [c]))
    = (case c of G7C_auth x \<Rightarrow> None | _ \<Rightarrow> Some q)
   \<and> (\<forall>x. c = G7C_auth x \<longrightarrow>
        snd (g7_exec c (g7_after g cs)) = G7_InvalidAccountIdentifier)"
proof -
  have ph: "g7_phase (g7_after g cs) = P7_Complete" "g7_isTerminal (g7_after g cs)"
    using assms g7_after_inv [of g cs] by (auto simp: g7_inv_def g7_isTerminal_def)
  show ?thesis
  proof (cases "g7_kind c = 1")
    case True
    then obtain x where "c = G7C_auth x" by (cases c) auto
    with ph(1) show ?thesis
      by (simp add: g7_after_snoc g7_step_def g7_acceptAccountAuthentication_def Let_def
          g7_finish_cleared)
  next
    case False
    have "g7_unchanged (g7_after g cs) (g7_step c (g7_after g cs))"
      by (rule g7_terminal_step(3) [OF ph(2) False])
    with False assms show ?thesis
      by (cases c) (auto simp: g7_after_snoc g7_unchanged_facts)
  qed
qed

lemma gate7_quote_lost_to_authentication_witness:
  "g7_quoteEvidence (g7_after 4 (sample_quote_run @ [G7C_auth 71])) = None"
proof -
  obtain q where q: "g7_quoteEvidence (g7_after 4 sample_quote_run) = Some q"
    using sample_quote_completes g7_after_inv [of 4 sample_quote_run]
    by (auto simp: g7_inv_def)
  from gate7_quote_lost_to_authentication [OF this, of "G7C_auth 71"] show ?thesis by simp
qed

end
