(* ===== verification/Floats.thy ===== *)
theory Floats
  imports Complex_Main "HOL-Library.Log_Nat" Prelude
begin

text \<open>
  The floating-point numbers of the program: \<open>double\<close> is IEEE binary64 and \<open>long double\<close> a format
  at least as precise (binary64 itself on some targets, the 64-bit x87 significand on others), so
  its format is a parameter.  A finite number is its exact rational value; every operation is the
  exact rational operation followed by one rounding to nearest, ties to even.  The sign of zero
  is not represented: no modelled code reads it, and a division by zero counts the zero as
  positive.
\<close>

subsection \<open>Rounding to a format\<close>

record fp_format =
  fmt_prec :: nat
  fmt_emax :: int

definition binary64 :: fp_format where "binary64 = \<lparr>fmt_prec = 53, fmt_emax = 1023\<rparr>"
definition x87_extended :: fp_format where "x87_extended = \<lparr>fmt_prec = 64, fmt_emax = 16383\<rparr>"

text \<open>The binary exponent of a positive rational: \<open>2 powi ilog2 x \<le> x < 2 powi (ilog2 x + 1)\<close>.\<close>

definition ilog2 :: "rat \<Rightarrow> int" where
  "ilog2 x = (case quotient_of x of (a, b) \<Rightarrow>
     let k = bitlen a - bitlen b in if 2 powi k \<le> x then k else k - 1)"

definition round_half_even :: "rat \<Rightarrow> int" where
  "round_half_even x = (let f = \<lfloor>x\<rfloor>; d = x - of_int f
     in if d < 1 / 2 then f else if d > 1 / 2 then f + 1 else if even f then f else f + 1)"

definition ulp_exponent :: "fp_format \<Rightarrow> rat \<Rightarrow> int" where
  "ulp_exponent F x = max (ilog2 \<bar>x\<bar>) (1 - fmt_emax F) - int (fmt_prec F) + 1"

definition fl_rat :: "fp_format \<Rightarrow> rat \<Rightarrow> rat" where
  "fl_rat F x = (if x = 0 then 0
     else let q = ulp_exponent F x in of_int (round_half_even (x / 2 powi q)) * 2 powi q)"

subsection \<open>Numbers and operations\<close>

datatype fp = NaN | Infinite bool | Fin rat

definition fp_overflows :: "fp_format \<Rightarrow> rat \<Rightarrow> bool" where
  "fp_overflows F r \<longleftrightarrow> r \<noteq> 0 \<and> fmt_emax F < ilog2 \<bar>r\<bar>"

definition fp_round :: "fp_format \<Rightarrow> rat \<Rightarrow> fp" where
  "fp_round F x = (let r = fl_rat F x in if fp_overflows F r then Infinite (r < 0) else Fin r)"

fun fp_isfinite :: "fp \<Rightarrow> bool" where
  "fp_isfinite (Fin x) = True"
| "fp_isfinite _ = False"

fun fp_neg :: "fp \<Rightarrow> fp" where
  "fp_neg NaN = NaN"
| "fp_neg (Infinite s) = Infinite (\<not> s)"
| "fp_neg (Fin x) = Fin (- x)"

fun fp_abs :: "fp \<Rightarrow> fp" where
  "fp_abs NaN = NaN"
| "fp_abs (Infinite s) = Infinite False"
| "fp_abs (Fin x) = Fin \<bar>x\<bar>"

fun fp_add :: "fp_format \<Rightarrow> fp \<Rightarrow> fp \<Rightarrow> fp" where
  "fp_add F (Fin x) (Fin y) = fp_round F (x + y)"
| "fp_add F NaN b = NaN"
| "fp_add F a NaN = NaN"
| "fp_add F (Infinite s) (Infinite t) = (if s = t then Infinite s else NaN)"
| "fp_add F (Infinite s) (Fin y) = Infinite s"
| "fp_add F (Fin x) (Infinite t) = Infinite t"

definition fp_sub :: "fp_format \<Rightarrow> fp \<Rightarrow> fp \<Rightarrow> fp" where
  "fp_sub F a b = fp_add F a (fp_neg b)"

fun fp_mul :: "fp_format \<Rightarrow> fp \<Rightarrow> fp \<Rightarrow> fp" where
  "fp_mul F (Fin x) (Fin y) = fp_round F (x * y)"
| "fp_mul F NaN b = NaN"
| "fp_mul F a NaN = NaN"
| "fp_mul F (Infinite s) (Infinite t) = Infinite (s \<noteq> t)"
| "fp_mul F (Infinite s) (Fin y) = (if y = 0 then NaN else Infinite (s \<noteq> (y < 0)))"
| "fp_mul F (Fin x) (Infinite t) = (if x = 0 then NaN else Infinite (t \<noteq> (x < 0)))"

fun fp_div :: "fp_format \<Rightarrow> fp \<Rightarrow> fp \<Rightarrow> fp" where
  "fp_div F (Fin x) (Fin y) =
     (if y = 0 then if x = 0 then NaN else Infinite (x < 0) else fp_round F (x / y))"
| "fp_div F NaN b = NaN"
| "fp_div F a NaN = NaN"
| "fp_div F (Infinite s) (Infinite t) = NaN"
| "fp_div F (Infinite s) (Fin y) = Infinite (s \<noteq> (y < 0))"
| "fp_div F (Fin x) (Infinite t) = Fin 0"

fun fp_less :: "fp \<Rightarrow> fp \<Rightarrow> bool" where
  "fp_less (Fin x) (Fin y) = (x < y)"
| "fp_less (Infinite s) (Fin y) = s"
| "fp_less (Fin x) (Infinite t) = (\<not> t)"
| "fp_less (Infinite s) (Infinite t) = (s \<and> \<not> t)"
| "fp_less _ _ = False"

fun fp_eq :: "fp \<Rightarrow> fp \<Rightarrow> bool" where
  "fp_eq (Fin x) (Fin y) = (x = y)"
| "fp_eq (Infinite s) (Infinite t) = (s = t)"
| "fp_eq _ _ = False"

definition fp_le :: "fp \<Rightarrow> fp \<Rightarrow> bool" where
  "fp_le a b \<longleftrightarrow> fp_less a b \<or> fp_eq a b"

text \<open>\<open>std::max\<close> and \<open>std::min\<close>: the first argument unless the second is strictly better.\<close>

definition fp_max :: "fp \<Rightarrow> fp \<Rightarrow> fp" where
  "fp_max a b = (if fp_less a b then b else a)"

definition fp_min :: "fp \<Rightarrow> fp \<Rightarrow> fp" where
  "fp_min a b = (if fp_less b a then b else a)"

text \<open>\<open>std::trunc\<close>, \<open>std::floor\<close> and \<open>std::round\<close> (ties away from zero) are exact.\<close>

definition trunc_rat :: "rat \<Rightarrow> int" where
  "trunc_rat x = (if x < 0 then \<lceil>x\<rceil> else \<lfloor>x\<rfloor>)"

definition round_half_away :: "rat \<Rightarrow> int" where
  "round_half_away x = (if x < 0 then - \<lfloor>- x + 1 / 2\<rfloor> else \<lfloor>x + 1 / 2\<rfloor>)"

definition fp_map_int :: "(rat \<Rightarrow> int) \<Rightarrow> fp \<Rightarrow> fp" where
  "fp_map_int f a = (case a of Fin x \<Rightarrow> Fin (of_int (f x)) | _ \<Rightarrow> a)"

text \<open>Conversions: from an integer, and between formats.\<close>

definition fp_of_int :: "fp_format \<Rightarrow> int \<Rightarrow> fp" where
  "fp_of_int F n = fp_round F (of_int n)"

definition fp_cast :: "fp_format \<Rightarrow> fp \<Rightarrow> fp" where
  "fp_cast F a = (case a of Fin x \<Rightarrow> fp_round F x | _ \<Rightarrow> a)"

end
