(* ===== verification/Conversions.thy ===== *)
theory Conversions
  imports Floats Financial BrokerContracts
begin

text \<open>
  The conversions between \<open>double\<close> and the fixed-point amounts: \<open>normalize\<close> and \<open>toDouble\<close> of
  src/FinancialMath.cpp and include/FinancialMath.hpp, and \<open>Decimal64::fromDouble\<close> and
  \<open>toDouble\<close> of include/BrokerAdapterContracts.hpp.  \<open>L\<close> is the format of \<open>long double\<close>.  The
  final cast to 64 bits keeps the mathematical value: outside the range of the type it is
  undefined in C++, and the model shows such a result as a number outside the range.
\<close>

definition fp_to_int :: "fp \<Rightarrow> i64" where
  "fp_to_int a = (case a of Fin x \<Rightarrow> trunc_rat x | _ \<Rightarrow> 0)"

text \<open>The literals \<open>1e-7L\<close> and the machine epsilon of \<open>double\<close>.\<close>

definition tolerance_floor :: "fp_format \<Rightarrow> fp" where
  "tolerance_floor L = fp_round L (1 / 10000000)"

definition double_epsilon :: fp where "double_epsilon = Fin (2 powi - 52)"

definition representation_tolerance :: "fp_format \<Rightarrow> fp \<Rightarrow> fp" where
  "representation_tolerance L scaled =
     fp_max (tolerance_floor L)
       (fp_mul L (fp_mul L (fp_abs scaled) (fp_cast L double_epsilon)) (fp_of_int L 2))"

text \<open>The rounding switch shared by both conversions; \<open>None\<close> is its early return.\<close>

definition rounded_long :: "fp_format \<Rightarrow> rounding \<Rightarrow> fp \<Rightarrow> fp option" where
  "rounded_long L rounding scaled =
     (case rounding of
        TowardZero \<Rightarrow> Some (fp_map_int trunc_rat scaled)
      | RejectUnaligned \<Rightarrow>
          let rounded = fp_map_int round_half_away scaled
          in if fp_less (representation_tolerance L scaled) (fp_abs (fp_sub L scaled rounded))
             then None else Some rounded
      | NearestTiesAwayFromZero \<Rightarrow> Some (fp_map_int round_half_away scaled))"

definition normalize :: "fp_format \<Rightarrow> fp \<Rightarrow> rounding \<Rightarrow> i64 option" where
  "normalize L v rounding =
     (if \<not> fp_isfinite v then None
      else
        let scaled = fp_mul L (fp_cast L v) (fp_of_int L SCALE_FACTOR)
        in case rounded_long L rounding scaled of
             None \<Rightarrow> None
           | Some rounded \<Rightarrow>
               if fp_less rounded (fp_of_int L INT64_MIN) \<or> fp_less (fp_of_int L INT64_MAX) rounded
               then None
               else Some (fp_to_int rounded))"

definition normalized :: "fp_format \<Rightarrow> fp \<Rightarrow> rounding \<Rightarrow> 'tag fvalue option" where
  "normalized L v rounding =
     (case normalize L v rounding of None \<Rightarrow> None | Some u \<Rightarrow> Some (FValue u))"

definition price_of :: "fp_format \<Rightarrow> fp \<Rightarrow> rounding \<Rightarrow> price option" where
  "price_of L v rounding = normalized L v rounding"

definition quantity_of :: "fp_format \<Rightarrow> fp \<Rightarrow> rounding \<Rightarrow> quantity option" where
  "quantity_of L v rounding = normalized L v rounding"

definition money_of :: "fp_format \<Rightarrow> fp \<Rightarrow> rounding \<Rightarrow> money option" where
  "money_of L v rounding = normalized L v rounding"

definition fraction_of :: "fp_format \<Rightarrow> fp \<Rightarrow> rounding \<Rightarrow> fraction option" where
  "fraction_of L v rounding = normalized L v rounding"

definition toDouble :: "'tag fvalue \<Rightarrow> fp" where
  "toDouble v = fp_div binary64 (fp_of_int binary64 (units v)) (fp_of_int binary64 SCALE_FACTOR)"

subsection \<open>Decimal64\<close>

text \<open>The loop computing the factor with its overflow check.\<close>

fun decimal_factor :: "nat \<Rightarrow> i64 \<Rightarrow> i64 option" where
  "decimal_factor 0 factor = Some factor"
| "decimal_factor (Suc n) factor =
     (if factor > cdiv INT64_MAX 10 then None else decimal_factor n (factor * 10))"

fun rounding_of :: "decimal_rounding \<Rightarrow> rounding" where
  "rounding_of D_TowardZero = TowardZero"
| "rounding_of D_RejectUnaligned = RejectUnaligned"
| "rounding_of D_NearestTiesAwayFromZero = NearestTiesAwayFromZero"

definition decimal_fromDouble ::
  "fp_format \<Rightarrow> fp \<Rightarrow> u8 \<Rightarrow> decimal_rounding \<Rightarrow> decimal64 option" where
  "decimal_fromDouble L v scale rounding =
     (if \<not> fp_isfinite v \<or> scale > MAX_SCALE then None
      else case decimal_factor (unat scale) 1 of
        None \<Rightarrow> None
      | Some factor \<Rightarrow>
          let scaled = fp_mul L (fp_cast L v) (fp_of_int L factor);
              minValue = fp_of_int L INT64_MIN;
              maxValue = fp_of_int L INT64_MAX
          in if fp_less scaled minValue \<or> fp_less maxValue scaled then None
             else case rounded_long L (rounding_of rounding) scaled of
               None \<Rightarrow> None
             | Some rounded \<Rightarrow>
                 if fp_less rounded minValue \<or> fp_less maxValue rounded then None
                 else Some (decimal (fp_to_int rounded) scale))"

text \<open>The loop multiplying a \<open>double\<close> by ten.\<close>

fun double_factor :: "nat \<Rightarrow> fp \<Rightarrow> fp" where
  "double_factor 0 factor = factor"
| "double_factor (Suc n) factor = double_factor n (fp_mul binary64 factor (fp_of_int binary64 10))"

definition decimal_toDouble :: "decimal64 \<Rightarrow> fp" where
  "decimal_toDouble d =
     fp_div binary64 (fp_of_int binary64 (dec_units d))
       (double_factor (unat (dec_scale d)) (fp_of_int binary64 1))"

end
