(* ===== verification/FloatProps.thy ===== *)
theory FloatProps
  imports Floats
begin

text \<open>
  Rounding: monotone, odd, exact on the numbers of the format, with the usual relative error.
\<close>

subsection \<open>Exponents\<close>

lemma powi_le_iff: "2 powi i \<le> (2 powi j :: rat) \<longleftrightarrow> i \<le> j"
  using power_int_increasing [of i j "2 :: rat"] power_int_strict_increasing [of j i "2 :: rat"]
  by (cases "i \<le> j") auto

lemma powi_less_iff: "2 powi i < (2 powi j :: rat) \<longleftrightarrow> i < j"
  using powi_le_iff [of j i] by (simp add: not_le [symmetric])

lemma powi_pos [simp]: "0 < (2 powi i :: rat)"
  by (rule zero_less_power_int) simp

lemma powi_nz [simp]: "(2 powi i :: rat) \<noteq> 0"
  using powi_pos [of i] by simp

lemma powi_add: "(2 :: rat) powi (i + j) = 2 powi i * 2 powi j"
  by (rule power_int_add) simp

lemma powi_diff: "(2 :: rat) powi (i - j) = 2 powi i / 2 powi j"
  by (rule power_int_diff) simp

lemma powi_nat: "(2 :: rat) powi int n = of_int (2 ^ n)"
  by simp

lemma bitlen_bounds_rat:
  assumes "0 < a"
  shows "2 powi (bitlen a - 1) \<le> (rat_of_int a)" and "rat_of_int a < 2 powi (bitlen a)"
proof -
  from bitlen_bounds [OF assms] have b: "2 ^ nat (bitlen a - 1) \<le> a" "a < 2 ^ nat (bitlen a)" by auto
  have pos: "0 < bitlen a"
    using assms bitlen_nonneg [of a] bitlen_eq_zero_iff [of a] by linarith
  then have "(2 :: rat) powi (bitlen a - 1) = of_int (2 ^ nat (bitlen a - 1))"
    "(2 :: rat) powi (bitlen a) = of_int (2 ^ nat (bitlen a))"
    by (simp_all add: power_int_def)
  with b show "2 powi (bitlen a - 1) \<le> (rat_of_int a)" "rat_of_int a < 2 powi (bitlen a)"
    by (simp_all only: of_int_le_iff of_int_less_iff)
qed

lemma ilog2_bounds:
  assumes "0 < x"
  shows "2 powi ilog2 x \<le> x" and "x < 2 powi (ilog2 x + 1)"
proof -
  obtain a b where q: "quotient_of x = (a, b)" by fastforce
  have b: "0 < b" using q by (rule quotient_of_denom_pos)
  have x: "x = of_int a / of_int b" using q by (rule quotient_of_div)
  have a: "0 < a" using assms b by (simp add: x zero_less_divide_iff)
  let ?k = "bitlen a - bitlen b"
  note ba = bitlen_bounds_rat [OF a] and bb = bitlen_bounds_rat [OF b]
  have "2 powi (?k - 1) * of_int b \<le> 2 powi (?k - 1) * (2 powi (bitlen b) :: rat)"
    using bb(2) by (intro mult_left_mono) simp_all
  also have "\<dots> = 2 powi (bitlen a - 1)" by (simp add: powi_add [symmetric])
  finally have lo: "2 powi (?k - 1) \<le> x"
    using ba(1) b by (simp add: x pos_le_divide_eq order_trans)
  have "2 powi (bitlen a) = 2 powi (?k + 1) * (2 powi (bitlen b - 1) :: rat)"
    by (simp add: powi_add [symmetric])
  also have "\<dots> \<le> 2 powi (?k + 1) * of_int b"
    using bb(1) by (intro mult_left_mono) simp_all
  finally have hi: "x < 2 powi (?k + 1)"
    using ba(2) b by (simp add: x pos_divide_less_eq)
  show "2 powi ilog2 x \<le> x" "x < 2 powi (ilog2 x + 1)"
    using lo hi by (auto simp: ilog2_def q Let_def)
qed

lemma ilog2_le_iff: "0 < x \<Longrightarrow> k \<le> ilog2 x \<longleftrightarrow> 2 powi k \<le> x"
proof
  assume "0 < x" and "k \<le> ilog2 x"
  then show "2 powi k \<le> x"
    using ilog2_bounds(1) [of x] powi_le_iff [of k "ilog2 x"] by linarith
next
  assume x: "0 < x" and "2 powi k \<le> x"
  then have "2 powi k < (2 powi (ilog2 x + 1) :: rat)"
    using ilog2_bounds(2) [OF x] by linarith
  then show "k \<le> ilog2 x" by (simp add: powi_less_iff)
qed

lemma ilog2_mono: "0 < x \<Longrightarrow> x \<le> y \<Longrightarrow> ilog2 x \<le> ilog2 y"
  using ilog2_le_iff [of y "ilog2 x"] ilog2_bounds(1) [of x] by linarith

subsection \<open>Rounding to an integer\<close>

lemma round_half_even_of_int [simp]: "round_half_even (of_int n) = n"
  by (simp add: round_half_even_def)

lemma round_half_even_error: "\<bar>of_int (round_half_even x) - x\<bar> \<le> 1 / 2"
  using floor_correct [of x] unfolding round_half_even_def Let_def by (auto simp: abs_if) (linarith | simp)+

lemma round_half_even_mono:
  assumes "x \<le> y"
  shows "round_half_even x \<le> round_half_even y"
proof (cases "\<lfloor>x\<rfloor> = \<lfloor>y\<rfloor>")
  case True
  with assms show ?thesis by (auto simp: round_half_even_def Let_def)
next
  case False
  then have "\<lfloor>x\<rfloor> + 1 \<le> \<lfloor>y\<rfloor>" using floor_mono [OF assms] by simp
  moreover have "round_half_even x \<le> \<lfloor>x\<rfloor> + 1" "\<lfloor>y\<rfloor> \<le> round_half_even y"
    by (auto simp: round_half_even_def Let_def)
  ultimately show ?thesis by simp
qed

lemma round_half_even_neg: "round_half_even (- x) = - round_half_even x"
proof (cases "x \<in> \<int>")
  case True
  then show ?thesis by (auto elim!: Ints_cases simp flip: of_int_minus)
next
  case False
  then have "\<lfloor>- x\<rfloor> = - \<lfloor>x\<rfloor> - 1"
    by (metis Ints_of_int ceiling_def ceiling_altdef add_diff_cancel_right' minus_diff_eq minus_minus uminus_add_conv_diff diff_minus_eq_add)
  then show ?thesis by (auto simp: round_half_even_def Let_def)
qed

lemma round_half_even_ge: "of_int n \<le> x \<Longrightarrow> n \<le> round_half_even x"
  using round_half_even_mono [of "of_int n" x] by simp

lemma round_half_even_le: "x \<le> of_int n \<Longrightarrow> round_half_even x \<le> n"
  using round_half_even_mono [of x "of_int n"] by simp

subsection \<open>Evaluation by integer arithmetic\<close>

lemma powi_le_fraction:
  assumes "0 < b"
  shows "2 powi k \<le> (of_int a / of_int b :: rat) \<longleftrightarrow>
    (if 0 \<le> k then 2 ^ nat k * b \<le> a else b \<le> a * 2 ^ nat (- k))"
proof (cases "0 \<le> k")
  case True
  then have "2 powi k = rat_of_int (2 ^ nat k)" by (simp add: power_int_def)
  then have "2 powi k \<le> (of_int a / of_int b :: rat) \<longleftrightarrow> rat_of_int (2 ^ nat k * b) \<le> of_int a"
    using assms by (simp add: pos_le_divide_eq)
  also have "\<dots> \<longleftrightarrow> 2 ^ nat k * b \<le> a" by (simp only: of_int_le_iff)
  finally show ?thesis using True by simp
next
  case False
  then have "2 powi k = 1 / rat_of_int (2 ^ nat (- k))" by (simp add: power_int_def power_one_over)
  then have "2 powi k \<le> (of_int a / of_int b :: rat) \<longleftrightarrow>
      1 / rat_of_int (2 ^ nat (- k)) \<le> of_int a / of_int b" by (simp only:)
  also have "\<dots> \<longleftrightarrow> rat_of_int b \<le> of_int (a * 2 ^ nat (- k))"
    using assms by (simp add: pos_le_divide_eq pos_divide_le_eq mult.commute)
  also have "\<dots> \<longleftrightarrow> b \<le> a * 2 ^ nat (- k)" by (simp only: of_int_le_iff)
  finally show ?thesis using False by simp
qed

lemma ilog2_code [code]:
  "ilog2 x = (case quotient_of x of (a, b) \<Rightarrow>
     let k = bitlen a - bitlen b
     in if (if 0 \<le> k then 2 ^ nat k * b \<le> a else b \<le> a * 2 ^ nat (- k)) then k else k - 1)"
proof -
  obtain a b where q: "quotient_of x = (a, b)" by fastforce
  show ?thesis
    unfolding ilog2_def q prod.case Let_def
      powi_le_fraction [OF quotient_of_denom_pos [OF q], of _ a, folded quotient_of_div [OF q]] ..
qed

definition round_quotient :: "int \<Rightarrow> int \<Rightarrow> int" where
  "round_quotient n d = (let f = n div d; r = 2 * (n mod d)
     in if r < d then f else if d < r then f + 1 else if even f then f else f + 1)"

lemma round_quotient_eq:
  assumes "0 < d"
  shows "round_half_even (of_int n / of_int d) = round_quotient n d"
proof -
  have f: "\<lfloor>rat_of_int n / of_int d\<rfloor> = n div d" by (rule floor_divide_of_int_eq)
  have "rat_of_int n = of_int (n div d) * of_int d + of_int (n mod d)"
    by (metis div_mult_mod_eq of_int_add of_int_mult)
  then have "rat_of_int n / of_int d - of_int (n div d) = of_int (n mod d) / of_int d"
    using assms by (simp add: add_divide_distrib)
  moreover have "rat_of_int (n mod d) / of_int d < 1 / 2 \<longleftrightarrow> 2 * (n mod d) < d"
    "1 / 2 < rat_of_int (n mod d) / of_int d \<longleftrightarrow> d < 2 * (n mod d)"
  proof -
    have "rat_of_int (n mod d) / of_int d < 1 / 2 \<longleftrightarrow> rat_of_int (2 * (n mod d)) < of_int d"
      "1 / 2 < rat_of_int (n mod d) / of_int d \<longleftrightarrow> rat_of_int d < of_int (2 * (n mod d))"
      using assms by (simp_all add: pos_divide_less_eq pos_less_divide_eq mult.commute)
    then show "rat_of_int (n mod d) / of_int d < 1 / 2 \<longleftrightarrow> 2 * (n mod d) < d"
      "1 / 2 < rat_of_int (n mod d) / of_int d \<longleftrightarrow> d < 2 * (n mod d)"
      by (simp_all only: of_int_less_iff)
  qed
  ultimately show ?thesis
    unfolding round_half_even_def round_quotient_def Let_def f by simp
qed

lemma fl_rat_code [code]:
  "fl_rat F x = (case quotient_of x of (a, b) \<Rightarrow>
     if a = 0 then 0
     else let q = ulp_exponent F x
          in if 0 \<le> q then of_int (round_quotient a (b * 2 ^ nat q) * 2 ^ nat q)
             else of_int (round_quotient (a * 2 ^ nat (- q)) b) / of_int (2 ^ nat (- q)))"
proof -
  obtain a b where q: "quotient_of x = (a, b)" by fastforce
  note b = quotient_of_denom_pos [OF q] and x = quotient_of_div [OF q]
  have z: "x = 0 \<longleftrightarrow> a = 0" using b by (simp add: x)
  let ?q = "ulp_exponent F x"
  show ?thesis
  proof (cases "0 \<le> ?q")
    case True
    then have p: "2 powi ?q = rat_of_int (2 ^ nat ?q)" by (simp add: power_int_def)
    have "x / 2 powi ?q = of_int a / of_int (b * 2 ^ nat ?q)" unfolding p by (simp add: x)
    then have "round_half_even (x / 2 powi ?q) = round_quotient a (b * 2 ^ nat ?q)"
      using b round_quotient_eq [of "b * 2 ^ nat ?q" a] by simp
    with True z show ?thesis by (simp add: fl_rat_def q p)
  next
    case False
    then have p: "2 powi ?q = 1 / rat_of_int (2 ^ nat (- ?q))" by (simp add: power_int_def power_one_over)
    have "x / 2 powi ?q = of_int (a * 2 ^ nat (- ?q)) / of_int b" unfolding p by (simp add: x)
    then have "round_half_even (x / 2 powi ?q) = round_quotient (a * 2 ^ nat (- ?q)) b"
      using b round_quotient_eq [of b "a * 2 ^ nat (- ?q)"] by simp
    with False z show ?thesis by (simp add: fl_rat_def q p)
  qed
qed

subsection \<open>Rounding to the format\<close>

lemma ulp_exponent_mono: "0 < x \<Longrightarrow> x \<le> y \<Longrightarrow> ulp_exponent F x \<le> ulp_exponent F y"
  using ilog2_mono [of x y] by (auto simp: ulp_exponent_def)

lemma fl_rat_neg [simp]: "fl_rat F (- x) = - fl_rat F x"
  by (simp add: fl_rat_def Let_def ulp_exponent_def round_half_even_neg)

lemma fl_rat_0 [simp]: "fl_rat F 0 = 0"
  by (simp add: fl_rat_def)

text \<open>Scaled to its unit in the last place, a number has at most the precision of the format.\<close>

lemma scaled_bounds:
  assumes "0 < x" and "0 < fmt_prec F"
  shows "x / 2 powi ulp_exponent F x \<le> of_int (2 ^ fmt_prec F)"
    and "1 - fmt_emax F \<le> ilog2 x \<Longrightarrow>
           of_int (2 ^ (fmt_prec F - 1)) \<le> x / 2 powi ulp_exponent F x"
proof -
  let ?q = "ulp_exponent F x" and ?p = "fmt_prec F"
  have "ilog2 x + 1 \<le> ?q + int ?p" using assms(1) by (simp add: ulp_exponent_def)
  then have "2 powi (ilog2 x + 1) \<le> (2 powi (?q + int ?p) :: rat)" by (simp only: powi_le_iff)
  then have "x \<le> 2 powi (?q + int ?p)" using ilog2_bounds(2) [OF assms(1)] by linarith
  then show "x / 2 powi ?q \<le> of_int (2 ^ ?p)"
    by (simp only: powi_add powi_nat pos_divide_le_eq powi_pos mult.commute)
  assume "1 - fmt_emax F \<le> ilog2 x"
  then have "?q + int (?p - 1) = ilog2 x" using assms by (simp add: ulp_exponent_def)
  then have "2 powi (?q + int (?p - 1)) \<le> x" using ilog2_bounds(1) [OF assms(1)] by simp
  then show "of_int (2 ^ (?p - 1)) \<le> x / 2 powi ?q"
    by (simp only: powi_add powi_nat pos_le_divide_eq powi_pos mult.commute)
qed

lemma fl_rat_pos_mono:
  assumes "0 < x" and "x \<le> y" and p: "0 < fmt_prec F"
  shows "fl_rat F x \<le> fl_rat F y"
proof -
  let ?qx = "ulp_exponent F x" and ?qy = "ulp_exponent F y" and ?p = "fmt_prec F"
  have y: "0 < y" using assms by simp
  have fx: "fl_rat F x = of_int (round_half_even (x / 2 powi ?qx)) * 2 powi ?qx"
    and fy: "fl_rat F y = of_int (round_half_even (y / 2 powi ?qy)) * 2 powi ?qy"
    using assms(1) y by (simp_all add: fl_rat_def Let_def)
  have q: "?qx \<le> ?qy" by (rule ulp_exponent_mono [OF assms(1,2)])
  show ?thesis
  proof (cases "?qx = ?qy")
    case True
    then have "round_half_even (x / 2 powi ?qx) \<le> round_half_even (y / 2 powi ?qy)"
      using assms(2) by (intro round_half_even_mono) (simp add: divide_right_mono)
    then show ?thesis unfolding fx fy True by (simp add: mult_right_mono)
  next
    case False
    with q have "ulp_exponent F x < ulp_exponent F y" by simp
    then have e: "1 - fmt_emax F \<le> ilog2 y" and le: "?qx + int ?p \<le> ilog2 y"
      using assms(1) y by (auto simp: ulp_exponent_def)
    have "fl_rat F x \<le> of_int (2 ^ ?p) * 2 powi ?qx"
      unfolding fx using round_half_even_le [OF scaled_bounds(1) [OF assms(1) p]]
      by (intro mult_right_mono) (simp_all only: of_int_le_iff, simp)
    also have "\<dots> = 2 powi (?qx + int ?p)" by (simp only: powi_add powi_nat mult.commute)
    also have "\<dots> \<le> 2 powi ilog2 y" using le by (simp only: powi_le_iff)
    also have "\<dots> = of_int (2 ^ (?p - 1)) * 2 powi ?qy"
    proof -
      have "ilog2 y = ?qy + int (?p - 1)" using e p y by (simp add: ulp_exponent_def)
      then show ?thesis by (simp only: powi_add powi_nat mult.commute)
    qed
    also have "\<dots> \<le> fl_rat F y"
      unfolding fy using round_half_even_ge [OF scaled_bounds(2) [OF y p e]]
      by (intro mult_right_mono) (simp_all only: of_int_le_iff, simp)
    finally show ?thesis .
  qed
qed

lemma fl_rat_nonneg: "0 \<le> x \<Longrightarrow> 0 \<le> fl_rat F x"
  using round_half_even_ge [of 0] by (simp add: fl_rat_def Let_def)

lemma fl_rat_mono:
  assumes "x \<le> y" and p: "0 < fmt_prec F"
  shows "fl_rat F x \<le> fl_rat F y"
proof -
  consider "0 < x" | "x \<le> 0" "0 \<le> y" | "y < 0" using assms(1) by linarith
  then show ?thesis
  proof cases
    case 1
    then show ?thesis using fl_rat_pos_mono assms by blast
  next
    case 2
    then show ?thesis using fl_rat_nonneg [of y F] fl_rat_nonneg [of "- x" F] by simp
  next
    case 3
    then have "fl_rat F (- y) \<le> fl_rat F (- x)" using assms by (intro fl_rat_pos_mono) simp_all
    then show ?thesis by simp
  qed
qed

text \<open>The numbers of the format (with an unbounded exponent) are not changed.\<close>

definition representable :: "fp_format \<Rightarrow> rat \<Rightarrow> bool" where
  "representable F x \<longleftrightarrow> (\<exists>m k. x = of_int m * 2 powi k \<and> \<bar>m\<bar> \<le> 2 ^ fmt_prec F
     \<and> 2 - fmt_emax F - int (fmt_prec F) \<le> k)"

lemma representable_uminus:
  assumes "representable F x"
  shows "representable F (- x)"
proof -
  from assms obtain m k where "x = of_int m * 2 powi k" "\<bar>m\<bar> \<le> 2 ^ fmt_prec F"
      "2 - fmt_emax F - int (fmt_prec F) \<le> k"
    unfolding representable_def by blast
  then show ?thesis unfolding representable_def
    by (intro exI [of _ "- m"] exI [of _ k]) simp
qed

lemma representable_int:
  "\<bar>n\<bar> \<le> 2 ^ fmt_prec F \<Longrightarrow> 2 \<le> fmt_emax F + int (fmt_prec F) \<Longrightarrow> representable F (of_int n)"
  unfolding representable_def by (intro exI [of _ n] exI [of _ 0]) simp

lemma fl_rat_exact:
  assumes "representable F x" and p: "0 < fmt_prec F"
  shows "fl_rat F x = x"
proof -
  have pos: "fl_rat F x = x" if "0 < x" and "representable F x" for x
  proof -
    let ?q = "ulp_exponent F x" and ?p = "fmt_prec F"
    obtain m k where x: "x = of_int m * 2 powi k" and m: "\<bar>m\<bar> \<le> 2 ^ ?p"
      and k: "2 - fmt_emax F - int ?p \<le> k"
      using \<open>representable F x\<close> unfolding representable_def by blast
    have "of_int m \<le> (of_int (2 ^ ?p) :: rat)" using m by (simp only: of_int_le_iff abs_le_iff)
    then have "x \<le> of_int (2 ^ ?p) * 2 powi k" unfolding x by (intro mult_right_mono) simp_all
    also have "\<dots> = 2 powi (int ?p + k)" by (simp only: powi_add powi_nat)
    finally have le: "x \<le> 2 powi (int ?p + k)" .
    have "x / 2 powi ?q \<in> \<int>"
    proof (cases "?q \<le> k")
      case True
      have "x / 2 powi ?q = of_int m * 2 powi (k - ?q)" by (simp add: x powi_diff)
      also have "\<dots> = of_int (m * 2 ^ nat (k - ?q))" using True by (simp add: power_int_def)
      finally show ?thesis by (simp only: Ints_of_int)
    next
      case False
      with k have e: "1 - fmt_emax F \<le> ilog2 x" and q: "ilog2 x = ?q + int ?p - 1"
        using \<open>0 < x\<close> by (auto simp: ulp_exponent_def max_def split: if_splits)
      have "2 powi ilog2 x \<le> (2 powi (int ?p + k) :: rat)"
        using le ilog2_bounds(1) [OF \<open>0 < x\<close>] by linarith
      then have "?q = k + 1" using False q by (simp add: powi_le_iff)
      then have "x = 2 powi (int ?p + k)"
        using le ilog2_bounds(1) [OF \<open>0 < x\<close>] q by (simp add: algebra_simps)
      then have "x / 2 powi ?q = 2 powi (int ?p - 1)"
        using \<open>?q = k + 1\<close> by (simp add: powi_diff [symmetric])
      also have "\<dots> = of_int (2 ^ (?p - 1))" using p by (simp add: power_int_def nat_diff_distrib)
      finally show ?thesis by (simp only: Ints_of_int)
    qed
    then obtain n where n: "x / 2 powi ?q = of_int n" by (auto elim: Ints_cases)
    then have "of_int n * 2 powi ?q = x" by (simp add: nonzero_divide_eq_eq)
    then show ?thesis using \<open>0 < x\<close> n by (simp add: fl_rat_def Let_def)
  qed
  consider "x = 0" | "0 < x" | "0 < - x" by linarith
  then show ?thesis
  proof cases
    case 3
    from pos [OF 3 representable_uminus [OF assms(1)]] show ?thesis by simp
  qed (use pos assms(1) in auto)
qed

text \<open>The rounding error is at most half a unit in the last place.\<close>

lemma fl_rat_error: "\<bar>fl_rat F x - x\<bar> \<le> 2 powi ulp_exponent F x / 2"
proof (cases "x = 0")
  case False
  let ?q = "ulp_exponent F x"
  have "fl_rat F x - x = (of_int (round_half_even (x / 2 powi ?q)) - x / 2 powi ?q) * 2 powi ?q"
    using False by (simp add: fl_rat_def Let_def left_diff_distrib)
  then have "\<bar>fl_rat F x - x\<bar> = \<bar>of_int (round_half_even (x / 2 powi ?q)) - x / 2 powi ?q\<bar> * 2 powi ?q"
    by (simp only: abs_mult abs_of_pos [OF powi_pos])
  also have "\<dots> \<le> 1 / 2 * 2 powi ?q" using round_half_even_error by (intro mult_right_mono) simp_all
  finally show ?thesis by simp
qed simp

lemma fl_rat_relative_error:
  assumes "2 powi (1 - fmt_emax F) \<le> \<bar>x\<bar>"
  shows "\<bar>fl_rat F x - x\<bar> \<le> \<bar>x\<bar> / of_int (2 ^ fmt_prec F)"
proof -
  have x: "0 < \<bar>x\<bar>" using assms powi_pos [of "1 - fmt_emax F"] by linarith
  then have "ulp_exponent F x = ilog2 \<bar>x\<bar> - int (fmt_prec F) + 1"
    using assms ilog2_le_iff [OF x] by (simp add: ulp_exponent_def)
  then have "2 powi ulp_exponent F x / 2 = (2 powi ilog2 \<bar>x\<bar> / of_int (2 ^ fmt_prec F) :: rat)"
    by (simp only: powi_add powi_diff powi_nat) simp
  also have "\<dots> \<le> \<bar>x\<bar> / of_int (2 ^ fmt_prec F)"
    using ilog2_bounds(1) [OF x] by (intro divide_right_mono) simp_all
  finally show ?thesis using fl_rat_error [of F x] by linarith
qed

subsection \<open>Formats at least as good as binary64\<close>

definition fmt_ok :: "fp_format \<Rightarrow> bool" where
  "fmt_ok F \<longleftrightarrow> 53 \<le> fmt_prec F \<and> 1023 \<le> fmt_emax F"

lemma fmt_ok_formats [simp]: "fmt_ok binary64" "fmt_ok x87_extended"
  by (simp_all add: fmt_ok_def binary64_def x87_extended_def)

lemma fmt_ok_prec: "fmt_ok F \<Longrightarrow> 0 < fmt_prec F"
  by (simp add: fmt_ok_def)

lemma representable_powi:
  "2 - fmt_emax F - int (fmt_prec F) \<le> k \<Longrightarrow> representable F (2 powi k)"
  unfolding representable_def by (intro exI [of _ 1] exI [of _ k]) simp

lemma representable_small_int:
  assumes "fmt_ok F" and "\<bar>n\<bar> \<le> 2 ^ 53"
  shows "representable F (of_int n)"
proof (rule representable_int)
  have "(2 :: int) ^ 53 \<le> 2 ^ fmt_prec F" using assms(1) by (intro power_increasing) (simp_all add: fmt_ok_def)
  with assms(2) show "\<bar>n\<bar> \<le> 2 ^ fmt_prec F" by linarith
qed (use assms(1) in \<open>simp add: fmt_ok_def\<close>)

lemma fp_round_finite:
  assumes "fmt_ok F" and "\<bar>x\<bar> \<le> 2 powi 1000"
  shows "fp_round F x = Fin (fl_rat F x)"
proof -
  note p = fmt_ok_prec [OF assms(1)]
  have r: "fl_rat F (2 powi 1000) = 2 powi 1000"
    using assms(1) by (intro fl_rat_exact representable_powi p) (simp add: fmt_ok_def)
  have "fl_rat F \<bar>x\<bar> \<le> 2 powi 1000" using fl_rat_mono [OF assms(2) p] r by simp
  moreover have "\<bar>fl_rat F x\<bar> = fl_rat F \<bar>x\<bar>"
    using fl_rat_nonneg [of x F] fl_rat_nonneg [of "- x" F] by (cases "0 \<le> x") simp_all
  ultimately have le: "\<bar>fl_rat F x\<bar> \<le> 2 powi 1000" by simp
  have "\<not> fp_overflows F (fl_rat F x)"
  proof (cases "fl_rat F x = 0")
    case False
    then have "2 powi ilog2 \<bar>fl_rat F x\<bar> \<le> (2 powi 1000 :: rat)"
      using le ilog2_bounds(1) [of "\<bar>fl_rat F x\<bar>"] by simp
    then have "ilog2 \<bar>fl_rat F x\<bar> \<le> 1000" by (simp only: powi_le_iff)
    then show ?thesis using assms(1) by (simp add: fp_overflows_def fmt_ok_def)
  qed (simp add: fp_overflows_def)
  then show ?thesis by (simp add: fp_round_def Let_def)
qed

lemma fp_of_int_small:
  assumes "fmt_ok F" and "\<bar>n\<bar> \<le> 2 ^ 53"
  shows "fp_of_int F n = Fin (of_int n)"
proof -
  have "\<bar>rat_of_int n\<bar> \<le> of_int (2 ^ 53)" using assms(2) by (metis of_int_abs of_int_le_iff)
  also have "\<dots> \<le> 2 powi 1000" by (subst powi_nat [symmetric], subst powi_le_iff) simp
  finally have "fp_round F (of_int n) = Fin (fl_rat F (of_int n))" by (rule fp_round_finite [OF assms(1)])
  then show ?thesis
    by (simp add: fp_of_int_def fl_rat_exact [OF representable_small_int [OF assms] fmt_ok_prec [OF assms(1)]])
qed

text \<open>A number of the narrow format is a number of every format that is at least as good.\<close>

lemma representable_fl_rat:
  assumes p: "0 < fmt_prec F"
  shows "representable F (fl_rat F x)"
proof -
  have pos: "representable F (fl_rat F x)" if "0 < x" for x
  proof -
    let ?q = "ulp_exponent F x"
    have "round_half_even (x / 2 powi ?q) \<le> 2 ^ fmt_prec F"
      by (rule round_half_even_le [OF scaled_bounds(1) [OF that p]])
    moreover have "0 \<le> round_half_even (x / 2 powi ?q)"
      using that by (intro round_half_even_ge) simp
    moreover have "2 - fmt_emax F - int (fmt_prec F) \<le> ?q" by (simp add: ulp_exponent_def)
    ultimately show ?thesis
      using that unfolding representable_def
      by (intro exI [of _ "round_half_even (x / 2 powi ?q)"] exI [of _ ?q]) (simp add: fl_rat_def Let_def)
  qed
  consider "x = 0" | "0 < x" | "0 < - x" by linarith
  then show ?thesis
  proof cases
    case 1
    then show ?thesis unfolding representable_def
      by (intro exI [of _ 0] exI [of _ "2 - fmt_emax F - int (fmt_prec F)"]) simp
  next
    case 3
    have "representable F (- fl_rat F x)" using pos [OF 3] by simp
    from representable_uminus [OF this] show ?thesis by simp
  qed (rule pos)
qed

lemma representable_binary64:
  assumes "representable binary64 x" and "fmt_ok F"
  shows "representable F x"
proof -
  have "(2 :: int) ^ 53 \<le> 2 ^ fmt_prec F"
    using assms(2) by (intro power_increasing) (simp_all add: fmt_ok_def)
  with assms show ?thesis
    by (force simp: representable_def binary64_def fmt_ok_def)
qed

lemma fl_rat_idem: "fmt_ok F \<Longrightarrow> fl_rat F (fl_rat F x) = fl_rat F x"
  using fl_rat_exact representable_fl_rat fmt_ok_prec by blast

lemma fl_rat_abs: "\<bar>fl_rat F x\<bar> = fl_rat F \<bar>x\<bar>"
  using fl_rat_nonneg [of x F] fl_rat_nonneg [of "- x" F] by (cases "0 \<le> x") simp_all

lemma fl_rat_pos_iff:
  assumes "fmt_ok F" and "2 powi - 1000 \<le> \<bar>x\<bar> \<or> x = 0"
  shows "0 < fl_rat F x \<longleftrightarrow> 0 < x"
proof (cases "0 < x")
  case True
  with assms(2) have "2 powi - 1000 \<le> x" by simp
  from fl_rat_mono [OF this fmt_ok_prec [OF assms(1)]]
  have "fl_rat F (2 powi - 1000) \<le> fl_rat F x" .
  moreover have "fl_rat F (2 powi - 1000) = 2 powi - 1000"
    using assms(1) by (intro fl_rat_exact representable_powi fmt_ok_prec) (simp_all add: fmt_ok_def)
  ultimately have "0 < fl_rat F x" using powi_pos [of "- 1000"] by linarith
  with True show ?thesis by simp
next
  case False
  then have "0 \<le> fl_rat F (- x)" by (intro fl_rat_nonneg) simp
  with False show ?thesis by simp
qed

text \<open>Comparison of finite numbers.\<close>

lemma fp_le_Fin [simp]: "fp_le (Fin x) (Fin y) \<longleftrightarrow> x \<le> y"
  by (auto simp: fp_le_def)

lemma fp_round_not_NaN [simp]: "fp_round F x \<noteq> NaN"
  by (simp add: fp_round_def Let_def)

end
