(* ===== verification/ConversionProps.thy ===== *)
theory ConversionProps
  imports Conversions FloatProps
begin

text \<open>
  Amounts survive the way through \<open>double\<close>: below 2^51 units the conversion to \<open>double\<close> and back
  gives the same amount, whatever the format of \<open>long double\<close>; above, and with truncation even for
  small amounts, it can silently give another one.
\<close>

subsection \<open>Roundings of rationals\<close>

lemma round_half_away_near:
  assumes "\<bar>s - of_int u\<bar> < 1 / 2"
  shows "round_half_away s = u"
proof (cases "s < 0")
  case True
  have "rat_of_int (- u) \<le> - s + 1 / 2 \<and> - s + 1 / 2 < rat_of_int (- u) + 1"
    using assms unfolding of_int_minus abs_less_iff by linarith
  then have "\<lfloor>- s + 1 / 2\<rfloor> = - u" by (intro floor_unique) simp_all
  with True show ?thesis by (simp add: round_half_away_def)
next
  case False
  then have "\<lfloor>s + 1 / 2\<rfloor> = u" using assms by (intro floor_unique) linarith+
  with False show ?thesis by (simp add: round_half_away_def)
qed

lemma trunc_rat_of_int [simp]: "trunc_rat (of_int u) = u"
  by (simp add: trunc_rat_def)

lemma round_half_away_of_int [simp]: "round_half_away (of_int u) = u"
  by (rule round_half_away_near) simp

subsection \<open>There and back\<close>

text \<open>A normal number is at most changed by one part in 2^53.\<close>

lemma fl_rat_near:
  assumes F: "fmt_ok F" and "1 / 2 ^ 200 \<le> \<bar>x\<bar>"
  shows "\<bar>fl_rat F x - x\<bar> \<le> \<bar>x\<bar> / 2 ^ 53"
proof -
  have "2 powi (1 - fmt_emax F) \<le> (2 powi - 200 :: rat)"
    using F unfolding powi_le_iff fmt_ok_def by linarith
  also have "\<dots> = 1 / 2 ^ 200" by (simp add: power_int_def power_one_over)
  finally have "\<bar>fl_rat F x - x\<bar> \<le> \<bar>x\<bar> / of_int (2 ^ fmt_prec F)"
    using assms(2) by (intro fl_rat_relative_error) linarith
  also have "(2 :: rat) ^ 53 \<le> 2 ^ fmt_prec F"
    using F by (intro power_increasing) (simp_all only: fmt_ok_def one_le_numeral)
  then have "\<bar>x\<bar> / of_int (2 ^ fmt_prec F) \<le> \<bar>x\<bar> / 2 ^ 53"
    by (intro divide_left_mono) simp_all
  finally show ?thesis .
qed

lemma scaled_near:
  assumes L: "fmt_ok L" and f: "0 < f" "f \<le> 10 ^ 12" and u: "u \<noteq> 0" "\<bar>u\<bar> < 2 ^ 51"
    and v: "v = fl_rat binary64 (of_int u / of_int f)" and s: "s = fl_rat L (v * of_int f)"
  shows "\<bar>s - of_int u\<bar> \<le> of_int \<bar>u\<bar> * (1 / 2 ^ 52 + 1 / 2 ^ 106)"
proof -
  let ?u = "rat_of_int \<bar>u\<bar>" and ?f = "rat_of_int f" and ?t = "v * rat_of_int f"
  have "1 \<le> \<bar>u\<bar>" using u(1) by linarith
  then have u1: "1 \<le> ?u" by (simp only: of_int_1_le_iff)
  have f1: "0 < ?f" "?f \<le> 10 ^ 12"
    using f by simp (metis f(2) of_int_le_iff of_int_numeral of_int_power)
  have "1 / 10 ^ 12 \<le> ?u / ?f"
    using u1 f1 by (intro frac_le) simp_all
  moreover have "(1 :: rat) / 2 ^ 200 \<le> 1 / 10 ^ 12" by simp
  ultimately have "1 / 2 ^ 200 \<le> \<bar>of_int u / ?f\<bar>" using f1(1) by (simp add: abs_divide)
  from fl_rat_near [OF fmt_ok_formats(1) this]
  have "\<bar>v - of_int u / ?f\<bar> \<le> ?u / ?f / 2 ^ 53" using f1(1) by (simp add: v abs_divide)
  then have "\<bar>v - of_int u / ?f\<bar> * ?f \<le> ?u / ?f / 2 ^ 53 * ?f" using f1(1) by (intro mult_right_mono) simp_all
  moreover have "\<bar>v - of_int u / ?f\<bar> * ?f = \<bar>(v - of_int u / ?f) * ?f\<bar>"
    unfolding abs_mult using f1(1) by simp
  moreover have "(v - of_int u / ?f) * ?f = ?t - of_int u"
    using f1(1) by (simp add: left_diff_distrib)
  ultimately have t: "\<bar>?t - of_int u\<bar> \<le> ?u / 2 ^ 53" using f1(1) by simp
  have tu: "\<bar>?t\<bar> \<le> ?u + ?u / 2 ^ 53" "?u - ?u / 2 ^ 53 \<le> \<bar>?t\<bar>" using t by (simp_all add: abs_if split: if_splits)
  have "1 / 2 ^ 200 \<le> ?u - ?u / 2 ^ 53" using u1 by simp
  then have "1 / 2 ^ 200 \<le> \<bar>?t\<bar>" using tu(2) by linarith
  from fl_rat_near [OF L this] have "\<bar>s - ?t\<bar> \<le> \<bar>?t\<bar> / 2 ^ 53" by (simp add: s)
  moreover have "\<bar>?t\<bar> / 2 ^ 53 \<le> (?u + ?u / 2 ^ 53) / 2 ^ 53"
    using tu(1) by (intro divide_right_mono) simp_all
  ultimately have "\<bar>s - of_int u\<bar> \<le> ?u / 2 ^ 53 + (?u + ?u / 2 ^ 53) / 2 ^ 53"
    using t by linarith
  also have "\<dots> = ?u * (1 / 2 ^ 52 + 1 / 2 ^ 106)" by (simp add: field_simps)
  finally show ?thesis .
qed

text \<open>The final checks of the conversion back.\<close>

lemma tolerance_enough:
  assumes L: "fmt_ok L" and u: "u \<noteq> 0" "\<bar>u\<bar> < 2 ^ 51"
    and s: "\<bar>s - of_int u\<bar> \<le> of_int \<bar>u\<bar> * (1 / 2 ^ 52 + 1 / 2 ^ 106)"
  shows "\<not> fp_less (representation_tolerance L (Fin s)) (fp_abs (fp_sub L (Fin s) (Fin (of_int u))))"
proof -
  let ?u = "rat_of_int \<bar>u\<bar>"
  note p = fmt_ok_prec [OF L]
  have "1 \<le> \<bar>u\<bar>" using u(1) by linarith
  then have u1: "1 \<le> ?u" by (simp only: of_int_1_le_iff)
  have u2: "?u < 2 ^ 51" using u(2) by (metis of_int_less_iff of_int_numeral of_int_power)
  have su: "\<bar>s - of_int u\<bar> \<le> ?u * (1001 / 1000) / 2 ^ 52" using s u1 by simp
  then have s1: "?u * (7 / 8) \<le> \<bar>s\<bar>" "\<bar>s\<bar> \<le> 2 ^ 52" using u1 u2 by (auto simp: abs_if split: if_splits)
  define d where "d = \<bar>fl_rat L (s - of_int u)\<bar>"
  define a where "a = fl_rat L (\<bar>s\<bar> * 2 powi - 52)"
  define b where "b = fl_rat L (a * 2)"
  have d: "d \<le> ?u * (1002 / 1000) / 2 ^ 52"
  proof -
    have x: "1 / 2 ^ 200 \<le> ?u * (1001 / 1000) / 2 ^ 52" using u1 by simp
    have "d \<le> fl_rat L (?u * (1001 / 1000) / 2 ^ 52)"
      unfolding d_def fl_rat_abs by (rule fl_rat_mono [OF su p])
    moreover have "\<bar>fl_rat L (?u * (1001 / 1000) / 2 ^ 52) - ?u * (1001 / 1000) / 2 ^ 52\<bar>
        \<le> ?u * (1001 / 1000) / 2 ^ 52 / 2 ^ 53"
      using fl_rat_near [OF L, of "?u * (1001 / 1000) / 2 ^ 52"] x u1 by simp
    ultimately show ?thesis using u1 by (simp add: abs_if split: if_splits)
  qed
  have small: "(2 :: rat) powi - 52 = 1 / 2 ^ 52" by (simp add: power_int_def power_one_over)
  have a: "?u * (3 / 4) / 2 ^ 52 \<le> a" "a \<le> 2"
  proof -
    have x: "?u * (7 / 8) / 2 ^ 52 \<le> \<bar>s\<bar> * 2 powi - 52" "\<bar>s\<bar> * 2 powi - 52 \<le> 1"
      using s1 unfolding small by simp_all
    moreover have "1 / 2 ^ 200 \<le> ?u * (7 / 8) / 2 ^ 52" using u1 by simp
    ultimately have "1 / 2 ^ 200 \<le> \<bar>\<bar>s\<bar> * 2 powi - 52\<bar>" by linarith
    from fl_rat_near [OF L this] have "\<bar>a - \<bar>s\<bar> * 2 powi - 52\<bar> \<le> \<bar>s\<bar> * 2 powi - 52 / 2 ^ 53"
      unfolding small by (simp add: a_def small)
    then show "?u * (3 / 4) / 2 ^ 52 \<le> a" "a \<le> 2"
      using x u1 unfolding small by (simp_all add: abs_if split: if_splits)
  qed
  have b: "?u * (10 / 8) / 2 ^ 52 \<le> b" "b \<le> 8"
  proof -
    have "1 / 2 ^ 200 \<le> ?u * (3 / 4) / 2 ^ 52 * 2" using u1 by simp
    also have "\<dots> \<le> a * 2" using a(1) by (intro mult_right_mono) simp_all
    finally have "1 / 2 ^ 200 \<le> \<bar>a * 2\<bar>" by linarith
    from fl_rat_near [OF L this] have "\<bar>b - a * 2\<bar> \<le> \<bar>a * 2\<bar> / 2 ^ 53" by (simp add: b_def)
    moreover have "0 \<le> a" using a(1) u1 by (simp add: order_trans [rotated])
    ultimately show "?u * (10 / 8) / 2 ^ 52 \<le> b" "b \<le> 8" using a u1 by (simp_all add: abs_if split: if_splits)
  qed
  have big: "(16 :: rat) \<le> 2 powi 1000" "(2 :: rat) ^ 53 \<le> 2 powi 1000"
    using powi_le_iff [of 4 1000] powi_le_iff [of 53 1000] by (simp_all add: power_int_def)
  have "fp_round L (2 powi - 52) = Fin (2 powi - 52)"
  proof -
    have "\<bar>(2 :: rat) powi - 52\<bar> \<le> 2 powi 1000" by (simp only: abs_of_pos powi_pos powi_le_iff)
    moreover have "fl_rat L (2 powi - 52) = 2 powi - 52"
      using L by (intro fl_rat_exact representable_powi p) (simp add: fmt_ok_def)
    ultimately show ?thesis using fp_round_finite [OF L] by simp
  qed
  moreover have "fp_of_int L 2 = Fin 2" using fp_of_int_small [OF L, of 2] by simp
  moreover have "fp_round L (\<bar>s\<bar> * 2 powi - 52) = Fin a"
    unfolding a_def using s1(2) big by (intro fp_round_finite [OF L]) (simp add: small abs_mult)
  moreover have "fp_round L (a * 2) = Fin b"
    unfolding b_def using a(2) a(1) u1 big
    by (intro fp_round_finite [OF L]) (simp add: abs_if split: if_splits)
  ultimately have tol: "representation_tolerance L (Fin s) = fp_max (tolerance_floor L) (Fin b)"
    by (simp add: representation_tolerance_def double_epsilon_def fp_cast_def)
  have "\<bar>s - of_int u\<bar> \<le> 2 powi 1000" using su u1 u2 big by simp
  then have "fp_sub L (Fin s) (Fin (of_int u)) = Fin (fl_rat L (s - of_int u))"
    by (simp add: fp_sub_def fp_round_finite [OF L])
  then have "fp_abs (fp_sub L (Fin s) (Fin (of_int u))) = Fin d" by (simp add: d_def)
  moreover have "d \<le> b" using d b(1) u1 by simp
  moreover have "tolerance_floor L = Fin (fl_rat L (1 / 10000000))"
    unfolding tolerance_floor_def using big by (intro fp_round_finite [OF L]) simp
  ultimately show ?thesis by (auto simp: tol fp_max_def)
qed

lemma rounded_back:
  assumes L: "fmt_ok L" and f: "0 < f" "f \<le> 10 ^ 12" and u: "\<bar>u\<bar> < 2 ^ 51"
    and r: "rounding \<noteq> TowardZero"
    and v: "v = fl_rat binary64 (of_int u / of_int f)" and s: "s = fl_rat L (v * of_int f)"
  shows "rounded_long L rounding (Fin s) = Some (Fin (of_int u))"
proof (cases "u = 0")
  case True
  then have "s = 0" by (simp add: s v)
  moreover have "fp_less (Fin 0) (tolerance_floor L) \<or> tolerance_floor L = Fin 0"
    using fp_round_finite [OF L, of "1 / 10000000"] fl_rat_nonneg [of "1 / 10000000" L]
      powi_le_iff [of 0 1000] by (auto simp: tolerance_floor_def)
  moreover have "fp_sub L (Fin 0) (Fin 0) = Fin 0" "fp_cast L double_epsilon \<noteq> NaN"
    using fp_round_finite [OF L, of 0] powi_pos [of 1000]
    by (simp_all add: fp_sub_def fp_cast_def double_epsilon_def)
  moreover have "\<not> fp_less (fp_max (tolerance_floor L) b) (Fin 0)" for b
    using fp_round_finite [OF L, of "1 / 10000000"] fl_rat_nonneg [of "1 / 10000000" L]
      powi_le_iff [of 0 1000]
    by (cases b) (auto simp: fp_max_def tolerance_floor_def)
  moreover have "round_half_away 0 = 0" using round_half_away_of_int [of 0] by simp
  ultimately show ?thesis
    using True r by (cases rounding) (simp_all add: rounded_long_def fp_map_int_def
      representation_tolerance_def Let_def)
next
  case False
  note near = scaled_near [OF L f False u v s]
  have u2: "rat_of_int \<bar>u\<bar> < 2 ^ 51" using u by (metis of_int_less_iff of_int_numeral of_int_power)
  have "rat_of_int \<bar>u\<bar> \<le> 2 ^ 51 - 1"
  proof -
    have "\<bar>u\<bar> \<le> 2 ^ 51 - 1" using u by linarith
    then have "rat_of_int \<bar>u\<bar> \<le> rat_of_int (2 ^ 51 - 1)" by (simp only: of_int_le_iff)
    then show ?thesis by simp
  qed
  then have "rat_of_int \<bar>u\<bar> * (1 / 2 ^ 52 + 1 / 2 ^ 106) \<le> (2 ^ 51 - 1) * (1 / 2 ^ 52 + 1 / 2 ^ 106)"
    by (intro mult_right_mono) simp_all
  also have "\<dots> < 1 / 2" by simp
  finally have "round_half_away s = u" using near by (intro round_half_away_near) linarith
  with tolerance_enough [OF L False u near] r show ?thesis
    by (cases rounding) (simp_all add: rounded_long_def fp_map_int_def Let_def)
qed

text \<open>The value of an amount as a \<open>double\<close>, and its product with the factor again.\<close>

lemma double_quotient:
  assumes f: "0 < f" "f \<le> 10 ^ 12" and u: "\<bar>u\<bar> < 2 ^ 51"
  shows "fp_div binary64 (fp_of_int binary64 u) (fp_of_int binary64 f)
    = Fin (fl_rat binary64 (of_int u / of_int f))"
    and "fmt_ok L \<Longrightarrow> fp_mul L (fp_cast L (Fin (fl_rat binary64 (of_int u / of_int f)))) (fp_of_int L f)
      = Fin (fl_rat L (fl_rat binary64 (of_int u / of_int f) * of_int f))"
proof -
  let ?x = "rat_of_int u / of_int f"
  have fu: "fp_of_int F u = Fin (of_int u)" "fp_of_int F f = Fin (of_int f)" if "fmt_ok F" for F
    using that f u by (intro fp_of_int_small; simp)+
  have f1: "1 \<le> rat_of_int f" using f by simp
  have "\<bar>?x\<bar> \<le> \<bar>rat_of_int u\<bar>" using f1 by (simp add: abs_divide divide_le_eq mult_le_cancel_left1)
  also have "\<dots> \<le> 2 ^ 51" using u by (metis less_imp_le of_int_abs of_int_le_iff of_int_numeral of_int_power)
  finally have x: "\<bar>?x\<bar> \<le> 2 ^ 51" .
  have big: "(2 :: rat) ^ 51 \<le> 2 powi 1000" "(2 :: rat) ^ 100 \<le> 2 powi 1000"
    using powi_le_iff [of 51 1000] powi_le_iff [of 100 1000] by (simp_all add: power_int_def)
  with x have "fp_round binary64 ?x = Fin (fl_rat binary64 ?x)" by (intro fp_round_finite) simp_all
  then show "fp_div binary64 (fp_of_int binary64 u) (fp_of_int binary64 f) = Fin (fl_rat binary64 ?x)"
    using f1 by (simp add: fu)
  assume L: "fmt_ok L"
  let ?v = "fl_rat binary64 ?x"
  have "\<bar>?v\<bar> \<le> fl_rat binary64 (2 ^ 51)"
    unfolding fl_rat_abs using x by (intro fl_rat_mono) (simp_all add: binary64_def)
  also have "fl_rat binary64 (2 ^ 51) = 2 ^ 51"
    using fl_rat_exact [OF representable_small_int [OF fmt_ok_formats(1), of "2 ^ 51"]]
    by (simp add: binary64_def)
  finally have v: "\<bar>?v\<bar> \<le> 2 ^ 51" .
  have "representable L ?v"
    by (rule representable_binary64 [OF representable_fl_rat L]) (simp add: binary64_def)
  then have "fl_rat L ?v = ?v" by (rule fl_rat_exact [OF _ fmt_ok_prec [OF L]])
  then have cast: "fp_cast L (Fin ?v) = Fin ?v"
    using fp_round_finite [OF L, of ?v] v big by (simp add: fp_cast_def)
  have "\<bar>?v * of_int f\<bar> \<le> 2 ^ 51 * 10 ^ 12"
  proof -
    have "rat_of_int f \<le> 10 ^ 12" using f(2) by (metis of_int_le_iff of_int_numeral of_int_power)
    then have "\<bar>rat_of_int f\<bar> \<le> 10 ^ 12" using f1 by linarith
    then show ?thesis unfolding abs_mult using v by (intro mult_mono) simp_all
  qed
  then have "\<bar>?v * of_int f\<bar> \<le> 2 powi 1000" using big(2) by simp
  then show "fp_mul L (fp_cast L (Fin ?v)) (fp_of_int L f) = Fin (fl_rat L (?v * of_int f))"
    by (simp add: cast fu [OF L] fp_round_finite [OF L])
qed

lemma range_checks:
  assumes L: "fmt_ok L" and u: "\<bar>u\<bar> < 2 ^ 51"
  shows "\<not> fp_less (Fin (of_int u)) (fp_of_int L INT64_MIN)"
    "\<not> fp_less (fp_of_int L INT64_MAX) (Fin (of_int u))"
proof -
  note p = fmt_ok_prec [OF L]
  have big: "(2 :: rat) ^ 64 \<le> 2 powi 1000" using powi_le_iff [of 64 1000] by (simp add: power_int_def)
  have "of_int n = fl_rat L (of_int n)" if "\<bar>n\<bar> \<le> 2 ^ 53" for n
    using fl_rat_exact [OF representable_small_int [OF L that] p] by simp
  then have "rat_of_int u = fl_rat L (of_int u)" using u by simp
  moreover have "fl_rat L (of_int INT64_MIN) \<le> fl_rat L (of_int u)"
    "fl_rat L (of_int u) \<le> fl_rat L (of_int INT64_MAX)"
    using u by (intro fl_rat_mono p; simp add: INT64_MIN_def INT64_MAX_def
      del: of_int_neg_numeral of_int_numeral)+
  moreover have "fp_of_int L INT64_MIN = Fin (fl_rat L (of_int INT64_MIN))"
    "fp_of_int L INT64_MAX = Fin (fl_rat L (of_int INT64_MAX))"
    unfolding fp_of_int_def using big
    by (intro fp_round_finite [OF L]; simp add: INT64_MIN_def INT64_MAX_def)+
  ultimately show "\<not> fp_less (Fin (of_int u)) (fp_of_int L INT64_MIN)"
    "\<not> fp_less (fp_of_int L INT64_MAX) (Fin (of_int u))" by simp_all
qed

lemma normalize_toDouble:
  assumes "fmt_ok L" and "\<bar>units v\<bar> < 2 ^ 51" and "rounding \<noteq> TowardZero"
  shows "normalize L (toDouble v) rounding = Some (units v)"
proof -
  have f: "0 < SCALE_FACTOR" "SCALE_FACTOR \<le> 10 ^ 12" by (simp_all add: SCALE_FACTOR_def)
  note q = double_quotient [OF f assms(2)]
  show ?thesis
    unfolding normalize_def toDouble_def q(1) q(2) [OF assms(1)] Let_def
      rounded_back [OF assms(1) f assms(2,3) refl refl]
    using range_checks [OF assms(1,2)] by (simp add: fp_to_int_def)
qed

lemma decimal_factor_ok: "n \<le> 12 \<Longrightarrow> decimal_factor n 1 = Some (10 ^ n)"
proof -
  have "n + k \<le> 12 \<Longrightarrow> decimal_factor n (10 ^ k) = Some (10 ^ (n + k))" for k
  proof (induction n arbitrary: k)
    case (Suc n)
    have "(10 :: int) ^ k \<le> 10 ^ 12" using Suc.prems by (intro power_increasing) simp_all
    then have "\<not> (10 :: int) ^ k > cdiv INT64_MAX 10"
      by (simp add: cdiv_nonneg INT64_MAX_def)
    then show ?case using Suc.IH [of "Suc k"] Suc.prems by (simp add: mult.commute)
  qed simp
  from this [of 0] show "n \<le> 12 \<Longrightarrow> ?thesis" by simp
qed

lemma double_factor_ok: "n \<le> 12 \<Longrightarrow> double_factor n (fp_of_int binary64 1) = fp_of_int binary64 (10 ^ n)"
proof -
  have "n + k \<le> 12 \<Longrightarrow> double_factor n (fp_of_int binary64 (10 ^ k)) = fp_of_int binary64 (10 ^ (n + k))" for k
  proof (induction n arbitrary: k)
    case (Suc n)
    have le: "(10 :: int) ^ j \<le> 10 ^ 12" if "j \<le> 12" for j using that by (intro power_increasing) simp_all
    have "fp_of_int binary64 (10 ^ k) = Fin (of_int (10 ^ k))" "fp_of_int binary64 10 = Fin (of_int 10)"
      using le [of k] Suc.prems by (intro fp_of_int_small; simp)+
    then have "fp_mul binary64 (fp_of_int binary64 (10 ^ k)) (fp_of_int binary64 10)
        = fp_of_int binary64 (10 ^ Suc k)"
      by (simp add: fp_of_int_def mult.commute)
    then show ?case using Suc.IH [of "Suc k"] Suc.prems by simp
  qed simp
  from this [of 0] show "n \<le> 12 \<Longrightarrow> ?thesis" by simp
qed

lemma decimal_roundtrip:
  assumes L: "fmt_ok L" and u: "\<bar>dec_units d\<bar> < 2 ^ 51" and s: "dec_scale d \<le> MAX_SCALE"
    and r: "rounding \<noteq> D_TowardZero"
  shows "decimal_fromDouble L (decimal_toDouble d) (dec_scale d) rounding = Some d"
proof -
  have n: "unat (dec_scale d) \<le> 12" using s by (simp add: word_le_nat_alt MAX_SCALE_def)
  let ?f = "(10 :: int) ^ unat (dec_scale d)"
  have f: "0 < ?f" "?f \<le> 10 ^ 12"
    using power_increasing [OF n, of "10 :: int"] by simp_all
  note q = double_quotient [OF f u]
  have r': "rounding_of rounding \<noteq> TowardZero" using r by (cases rounding) simp_all
  let ?s = "fl_rat L (fl_rat binary64 (of_int (dec_units d) / of_int ?f) * of_int ?f)"
  have ok: "decimal_toDouble d = Fin (fl_rat binary64 (of_int (dec_units d) / of_int ?f))"
    unfolding decimal_toDouble_def double_factor_ok [OF n] by (rule q(1))
  have scaled: "\<not> fp_less (Fin ?s) (fp_of_int L INT64_MIN)" "\<not> fp_less (fp_of_int L INT64_MAX) (Fin ?s)"
  proof -
    have "\<bar>?s\<bar> \<le> 2 ^ 52"
    proof (cases "dec_units d = 0")
      case False
      note near = scaled_near [OF L f False u refl refl]
      have "rat_of_int \<bar>dec_units d\<bar> < 2 ^ 51" using u by (metis of_int_less_iff of_int_numeral of_int_power)
      then show ?thesis using near by (simp add: abs_if split: if_splits)
    qed simp
    then have s: "- (2 ^ 53) \<le> ?s" "?s \<le> 2 ^ 53" by (simp_all add: abs_le_iff)
    have "2 ^ 53 \<le> fl_rat L (of_int INT64_MAX)" "fl_rat L (of_int INT64_MIN) \<le> - (2 ^ 53)"
    proof -
      have e: "fl_rat L (2 ^ 53) = 2 ^ 53" "fl_rat L (- (2 ^ 53)) = - (2 ^ 53)"
        using fl_rat_exact [OF representable_small_int [OF L, of "2 ^ 53"] fmt_ok_prec [OF L]] by simp_all
      show "2 ^ 53 \<le> fl_rat L (of_int INT64_MAX)"
        using fl_rat_mono [of "2 ^ 53" "of_int INT64_MAX", OF _ fmt_ok_prec [OF L]] e
        by (simp add: INT64_MAX_def)
      show "fl_rat L (of_int INT64_MIN) \<le> - (2 ^ 53)"
        using fl_rat_mono [of "of_int INT64_MIN" "- (2 ^ 53)", OF _ fmt_ok_prec [OF L]] e
        by (simp add: INT64_MIN_def del: fl_rat_neg)
    qed
    moreover have "fp_of_int L INT64_MIN = Fin (fl_rat L (of_int INT64_MIN))"
      "fp_of_int L INT64_MAX = Fin (fl_rat L (of_int INT64_MAX))"
      unfolding fp_of_int_def using powi_le_iff [of 64 1000]
      by (intro fp_round_finite [OF L]; simp add: INT64_MIN_def INT64_MAX_def power_int_def)+
    ultimately show "\<not> fp_less (Fin ?s) (fp_of_int L INT64_MIN)"
      "\<not> fp_less (fp_of_int L INT64_MAX) (Fin ?s)" using s by simp_all
  qed
  have "\<not> dec_scale d > MAX_SCALE" using s by simp
  with scaled range_checks [OF L u] show ?thesis
    unfolding decimal_fromDouble_def ok decimal_factor_ok [OF n] option.case q(2) [OF L] Let_def
      rounded_back [OF L f u r' refl refl]
    by (simp add: fp_to_int_def decimal_def)
qed

subsection \<open>Properties\<close>

text \<open>
  C36. Amounts below 2^51 units (22.5 million at eight decimals) survive the way through
  \<open>double\<close>: converting an amount to \<open>double\<close> and back, rejecting unaligned values or rounding to
  nearest, gives the same amount, for prices, quantities, money and broker decimals of every
  scale, whether \<open>long double\<close> is binary64 or the x87 format.  (Truncating toward zero, the
  default of \<open>quantity()\<close>, can lose a unit; that mode is not part of the statement.)
\<close>

theorem amount_double_roundtrip:
  assumes "fmt_ok L" and "\<bar>units v\<bar> < 2 ^ 51" and "\<bar>dec_units d\<bar> < 2 ^ 51"
    and "dec_scale d \<le> MAX_SCALE"
  shows "normalized L (toDouble v) RejectUnaligned = Some v
    \<and> normalized L (toDouble v) NearestTiesAwayFromZero = Some v
    \<and> decimal_fromDouble L (decimal_toDouble d) (dec_scale d) D_RejectUnaligned = Some d
    \<and> decimal_fromDouble L (decimal_toDouble d) (dec_scale d) D_NearestTiesAwayFromZero = Some d"
  using assms by (simp_all add: normalized_def normalize_toDouble decimal_roundtrip)

lemma amount_double_roundtrip_witness:
  "money_of binary64 (toDouble (FValue 12345678901234 :: money)) RejectUnaligned = Some (FValue 12345678901234)
   \<and> decimal_fromDouble x87_extended (decimal_toDouble (decimal 29 2)) 2 D_RejectUnaligned
     = Some (decimal 29 2)"
proof -
  have "\<bar>units (FValue 12345678901234 :: money)\<bar> < 2 ^ 51" "\<bar>dec_units (decimal 29 2)\<bar> < 2 ^ 51"
    "dec_scale (decimal 29 2) \<le> MAX_SCALE"
    by (simp_all add: decimal_def MAX_SCALE_def)
  note rt = amount_double_roundtrip [OF _ this]
  from rt [of binary64] rt [of x87_extended] show ?thesis
    by (simp add: money_of_def decimal_def)
qed

text \<open>
  Truncation does not survive it: an amount of 0.29 converted to \<open>double\<close> and back with the
  default rounding of \<open>quantity\<close> (towards zero) loses a unit, whether \<open>long double\<close> is binary64
  or the x87 format.  Where \<open>long double\<close> is binary64, an amount of 2^53 + 1 units comes back
  as 2^53 units even in the mode that rejects unaligned values.
\<close>

theorem amount_double_loses_units:
  "quantity_of binary64 (toDouble (FValue 29000000 :: quantity)) TowardZero = Some (FValue 28999999)
   \<and> quantity_of x87_extended (toDouble (FValue 29000000 :: quantity)) TowardZero = Some (FValue 28999999)
   \<and> money_of binary64 (toDouble (FValue 9007199254740993 :: money)) RejectUnaligned
       = Some (FValue 9007199254740992)"
  by (intro conjI) code_simp+

text \<open>Where \<open>long double\<close> is binary64, 2^63 units pass the range check: the cast is undefined.\<close>

lemma normalize_range_check_rounds:
  "decimal_fromDouble binary64 (Fin 9223372036854775808) 0 D_TowardZero
     = Some (decimal 9223372036854775808 0)
   \<and> decimal_fromDouble x87_extended (Fin 9223372036854775808) 0 D_TowardZero = None"
  by (intro conjI) code_simp+

end
