(* ===== verification/PaperAdapter.thy ===== *)
theory PaperAdapter
  imports Conversions
begin

text \<open>
  The simulated broker of paper trading: include/DeterministicBrokerAdapter.hpp and
  src/DeterministicBrokerAdapter.cpp.  Its callbacks are flags (is a function bound?), and an
  operation returns the new state, its result and the events it passes to the callbacks, in
  the order of the calls, which all happen after the lock is released.  \<open>L\<close> is the format of
  \<open>long double\<close>.
\<close>

subsection \<open>Decimal numerals\<close>

text \<open>\<open>std::to_string\<close> of an unsigned integer.\<close>

fun digits_of :: "nat \<Rightarrow> string" where
  "digits_of n = (if n < 10 then [char_of (48 + n)]
                  else digits_of (n div 10) @ [char_of (48 + n mod 10)])"

declare digits_of.simps [simp del]

definition to_string :: "u64 \<Rightarrow> string" where
  "to_string w = digits_of (unat w)"

text \<open>The event keys of the adapter's answers.\<close>

definition ackKey :: "u64 \<Rightarrow> string" where
  "ackKey localOrderId = ''ack-'' @ to_string localOrderId"

definition fillKey :: "u64 \<Rightarrow> string" where
  "fillKey localOrderId = ''fill-'' @ to_string localOrderId @ ''-1''"

definition cancelResultKey :: "u64 \<Rightarrow> string" where
  "cancelResultKey localOrderId = ''cancel-result-'' @ to_string localOrderId"

subsection \<open>State\<close>

record fault_config =
  flt_enabled :: bool
  flt_dropEveryN :: u32
  flt_latencySpikeEveryN :: u32
  flt_latencySpikeMs :: u32
  flt_disconnectEveryN :: u32

definition fault_default :: fault_config where
  "fault_default = \<lparr>flt_enabled = False, flt_dropEveryN = 0, flt_latencySpikeEveryN = 0,
     flt_latencySpikeMs = 0, flt_disconnectEveryN = 0\<rparr>"

datatype adapter_event =
    EvAck order_acknowledgement | EvExecution execution_event | EvCancel cancel_result
  | EvHealth adapter_health_event

record paper_adapter =
  pa_connected :: bool
  pa_everConnected :: bool
  pa_sequence :: u64
  pa_submitCount :: u64
  pa_faultDrops :: u64
  pa_faultLatencySpikes :: u64
  pa_faultDisconnects :: u64
  pa_connectCount :: u64
  pa_disconnectCount :: u64
  pa_reconnectCount :: u64
  pa_injectError :: bool
  pa_injectedError :: string
  pa_partialFillRatio :: "fp option"
  pa_feeRate :: fraction
  pa_slippageRate :: fraction
  pa_faultConfig :: fault_config
  pa_health :: adapter_health_event
  pa_accountSnapshot :: "account_snapshot option"
  pa_instruments :: "string \<rightharpoonup> instrument_spec"
  pa_pendingOrders :: "u64 \<rightharpoonup> normalized_order"
  pa_ackBound :: bool
  pa_executionBound :: bool
  pa_cancelBound :: bool
  pa_healthBound :: bool

definition paper_init :: paper_adapter where
  "paper_init =
     \<lparr>pa_connected = False, pa_everConnected = False, pa_sequence = 0, pa_submitCount = 0,
      pa_faultDrops = 0, pa_faultLatencySpikes = 0, pa_faultDisconnects = 0,
      pa_connectCount = 0, pa_disconnectCount = 0, pa_reconnectCount = 0,
      pa_injectError = False, pa_injectedError = [], pa_partialFillRatio = None,
      pa_feeRate = FValue 100000, pa_slippageRate = FValue 50000,
      pa_faultConfig = fault_default, pa_health = health_default, pa_accountSnapshot = None,
      pa_instruments = Map.empty, pa_pendingOrders = Map.empty,
      pa_ackBound = False, pa_executionBound = False, pa_cancelBound = False,
      pa_healthBound = False\<rparr>"

subsection \<open>Settings\<close>

definition pa_setSimulationCosts ::
  "fp_format \<Rightarrow> fp \<Rightarrow> fp \<Rightarrow> paper_adapter \<Rightarrow> paper_adapter \<times> bool" where
  "pa_setSimulationCosts L feeRate slippageBps a =
     (case (fraction_of L feeRate NearestTiesAwayFromZero,
            fraction_of L (fp_div binary64 slippageBps (fp_of_int binary64 10000))
              NearestTiesAwayFromZero) of
        (Some f, Some sl) \<Rightarrow>
          if isNegative f \<or> units f \<ge> SCALE_FACTOR \<or> isNegative sl \<or> units sl \<ge> SCALE_FACTOR
          then (a, False)
          else (a\<lparr>pa_feeRate := f, pa_slippageRate := sl\<rparr>, True)
      | _ \<Rightarrow> (a, False))"

definition pa_setAcknowledgementCallback :: "bool \<Rightarrow> paper_adapter \<Rightarrow> paper_adapter" where
  "pa_setAcknowledgementCallback callback a = a\<lparr>pa_ackBound := callback\<rparr>"

definition pa_setExecutionCallback :: "bool \<Rightarrow> paper_adapter \<Rightarrow> paper_adapter" where
  "pa_setExecutionCallback callback a = a\<lparr>pa_executionBound := callback\<rparr>"

definition pa_setCancelCallback :: "bool \<Rightarrow> paper_adapter \<Rightarrow> paper_adapter" where
  "pa_setCancelCallback callback a = a\<lparr>pa_cancelBound := callback\<rparr>"

definition pa_setHealthCallback :: "bool \<Rightarrow> paper_adapter \<Rightarrow> paper_adapter" where
  "pa_setHealthCallback callback a = a\<lparr>pa_healthBound := callback\<rparr>"

definition pa_setInstrumentSpec :: "instrument_spec \<Rightarrow> paper_adapter \<Rightarrow> paper_adapter" where
  "pa_setInstrumentSpec spec a =
     a\<lparr>pa_instruments := (pa_instruments a)(ins_canonicalSymbol spec \<mapsto> spec)\<rparr>"

definition pa_setAccountSnapshot :: "account_snapshot \<Rightarrow> paper_adapter \<Rightarrow> paper_adapter" where
  "pa_setAccountSnapshot snapshot a = a\<lparr>pa_accountSnapshot := Some snapshot\<rparr>"

definition pa_injectNextError :: "string \<Rightarrow> paper_adapter \<Rightarrow> paper_adapter" where
  "pa_injectNextError reason a = a\<lparr>pa_injectError := True, pa_injectedError := reason\<rparr>"

definition pa_injectNextPartialFill :: "fp \<Rightarrow> paper_adapter \<Rightarrow> paper_adapter" where
  "pa_injectNextPartialFill ratio a =
     (if fp_isfinite ratio \<and> fp_less (Fin 0) ratio \<and> fp_less ratio (Fin 1)
      then a\<lparr>pa_partialFillRatio := Some ratio\<rparr>
      else a\<lparr>pa_partialFillRatio := None\<rparr>)"

definition pa_setFaultConfig :: "fault_config \<Rightarrow> paper_adapter \<Rightarrow> paper_adapter" where
  "pa_setFaultConfig config a = a\<lparr>pa_faultConfig := config\<rparr>"

subsection \<open>Connection\<close>

text \<open>The health event an operation stores: it takes the next sequence number.\<close>

definition pa_health_event ::
  "adapter_health_state \<Rightarrow> u64 \<Rightarrow> u32 \<Rightarrow> failure_category \<Rightarrow> string \<Rightarrow> paper_adapter
   \<Rightarrow> paper_adapter" where
  "pa_health_event state timestampNs latencyMs failure reason a =
     (let n = pa_sequence a + 1
      in a\<lparr>pa_sequence := n,
           pa_health := \<lparr>hea_schemaVersion = 1, hea_state = state, hea_timestampNs = timestampNs,
             hea_sequence = n, hea_latencyMs = latencyMs, hea_failure = failure,
             hea_reason = reason, hea_eventKey = ''health-'' @ to_string n\<rparr>\<rparr>)"

definition pa_emit_health :: "paper_adapter \<Rightarrow> adapter_event list" where
  "pa_emit_health a = (if pa_healthBound a then [EvHealth (pa_health a)] else [])"

definition pa_connect :: "paper_adapter \<Rightarrow> paper_adapter \<times> bool \<times> adapter_event list" where
  "pa_connect a =
     (if pa_connected a then (a, True, [])
      else
        let a = (if pa_everConnected a
                 then a\<lparr>pa_reconnectCount := pa_reconnectCount a + 1\<rparr> else a);
            a = a\<lparr>pa_connected := True, pa_everConnected := True,
                  pa_connectCount := pa_connectCount a + 1\<rparr>;
            a = pa_health_event H_Connected 0 0 F_None [] a
        in (a, True, pa_emit_health a))"

definition pa_disconnect :: "paper_adapter \<Rightarrow> paper_adapter \<times> adapter_event list" where
  "pa_disconnect a =
     (if \<not> pa_connected a then (a, [])
      else
        let a = a\<lparr>pa_connected := False, pa_disconnectCount := pa_disconnectCount a + 1\<rparr>;
            a = pa_health_event H_Disconnected 0 0 F_None [] a
        in (a, pa_emit_health a))"

definition pa_publishHealth ::
  "adapter_health_state \<Rightarrow> u64 \<Rightarrow> u32 \<Rightarrow> failure_category \<Rightarrow> string \<Rightarrow> paper_adapter
   \<Rightarrow> paper_adapter \<times> adapter_event list" where
  "pa_publishHealth state timestampNs latencyMs failure reason a =
     (let a = pa_health_event state timestampNs latencyMs failure reason a
      in (a, pa_emit_health a))"

subsection \<open>Orders\<close>

text \<open>The quantity filled at once: all of it, or the injected part if that is a proper one.\<close>

definition pa_fill_quantities ::
  "fp_format \<Rightarrow> normalized_order \<Rightarrow> fp option \<Rightarrow> decimal64 \<times> decimal64" where
  "pa_fill_quantities L order ratio =
     (let quantity = nrm_normalizedQuantity order;
          filled = quantity;
          remaining = decimal 0 (dec_scale quantity)
      in case ratio of
           None \<Rightarrow> (filled, remaining)
         | Some ratio \<Rightarrow>
             (case decimal_fromDouble L (fp_mul binary64 (decimal_toDouble quantity) ratio)
                     (dec_scale quantity) D_TowardZero of
                None \<Rightarrow> (filled, remaining)
              | Some partial \<Rightarrow>
                  if dec_isPositive partial \<and> dec_units partial < dec_units quantity
                  then (partial, remaining\<lparr>dec_units := dec_units quantity - dec_units partial\<rparr>)
                  else (filled, remaining)))"

definition pa_fill_price :: "normalized_order \<Rightarrow> decimal64" where
  "pa_fill_price order =
     (case nrm_normalizedLimitPrice order of
        Some p \<Rightarrow> p
      | None \<Rightarrow> (case nrm_normalizedStopPrice order of
          Some p \<Rightarrow> p
        | None \<Rightarrow> (case nrm_normalizedReferencePrice order of
            Some p \<Rightarrow> p
          | None \<Rightarrow> decimal_default)))"

text \<open>Price with slippage and fee of a fill, or \<open>None\<close> if one of them is not representable.\<close>

definition pa_fill_costs ::
  "fp_format \<Rightarrow> order_side \<Rightarrow> decimal64 \<Rightarrow> decimal64 \<Rightarrow> paper_adapter \<Rightarrow> (price \<times> money) option"
where
  "pa_fill_costs L side fillPrice filled a =
     (let normalizedPrice = price_of L (decimal_toDouble fillPrice) RejectUnaligned;
          normalizedQuantity = quantity_of L (decimal_toDouble filled) RejectUnaligned;
          slippedPrice = (case normalizedPrice of
              None \<Rightarrow> None
            | Some p \<Rightarrow> applySlippage p (pa_slippageRate a) (side = Buy) NearestTiesAwayFromZero);
          fillNotional = (case (slippedPrice, normalizedQuantity) of
              (Some p, Some q) \<Rightarrow> notional p q NearestTiesAwayFromZero
            | _ \<Rightarrow> None);
          fillFee = (case fillNotional of
              None \<Rightarrow> None
            | Some m \<Rightarrow> fee m (pa_feeRate a) NearestTiesAwayFromZero)
      in case (slippedPrice, normalizedQuantity, fillNotional, fillFee) of
           (Some p, Some q, Some m, Some f) \<Rightarrow> if isPositive q then Some (p, f) else None
         | _ \<Rightarrow> None)"

definition pa_emit_ack :: "order_acknowledgement \<Rightarrow> paper_adapter \<Rightarrow> adapter_event list" where
  "pa_emit_ack ack a = (if pa_ackBound a then [EvAck ack] else [])"

definition every_nth :: "u64 \<Rightarrow> u32 \<Rightarrow> bool" where
  "every_nth submitNumber n \<longleftrightarrow> n > 0 \<and> unat submitNumber mod unat n = 0"

text \<open>The faults due at this submission: the state and the health event they publish.\<close>

definition pa_faults ::
  "u64 \<Rightarrow> u64 \<Rightarrow> paper_adapter \<Rightarrow> paper_adapter \<times> adapter_event list" where
  "pa_faults submitNumber timestampNs a =
     (let config = pa_faultConfig a;
          disconnect = (flt_enabled config \<and> every_nth submitNumber (flt_disconnectEveryN config));
          latency = (flt_enabled config \<and> flt_latencySpikeMs config > 0
            \<and> every_nth submitNumber (flt_latencySpikeEveryN config));
          (a, events) = (if disconnect then
              let a = pa_health_event H_Connected timestampNs 0 F_Transport
                    ''deterministic disconnect and reconnect''
                    (a\<lparr>pa_faultDisconnects := pa_faultDisconnects a + 1,
                       pa_disconnectCount := pa_disconnectCount a + 1,
                       pa_reconnectCount := pa_reconnectCount a + 1, pa_connected := True\<rparr>)
              in (a, pa_emit_health a)
            else (a, []));
          a = (if latency
               then a\<lparr>pa_faultLatencySpikes := pa_faultLatencySpikes a + 1,
                      pa_health := (pa_health a)\<lparr>hea_latencyMs := flt_latencySpikeMs config\<rparr>\<rparr>
               else a)
      in (a, events))"

definition pa_ack :: "order_request \<Rightarrow> order_acknowledgement" where
  "pa_ack request =
     \<lparr>ack_schemaVersion = 1, ack_localOrderId = req_localOrderId request,
      ack_externalOrderId = [], ack_accepted = False, ack_failure = F_None, ack_reason = [],
      ack_timestampNs = req_timestampNs request, ack_sequence = req_sequence request + 3,
      ack_eventKey = ackKey (req_localOrderId request)\<rparr>"

definition pa_execution ::
  "order_request \<Rightarrow> string \<Rightarrow> decimal64 \<Rightarrow> decimal64 \<Rightarrow> price \<Rightarrow> money \<Rightarrow> execution_event" where
  "pa_execution request externalOrderId filled remaining slippedPrice fillFee =
     \<lparr>exe_schemaVersion = 1, exe_localOrderId = req_localOrderId request,
      exe_externalOrderId = externalOrderId, exe_cumulativeFilledQuantity = filled,
      exe_remainingQuantity = remaining, exe_fillPrice = decimal (units slippedPrice) SCALE,
      exe_fee = decimal (units fillFee) SCALE, exe_timestampNs = req_timestampNs request,
      exe_sequence = req_sequence request + 4,
      exe_eventKey = fillKey (req_localOrderId request)\<rparr>"

definition pa_submit ::
  "fp_format \<Rightarrow> normalized_order \<Rightarrow> paper_adapter \<Rightarrow> paper_adapter \<times> bool \<times> adapter_event list"
where
  "pa_submit L order a =
     (if \<not> pa_connected a then (a, False, [])
      else
        let request = nrm_request order;
            submitNumber = pa_submitCount a + 1;
            config = pa_faultConfig a;
            drop_it = (flt_enabled config \<and> every_nth submitNumber (flt_dropEveryN config));
            (a, health_events) = pa_faults submitNumber (req_timestampNs request)
              (a\<lparr>pa_submitCount := submitNumber\<rparr>);
            ack = pa_ack request
        in if pa_injectError a \<or> drop_it then
             let ack = ack\<lparr>ack_failure := (if drop_it then F_Transport else F_Rejected),
                   ack_reason := (if drop_it then ''deterministic fault drop''
                                  else pa_injectedError a)\<rparr>;
                 a = (if drop_it then a\<lparr>pa_faultDrops := pa_faultDrops a + 1\<rparr> else a);
                 a = a\<lparr>pa_injectError := False, pa_injectedError := []\<rparr>
             in (a, True, health_events @ pa_emit_ack ack a)
           else
             let ack = ack\<lparr>ack_accepted := True,
                   ack_externalOrderId := ''paper-'' @ to_string (req_localOrderId request)\<rparr>;
                 (filled, remaining) = pa_fill_quantities L order (pa_partialFillRatio a);
                 a = a\<lparr>pa_partialFillRatio := None\<rparr>
             in case pa_fill_costs L (req_side request) (pa_fill_price order) filled a of
                  None \<Rightarrow>
                    (let ack = ack\<lparr>ack_accepted := False, ack_externalOrderId := [],
                           ack_failure := F_Validation,
                           ack_reason := ''paper fill arithmetic is not representable''\<rparr>
                     in (a, True, health_events @ pa_emit_ack ack a))
                | Some (slippedPrice, fillFee) \<Rightarrow>
                    let execution = pa_execution request (ack_externalOrderId ack) filled remaining
                          slippedPrice fillFee;
                        a = (if \<not> dec_isZero remaining
                             then a\<lparr>pa_pendingOrders := (pa_pendingOrders a)
                                     (req_localOrderId request \<mapsto> order)\<rparr>
                             else a)
                    in (a, True, health_events @ pa_emit_ack ack a
                          @ (if pa_executionBound a then [EvExecution execution] else [])))"

definition pa_cancel ::
  "cancel_request \<Rightarrow> paper_adapter \<Rightarrow> paper_adapter \<times> bool \<times> adapter_event list" where
  "pa_cancel request a =
     (if \<not> pa_connected a then (a, False, [])
      else
        let erased = (pa_pendingOrders a (cxl_localOrderId request) \<noteq> None);
            a = a\<lparr>pa_pendingOrders := (pa_pendingOrders a)(cxl_localOrderId request := None)\<rparr>;
            cancelled = \<lparr>cre_schemaVersion = 1, cre_localOrderId = cxl_localOrderId request,
              cre_disposition = (if erased then C_Accepted else C_AlreadyFilled),
              cre_failure = F_None, cre_reason = [],
              cre_timestampNs = cxl_timestampNs request,
              cre_sequence = cxl_sequence request + 1,
              cre_eventKey = cancelResultKey (cxl_localOrderId request)\<rparr>
        in (a, True, if pa_cancelBound a then [EvCancel cancelled] else []))"

definition pa_reconcile ::
  "u64 \<Rightarrow> paper_adapter \<Rightarrow> paper_adapter \<times> reconciliation_snapshot" where
  "pa_reconcile timestampNs a =
     (let a = a\<lparr>pa_sequence := pa_sequence a + 1\<rparr>
      in (a, reconciliation_default
        \<lparr>rcn_snapshotVersion := pa_sequence a, rcn_timestampNs := timestampNs,
         rcn_account := (case pa_accountSnapshot a of None \<Rightarrow> account_default | Some s \<Rightarrow> s),
         rcn_orderStates := (\<lambda>i. if pa_pendingOrders a i = None then None
                                 else Some PartiallyFilled),
         rcn_status := R_Matched\<rparr>))"

definition pa_instrumentSpec :: "string \<Rightarrow> paper_adapter \<Rightarrow> instrument_spec option" where
  "pa_instrumentSpec canonicalSymbol a = pa_instruments a canonicalSymbol"

end
