(* ===== verification/SystemConfig.thy ===== *)
theory SystemConfig
  imports Floats
begin

text \<open>
  The operational mode and the runtime configuration of include/SystemConfig.hpp.  The macro
  \<open>TRADEBOT_ENABLE_LIVE_RUNTIME\<close> is set by the build: it is the parameter \<open>build\<close>.
\<close>

datatype system_mode = BACKTEST | PAPER | LIVE

definition parseModeFlag :: "string \<Rightarrow> system_mode option" where
  "parseModeFlag s =
     (if s = ''PAPER'' \<or> s = ''paper'' then Some PAPER
      else if s = ''LIVE'' \<or> s = ''live'' then Some LIVE
      else if s = ''BACKTEST'' \<or> s = ''backtest'' then Some BACKTEST
      else None)"

definition liveRuntimeBuildEnabled :: "int \<Rightarrow> bool" where
  "liveRuntimeBuildEnabled build \<longleftrightarrow> build \<noteq> 0"

fun modeName :: "system_mode \<Rightarrow> string" where
  "modeName BACKTEST = ''BACKTEST''"
| "modeName PAPER = ''PAPER''"
| "modeName LIVE = ''LIVE''"

record system_config =
  cfg_mode :: system_mode
  cfg_liveRuntimeUnlocked :: bool
  cfg_wssEndpoint :: string
  cfg_restEndpoint :: string
  cfg_apiKey :: string
  cfg_apiSecret :: string
  cfg_apiKeyEnv :: string
  cfg_apiSecretEnv :: string
  cfg_strictTlsValidation :: bool
  cfg_intranetLoopbackOnly :: bool
  cfg_localCaCertPath :: string
  cfg_tlsServerName :: string
  cfg_reconnectInitialMs :: u32
  cfg_reconnectBackoffFactor :: fp
  cfg_reconnectMaxMs :: u32
  cfg_latencyMaxMs :: u32
  cfg_errorRateThresh :: u32
  cfg_atrScaleUpThreshold :: fp
  cfg_varScaleLowVolFactor :: fp
  cfg_varScaleHighVolFactor :: fp

definition config_default :: system_config where
  "config_default =
     \<lparr>cfg_mode = BACKTEST, cfg_liveRuntimeUnlocked = False,
      cfg_wssEndpoint = ''wss://stream.example.com/ws'',
      cfg_restEndpoint = ''https://api.example.com'',
      cfg_apiKey = [], cfg_apiSecret = [],
      cfg_apiKeyEnv = ''AIIO_API_KEY'', cfg_apiSecretEnv = ''AIIO_API_SECRET'',
      cfg_strictTlsValidation = False, cfg_intranetLoopbackOnly = True,
      cfg_localCaCertPath = ''data/local_tls/aiio_local_ca.crt'',
      cfg_tlsServerName = ''localhost'', cfg_reconnectInitialMs = 500,
      cfg_reconnectBackoffFactor = Fin 2, cfg_reconnectMaxMs = 30000,
      cfg_latencyMaxMs = 500, cfg_errorRateThresh = 5,
      cfg_atrScaleUpThreshold = Fin (3 / 2), cfg_varScaleLowVolFactor = Fin 1,
      cfg_varScaleHighVolFactor = Fin (1 / 2)\<rparr>"

definition isLiveMode :: "system_config \<Rightarrow> bool" where
  "isLiveMode c \<longleftrightarrow> cfg_mode c = LIVE"

definition isPaperMode :: "system_config \<Rightarrow> bool" where
  "isPaperMode c \<longleftrightarrow> cfg_mode c = PAPER"

definition isBacktest :: "system_config \<Rightarrow> bool" where
  "isBacktest c \<longleftrightarrow> cfg_mode c = BACKTEST"

definition canEnterLiveRuntime :: "int \<Rightarrow> system_config \<Rightarrow> bool" where
  "canEnterLiveRuntime build c \<longleftrightarrow>
     isLiveMode c \<and> liveRuntimeBuildEnabled build \<and> cfg_liveRuntimeUnlocked c"

lemmas mode_defs = isLiveMode_def isPaperMode_def isBacktest_def

text \<open>The names of the modes parse back, and nothing else does but their lower case.\<close>

lemma parseModeFlag_modeName: "parseModeFlag (modeName m) = Some m"
  by (cases m) (simp_all add: parseModeFlag_def)

lemma parseModeFlag_iff:
  "parseModeFlag s = Some m \<longleftrightarrow>
     s = modeName m \<or> (m, s) \<in> {(PAPER, ''paper''), (LIVE, ''live''), (BACKTEST, ''backtest'')}"
  by (cases m) (auto simp: parseModeFlag_def)


end
