(* ===== verification/Gateway.thy ===== *)
theory Gateway
  imports Lifecycle PaperAdapter SystemConfig
begin

text \<open>
  The broker gateway: include/BrokerGateway.hpp and src/BrokerGateway.cpp.  Orders are
  normalised to the instrument's steps, checked against the final risk decision, entered in the
  lifecycle store and handed to the adapter; the events the adapter reports drive the store and
  are forwarded to the callbacks of the engine.

  The adapter is the paper adapter, none, or another implementation of the virtual interface
  \<open>IBrokerAdapter\<close>, whose state is a type parameter and whose functions are the record
  \<open>adapter_ops\<close>.  An adapter's function returns the events it passes to the bound callbacks while
  it runs; events it reports at other times arrive by \<open>gw_event\<close>.  The callbacks of the engine are
  flags; what is passed to them is the output of an operation.  They only read an
  order's record (\<open>orderLifecycle\<close>) and change nothing of the gateway.
\<close>

subsection \<open>Rescaling\<close>

fun rescale_up :: "nat \<Rightarrow> i64 \<Rightarrow> i64 option" where
  "rescale_up 0 u = Some u"
| "rescale_up (Suc n) u =
     (if u > cdiv INT64_MAX 10 \<or> u < cdiv INT64_MIN 10 then None
      else rescale_up n (u * 10))"

fun rescale_down :: "nat \<Rightarrow> i64 \<Rightarrow> i64" where
  "rescale_down 0 u = u"
| "rescale_down (Suc n) u = rescale_down n (cdiv u 10)"

definition rescaleTowardZero :: "decimal64 \<Rightarrow> u8 \<Rightarrow> decimal64 option" where
  "rescaleTowardZero v targetScale =
     (if dec_scale v > MAX_SCALE \<or> targetScale > MAX_SCALE then None
      else case rescale_up (unat targetScale - unat (dec_scale v)) (dec_units v) of
        None \<Rightarrow> None
      | Some u \<Rightarrow>
          Some (decimal (rescale_down (unat (dec_scale v) - unat targetScale) u) targetScale))"

definition normalizeToStep :: "decimal64 \<Rightarrow> decimal64 \<Rightarrow> decimal64 option" where
  "normalizeToStep v step =
     (if \<not> dec_isPositive v \<or> \<not> dec_isPositive step then None
      else case rescaleTowardZero v (dec_scale step) of
        None \<Rightarrow> None
      | Some scaled \<Rightarrow>
          Some (decimal (cdiv (dec_units scaled) (dec_units step) * dec_units step)
                 (dec_scale step)))"

definition defaultInstrument :: "order_request \<Rightarrow> instrument_spec" where
  "defaultInstrument request =
     (let scale = dec_scale (req_quantity request)
      in instrument_default
        \<lparr>ins_version := 1, ins_canonicalSymbol := req_canonicalSymbol request,
         ins_executionAlias := req_canonicalSymbol request,
         ins_tickSize := decimal 1 8, ins_contractSize := decimal 1 0,
         ins_minimumQuantity := decimal 1 scale,
         ins_maximumQuantity := decimal INT64_MAX scale,
         ins_quantityStep := decimal 1 scale, ins_complete := True\<rparr>)"

subsection \<open>Adapters\<close>

record 'x adapter_ops =
  op_bindCallbacks :: "'x \<Rightarrow> 'x"
  op_connect :: "'x \<Rightarrow> 'x \<times> bool \<times> adapter_event list"
  op_disconnect :: "'x \<Rightarrow> 'x \<times> adapter_event list"
  op_isConnected :: "'x \<Rightarrow> bool"
  op_submit :: "normalized_order \<Rightarrow> 'x \<Rightarrow> 'x \<times> bool \<times> adapter_event list"
  op_cancel :: "cancel_request \<Rightarrow> 'x \<Rightarrow> 'x \<times> bool \<times> adapter_event list"
  op_reconcile :: "u64 \<Rightarrow> 'x \<Rightarrow> 'x \<times> reconciliation_snapshot"

datatype 'x any_adapter = NoAdapter | PaperAdapter paper_adapter | OtherAdapter 'x

text \<open>Is the pointer to the adapter set?\<close>

fun ad_present :: "'x any_adapter \<Rightarrow> bool" where
  "ad_present NoAdapter = False"
| "ad_present _ = True"

text \<open>The dispatch of the virtual functions; without an adapter none is called.\<close>

fun ad_isConnected :: "'x adapter_ops \<Rightarrow> 'x any_adapter \<Rightarrow> bool" where
  "ad_isConnected ops NoAdapter = False"
| "ad_isConnected ops (PaperAdapter a) = pa_connected a"
| "ad_isConnected ops (OtherAdapter x) = op_isConnected ops x"

fun ad_connect ::
  "'x adapter_ops \<Rightarrow> 'x any_adapter \<Rightarrow> 'x any_adapter \<times> bool \<times> adapter_event list" where
  "ad_connect ops NoAdapter = (NoAdapter, False, [])"
| "ad_connect ops (PaperAdapter a) =
     (case pa_connect a of (a, ok, events) \<Rightarrow> (PaperAdapter a, ok, events))"
| "ad_connect ops (OtherAdapter x) =
     (case op_connect ops x of (x, ok, events) \<Rightarrow> (OtherAdapter x, ok, events))"

fun ad_disconnect ::
  "'x adapter_ops \<Rightarrow> 'x any_adapter \<Rightarrow> 'x any_adapter \<times> adapter_event list" where
  "ad_disconnect ops NoAdapter = (NoAdapter, [])"
| "ad_disconnect ops (PaperAdapter a) =
     (case pa_disconnect a of (a, events) \<Rightarrow> (PaperAdapter a, events))"
| "ad_disconnect ops (OtherAdapter x) =
     (case op_disconnect ops x of (x, events) \<Rightarrow> (OtherAdapter x, events))"

fun ad_submit ::
  "fp_format \<Rightarrow> 'x adapter_ops \<Rightarrow> normalized_order \<Rightarrow> 'x any_adapter
   \<Rightarrow> 'x any_adapter \<times> bool \<times> adapter_event list" where
  "ad_submit L ops order NoAdapter = (NoAdapter, False, [])"
| "ad_submit L ops order (PaperAdapter a) =
     (case pa_submit L order a of (a, ok, events) \<Rightarrow> (PaperAdapter a, ok, events))"
| "ad_submit L ops order (OtherAdapter x) =
     (case op_submit ops order x of (x, ok, events) \<Rightarrow> (OtherAdapter x, ok, events))"

fun ad_cancel ::
  "'x adapter_ops \<Rightarrow> cancel_request \<Rightarrow> 'x any_adapter
   \<Rightarrow> 'x any_adapter \<times> bool \<times> adapter_event list" where
  "ad_cancel ops request NoAdapter = (NoAdapter, False, [])"
| "ad_cancel ops request (PaperAdapter a) =
     (case pa_cancel request a of (a, ok, events) \<Rightarrow> (PaperAdapter a, ok, events))"
| "ad_cancel ops request (OtherAdapter x) =
     (case op_cancel ops request x of (x, ok, events) \<Rightarrow> (OtherAdapter x, ok, events))"

fun ad_reconcile ::
  "'x adapter_ops \<Rightarrow> u64 \<Rightarrow> 'x any_adapter \<Rightarrow> 'x any_adapter \<times> reconciliation_snapshot" where
  "ad_reconcile ops t NoAdapter = (NoAdapter, reconciliation_default)"
| "ad_reconcile ops t (PaperAdapter a) =
     (case pa_reconcile t a of (a, snapshot) \<Rightarrow> (PaperAdapter a, snapshot))"
| "ad_reconcile ops t (OtherAdapter x) =
     (case op_reconcile ops t x of (x, snapshot) \<Rightarrow> (OtherAdapter x, snapshot))"

subsection \<open>The gateway\<close>

record dispatch_result =
  dsp_dispatched :: bool
  dsp_localOrderId :: u64
  dsp_failure :: failure_category
  dsp_reason :: string

record 'x gateway =
  gw_config :: system_config
  gw_build :: int
  gw_adapter :: "'x any_adapter"
  gw_liveAdapterApproved :: bool
  gw_lifecycle :: lifecycle_store
  gw_symbolAliases :: "string \<rightharpoonup> string"
  gw_instrumentSpecs :: "string \<rightharpoonup> instrument_spec"
  gw_lastReconciliation :: reconciliation_snapshot
  gw_health :: adapter_health_event
  gw_ackCallback :: bool
  gw_executionCallback :: bool
  gw_executionCallbacks :: nat
  gw_cancelCallback :: bool
  gw_healthCallback :: bool
  gw_totalOrdersSubmitted :: u64
  gw_totalFillsReceived :: u64
  gw_totalApiErrors :: u64
  gw_reconciliationCount :: u64

definition gw_paperAdapter :: "'x gateway \<Rightarrow> paper_adapter option" where
  "gw_paperAdapter g = (case gw_adapter g of PaperAdapter a \<Rightarrow> Some a | _ \<Rightarrow> None)"

text \<open>Binding replaces the adapter's four callbacks by the gateway's handlers.\<close>

definition gw_bindAdapterCallbacks :: "'x adapter_ops \<Rightarrow> 'x any_adapter \<Rightarrow> 'x any_adapter" where
  "gw_bindAdapterCallbacks ops ad =
     (case ad of
        NoAdapter \<Rightarrow> NoAdapter
      | PaperAdapter a \<Rightarrow> PaperAdapter (pa_setHealthCallback True (pa_setCancelCallback True
            (pa_setExecutionCallback True (pa_setAcknowledgementCallback True a))))
      | OtherAdapter x \<Rightarrow> OtherAdapter (op_bindCallbacks ops x))"

definition gw_init ::
  "int \<Rightarrow> 'x adapter_ops \<Rightarrow> system_config \<Rightarrow> 'x any_adapter \<Rightarrow> bool \<Rightarrow> 'x gateway" where
  "gw_init build ops config adapter liveAdapterApproved =
     \<lparr>gw_config = config, gw_build = build,
      gw_adapter = gw_bindAdapterCallbacks ops adapter,
      gw_liveAdapterApproved = liveAdapterApproved, gw_lifecycle = empty_store,
      gw_symbolAliases = Map.empty, gw_instrumentSpecs = Map.empty,
      gw_lastReconciliation = reconciliation_default, gw_health = health_default,
      gw_ackCallback = False, gw_executionCallback = False, gw_executionCallbacks = 0,
      gw_cancelCallback = False, gw_healthCallback = False, gw_totalOrdersSubmitted = 0,
      gw_totalFillsReceived = 0, gw_totalApiErrors = 0, gw_reconciliationCount = 0\<rparr>"

text \<open>The constructor without an adapter: paper mode creates the paper adapter.\<close>

definition gw_init_default :: "int \<Rightarrow> 'x adapter_ops \<Rightarrow> system_config \<Rightarrow> 'x gateway" where
  "gw_init_default build ops config =
     gw_init build ops config (if isPaperMode config then PaperAdapter paper_init else NoAdapter)
       False"

definition gw_adapterAuthorized :: "'x gateway \<Rightarrow> bool" where
  "gw_adapterAuthorized g \<longleftrightarrow>
     isPaperMode (gw_config g)
     \<or> (canEnterLiveRuntime (gw_build g) (gw_config g) \<and> gw_liveAdapterApproved g
        \<and> gw_paperAdapter g = None)"

definition gw_isConnected :: "'x adapter_ops \<Rightarrow> 'x gateway \<Rightarrow> bool" where
  "gw_isConnected ops g \<longleftrightarrow>
     gw_adapterAuthorized g \<and> ad_present (gw_adapter g) \<and> ad_isConnected ops (gw_adapter g)"

subsection \<open>Events of the adapter\<close>

text \<open>The output of an operation: what the engine's callbacks are called with, in order.\<close>

datatype gw_output =
    OutAck order_acknowledgement | OutExecution execution_event
  | OutObserver nat execution_event | OutCancel cancel_result | OutHealth adapter_health_event

definition gw_api_error :: "'x gateway \<Rightarrow> 'x gateway" where
  "gw_api_error g = g\<lparr>gw_totalApiErrors := gw_totalApiErrors g + 1\<rparr>"

definition gw_handleAcknowledgement ::
  "order_acknowledgement \<Rightarrow> 'x gateway \<Rightarrow> 'x gateway \<times> gw_output list" where
  "gw_handleAcknowledgement ack g =
     (case applyAcknowledgement ack (gw_lifecycle g) of
        (store, applied) \<Rightarrow>
          let g = g\<lparr>gw_lifecycle := store\<rparr>
          in if applied \<noteq> Applied then (gw_api_error g, [])
             else
               let g = (if \<not> ack_accepted ack then gw_api_error g else g)
               in (g, if gw_ackCallback g then [OutAck ack] else []))"

definition gw_handleExecution ::
  "execution_event \<Rightarrow> 'x gateway \<Rightarrow> 'x gateway \<times> gw_output list" where
  "gw_handleExecution execution g =
     (case applyExecution execution (gw_lifecycle g) of
        (store, applied) \<Rightarrow>
          let g = g\<lparr>gw_lifecycle := store\<rparr>
          in if applied \<noteq> Applied
             then (if applied \<noteq> Duplicate then gw_api_error g else g, [])
             else
               let g = g\<lparr>gw_totalFillsReceived := gw_totalFillsReceived g + 1\<rparr>
               in (g, (if gw_executionCallback g then [OutExecution execution] else [])
                      @ map (\<lambda>k. OutObserver k execution) [0..<gw_executionCallbacks g]))"

definition gw_handleCancel :: "cancel_result \<Rightarrow> 'x gateway \<Rightarrow> 'x gateway \<times> gw_output list" where
  "gw_handleCancel cancelled g =
     (case applyCancelResult cancelled (gw_lifecycle g) of
        (store, applied) \<Rightarrow>
          let g = g\<lparr>gw_lifecycle := store\<rparr>
          in if applied \<noteq> Applied then (gw_api_error g, [])
             else (g, if gw_cancelCallback g then [OutCancel cancelled] else []))"

definition gw_handleHealth ::
  "adapter_health_event \<Rightarrow> 'x gateway \<Rightarrow> 'x gateway \<times> gw_output list" where
  "gw_handleHealth health g =
     (let g = g\<lparr>gw_health := health\<rparr>
      in (g, if gw_healthCallback g then [OutHealth health] else []))"

fun gw_event :: "adapter_event \<Rightarrow> 'x gateway \<Rightarrow> 'x gateway \<times> gw_output list" where
  "gw_event (EvAck ack) g = gw_handleAcknowledgement ack g"
| "gw_event (EvExecution execution) g = gw_handleExecution execution g"
| "gw_event (EvCancel cancelled) g = gw_handleCancel cancelled g"
| "gw_event (EvHealth health) g = gw_handleHealth health g"

fun gw_events :: "adapter_event list \<Rightarrow> 'x gateway \<Rightarrow> 'x gateway \<times> gw_output list" where
  "gw_events [] g = (g, [])"
| "gw_events (e # es) g =
     (case gw_event e g of (g, out) \<Rightarrow> (case gw_events es g of (g, outs) \<Rightarrow> (g, out @ outs)))"

subsection \<open>Connection and settings\<close>

definition gw_health_failure :: "failure_category \<Rightarrow> string \<Rightarrow> string \<Rightarrow> adapter_health_event" where
  "gw_health_failure failure reason eventKey =
     \<lparr>hea_schemaVersion = 1, hea_state = H_Disconnected, hea_timestampNs = 0, hea_sequence = 0,
      hea_latencyMs = 0, hea_failure = failure, hea_reason = reason, hea_eventKey = eventKey\<rparr>"

definition gw_connect :: "'x adapter_ops \<Rightarrow> 'x gateway \<Rightarrow> 'x gateway \<times> gw_output list" where
  "gw_connect ops g =
     (if \<not> gw_adapterAuthorized g \<or> \<not> ad_present (gw_adapter g) then
        gw_handleHealth (gw_health_failure F_Validation
          (if isLiveMode (gw_config g) then ''LIVE adapter is not separately approved''
           else ''adapter unavailable in BACKTEST'') ''gateway-fail-closed'') g
      else case ad_connect ops (gw_adapter g) of
        (ad, ok, events) \<Rightarrow>
          (case gw_events events (g\<lparr>gw_adapter := ad\<rparr>) of
             (g, out) \<Rightarrow>
               if ok then (g, out)
               else (case gw_handleHealth (gw_health_failure F_Transport
                       ''adapter connection failed'' ''gateway-connect-failed'') g of
                       (g, out') \<Rightarrow> (g, out @ out'))))"

definition gw_disconnect :: "'x adapter_ops \<Rightarrow> 'x gateway \<Rightarrow> 'x gateway \<times> gw_output list" where
  "gw_disconnect ops g =
     (case ad_disconnect ops (gw_adapter g) of
        (ad, events) \<Rightarrow> gw_events events (g\<lparr>gw_adapter := ad\<rparr>))"

definition gw_setSymbolAlias :: "string \<Rightarrow> string \<Rightarrow> 'x gateway \<Rightarrow> 'x gateway" where
  "gw_setSymbolAlias canonicalSymbol executionAlias g =
     g\<lparr>gw_symbolAliases := (gw_symbolAliases g)(canonicalSymbol \<mapsto> executionAlias)\<rparr>"

text \<open>The settings that reach the paper adapter only when there is one.\<close>

definition gw_on_paper :: "(paper_adapter \<Rightarrow> paper_adapter) \<Rightarrow> 'x gateway \<Rightarrow> 'x gateway" where
  "gw_on_paper f g =
     (case gw_adapter g of PaperAdapter a \<Rightarrow> g\<lparr>gw_adapter := PaperAdapter (f a)\<rparr> | _ \<Rightarrow> g)"

definition gw_setInstrumentSpec :: "instrument_spec \<Rightarrow> 'x gateway \<Rightarrow> 'x gateway" where
  "gw_setInstrumentSpec spec g =
     gw_on_paper (pa_setInstrumentSpec spec)
       (g\<lparr>gw_instrumentSpecs := (gw_instrumentSpecs g)(ins_canonicalSymbol spec \<mapsto> spec)\<rparr>)"

definition gw_injectNextOrderError :: "string \<Rightarrow> 'x gateway \<Rightarrow> 'x gateway" where
  "gw_injectNextOrderError errorMessage = gw_on_paper (pa_injectNextError errorMessage)"

definition gw_injectNextPartialFill :: "fp \<Rightarrow> 'x gateway \<Rightarrow> 'x gateway" where
  "gw_injectNextPartialFill fillRatio = gw_on_paper (pa_injectNextPartialFill fillRatio)"

definition gw_setFaultInjectorConfig :: "fault_config \<Rightarrow> 'x gateway \<Rightarrow> 'x gateway" where
  "gw_setFaultInjectorConfig config = gw_on_paper (pa_setFaultConfig config)"

definition gw_faultInjectorConfig :: "'x gateway \<Rightarrow> fault_config" where
  "gw_faultInjectorConfig g =
     (case gw_paperAdapter g of None \<Rightarrow> fault_default | Some a \<Rightarrow> pa_faultConfig a)"

definition gw_setPaperSimulationCosts ::
  "fp_format \<Rightarrow> fp \<Rightarrow> fp \<Rightarrow> 'x gateway \<Rightarrow> 'x gateway \<times> bool" where
  "gw_setPaperSimulationCosts L feeRate slippageBps g =
     (case gw_adapter g of
        PaperAdapter a \<Rightarrow> (case pa_setSimulationCosts L feeRate slippageBps a of
            (a, ok) \<Rightarrow> (g\<lparr>gw_adapter := PaperAdapter a\<rparr>, ok))
      | _ \<Rightarrow> (g, False))"

definition gw_simulateExecutionEvent ::
  "execution_event \<Rightarrow> 'x gateway \<Rightarrow> 'x gateway \<times> gw_output list" where
  "gw_simulateExecutionEvent execution g = gw_handleExecution execution g"

definition gw_setAcknowledgementCallback :: "bool \<Rightarrow> 'x gateway \<Rightarrow> 'x gateway" where
  "gw_setAcknowledgementCallback callback g = g\<lparr>gw_ackCallback := callback\<rparr>"

definition gw_setExecutionCallback :: "bool \<Rightarrow> 'x gateway \<Rightarrow> 'x gateway" where
  "gw_setExecutionCallback callback g = g\<lparr>gw_executionCallback := callback\<rparr>"

definition gw_setCancelCallback :: "bool \<Rightarrow> 'x gateway \<Rightarrow> 'x gateway" where
  "gw_setCancelCallback callback g = g\<lparr>gw_cancelCallback := callback\<rparr>"

definition gw_setHealthCallback :: "bool \<Rightarrow> 'x gateway \<Rightarrow> 'x gateway" where
  "gw_setHealthCallback callback g = g\<lparr>gw_healthCallback := callback\<rparr>"

definition gw_addExecutionCallback :: "bool \<Rightarrow> 'x gateway \<Rightarrow> 'x gateway" where
  "gw_addExecutionCallback callback g =
     (if \<not> callback then g else g\<lparr>gw_executionCallbacks := gw_executionCallbacks g + 1\<rparr>)"


subsection \<open>Normalisation\<close>

text \<open>The two guards on the request, the instrument used, and the alias.\<close>

definition request_complete :: "order_request \<Rightarrow> bool" where
  "request_complete request \<longleftrightarrow>
     \<not> (req_localOrderId request = 0 \<or> req_canonicalSymbol request = []
        \<or> \<not> dec_isPositive (req_quantity request) \<or> req_idempotencyKey request = [])"

definition price_evidence :: "order_request \<Rightarrow> bool" where
  "price_evidence request \<longleftrightarrow>
     \<not> (req_type request = OT_Unknown
        \<or> (req_type request = OT_Market \<and> req_referencePrice request = None)
        \<or> (req_type request = OT_Limit \<and> req_limitPrice request = None)
        \<or> (req_type request = OT_Stop \<and> req_stopPrice request = None))"

definition gw_spec_for :: "'x gateway \<Rightarrow> order_request \<Rightarrow> instrument_spec" where
  "gw_spec_for g request =
     (case gw_instrumentSpecs g (req_canonicalSymbol request) of
        None \<Rightarrow> defaultInstrument request | Some spec \<Rightarrow> spec)"

definition gw_alias_for :: "'x gateway \<Rightarrow> order_request \<Rightarrow> string" where
  "gw_alias_for g request =
     (case gw_symbolAliases g (req_canonicalSymbol request) of
        None \<Rightarrow> ins_executionAlias (gw_spec_for g request) | Some alias \<Rightarrow> alias)"

definition normalizePrice :: "instrument_spec \<Rightarrow> decimal64 option \<Rightarrow> decimal64 option" where
  "normalizePrice spec price =
     (case price of None \<Rightarrow> None | Some p \<Rightarrow> normalizeToStep p (ins_tickSize spec))"

text \<open>The result is the reason of a rejection or the normalised order.\<close>

definition normalizeOrder :: "order_request \<Rightarrow> 'x gateway \<Rightarrow> string + normalized_order" where
  "normalizeOrder request g =
     (if \<not> request_complete request then Inl ''invalid broker-neutral order request''
      else if \<not> price_evidence request then Inl ''order type lacks required price evidence''
      else
        let spec = gw_spec_for g request; alias = gw_alias_for g request
        in if \<not> ins_complete spec \<or> \<not> dec_isPositive (ins_quantityStep spec)
           then Inl ''instrument metadata is incomplete''
           else case normalizeToStep (req_quantity request) (ins_quantityStep spec) of
             None \<Rightarrow> Inl ''quantity normalizes to zero or is not representable''
           | Some quantity \<Rightarrow>
               if \<not> dec_isPositive quantity
               then Inl ''quantity normalizes to zero or is not representable''
               else
                 (case (rescaleTowardZero (ins_minimumQuantity spec) (dec_scale quantity),
                        rescaleTowardZero (ins_maximumQuantity spec) (dec_scale quantity)) of
                    (Some minimum, Some maximum) \<Rightarrow>
                      if dec_units quantity < dec_units minimum
                         \<or> dec_units quantity > dec_units maximum
                      then Inl ''normalized quantity violates instrument bounds''
                      else
                        let limitPrice = normalizePrice spec (req_limitPrice request);
                            stopPrice = normalizePrice spec (req_stopPrice request);
                            referencePrice = normalizePrice spec (req_referencePrice request)
                        in if (req_limitPrice request \<noteq> None \<and> limitPrice = None)
                              \<or> (req_stopPrice request \<noteq> None \<and> stopPrice = None)
                              \<or> (req_referencePrice request \<noteq> None \<and> referencePrice = None)
                           then Inl ''price is not representable for instrument tick size''
                           else Inr \<lparr>nrm_request = request,
                             nrm_executionSymbol =
                               (if alias = [] then req_canonicalSymbol request else alias),
                             nrm_normalizedQuantity = quantity,
                             nrm_normalizedLimitPrice = limitPrice,
                             nrm_normalizedStopPrice = stopPrice,
                             nrm_normalizedReferencePrice = referencePrice,
                             nrm_instrumentVersion = ins_version spec\<rparr>
                  | _ \<Rightarrow> Inl ''normalized quantity violates instrument bounds''))"

subsection \<open>Dispatch, cancel, reconcile\<close>

text \<open>The event keys the gateway makes up.\<close>

definition riskKey :: "u64 \<Rightarrow> string" where
  "riskKey localOrderId = ''gateway-risk-'' @ to_string localOrderId"

definition submitKey :: "u64 \<Rightarrow> string" where
  "submitKey localOrderId = ''gateway-submit-'' @ to_string localOrderId"

definition dispatchFailedKey :: "u64 \<Rightarrow> string" where
  "dispatchFailedKey localOrderId = ''gateway-dispatch-failed-'' @ to_string localOrderId"

definition cancelFailedKey :: "u64 \<Rightarrow> string" where
  "cancelFailedKey localOrderId = ''gateway-cancel-dispatch-failed-'' @ to_string localOrderId"

definition dispatch_failed :: "u64 \<Rightarrow> failure_category \<Rightarrow> string \<Rightarrow> dispatch_result" where
  "dispatch_failed localOrderId failure reason =
     \<lparr>dsp_dispatched = False, dsp_localOrderId = localOrderId, dsp_failure = failure,
      dsp_reason = reason\<rparr>"

definition dispatch_request :: "normalized_order \<Rightarrow> order_request" where
  "dispatch_request order =
     (nrm_request order)
       \<lparr>req_quantity := nrm_normalizedQuantity order,
        req_limitPrice := nrm_normalizedLimitPrice order,
        req_stopPrice := nrm_normalizedStopPrice order,
        req_referencePrice := nrm_normalizedReferencePrice order\<rparr>"

text \<open>The locked block: it enters the order in the store, or tells why it could not.\<close>

definition dispatch_enter ::
  "normalized_order \<Rightarrow> lifecycle_store \<Rightarrow> lifecycle_store \<times> string option" where
  "dispatch_enter order store =
     (let request = nrm_request order;
          localOrderId = req_localOrderId request;
          baseSequence = req_sequence request
      in case create (dispatch_request order) store of
           (store, created) \<Rightarrow>
             if \<not> created then (store, Some ''duplicate or invalid order identity'')
             else case markRiskChecked localOrderId (riskKey localOrderId)
                         (req_timestampNs request) (baseSequence + 1) store of
               (store, applied) \<Rightarrow>
                 if applied \<noteq> Applied then (store, Some ''lifecycle dispatch transition failed'')
                 else case markSubmitted localOrderId
                             (submitKey localOrderId)
                             (req_timestampNs request) (baseSequence + 2) store of
                   (store, applied) \<Rightarrow>
                     if applied \<noteq> Applied
                     then (store, Some ''lifecycle dispatch transition failed'')
                     else (store, None))"

definition dispatchOrder ::
  "fp_format \<Rightarrow> 'x adapter_ops \<Rightarrow> normalized_order \<Rightarrow> risk_decision \<Rightarrow> 'x gateway
   \<Rightarrow> 'x gateway \<times> dispatch_result \<times> gw_output list" where
  "dispatchOrder L ops order finalRiskDecision g =
     (let request = nrm_request order; localOrderId = req_localOrderId request
      in if \<not> rsk_allowed finalRiskDecision then
           (g, dispatch_failed localOrderId
              (if rsk_failure finalRiskDecision = F_None then F_Validation
               else rsk_failure finalRiskDecision)
              (if rsk_reason finalRiskDecision = []
               then ''final quantity-aware risk decision rejected dispatch''
               else rsk_reason finalRiskDecision), [])
         else if \<not> gw_isConnected ops g then
           (gw_api_error g, dispatch_failed localOrderId F_Transport
              (if isLiveMode (gw_config g)
               then ''LIVE dispatch blocked: adapter not approved or connected''
               else ''adapter not connected''), [])
         else case dispatch_enter order (gw_lifecycle g) of
           (store, Some reason) \<Rightarrow>
             (gw_api_error (g\<lparr>gw_lifecycle := store\<rparr>),
              dispatch_failed localOrderId F_Validation reason, [])
         | (store, None) \<Rightarrow>
             (let g = g\<lparr>gw_lifecycle := store,
                        gw_totalOrdersSubmitted := gw_totalOrdersSubmitted g + 1\<rparr>
              in case ad_submit L ops order (gw_adapter g) of
                   (ad, ok, events) \<Rightarrow>
                     (case gw_events events (g\<lparr>gw_adapter := ad\<rparr>) of
                        (g, out) \<Rightarrow>
                          if \<not> ok then
                            let store = fst (markUnknown localOrderId
                                  (dispatchFailedKey localOrderId)
                                  F_Transport ''adapter refused dispatch''
                                  (req_timestampNs request) (req_sequence request + 3)
                                  (gw_lifecycle g))
                            in (gw_api_error (g\<lparr>gw_lifecycle := store\<rparr>),
                                dispatch_failed localOrderId F_Transport
                                  ''adapter refused dispatch'', out)
                          else (g, \<lparr>dsp_dispatched = True, dsp_localOrderId = localOrderId,
                                 dsp_failure = F_None, dsp_reason = []\<rparr>, out))))"

definition gw_requestCancel ::
  "'x adapter_ops \<Rightarrow> cancel_request \<Rightarrow> 'x gateway \<Rightarrow> 'x gateway \<times> bool \<times> gw_output list" where
  "gw_requestCancel ops request g =
     (if \<not> gw_isConnected ops g then (g, False, [])
      else case requestCancel request (gw_lifecycle g) of
        (store, applied) \<Rightarrow>
          let g = g\<lparr>gw_lifecycle := store\<rparr>
          in if applied \<noteq> Applied then (g, False, [])
             else case ad_cancel ops request (gw_adapter g) of
               (ad, ok, events) \<Rightarrow>
                 (case gw_events events (g\<lparr>gw_adapter := ad\<rparr>) of
                    (g, out) \<Rightarrow>
                      if ok then (g, True, out)
                      else
                        let store = fst (markUnknown (cxl_localOrderId request)
                              (cancelFailedKey (cxl_localOrderId request))
                              F_Transport ''adapter refused cancel dispatch''
                              (cxl_timestampNs request) (cxl_sequence request + 1)
                              (gw_lifecycle g))
                        in (g\<lparr>gw_lifecycle := store\<rparr>, False, out)))"

text \<open>The portfolio is read through \<open>getCashBalance\<close> and \<open>getTotalEquity\<close>.\<close>

definition amounts_differ :: "fp \<Rightarrow> decimal64 \<Rightarrow> bool" where
  "amounts_differ local d \<longleftrightarrow>
     fp_less (fp_round binary64 (1 / 100)) (fp_abs (fp_sub binary64 local (decimal_toDouble d)))"

definition reconciliationSnapshot ::
  "'x adapter_ops \<Rightarrow> fp \<Rightarrow> fp \<Rightarrow> u64 \<Rightarrow> 'x gateway \<Rightarrow> 'x gateway \<times> reconciliation_snapshot" where
  "reconciliationSnapshot ops cashBalance totalEquity timestampNs g =
     (let g = g\<lparr>gw_reconciliationCount := gw_reconciliationCount g + 1\<rparr>
      in if \<not> gw_isConnected ops g then
           (g, reconciliation_default
              \<lparr>rcn_timestampNs := timestampNs, rcn_status := R_Unsupported\<rparr>)
         else case ad_reconcile ops timestampNs (gw_adapter g) of
           (ad, snapshot) \<Rightarrow>
             let snapshot = (if acc_complete (rcn_account snapshot)
                     \<and> (amounts_differ cashBalance (acc_balance (rcn_account snapshot))
                        \<or> amounts_differ totalEquity (acc_equity (rcn_account snapshot)))
                   then snapshot\<lparr>rcn_status := R_PriceOrCostMismatch\<rparr> else snapshot)
             in (g\<lparr>gw_adapter := ad, gw_lastReconciliation := snapshot\<rparr>, snapshot))"

definition gw_orderLifecycle :: "u64 \<Rightarrow> 'x gateway \<Rightarrow> lifecycle_record option" where
  "gw_orderLifecycle localOrderId g = find_record localOrderId (gw_lifecycle g)"

end
