(* ===== verification/GatewayProps.thy ===== *)
theory GatewayProps
  imports Gateway LifecycleClaims
begin

text \<open>
  Lemmas on the gateway: exact rescaling and rounding to a step, the operations as one step
  function, and their effect on the lifecycle store and on the adapter.
\<close>

subsection \<open>Rescaling\<close>

lemma rescale_up_eq:
  "in_i64 u \<Longrightarrow> rescale_up n u = fit_i64 (u * 10 ^ n)"
proof (induction n arbitrary: u)
  case 0
  then show ?case by (simp add: fit_i64_def)
next
  case (Suc n)
  have lim: "cdiv INT64_MAX 10 = 922337203685477580" "cdiv INT64_MIN 10 = - 922337203685477580"
    by (simp_all add: cdiv_def i64_limits)
  show ?case
  proof (cases "in_i64 (u * 10)")
    case True
    then have "\<not> (u > 922337203685477580 \<or> u < - 922337203685477580)" by (simp add: i64_limits)
    with Suc.IH [OF True] show ?thesis by (simp add: lim mult.assoc)
  next
    case False
    then have guard: "u > 922337203685477580 \<or> u < - 922337203685477580"
      unfolding i64_limits by linarith
    have "\<bar>u * 10\<bar> * 1 \<le> \<bar>u * 10\<bar> * 10 ^ n" by (intro mult_left_mono) simp_all
    then have "\<bar>u * 10\<bar> \<le> \<bar>u * 10 ^ Suc n\<bar>" by (simp add: abs_mult mult.assoc)
    with guard have "\<not> in_i64 (u * 10 ^ Suc n)" unfolding i64_limits by linarith
    with guard show ?thesis by (auto simp: lim fit_i64_def)
  qed
qed

lemma rescale_down_eq: "rescale_down n u = cdiv u (10 ^ n)"
proof (induction n arbitrary: u)
  case 0
  show ?case by (cases "u = 0") (auto simp: cdiv_def sgn_if)
next
  case (Suc n)
  then show ?case by (simp add: cdiv_cdiv)
qed

lemma rescaleTowardZero_eq:
  assumes "in_i64 (dec_units v)"
  shows "rescaleTowardZero v t =
    (if dec_scale v > MAX_SCALE \<or> t > MAX_SCALE then None
     else map_option (\<lambda>u. decimal u t)
       (if dec_scale v \<le> t then fit_i64 (dec_units v * 10 ^ (unat t - unat (dec_scale v)))
        else Some (cdiv (dec_units v) (10 ^ (unat (dec_scale v) - unat t)))))"
proof -
  have "dec_units v * 10 ^ (unat t - unat (dec_scale v)) = dec_units v"
    if "\<not> dec_scale v \<le> t" using that by (simp add: word_le_nat_alt)
  then show ?thesis
    using assms
    by (auto simp: rescaleTowardZero_def rescale_up_eq rescale_down_eq word_le_nat_alt fit_i64_def
        cdiv_def sgn_if)
qed

subsection \<open>Values and steps\<close>

definition dec_value :: "decimal64 \<Rightarrow> rat" where
  "dec_value d = of_int (dec_units d) / 10 ^ unat (dec_scale d)"

lemma floor_div_rat:
  assumes "0 < b"
  shows "\<lfloor>x / rat_of_int b\<rfloor> = \<lfloor>x\<rfloor> div b"
proof (rule floor_unique)
  define f where "f = \<lfloor>x\<rfloor>"
  have f: "of_int f \<le> x" "x < of_int f + 1" using floor_correct [of x] by (simp_all add: f_def)
  have m: "f div b * b \<le> f" "f < f div b * b + b"
    using assms pos_mod_bound [OF assms, of f] by (simp_all add: minus_mod_eq_div_mult [symmetric])
  have "rat_of_int (f div b * b) \<le> of_int f" using m(1) by (simp only: of_int_le_iff)
  with f(1) have "of_int (f div b) * of_int b \<le> x" by simp
  with assms show "rat_of_int (\<lfloor>x\<rfloor> div b) \<le> x / of_int b" by (simp add: f_def pos_le_divide_eq)
  have "f + 1 \<le> f div b * b + b" using m(2) by simp
  then have "rat_of_int (f + 1) \<le> of_int (f div b * b + b)" by (simp only: of_int_le_iff)
  with f(2) have "x < (of_int (f div b) + 1) * of_int b" by (simp add: algebra_simps)
  with assms show "x / of_int b < rat_of_int (\<lfloor>x\<rfloor> div b) + 1" by (simp add: f_def pos_divide_less_eq)
qed

lemma rescale_nonneg:
  assumes "rescaleTowardZero v t = Some d" and "0 \<le> dec_units v" and "in_i64 (dec_units v)"
  shows "dec_scale d = t \<and> dec_units d = \<lfloor>dec_value v * 10 ^ unat t\<rfloor>"
proof (cases "dec_scale v \<le> t")
  case True
  then have le: "unat (dec_scale v) \<le> unat t" by (simp add: word_le_nat_alt)
  have "(10 :: rat) ^ unat t / 10 ^ unat (dec_scale v) = 10 ^ (unat t - unat (dec_scale v))"
    using le by (simp add: power_diff)
  then have "dec_value v * 10 ^ unat t
      = of_int (dec_units v * 10 ^ (unat t - unat (dec_scale v)))"
    by (simp add: dec_value_def field_simps)
  then have "\<lfloor>dec_value v * 10 ^ unat t\<rfloor> = dec_units v * 10 ^ (unat t - unat (dec_scale v))"
    by (simp only: floor_of_int)
  with assms True show ?thesis
    by (auto simp: rescaleTowardZero_eq fit_i64_def split: if_splits)
next
  case False
  then have le: "unat t \<le> unat (dec_scale v)" by (simp add: word_le_nat_alt)
  have "(10 :: rat) ^ unat (dec_scale v) = 10 ^ (unat (dec_scale v) - unat t) * 10 ^ unat t"
    using le by (simp flip: power_add)
  then have "dec_value v * 10 ^ unat t
      = of_int (dec_units v) / of_int (10 ^ (unat (dec_scale v) - unat t))"
    by (simp add: dec_value_def)
  then have "\<lfloor>dec_value v * 10 ^ unat t\<rfloor> = dec_units v div 10 ^ (unat (dec_scale v) - unat t)"
    by (simp only: floor_divide_of_int_eq)
  with assms False show ?thesis
    by (auto simp: rescaleTowardZero_eq cdiv_nonneg split: if_splits)
qed

lemma normalizeToStep_floor:
  assumes "normalizeToStep v step = Some q" and "in_i64 (dec_units v)"
  shows "dec_scale q = dec_scale step
    \<and> dec_units q = \<lfloor>dec_value v / dec_value step\<rfloor> * dec_units step
    \<and> 0 < dec_units step \<and> 0 < dec_units v"
proof -
  obtain d where d: "rescaleTowardZero v (dec_scale step) = Some d"
    and pos: "0 < dec_units v" "0 < dec_units step"
    and q: "q = decimal (cdiv (dec_units d) (dec_units step) * dec_units step) (dec_scale step)"
    using assms(1) by (auto simp: normalizeToStep_def dec_isPositive_def split: if_splits option.splits)
  note r = rescale_nonneg [OF d _ assms(2)]
  have du: "dec_units d = \<lfloor>dec_value v * 10 ^ unat (dec_scale step)\<rfloor>" using r pos by simp
  have "0 \<le> dec_value v" using pos by (simp add: dec_value_def)
  then have "0 \<le> dec_units d" by (simp add: du)
  moreover have "dec_units d div dec_units step
      = \<lfloor>dec_value v * 10 ^ unat (dec_scale step) / of_int (dec_units step)\<rfloor>"
    unfolding du using pos(2) by (simp add: floor_div_rat)
  ultimately show ?thesis
    using pos by (simp add: q cdiv_nonneg dec_value_def field_simps)
qed

text \<open>Rounded down to the step: on its grid, at most the value, and less than a step below it.\<close>

definition stepped_down :: "decimal64 \<Rightarrow> decimal64 \<Rightarrow> decimal64 \<Rightarrow> bool" where
  "stepped_down v step q \<longleftrightarrow> dec_scale q = dec_scale step \<and> dec_units step dvd dec_units q
     \<and> 0 \<le> dec_value q \<and> dec_value q \<le> dec_value v \<and> dec_value v < dec_value q + dec_value step"

lemma normalizeToStep_stepped_down:
  assumes "normalizeToStep v step = Some q" and "in_i64 (dec_units v)"
  shows "stepped_down v step q"
proof -
  note n = normalizeToStep_floor [OF assms]
  define f where "f = \<lfloor>dec_value v / dec_value step\<rfloor>"
  have pos: "0 < dec_value step" "0 < dec_value v" using n by (simp_all add: dec_value_def)
  have q: "dec_value q = of_int f * dec_value step" using n by (simp add: dec_value_def f_def)
  have "of_int f \<le> dec_value v / dec_value step" "dec_value v / dec_value step < of_int f + 1"
    using floor_correct [of "dec_value v / dec_value step"] by (simp_all add: f_def)
  with pos have "dec_value q \<le> dec_value v" "dec_value v < dec_value q + dec_value step"
    by (simp_all add: q pos_le_divide_eq pos_divide_less_eq algebra_simps)
  moreover have "0 \<le> f" using pos by (simp add: f_def)
  ultimately show ?thesis using n pos by (simp add: stepped_down_def q f_def)
qed


subsection \<open>Operations as one step function\<close>

datatype gw_op =
    GO_connect | GO_disconnect | GO_alias string string | GO_spec instrument_spec
  | GO_dispatch normalized_order risk_decision | GO_cancel cancel_request
  | GO_reconcile fp fp u64 | GO_event adapter_event | GO_simulate execution_event
  | GO_error string | GO_partial fp | GO_costs fp fp | GO_faults fault_config
  | GO_ackCallback bool | GO_executionCallback bool | GO_addExecutionCallback bool
  | GO_cancelCallback bool | GO_healthCallback bool

fun gw_exec ::
  "fp_format \<Rightarrow> 'x adapter_ops \<Rightarrow> gw_op \<Rightarrow> 'x gateway \<Rightarrow> 'x gateway \<times> gw_output list" where
  "gw_exec L ops GO_connect g = gw_connect ops g"
| "gw_exec L ops GO_disconnect g = gw_disconnect ops g"
| "gw_exec L ops (GO_alias c e) g = (gw_setSymbolAlias c e g, [])"
| "gw_exec L ops (GO_spec spec) g = (gw_setInstrumentSpec spec g, [])"
| "gw_exec L ops (GO_dispatch order risk) g =
     (case dispatchOrder L ops order risk g of (g, r, out) \<Rightarrow> (g, out))"
| "gw_exec L ops (GO_cancel request) g =
     (case gw_requestCancel ops request g of (g, r, out) \<Rightarrow> (g, out))"
| "gw_exec L ops (GO_reconcile cash equity t) g =
     (fst (reconciliationSnapshot ops cash equity t g), [])"
| "gw_exec L ops (GO_event event) g = gw_event event g"
| "gw_exec L ops (GO_simulate execution) g = gw_simulateExecutionEvent execution g"
| "gw_exec L ops (GO_error reason) g = (gw_injectNextOrderError reason g, [])"
| "gw_exec L ops (GO_partial ratio) g = (gw_injectNextPartialFill ratio g, [])"
| "gw_exec L ops (GO_costs f sl) g = (fst (gw_setPaperSimulationCosts L f sl g), [])"
| "gw_exec L ops (GO_faults config) g = (gw_setFaultInjectorConfig config g, [])"
| "gw_exec L ops (GO_ackCallback b) g = (gw_setAcknowledgementCallback b g, [])"
| "gw_exec L ops (GO_executionCallback b) g = (gw_setExecutionCallback b g, [])"
| "gw_exec L ops (GO_addExecutionCallback b) g = (gw_addExecutionCallback b g, [])"
| "gw_exec L ops (GO_cancelCallback b) g = (gw_setCancelCallback b g, [])"
| "gw_exec L ops (GO_healthCallback b) g = (gw_setHealthCallback b g, [])"

definition gw_step :: "fp_format \<Rightarrow> 'x adapter_ops \<Rightarrow> gw_op \<Rightarrow> 'x gateway \<Rightarrow> 'x gateway" where
  "gw_step L ops op g = fst (gw_exec L ops op g)"

definition gw_after ::
  "fp_format \<Rightarrow> 'x adapter_ops \<Rightarrow> gw_op list \<Rightarrow> 'x gateway \<Rightarrow> 'x gateway" where
  "gw_after L ops os g = run_machine (gw_step L ops) os g"

lemma gw_after_simps [simp]:
  "gw_after L ops [] g = g"
  "gw_after L ops (op # os) g = gw_after L ops os (gw_step L ops op g)"
  by (simp_all add: gw_after_def)

lemma gw_after_append: "gw_after L ops (os @ ps) g = gw_after L ops ps (gw_after L ops os g)"
  by (simp add: gw_after_def run_machine_append)

subsection \<open>Effect of the events\<close>

text \<open>What the events do to the lifecycle store alone.\<close>

fun store_event :: "adapter_event \<Rightarrow> lifecycle_store \<Rightarrow> lifecycle_store" where
  "store_event (EvAck ack) s = fst (applyAcknowledgement ack s)"
| "store_event (EvExecution execution) s = fst (applyExecution execution s)"
| "store_event (EvCancel cancelled) s = fst (applyCancelResult cancelled s)"
| "store_event (EvHealth health) s = s"

definition store_events :: "adapter_event list \<Rightarrow> lifecycle_store \<Rightarrow> lifecycle_store" where
  "store_events = run_machine store_event"

lemma store_events_simps [simp]:
  "store_events [] s = s"
  "store_events (e # es) s = store_events es (store_event e s)"
  "store_events (es @ fs) s = store_events fs (store_events es s)"
  by (simp_all add: store_events_def run_machine_append)

text \<open>Everything but the store, the health and two counters is untouched by an event.\<close>

definition same_frame :: "'x gateway \<Rightarrow> 'x gateway \<Rightarrow> bool" where
  "same_frame g h \<longleftrightarrow>
     gw_config h = gw_config g \<and> gw_build h = gw_build g
     \<and> gw_liveAdapterApproved h = gw_liveAdapterApproved g \<and> gw_adapter h = gw_adapter g
     \<and> gw_totalOrdersSubmitted h = gw_totalOrdersSubmitted g"

lemma same_frame_refl [simp]: "same_frame g g" by (simp add: same_frame_def)

lemma same_frame_trans: "same_frame g h \<Longrightarrow> same_frame h k \<Longrightarrow> same_frame g k"
  by (simp add: same_frame_def)

lemmas gw_handler_defs = gw_handleAcknowledgement_def gw_handleExecution_def gw_handleCancel_def
  gw_handleHealth_def gw_api_error_def Let_def

lemma gw_event_effect:
  "gw_lifecycle (fst (gw_event e g)) = store_event e (gw_lifecycle g)
   \<and> same_frame g (fst (gw_event e g))"
  by (cases e) (auto simp: gw_handler_defs same_frame_def split: prod.splits)

lemma gw_events_effect:
  "gw_lifecycle (fst (gw_events es g)) = store_events es (gw_lifecycle g)
   \<and> same_frame g (fst (gw_events es g))"
proof (induction es arbitrary: g)
  case (Cons e es)
  obtain g1 out where e: "gw_event e g = (g1, out)" by fastforce
  obtain g2 outs where es: "gw_events es g1 = (g2, outs)" by fastforce
  from gw_event_effect [of e g] Cons.IH [of g1] show ?case
    by (simp add: e es same_frame_def)
qed simp

lemma gw_events_fst:
  assumes "gw_events es g = (h, out)"
  shows "gw_lifecycle h = store_events es (gw_lifecycle g) \<and> same_frame g h"
  using gw_events_effect [of es g] assms by simp


subsection \<open>Effect of the operations on the store\<close>

text \<open>The calls the gateway makes: never a timeout, never a reconciliation.\<close>

fun gw_call :: "lifecycle_call \<Rightarrow> bool" where
  "gw_call (Call_timeout i k t n) = False"
| "gw_call (Call_reconcile i st c m k t n) = False"
| "gw_call _ = True"

definition gw_reaches :: "lifecycle_store \<Rightarrow> lifecycle_store \<Rightarrow> bool" where
  "gw_reaches s t \<longleftrightarrow> (\<exists>cs. (\<forall>c \<in> set cs. gw_call c) \<and> t = run_machine store_step cs s)"

lemma gw_reaches_refl [simp]: "gw_reaches s s"
  unfolding gw_reaches_def by (rule exI [of _ "[]"]) simp

lemma gw_reaches_trans:
  assumes "gw_reaches s t" and "gw_reaches t u"
  shows "gw_reaches s u"
proof -
  from assms obtain cs ds where "\<forall>c \<in> set cs. gw_call c" "t = run_machine store_step cs s"
      "\<forall>c \<in> set ds. gw_call c" "u = run_machine store_step ds t"
    by (auto simp: gw_reaches_def)
  then have "(\<forall>c \<in> set (cs @ ds). gw_call c) \<and> u = run_machine store_step (cs @ ds) s"
    by (auto simp: run_machine_append)
  then show ?thesis unfolding gw_reaches_def by blast
qed

lemma gw_reaches_call: "gw_call c \<Longrightarrow> gw_reaches s (fst (exec_call c s))"
  unfolding gw_reaches_def by (rule exI [of _ "[c]"]) (simp add: store_step_def)

lemma store_event_reaches: "gw_reaches s (store_event e s)"
  using gw_reaches_call [of "Call_acknowledge _"] gw_reaches_call [of "Call_execution _"]
    gw_reaches_call [of "Call_cancelResult _"]
  by (cases e) auto

lemma store_events_reaches: "gw_reaches s (store_events es s)"
  by (induction es arbitrary: s) (auto intro: gw_reaches_trans store_event_reaches)

lemma create_reaches: "create q s = (t, ok) \<Longrightarrow> gw_reaches s t"
  using gw_reaches_call [of "Call_create q" s] by simp

lemma dispatch_enter_reaches:
  assumes "dispatch_enter order s = (t, r)"
  shows "gw_reaches s t"
proof -
  obtain s1 ok where c: "create (dispatch_request order) s = (s1, ok)" by fastforce
  note r1 = create_reaches [OF c]
  let ?q = "nrm_request order"
  let ?i = "req_localOrderId ?q" and ?t = "req_timestampNs ?q" and ?n = "req_sequence ?q"
  obtain s2 a2 where m2: "markRiskChecked ?i (riskKey ?i) ?t (?n + 1) s1
      = (s2, a2)" by fastforce
  obtain s3 a3 where m3: "markSubmitted ?i (submitKey ?i) ?t (?n + 2) s2
      = (s3, a3)" by fastforce
  have r2: "gw_reaches s1 s2" using gw_reaches_call [of "Call_riskChecked _ _ _ _" s1] m2
    by (metis exec_call.simps(2) fst_conv gw_call.simps(4))
  have r3: "gw_reaches s2 s3" using gw_reaches_call [of "Call_submitted _ _ _ _" s2] m3
    by (metis exec_call.simps(3) fst_conv gw_call.simps(5))
  from assms r1 r2 r3 show ?thesis
    by (auto simp: dispatch_enter_def c m2 m3 Let_def split: if_splits
        intro: gw_reaches_trans)
qed

lemma markUnknown_reaches: "gw_reaches s (fst (markUnknown i k f w t n s))"
  using gw_reaches_call [of "Call_unknown i k f w t n" s] by simp

lemma dispatchOrder_reaches:
  assumes "dispatchOrder L ops order risk g = (h, r, out)"
  shows "gw_reaches (gw_lifecycle g) (gw_lifecycle h)"
proof -
  obtain s why where e: "dispatch_enter order (gw_lifecycle g) = (s, why)" by fastforce
  note r0 = dispatch_enter_reaches [OF e]
  obtain ad ok es where sub: "ad_submit L ops order (gw_adapter g) = (ad, ok, es)"
    by (metis prod_cases3)
  define g1 where "g1 = g\<lparr>gw_lifecycle := s,
    gw_totalOrdersSubmitted := gw_totalOrdersSubmitted g + 1\<rparr>\<lparr>gw_adapter := ad\<rparr>"
  obtain g2 out2 where ev: "gw_events es g1 = (g2, out2)" by fastforce
  have "gw_lifecycle g2 = store_events es s"
    using gw_events_fst [OF ev] by (simp add: g1_def)
  then have r1: "gw_reaches s (gw_lifecycle g2)" by (simp add: store_events_reaches)
  show ?thesis
    using assms r0 gw_reaches_trans [OF r0 r1]
      gw_reaches_trans [OF gw_reaches_trans [OF r0 r1] markUnknown_reaches]
    by (auto simp: dispatchOrder_def e sub ev [unfolded g1_def] gw_api_error_def Let_def
        split: if_splits option.splits)
qed

lemma gw_requestCancel_reaches:
  assumes "gw_requestCancel ops request g = (h, r, out)"
  shows "gw_reaches (gw_lifecycle g) (gw_lifecycle h)"
proof -
  obtain s applied where e: "requestCancel request (gw_lifecycle g) = (s, applied)" by fastforce
  have r0: "gw_reaches (gw_lifecycle g) s"
    using gw_reaches_call [of "Call_requestCancel request" "gw_lifecycle g"] by (simp add: e)
  obtain ad ok es where sub: "ad_cancel ops request (gw_adapter g) = (ad, ok, es)"
    by (metis prod_cases3)
  define g1 where "g1 = g\<lparr>gw_lifecycle := s\<rparr>\<lparr>gw_adapter := ad\<rparr>"
  obtain g2 out2 where ev: "gw_events es g1 = (g2, out2)" by fastforce
  have "gw_lifecycle g2 = store_events es s"
    using gw_events_fst [OF ev] by (simp add: g1_def)
  then have r1: "gw_reaches s (gw_lifecycle g2)" by (simp add: store_events_reaches)
  show ?thesis
    using assms r0 gw_reaches_trans [OF r0 r1]
      gw_reaches_trans [OF gw_reaches_trans [OF r0 r1] markUnknown_reaches]
    by (auto simp: gw_requestCancel_def e sub ev [unfolded g1_def] Let_def split: if_splits)
qed

lemma gw_connect_reaches:
  assumes "gw_connect ops g = (h, out)"
  shows "gw_reaches (gw_lifecycle g) (gw_lifecycle h)"
proof -
  obtain ad ok es where c: "ad_connect ops (gw_adapter g) = (ad, ok, es)" by (metis prod_cases3)
  obtain g2 out2 where ev: "gw_events es (g\<lparr>gw_adapter := ad\<rparr>) = (g2, out2)" by fastforce
  have "gw_reaches (gw_lifecycle g) (gw_lifecycle g2)"
    using gw_events_fst [OF ev] by (simp add: store_events_reaches)
  with assms show ?thesis
    by (auto simp: gw_connect_def c ev gw_handleHealth_def Let_def split: if_splits)
qed

lemma gw_step_reaches: "gw_reaches (gw_lifecycle g) (gw_lifecycle (gw_step L ops op g))"
proof (cases op)
  case GO_connect
  then show ?thesis
    using gw_connect_reaches [OF surjective_pairing, of g ops] by (simp add: gw_step_def)
next
  case GO_disconnect
  obtain ad es where d: "ad_disconnect ops (gw_adapter g) = (ad, es)" by fastforce
  with GO_disconnect gw_events_effect [of es "g\<lparr>gw_adapter := ad\<rparr>"] show ?thesis
    by (simp add: gw_step_def gw_disconnect_def store_events_reaches)
next
  case (GO_dispatch order risk)
  obtain h r out where "dispatchOrder L ops order risk g = (h, r, out)" by (metis prod_cases3)
  with GO_dispatch dispatchOrder_reaches [OF this] show ?thesis by (simp add: gw_step_def)
next
  case (GO_cancel request)
  obtain h r out where "gw_requestCancel ops request g = (h, r, out)" by (metis prod_cases3)
  with GO_cancel gw_requestCancel_reaches [OF this] show ?thesis by (simp add: gw_step_def)
next
  case (GO_event e)
  with gw_event_effect [of e g] show ?thesis by (simp add: gw_step_def store_event_reaches)
next
  case (GO_simulate e)
  with gw_event_effect [of "EvExecution e" g] store_event_reaches [of _ "EvExecution e"]
  show ?thesis by (simp add: gw_step_def gw_simulateExecutionEvent_def)
qed (auto simp: gw_step_def gw_setSymbolAlias_def gw_setInstrumentSpec_def gw_on_paper_def
    reconciliationSnapshot_def gw_injectNextOrderError_def gw_injectNextPartialFill_def
    gw_setPaperSimulationCosts_def gw_setFaultInjectorConfig_def
    gw_setAcknowledgementCallback_def gw_setExecutionCallback_def gw_addExecutionCallback_def
    gw_setCancelCallback_def gw_setHealthCallback_def Let_def
    split: any_adapter.splits prod.splits)

lemma gw_after_reaches: "gw_reaches (gw_lifecycle g) (gw_lifecycle (gw_after L ops os g))"
  by (induction os arbitrary: g) (auto intro: gw_reaches_trans gw_step_reaches)


subsection \<open>Authorisation never changes\<close>

definition adapter_kind :: "'x any_adapter \<Rightarrow> nat" where
  "adapter_kind ad = (case ad of NoAdapter \<Rightarrow> 0 | PaperAdapter a \<Rightarrow> 1 | OtherAdapter x \<Rightarrow> 2)"

definition same_authority :: "'x gateway \<Rightarrow> 'x gateway \<Rightarrow> bool" where
  "same_authority g h \<longleftrightarrow>
     gw_config h = gw_config g \<and> gw_build h = gw_build g
     \<and> gw_liveAdapterApproved h = gw_liveAdapterApproved g
     \<and> adapter_kind (gw_adapter h) = adapter_kind (gw_adapter g)"

lemma same_authority_refl [simp]: "same_authority g g" by (simp add: same_authority_def)

lemma same_authority_trans: "same_authority g h \<Longrightarrow> same_authority h k \<Longrightarrow> same_authority g k"
  by (simp add: same_authority_def)

lemma same_frame_authority: "same_frame g h \<Longrightarrow> same_authority g h"
  by (simp add: same_frame_def same_authority_def)

lemma same_authority_authorized:
  "same_authority g h \<Longrightarrow> gw_adapterAuthorized h = gw_adapterAuthorized g"
  by (auto simp: same_authority_def gw_adapterAuthorized_def gw_paperAdapter_def
      adapter_kind_def split: any_adapter.splits)

lemma kind_fst:
  "adapter_kind (fst (ad_connect ops ad)) = adapter_kind ad"
  "adapter_kind (fst (ad_disconnect ops ad)) = adapter_kind ad"
  "adapter_kind (fst (ad_submit L ops order ad)) = adapter_kind ad"
  "adapter_kind (fst (ad_cancel ops request ad)) = adapter_kind ad"
  "adapter_kind (fst (ad_reconcile ops t ad)) = adapter_kind ad"
  by (cases ad; simp add: adapter_kind_def split: prod.splits)+

lemma gw_events_authority:
  "gw_events es (g\<lparr>gw_adapter := ad\<rparr>) = (h, out) \<Longrightarrow> adapter_kind ad = adapter_kind (gw_adapter g)
   \<Longrightarrow> same_authority g h"
  using gw_events_fst [of es "g\<lparr>gw_adapter := ad\<rparr>" h out]
  by (auto simp: same_frame_def same_authority_def)

lemma gw_step_authority: "same_authority g (gw_step L ops op g)"
proof (cases op)
  case GO_connect
  obtain ad ok es where c: "ad_connect ops (gw_adapter g) = (ad, ok, es)" by (metis prod_cases3)
  obtain g2 out2 where ev: "gw_events es (g\<lparr>gw_adapter := ad\<rparr>) = (g2, out2)" by fastforce
  have "same_authority g g2"
    using gw_events_authority [OF ev] kind_fst(1) [of ops "gw_adapter g"] by (simp add: c)
  with GO_connect show ?thesis
    by (auto simp: gw_step_def gw_connect_def c ev gw_handleHealth_def Let_def same_authority_def)
next
  case GO_disconnect
  obtain ad es where c: "ad_disconnect ops (gw_adapter g) = (ad, es)" by fastforce
  obtain g2 out2 where ev: "gw_events es (g\<lparr>gw_adapter := ad\<rparr>) = (g2, out2)" by fastforce
  have "same_authority g g2"
    using gw_events_authority [OF ev] kind_fst(2) [of ops "gw_adapter g"] by (simp add: c)
  with GO_disconnect show ?thesis by (simp add: gw_step_def gw_disconnect_def c ev)
next
  case (GO_dispatch order risk)
  obtain s why where e: "dispatch_enter order (gw_lifecycle g) = (s, why)" by fastforce
  obtain ad ok es where sub: "ad_submit L ops order (gw_adapter g) = (ad, ok, es)"
    by (metis prod_cases3)
  define g1 where "g1 = g\<lparr>gw_lifecycle := s,
    gw_totalOrdersSubmitted := gw_totalOrdersSubmitted g + 1\<rparr>"
  obtain g2 out2 where ev: "gw_events es (g1\<lparr>gw_adapter := ad\<rparr>) = (g2, out2)" by fastforce
  have "same_authority g1 g2"
    using gw_events_authority [OF ev] kind_fst(3) [of L ops order "gw_adapter g"]
    by (simp add: sub g1_def)
  then have a: "same_authority g g2" by (simp add: same_authority_def g1_def)
  with GO_dispatch show ?thesis
    by (auto simp: gw_step_def dispatchOrder_def e sub ev [unfolded g1_def] gw_api_error_def
        Let_def same_authority_def split: option.splits)
next
  case (GO_cancel request)
  obtain s applied where e: "requestCancel request (gw_lifecycle g) = (s, applied)" by fastforce
  obtain ad ok es where sub: "ad_cancel ops request (gw_adapter g) = (ad, ok, es)"
    by (metis prod_cases3)
  obtain g2 out2 where ev: "gw_events es (g\<lparr>gw_lifecycle := s\<rparr>\<lparr>gw_adapter := ad\<rparr>) = (g2, out2)"
    by fastforce
  have "same_authority (g\<lparr>gw_lifecycle := s\<rparr>) g2"
    using gw_events_authority [OF ev] kind_fst(4) [of ops request "gw_adapter g"]
    by (simp add: sub)
  then have "same_authority g g2" by (simp add: same_authority_def)
  with GO_cancel ev show ?thesis
    by (auto simp: gw_step_def gw_requestCancel_def e sub Let_def same_authority_def)
next
  case (GO_reconcile cash equity t)
  obtain ad snap where r: "ad_reconcile ops t (gw_adapter g) = (ad, snap)" by fastforce
  with GO_reconcile kind_fst(5) [of ops t "gw_adapter g"] show ?thesis
    by (auto simp: gw_step_def reconciliationSnapshot_def Let_def same_authority_def)
next
  case (GO_event e)
  with gw_event_effect [of e g] show ?thesis by (simp add: gw_step_def same_frame_authority)
next
  case (GO_simulate e)
  with gw_event_effect [of "EvExecution e" g] show ?thesis
    by (simp add: gw_step_def gw_simulateExecutionEvent_def same_frame_authority)
qed (auto simp: gw_step_def gw_setSymbolAlias_def gw_setInstrumentSpec_def gw_on_paper_def
    gw_injectNextOrderError_def gw_injectNextPartialFill_def adapter_kind_def
    gw_setPaperSimulationCosts_def gw_setFaultInjectorConfig_def same_authority_def
    gw_setAcknowledgementCallback_def gw_setExecutionCallback_def gw_addExecutionCallback_def
    gw_setCancelCallback_def gw_setHealthCallback_def Let_def
    split: any_adapter.splits prod.splits)

lemma gw_after_authority: "same_authority g (gw_after L ops os g)"
  by (induction os arbitrary: g) (auto intro: same_authority_trans gw_step_authority)

subsection \<open>Without authority\<close>

text \<open>Which orders and submissions an unauthorised gateway has seen: none.\<close>

lemma store_event_empty: "m_records s = Map.empty \<Longrightarrow> store_event e s = s"
  by (cases e) (simp_all add: applyAcknowledgement_def applyExecution_def applyCancelResult_def)

lemma store_events_empty: "m_records s = Map.empty \<Longrightarrow> store_events es s = s"
  by (induction es arbitrary: s) (simp_all add: store_event_empty)

definition idle :: "'x gateway \<Rightarrow> bool" where
  "idle g \<longleftrightarrow> gw_lifecycle g = empty_store \<and> gw_totalOrdersSubmitted g = 0"

lemma unauthorized_step_idle:
  assumes "\<not> gw_adapterAuthorized g" and "idle g"
  shows "idle (gw_step L ops op g)"
proof -
  have nc: "\<not> gw_isConnected ops g" using assms(1) by (simp add: gw_isConnected_def)
  have [simp]: "m_records empty_store = Map.empty" by (simp add: empty_store_def)
  have ev: "idle (fst (gw_events es (g\<lparr>gw_adapter := ad\<rparr>)))" for es ad
    using gw_events_effect [of es "g\<lparr>gw_adapter := ad\<rparr>"] assms(2)
    by (simp add: idle_def store_events_empty same_frame_def)
  have ev1: "idle (fst (gw_event e g))" for e
    using gw_event_effect [of e g] assms(2)
    by (simp add: idle_def store_event_empty same_frame_def)
  show ?thesis
  proof (cases op)
    case (GO_simulate e)
    with ev1 [of "EvExecution e"] show ?thesis
      by (simp add: gw_step_def gw_simulateExecutionEvent_def)
  next
    case GO_connect
    with assms show ?thesis
      by (simp add: gw_step_def gw_connect_def gw_handleHealth_def Let_def idle_def)
  qed (use ev ev1 nc assms in \<open>auto simp: gw_step_def gw_disconnect_def dispatchOrder_def
    gw_requestCancel_def reconciliationSnapshot_def gw_setSymbolAlias_def
    gw_setInstrumentSpec_def gw_on_paper_def gw_injectNextOrderError_def gw_api_error_def
    gw_injectNextPartialFill_def gw_setPaperSimulationCosts_def gw_setFaultInjectorConfig_def
    gw_setAcknowledgementCallback_def gw_setExecutionCallback_def gw_addExecutionCallback_def
    gw_setCancelCallback_def gw_setHealthCallback_def Let_def idle_def
    split: any_adapter.splits prod.splits\<close>)
qed

lemma unauthorized_after_idle:
  "\<not> gw_adapterAuthorized g \<Longrightarrow> idle g \<Longrightarrow> idle (gw_after L ops os g)"
proof (induction os arbitrary: g)
  case (Cons op os)
  have "\<not> gw_adapterAuthorized (gw_step L ops op g)"
    using same_authority_authorized [OF gw_step_authority] Cons.prems(1) by blast
  with Cons unauthorized_step_idle [OF Cons.prems] show ?case by simp
qed simp

lemma isConnected_count [simp]:
  "gw_isConnected ops (g\<lparr>gw_reconciliationCount := n\<rparr>) = gw_isConnected ops g"
  by (simp add: gw_isConnected_def gw_adapterAuthorized_def gw_paperAdapter_def)

text \<open>An unauthorised gateway calls no function of the adapter but \<open>disconnect\<close>.\<close>

lemma unauthorized_step_ops:
  assumes "\<not> gw_adapterAuthorized g" and "op_disconnect ops' = op_disconnect ops"
  shows "gw_exec L ops op g = gw_exec L ops' op g"
proof -
  have "\<not> gw_isConnected ops g" "\<not> gw_isConnected ops' g"
    using assms(1) by (simp_all add: gw_isConnected_def)
  moreover have "ad_disconnect ops' ad = ad_disconnect ops ad" for ad
    using assms(2) by (cases ad) simp_all
  ultimately show ?thesis
    using assms(1)
    by (cases op) (simp_all add: gw_connect_def gw_disconnect_def dispatchOrder_def
        gw_requestCancel_def reconciliationSnapshot_def Let_def)
qed

lemma unauthorized_after_ops:
  "\<not> gw_adapterAuthorized g \<Longrightarrow> op_disconnect ops' = op_disconnect ops
   \<Longrightarrow> gw_after L ops os g = gw_after L ops' os g"
proof (induction os arbitrary: g)
  case (Cons op os)
  have "\<not> gw_adapterAuthorized (gw_step L ops op g)"
    using same_authority_authorized [OF gw_step_authority] Cons.prems(1) by blast
  with Cons unauthorized_step_ops [OF Cons.prems] show ?case by (simp add: gw_step_def)
qed simp

end
