(* ===== verification/GatewaySettle.thy ===== *)
theory GatewaySettle
  imports GatewayProps
begin

text \<open>
  What the gateway needs from an adapter so that no order is left hanging, as a locale, and the
  proof that the paper adapter provides it.  The locale's lemmas follow one dispatch and one
  cancel through the lifecycle store.
\<close>

subsection \<open>Numerals and event keys\<close>

definition digits_value :: "string \<Rightarrow> nat" where
  "digits_value ds = foldl (\<lambda>v c. 10 * v + (of_char c - 48)) 0 ds"

lemma digits_value_of: "digits_value (digits_of n) = n"
proof (induction n rule: digits_of.induct)
  case (1 n)
  show ?case
  proof (cases "n < 10")
    case True
    then show ?thesis
      by (subst digits_of.simps) (simp add: digits_value_def of_char_of take_bit_nat_eq_self)
  next
    case False
    have "(48 + n mod 10) mod 256 = 48 + n mod 10" by (simp add: less_imp_le mod_less)
    with 1 False show ?thesis
      by (subst digits_of.simps) (simp add: digits_value_def)
  qed
qed

lemma to_string_inject [simp]: "to_string i = to_string j \<longleftrightarrow> i = j"
  by (metis digits_value_of to_string_def word_unat_eq_iff)

lemmas key_defs = riskKey_def submitKey_def ackKey_def fillKey_def cancelResultKey_def

text \<open>The keys the gateway and the adapter make up for an order.\<close>

definition reserved_keys :: "u64 \<Rightarrow> string set" where
  "reserved_keys i = {riskKey i, submitKey i, ackKey i, fillKey i, cancelResultKey i}"

definition key_reserved :: "string \<Rightarrow> bool" where
  "key_reserved k \<longleftrightarrow> (\<exists>i. k \<in> reserved_keys i)"

lemma reserved_keys_disjoint: "i \<noteq> j \<Longrightarrow> reserved_keys i \<inter> reserved_keys j = {}"
  by (auto simp: reserved_keys_def key_defs)

lemma reserved_keys_distinct: "distinct [riskKey i, submitKey i, ackKey i, fillKey i, cancelResultKey i]"
  by (simp add: key_defs)

lemma keys_not_empty [simp]:
  "riskKey i \<noteq> []" "submitKey i \<noteq> []" "ackKey i \<noteq> []" "fillKey i \<noteq> []" "cancelResultKey i \<noteq> []"
  by (simp_all add: key_defs)

lemma keys_reserved [simp]:
  "riskKey i \<in> reserved_keys i" "submitKey i \<in> reserved_keys i" "ackKey i \<in> reserved_keys i"
  "fillKey i \<in> reserved_keys i" "cancelResultKey i \<in> reserved_keys i"
  by (simp_all add: reserved_keys_def)

lemma key_reserved_simps [simp]:
  "key_reserved (riskKey i)" "key_reserved (submitKey i)" "key_reserved (ackKey i)"
  "key_reserved (fillKey i)" "key_reserved (cancelResultKey i)"
  unfolding key_reserved_def by (meson keys_reserved)+

lemma next_sequence_not_older:
  assumes "lr_lastTimestampNs r = t" and "lr_lastSequence r = n"
  shows "\<not> eventIsOlder r t (n + 1)"
proof (cases "n + 1 > 0")
  case True
  then have "unat (n + 1) = Suc (unat n)" using unatSuc [of n] by (simp add: add.commute word_gt_0)
  then have "n < n + 1" by (simp add: word_less_nat_alt)
  with assms True show ?thesis by (auto simp: eventIsOlder_def)
next
  case False
  with assms show ?thesis by (auto simp: eventIsOlder_def)
qed

subsection \<open>Settled stores\<close>

definition settled :: "u64 set \<Rightarrow> lifecycle_store \<Rightarrow> bool" where
  "settled pending s \<longleftrightarrow>
     (\<forall>i r. m_records s i = Some r \<longrightarrow>
        lr_state r \<in> {PartiallyFilled, Filled, Rejected, Canceled}
        \<and> (lr_state r = PartiallyFilled \<longleftrightarrow> i \<in> pending))
     \<and> pending \<subseteq> dom (m_records s)
     \<and> (\<forall>i. m_records s i = None \<longrightarrow> reserved_keys i \<inter> m_appliedEventKeys s = {})
     \<and> (\<forall>i \<in> pending. cancelResultKey i \<notin> m_appliedEventKeys s)"

lemma settled_empty: "settled {} empty_store"
  by (simp add: settled_def empty_store_def)

lemma settled_fresh:
  "settled pending s \<Longrightarrow> m_records s i = None \<Longrightarrow> k \<in> reserved_keys i \<Longrightarrow> k \<notin> m_appliedEventKeys s"
  unfolding settled_def by blast

lemma not_reserved: "\<not> key_reserved k \<Longrightarrow> k' \<in> reserved_keys i \<Longrightarrow> k' \<noteq> k"
  unfolding key_reserved_def by blast

text \<open>Replacing one order's record and recording keys of that order only.\<close>

lemma settled_update:
  assumes "settled pending s"
    and "m_records t = (m_records s)(i \<mapsto> r)"
    and "m_appliedEventKeys t \<subseteq> m_appliedEventKeys s \<union> reserved_keys i \<union> {k}"
    and "\<not> key_reserved k"
    and "lr_state r \<in> {PartiallyFilled, Filled, Rejected, Canceled}"
    and "pending' - {i} = pending - {i}"
    and "lr_state r = PartiallyFilled \<longleftrightarrow> i \<in> pending'"
    and "i \<in> pending' \<Longrightarrow> cancelResultKey i \<notin> m_appliedEventKeys t"
  shows "settled pending' t"
proof -
  have other: "reserved_keys j \<inter> m_appliedEventKeys t \<subseteq> m_appliedEventKeys s" if "j \<noteq> i" for j
    using assms(3,4) reserved_keys_disjoint [OF that] by (auto simp: key_reserved_def)
  have mem: "j \<in> pending' \<longleftrightarrow> j \<in> pending" if "j \<noteq> i" for j
    using assms(6) that by blast
  have crk: "cancelResultKey j \<notin> m_appliedEventKeys t" if "j \<in> pending'" for j
  proof (cases "j = i")
    case False
    with that mem have "cancelResultKey j \<notin> m_appliedEventKeys s"
      using assms(1) by (auto simp: settled_def)
    with other [OF False] show ?thesis by (auto simp: reserved_keys_def)
  qed (use that assms(8) in blast)
  have fresh: "reserved_keys j \<inter> m_appliedEventKeys t = {}" if "m_records t j = None" for j
  proof -
    from that have "j \<noteq> i" "m_records s j = None" using assms(2) by (auto split: if_splits)
    moreover from this have "reserved_keys j \<inter> m_appliedEventKeys s = {}"
      using assms(1) by (simp add: settled_def)
    ultimately show ?thesis using other [of j] by blast
  qed
  have recs: "lr_state q \<in> {PartiallyFilled, Filled, Rejected, Canceled}
      \<and> (lr_state q = PartiallyFilled \<longleftrightarrow> j \<in> pending')" if "m_records t j = Some q" for j q
    using that assms(1,2,5,7) mem [of j] by (cases "j = i") (auto simp: settled_def)
  have "pending' \<subseteq> dom (m_records t)"
    using assms(1,2) mem by (auto simp: settled_def)
  with recs fresh crk show ?thesis by (auto simp: settled_def)
qed

subsection \<open>Entering an order\<close>

definition entered ::
  "normalized_order \<Rightarrow> lifecycle_store \<Rightarrow> lifecycle_store \<Rightarrow> lifecycle_record \<Rightarrow> bool" where
  "entered order s t r \<longleftrightarrow>
     (let q = nrm_request order; i = req_localOrderId q in
      m_records s i = None \<and> m_records t = (m_records s)(i \<mapsto> r)
      \<and> m_appliedEventKeys t
          = insert (submitKey i) (insert (riskKey i)
              (insert (req_idempotencyKey q) (m_appliedEventKeys s)))
      \<and> lr_state r = Submitted \<and> lr_request r = dispatch_request order
      \<and> lr_lastTimestampNs r = req_timestampNs q \<and> lr_lastSequence r = req_sequence q + 2
      \<and> lr_filledQuantity r = decimal 0 (dec_scale (nrm_normalizedQuantity order))
      \<and> 0 < dec_units (nrm_normalizedQuantity order))"

lemma add_two: "(n :: u64) + 2 = (n + 1) + 1" "(n :: u64) + 3 = (n + 2) + 1" "n + 4 = (n + 3) + 1"
  by simp_all

lemma transition_next:
  assumes "m_records s i = Some r" and "k \<noteq> []" and "k \<notin> m_appliedEventKeys s"
    and "lr_lastTimestampNs r = t" and "n = lr_lastSequence r + 1" and "canTransition (lr_state r) st"
  shows "transition i st k t n s =
    (let r' = appendAudit (r\<lparr>lr_state := st, lr_lastTimestampNs := t, lr_lastSequence := n\<rparr>)
               k t n None
     in (s\<lparr>m_records := (m_records s)(i \<mapsto> r'),
            m_appliedEventKeys := insert k (m_appliedEventKeys s)\<rparr>, Applied))"
  using assms next_sequence_not_older [OF assms(4) refl]
  by (simp add: transition_def recordEventKey_def put_record_def Let_def)

lemma map_upd_same_iff [simp]: "m(i \<mapsto> x) = m(i \<mapsto> y) \<longleftrightarrow> x = y"
  by (metis map_upd_eqD1)

lemma dispatch_enter_cases:
  assumes "settled pending s" and "\<not> key_reserved (req_idempotencyKey (nrm_request order))"
  shows "fst (dispatch_enter order s) = s \<and> snd (dispatch_enter order s) \<noteq> None
    \<or> (\<exists>t r. dispatch_enter order s = (t, None) \<and> entered order s t r)"
proof -
  let ?q = "nrm_request order"
  define i where "i = req_localOrderId ?q"
  obtain s1 ok where c: "create (dispatch_request order) s = (s1, ok)" by fastforce
  show ?thesis
  proof (cases ok)
    case False
    then have "s1 = s" using create_committed [OF c] by simp
    with False show ?thesis by (simp add: dispatch_enter_def c Let_def)
  next
    case True
    have sel: "req_localOrderId (dispatch_request order) = i"
        "req_quantity (dispatch_request order) = nrm_normalizedQuantity order"
        "req_idempotencyKey (dispatch_request order) = req_idempotencyKey ?q"
        "req_timestampNs (dispatch_request order) = req_timestampNs ?q"
        "req_sequence (dispatch_request order) = req_sequence ?q"
      by (simp_all add: dispatch_request_def i_def)
    from c True obtain r1 where r1: "m_records s i = None" "0 < dec_units (nrm_normalizedQuantity order)"
      "s1 = s\<lparr>m_records := (m_records s)(i \<mapsto> r1), m_appliedEventKeys :=
         insert (req_idempotencyKey ?q) (m_appliedEventKeys s)\<rparr>"
      "lr_state r1 = Created" "lr_request r1 = dispatch_request order"
      "lr_lastTimestampNs r1 = req_timestampNs ?q" "lr_lastSequence r1 = req_sequence ?q"
      "lr_filledQuantity r1 = decimal 0 (dec_scale (nrm_normalizedQuantity order))"
      by (auto simp: create_def sel Let_def dec_isPositive_def appendAudit_def split: if_splits)
    have fresh: "riskKey i \<notin> m_appliedEventKeys s" "submitKey i \<notin> m_appliedEventKeys s"
        "riskKey i \<noteq> req_idempotencyKey ?q" "submitKey i \<noteq> req_idempotencyKey ?q"
        "submitKey i \<noteq> riskKey i"
      using settled_fresh [OF assms(1) r1(1)] not_reserved [OF assms(2), of _ i]
        reserved_keys_distinct [of i] by auto
    have [simp]: "canTransition Created RiskChecked" "canTransition RiskChecked Submitted"
      by (simp_all add: canTransition_def isTerminal_def)
    show ?thesis
      using r1 fresh True
      by (simp add: dispatch_enter_def c markRiskChecked_def markSubmitted_def Let_def
          i_def [symmetric] transition_next [of _ i] appendAudit_def entered_def)
  qed
qed

subsection \<open>The contract of an adapter\<close>

definition ack_for :: "normalized_order \<Rightarrow> bool \<Rightarrow> order_acknowledgement \<Rightarrow> bool" where
  "ack_for order ok ack \<longleftrightarrow>
     (let q = nrm_request order in
      ack_localOrderId ack = req_localOrderId q \<and> ack_accepted ack = ok
      \<and> (ok \<longrightarrow> ack_externalOrderId ack \<noteq> [])
      \<and> ack_timestampNs ack = req_timestampNs q \<and> ack_sequence ack = req_sequence q + 3
      \<and> ack_eventKey ack = ackKey (req_localOrderId q))"

definition fill_for :: "normalized_order \<Rightarrow> execution_event \<Rightarrow> bool" where
  "fill_for order e \<longleftrightarrow>
     (let q = nrm_request order; v = nrm_normalizedQuantity order;
          f = exe_cumulativeFilledQuantity e; m = exe_remainingQuantity e in
      exe_localOrderId e = req_localOrderId q
      \<and> exe_timestampNs e = req_timestampNs q \<and> exe_sequence e = req_sequence q + 4
      \<and> exe_eventKey e = fillKey (req_localOrderId q)
      \<and> dec_scale f = dec_scale v \<and> dec_scale m = dec_scale v
      \<and> 0 < dec_units f \<and> 0 \<le> dec_units m \<and> dec_units f + dec_units m = dec_units v)"

definition cancel_for :: "cancel_request \<Rightarrow> bool \<Rightarrow> cancel_result \<Rightarrow> bool" where
  "cancel_for request pending c \<longleftrightarrow>
     cre_localOrderId c = cxl_localOrderId request
     \<and> cre_timestampNs c = cxl_timestampNs request \<and> cre_sequence c = cxl_sequence request + 1
     \<and> cre_eventKey c = cancelResultKey (cxl_localOrderId request)
     \<and> (pending \<longrightarrow> cre_disposition c = C_Accepted)"

subsection \<open>The events of one answer\<close>

lemma ack_applied:
  assumes "m_records t i = Some r" and "lr_state r = Submitted"
    and "lr_lastTimestampNs r = ack_timestampNs ack" and "ack_sequence ack = lr_lastSequence r + 1"
    and "ack_localOrderId ack = i" and "ack_eventKey ack \<noteq> []"
    and "ack_eventKey ack \<notin> m_appliedEventKeys t"
    and "ack_accepted ack \<Longrightarrow> ack_externalOrderId ack \<noteq> []"
  shows "\<exists>r'. fst (applyAcknowledgement ack t) = t\<lparr>m_records := (m_records t)(i \<mapsto> r'),
        m_appliedEventKeys := insert (ack_eventKey ack) (m_appliedEventKeys t)\<rparr>
    \<and> lr_state r' = (if ack_accepted ack then Accepted else Rejected)
    \<and> lr_request r' = lr_request r \<and> lr_filledQuantity r' = lr_filledQuantity r
    \<and> lr_lastTimestampNs r' = ack_timestampNs ack \<and> lr_lastSequence r' = ack_sequence ack"
  using assms next_sequence_not_older [OF assms(3) refl]
  by (cases t) (auto simp: applyAcknowledgement_def canTransition_def isTerminal_def recordEventKey_def
      put_record_def appendAudit_def Let_def)

lemma fill_applied:
  assumes "m_records t i = Some r" and "lr_state r = Accepted"
    and "lr_lastTimestampNs r = exe_timestampNs e" and "exe_sequence e = lr_lastSequence r + 1"
    and "exe_localOrderId e = i" and "exe_eventKey e \<noteq> []"
    and "exe_eventKey e \<notin> m_appliedEventKeys t"
    and "dec_units (lr_filledQuantity r) \<le> dec_units (exe_cumulativeFilledQuantity e)"
    and "validQuantities r (exe_cumulativeFilledQuantity e) (exe_remainingQuantity e)"
  shows "\<exists>r'. fst (applyExecution e t) = t\<lparr>m_records := (m_records t)(i \<mapsto> r'),
        m_appliedEventKeys := insert (exe_eventKey e) (m_appliedEventKeys t)\<rparr>
    \<and> lr_state r' = (if dec_isZero (exe_remainingQuantity e) then Filled else PartiallyFilled)"
  using assms next_sequence_not_older [OF assms(3) refl]
  by (cases t) (auto simp: applyExecution_def canTransition_def isTerminal_def recordEventKey_def
      put_record_def appendAudit_def Let_def)

text \<open>The answer to a submission: a refusal, or an acceptance and one fill.\<close>

inductive answered ::
  "normalized_order \<Rightarrow> u64 set \<Rightarrow> adapter_event list \<Rightarrow> u64 set \<Rightarrow> bool" where
  refused: "ack_for order False ack \<Longrightarrow>
     answered order pending (map EvHealth hs @ [EvAck ack]) pending"
| filled: "ack_for order True ack \<Longrightarrow> fill_for order e \<Longrightarrow>
     pending' = (if dec_units (exe_remainingQuantity e) = 0 then pending
                 else insert (req_localOrderId (nrm_request order)) pending) \<Longrightarrow>
     answered order pending (map EvHealth hs @ [EvAck ack, EvExecution e]) pending'"

inductive_cases answeredE: "answered order pending es pending'"

lemma store_events_health [simp]: "store_events (map EvHealth hs) s = s"
  by (induction hs) simp_all

locale broker_adapter =
  fixes inv :: "'a \<Rightarrow> bool"
    and connected :: "'a \<Rightarrow> bool"
    and pending :: "'a \<Rightarrow> u64 set"
    and submit :: "normalized_order \<Rightarrow> 'a \<Rightarrow> 'a \<times> bool \<times> adapter_event list"
    and cancel :: "cancel_request \<Rightarrow> 'a \<Rightarrow> 'a \<times> bool \<times> adapter_event list"
  assumes submit_answers:
    "inv a \<Longrightarrow> connected a \<Longrightarrow> submit order a = (a', ok, es)
     \<Longrightarrow> 0 < dec_units (nrm_normalizedQuantity order)
     \<Longrightarrow> ok \<and> inv a' \<and> connected a' \<and> answered order (pending a) es (pending a')"
    and cancel_answers:
    "inv a \<Longrightarrow> connected a \<Longrightarrow> cancel request a = (a', ok, es)
     \<Longrightarrow> ok \<and> inv a' \<and> connected a' \<and> pending a' = pending a - {cxl_localOrderId request}
        \<and> (\<exists>c. es = [EvCancel c] \<and> cancel_for request (cxl_localOrderId request \<in> pending a) c)"
begin

lemma dispatch_settles:
  assumes s: "settled (pending a) s" and key: "\<not> key_reserved (req_idempotencyKey (nrm_request order))"
    and range: "in_i64 (dec_units (nrm_normalizedQuantity order))"
    and a: "inv a" "connected a" and ent: "entered order s t r"
    and sub: "submit order a = (a', ok, es)"
  shows "ok \<and> inv a' \<and> connected a' \<and> settled (pending a') (store_events es t)"
proof -
  define i where "i = req_localOrderId (nrm_request order)"
  note e = ent [unfolded entered_def Let_def, folded i_def]
  have pos: "0 < dec_units (nrm_normalizedQuantity order)" using e by simp
  from submit_answers [OF a sub pos]
  have ok: "ok" "inv a'" "connected a'" and ans: "answered order (pending a) es (pending a')"
    by simp_all
  have i: "m_records s i = None" using e by simp
  have rec: "m_records t i = Some r" using e by simp
  note fresh = settled_fresh [OF s i] not_reserved [OF key, of _ i] reserved_keys_distinct [of i]
  have notin: "i \<notin> pending a" using s i by (auto simp: settled_def)
  have ackfresh: "ackKey i \<notin> m_appliedEventKeys t" "fillKey i \<notin> m_appliedEventKeys t"
      "fillKey i \<noteq> ackKey i" "cancelResultKey i \<notin> m_appliedEventKeys t"
      "cancelResultKey i \<noteq> ackKey i" "cancelResultKey i \<noteq> fillKey i"
    using e fresh by auto
  have keys: "m_appliedEventKeys t
      \<subseteq> m_appliedEventKeys s \<union> reserved_keys i \<union> {req_idempotencyKey (nrm_request order)}"
    using e by auto
  note upd = settled_update [OF s _ _ key, where i = i]
  consider (refused) ack hs where "es = map EvHealth hs @ [EvAck ack]" "pending a' = pending a"
      "ack_for order False ack"
    | (filled) ack x hs where "es = map EvHealth hs @ [EvAck ack, EvExecution x]"
      "pending a' = (if dec_units (exe_remainingQuantity x) = 0 then pending a
         else insert (req_localOrderId (nrm_request order)) (pending a))"
      "ack_for order True ack" "fill_for order x"
    using ans by (auto elim!: answeredE)
  then have "settled (pending a') (store_events es t)"
  proof cases
    case refused
    note k = refused(3) [unfolded ack_for_def Let_def, folded i_def]
    obtain r' where r': "fst (applyAcknowledgement ack t) = t\<lparr>m_records := (m_records t)(i \<mapsto> r'),
        m_appliedEventKeys := insert (ack_eventKey ack) (m_appliedEventKeys t)\<rparr>"
      "lr_state r' = Rejected"
      using ack_applied [OF rec, of ack] e k ackfresh by (auto simp: add_two(2))
    show ?thesis
      using refused(1,2) r' e k keys notin by (auto intro!: upd)
  next
    case filled
    note k = filled(3) [unfolded ack_for_def Let_def, folded i_def]
    note f = filled(4) [unfolded fill_for_def Let_def, folded i_def]
    obtain r1 where r1: "fst (applyAcknowledgement ack t) = t\<lparr>m_records := (m_records t)(i \<mapsto> r1),
        m_appliedEventKeys := insert (ack_eventKey ack) (m_appliedEventKeys t)\<rparr>"
      "lr_state r1 = Accepted" "lr_request r1 = lr_request r"
      "lr_filledQuantity r1 = lr_filledQuantity r"
      "lr_lastTimestampNs r1 = ack_timestampNs ack" "lr_lastSequence r1 = ack_sequence ack"
      using ack_applied [OF rec, of ack] e k ackfresh by (auto simp: add_two(2))
    define t1 where "t1 = t\<lparr>m_records := (m_records t)(i \<mapsto> r1),
        m_appliedEventKeys := insert (ack_eventKey ack) (m_appliedEventKeys t)\<rparr>"
    have rec1: "m_records t1 i = Some r1" by (simp add: t1_def)
    have valid: "validQuantities r1 (exe_cumulativeFilledQuantity x) (exe_remainingQuantity x)"
      using f e range by (simp add: validQuantities_def r1 dispatch_request_def i64_limits)
    obtain r' where r': "fst (applyExecution x t1) = t1\<lparr>m_records := (m_records t1)(i \<mapsto> r'),
        m_appliedEventKeys := insert (exe_eventKey x) (m_appliedEventKeys t1)\<rparr>"
      "lr_state r' = (if dec_isZero (exe_remainingQuantity x) then Filled else PartiallyFilled)"
      using fill_applied [OF rec1, of x] r1 e k f valid ackfresh
      by (auto simp: add_two(3) t1_def)
    have ev: "store_events es t = fst (applyExecution x t1)"
      using filled(1) r1(1) by (simp add: t1_def)
    show ?thesis
      unfolding ev r'(1)
      using filled(2) r'(2) e k f keys notin ackfresh
      by (auto simp: t1_def dec_isZero_def i_def [symmetric] intro!: upd split: if_splits)
  qed
  with ok show ?thesis by simp
qed

lemma cancel_settles:
  assumes s: "settled (pending a) s" and key: "\<not> key_reserved (cxl_idempotencyKey request)"
    and a: "inv a" "connected a" and req: "requestCancel request s = (t, Applied)"
    and can: "cancel request a = (a', ok, es)"
  shows "ok \<and> inv a' \<and> connected a' \<and> settled (pending a') (store_events es t)"
proof -
  define i where "i = cxl_localOrderId request"
  from cancel_answers [OF a can] obtain c where ok: "ok" "inv a'" "connected a'"
    and pend: "pending a' = pending a - {i}" and es: "es = [EvCancel c]"
    and c: "cancel_for request (i \<in> pending a) c"
    by (auto simp: i_def)
  from req have "\<exists>r r1. m_records s i = Some r \<and> (lr_state r = Accepted \<or> lr_state r = PartiallyFilled)
    \<and> t = s\<lparr>m_records := (m_records s)(i \<mapsto> r1),
        m_appliedEventKeys := insert (cxl_idempotencyKey request) (m_appliedEventKeys s)\<rparr>
    \<and> lr_state r1 = CancelRequested \<and> lr_lastTimestampNs r1 = cxl_timestampNs request
    \<and> lr_lastSequence r1 = cxl_sequence request"
    by (cases s) (auto simp: requestCancel_def i_def canTransition_def isTerminal_def
        recordEventKey_def put_record_def appendAudit_def Let_def split: option.splits if_splits)
  then obtain r r1 where rec: "m_records s i = Some r"
      "lr_state r = Accepted \<or> lr_state r = PartiallyFilled"
    and t: "t = s\<lparr>m_records := (m_records s)(i \<mapsto> r1),
        m_appliedEventKeys := insert (cxl_idempotencyKey request) (m_appliedEventKeys s)\<rparr>"
    and r1: "lr_state r1 = CancelRequested" "lr_lastTimestampNs r1 = cxl_timestampNs request"
      "lr_lastSequence r1 = cxl_sequence request"
    by blast
  have "lr_state r \<in> {PartiallyFilled, Filled, Rejected, Canceled}
      \<and> (lr_state r = PartiallyFilled \<longleftrightarrow> i \<in> pending a)"
    using s rec(1) unfolding settled_def by blast
  with rec(2) have mem: "i \<in> pending a" by auto
  with s have fresh: "cancelResultKey i \<notin> m_appliedEventKeys s" by (simp add: settled_def)
  have "cancelResultKey i \<notin> m_appliedEventKeys t"
    using fresh not_reserved [OF key, of "cancelResultKey i" i] by (simp add: t)
  with c mem r1 have "\<exists>r'. fst (applyCancelResult c t) = t\<lparr>m_records := (m_records t)(i \<mapsto> r'),
      m_appliedEventKeys := insert (cancelResultKey i) (m_appliedEventKeys t)\<rparr>
      \<and> lr_state r' = Canceled"
    using next_sequence_not_older [OF r1(2,3)]
    by (cases s) (auto simp: applyCancelResult_def cancel_for_def i_def [symmetric] t cancel_next_state_def
        recordEventKey_def put_record_def appendAudit_def Let_def)
  then obtain r' where r': "fst (applyCancelResult c t) = t\<lparr>m_records := (m_records t)(i \<mapsto> r'),
      m_appliedEventKeys := insert (cancelResultKey i) (m_appliedEventKeys t)\<rparr>"
      "lr_state r' = Canceled" by blast
  have "settled (pending a') (fst (applyCancelResult c t))"
  proof (rule settled_update [OF s _ _ key])
    show "m_records (fst (applyCancelResult c t)) = (m_records s)(i \<mapsto> r')"
      unfolding r'(1) by (simp add: t)
    show "m_appliedEventKeys (fst (applyCancelResult c t))
        \<subseteq> m_appliedEventKeys s \<union> reserved_keys i \<union> {cxl_idempotencyKey request}"
      unfolding r'(1) by (auto simp: t)
  qed (simp_all add: r'(2) pend)
  then have "settled (pending a') (store_events es t)" by (simp add: es)
  with ok show ?thesis by simp
qed

end

subsection \<open>The paper adapter\<close>

definition pa_bound :: "paper_adapter \<Rightarrow> bool" where
  "pa_bound a \<longleftrightarrow> pa_ackBound a \<and> pa_executionBound a \<and> pa_cancelBound a"

definition pa_pending :: "paper_adapter \<Rightarrow> u64 set" where
  "pa_pending a = dom (pa_pendingOrders a)"

lemma pa_faults_frame:
  assumes "pa_faults n t a = (b, es)" and "pa_connected a"
  shows "pa_bound b = pa_bound a \<and> pa_connected b \<and> pa_pending b = pa_pending a
    \<and> pa_partialFillRatio b = pa_partialFillRatio a \<and> (\<exists>hs. es = map EvHealth hs)"
proof -
  have "\<exists>hs. pa_emit_health c = map EvHealth hs" for c
    by (rule exI [of _ "if pa_healthBound c then [pa_health c] else []"])
      (simp add: pa_emit_health_def)
  with assms show ?thesis
    by (auto simp: pa_faults_def pa_health_event_def pa_bound_def pa_pending_def Let_def
        split: if_splits)
qed

lemma decimal_fromDouble_scale: "decimal_fromDouble L v sc r = Some d \<Longrightarrow> dec_scale d = sc"
  unfolding decimal_fromDouble_def Let_def
  by (cases "decimal_factor (unat sc) 1"; simp split: if_split_asm option.split_asm;
      metis decimal_sel(2))

lemma pa_fill_quantities_cases:
  assumes "pa_fill_quantities L order ratio = (f, m)" and "0 < dec_units (nrm_normalizedQuantity order)"
  shows "dec_scale f = dec_scale (nrm_normalizedQuantity order)
    \<and> dec_scale m = dec_scale (nrm_normalizedQuantity order)
    \<and> 0 < dec_units f \<and> 0 \<le> dec_units m
    \<and> dec_units f + dec_units m = dec_units (nrm_normalizedQuantity order)"
proof -
  let ?v = "nrm_normalizedQuantity order"
  from assms(1) consider "f = ?v" "m = decimal 0 (dec_scale ?v)"
    | r where "decimal_fromDouble L (fp_mul binary64 (decimal_toDouble ?v) r) (dec_scale ?v)
          D_TowardZero = Some f" "dec_isPositive f" "dec_units f < dec_units ?v"
        "m = decimal 0 (dec_scale ?v)\<lparr>dec_units := dec_units ?v - dec_units f\<rparr>"
    unfolding pa_fill_quantities_def Let_def
    by (auto split: option.splits if_splits)
  then show ?thesis
  proof cases
    case 1
    with assms(2) show ?thesis by simp
  next
    case 2
    from decimal_fromDouble_scale [OF 2(1)] 2(2-4) show ?thesis
      by (simp add: dec_isPositive_def decimal_def)
  qed
qed

lemma pa_submit_answers:
  assumes a: "pa_bound a" "pa_connected a" and sub: "pa_submit L order a = (a', ok, es)"
    and pos: "0 < dec_units (nrm_normalizedQuantity order)"
  shows "ok \<and> pa_bound a' \<and> pa_connected a' \<and> answered order (pa_pending a) es (pa_pending a')"
proof -
  define n where "n = pa_submitCount a + 1"
  define dropped where "dropped \<longleftrightarrow> flt_enabled (pa_faultConfig a)
    \<and> every_nth n (flt_dropEveryN (pa_faultConfig a))"
  obtain b hes where f: "pa_faults n (req_timestampNs (nrm_request order)) (a\<lparr>pa_submitCount := n\<rparr>)
      = (b, hes)" by fastforce
  obtain hs where hs: "hes = map EvHealth hs" and b: "pa_bound b" "pa_connected b"
      "pa_pending b = pa_pending a"
    using pa_faults_frame [OF f] a by (auto simp: pa_bound_def pa_pending_def)
  obtain v m where v: "pa_fill_quantities L order (pa_partialFillRatio b) = (v, m)" by fastforce
  note q = pa_fill_quantities_cases [OF v pos]
  note unf = pa_submit_def Let_def n_def [symmetric] f dropped_def [symmetric] v
  have bound: "pa_ackBound b" "pa_executionBound b" using b(1) by (simp_all add: pa_bound_def)
  have base: "ack_for order False (pa_ack (nrm_request order)\<lparr>ack_failure := w, ack_reason := y\<rparr>)"
      for w y by (simp add: ack_for_def pa_ack_def)
  have "ok \<and> pa_bound a' \<and> pa_connected a'
    \<and> ((\<exists>ack. es = map EvHealth hs @ [EvAck ack] \<and> ack_for order False ack
          \<and> pa_pending a' = pa_pending a)
       \<or> (\<exists>ack e. es = map EvHealth hs @ [EvAck ack, EvExecution e] \<and> ack_for order True ack
          \<and> fill_for order e
          \<and> pa_pending a' = (if dec_units (exe_remainingQuantity e) = 0 then pa_pending a
              else insert (req_localOrderId (nrm_request order)) (pa_pending a))))"
  proof (cases "pa_injectError b \<or> dropped")
    case True
    with sub a(2) b bound show ?thesis
      by (auto simp: unf hs pa_emit_ack_def pa_bound_def pa_pending_def ack_for_def pa_ack_def)
  next
    case False
    define c where "c = b\<lparr>pa_partialFillRatio := None\<rparr>"
    show ?thesis
    proof (cases "pa_fill_costs L (req_side (nrm_request order)) (pa_fill_price order) v c")
      case None
      with False sub a(2) b bound show ?thesis
        by (auto simp: unf hs c_def pa_emit_ack_def pa_bound_def pa_pending_def
            ack_for_def pa_ack_def)
    next
      case (Some pf)
      obtain p w where pf: "pf = (p, w)" by fastforce
      define ack where "ack = pa_ack (nrm_request order)\<lparr>ack_accepted := True,
        ack_externalOrderId := ''paper-'' @ to_string (req_localOrderId (nrm_request order))\<rparr>"
      define e where "e = pa_execution (nrm_request order) (ack_externalOrderId ack) v m p w"
      have "ok" and es: "es = map EvHealth hs @ [EvAck ack, EvExecution e]"
        and a': "a' = (if \<not> dec_isZero m then c\<lparr>pa_pendingOrders := (pa_pendingOrders c)
            (req_localOrderId (nrm_request order) \<mapsto> order)\<rparr> else c)"
        using Some False sub a(2) bound pf
        by (simp_all add: unf c_def hs pa_emit_ack_def ack_def e_def split: if_splits)
      moreover have "ack_for order True ack" "fill_for order e" "exe_remainingQuantity e = m"
        using q by (simp_all add: ack_def e_def ack_for_def pa_ack_def fill_for_def pa_execution_def)
      moreover have "pa_bound c" "pa_connected c" "pa_pending c = pa_pending a"
        using b by (simp_all add: c_def pa_bound_def pa_pending_def)
      ultimately show ?thesis
        by (cases "dec_units m = 0") (simp_all add: dec_isZero_def pa_bound_def pa_pending_def)
    qed
  qed
  then show ?thesis
    using answered.refused [of order _ "pa_pending a" hs]
      answered.filled [of order _ _ "pa_pending a'" "pa_pending a" hs]
    by auto
qed

lemma pa_cancel_answers:
  assumes "pa_bound a" "pa_connected a" and "pa_cancel request a = (a', ok, es)"
  shows "ok \<and> pa_bound a' \<and> pa_connected a'
    \<and> pa_pending a' = pa_pending a - {cxl_localOrderId request}
    \<and> (\<exists>c. es = [EvCancel c] \<and> cancel_for request (cxl_localOrderId request \<in> pa_pending a) c)"
proof -
  have "dom ((pa_pendingOrders a)(i := None)) = dom (pa_pendingOrders a) - {i}" for i by auto
  with assms show ?thesis
    by (auto simp: pa_cancel_def Let_def pa_bound_def pa_pending_def cancel_for_def
        split: if_splits)
qed

interpretation paper: broker_adapter pa_bound pa_connected pa_pending "pa_submit L" pa_cancel
  for L
  using pa_submit_answers pa_cancel_answers by unfold_locales blast+

end
