(* ===== verification/GatewayClaims.thy ===== *)
theory GatewayClaims
  imports GatewaySettle
begin

text \<open>What the broker gateway promises.\<close>

subsection \<open>Paper runs\<close>

text \<open>
  The operations of a run on the paper adapter: identity keys that do not imitate the keys
  the gateway makes up, quantities in the range of their type, and no injected broker events.
\<close>

definition paper_op :: "gw_op \<Rightarrow> bool" where
  "paper_op op = (case op of
     GO_dispatch order risk \<Rightarrow> \<not> key_reserved (req_idempotencyKey (nrm_request order))
       \<and> in_i64 (dec_units (nrm_normalizedQuantity order))
   | GO_cancel request \<Rightarrow> \<not> key_reserved (cxl_idempotencyKey request)
   | GO_event e \<Rightarrow> False
   | GO_simulate e \<Rightarrow> False
   | _ \<Rightarrow> True)"

definition paper_settled :: "'x gateway \<Rightarrow> bool" where
  "paper_settled g \<longleftrightarrow> (\<exists>a. gw_adapter g = PaperAdapter a \<and> pa_bound a
     \<and> settled (pa_pending a) (gw_lifecycle g))"

lemma paper_settledI:
  "gw_adapter g = PaperAdapter a \<Longrightarrow> pa_bound a \<Longrightarrow> settled (pa_pending a) (gw_lifecycle g)
   \<Longrightarrow> paper_settled g"
  by (auto simp: paper_settled_def)

lemma pa_emit_health_list: "\<exists>hs. pa_emit_health a = map EvHealth hs"
  by (rule exI [of _ "if pa_healthBound a then [pa_health a] else []"])
    (simp add: pa_emit_health_def)

lemma paper_settled_events:
  assumes "gw_events es h = (k, out)" and "gw_adapter h = PaperAdapter a" and "pa_bound a"
    and "settled (pa_pending a) (store_events es (gw_lifecycle h))"
  shows "paper_settled k"
  using gw_events_fst [OF assms(1)] assms(2-4)
  by (intro paper_settledI [of k a]) (auto simp: same_frame_def)

lemma paper_settled_frame:
  "paper_settled g \<Longrightarrow> gw_adapter h = gw_adapter g \<Longrightarrow> gw_lifecycle h = gw_lifecycle g
   \<Longrightarrow> paper_settled h"
  by (simp add: paper_settled_def)

lemma paper_settled_on_paper:
  assumes "paper_settled g" and "\<And>a. pa_bound (f a) = pa_bound a" "\<And>a. pa_pending (f a) = pa_pending a"
  shows "paper_settled (gw_on_paper f g)"
  using assms by (auto simp: paper_settled_def gw_on_paper_def)

lemma dispatch_paper_settled:
  assumes g: "paper_settled g" and d: "dispatchOrder L ops order risk g = (h, r, out)"
    and key: "\<not> key_reserved (req_idempotencyKey (nrm_request order))"
    and range: "in_i64 (dec_units (nrm_normalizedQuantity order))"
  shows "paper_settled h"
proof -
  from g obtain a where a: "gw_adapter g = PaperAdapter a" "pa_bound a"
    and s: "settled (pa_pending a) (gw_lifecycle g)" by (auto simp: paper_settled_def)
  consider (refused) "gw_adapter h = gw_adapter g" "gw_lifecycle h = gw_lifecycle g"
    | (tried) "rsk_allowed risk" "gw_isConnected ops g"
    using d by (auto simp: dispatchOrder_def gw_api_error_def Let_def split: if_splits)
  then show ?thesis
  proof cases
    case refused
    with g show ?thesis by (rule paper_settled_frame)
  next
    case tried
    then have conn: "pa_connected a" by (simp add: gw_isConnected_def a)
    obtain t why where e: "dispatch_enter order (gw_lifecycle g) = (t, why)" by fastforce
    show ?thesis
    proof (cases why)
      case None
      from dispatch_enter_cases [OF s key] e None
      obtain q where ent: "entered order (gw_lifecycle g) t q" by auto
      obtain a' ok es where sub: "pa_submit L order a = (a', ok, es)" by (metis prod_cases3)
      note st = paper.dispatch_settles [OF s key range a(2) conn ent sub]
      define g1 where "g1 = g\<lparr>gw_lifecycle := t,
        gw_totalOrdersSubmitted := gw_totalOrdersSubmitted g + 1\<rparr>\<lparr>gw_adapter := PaperAdapter a'\<rparr>"
      obtain k out' where ev: "gw_events es g1 = (k, out')" by fastforce
      have "paper_settled k"
        using st by (intro paper_settled_events [OF ev, of a']) (simp_all add: g1_def)
      moreover have "h = k" using d tried e None sub ev st
        by (simp add: dispatchOrder_def a Let_def g1_def)
      ultimately show ?thesis by simp
    next
      case (Some reason)
      from dispatch_enter_cases [OF s key] e Some have "t = gw_lifecycle g" by auto
      with d tried e Some g show ?thesis
        by (auto simp: dispatchOrder_def gw_api_error_def Let_def paper_settled_def)
    qed
  qed
qed

lemma cancel_paper_settled:
  assumes g: "paper_settled g" and d: "gw_requestCancel ops request g = (h, r, out)"
    and key: "\<not> key_reserved (cxl_idempotencyKey request)"
  shows "paper_settled h"
proof (cases "gw_isConnected ops g")
  case False
  with d g show ?thesis by (simp add: gw_requestCancel_def)
next
  case True
  from g obtain a where a: "gw_adapter g = PaperAdapter a" "pa_bound a"
    and s: "settled (pa_pending a) (gw_lifecycle g)" by (auto simp: paper_settled_def)
  with True have conn: "pa_connected a" by (simp add: gw_isConnected_def)
  obtain t res where req: "requestCancel request (gw_lifecycle g) = (t, res)" by fastforce
  show ?thesis
  proof (cases "res = Applied")
    case False
    with requestCancel_committed [OF req] have "t = gw_lifecycle g" by simp
    with d True req False g show ?thesis
      by (auto simp: gw_requestCancel_def Let_def paper_settled_def)
  next
    case ap: True
    obtain a' ok es where sub: "pa_cancel request a = (a', ok, es)" by (metis prod_cases3)
    note st = paper.cancel_settles [OF s key a(2) conn req [unfolded ap] sub]
    define g1 where "g1 = g\<lparr>gw_lifecycle := t\<rparr>\<lparr>gw_adapter := PaperAdapter a'\<rparr>"
    obtain k out' where ev: "gw_events es g1 = (k, out')" by fastforce
    have "paper_settled k"
      using st by (intro paper_settled_events [OF ev, of a']) (simp_all add: g1_def)
    moreover have "h = k" using d True req ap sub ev st
      by (simp add: gw_requestCancel_def a Let_def g1_def)
    ultimately show ?thesis by simp
  qed
qed

lemma pa_connect_frame:
  "pa_connect a = (b, ok, es) \<Longrightarrow> pa_bound b = pa_bound a \<and> pa_pending b = pa_pending a \<and> ok
     \<and> (\<exists>hs. es = map EvHealth hs)"
  using pa_emit_health_list
  by (auto simp: pa_connect_def pa_health_event_def pa_bound_def pa_pending_def Let_def
      split: if_splits)

lemma pa_disconnect_frame:
  "pa_disconnect a = (b, es) \<Longrightarrow> pa_bound b = pa_bound a \<and> pa_pending b = pa_pending a
     \<and> (\<exists>hs. es = map EvHealth hs)"
  using pa_emit_health_list
  by (auto simp: pa_disconnect_def pa_health_event_def pa_bound_def pa_pending_def Let_def
      split: if_splits)

lemma paper_step_settled:
  assumes g: "paper_settled g" and op: "paper_op op"
  shows "paper_settled (gw_step L ops op g)"
proof -
  from g obtain a where a: "gw_adapter g = PaperAdapter a" "pa_bound a"
    and s: "settled (pa_pending a) (gw_lifecycle g)" by (auto simp: paper_settled_def)
  note frame = paper_settled_frame [OF g]
  note setting = paper_settled_on_paper [OF paper_settled_frame [OF g]]
  show ?thesis
  proof (cases op)
    case GO_connect
    obtain b ok es where c: "pa_connect a = (b, ok, es)" by (metis prod_cases3)
    obtain k out where ev: "gw_events es (g\<lparr>gw_adapter := PaperAdapter b\<rparr>) = (k, out)" by fastforce
    have "paper_settled k"
      using pa_connect_frame [OF c] a s
      by (intro paper_settled_events [OF ev, of b]) auto
    moreover have "paper_settled (g\<lparr>gw_health := x\<rparr>)" for x by (rule frame) simp_all
    ultimately show ?thesis
      using GO_connect pa_connect_frame [OF c] ev a
      by (simp add: gw_step_def gw_connect_def c gw_handleHealth_def Let_def)
  next
    case GO_disconnect
    obtain b es where c: "pa_disconnect a = (b, es)" by fastforce
    obtain k out where ev: "gw_events es (g\<lparr>gw_adapter := PaperAdapter b\<rparr>) = (k, out)" by fastforce
    have "paper_settled k"
      using pa_disconnect_frame [OF c] a s
      by (intro paper_settled_events [OF ev, of b]) auto
    with GO_disconnect ev a c show ?thesis by (simp add: gw_step_def gw_disconnect_def)
  next
    case (GO_dispatch order risk)
    obtain h r out where d: "dispatchOrder L ops order risk g = (h, r, out)" by (metis prod_cases3)
    with op GO_dispatch dispatch_paper_settled [OF g d] show ?thesis
      by (simp add: gw_step_def paper_op_def)
  next
    case (GO_cancel request)
    obtain h r out where d: "gw_requestCancel ops request g = (h, r, out)" by (metis prod_cases3)
    with op GO_cancel cancel_paper_settled [OF g d] show ?thesis
      by (simp add: gw_step_def paper_op_def)
  next
    case (GO_reconcile cash equity t)
    with a s show ?thesis
      by (auto simp: gw_step_def reconciliationSnapshot_def pa_reconcile_def Let_def
          paper_settled_def pa_bound_def pa_pending_def)
  next
    case (GO_spec spec)
    then show ?thesis
      by (simp add: gw_step_def gw_setInstrumentSpec_def setting pa_setInstrumentSpec_def
          pa_bound_def pa_pending_def)
  next
    case (GO_costs f sl)
    with a s show ?thesis
      by (auto simp: gw_step_def gw_setPaperSimulationCosts_def pa_setSimulationCosts_def
          paper_settled_def pa_bound_def pa_pending_def split: option.splits if_splits)
  next
    case (GO_error x)
    then show ?thesis
      by (simp add: gw_step_def gw_injectNextOrderError_def setting pa_injectNextError_def
          pa_bound_def pa_pending_def)
  next
    case (GO_partial x)
    then show ?thesis
      by (simp add: gw_step_def gw_injectNextPartialFill_def setting pa_injectNextPartialFill_def
          pa_bound_def pa_pending_def)
  next
    case (GO_faults x)
    then show ?thesis
      by (simp add: gw_step_def gw_setFaultInjectorConfig_def setting pa_setFaultConfig_def
          pa_bound_def pa_pending_def)
  qed (use op g in \<open>auto simp: gw_step_def paper_op_def gw_setSymbolAlias_def
    gw_setAcknowledgementCallback_def gw_setExecutionCallback_def
    gw_addExecutionCallback_def gw_setCancelCallback_def gw_setHealthCallback_def
    intro!: frame\<close>)
qed

lemma paper_after_settled:
  "\<forall>op \<in> set os. paper_op op \<Longrightarrow> paper_settled g \<Longrightarrow> paper_settled (gw_after L ops os g)"
  by (induction os arbitrary: g) (auto intro: paper_step_settled)

lemma paper_init_settled:
  "isPaperMode config \<Longrightarrow> paper_settled (gw_init_default build ops config)"
  by (intro paper_settledI)
    (auto simp: gw_init_default_def gw_init_def gw_bindAdapterCallbacks_def paper_init_def
      pa_setHealthCallback_def pa_setCancelCallback_def pa_setExecutionCallback_def
      pa_setAcknowledgementCallback_def pa_bound_def pa_pending_def settled_empty)

text \<open>Sample runs.\<close>

definition sample_ops :: "unit adapter_ops" where
  "sample_ops = \<lparr>op_bindCallbacks = id, op_connect = (\<lambda>x. (x, True, [])),
     op_disconnect = (\<lambda>x. (x, [])), op_isConnected = (\<lambda>x. True),
     op_submit = (\<lambda>order x. (x, True, [])), op_cancel = (\<lambda>request x. (x, True, [])),
     op_reconcile = (\<lambda>t x. (x, reconciliation_default))\<rparr>"

definition sample_config :: "system_mode \<Rightarrow> system_config" where
  "sample_config m = config_default\<lparr>cfg_mode := m\<rparr>"

definition sample_order :: "u64 \<Rightarrow> normalized_order" where
  "sample_order i = \<lparr>nrm_request = (sample_request i)\<lparr>req_limitPrice := Some (decimal 20 0)\<rparr>,
     nrm_executionSymbol = ''XAUUSD'', nrm_normalizedQuantity = decimal 2 0,
     nrm_normalizedLimitPrice = Some (decimal 20 0), nrm_normalizedStopPrice = None,
     nrm_normalizedReferencePrice = None, nrm_instrumentVersion = 1\<rparr>"

definition sample_risk :: risk_decision where
  "sample_risk = \<lparr>rsk_allowed = True, rsk_riskIncreasing = True, rsk_failure = F_None,
     rsk_action = B_Halt, rsk_reason = []\<rparr>"

definition sample_ops_run :: "gw_op list" where
  "sample_ops_run = [GO_connect, GO_error ''no'', GO_dispatch (sample_order 7) sample_risk]"

definition sample_gateway :: "unit gateway" where
  "sample_gateway = gw_after binary64 sample_ops sample_ops_run
     (gw_init_default 0 sample_ops (sample_config PAPER))"

lemma sample_gateway_rejected:
  "holds_at (gw_lifecycle sample_gateway) 7 (\<lambda>r. lr_state r = Rejected)"
  by code_simp

lemma sample_key_free: "\<not> key_reserved ''k1''"
  by (simp add: key_reserved_def reserved_keys_def key_defs)

lemma sample_ops_paper: "\<forall>op \<in> set sample_ops_run. paper_op op"
  by (simp add: sample_ops_run_def paper_op_def sample_order_def sample_request_def
      sample_key_free i64_limits)

text \<open>
  C8. No paper order is left hanging: after any sequence of operations on a paper gateway
  (connections lost and regained, injected rejections, drops, latency spikes, disconnects and
  partial fills, cancels, duplicate identities, risk rejections; but no execution reported from
  outside the adapter and no order under the gateway's reserved event keys) every order in the lifecycle
  store is partially filled, filled, rejected or canceled, and a reconciliation of the connected
  gateway reports exactly the partially filled orders.
\<close>

theorem paper_orders_settle:
  assumes "\<forall>op \<in> set os. paper_op op" and "isPaperMode config"
    and "g = gw_after L ops os (gw_init_default build ops config)"
  shows "(\<forall>i r. m_records (gw_lifecycle g) i = Some r
        \<longrightarrow> lr_state r \<in> {PartiallyFilled, Filled, Rejected, Canceled})
    \<and> (gw_isConnected ops g
        \<longrightarrow> rcn_orderStates (snd (reconciliationSnapshot ops cash equity t g))
          = (\<lambda>i. if holds_at (gw_lifecycle g) i (\<lambda>r. lr_state r = PartiallyFilled)
                 then Some PartiallyFilled else None))"
proof -
  have "paper_settled g"
    using paper_after_settled [OF assms(1) paper_init_settled [OF assms(2)]] by (simp add: assms(3))
  then obtain a where a: "gw_adapter g = PaperAdapter a"
    and s: "settled (pa_pending a) (gw_lifecycle g)" by (auto simp: paper_settled_def)
  have st: "lr_state r \<in> {PartiallyFilled, Filled, Rejected, Canceled}
      \<and> (lr_state r = PartiallyFilled \<longleftrightarrow> i \<in> pa_pending a)"
    if "m_records (gw_lifecycle g) i = Some r" for i r
    using s that unfolding settled_def by blast
  have "i \<in> pa_pending a \<longleftrightarrow> holds_at (gw_lifecycle g) i (\<lambda>r. lr_state r = PartiallyFilled)" for i
    using s st [of i] unfolding holds_at_iff settled_def by blast
  then have "pa_pendingOrders a i = None
      \<longleftrightarrow> \<not> holds_at (gw_lifecycle g) i (\<lambda>r. lr_state r = PartiallyFilled)" for i
    by (auto simp: pa_pending_def)
  then show ?thesis
    using st by (auto simp: reconciliationSnapshot_def a pa_reconcile_def Let_def fun_eq_iff)
qed

lemma paper_orders_settle_witness:
  "holds_at (gw_lifecycle sample_gateway) 7
     (\<lambda>r. lr_state r \<in> {PartiallyFilled, Filled, Rejected, Canceled})"
  using paper_orders_settle [OF sample_ops_paper, of "sample_config PAPER" sample_gateway]
    sample_gateway_rejected
  by (auto simp: sample_gateway_def sample_config_def isPaperMode_def holds_at_iff)

subsection \<open>Refinement of the lifecycle store\<close>

lemma gw_call_states:
  assumes "gw_call c" and "store_inv s"
    and "\<forall>i r. m_records s i = Some r \<longrightarrow> lr_state r \<notin> {Timeout, Reconciled, Expired}"
  shows "\<forall>i r. m_records (store_step c s) i = Some r
    \<longrightarrow> lr_state r \<notin> {Timeout, Reconciled, Expired}"
proof -
  have pre: "lr_preCancelState r \<notin> {Timeout, Reconciled, Expired}"
    if "m_records s i = Some r" "lr_state r = CancelRequested" for i r
  proof -
    have "record_inv i r" using assms(2) that(1) by (simp add: store_inv_def)
    then have "view_inv (view r)" by (simp add: record_inv_def)
    then have "lr_preCancelState r = Accepted \<or> lr_preCancelState r = PartiallyFilled"
      using that(2) by (simp add: view_inv_def view_sel)
    then show ?thesis by auto
  qed
  show ?thesis
    using assms(1,3)
    by (cases c) (auto simp: store_step_def create_def markRiskChecked_def markSubmitted_def
        markUnknown_def transition_def applyAcknowledgement_def applyExecution_def
        requestCancel_def applyCancelResult_def cancel_next_state_def store_update_defs
        dest: pre split: option.splits if_splits cancel_disposition.splits)
qed

lemma gw_calls_states:
  "\<forall>c \<in> set cs. gw_call c \<Longrightarrow> store_inv s
   \<Longrightarrow> \<forall>i r. m_records s i = Some r \<longrightarrow> lr_state r \<notin> {Timeout, Reconciled, Expired}
   \<Longrightarrow> \<forall>i r. m_records (run_machine store_step cs s) i = Some r
         \<longrightarrow> lr_state r \<notin> {Timeout, Reconciled, Expired}"
proof (induction cs arbitrary: s)
  case (Cons c cs)
  have "gw_call c" using Cons.prems(1) by simp
  from Cons.IH [OF _ store_step_inv [OF Cons.prems(2)] gw_call_states [OF this Cons.prems(2,3)]]
  show ?case using Cons.prems(1) by simp
qed simp

text \<open>
  C5. Refinement: whatever the mode, the adapter and the events it reports, the gateway's lifecycle
  store is always one the store reaches by its own calls (so all its invariants hold), and the
  calls the gateway makes never leave an order timed out, expired or reconciled.
\<close>

theorem gateway_refines_lifecycle:
  "\<exists>cs. gw_lifecycle (gw_after L ops os (gw_init build ops config ad approved)) = store_after cs
     \<and> (\<forall>i r. m_records (store_after cs) i = Some r
          \<longrightarrow> lr_state r \<notin> {Timeout, Reconciled, Expired} \<and> record_inv i r)"
proof -
  have "gw_lifecycle (gw_init build ops config ad approved) = empty_store"
    by (simp add: gw_init_def)
  with gw_after_reaches [of "gw_init build ops config ad approved" L ops os]
  obtain cs where cs: "\<forall>c \<in> set cs. gw_call c"
    "gw_lifecycle (gw_after L ops os (gw_init build ops config ad approved)) = store_after cs"
    by (auto simp: gw_reaches_def store_after_def)
  have "\<forall>i r. m_records (store_after cs) i = Some r \<longrightarrow> lr_state r \<notin> {Timeout, Reconciled, Expired}"
    unfolding store_after_def
    by (rule gw_calls_states [OF cs(1) store_inv_empty]) (simp add: empty_store_def)
  with cs(2) store_after_record_inv [of cs] show ?thesis by blast
qed

lemma gateway_refines_lifecycle_witness:
  "\<exists>cs r. m_records (store_after cs) 7 = Some r \<and> lr_state r = Rejected \<and> record_inv 7 r"
proof -
  obtain ad approved where i: "gw_init_default 0 sample_ops (sample_config PAPER)
      = gw_init 0 sample_ops (sample_config PAPER) ad approved"
    by (simp add: gw_init_default_def)
  obtain cs where cs: "gw_lifecycle sample_gateway = store_after cs"
    "\<forall>i r. m_records (store_after cs) i = Some r
       \<longrightarrow> lr_state r \<notin> {Timeout, Reconciled, Expired} \<and> record_inv i r"
    using gateway_refines_lifecycle [of binary64 sample_ops sample_ops_run 0
        "sample_config PAPER" ad approved]
    unfolding sample_gateway_def i by blast
  then show ?thesis using sample_gateway_rejected by (auto simp: holds_at_iff)
qed

subsection \<open>Fail closed\<close>

text \<open>
  C6. Fail closed: a gateway in backtest mode, or in live mode without the build switch, the startup
  flag, the approval or with the paper adapter, never enters an order, never counts or reports a
  dispatch, and never calls any function of its adapter but \<open>disconnect\<close>: its behaviour does not
  depend on the others.
\<close>

theorem gateway_fails_closed:
  assumes "\<not> isPaperMode config"
    and "\<not> canEnterLiveRuntime build config \<or> \<not> approved \<or> (\<exists>a. ad = PaperAdapter a)"
    and "op_disconnect ops' = op_disconnect ops" and "op_bindCallbacks ops' = op_bindCallbacks ops"
    and "g = gw_after L ops os (gw_init build ops config ad approved)"
  shows "gw_lifecycle g = empty_store \<and> gw_totalOrdersSubmitted g = 0
    \<and> \<not> dsp_dispatched (fst (snd (dispatchOrder L ops order risk g)))
    \<and> \<not> gw_isConnected ops g
    \<and> gw_after L ops' os (gw_init build ops' config ad approved) = g"
proof -
  let ?g0 = "gw_init build ops config ad approved"
  have same: "gw_init build ops' config ad approved = ?g0"
    using assms(4) by (cases ad) (simp_all add: gw_init_def gw_bindAdapterCallbacks_def)
  have na: "\<not> gw_adapterAuthorized ?g0"
    using assms(1,2) by (auto simp: gw_adapterAuthorized_def gw_init_def gw_paperAdapter_def
        gw_bindAdapterCallbacks_def split: any_adapter.splits)
  moreover have "idle ?g0" by (simp add: idle_def gw_init_def)
  ultimately have "idle g" using assms(5) unauthorized_after_idle by blast
  moreover have "\<not> gw_adapterAuthorized g"
    using same_authority_authorized [OF gw_after_authority, of L ops os ?g0] na assms(5) by simp
  moreover have "gw_after L ops' os ?g0 = g"
    using unauthorized_after_ops [OF na assms(3), of L os] assms(5) by simp
  ultimately show ?thesis
    by (simp add: idle_def same gw_isConnected_def dispatchOrder_def dispatch_failed_def Let_def)
qed

lemma gateway_fails_closed_witness:
  "\<not> dsp_dispatched (fst (snd (dispatchOrder binary64 sample_ops (sample_order 7) sample_risk
     (gw_after binary64 sample_ops sample_ops_run
       (gw_init 1 sample_ops (sample_config LIVE) (OtherAdapter ()) True)))))"
proof -
  have "\<not> isPaperMode (sample_config LIVE)"
    "\<not> canEnterLiveRuntime 1 (sample_config LIVE) \<or> \<not> True \<or> (\<exists>a. OtherAdapter () = PaperAdapter a)"
    by (simp_all add: sample_config_def mode_defs canEnterLiveRuntime_def config_default_def)
  from gateway_fails_closed [OF this refl refl refl, of binary64 sample_ops sample_ops_run
      "sample_order 7" sample_risk]
  show ?thesis by blast
qed

text \<open>
  C7. The gate of a dispatch: it reports success exactly when the final risk decision allows the
  order, the gateway is authorised and connected, the order could be entered (a fresh identity
  and key) and the adapter took it; and as long as one of the first three fails, the adapter is
  not touched, nothing is passed to the engine's callbacks and no submission is counted.
\<close>

theorem dispatch_gate:
  assumes "dispatchOrder L ops order risk g = (h, result, out)"
  shows "(dsp_dispatched result \<longleftrightarrow> rsk_allowed risk \<and> gw_isConnected ops g
        \<and> snd (dispatch_enter order (gw_lifecycle g)) = None
        \<and> fst (snd (ad_submit L ops order (gw_adapter g))))
    \<and> (\<not> (rsk_allowed risk \<and> gw_isConnected ops g
           \<and> snd (dispatch_enter order (gw_lifecycle g)) = None)
        \<longrightarrow> gw_adapter h = gw_adapter g \<and> out = []
          \<and> gw_totalOrdersSubmitted h = gw_totalOrdersSubmitted g
          \<and> dsp_failure result \<noteq> F_None \<and> dsp_reason result \<noteq> [])
    \<and> (\<not> (rsk_allowed risk \<and> gw_isConnected ops g) \<longrightarrow> gw_lifecycle h = gw_lifecycle g)"
proof -
  obtain t why where e: "dispatch_enter order (gw_lifecycle g) = (t, why)" by fastforce
  obtain ad ok es where sub: "ad_submit L ops order (gw_adapter g) = (ad, ok, es)"
    by (metis prod_cases3)
  define g1 where "g1 = g\<lparr>gw_lifecycle := t,
        gw_totalOrdersSubmitted := gw_totalOrdersSubmitted g + 1\<rparr>\<lparr>gw_adapter := ad\<rparr>"
  obtain k outs where ev: "gw_events es g1 = (k, outs)" by fastforce
  have reason: "why \<noteq> Some []"
    using e by (auto simp: dispatch_enter_def Let_def split: prod.splits if_splits)
  note d = assms [unfolded dispatchOrder_def Let_def e sub]
  consider "\<not> rsk_allowed risk" | "rsk_allowed risk" "\<not> gw_isConnected ops g"
    | r where "rsk_allowed risk" "gw_isConnected ops g" "why = Some r" "r \<noteq> []"
    | "rsk_allowed risk" "gw_isConnected ops g" "why = None"
    using reason by (cases why) auto
  then show ?thesis
  proof cases
    case 1
    with d have "h = g" "out = []" "\<not> dsp_dispatched result" "dsp_failure result \<noteq> F_None"
        "dsp_reason result \<noteq> []"
      by (auto simp: dispatch_failed_def split: if_splits)
    with 1 show ?thesis by simp
  next
    case 2
    with d have "h = gw_api_error g" "out = []" "\<not> dsp_dispatched result"
        "dsp_failure result \<noteq> F_None" "dsp_reason result \<noteq> []"
      by (auto simp: dispatch_failed_def split: if_splits)
    with 2 show ?thesis by (simp add: gw_api_error_def)
  next
    case 3
    with d have "h = gw_api_error (g\<lparr>gw_lifecycle := t\<rparr>)" "out = []" "\<not> dsp_dispatched result"
        "dsp_failure result \<noteq> F_None" "dsp_reason result \<noteq> []"
      by (auto simp: dispatch_failed_def split: if_splits)
    with 3 e show ?thesis by (simp add: gw_api_error_def)
  next
    case 4
    with d ev have "dsp_dispatched result = ok"
      by (cases ok) (auto simp: dispatch_failed_def g1_def sub)
    with 4 e sub show ?thesis by simp
  qed
qed

lemma dispatch_gate_witness:
  "\<exists>h result out. dispatchOrder binary64 sample_ops (sample_order 7) sample_risk
       (gw_init_default 0 sample_ops (sample_config PAPER)) = (h, result, out)
     \<and> \<not> dsp_dispatched result \<and> gw_lifecycle h = empty_store"
proof -
  let ?g = "gw_init_default 0 sample_ops (sample_config PAPER)"
  obtain h result out where d: "dispatchOrder binary64 sample_ops (sample_order 7) sample_risk ?g
      = (h, result, out)" by (metis prod_cases3)
  have "\<not> gw_isConnected sample_ops ?g" "gw_lifecycle ?g = empty_store"
    by (simp_all add: gw_isConnected_def gw_init_default_def gw_init_def sample_config_def
        isPaperMode_def gw_bindAdapterCallbacks_def paper_init_def pa_setHealthCallback_def
        pa_setCancelCallback_def pa_setExecutionCallback_def pa_setAcknowledgementCallback_def)
  with dispatch_gate [OF d] d show ?thesis by auto
qed

subsection \<open>Normalisation\<close>

definition price_stepped :: "instrument_spec \<Rightarrow> decimal64 option \<Rightarrow> decimal64 option \<Rightarrow> bool" where
  "price_stepped spec p q \<longleftrightarrow>
     (case (p, q) of (None, None) \<Rightarrow> True
      | (Some p, Some q) \<Rightarrow> stepped_down p (ins_tickSize spec) q
      | _ \<Rightarrow> False)"

lemma normalizePrice_stepped:
  assumes "p \<noteq> None \<longrightarrow> normalizePrice spec p \<noteq> None" and "\<forall>d. p = Some d \<longrightarrow> in_i64 (dec_units d)"
  shows "price_stepped spec p (normalizePrice spec p)"
  using assms normalizeToStep_stepped_down
  by (cases p; cases "normalizePrice spec p") (auto simp: price_stepped_def normalizePrice_def)

lemma rescaled_maximum:
  assumes "rescaleTowardZero m t = Some d" and "in_i64 (dec_units m)" and "q \<le> dec_units d" and "0 < q"
  shows "of_int q / 10 ^ unat t \<le> dec_value m"
proof (cases "0 \<le> dec_units m")
  case True
  from rescale_nonneg [OF assms(1) True assms(2)] assms(3)
  have "rat_of_int q \<le> of_int \<lfloor>dec_value m * 10 ^ unat t\<rfloor>" by simp
  also have "\<dots> \<le> dec_value m * 10 ^ unat t" using floor_correct by blast
  finally show ?thesis by (simp add: pos_divide_le_eq)
next
  case False
  then have "dec_units d \<le> 0"
    using assms(1,2)
    by (auto simp: rescaleTowardZero_eq fit_i64_def cdiv_neg mult_le_0_iff
        pos_imp_zdiv_nonneg_iff split: if_splits)
  with assms(3,4) show ?thesis by simp
qed

text \<open>
  C16. Normalisation is sound: a normalised order carries the request it came from, its quantity is
  positive, on the step grid of the instrument, at most the requested quantity and less than one
  step below it, and not above the maximum; each given price is on the tick grid, at most the
  given price and less than a tick below it, and no price appears that was not given.
\<close>

theorem normalizeOrder_on_grid:
  assumes "normalizeOrder request g = Inr order" and "spec = gw_spec_for g request"
    and "in_i64 (dec_units (req_quantity request))" and "in_i64 (dec_units (ins_maximumQuantity spec))"
    and "\<forall>p \<in> {req_limitPrice request, req_stopPrice request, req_referencePrice request}.
        \<forall>d. p = Some d \<longrightarrow> in_i64 (dec_units d)"
  shows "nrm_request order = request
    \<and> dec_isPositive (nrm_normalizedQuantity order)
    \<and> stepped_down (req_quantity request) (ins_quantityStep spec) (nrm_normalizedQuantity order)
    \<and> dec_value (nrm_normalizedQuantity order) \<le> dec_value (ins_maximumQuantity spec)
    \<and> price_stepped spec (req_limitPrice request) (nrm_normalizedLimitPrice order)
    \<and> price_stepped spec (req_stopPrice request) (nrm_normalizedStopPrice order)
    \<and> price_stepped spec (req_referencePrice request) (nrm_normalizedReferencePrice order)"
proof -
  obtain q mi ma where q: "normalizeToStep (req_quantity request) (ins_quantityStep spec) = Some q"
      "dec_isPositive q"
    and ma: "rescaleTowardZero (ins_maximumQuantity spec) (dec_scale q) = Some ma"
      "dec_units q \<le> dec_units ma"
    and pr: "req_limitPrice request \<noteq> None \<longrightarrow> normalizePrice spec (req_limitPrice request) \<noteq> None"
      "req_stopPrice request \<noteq> None \<longrightarrow> normalizePrice spec (req_stopPrice request) \<noteq> None"
      "req_referencePrice request \<noteq> None
        \<longrightarrow> normalizePrice spec (req_referencePrice request) \<noteq> None"
    and order: "nrm_request order = request" "nrm_normalizedQuantity order = q"
      "nrm_normalizedLimitPrice order = normalizePrice spec (req_limitPrice request)"
      "nrm_normalizedStopPrice order = normalizePrice spec (req_stopPrice request)"
      "nrm_normalizedReferencePrice order = normalizePrice spec (req_referencePrice request)"
    using assms(1) unfolding normalizeOrder_def Let_def assms(2) [symmetric]
    by (auto split: if_split_asm option.split_asm)
  have "dec_value q \<le> dec_value (ins_maximumQuantity spec)"
    using rescaled_maximum [OF ma(1) assms(4) ma(2)] q(2)
    by (simp add: dec_value_def dec_isPositive_def)
  moreover note normalizeToStep_stepped_down [OF q(1) assms(3)]
  moreover have "price_stepped spec (req_limitPrice request) (nrm_normalizedLimitPrice order)"
    "price_stepped spec (req_stopPrice request) (nrm_normalizedStopPrice order)"
    "price_stepped spec (req_referencePrice request) (nrm_normalizedReferencePrice order)"
    unfolding order(3-5) using pr assms(5) by (auto intro!: normalizePrice_stepped)
  ultimately show ?thesis using order(1,2) q(2) by simp
qed

definition sample_spec :: instrument_spec where
  "sample_spec = instrument_default\<lparr>ins_canonicalSymbol := ''XAUUSD'', ins_tickSize := decimal 25 2,
     ins_quantityStep := decimal 1 2, ins_minimumQuantity := decimal 15 3,
     ins_maximumQuantity := decimal 100 0, ins_complete := True\<rparr>"

definition sample_buy :: "i64 \<Rightarrow> order_request" where
  "sample_buy u = (sample_request 7)\<lparr>req_quantity := decimal u 3,
     req_limitPrice := Some (decimal 19990 3)\<rparr>"

definition spec_gateway :: "unit gateway" where
  "spec_gateway = gw_setInstrumentSpec sample_spec
     (gw_init_default 0 sample_ops (sample_config PAPER))"

lemma spec_gateway_spec: "gw_spec_for spec_gateway (sample_buy u) = sample_spec"
  by (simp add: gw_spec_for_def spec_gateway_def gw_setInstrumentSpec_def gw_on_paper_def
      sample_buy_def sample_request_def sample_spec_def split: any_adapter.splits)

fun normalized_amounts :: "string + normalized_order \<Rightarrow> (decimal64 \<times> decimal64 option) option" where
  "normalized_amounts (Inl reason) = None"
| "normalized_amounts (Inr order) = Some (nrm_normalizedQuantity order, nrm_normalizedLimitPrice order)"

lemma sample_normalized:
  "normalized_amounts (normalizeOrder (sample_buy 1239) spec_gateway)
     = Some (decimal 123 2, Some (decimal 1975 2))"
  by code_simp

lemma normalizeOrder_on_grid_witness:
  "\<exists>order. normalizeOrder (sample_buy 1239) spec_gateway = Inr order
     \<and> stepped_down (decimal 1239 3) (decimal 1 2) (nrm_normalizedQuantity order)"
proof -
  obtain order where n: "normalizeOrder (sample_buy 1239) spec_gateway = Inr order"
    using sample_normalized by (cases "normalizeOrder (sample_buy 1239) spec_gateway") auto
  from normalizeOrder_on_grid [OF n spec_gateway_spec [symmetric]] n show ?thesis
    by (simp add: sample_buy_def sample_request_def sample_spec_def i64_limits)
qed

text \<open>
  The minimum is not enforced: it is truncated to the scale of the step before it is compared, so
  with a step of 0.01 and a minimum of 0.015 an order of 0.01 is accepted; and a price below one
  tick is accepted as a price of zero.
\<close>

theorem normalizeOrder_below_minimum:
  "normalized_amounts (normalizeOrder ((sample_buy 10)\<lparr>req_limitPrice := Some (decimal 1 2)\<rparr>) spec_gateway)
      = Some (decimal 1 2, Some (decimal 0 2))
   \<and> dec_value (decimal 1 2) < dec_value (ins_minimumQuantity sample_spec)"
proof
  show "normalized_amounts (normalizeOrder ((sample_buy 10)\<lparr>req_limitPrice := Some (decimal 1 2)\<rparr>)
      spec_gateway) = Some (decimal 1 2, Some (decimal 0 2))" by code_simp
  show "dec_value (decimal 1 2) < dec_value (ins_minimumQuantity sample_spec)"
    by (simp add: dec_value_def sample_spec_def)
qed

end
