(* ===== verification/Portfolio.thy ===== *)
theory Portfolio
  imports Conversions "HOL-Library.AList" "HOL-Library.List_Lexorder" "HOL-Library.Char_ord"
begin

text \<open>
  The portfolio: include/PortfolioManager.hpp and src/PortfolioManager.cpp.  Amounts are kept in
  fixed point and enter and leave as \<open>double\<close>.  The hash map of positions is an association
  list; the order in which the code iterates over it is unspecified and is the parameter
  \<open>order\<close>, a permutation.  A thrown exception is a left value: every operation computes the new
  state on copies and commits it at the end, so nothing has changed when it throws.
\<close>

subsection \<open>Exceptions\<close>

datatype pm_error = InvalidArgument string | LogicError string | OverflowError string

definition requireValue :: "'a option \<Rightarrow> string \<Rightarrow> ('a \<Rightarrow> pm_error + 'b) \<Rightarrow> pm_error + 'b" where
  "requireValue v message k = (case v of None \<Rightarrow> Inl (OverflowError message) | Some x \<Rightarrow> k x)"

definition throw_if :: "bool \<Rightarrow> pm_error \<Rightarrow> (pm_error + 'b) \<Rightarrow> pm_error + 'b" where
  "throw_if b e k = (if b then Inl e else k)"

definition bind_result :: "pm_error + 'a \<Rightarrow> ('a \<Rightarrow> pm_error + 'b) \<Rightarrow> pm_error + 'b" where
  "bind_result r k = (case r of Inl e \<Rightarrow> Inl e | Inr x \<Rightarrow> k x)"

definition INT_MAX :: int where "INT_MAX = 2147483647"

definition requireCounterCapacity :: "int \<Rightarrow> string \<Rightarrow> (pm_error + 'b) \<Rightarrow> pm_error + 'b" where
  "requireCounterCapacity v message k = throw_if (v = INT_MAX) (OverflowError message) k"

subsection \<open>Data\<close>

datatype order_type = PO_Market | PO_Limit | PO_StopLoss | PO_TrailingStop

record order_record =
  ord_symbol :: string
  ord_orderType :: order_type
  ord_isBuy :: bool
  ord_limitPrice :: fp
  ord_trailOffset :: fp
  ord_trailBest :: fp
  ord_quantity :: fp
  ord_capitalToCommit :: fp
  ord_placedTimestamp :: u64
  ord_orderId :: u64

record order_fill_result =
  ofr_orderId :: u64
  ofr_filled :: bool
  ofr_symbol :: string
  ofr_orderType :: order_type
  ofr_isBuy :: bool
  ofr_fillPrice :: fp
  ofr_quantity :: fp
  ofr_capitalToCommit :: fp
  ofr_fillTimestamp :: u64

record position =
  psn_symbol :: string
  psn_quantity :: fp
  psn_entryPrice :: fp
  psn_isLong :: bool

record trade_record =
  trd_symbol :: string
  trd_openTimestamp :: u64
  trd_closeTimestamp :: u64
  trd_entryPrice :: fp
  trd_exitPrice :: fp
  trd_quantity :: fp
  trd_totalFees :: fp
  trd_realizedPnL :: fp
  trd_grossPnL :: fp
  trd_strategy_id :: string

record pm_position_snapshot =
  pss_position :: position
  pss_entryTimestamp :: u64
  pss_entryFee :: fp
  pss_costBasis :: fp
  pss_lastMarkPrice :: fp
  pss_strategyId :: string

record pm_snapshot =
  snp_cash :: fp
  snp_positions :: "pm_position_snapshot list"
  snp_unrealizedPnL :: fp
  snp_totalEquity :: fp
  snp_maxEquity :: fp
  snp_currentDrawdown :: fp
  snp_maxDrawdown :: fp
  snp_tradeCount :: int
  snp_totalFeesPaid :: fp
  snp_tradeLog :: "trade_record list"
  snp_roundTripCount :: int
  snp_pendingOrders :: "order_record list"
  snp_nextOrderId :: u64

record position_state =
  ps_quantity :: quantity
  ps_averageEntryPrice :: price
  ps_costBasis :: money
  ps_lastMarkPrice :: price
  ps_entryTimestamp :: u64
  ps_entryFee :: money
  ps_strategyId :: string

type_synonym positions = "(string \<times> position_state) list"

record valuation =
  val_unrealizedPnL :: money
  val_totalEquity :: money
  val_maxEquity :: money
  val_currentDrawdown :: fp
  val_maxDrawdown :: fp

record portfolio =
  pm_cash :: money
  pm_positions :: positions
  pm_unrealizedPnL :: money
  pm_totalEquity :: money
  pm_maxEquity :: money
  pm_currentDrawdown :: fp
  pm_maxDrawdown :: fp
  pm_tradeCount :: int
  pm_totalFeesPaid :: money
  pm_tradeLog :: "trade_record list"
  pm_roundTripCount :: int
  pm_pendingOrders :: "order_record list"
  pm_nextOrderId :: u64

definition STARTING_CASH_UNITS :: int where "STARTING_CASH_UNITS = 10000000000000"

definition pm_init :: portfolio where
  "pm_init =
     \<lparr>pm_cash = FValue STARTING_CASH_UNITS, pm_positions = [], pm_unrealizedPnL = FValue 0,
      pm_totalEquity = FValue STARTING_CASH_UNITS, pm_maxEquity = FValue STARTING_CASH_UNITS,
      pm_currentDrawdown = Fin 0, pm_maxDrawdown = Fin 0, pm_tradeCount = 0,
      pm_totalFeesPaid = FValue 0, pm_tradeLog = [], pm_roundTripCount = 0,
      pm_pendingOrders = [], pm_nextOrderId = 1\<rparr>"

subsection \<open>Valuation\<close>

fun value_loop :: "positions \<Rightarrow> money \<Rightarrow> money \<Rightarrow> pm_error + (money \<times> money)" where
  "value_loop [] markedValue unrealized = Inr (markedValue, unrealized)"
| "value_loop ((symbol, state) # rest) markedValue unrealized =
     requireValue (notional (ps_lastMarkPrice state) (ps_quantity state) NearestTiesAwayFromZero)
       ''PortfolioManager: marked notional overflow'' (\<lambda>marked.
     requireValue (add_value markedValue marked)
       ''PortfolioManager: aggregate marked value overflow'' (\<lambda>markedValue.
     requireValue (subtract_value marked (ps_costBasis state))
       ''PortfolioManager: unrealized P&L overflow'' (\<lambda>positionPnl.
     requireValue (add_value unrealized positionPnl)
       ''PortfolioManager: aggregate unrealized P&L overflow'' (\<lambda>unrealized.
     value_loop rest markedValue unrealized))))"

definition drawdown_of :: "money \<Rightarrow> money \<Rightarrow> fp" where
  "drawdown_of maxEquity equity =
     (if isPositive maxEquity
      then fp_div binary64 (fp_sub binary64 (toDouble maxEquity) (toDouble equity))
             (toDouble maxEquity)
      else Fin 0)"

definition valueState ::
  "(positions \<Rightarrow> positions) \<Rightarrow> money \<Rightarrow> positions \<Rightarrow> portfolio \<Rightarrow> pm_error + valuation" where
  "valueState order cash positions p =
     bind_result (value_loop (order positions) (FValue 0) (FValue 0))
       (\<lambda>(markedValue, unrealized).
          requireValue (add_value cash markedValue)
            ''PortfolioManager: total equity overflow'' (\<lambda>equity.
          let maxEquity = (if units equity > units (pm_maxEquity p) then equity else pm_maxEquity p);
              drawdown = drawdown_of maxEquity equity
          in Inr \<lparr>val_unrealizedPnL = unrealized, val_totalEquity = equity,
                 val_maxEquity = maxEquity, val_currentDrawdown = drawdown,
                 val_maxDrawdown = fp_max (pm_maxDrawdown p) drawdown\<rparr>))"

definition commitValuation :: "valuation \<Rightarrow> portfolio \<Rightarrow> portfolio" where
  "commitValuation v p =
     p\<lparr>pm_unrealizedPnL := val_unrealizedPnL v, pm_totalEquity := val_totalEquity v,
       pm_maxEquity := val_maxEquity v, pm_currentDrawdown := val_currentDrawdown v,
       pm_maxDrawdown := val_maxDrawdown v\<rparr>"


subsection \<open>Positions\<close>

text \<open>The checks on price and fee shared by the three accounting operations.\<close>

definition price_and_fee ::
  "fp_format \<Rightarrow> fp \<Rightarrow> fp \<Rightarrow> string \<Rightarrow> (price \<Rightarrow> money \<Rightarrow> pm_error + 'b) \<Rightarrow> pm_error + 'b" where
  "price_and_fee L netPrice feeValue message k =
     (case (price_of L netPrice NearestTiesAwayFromZero, money_of L feeValue NearestTiesAwayFromZero) of
        (Some price, Some feeValue) \<Rightarrow>
          throw_if (\<not> isPositive price \<or> isNegative feeValue) (InvalidArgument message) (k price feeValue)
      | _ \<Rightarrow> Inl (InvalidArgument message))"

definition open_budget ::
  "fp_format \<Rightarrow> fp \<Rightarrow> portfolio \<Rightarrow> (money \<Rightarrow> pm_error + 'b) \<Rightarrow> pm_error + 'b" where
  "open_budget L capitalToCommit p k =
     (if fp_less (Fin 0) capitalToCommit then
        (case money_of L capitalToCommit NearestTiesAwayFromZero of
           None \<Rightarrow> Inl (InvalidArgument ''PortfolioManager: invalid capital budget'')
         | Some budget \<Rightarrow>
             throw_if (\<not> isPositive budget \<or> units budget > units (pm_cash p))
               (InvalidArgument ''PortfolioManager: invalid capital budget'') (k budget))
      else k (pm_cash p))"

text \<open>Quantity, cost basis and debit of an entry.\<close>

definition open_size ::
  "fp_format \<Rightarrow> fp \<Rightarrow> price \<Rightarrow> money \<Rightarrow> money
   \<Rightarrow> (quantity \<Rightarrow> money \<Rightarrow> money \<Rightarrow> pm_error + 'b) \<Rightarrow> pm_error + 'b" where
  "open_size L explicitUnits price entryFee budget k =
     (if fp_less (Fin 0) explicitUnits then
        (case quantity_of L explicitUnits RejectUnaligned of
           None \<Rightarrow> Inl (InvalidArgument ''PortfolioManager: invalid explicit quantity'')
         | Some quantity \<Rightarrow>
             throw_if (\<not> isPositive quantity)
               (InvalidArgument ''PortfolioManager: invalid explicit quantity'') (
             requireValue (notional price quantity NearestTiesAwayFromZero)
               ''PortfolioManager: entry notional overflow'' (\<lambda>costBasis.
             requireValue (add_value costBasis entryFee)
               ''PortfolioManager: entry debit overflow'' (\<lambda>debit.
             throw_if (units debit > units budget)
               (LogicError ''PortfolioManager: explicit quantity exceeds capital budget'')
             (k quantity costBasis debit)))))
      else
        (case subtract_value budget entryFee of
           None \<Rightarrow> Inl (LogicError ''PortfolioManager: fee exhausts capital budget'')
         | Some notionalBudget \<Rightarrow>
             throw_if (\<not> isPositive notionalBudget)
               (LogicError ''PortfolioManager: fee exhausts capital budget'') (
             case quantityForNotional notionalBudget price TowardZero of
               None \<Rightarrow> Inl (LogicError ''PortfolioManager: capital normalizes to zero quantity'')
             | Some quantity \<Rightarrow>
                 throw_if (\<not> isPositive quantity)
                   (LogicError ''PortfolioManager: capital normalizes to zero quantity'') (
                 requireValue (notional price quantity NearestTiesAwayFromZero)
                   ''PortfolioManager: entry notional overflow'' (\<lambda>costBasis.
                 requireValue (add_value costBasis entryFee)
                   ''PortfolioManager: entry debit overflow'' (\<lambda>debit.
                 k quantity costBasis debit))))))"

text \<open>The rest of an entry, once its size is known.\<close>

definition open_commit ::
  "(positions \<Rightarrow> positions) \<Rightarrow> string \<Rightarrow> u64 \<Rightarrow> string \<Rightarrow> price \<Rightarrow> money \<Rightarrow> quantity \<Rightarrow> money \<Rightarrow> money
   \<Rightarrow> portfolio \<Rightarrow> pm_error + portfolio" where
  "open_commit order symbol timestamp strategyId price entryFee quantity costBasis debit p =
     throw_if (units debit > units (pm_cash p))
       (LogicError ''PortfolioManager: insufficient cash for entry fill'') (
     throw_if (\<not> isPositive costBasis)
       (LogicError ''PortfolioManager: entry notional normalizes to zero'') (
     requireValue (averagePrice costBasis quantity NearestTiesAwayFromZero)
       ''PortfolioManager: average entry price overflow'' (\<lambda>averageEntry.
     requireValue (subtract_value (pm_cash p) debit)
       ''PortfolioManager: cash debit overflow'' (\<lambda>nextCash.
     requireValue (add_value (pm_totalFeesPaid p) entryFee)
       ''PortfolioManager: total fee overflow'' (\<lambda>nextFees.
     let nextPositions = pm_positions p @ [(symbol, \<lparr>ps_quantity = quantity,
           ps_averageEntryPrice = averageEntry, ps_costBasis = costBasis,
           ps_lastMarkPrice = price, ps_entryTimestamp = timestamp, ps_entryFee = entryFee,
           ps_strategyId = strategyId\<rparr>)]
     in bind_result (valueState order nextCash nextPositions p) (\<lambda>valuation.
     requireCounterCapacity (pm_tradeCount p) ''PortfolioManager: trade counter overflow'' (
     Inr (commitValuation valuation
       (p\<lparr>pm_cash := nextCash, pm_positions := nextPositions, pm_totalFeesPaid := nextFees,
          pm_tradeCount := pm_tradeCount p + 1\<rparr>)))))))))"

definition openLong ::
  "fp_format \<Rightarrow> (positions \<Rightarrow> positions) \<Rightarrow> string \<Rightarrow> fp \<Rightarrow> u64 \<Rightarrow> fp \<Rightarrow> fp \<Rightarrow> fp \<Rightarrow> string
   \<Rightarrow> portfolio \<Rightarrow> pm_error + portfolio" where
  "openLong L order symbol netPrice timestamp feeValue capitalToCommit explicitUnits strategyId p =
     throw_if (symbol = [])
       (InvalidArgument ''PortfolioManager: symbol must not be empty'') (
     throw_if (map_of (pm_positions p) symbol \<noteq> None)
       (LogicError (''PortfolioManager: cannot open a new position for '' @ [CHR 0x27] @ symbol
          @ [CHR 0x27] @ '' while one is already open'')) (
     throw_if (fp_less explicitUnits (Fin 0) \<or> fp_less capitalToCommit (Fin 0)
               \<or> fp_less feeValue (Fin 0))
       (InvalidArgument ''PortfolioManager: negative accounting input'') (
     price_and_fee L netPrice feeValue ''PortfolioManager: invalid price or fee'' (\<lambda>price entryFee.
     open_budget L capitalToCommit p (\<lambda>budget.
     open_size L explicitUnits price entryFee budget (\<lambda>quantity costBasis debit.
     open_commit order symbol timestamp strategyId price entryFee quantity costBasis debit p))))))"

definition add_within_budget ::
  "fp_format \<Rightarrow> fp \<Rightarrow> money \<Rightarrow> (pm_error + 'b) \<Rightarrow> pm_error + 'b" where
  "add_within_budget L capitalToCommit debit k =
     (if fp_less (Fin 0) capitalToCommit then
        (case money_of L capitalToCommit NearestTiesAwayFromZero of
           None \<Rightarrow> Inl (LogicError ''PortfolioManager::addToLong exceeds capital budget'')
         | Some budget \<Rightarrow>
             throw_if (isNegative budget \<or> units debit > units budget)
               (LogicError ''PortfolioManager::addToLong exceeds capital budget'') k)
      else k)"

definition add_to_state ::
  "string \<Rightarrow> price \<Rightarrow> quantity \<Rightarrow> money \<Rightarrow> money \<Rightarrow> position_state
   \<Rightarrow> (position_state \<Rightarrow> pm_error + 'b) \<Rightarrow> pm_error + 'b" where
  "add_to_state strategyId price addedQuantity addedCost addedFee state k =
     requireValue (add_value (ps_quantity state) addedQuantity)
       ''PortfolioManager: position quantity overflow'' (\<lambda>quantity.
     requireValue (add_value (ps_costBasis state) addedCost)
       ''PortfolioManager: cost-basis overflow'' (\<lambda>costBasis.
     requireValue (add_value (ps_entryFee state) addedFee)
       ''PortfolioManager: entry-fee overflow'' (\<lambda>entryFee.
     requireValue (averagePrice costBasis quantity NearestTiesAwayFromZero)
       ''PortfolioManager: average-price overflow'' (\<lambda>averageEntry.
     k (state\<lparr>ps_quantity := quantity, ps_costBasis := costBasis, ps_entryFee := entryFee,
              ps_averageEntryPrice := averageEntry, ps_lastMarkPrice := price,
              ps_strategyId := (if strategyId \<noteq> [] then strategyId
                                else ps_strategyId state)\<rparr>)))))"

definition add_commit ::
  "(positions \<Rightarrow> positions) \<Rightarrow> string \<Rightarrow> position_state \<Rightarrow> money \<Rightarrow> money \<Rightarrow> portfolio
   \<Rightarrow> pm_error + portfolio" where
  "add_commit order symbol state addedFee debit p =
    (let nextPositions = AList.update symbol state (pm_positions p)
     in
     requireValue (subtract_value (pm_cash p) debit)
       ''PortfolioManager: cash debit overflow'' (\<lambda>nextCash.
     requireValue (add_value (pm_totalFeesPaid p) addedFee)
       ''PortfolioManager: total fee overflow'' (\<lambda>nextFees.
     bind_result (valueState order nextCash nextPositions p) (\<lambda>valuation.
     requireCounterCapacity (pm_tradeCount p) ''PortfolioManager: trade counter overflow'' (
     Inr (commitValuation valuation
       (p\<lparr>pm_cash := nextCash, pm_positions := nextPositions, pm_totalFeesPaid := nextFees,
          pm_tradeCount := pm_tradeCount p + 1\<rparr>)))))))"

definition addToLong ::
  "fp_format \<Rightarrow> (positions \<Rightarrow> positions) \<Rightarrow> string \<Rightarrow> fp \<Rightarrow> fp \<Rightarrow> fp \<Rightarrow> fp \<Rightarrow> string
   \<Rightarrow> portfolio \<Rightarrow> pm_error + portfolio" where
  "addToLong L order symbol netPrice quantity feeValue capitalToCommit strategyId p =
     (case map_of (pm_positions p) symbol of
        None \<Rightarrow>
          (let budget = (if fp_less (Fin 0) capitalToCommit then capitalToCommit
                 else fp_add binary64 (fp_mul binary64 quantity netPrice) feeValue)
           in openLong L order symbol netPrice 0 feeValue budget quantity strategyId p)
      | Some state \<Rightarrow>
     throw_if (fp_le quantity (Fin 0) \<or> fp_less feeValue (Fin 0) \<or> fp_less capitalToCommit (Fin 0))
       (InvalidArgument ''PortfolioManager::addToLong invalid accounting input'') (
     price_and_fee L netPrice feeValue ''PortfolioManager::addToLong unrepresentable input''
       (\<lambda>price addedFee.
     (case quantity_of L quantity RejectUnaligned of
        None \<Rightarrow> Inl (InvalidArgument ''PortfolioManager::addToLong unrepresentable input'')
      | Some addedQuantity \<Rightarrow>
     throw_if (\<not> isPositive addedQuantity)
       (InvalidArgument ''PortfolioManager::addToLong unrepresentable input'') (
     requireValue (notional price addedQuantity NearestTiesAwayFromZero)
       ''PortfolioManager: add-on notional overflow'' (\<lambda>addedCost.
     requireValue (add_value addedCost addedFee)
       ''PortfolioManager: add-on debit overflow'' (\<lambda>debit.
     throw_if (\<not> isPositive addedCost)
       (LogicError ''PortfolioManager: add-on notional normalizes to zero'') (
     throw_if (units debit > units (pm_cash p))
       (LogicError ''PortfolioManager::addToLong insufficient cash'') (
     add_within_budget L capitalToCommit debit (
     add_to_state strategyId price addedQuantity addedCost addedFee state (\<lambda>state.
     add_commit order symbol state addedFee debit p)))))))))))"

subsection \<open>Closing a position\<close>

definition close_quantity ::
  "fp_format \<Rightarrow> fp \<Rightarrow> position_state \<Rightarrow> (quantity \<Rightarrow> pm_error + 'b) \<Rightarrow> pm_error + 'b" where
  "close_quantity L explicitQuantity prior k =
     (if fp_less (Fin 0) explicitQuantity then
        (case quantity_of L explicitQuantity RejectUnaligned of
           None \<Rightarrow> Inl (InvalidArgument ''PortfolioManager: invalid close quantity'')
         | Some quantity \<Rightarrow>
             throw_if (\<not> isPositive quantity)
               (InvalidArgument ''PortfolioManager: invalid close quantity'') (
             throw_if (units quantity > units (ps_quantity prior))
               (LogicError ''PortfolioManager: reversal/over-close is unsupported'')
               (k quantity)))
      else k (ps_quantity prior))"

record close_amounts =
  cla_netProceeds :: money
  cla_allocatedCost :: money
  cla_allocatedEntryFee :: money
  cla_grossPnl :: money
  cla_realizedPnl :: money
  cla_tradeFees :: money

definition close_accounting ::
  "price \<Rightarrow> money \<Rightarrow> quantity \<Rightarrow> position_state \<Rightarrow> (close_amounts \<Rightarrow> pm_error + 'b) \<Rightarrow> pm_error + 'b"
where
  "close_accounting price exitFee closeQuantity prior k =
     requireValue (notional price closeQuantity NearestTiesAwayFromZero)
       ''PortfolioManager: close notional overflow'' (\<lambda>grossProceeds.
     (case subtract_value grossProceeds exitFee of
        None \<Rightarrow> Inl (LogicError ''PortfolioManager: close fee exceeds proceeds'')
      | Some netProceeds \<Rightarrow>
     throw_if (isNegative netProceeds)
       (LogicError ''PortfolioManager: close fee exceeds proceeds'') (
     requireValue (proportional (ps_costBasis prior) closeQuantity (ps_quantity prior)
         NearestTiesAwayFromZero)
       ''PortfolioManager: allocated cost-basis overflow'' (\<lambda>allocatedCost.
     requireValue (proportional (ps_entryFee prior) closeQuantity (ps_quantity prior)
         NearestTiesAwayFromZero)
       ''PortfolioManager: allocated entry-fee overflow'' (\<lambda>allocatedEntryFee.
     requireValue (subtract_value grossProceeds allocatedCost)
       ''PortfolioManager: gross P&L overflow'' (\<lambda>grossPnl.
     requireValue (subtract_value grossPnl exitFee)
       ''PortfolioManager: exit-fee P&L overflow'' (\<lambda>afterExitFee.
     requireValue (subtract_value afterExitFee allocatedEntryFee)
       ''PortfolioManager: realized P&L overflow'' (\<lambda>realizedPnl.
     requireValue (add_value exitFee allocatedEntryFee)
       ''PortfolioManager: trade-fee overflow'' (\<lambda>tradeFees.
     k \<lparr>cla_netProceeds = netProceeds, cla_allocatedCost = allocatedCost,
        cla_allocatedEntryFee = allocatedEntryFee, cla_grossPnl = grossPnl,
        cla_realizedPnl = realizedPnl, cla_tradeFees = tradeFees\<rparr>)))))))))"

text \<open>The position left over, or none.\<close>

definition close_remainder ::
  "price \<Rightarrow> quantity \<Rightarrow> close_amounts \<Rightarrow> position_state
   \<Rightarrow> (position_state option \<Rightarrow> pm_error + 'b) \<Rightarrow> pm_error + 'b" where
  "close_remainder price closeQuantity amounts state k =
     requireValue (subtract_value (ps_quantity state) closeQuantity)
       ''PortfolioManager: remaining quantity overflow'' (\<lambda>remainingQuantity.
     if isZero remainingQuantity then k None
     else
       requireValue (subtract_value (ps_costBasis state) (cla_allocatedCost amounts))
         ''PortfolioManager: remaining cost-basis overflow'' (\<lambda>costBasis.
       requireValue (subtract_value (ps_entryFee state) (cla_allocatedEntryFee amounts))
         ''PortfolioManager: remaining entry-fee overflow'' (\<lambda>entryFee.
       requireValue (averagePrice costBasis remainingQuantity NearestTiesAwayFromZero)
         ''PortfolioManager: remaining average-price overflow'' (\<lambda>averageEntry.
       k (Some (state\<lparr>ps_quantity := remainingQuantity, ps_costBasis := costBasis,
            ps_entryFee := entryFee, ps_averageEntryPrice := averageEntry,
            ps_lastMarkPrice := price\<rparr>))))))"

definition close_record ::
  "string \<Rightarrow> u64 \<Rightarrow> string \<Rightarrow> price \<Rightarrow> quantity \<Rightarrow> close_amounts \<Rightarrow> position_state \<Rightarrow> trade_record" where
  "close_record symbol timestamp strategyId price closeQuantity amounts prior =
     \<lparr>trd_symbol = symbol, trd_openTimestamp = ps_entryTimestamp prior,
      trd_closeTimestamp = timestamp, trd_entryPrice = toDouble (ps_averageEntryPrice prior),
      trd_exitPrice = toDouble price, trd_quantity = toDouble closeQuantity,
      trd_totalFees = toDouble (cla_tradeFees amounts),
      trd_realizedPnL = toDouble (cla_realizedPnl amounts),
      trd_grossPnL = toDouble (cla_grossPnl amounts),
      trd_strategy_id = (if strategyId \<noteq> [] then strategyId else ps_strategyId prior)\<rparr>"

definition close_commit ::
  "(positions \<Rightarrow> positions) \<Rightarrow> string \<Rightarrow> u64 \<Rightarrow> string \<Rightarrow> price \<Rightarrow> money \<Rightarrow> quantity \<Rightarrow> close_amounts
   \<Rightarrow> position_state option \<Rightarrow> position_state \<Rightarrow> portfolio \<Rightarrow> pm_error + portfolio" where
  "close_commit order symbol timestamp strategyId price exitFee closeQuantity amounts next_state
     prior p =
    (let nextPositions = (case next_state of
           None \<Rightarrow> AList.delete symbol (pm_positions p)
         | Some state \<Rightarrow> AList.update symbol state (pm_positions p))
     in
     requireValue (add_value (pm_cash p) (cla_netProceeds amounts))
       ''PortfolioManager: sale cash overflow'' (\<lambda>nextCash.
     requireValue (add_value (pm_totalFeesPaid p) exitFee)
       ''PortfolioManager: total fee overflow'' (\<lambda>nextFees.
     bind_result (valueState order nextCash nextPositions p) (\<lambda>valuation.
     requireCounterCapacity (pm_tradeCount p) ''PortfolioManager: trade counter overflow'' (
     throw_if (next_state = None \<and> pm_roundTripCount p = INT_MAX)
       (OverflowError ''PortfolioManager: round-trip counter overflow'') (
     Inr (commitValuation valuation
       (p\<lparr>pm_cash := nextCash, pm_positions := nextPositions, pm_totalFeesPaid := nextFees,
          pm_tradeLog := pm_tradeLog p
            @ [close_record symbol timestamp strategyId price closeQuantity amounts prior],
          pm_tradeCount := pm_tradeCount p + 1,
          pm_roundTripCount := (if next_state = None then pm_roundTripCount p + 1
                                else pm_roundTripCount p)\<rparr>))))))))"

definition closePosition ::
  "fp_format \<Rightarrow> (positions \<Rightarrow> positions) \<Rightarrow> string \<Rightarrow> fp \<Rightarrow> u64 \<Rightarrow> fp \<Rightarrow> string \<Rightarrow> fp
   \<Rightarrow> portfolio \<Rightarrow> pm_error + portfolio" where
  "closePosition L order symbol netPrice timestamp feeValue strategyId explicitQuantity p =
     (case map_of (pm_positions p) symbol of
        None \<Rightarrow> Inr p
      | Some prior \<Rightarrow>
     throw_if (fp_less explicitQuantity (Fin 0) \<or> fp_less feeValue (Fin 0))
       (InvalidArgument ''PortfolioManager: negative close input'') (
     price_and_fee L netPrice feeValue ''PortfolioManager: invalid close price or fee''
       (\<lambda>price exitFee.
     close_quantity L explicitQuantity prior (\<lambda>closeQuantity.
     close_accounting price exitFee closeQuantity prior (\<lambda>amounts.
     close_remainder price closeQuantity amounts prior (\<lambda>next_state.
     close_commit order symbol timestamp strategyId price exitFee closeQuantity amounts next_state
       prior p))))))"

subsection \<open>Marking\<close>

definition updatePnL ::
  "fp_format \<Rightarrow> (positions \<Rightarrow> positions) \<Rightarrow> string \<Rightarrow> fp \<Rightarrow> portfolio \<Rightarrow> pm_error + portfolio" where
  "updatePnL L order symbol currentPrice p =
     (case map_of (pm_positions p) symbol of
        None \<Rightarrow> Inr p
      | Some state \<Rightarrow>
          (case price_of L currentPrice NearestTiesAwayFromZero of
             None \<Rightarrow> Inl (InvalidArgument ''PortfolioManager: invalid mark price'')
           | Some mark \<Rightarrow>
               throw_if (\<not> isPositive mark)
                 (InvalidArgument ''PortfolioManager: invalid mark price'') (
               let nextPositions =
                     AList.update symbol (state\<lparr>ps_lastMarkPrice := mark\<rparr>) (pm_positions p)
               in bind_result (valueState order (pm_cash p) nextPositions p) (\<lambda>valuation.
                  Inr (commitValuation valuation (p\<lparr>pm_positions := nextPositions\<rparr>))))))"

subsection \<open>Getters\<close>

definition hasPosition :: "string \<Rightarrow> portfolio \<Rightarrow> bool" where
  "hasPosition symbol p \<longleftrightarrow> map_of (pm_positions p) symbol \<noteq> None"

definition getOpenPositionCount :: "portfolio \<Rightarrow> nat" where
  "getOpenPositionCount p = length (pm_positions p)"

definition getCashBalance :: "portfolio \<Rightarrow> fp" where
  "getCashBalance p = toDouble (pm_cash p)"

definition getTotalEquity :: "portfolio \<Rightarrow> fp" where
  "getTotalEquity p = toDouble (pm_totalEquity p)"

definition getEntryPrice :: "string \<Rightarrow> portfolio \<Rightarrow> fp" where
  "getEntryPrice symbol p =
     (case map_of (pm_positions p) symbol of
        None \<Rightarrow> Fin 0 | Some state \<Rightarrow> toDouble (ps_averageEntryPrice state))"

definition getPositionQuantity :: "string \<Rightarrow> portfolio \<Rightarrow> fp" where
  "getPositionQuantity symbol p =
     (case map_of (pm_positions p) symbol of
        None \<Rightarrow> Fin 0 | Some state \<Rightarrow> toDouble (ps_quantity state))"

definition getTotalFeesPaid :: "portfolio \<Rightarrow> fp" where
  "getTotalFeesPaid p = toDouble (pm_totalFeesPaid p)"

subsection \<open>Snapshots\<close>

definition snapshot_position :: "string \<times> position_state \<Rightarrow> pm_position_snapshot" where
  "snapshot_position entry =
     (case entry of (symbol, state) \<Rightarrow>
        \<lparr>pss_position = \<lparr>psn_symbol = symbol, psn_quantity = toDouble (ps_quantity state),
           psn_entryPrice = toDouble (ps_averageEntryPrice state), psn_isLong = True\<rparr>,
         pss_entryTimestamp = ps_entryTimestamp state,
         pss_entryFee = toDouble (ps_entryFee state),
         pss_costBasis = toDouble (ps_costBasis state),
         pss_lastMarkPrice = toDouble (ps_lastMarkPrice state),
         pss_strategyId = ps_strategyId state\<rparr>)"

definition snapshotState :: "(positions \<Rightarrow> positions) \<Rightarrow> portfolio \<Rightarrow> pm_snapshot" where
  "snapshotState order p =
     \<lparr>snp_cash = toDouble (pm_cash p),
      snp_positions = sort_key (\<lambda>s. psn_symbol (pss_position s))
        (map snapshot_position (order (pm_positions p))),
      snp_unrealizedPnL = toDouble (pm_unrealizedPnL p),
      snp_totalEquity = toDouble (pm_totalEquity p), snp_maxEquity = toDouble (pm_maxEquity p),
      snp_currentDrawdown = pm_currentDrawdown p, snp_maxDrawdown = pm_maxDrawdown p,
      snp_tradeCount = pm_tradeCount p, snp_totalFeesPaid = toDouble (pm_totalFeesPaid p),
      snp_tradeLog = pm_tradeLog p, snp_roundTripCount = pm_roundTripCount p,
      snp_pendingOrders = pm_pendingOrders p, snp_nextOrderId = pm_nextOrderId p\<rparr>"

definition restore_position ::
  "fp_format \<Rightarrow> pm_position_snapshot \<Rightarrow> position_state option" where
  "restore_position L s =
     (case (quantity_of L (psn_quantity (pss_position s)) RejectUnaligned,
            price_of L (psn_entryPrice (pss_position s)) RejectUnaligned,
            money_of L (pss_entryFee s) RejectUnaligned,
            money_of L (pss_costBasis s) RejectUnaligned,
            price_of L (pss_lastMarkPrice s) RejectUnaligned) of
        (Some quantity, Some average, Some entryFee, Some costBasis, Some lastMark) \<Rightarrow>
          if psn_symbol (pss_position s) = [] \<or> \<not> psn_isLong (pss_position s)
             \<or> \<not> isPositive quantity \<or> \<not> isPositive average \<or> isNegative entryFee
             \<or> \<not> isPositive costBasis \<or> \<not> isPositive lastMark
             \<or> averagePrice costBasis quantity NearestTiesAwayFromZero \<noteq> Some average
          then None
          else Some \<lparr>ps_quantity = quantity, ps_averageEntryPrice = average,
                 ps_costBasis = costBasis, ps_lastMarkPrice = lastMark,
                 ps_entryTimestamp = pss_entryTimestamp s, ps_entryFee = entryFee,
                 ps_strategyId = pss_strategyId s\<rparr>
      | _ \<Rightarrow> None)"

fun restore_loop ::
  "fp_format \<Rightarrow> pm_position_snapshot list \<Rightarrow> positions \<Rightarrow> pm_error + positions" where
  "restore_loop L [] positions = Inr positions"
| "restore_loop L (s # rest) positions =
     (case restore_position L s of
        None \<Rightarrow> Inl (InvalidArgument ''PortfolioManager: invalid position snapshot'')
      | Some state \<Rightarrow>
          let symbol = psn_symbol (pss_position s)
          in throw_if (map_of positions symbol \<noteq> None)
               (InvalidArgument ''PortfolioManager: invalid position snapshot'')
               (restore_loop L rest (positions @ [(symbol, state)])))"

definition restore_amounts ::
  "fp_format \<Rightarrow> pm_snapshot \<Rightarrow> (money \<times> money \<times> money \<times> money \<times> money) option" where
  "restore_amounts L s =
     (case (money_of L (snp_cash s) RejectUnaligned,
            money_of L (snp_unrealizedPnL s) RejectUnaligned,
            money_of L (snp_totalEquity s) RejectUnaligned,
            money_of L (snp_maxEquity s) RejectUnaligned,
            money_of L (snp_totalFeesPaid s) RejectUnaligned) of
        (Some cash, Some unrealized, Some equity, Some maxEquity, Some fees) \<Rightarrow>
          if isNegative cash \<or> isNegative equity \<or> isNegative maxEquity \<or> isNegative fees
          then None else Some (cash, unrealized, equity, maxEquity, fees)
      | _ \<Rightarrow> None)"

definition drawdowns_differ :: "fp \<Rightarrow> fp \<Rightarrow> bool" where
  "drawdowns_differ a b \<longleftrightarrow>
     fp_less (fp_round binary64 (1 / 10 ^ 12)) (fp_abs (fp_sub binary64 a b))"

definition restoreState ::
  "fp_format \<Rightarrow> (positions \<Rightarrow> positions) \<Rightarrow> pm_snapshot \<Rightarrow> portfolio \<Rightarrow> pm_error + portfolio" where
  "restoreState L order s p =
     (case restore_amounts L s of
        None \<Rightarrow> Inl (InvalidArgument ''PortfolioManager: incompatible accounting snapshot'')
      | Some (cash, unrealized, equity, maxEquity, fees) \<Rightarrow>
          bind_result (restore_loop L (snp_positions s) []) (\<lambda>positions.
          bind_result (valueState order cash positions
              (pm_init\<lparr>pm_maxEquity := maxEquity, pm_maxDrawdown := snp_maxDrawdown s\<rparr>))
            (\<lambda>valuation.
          throw_if (val_unrealizedPnL valuation \<noteq> unrealized
              \<or> val_totalEquity valuation \<noteq> equity
              \<or> val_maxEquity valuation \<noteq> maxEquity
              \<or> drawdowns_differ (val_currentDrawdown valuation) (snp_currentDrawdown s)
              \<or> drawdowns_differ (val_maxDrawdown valuation) (snp_maxDrawdown s))
            (InvalidArgument ''PortfolioManager: inconsistent accounting snapshot'') (
          Inr (p\<lparr>pm_cash := cash, pm_positions := positions, pm_unrealizedPnL := unrealized,
                 pm_totalEquity := equity, pm_maxEquity := maxEquity,
                 pm_currentDrawdown := snp_currentDrawdown s,
                 pm_maxDrawdown := snp_maxDrawdown s, pm_tradeCount := snp_tradeCount s,
                 pm_totalFeesPaid := fees, pm_tradeLog := snp_tradeLog s,
                 pm_roundTripCount := snp_roundTripCount s,
                 pm_pendingOrders := snp_pendingOrders s,
                 pm_nextOrderId := snp_nextOrderId s\<rparr>)))))"

subsection \<open>Pending orders\<close>

text \<open>The record that is kept.\<close>

definition stored_order ::
  "order_record \<Rightarrow> quantity \<Rightarrow> money \<Rightarrow> price \<Rightarrow> price \<Rightarrow> price \<Rightarrow> u64 \<Rightarrow> order_record" where
  "stored_order order quantity capital limitPrice trailOffset trailBest i =
     (let record = order\<lparr>ord_quantity := toDouble quantity,
            ord_capitalToCommit := toDouble capital, ord_limitPrice := toDouble limitPrice,
            ord_trailOffset := toDouble trailOffset, ord_trailBest := toDouble trailBest,
            ord_orderId := i\<rparr>
      in if ord_orderType record = PO_TrailingStop
         then record\<lparr>ord_trailBest := ord_limitPrice record\<rparr> else record)"

definition placePendingOrder ::
  "fp_format \<Rightarrow> order_record \<Rightarrow> portfolio \<Rightarrow> portfolio \<times> u64" where
  "placePendingOrder L order p =
     (if ord_symbol order = [] \<or> fp_less (ord_quantity order) (Fin 0)
         \<or> fp_less (ord_capitalToCommit order) (Fin 0) \<or> fp_less (ord_limitPrice order) (Fin 0)
         \<or> fp_less (ord_trailOffset order) (Fin 0)
      then (p, 0)
      else case (quantity_of L (ord_quantity order) TowardZero,
                 money_of L (ord_capitalToCommit order) NearestTiesAwayFromZero,
                 price_of L (ord_limitPrice order) NearestTiesAwayFromZero,
                 price_of L (ord_trailOffset order) NearestTiesAwayFromZero,
                 price_of L (ord_trailBest order) NearestTiesAwayFromZero) of
        (Some quantity, Some capital, Some limitPrice, Some trailOffset, Some trailBest) \<Rightarrow>
          if pm_nextOrderId p = - 1 then (p, 0)
          else
            let record = stored_order order quantity capital limitPrice trailOffset trailBest
                  (pm_nextOrderId p)
            in (p\<lparr>pm_nextOrderId := pm_nextOrderId p + 1,
                  pm_pendingOrders := pm_pendingOrders p @ [record]\<rparr>, ord_orderId record)
      | _ \<Rightarrow> (p, 0))"

fun cancel_loop :: "u64 \<Rightarrow> order_record list \<Rightarrow> order_record list option" where
  "cancel_loop orderId [] = None"
| "cancel_loop orderId (order # rest) =
     (if ord_orderId order = orderId then Some rest
      else map_option ((#) order) (cancel_loop orderId rest))"

definition cancelPendingOrder :: "u64 \<Rightarrow> portfolio \<Rightarrow> portfolio \<times> bool" where
  "cancelPendingOrder orderId p =
     (case cancel_loop orderId (pm_pendingOrders p) of
        None \<Rightarrow> (p, False)
      | Some orders \<Rightarrow> (p\<lparr>pm_pendingOrders := orders\<rparr>, True))"

text \<open>The ratchet of a trailing stop.\<close>

definition trail :: "fp_format \<Rightarrow> fp \<Rightarrow> order_record \<Rightarrow> order_record" where
  "trail L close_price order =
     (if fp_less (ord_trailBest order) close_price then
        (case price_of L close_price NearestTiesAwayFromZero of
           None \<Rightarrow> order
         | Some best \<Rightarrow>
             (case price_of L (fp_sub binary64 (toDouble best) (ord_trailOffset order))
                     NearestTiesAwayFromZero of
                None \<Rightarrow> order
              | Some stop \<Rightarrow>
                  if isPositive best \<and> isPositive stop
                  then order\<lparr>ord_trailBest := toDouble best, ord_limitPrice := toDouble stop\<rparr>
                  else order))
      else order)"

text \<open>The switch: the order with its trailing stop moved, and the price it triggered at.\<close>

definition evaluate_order ::
  "fp_format \<Rightarrow> fp \<Rightarrow> fp \<Rightarrow> fp \<Rightarrow> order_record \<Rightarrow> order_record \<times> fp option" where
  "evaluate_order L highPrice lowPrice close_price order =
     (case ord_orderType order of
        PO_Limit \<Rightarrow>
          (order, if (ord_isBuy order \<and> fp_le lowPrice (ord_limitPrice order))
                     \<or> (\<not> ord_isBuy order \<and> fp_le (ord_limitPrice order) highPrice)
                  then Some (ord_limitPrice order) else None)
      | PO_StopLoss \<Rightarrow>
          (order, if fp_le lowPrice (ord_limitPrice order)
                  then Some (fp_min (ord_limitPrice order) lowPrice) else None)
      | PO_TrailingStop \<Rightarrow>
          (let order = trail L close_price order
           in (order, if fp_le lowPrice (ord_limitPrice order)
                      then Some (fp_min (ord_limitPrice order) lowPrice) else None))
      | PO_Market \<Rightarrow> (order, Some close_price))"

definition fill_result :: "order_record \<Rightarrow> price \<Rightarrow> u64 \<Rightarrow> order_fill_result" where
  "fill_result order fillPrice timestamp =
     \<lparr>ofr_orderId = ord_orderId order, ofr_filled = True, ofr_symbol = ord_symbol order,
      ofr_orderType = ord_orderType order, ofr_isBuy = ord_isBuy order,
      ofr_fillPrice = toDouble fillPrice, ofr_quantity = ord_quantity order,
      ofr_capitalToCommit = ord_capitalToCommit order, ofr_fillTimestamp = timestamp\<rparr>"

fun evaluate_loop ::
  "fp_format \<Rightarrow> string \<Rightarrow> fp \<Rightarrow> fp \<Rightarrow> fp \<Rightarrow> u64 \<Rightarrow> order_record list
   \<Rightarrow> order_record list \<times> order_fill_result list" where
  "evaluate_loop L symbol highPrice lowPrice close_price timestamp [] = ([], [])"
| "evaluate_loop L symbol highPrice lowPrice close_price timestamp (order # rest) =
     (let (kept, fills) = evaluate_loop L symbol highPrice lowPrice close_price timestamp rest
      in if ord_symbol order \<noteq> symbol then (order # kept, fills)
         else case evaluate_order L highPrice lowPrice close_price order of
           (order, triggered) \<Rightarrow>
             (case triggered of
                None \<Rightarrow> (order # kept, fills)
              | Some fillPrice \<Rightarrow>
                  (case price_of L fillPrice NearestTiesAwayFromZero of
                     None \<Rightarrow> (order # kept, fills)
                   | Some normalizedFill \<Rightarrow>
                       if isPositive normalizedFill
                       then (kept, fill_result order normalizedFill timestamp # fills)
                       else (order # kept, fills))))"

definition evaluatePendingOrders ::
  "fp_format \<Rightarrow> string \<Rightarrow> fp \<Rightarrow> fp \<Rightarrow> fp \<Rightarrow> u64 \<Rightarrow> portfolio
   \<Rightarrow> portfolio \<times> order_fill_result list" where
  "evaluatePendingOrders L symbol highPrice lowPrice close_price timestamp p =
     (case evaluate_loop L symbol highPrice lowPrice close_price timestamp (pm_pendingOrders p) of
        (orders, fills) \<Rightarrow> (p\<lparr>pm_pendingOrders := orders\<rparr>, fills))"


end
