(* ===== verification/PortfolioProps.thy ===== *)
theory PortfolioProps
  imports Portfolio ConversionProps FinancialProps "HOL-Library.Multiset"
begin

text \<open>
  Lemmas on the portfolio: how an operation that returns has succeeded, the valuation as a sum
  over the positions whatever the order of iteration, and the invariant of the accounting.
\<close>

subsection \<open>Results\<close>

lemma throw_if_Inr [simp]: "throw_if b e k = Inr y \<longleftrightarrow> \<not> b \<and> k = Inr y"
  by (simp add: throw_if_def)

lemma requireValue_Inr [simp]: "requireValue v m k = Inr y \<longleftrightarrow> (\<exists>x. v = Some x \<and> k x = Inr y)"
  by (simp add: requireValue_def split: option.splits)

lemma bind_result_Inr [simp]: "bind_result r k = Inr y \<longleftrightarrow> (\<exists>x. r = Inr x \<and> k x = Inr y)"
  by (simp add: bind_result_def split: sum.splits)

lemma requireCounterCapacity_Inr [simp]:
  "requireCounterCapacity v m k = Inr y \<longleftrightarrow> v \<noteq> INT_MAX \<and> k = Inr y"
  by (simp add: requireCounterCapacity_def)

lemma price_and_fee_Inr:
  "price_and_fee L x y m k = Inr z \<longleftrightarrow>
     (\<exists>p f. price_of L x NearestTiesAwayFromZero = Some p
        \<and> money_of L y NearestTiesAwayFromZero = Some f
        \<and> isPositive p \<and> \<not> isNegative f \<and> k p f = Inr z)"
  by (auto simp: price_and_fee_def split: option.splits)

lemma open_budget_Inr:
  "open_budget L c p k = Inr z \<Longrightarrow> \<exists>b. units b \<le> units (pm_cash p)
     \<and> (b = pm_cash p \<or> money_of L c NearestTiesAwayFromZero = Some b) \<and> k b = Inr z"
  by (auto simp: open_budget_def not_less split: if_splits option.splits)

lemma open_size_Inr:
  "open_size L x price f b k = Inr z \<Longrightarrow>
     \<exists>q c d. isPositive q
        \<and> (quantity_of L x RejectUnaligned = Some q
           \<or> (\<exists>m. subtract_value b f = Some m \<and> quantityForNotional m price TowardZero = Some q))
        \<and> notional price q NearestTiesAwayFromZero = Some c
        \<and> add_value c f = Some d \<and> k q c d = Inr z"
  by (auto simp: open_size_def split: if_splits option.splits)

lemma add_within_budget_Inr: "add_within_budget L c d k = Inr z \<Longrightarrow> k = Inr z"
  by (auto simp: add_within_budget_def split: if_splits option.splits)

lemma close_quantity_Inr:
  "close_quantity L x s k = Inr z \<Longrightarrow>
     \<exists>q. (q = ps_quantity s \<or> quantity_of L x RejectUnaligned = Some q \<and> isPositive q
           \<and> units q \<le> units (ps_quantity s)) \<and> k q = Inr z"
  by (auto simp: close_quantity_def not_less split: if_splits option.splits)

subsection \<open>Ranges\<close>

text \<open>The format of \<open>long double\<close> holds the largest 64-bit integer exactly, as x87 does.\<close>

definition ld_exact :: "fp_format \<Rightarrow> bool" where
  "ld_exact L \<longleftrightarrow> fmt_ok L \<and> fp_of_int L INT64_MAX = Fin (of_int INT64_MAX)"

lemma ld_exact_x87: "ld_exact x87_extended"
proof -
  have "representable x87_extended (of_int INT64_MAX)"
    by (rule representable_int) (simp_all add: INT64_MAX_def x87_extended_def)
  then have "fl_rat x87_extended (of_int INT64_MAX) = of_int INT64_MAX"
    by (intro fl_rat_exact fmt_ok_prec) simp_all
  moreover have "\<bar>rat_of_int INT64_MAX\<bar> \<le> 2 powi 1000"
  proof -
    have "\<bar>rat_of_int INT64_MAX\<bar> \<le> 2 powi 64" by (simp add: INT64_MAX_def power_int_def)
    also have "\<dots> \<le> 2 powi 1000" by (simp only: powi_le_iff)
    finally show ?thesis .
  qed
  ultimately show ?thesis
    using fp_round_finite [OF fmt_ok_formats(2), of "of_int INT64_MAX"]
    by (simp add: ld_exact_def fp_of_int_def)
qed

lemma fp_of_int_min:
  assumes "fmt_ok L"
  shows "fp_of_int L INT64_MIN = Fin (of_int INT64_MIN)"
proof -
  have eq: "rat_of_int INT64_MIN = - (2 powi 63)" by (simp add: INT64_MIN_def power_int_def)
  have "fl_rat L (2 powi 63) = 2 powi 63"
    using assms by (intro fl_rat_exact representable_powi fmt_ok_prec) (simp_all add: fmt_ok_def)
  then have "fl_rat L (of_int INT64_MIN) = of_int INT64_MIN" unfolding eq by simp
  moreover have "\<bar>rat_of_int INT64_MIN\<bar> \<le> 2 powi 1000"
    unfolding eq abs_minus_cancel by (simp only: abs_of_pos powi_pos powi_le_iff)
  ultimately show ?thesis by (simp add: fp_of_int_def fp_round_finite [OF assms])
qed

lemma rounded_long_int:
  "rounded_long L r (Fin s) = Some x \<Longrightarrow> \<exists>k. x = Fin (of_int k)"
  by (cases r) (auto simp: rounded_long_def fp_map_int_def Let_def split: if_splits)

lemma rounded_long_not_finite:
  "rounded_long L r a = Some x \<Longrightarrow> \<not> fp_isfinite a \<Longrightarrow> \<not> fp_isfinite x"
  by (cases r; cases a) (auto simp: rounded_long_def fp_map_int_def Let_def split: if_splits)

lemma normalize_range:
  assumes "ld_exact L" and "normalize L v r = Some u"
  shows "in_i64 u"
proof -
  define s where "s = fp_mul L (fp_cast L v) (fp_of_int L SCALE_FACTOR)"
  from assms(2) obtain x where x: "rounded_long L r s = Some x"
    and lim: "\<not> fp_less x (fp_of_int L INT64_MIN)" "\<not> fp_less (fp_of_int L INT64_MAX) x"
    and u: "u = fp_to_int x"
    by (auto simp: normalize_def s_def Let_def split: if_splits option.splits)
  have fmt: "fmt_ok L" and mx: "fp_of_int L INT64_MAX = Fin (of_int INT64_MAX)"
    using assms(1) by (simp_all add: ld_exact_def)
  show ?thesis
  proof (cases s)
    case (Fin q)
    with x rounded_long_int obtain k where k: "x = Fin (of_int k)" by blast
    with lim have "INT64_MIN \<le> k" "k \<le> INT64_MAX"
      by (simp_all add: mx fp_of_int_min [OF fmt] not_less)
    with k u show ?thesis by (simp add: fp_to_int_def in_i64_def)
  next
    case NaN
    with x rounded_long_not_finite [OF x] have "\<not> fp_isfinite x" by simp
    with u show ?thesis by (cases x) (simp_all add: fp_to_int_def)
  next
    case (Infinite b)
    with x rounded_long_not_finite [OF x] have "\<not> fp_isfinite x" by simp
    with u show ?thesis by (cases x) (simp_all add: fp_to_int_def)
  qed
qed

lemma normalized_range:
  assumes "ld_exact L"
  shows "price_of L v r = Some a \<Longrightarrow> in_i64 (units a)"
    and "quantity_of L v r = Some b \<Longrightarrow> in_i64 (units b)"
    and "money_of L v r = Some c \<Longrightarrow> in_i64 (units c)"
  using normalize_range [OF assms]
  by (auto simp: price_of_def quantity_of_def money_of_def normalized_def split: option.splits)

lemma add_value_iff:
  assumes "in_i64 (units a)" and "in_i64 (units b)"
  shows "add_value a b = Some c \<longleftrightarrow> units c = units a + units b \<and> in_i64 (units c)"
  using checked_add_subtract_raw(1) [OF assms]
  by (cases c) (auto simp: add_value_def fit_i64_def)

lemma subtract_value_iff:
  assumes "in_i64 (units a)" and "in_i64 (units b)"
  shows "subtract_value a b = Some c \<longleftrightarrow> units c = units a - units b \<and> in_i64 (units c)"
  using checked_add_subtract_raw(2) [OF assms]
  by (cases c) (auto simp: subtract_value_def fit_i64_def)

lemma notional_range:
  assumes "in_i64 (units p)" and "in_i64 (units q)" and "0 \<le> units p" and "0 \<le> units q"
    and "notional p q r = Some m"
  shows "in_i64 (units m) \<and> 0 \<le> units m"
proof -
  from assms obtain k where k: "round_div r (units p * units q) SCALE_FACTOR = Some k"
    "m = FValue k" "in_i64 k"
    by (auto simp: notional_def scaledProduct_exact bind_fit_Some_iff)
  have "0 \<le> k" by (rule round_div_nonneg(1) [OF _ _ k(1)]) (use assms in \<open>simp_all add: SCALE_FACTOR_def\<close>)
  with k show ?thesis by simp
qed

lemma averagePrice_range:
  assumes "in_i64 (units c)" and "in_i64 (units q)" and "averagePrice c q r = Some p"
  shows "in_i64 (units p) \<and> 0 \<le> units p"
proof -
  from assms obtain k where k: "round_div r (units c * SCALE_FACTOR) (units q) = Some k"
    "p = FValue k" "in_i64 k" "0 \<le> units c" "0 < units q"
    by (auto simp: averagePrice_def scaledRatio_exact bind_fit_Some_iff fvalue_sign_defs
        split: if_splits)
  have "0 \<le> k" by (rule round_div_nonneg(1) [OF _ _ k(1)]) (use k in \<open>simp_all add: SCALE_FACTOR_def\<close>)
  with k show ?thesis by simp
qed

lemma quantityForNotional_range:
  assumes "quantityForNotional m p r = Some q" and "in_i64 (units m)" and "in_i64 (units p)"
  shows "in_i64 (units q)"
  using assms
  by (auto simp: quantityForNotional_def scaledRatio_exact bind_fit_Some_iff split: if_splits)

text \<open>A part of a non-negative whole.\<close>

lemma proportional_part:
  assumes "in_i64 (units t)" and "in_i64 (units a)" and "in_i64 (units b)" and "0 \<le> units t"
    and "proportional t a b r = Some m"
  shows "in_i64 (units m) \<and> 0 \<le> units m \<and> units m \<le> units t"
proof -
  from assms obtain k where k: "round_div r (units t * units a) (units b) = Some k"
    "m = FValue k" "in_i64 k" "0 \<le> units a" "units a \<le> units b" "0 < units b"
    by (auto simp: proportional_def proportionalUnits_exact bind_fit_Some_iff fvalue_sign_defs
        split: if_splits)
  have "units t * units a \<le> units t * units b" using assms(4) k(5) by (rule mult_left_mono [rotated])
  then have "k \<le> units t" using assms(4) k by (intro round_div_le [OF _ _ k(1)]) simp_all
  moreover have "0 \<le> k" using assms(4) k by (intro round_div_nonneg(1) [OF _ _ k(1)]) simp_all
  ultimately show ?thesis using k by simp
qed

lemma proportional_share_whole:
  assumes "in_i64 (units t)" and "in_i64 (units b)" and "0 \<le> units t"
    and "proportional t b b NearestTiesAwayFromZero = Some m"
  shows "m = t"
proof -
  from assms have b: "0 < units b"
    by (auto simp: proportional_def fvalue_sign_defs split: if_splits)
  with assms obtain k where k: "round_div NearestTiesAwayFromZero (units t * units b) (units b) = Some k"
    "m = FValue k"
    by (auto simp: proportional_def proportionalUnits_exact bind_fit_Some_iff fvalue_sign_defs)
  have n: "0 \<le> units t * units b" using assms(3) b by simp
  have "k \<le> units t" by (rule round_div_le [OF n b k(1)]) simp
  moreover have "units t \<le> k" by (rule round_div_ge [OF n b k(1) assms(3)]) simp
  ultimately show ?thesis using k(2) by (cases t) simp
qed

subsection \<open>Valuation\<close>

definition position_ok :: "position_state \<Rightarrow> bool" where
  "position_ok s \<longleftrightarrow>
     in_i64 (units (ps_quantity s)) \<and> in_i64 (units (ps_costBasis s))
     \<and> in_i64 (units (ps_lastMarkPrice s)) \<and> in_i64 (units (ps_entryFee s))
     \<and> 0 < units (ps_quantity s) \<and> 0 \<le> units (ps_costBasis s)
     \<and> 0 < units (ps_lastMarkPrice s) \<and> 0 \<le> units (ps_entryFee s)
     \<and> averagePrice (ps_costBasis s) (ps_quantity s) NearestTiesAwayFromZero
         = Some (ps_averageEntryPrice s)"

definition mark_units :: "position_state \<Rightarrow> int" where
  "mark_units s =
     (case notional (ps_lastMarkPrice s) (ps_quantity s) NearestTiesAwayFromZero of
        None \<Rightarrow> 0 | Some m \<Rightarrow> units m)"

definition position_sum :: "(position_state \<Rightarrow> int) \<Rightarrow> positions \<Rightarrow> int" where
  "position_sum f ps = sum_list (map (f \<circ> snd) ps)"

definition cost_units :: "position_state \<Rightarrow> int" where
  "cost_units s = units (ps_costBasis s)"

lemma position_sum_simps [simp]:
  "position_sum f [] = 0" "position_sum f (x # ps) = f (snd x) + position_sum f ps"
  "position_sum f (ps @ qs) = position_sum f ps + position_sum f qs"
  by (simp_all add: position_sum_def)

lemma position_sum_perm: "mset ps = mset qs \<Longrightarrow> position_sum f ps = position_sum f qs"
  by (metis mset_map sum_mset_sum_list position_sum_def)

lemma mark_units_nonneg: "position_ok s \<Longrightarrow> 0 \<le> mark_units s"
  using notional_range [of "ps_lastMarkPrice s" "ps_quantity s" NearestTiesAwayFromZero]
  by (auto simp: mark_units_def position_ok_def split: option.splits)

lemma value_loop_sum:
  assumes "value_loop ps m u = Inr (m', u')" and "\<forall>x \<in> set ps. position_ok (snd x)"
    and "in_i64 (units m)" and "in_i64 (units u)"
  shows "units m' = units m + position_sum mark_units ps \<and> in_i64 (units m')
    \<and> units u' = units u + (position_sum mark_units ps - position_sum cost_units ps) \<and> in_i64 (units u')"
  using assms
proof (induction ps arbitrary: m u)
  case (Cons x ps)
  obtain sym s where x: "x = (sym, s)" by fastforce
  with Cons.prems obtain a m1 d u1 where
    a: "notional (ps_lastMarkPrice s) (ps_quantity s) NearestTiesAwayFromZero = Some a"
    and m1: "add_value m a = Some m1" and d: "subtract_value a (ps_costBasis s) = Some d"
    and u1: "add_value u d = Some u1" and rest: "value_loop ps m1 u1 = Inr (m', u')"
    by auto
  have ok: "position_ok s" using Cons.prems(2) x by simp
  have ar: "in_i64 (units a)" using notional_range [OF _ _ _ _ a] ok by (simp add: position_ok_def)
  have m1': "units m1 = units m + units a" "in_i64 (units m1)"
    using m1 add_value_iff [OF Cons.prems(3) ar] by blast+
  have d': "units d = units a - cost_units s" "in_i64 (units d)"
    using d ok subtract_value_iff [OF ar, of "ps_costBasis s"]
    unfolding position_ok_def cost_units_def by blast+
  have u1': "units u1 = units u + units d" "in_i64 (units u1)"
    using u1 add_value_iff [OF Cons.prems(4) d'(2)] by blast+
  have mk: "mark_units s = units a" by (simp add: mark_units_def a)
  have "\<forall>x \<in> set ps. position_ok (snd x)" using Cons.prems(2) by simp
  note ih = Cons.IH [OF rest this m1'(2) u1'(2)]
  have "units m' = units m + position_sum mark_units (x # ps)"
    "units u' = units u + (position_sum mark_units (x # ps) - position_sum cost_units (x # ps))"
    using ih m1'(1) u1'(1) d'(1) by (simp_all add: x mk)
  with ih show ?case by blast
qed simp

definition permutes :: "(positions \<Rightarrow> positions) \<Rightarrow> bool" where
  "permutes order \<longleftrightarrow> (\<forall>ps. mset (order ps) = mset ps)"

lemma permutes_set: "permutes order \<Longrightarrow> set (order ps) = set ps"
  unfolding permutes_def by (metis set_mset_mset)

lemma permutes_id [simp]: "permutes id" "permutes (\<lambda>ps. ps)" "permutes rev"
  by (simp_all add: permutes_def)

lemma valueState_sum:
  assumes "valueState order cash ps p = Inr v" and "permutes order"
    and "\<forall>x \<in> set ps. position_ok (snd x)" and "in_i64 (units cash)"
  shows "units (val_totalEquity v) = units cash + position_sum mark_units ps
    \<and> in_i64 (units (val_totalEquity v))
    \<and> units (val_unrealizedPnL v) = position_sum mark_units ps - position_sum cost_units ps
    \<and> in_i64 (units (val_unrealizedPnL v))
    \<and> units (val_maxEquity v) = max (units (pm_maxEquity p)) (units (val_totalEquity v))
    \<and> (val_maxEquity v = val_totalEquity v \<or> val_maxEquity v = pm_maxEquity p)
    \<and> val_currentDrawdown v = drawdown_of (val_maxEquity v) (val_totalEquity v)
    \<and> val_maxDrawdown v = fp_max (pm_maxDrawdown p) (val_currentDrawdown v)"
proof -
  from assms(1) obtain m u e where loop: "value_loop (order ps) (FValue 0) (FValue 0) = Inr (m, u)"
    and e: "add_value cash m = Some e"
    and v: "v = \<lparr>val_unrealizedPnL = u, val_totalEquity = e,
       val_maxEquity = (if units e > units (pm_maxEquity p) then e else pm_maxEquity p),
       val_currentDrawdown = drawdown_of
         (if units e > units (pm_maxEquity p) then e else pm_maxEquity p) e,
       val_maxDrawdown = fp_max (pm_maxDrawdown p) (drawdown_of
         (if units e > units (pm_maxEquity p) then e else pm_maxEquity p) e)\<rparr>"
    by (auto simp: valueState_def Let_def)
  have "mset (order ps) = mset ps" using assms(2) by (simp add: permutes_def)
  note tot = position_sum_perm [OF this]
  have "\<forall>x \<in> set (order ps). position_ok (snd x)" using assms(3) permutes_set [OF assms(2)] by simp
  note vl = value_loop_sum [OF loop this, simplified tot, simplified]
  have s: "units m = position_sum mark_units ps" "in_i64 (units m)"
    "units u = position_sum mark_units ps - position_sum cost_units ps" "in_i64 (units u)"
    using vl by blast+
  have "units e = units cash + units m" "in_i64 (units e)"
    using e add_value_iff [OF assms(4) s(2)] by blast+
  with s show ?thesis by (auto simp: v)
qed

text \<open>A position whose mark has a representable notional.\<close>

definition valued :: "position_state \<Rightarrow> bool" where
  "valued s \<longleftrightarrow>
     notional (ps_lastMarkPrice s) (ps_quantity s) NearestTiesAwayFromZero \<noteq> None"

lemma value_loop_valued: "value_loop ps m u = Inr r \<Longrightarrow> \<forall>x \<in> set ps. valued (snd x)"
proof (induction ps arbitrary: m u)
  case (Cons x ps)
  then show ?case by (cases x) (auto simp: valued_def)
qed simp

lemma valueState_valued:
  "valueState order cash ps p = Inr v \<Longrightarrow> \<forall>x \<in> set (order ps). valued (snd x)"
  by (auto simp: valueState_def dest: value_loop_valued)

lemma position_sum_nonneg: "\<forall>x \<in> set ps. 0 \<le> f (snd x) \<Longrightarrow> 0 \<le> position_sum f ps"
  by (induction ps) auto

subsection \<open>Drawdown\<close>

definition double_rat :: "int \<Rightarrow> rat" where
  "double_rat u = fl_rat binary64 (fl_rat binary64 (of_int u) / of_int SCALE_FACTOR)"

lemma fl64_mono: "x \<le> y \<Longrightarrow> fl_rat binary64 x \<le> fl_rat binary64 y"
  by (rule fl_rat_mono) (simp_all add: binary64_def)

lemma double_rat_mono: "u \<le> v \<Longrightarrow> double_rat u \<le> double_rat v"
  unfolding double_rat_def
  by (intro fl64_mono divide_right_mono) (simp_all add: SCALE_FACTOR_def)

lemma fl64_int: "\<bar>n\<bar> \<le> 2 ^ 53 \<Longrightarrow> fl_rat binary64 (of_int n) = of_int n"
  by (rule fl_rat_exact [OF representable_small_int]) (simp_all add: fmt_ok_prec)

lemma fl64_i64:
  assumes "in_i64 u"
  shows "\<bar>fl_rat binary64 (of_int u)\<bar> \<le> 2 powi 63"
proof -
  have "fl_rat binary64 (2 powi 63) = 2 powi 63"
    by (intro fl_rat_exact representable_powi) (simp_all add: binary64_def)
  moreover have "\<bar>rat_of_int u\<bar> \<le> 2 powi 63"
    using assms by (auto simp: in_i64_def INT64_MIN_def INT64_MAX_def power_int_def simp flip: of_int_abs)
  ultimately show ?thesis using fl64_mono [of "\<bar>of_int u\<bar>" "2 powi 63"] by (simp add: fl_rat_abs)
qed

lemma toDouble_rat:
  assumes "in_i64 (units v)"
  shows "toDouble v = Fin (double_rat (units v))" and "\<bar>double_rat (units v)\<bar> \<le> 2 powi 63"
proof -
  let ?x = "fl_rat binary64 (of_int (units v))"
  note b = fl64_i64 [OF assms]
  have big: "\<bar>x\<bar> \<le> 2 powi 1000" if "\<bar>x\<bar> \<le> 2 powi 64" for x :: rat
    using that powi_le_iff [of 64 1000] by linarith
  have i: "\<bar>rat_of_int (units v)\<bar> \<le> 2 powi 64"
    using assms by (auto simp: in_i64_def INT64_MIN_def INT64_MAX_def power_int_def simp flip: of_int_abs)
  have s: "fp_of_int binary64 SCALE_FACTOR = Fin (of_int SCALE_FACTOR)"
    by (rule fp_of_int_small) (simp_all add: SCALE_FACTOR_def)
  have q: "\<bar>?x / of_int SCALE_FACTOR\<bar> \<le> 2 powi 63"
    using b by (simp add: SCALE_FACTOR_def abs_divide)
  then have "\<bar>?x / of_int SCALE_FACTOR\<bar> \<le> 2 powi 64" using powi_le_iff [of 63 64] by linarith
  note r = fp_round_finite [OF fmt_ok_formats(1) big [OF this]]
  have "fp_of_int binary64 (units v) = Fin ?x"
    unfolding fp_of_int_def by (rule fp_round_finite [OF fmt_ok_formats(1) big [OF i]])
  then show "toDouble v = Fin (double_rat (units v))"
    using r unfolding toDouble_def s by (simp add: double_rat_def SCALE_FACTOR_def)
  have "fl_rat binary64 (2 powi 63) = 2 powi 63"
    by (intro fl_rat_exact representable_powi) (simp_all add: binary64_def)
  then show "\<bar>double_rat (units v)\<bar> \<le> 2 powi 63"
    using fl64_mono [OF q] by (simp add: double_rat_def fl_rat_abs)
qed

lemma double_rat_pos:
  assumes "0 < u"
  shows "0 < double_rat u"
proof -
  have "1 \<le> fl_rat binary64 (of_int u)" using fl64_mono [of 1 "of_int u"] fl64_int [of 1] assms by simp
  then have "1 / of_int SCALE_FACTOR \<le> fl_rat binary64 (of_int u) / of_int SCALE_FACTOR"
    by (simp add: SCALE_FACTOR_def divide_right_mono)
  then have "fl_rat binary64 (1 / of_int SCALE_FACTOR) \<le> double_rat u"
    unfolding double_rat_def by (rule fl64_mono)
  moreover have "fl_rat binary64 (2 powi - 27) = 2 powi - 27"
    by (intro fl_rat_exact representable_powi) (simp_all add: binary64_def)
  moreover have "2 powi - 27 \<le> (1 / of_int SCALE_FACTOR :: rat)"
    by (simp add: SCALE_FACTOR_def power_int_def power_one_over)
  ultimately have "2 powi - 27 \<le> double_rat u" using fl64_mono by (metis order_trans)
  then show ?thesis by (rule less_le_trans [OF powi_pos])
qed

lemma double_rat_nonneg: "0 \<le> u \<Longrightarrow> 0 \<le> double_rat u"
  using double_rat_mono [of 0 u] by (simp add: double_rat_def)

lemma drawdown_of_bounds:
  assumes m: "in_i64 (units m)" and e: "0 \<le> units e" "units e \<le> units m"
  shows "\<exists>d. drawdown_of m e = Fin d \<and> 0 \<le> d \<and> d \<le> 1"
proof (cases "isPositive m")
  case True
  let ?a = "double_rat (units m)" and ?b = "double_rat (units e)"
  let ?d = "fl_rat binary64 (?a - ?b)"
  have "in_i64 (units e)" using m e by (auto simp: in_i64_def INT64_MIN_def)
  note t = toDouble_rat [OF m] toDouble_rat [OF this]
  have a: "0 < ?a" using True by (intro double_rat_pos) (simp add: isPositive_def)
  have b: "0 \<le> ?b" "?b \<le> ?a" using e by (simp_all add: double_rat_nonneg double_rat_mono)
  have fa: "fl_rat binary64 ?a = ?a" by (simp add: double_rat_def fl_rat_idem)
  have d: "0 \<le> ?d" "?d \<le> ?a"
    using b fl64_mono [of "?a - ?b" ?a] fl64_mono [of 0 "?a - ?b"] by (simp_all add: fa)
  have "\<bar>?a - ?b\<bar> \<le> 2 powi 1000" using t(2) a b powi_le_iff [of 63 1000] by linarith
  note s = fp_round_finite [OF fmt_ok_formats(1) this]
  have q: "0 \<le> ?d / ?a" "?d / ?a \<le> 1" using a d by simp_all
  then have "\<bar>?d / ?a\<bar> \<le> 2 powi 1000" using powi_le_iff [of 0 1000] by (simp del: powi_le_iff)
  note r = fp_round_finite [OF fmt_ok_formats(1) this]
  have "0 \<le> fl_rat binary64 (?d / ?a)" "fl_rat binary64 (?d / ?a) \<le> 1"
    using fl64_mono [OF q(1)] fl64_mono [OF q(2)] fl64_int [of 1] by simp_all
  then show ?thesis using True a by (simp add: drawdown_of_def t fp_sub_def s r)
qed (simp add: drawdown_of_def)

subsection \<open>The accounting invariant\<close>

definition drawdowns_ok :: "portfolio \<Rightarrow> bool" where
  "drawdowns_ok p \<longleftrightarrow>
     pm_currentDrawdown p = drawdown_of (pm_maxEquity p) (pm_totalEquity p)
     \<and> (case (pm_currentDrawdown p, pm_maxDrawdown p) of
          (Fin d, Fin m) \<Rightarrow> 0 \<le> d \<and> d \<le> m \<and> m \<le> 1 | _ \<Rightarrow> False)"

definition pm_inv :: "portfolio \<Rightarrow> bool" where
  "pm_inv p \<longleftrightarrow>
     distinct (map fst (pm_positions p))
     \<and> (\<forall>x \<in> set (pm_positions p). fst x \<noteq> [] \<and> position_ok (snd x))
     \<and> 0 \<le> units (pm_cash p) \<and> in_i64 (units (pm_cash p))
     \<and> 0 \<le> units (pm_totalFeesPaid p) \<and> in_i64 (units (pm_totalFeesPaid p))
     \<and> units (pm_totalEquity p) = units (pm_cash p) + position_sum mark_units (pm_positions p)
     \<and> in_i64 (units (pm_totalEquity p))
     \<and> units (pm_unrealizedPnL p)
         = position_sum mark_units (pm_positions p) - position_sum cost_units (pm_positions p)
     \<and> in_i64 (units (pm_unrealizedPnL p))
     \<and> units (pm_totalEquity p) \<le> units (pm_maxEquity p) \<and> in_i64 (units (pm_maxEquity p))
     \<and> (\<forall>x \<in> set (pm_positions p). valued (snd x)) \<and> drawdowns_ok p"

lemma pm_inv_init: "pm_inv pm_init"
proof -
  have "drawdown_of (FValue STARTING_CASH_UNITS) (FValue STARTING_CASH_UNITS) = Fin 0"
    by code_simp
  then show ?thesis
    by (simp add: pm_inv_def drawdowns_ok_def pm_init_def STARTING_CASH_UNITS_def i64_limits)
qed

definition book_value :: "portfolio \<Rightarrow> int" where
  "book_value p = units (pm_cash p) + position_sum cost_units (pm_positions p) + units (pm_totalFeesPaid p)"

text \<open>What a successful operation has done: the new cash, positions and fees, then a valuation.\<close>

definition committed_to ::
  "(positions \<Rightarrow> positions) \<Rightarrow> portfolio \<Rightarrow> money \<Rightarrow> positions \<Rightarrow> money \<Rightarrow> portfolio \<Rightarrow> bool" where
  "committed_to order p cash ps fees q \<longleftrightarrow>
     (\<exists>v. valueState order cash ps p = Inr v
        \<and> pm_cash q = cash \<and> pm_positions q = ps \<and> pm_totalFeesPaid q = fees
        \<and> pm_unrealizedPnL q = val_unrealizedPnL v \<and> pm_totalEquity q = val_totalEquity v
        \<and> pm_maxEquity q = val_maxEquity v \<and> pm_currentDrawdown q = val_currentDrawdown v
        \<and> pm_maxDrawdown q = val_maxDrawdown v)"

lemma commit_inv:
  assumes c: "committed_to order p cash ps fees q" and "permutes order" and "pm_inv p"
    and "distinct (map fst ps)" and "\<forall>x \<in> set ps. fst x \<noteq> [] \<and> position_ok (snd x)"
    and "0 \<le> units cash" "in_i64 (units cash)" "0 \<le> units fees" "in_i64 (units fees)"
  shows "pm_inv q"
proof -
  from c obtain v where v: "valueState order cash ps p = Inr v"
    and q: "pm_cash q = cash" "pm_positions q = ps" "pm_totalFeesPaid q = fees"
      "pm_unrealizedPnL q = val_unrealizedPnL v" "pm_totalEquity q = val_totalEquity v"
      "pm_maxEquity q = val_maxEquity v"
      "pm_currentDrawdown q = val_currentDrawdown v" "pm_maxDrawdown q = val_maxDrawdown v"
    by (auto simp: committed_to_def)
  from valueState_sum [OF v assms(2) _ assms(7)] assms(5)
  have s: "units (val_totalEquity v) = units cash + position_sum mark_units ps"
      "in_i64 (units (val_totalEquity v))"
      "units (val_unrealizedPnL v) = position_sum mark_units ps - position_sum cost_units ps"
      "in_i64 (units (val_unrealizedPnL v))"
      "units (val_maxEquity v) = max (units (pm_maxEquity p)) (units (val_totalEquity v))"
      "val_currentDrawdown v = drawdown_of (val_maxEquity v) (val_totalEquity v)"
      "val_maxDrawdown v = fp_max (pm_maxDrawdown p) (val_currentDrawdown v)"
    using assms(5) by blast+
  have "in_i64 (units (pm_maxEquity p))" using assms(3) by (simp add: pm_inv_def)
  then have mx: "in_i64 (units (val_maxEquity v))" using s(2,5) by (auto simp: max_def)
  have le: "units (val_totalEquity v) \<le> units (val_maxEquity v)" using s(5) by simp
  have "0 \<le> position_sum mark_units ps" using assms(5) by (intro position_sum_nonneg) (auto simp: mark_units_nonneg)
  then have "0 \<le> units (val_totalEquity v)" using s(1) assms(6) by simp
  from drawdown_of_bounds [OF mx this le] obtain d where
    d: "val_currentDrawdown v = Fin d" "0 \<le> d" "d \<le> 1" by (auto simp: s(6))
  have "drawdowns_ok p" using assms(3) by (simp add: pm_inv_def)
  then have "drawdowns_ok q"
    using d s(6,7) by (auto simp: drawdowns_ok_def q fp_max_def split: fp.splits)
  moreover have "\<forall>x \<in> set ps. valued (snd x)"
    using valueState_valued [OF v] permutes_set [OF assms(2)] by simp
  ultimately show ?thesis using mx le s(1-4) assms(4-9) unfolding pm_inv_def q(1-6) by blast
qed

lemma equity_nonneg:
  assumes "pm_inv p"
  shows "0 \<le> units (pm_totalEquity p)" and "0 \<le> units (pm_maxEquity p)"
proof -
  have "0 \<le> position_sum mark_units (pm_positions p)"
    using assms by (auto simp: pm_inv_def intro!: position_sum_nonneg mark_units_nonneg)
  then show "0 \<le> units (pm_totalEquity p)" using assms by (simp add: pm_inv_def)
  then show "0 \<le> units (pm_maxEquity p)" using assms unfolding pm_inv_def by linarith
qed

subsection \<open>Association lists\<close>

lemma map_of_split:
  assumes "distinct (map fst ps)" and "map_of ps k = Some s"
  shows "\<exists>as bs. ps = as @ (k, s) # bs \<and> k \<notin> fst ` set as \<and> k \<notin> fst ` set bs"
proof -
  from assms(2) have "(k, s) \<in> set ps" by (rule map_of_SomeD)
  then obtain as bs where "ps = as @ (k, s) # bs" by (meson split_list)
  with assms(1) show ?thesis by (intro exI [of _ as] exI [of _ bs]) auto
qed

lemma update_split:
  "k \<notin> fst ` set as \<Longrightarrow> AList.update k t (as @ (k, s) # bs) = as @ (k, t) # bs"
  by (induction as) auto

lemma delete_split:
  "k \<notin> fst ` set as \<Longrightarrow> k \<notin> fst ` set bs \<Longrightarrow> AList.delete k (as @ (k, s) # bs) = as @ bs"
proof -
  assume a: "k \<notin> fst ` set as" "k \<notin> fst ` set bs"
  have id: "filter (\<lambda>(k', _). k \<noteq> k') xs = xs" if "k \<notin> fst ` set xs" for xs :: "('a \<times> 'b) list"
    using that by (induction xs) auto
  show ?thesis using id [OF a(1)] id [OF a(2)] by (simp add: AList.delete_eq)
qed

lemma position_sum_update:
  assumes "distinct (map fst ps)" and "map_of ps k = Some s"
  shows "position_sum f (AList.update k t ps) = position_sum f ps - f s + f t"
    and "position_sum f (AList.delete k ps) = position_sum f ps - f s"
proof -
  from map_of_split [OF assms] obtain as bs where ps: "ps = as @ (k, s) # bs"
    "k \<notin> fst ` set as" "k \<notin> fst ` set bs" by blast
  show "position_sum f (AList.update k t ps) = position_sum f ps - f s + f t"
    "position_sum f (AList.delete k ps) = position_sum f ps - f s"
    by (simp_all add: ps(1) update_split [OF ps(2)] delete_split [OF ps(2,3)])
qed

lemma update_delete_ok:
  assumes "distinct (map fst ps)" and "map_of ps k = Some s" and "\<forall>x \<in> set ps. P (fst x) (snd x)"
  shows "distinct (map fst (AList.update k t ps))" and "distinct (map fst (AList.delete k ps))"
    and "P k t \<Longrightarrow> \<forall>x \<in> set (AList.update k t ps). P (fst x) (snd x)"
    and "\<forall>x \<in> set (AList.delete k ps). P (fst x) (snd x)"
proof -
  from map_of_split [OF assms(1,2)] obtain as bs where ps: "ps = as @ (k, s) # bs"
    "k \<notin> fst ` set as" "k \<notin> fst ` set bs" by blast
  show "distinct (map fst (AList.update k t ps))" "distinct (map fst (AList.delete k ps))"
    "P k t \<Longrightarrow> \<forall>x \<in> set (AList.update k t ps). P (fst x) (snd x)"
    "\<forall>x \<in> set (AList.delete k ps). P (fst x) (snd x)"
    using assms(1,3) by (auto simp: ps(1) update_split [OF ps(2)] delete_split [OF ps(2,3)])
qed

subsection \<open>The accounting operations\<close>

definition same_orders :: "portfolio \<Rightarrow> portfolio \<Rightarrow> bool" where
  "same_orders p q \<longleftrightarrow>
     pm_pendingOrders q = pm_pendingOrders p \<and> pm_nextOrderId q = pm_nextOrderId p"

text \<open>
  The effect of an accounting operation: the invariant, a change of the book value by the gross
  profits of the trades it closed, and a record of each of them in the trade log.
\<close>

definition accounted :: "portfolio \<Rightarrow> portfolio \<Rightarrow> int list \<Rightarrow> bool" where
  "accounted p q gs \<longleftrightarrow>
     pm_inv q \<and> book_value q = book_value p + sum_list gs \<and> same_orders p q
     \<and> (\<exists>recs. pm_tradeLog q = pm_tradeLog p @ recs
          \<and> list_all2 (\<lambda>r g. trd_grossPnL r = toDouble (FValue g :: money)) recs gs)"

lemma accounted_refl: "pm_inv p \<Longrightarrow> accounted p p []"
  by (simp add: accounted_def same_orders_def)

lemma accounted_trans:
  assumes "accounted p q gs" and "accounted q r hs"
  shows "accounted p r (gs @ hs)"
proof -
  from assms obtain as bs where "pm_tradeLog q = pm_tradeLog p @ as"
      "list_all2 (\<lambda>r g. trd_grossPnL r = toDouble (FValue g :: money)) as gs"
      "pm_tradeLog r = pm_tradeLog q @ bs"
      "list_all2 (\<lambda>r g. trd_grossPnL r = toDouble (FValue g :: money)) bs hs"
    by (auto simp: accounted_def)
  then have "\<exists>recs. pm_tradeLog r = pm_tradeLog p @ recs
      \<and> list_all2 (\<lambda>r g. trd_grossPnL r = toDouble (FValue g :: money)) recs (gs @ hs)"
    by (intro exI [of _ "as @ bs"]) (simp add: list_all2_appendI)
  with assms show ?thesis by (auto simp: accounted_def same_orders_def)
qed

lemma commit_committed:
  "valueState order cash ps p = Inr v \<Longrightarrow> q = commitValuation v r \<Longrightarrow> pm_cash r = cash
   \<Longrightarrow> pm_positions r = ps \<Longrightarrow> pm_totalFeesPaid r = fees
   \<Longrightarrow> committed_to order p cash ps fees q"
  by (auto simp: committed_to_def commitValuation_def)

lemma accountedI:
  assumes "committed_to order p cash ps fees q" and "permutes order" and "pm_inv p"
    and "distinct (map fst ps)" and "\<forall>x \<in> set ps. fst x \<noteq> [] \<and> position_ok (snd x)"
    and "0 \<le> units cash" "in_i64 (units cash)" "0 \<le> units fees" "in_i64 (units fees)"
    and "units cash + position_sum cost_units ps + units fees = book_value p + sum_list gs"
    and "same_orders p q" and "pm_tradeLog q = pm_tradeLog p @ recs"
    and "list_all2 (\<lambda>r g. trd_grossPnL r = toDouble (FValue g :: money)) recs gs"
  shows "accounted p q gs"
  using commit_inv [OF assms(1-9)] assms(1,10-13)
  by (auto simp: accounted_def book_value_def committed_to_def)

lemma pm_invD:
  assumes "pm_inv p"
  shows "distinct (map fst (pm_positions p))"
    and "\<forall>x \<in> set (pm_positions p). fst x \<noteq> [] \<and> position_ok (snd x)"
    and "0 \<le> units (pm_cash p)" "in_i64 (units (pm_cash p))"
    and "0 \<le> units (pm_totalFeesPaid p)" "in_i64 (units (pm_totalFeesPaid p))"
  using assms by (simp_all add: pm_inv_def)

lemma pm_inv_position:
  assumes "pm_inv p" and "map_of (pm_positions p) k = Some s"
  shows "k \<noteq> []" and "position_ok s"
  using assms map_of_SomeD [OF assms(2)] by (auto simp: pm_inv_def)

lemma positions_updated:
  assumes "pm_inv p" and "map_of (pm_positions p) k = Some s" and "position_ok t"
  shows "distinct (map fst (AList.update k t (pm_positions p)))"
    and "\<forall>x \<in> set (AList.update k t (pm_positions p)). fst x \<noteq> [] \<and> position_ok (snd x)"
  using update_delete_ok(1,3) [OF pm_invD(1) [OF assms(1)] assms(2),
      of "\<lambda>k s. k \<noteq> [] \<and> position_ok s"]
    pm_invD(2) [OF assms(1)] pm_inv_position [OF assms(1,2)] assms(3) by blast+

lemma positions_deleted:
  assumes "pm_inv p" and "map_of (pm_positions p) k = Some s"
  shows "distinct (map fst (AList.delete k (pm_positions p)))"
    and "\<forall>x \<in> set (AList.delete k (pm_positions p)). fst x \<noteq> [] \<and> position_ok (snd x)"
  using update_delete_ok(2,4) [OF pm_invD(1) [OF assms(1)] assms(2),
      of "\<lambda>k s. k \<noteq> [] \<and> position_ok s"] pm_invD(2) [OF assms(1)] by blast+

lemma open_commit_accounted:
  assumes run: "open_commit order symbol t sid price f quantity cost debit p = Inr q"
    and env: "permutes order" "pm_inv p"
    and fresh: "symbol \<noteq> []" "map_of (pm_positions p) symbol = None"
    and price: "isPositive price" "in_i64 (units price)"
    and fee: "\<not> isNegative f" "in_i64 (units f)"
    and qty: "isPositive quantity" "in_i64 (units quantity)"
    and cost: "notional price quantity NearestTiesAwayFromZero = Some cost"
    and debit: "add_value cost f = Some debit"
  shows "accounted p q []"
proof -
  from run obtain avg cash fees v where r: "units debit \<le> units (pm_cash p)" "isPositive cost"
    and avg: "averagePrice cost quantity NearestTiesAwayFromZero = Some avg"
    and cash: "subtract_value (pm_cash p) debit = Some cash"
    and fees: "add_value (pm_totalFeesPaid p) f = Some fees"
    and v: "valueState order cash (pm_positions p @ [(symbol, \<lparr>ps_quantity = quantity,
        ps_averageEntryPrice = avg, ps_costBasis = cost, ps_lastMarkPrice = price,
        ps_entryTimestamp = t, ps_entryFee = f, ps_strategyId = sid\<rparr>)]) p = Inr v"
    and q: "q = commitValuation v (p\<lparr>pm_cash := cash, pm_positions := pm_positions p @ [(symbol,
        \<lparr>ps_quantity = quantity, ps_averageEntryPrice = avg, ps_costBasis = cost,
         ps_lastMarkPrice = price, ps_entryTimestamp = t, ps_entryFee = f,
         ps_strategyId = sid\<rparr>)], pm_totalFeesPaid := fees,
        pm_tradeCount := pm_tradeCount p + 1\<rparr>)"
    by (auto simp: open_commit_def Let_def not_less)
  note inv = pm_invD [OF env(2)]
  have pq: "0 \<le> units price" "0 \<le> units quantity" using price qty by (simp_all add: isPositive_def)
  from notional_range [OF price(2) qty(2) pq cost] have cr: "in_i64 (units cost)" by simp
  have d: "units debit = units cost + units f" "in_i64 (units debit)"
    using debit add_value_iff [OF cr fee(2)] by blast+
  have c: "units cash = units (pm_cash p) - units debit" "in_i64 (units cash)"
    using cash subtract_value_iff [OF inv(4) d(2)] by blast+
  have fe: "units fees = units (pm_totalFeesPaid p) + units f" "in_i64 (units fees)"
    using fees add_value_iff [OF inv(6) fee(2)] by blast+
  have nd: "symbol \<notin> fst ` set (pm_positions p)" using fresh(2) by (simp add: map_of_eq_None_iff)
  show ?thesis
  proof (rule accountedI [OF commit_committed [OF v q] env])
    show "units cash + position_sum cost_units (pm_positions p @ [(symbol, \<lparr>ps_quantity = quantity,
        ps_averageEntryPrice = avg, ps_costBasis = cost, ps_lastMarkPrice = price,
        ps_entryTimestamp = t, ps_entryFee = f, ps_strategyId = sid\<rparr>)]) + units fees
      = book_value p + sum_list []"
      using c(1) d(1) fe(1) by (simp add: book_value_def cost_units_def)
    show "pm_tradeLog q = pm_tradeLog p @ []" "same_orders p q"
      by (simp_all add: q commitValuation_def same_orders_def)
  qed (use inv nd c d fe r fresh price fee qty cr avg
      in \<open>auto simp: position_ok_def isPositive_def isNegative_def\<close>)
qed

lemma openLong_accounted:
  assumes "openLong L order symbol x t y c n sid p = Inr q" and "ld_exact L" and "permutes order"
    and "pm_inv p"
  shows "accounted p q []"
proof -
  note rg = normalized_range [OF assms(2)] and inv = pm_invD [OF assms(4)]
  from assms(1) obtain price f where 1: "symbol \<noteq> []" "map_of (pm_positions p) symbol = None"
    "price_of L x NearestTiesAwayFromZero = Some price"
    "money_of L y NearestTiesAwayFromZero = Some f" "isPositive price" "\<not> isNegative f"
    and "open_budget L c p (\<lambda>budget. open_size L n price f budget
        (\<lambda>quantity costBasis debit.
           open_commit order symbol t sid price f quantity costBasis debit p)) = Inr q"
    unfolding openLong_def throw_if_Inr price_and_fee_Inr by auto
  from open_budget_Inr [OF this(7)] obtain b
    where b: "b = pm_cash p \<or> money_of L c NearestTiesAwayFromZero = Some b"
    and "open_size L n price f b (\<lambda>quantity costBasis debit.
        open_commit order symbol t sid price f quantity costBasis debit p) = Inr q" by blast
  from open_size_Inr [OF this(2)] obtain quantity cost debit where 2: "isPositive quantity"
    "quantity_of L n RejectUnaligned = Some quantity
      \<or> (\<exists>m. subtract_value b f = Some m \<and> quantityForNotional m price TowardZero = Some quantity)"
    "notional price quantity NearestTiesAwayFromZero = Some cost" "add_value cost f = Some debit"
    "open_commit order symbol t sid price f quantity cost debit p = Inr q" by blast
  have pr: "in_i64 (units price)" "in_i64 (units f)" using rg 1 by blast+
  have br: "in_i64 (units b)" using b rg inv(4) by blast
  have "in_i64 (units quantity)"
    using 2(2) rg(2) quantityForNotional_range subtract_value_iff [OF br pr(2)] pr(1) by blast
  with 1 2 pr open_commit_accounted [OF 2(5) assms(3,4)] show ?thesis by blast
qed

lemma addToLong_accounted:
  assumes run: "addToLong L order symbol x n y c sid p = Inr q" and L: "ld_exact L"
    and env: "permutes order" "pm_inv p"
  shows "accounted p q []"
proof (cases "map_of (pm_positions p) symbol")
  case None
  with run openLong_accounted [OF _ L env] show ?thesis by (auto simp: addToLong_def Let_def)
next
  case (Some s)
  note rg = normalized_range [OF L] and inv = pm_invD [OF env(2)]
  note sym = pm_inv_position [OF env(2) Some]
  note ok = sym(2) [unfolded position_ok_def]
  from run Some obtain price f a where 1:
    "price_of L x NearestTiesAwayFromZero = Some price"
    "money_of L y NearestTiesAwayFromZero = Some f" "isPositive price" "\<not> isNegative f"
    "quantity_of L n RejectUnaligned = Some a" "isPositive a"
    and rest: "requireValue (notional price a NearestTiesAwayFromZero)
       ''PortfolioManager: add-on notional overflow'' (\<lambda>addedCost.
     requireValue (add_value addedCost f)
       ''PortfolioManager: add-on debit overflow'' (\<lambda>debit.
     throw_if (\<not> isPositive addedCost)
       (LogicError ''PortfolioManager: add-on notional normalizes to zero'') (
     throw_if (units debit > units (pm_cash p))
       (LogicError ''PortfolioManager::addToLong insufficient cash'') (
     add_within_budget L c debit (
     add_to_state sid price a addedCost f s (\<lambda>state.
     add_commit order symbol state f debit p)))))) = Inr q"
    unfolding addToLong_def by (auto simp: price_and_fee_Inr split: option.splits)
  from rest obtain cost debit where
    cost: "notional price a NearestTiesAwayFromZero = Some cost"
    and debit: "add_value cost f = Some debit" and le: "units debit \<le> units (pm_cash p)"
    and "add_within_budget L c debit (add_to_state sid price a cost f s
        (\<lambda>state. add_commit order symbol state f debit p)) = Inr q"
    by (auto simp: not_less)
  from add_within_budget_Inr [OF this(4)] obtain qty basis ef avg where
    qty: "add_value (ps_quantity s) a = Some qty"
    and basis: "add_value (ps_costBasis s) cost = Some basis"
    and ef: "add_value (ps_entryFee s) f = Some ef"
    and avg: "averagePrice basis qty NearestTiesAwayFromZero = Some avg"
    and commit: "add_commit order symbol (s\<lparr>ps_quantity := qty, ps_costBasis := basis,
        ps_entryFee := ef, ps_averageEntryPrice := avg, ps_lastMarkPrice := price,
        ps_strategyId := (if sid \<noteq> [] then sid else ps_strategyId s)\<rparr>) f debit p = Inr q"
    by (auto simp: add_to_state_def)
  define t where "t = s\<lparr>ps_quantity := qty, ps_costBasis := basis,
        ps_entryFee := ef, ps_averageEntryPrice := avg, ps_lastMarkPrice := price,
        ps_strategyId := (if sid \<noteq> [] then sid else ps_strategyId s)\<rparr>"
  from commit obtain cash fees v where
    cash: "subtract_value (pm_cash p) debit = Some cash"
    and fees: "add_value (pm_totalFeesPaid p) f = Some fees"
    and v: "valueState order cash (AList.update symbol t (pm_positions p)) p = Inr v"
    and q: "q = commitValuation v (p\<lparr>pm_cash := cash,
        pm_positions := AList.update symbol t (pm_positions p), pm_totalFeesPaid := fees,
        pm_tradeCount := pm_tradeCount p + 1\<rparr>)"
    by (auto simp: add_commit_def Let_def t_def)
  have pr: "in_i64 (units price)" "in_i64 (units f)" "in_i64 (units a)" using rg 1 by blast+
  have pa: "0 \<le> units price" "0 \<le> units a" using 1 by (simp_all add: isPositive_def)
  from notional_range [OF pr(1,3) pa cost] have cr: "in_i64 (units cost)" "0 \<le> units cost" by simp_all
  have d: "units debit = units cost + units f" "in_i64 (units debit)"
    using debit add_value_iff [OF cr(1) pr(2)] by blast+
  have cs: "units cash = units (pm_cash p) - units debit" "in_i64 (units cash)"
    using cash subtract_value_iff [OF inv(4) d(2)] by blast+
  have fe: "units fees = units (pm_totalFeesPaid p) + units f" "in_i64 (units fees)"
    using fees add_value_iff [OF inv(6) pr(2)] by blast+
  have qt: "units qty = units (ps_quantity s) + units a" "in_i64 (units qty)"
    using qty add_value_iff [OF _ pr(3)] ok by blast+
  have bs: "units basis = units (ps_costBasis s) + units cost" "in_i64 (units basis)"
    using basis add_value_iff [OF _ cr(1)] ok by blast+
  have ee: "units ef = units (ps_entryFee s) + units f" "in_i64 (units ef)"
    using ef add_value_iff [OF _ pr(2)] ok by blast+
  have tok: "position_ok t"
    using ok qt bs ee pr cr 1(3,4,6) avg
    by (simp add: position_ok_def t_def isPositive_def isNegative_def)
  note upd = positions_updated [OF env(2) Some tok]
  show ?thesis
  proof (rule accountedI [OF commit_committed [OF v q] env upd])
    show "0 \<le> units cash" "in_i64 (units cash)" "0 \<le> units fees" "in_i64 (units fees)"
      using cs d(1) fe le inv(5) 1(4) by (simp_all add: isNegative_def)
    show "units cash + position_sum cost_units (AList.update symbol t (pm_positions p)) + units fees
      = book_value p + sum_list []"
      using cs(1) d(1) fe(1) bs(1)
      by (simp add: position_sum_update(1) [OF inv(1) Some] book_value_def cost_units_def t_def)
    show "pm_tradeLog q = pm_tradeLog p @ []" "same_orders p q"
      by (simp_all add: q commitValuation_def same_orders_def)
  qed simp_all
qed

lemma updatePnL_accounted:
  assumes run: "updatePnL L order symbol x p = Inr q" and L: "ld_exact L"
    and env: "permutes order" "pm_inv p"
  shows "accounted p q []"
proof (cases "map_of (pm_positions p) symbol")
  case None
  with run have "q = p" by (simp add: updatePnL_def)
  with accounted_refl [OF env(2)] show ?thesis by simp
next
  case (Some s)
  note inv = pm_invD [OF env(2)] and sym = pm_inv_position [OF env(2) Some]
  define t where "t m = s\<lparr>ps_lastMarkPrice := m\<rparr>" for m
  from run Some obtain m v where m: "price_of L x NearestTiesAwayFromZero = Some m" "isPositive m"
    and v: "valueState order (pm_cash p) (AList.update symbol (t m) (pm_positions p)) p = Inr v"
    and q: "q = commitValuation v (p\<lparr>pm_positions := AList.update symbol (t m) (pm_positions p)\<rparr>)"
    by (auto simp: updatePnL_def Let_def t_def split: option.splits)
  have tok: "position_ok (t m)"
    using sym(2) normalized_range(1) [OF L m(1)] m(2)
    by (simp add: position_ok_def t_def isPositive_def)
  note upd = positions_updated [OF env(2) Some tok]
  show ?thesis
  proof (rule accountedI [OF commit_committed [OF v q] env upd inv(3,4,5,6)])
    show "units (pm_cash p) + position_sum cost_units (AList.update symbol (t m) (pm_positions p))
        + units (pm_totalFeesPaid p) = book_value p + sum_list []"
      by (simp add: position_sum_update(1) [OF inv(1) Some] book_value_def cost_units_def t_def)
    show "pm_tradeLog q = pm_tradeLog p @ []" "same_orders p q"
      by (simp_all add: q commitValuation_def same_orders_def)
  qed simp_all
qed

text \<open>What the close computes, for a quantity that is part of the position.\<close>

lemma close_accounting_Inr:
  assumes "close_accounting price f cq s k = Inr z" and ok: "position_ok s"
    and price: "isPositive price" "in_i64 (units price)" and fee: "\<not> isNegative f" "in_i64 (units f)"
    and cq: "0 < units cq" "in_i64 (units cq)"
  shows "\<exists>a. k a = Inr z \<and> in_i64 (units (cla_netProceeds a)) \<and> 0 \<le> units (cla_netProceeds a)
    \<and> in_i64 (units (cla_allocatedCost a)) \<and> in_i64 (units (cla_allocatedEntryFee a))
    \<and> 0 \<le> units (cla_allocatedCost a) \<and> units (cla_allocatedCost a) \<le> units (ps_costBasis s)
    \<and> 0 \<le> units (cla_allocatedEntryFee a)
    \<and> units (cla_allocatedEntryFee a) \<le> units (ps_entryFee s)
    \<and> units (cla_grossPnl a)
        = units (cla_netProceeds a) + units f - units (cla_allocatedCost a)
    \<and> units (cla_realizedPnl a)
        = units (cla_grossPnl a) - units f - units (cla_allocatedEntryFee a)
    \<and> units (cla_tradeFees a) = units f + units (cla_allocatedEntryFee a)
    \<and> proportional (ps_costBasis s) cq (ps_quantity s) NearestTiesAwayFromZero
        = Some (cla_allocatedCost a)"
proof -
  note o = ok [unfolded position_ok_def]
  from assms(1) obtain g n ac ae gp ae' rp tf where
    g: "notional price cq NearestTiesAwayFromZero = Some g"
    and n: "subtract_value g f = Some n" "\<not> isNegative n"
    and ac: "proportional (ps_costBasis s) cq (ps_quantity s) NearestTiesAwayFromZero = Some ac"
    and ae: "proportional (ps_entryFee s) cq (ps_quantity s) NearestTiesAwayFromZero = Some ae"
    and gp: "subtract_value g ac = Some gp" and ax: "subtract_value gp f = Some ae'"
    and rp: "subtract_value ae' ae = Some rp" and tf: "add_value f ae = Some tf"
    and z: "k \<lparr>cla_netProceeds = n, cla_allocatedCost = ac, cla_allocatedEntryFee = ae,
        cla_grossPnl = gp, cla_realizedPnl = rp, cla_tradeFees = tf\<rparr> = Inr z"
    by (auto simp: close_accounting_def split: option.splits)
  have "0 \<le> units price" "0 \<le> units cq" using price cq by (simp_all add: isPositive_def)
  from notional_range [OF price(2) cq(2) this g] have gr: "in_i64 (units g)" by simp
  have nr: "units n = units g - units f" "in_i64 (units n)"
    using n(1) subtract_value_iff [OF gr fee(2)] by blast+
  have acr: "in_i64 (units ac)" "0 \<le> units ac" "units ac \<le> units (ps_costBasis s)"
    using proportional_part [OF _ cq(2) _ _ ac] o by simp_all
  have aer: "in_i64 (units ae)" "0 \<le> units ae" "units ae \<le> units (ps_entryFee s)"
    using proportional_part [OF _ cq(2) _ _ ae] o by simp_all
  have gpr: "units gp = units g - units ac" "in_i64 (units gp)"
    using gp subtract_value_iff [OF gr acr(1)] by blast+
  have axr: "units ae' = units gp - units f" "in_i64 (units ae')"
    using ax subtract_value_iff [OF gpr(2) fee(2)] by blast+
  have rpr: "units rp = units ae' - units ae" using rp subtract_value_iff [OF axr(2) aer(1)] by blast
  have tfr: "units tf = units f + units ae" using tf add_value_iff [OF fee(2) aer(1)] by blast
  show ?thesis
    by (rule exI, rule conjI [OF z])
      (use n(2) nr acr aer gpr axr rpr tfr ac in \<open>auto simp: isNegative_def\<close>)
qed

lemma closePosition_accounted:
  assumes run: "closePosition L order symbol x t y sid n p = Inr q" and L: "ld_exact L"
    and env: "permutes order" "pm_inv p"
  shows "\<exists>gs. accounted p q gs"
proof (cases "map_of (pm_positions p) symbol")
  case None
  with run have "q = p" by (simp add: closePosition_def)
  with accounted_refl [OF env(2)] show ?thesis by auto
next
  case (Some s)
  note rg = normalized_range [OF L] and inv = pm_invD [OF env(2)]
  note sym = pm_inv_position [OF env(2) Some]
  note ok = sym(2) [unfolded position_ok_def]
  from run Some obtain price f where 1:
    "price_of L x NearestTiesAwayFromZero = Some price"
    "money_of L y NearestTiesAwayFromZero = Some f" "isPositive price" "\<not> isNegative f"
    and "close_quantity L n s (\<lambda>closeQuantity.
      close_accounting price f closeQuantity s (\<lambda>amounts.
      close_remainder price closeQuantity amounts s (\<lambda>next_state.
      close_commit order symbol t sid price f closeQuantity amounts next_state s p))) = Inr q"
    unfolding closePosition_def by (auto simp: price_and_fee_Inr)
  from close_quantity_Inr [OF this(5)] obtain cq where
    cq: "cq = ps_quantity s \<or> quantity_of L n RejectUnaligned = Some cq \<and> isPositive cq
       \<and> units cq \<le> units (ps_quantity s)"
    and acc: "close_accounting price f cq s (\<lambda>amounts.
      close_remainder price cq amounts s (\<lambda>next_state.
      close_commit order symbol t sid price f cq amounts next_state s p)) = Inr q" by blast
  have cqr: "0 < units cq" "in_i64 (units cq)"
    using cq ok rg(2) by (auto simp: isPositive_def)
  have pr: "in_i64 (units price)" "in_i64 (units f)" using rg 1 by blast+
  from close_accounting_Inr [OF acc sym(2) 1(3) pr(1) 1(4) pr(2) cqr] obtain a where
    rem: "close_remainder price cq a s (\<lambda>next_state.
      close_commit order symbol t sid price f cq a next_state s p) = Inr q"
    and a: "in_i64 (units (cla_netProceeds a))" "0 \<le> units (cla_netProceeds a)"
    "in_i64 (units (cla_allocatedCost a))" "in_i64 (units (cla_allocatedEntryFee a))"
    "0 \<le> units (cla_allocatedCost a)" "units (cla_allocatedCost a) \<le> units (ps_costBasis s)"
    "0 \<le> units (cla_allocatedEntryFee a)" "units (cla_allocatedEntryFee a) \<le> units (ps_entryFee s)"
    "units (cla_grossPnl a) = units (cla_netProceeds a) + units f - units (cla_allocatedCost a)"
    "proportional (ps_costBasis s) cq (ps_quantity s) NearestTiesAwayFromZero
      = Some (cla_allocatedCost a)" by blast
  obtain rq where rq: "subtract_value (ps_quantity s) cq = Some rq"
    using rem by (auto simp: close_remainder_def)
  have rqr: "units rq = units (ps_quantity s) - units cq" "in_i64 (units rq)"
    using rq subtract_value_iff [OF _ cqr(2)] ok by blast+
  text \<open>The common end, for the positions left over.\<close>
  have done_: "accounted p q [units (cla_grossPnl a)]"
    if "close_commit order symbol t sid price f cq a ns s p = Inr q"
      and ps: "ps = (case ns of None \<Rightarrow> AList.delete symbol (pm_positions p)
                     | Some u \<Rightarrow> AList.update symbol u (pm_positions p))"
      and "distinct (map fst ps)" and "\<forall>x \<in> set ps. fst x \<noteq> [] \<and> position_ok (snd x)"
      and "position_sum cost_units ps
        = position_sum cost_units (pm_positions p) - units (cla_allocatedCost a)" for ns ps
  proof -
    from that(1) obtain cash fees v where
      cash: "add_value (pm_cash p) (cla_netProceeds a) = Some cash"
      and fees: "add_value (pm_totalFeesPaid p) f = Some fees"
      and v: "valueState order cash ps p = Inr v"
      and q: "q = commitValuation v (p\<lparr>pm_cash := cash, pm_positions := ps,
          pm_totalFeesPaid := fees,
          pm_tradeLog := pm_tradeLog p @ [close_record symbol t sid price cq a s],
          pm_tradeCount := pm_tradeCount p + 1,
          pm_roundTripCount := (if ns = None then pm_roundTripCount p + 1
                                else pm_roundTripCount p)\<rparr>)"
      by (auto simp: close_commit_def Let_def ps)
    have cs: "units cash = units (pm_cash p) + units (cla_netProceeds a)" "in_i64 (units cash)"
      using cash add_value_iff [OF inv(4) a(1)] by blast+
    have fe: "units fees = units (pm_totalFeesPaid p) + units f" "in_i64 (units fees)"
      using fees add_value_iff [OF inv(6) pr(2)] by blast+
    show ?thesis
    proof (rule accountedI [OF commit_committed [OF v q] env that(3,4)])
      show "0 \<le> units cash" "in_i64 (units cash)" "0 \<le> units fees" "in_i64 (units fees)"
        using cs fe inv(3,5) a(2) 1(4) by (simp_all add: isNegative_def)
      show "units cash + position_sum cost_units ps + units fees
          = book_value p + sum_list [units (cla_grossPnl a)]"
        using that(5) cs(1) fe(1) a(9) by (simp add: book_value_def)
      show "pm_tradeLog q = pm_tradeLog p @ [close_record symbol t sid price cq a s]"
        "same_orders p q"
        by (simp_all add: q commitValuation_def same_orders_def)
      show "list_all2 (\<lambda>r g. trd_grossPnL r = toDouble (FValue g :: money))
          [close_record symbol t sid price cq a s] [units (cla_grossPnl a)]"
        by (simp add: close_record_def)
    qed simp_all
  qed
  show ?thesis
  proof (cases "isZero rq")
    case True
    with rem rq have cm: "close_commit order symbol t sid price f cq a None s p = Inr q"
      by (auto simp: close_remainder_def)
    have "cq = ps_quantity s" using True rqr by (simp add: isZero_def fvalue.expand)
    then have "cla_allocatedCost a = ps_costBasis s"
      using a(10) proportional_share_whole [of "ps_costBasis s" "ps_quantity s"] ok by simp
    then have "position_sum cost_units (AList.delete symbol (pm_positions p))
        = position_sum cost_units (pm_positions p) - units (cla_allocatedCost a)"
      by (simp add: position_sum_update(2) [OF inv(1) Some] cost_units_def)
    then have "accounted p q [units (cla_grossPnl a)]"
      by (intro done_ [OF cm _ positions_deleted [OF env(2) Some]]) simp_all
    then show ?thesis ..
  next
    case False
    with rem rq obtain cb ef avg u where
      cb: "subtract_value (ps_costBasis s) (cla_allocatedCost a) = Some cb"
      and ef: "subtract_value (ps_entryFee s) (cla_allocatedEntryFee a) = Some ef"
      and avg: "averagePrice cb rq NearestTiesAwayFromZero = Some avg"
      and u: "u = s\<lparr>ps_quantity := rq, ps_costBasis := cb, ps_entryFee := ef,
            ps_averageEntryPrice := avg, ps_lastMarkPrice := price\<rparr>"
      and cm: "close_commit order symbol t sid price f cq a (Some u) s p = Inr q"
      by (auto simp: close_remainder_def)
    have cbr: "units cb = units (ps_costBasis s) - units (cla_allocatedCost a)" "in_i64 (units cb)"
      using cb subtract_value_iff [OF _ a(3)] ok by blast+
    have efr: "units ef = units (ps_entryFee s) - units (cla_allocatedEntryFee a)"
      "in_i64 (units ef)"
      using ef subtract_value_iff [OF _ a(4)] ok by blast+
    have "units cq \<le> units (ps_quantity s)" using cq by auto
    with False rqr(1) have "0 < units rq" by (simp add: isZero_def)
    then have uok: "position_ok u"
      using ok rqr(2) cbr efr a avg pr 1(3) by (simp add: position_ok_def u isPositive_def)
    have "position_sum cost_units (AList.update symbol u (pm_positions p))
        = position_sum cost_units (pm_positions p) - units (cla_allocatedCost a)"
      using cbr(1) by (simp add: position_sum_update(1) [OF inv(1) Some] cost_units_def u)
    then have "accounted p q [units (cla_grossPnl a)]"
      by (intro done_ [OF cm _ positions_updated [OF env(2) Some uok]]) simp_all
    then show ?thesis ..
  qed
qed

end
