(* ===== verification/PortfolioRun.thy ===== *)
theory PortfolioRun
  imports PortfolioProps
begin

text \<open>
  Runs of the portfolio: any sequence of its operations, where one that throws leaves the state
  as it was.  The accounting operations keep the books, the operations on pending orders keep
  the identifiers distinct, and an order is filled at most once.
\<close>

subsection \<open>Runs\<close>

datatype pm_op =
    PoOpen string fp u64 fp fp fp string
  | PoAdd string fp fp fp fp string
  | PoClose string fp u64 fp string fp
  | PoMark string fp
  | PoPlace order_record
  | PoCancel u64
  | PoEvaluate string fp fp fp u64

fun or_unchanged :: "portfolio \<Rightarrow> pm_error + portfolio \<Rightarrow> portfolio" where
  "or_unchanged p (Inl e) = p"
| "or_unchanged p (Inr q) = q"

fun pm_step ::
  "fp_format \<Rightarrow> (positions \<Rightarrow> positions) \<Rightarrow> pm_op \<Rightarrow> portfolio \<Rightarrow> portfolio \<times> order_fill_result list"
where
  "pm_step L order (PoOpen symbol price ts f cap n sid) p =
     (or_unchanged p (openLong L order symbol price ts f cap n sid p), [])"
| "pm_step L order (PoAdd symbol price n f cap sid) p =
     (or_unchanged p (addToLong L order symbol price n f cap sid p), [])"
| "pm_step L order (PoClose symbol price ts f sid n) p =
     (or_unchanged p (closePosition L order symbol price ts f sid n p), [])"
| "pm_step L order (PoMark symbol price) p = (or_unchanged p (updatePnL L order symbol price p), [])"
| "pm_step L order (PoPlace r) p = (fst (placePendingOrder L r p), [])"
| "pm_step L order (PoCancel i) p = (fst (cancelPendingOrder i p), [])"
| "pm_step L order (PoEvaluate symbol hi lo c ts) p = evaluatePendingOrders L symbol hi lo c ts p"

fun pm_run ::
  "fp_format \<Rightarrow> (positions \<Rightarrow> positions) \<Rightarrow> pm_op list \<Rightarrow> portfolio \<Rightarrow> portfolio \<times> order_fill_result list"
where
  "pm_run L order [] p = (p, [])"
| "pm_run L order (x # xs) p =
     (case pm_step L order x p of (q, fills) \<Rightarrow>
        case pm_run L order xs q of (r, fills2) \<Rightarrow> (r, fills @ fills2))"

subsection \<open>Accounting over a run\<close>

text \<open>The operations on pending orders leave the accounting alone.\<close>

definition same_accounts :: "portfolio \<Rightarrow> portfolio \<Rightarrow> bool" where
  "same_accounts p q \<longleftrightarrow>
     q\<lparr>pm_pendingOrders := pm_pendingOrders p, pm_nextOrderId := pm_nextOrderId p\<rparr> = p"

lemma same_accountsD:
  assumes "same_accounts p q"
  shows "pm_inv p = pm_inv q" and "book_value q = book_value p" and "pm_tradeLog q = pm_tradeLog p"
  using assms unfolding same_accounts_def by (cases p; cases q; simp add: pm_inv_def drawdowns_ok_def book_value_def)+

lemma orders_same_accounts:
  "same_accounts p (fst (placePendingOrder L r p))"
  "same_accounts p (fst (cancelPendingOrder i p))"
  "same_accounts p (fst (evaluatePendingOrders L symbol hi lo c ts p))"
  by (simp_all add: same_accounts_def placePendingOrder_def cancelPendingOrder_def
      evaluatePendingOrders_def Let_def split: option.splits prod.splits)

definition books :: "portfolio \<Rightarrow> portfolio \<Rightarrow> int list \<Rightarrow> bool" where
  "books p q gs \<longleftrightarrow> pm_inv q \<and> book_value q = book_value p + sum_list gs
     \<and> (\<exists>recs. pm_tradeLog q = pm_tradeLog p @ recs
          \<and> list_all2 (\<lambda>r g. trd_grossPnL r = toDouble (FValue g :: money)) recs gs)"

lemma accounted_books: "accounted p q gs \<Longrightarrow> books p q gs"
  by (auto simp: accounted_def books_def)

lemma same_accounts_books: "same_accounts p q \<Longrightarrow> pm_inv p \<Longrightarrow> books p q []"
  using same_accountsD [of p q] by (simp add: books_def)

lemma books_refl: "pm_inv p \<Longrightarrow> books p p []"
  by (simp add: books_def)

lemma books_trans:
  assumes "books p q gs" and "books q r hs"
  shows "books p r (gs @ hs)"
proof -
  from assms obtain as bs where "pm_tradeLog q = pm_tradeLog p @ as"
      "list_all2 (\<lambda>r g. trd_grossPnL r = toDouble (FValue g :: money)) as gs"
      "pm_tradeLog r = pm_tradeLog q @ bs"
      "list_all2 (\<lambda>r g. trd_grossPnL r = toDouble (FValue g :: money)) bs hs"
    by (auto simp: books_def)
  then have "\<exists>recs. pm_tradeLog r = pm_tradeLog p @ recs
      \<and> list_all2 (\<lambda>r g. trd_grossPnL r = toDouble (FValue g :: money)) recs (gs @ hs)"
    by (intro exI [of _ "as @ bs"]) (simp add: list_all2_appendI)
  with assms show ?thesis by (auto simp: books_def)
qed

lemma pm_step_books:
  assumes L: "ld_exact L" and env: "permutes order" "pm_inv p"
  shows "\<exists>gs. books p (fst (pm_step L order x p)) gs"
proof -
  have unch: "\<exists>gs. books p (or_unchanged p r) gs"
    if "\<And>q. r = Inr q \<Longrightarrow> \<exists>gs. accounted p q gs" for r
    using that books_refl [OF env(2)] accounted_books by (cases r) auto
  have keep: "\<exists>gs. books p q gs" if "same_accounts p q" for q
    using same_accounts_books [OF that env(2)] by blast
  show ?thesis
  proof (cases x)
    case PoOpen
    then show ?thesis
      by simp (rule unch, rule exI, rule openLong_accounted [OF _ L env], assumption)
  next
    case PoAdd
    then show ?thesis
      by simp (rule unch, rule exI, rule addToLong_accounted [OF _ L env], assumption)
  next
    case PoClose
    then show ?thesis by simp (rule unch, rule closePosition_accounted [OF _ L env], assumption)
  next
    case PoMark
    then show ?thesis
      by simp (rule unch, rule exI, rule updatePnL_accounted [OF _ L env], assumption)
  qed (simp_all add: keep orders_same_accounts)
qed

lemma pm_run_books:
  assumes "ld_exact L" and "permutes order" and "pm_inv p"
  shows "\<exists>gs. books p (fst (pm_run L order xs p)) gs"
  using assms(3)
proof (induction xs arbitrary: p)
  case Nil
  with books_refl show ?case by auto
next
  case (Cons x xs)
  obtain q fs where q: "pm_step L order x p = (q, fs)" by fastforce
  from pm_step_books [OF assms(1,2) Cons.prems, of x] obtain gs where gs: "books p q gs" by (auto simp: q)
  then have "pm_inv q" by (simp add: books_def)
  from Cons.IH [OF this] obtain hs where "books q (fst (pm_run L order xs q)) hs" by blast
  from books_trans [OF gs this] have "\<exists>gs. books p (fst (pm_run L order xs q)) gs" by blast
  then show ?case by (simp add: q case_prod_beta)
qed

subsection \<open>Identifiers of pending orders\<close>

text \<open>
  Every identifier given out is below the next one, and the pending orders and the fills so far
  carry different ones.
\<close>

definition orders_inv :: "portfolio \<Rightarrow> u64 list \<Rightarrow> bool" where
  "orders_inv p filled \<longleftrightarrow>
     distinct (map ord_orderId (pm_pendingOrders p) @ filled)
     \<and> (\<forall>i \<in> set (map ord_orderId (pm_pendingOrders p) @ filled). i < pm_nextOrderId p)"

lemma orders_inv_init: "orders_inv pm_init []"
  by (simp add: orders_inv_def pm_init_def)

lemma orders_inv_cong:
  "pm_pendingOrders q = pm_pendingOrders p \<Longrightarrow> pm_nextOrderId q = pm_nextOrderId p
   \<Longrightarrow> orders_inv p filled \<Longrightarrow> orders_inv q filled"
  by (simp add: orders_inv_def)

lemma stored_order_id [simp]: "ord_orderId (stored_order r q c l t b i) = i"
  by (simp add: stored_order_def Let_def)

lemma place_result:
  "case placePendingOrder L r p of (q, i) \<Rightarrow>
     (q = p \<and> i = 0)
     \<or> (pm_nextOrderId p \<noteq> - 1 \<and> i = pm_nextOrderId p \<and> pm_nextOrderId q = i + 1
        \<and> map ord_orderId (pm_pendingOrders q) = map ord_orderId (pm_pendingOrders p) @ [i])"
  by (simp add: placePendingOrder_def Let_def split: option.splits)

lemma less_next:
  fixes x y :: u64
  assumes "y \<noteq> - 1"
  shows "y < y + 1" and "x < y \<Longrightarrow> x < y + 1"
proof -
  have "1 + y \<noteq> 0" using assms by (simp add: add_eq_0_iff)
  from unatSuc [OF this] show l: "y < y + 1" by (simp add: word_less_nat_alt add.commute)
  then show "x < y \<Longrightarrow> x < y + 1" by (rule less_trans [rotated])
qed

lemma place_orders_inv:
  assumes "orders_inv p filled"
  shows "orders_inv (fst (placePendingOrder L r p)) filled"
proof -
  obtain q i where q: "placePendingOrder L r p = (q, i)" by fastforce
  from place_result [of p L r] consider "q = p"
    | "pm_nextOrderId p \<noteq> - 1" "pm_nextOrderId q = pm_nextOrderId p + 1"
      "map ord_orderId (pm_pendingOrders q) = map ord_orderId (pm_pendingOrders p) @ [pm_nextOrderId p]"
    by (auto simp: q)
  then have "orders_inv q filled"
  proof cases
    case 2
    then show ?thesis using assms less_next [OF 2(1)] unfolding orders_inv_def by auto
  qed (use assms in simp)
  then show ?thesis by (simp add: q)
qed

lemma cancel_loop_spec:
  "cancel_loop i os = Some rest \<Longrightarrow>
     \<exists>as y bs. os = as @ y # bs \<and> rest = as @ bs \<and> ord_orderId y = i \<and> i \<notin> ord_orderId ` set as"
  "cancel_loop i os = None \<Longrightarrow> i \<notin> ord_orderId ` set os"
proof (induction os arbitrary: rest)
  case (Cons x os)
  {
    case 1
    then show ?case
    proof (cases "ord_orderId x = i")
      case True
      with 1 show ?thesis by (intro exI [of _ "[]"] exI [of _ x] exI [of _ os]) simp
    next
      case False
      with 1 obtain r where r: "cancel_loop i os = Some r" "rest = x # r" by auto
      from Cons.IH(1) [OF r(1)] obtain as y bs where "os = as @ y # bs" "r = as @ bs"
        "ord_orderId y = i" "i \<notin> ord_orderId ` set as" by blast
      with r(2) False show ?thesis
        by (intro exI [of _ "x # as"] exI [of _ y] exI [of _ bs]) auto
    qed
  next
    case 2
    then show ?case using Cons.IH(2) by (auto split: if_splits)
  }
qed simp_all

lemma cancel_orders_inv:
  assumes "orders_inv p filled"
  shows "orders_inv (fst (cancelPendingOrder i p)) filled"
proof (cases "cancel_loop i (pm_pendingOrders p)")
  case (Some rest)
  from cancel_loop_spec(1) [OF this] obtain as x bs where
    "pm_pendingOrders p = as @ x # bs" "rest = as @ bs" by blast
  with Some assms show ?thesis by (auto simp: cancelPendingOrder_def orders_inv_def)
qed (use assms in \<open>simp add: cancelPendingOrder_def\<close>)

lemma trail_id [simp]: "ord_orderId (trail L c r) = ord_orderId r"
  by (simp add: trail_def split: option.splits)

lemma evaluate_order_id: "ord_orderId (fst (evaluate_order L hi lo c r)) = ord_orderId r"
  by (simp add: evaluate_order_def Let_def split: order_type.splits)

lemma evaluate_loop_ids:
  "mset (map ord_orderId (fst (evaluate_loop L symbol hi lo c ts os)))
     + mset (map ofr_orderId (snd (evaluate_loop L symbol hi lo c ts os)))
   = mset (map ord_orderId os)"
proof (induction os)
  case (Cons r os)
  have "ord_orderId r' = ord_orderId r" if "evaluate_order L hi lo c r = (r', t)" for r' t
    using evaluate_order_id [of L hi lo c r] that by simp
  with Cons show ?case
    by (auto simp: fill_result_def Let_def split: prod.splits option.splits)
qed simp

lemma evaluate_orders_inv:
  assumes "orders_inv p filled" and e: "evaluatePendingOrders L symbol hi lo c ts p = (q, fills)"
  shows "orders_inv q (filled @ map ofr_orderId fills)"
proof -
  let ?e = "evaluate_loop L symbol hi lo c ts (pm_pendingOrders p)"
  from e have q: "q = p\<lparr>pm_pendingOrders := fst ?e\<rparr>" "fills = snd ?e"
    by (auto simp: evaluatePendingOrders_def split: prod.splits)
  have m: "mset (map ord_orderId (fst ?e) @ filled @ map ofr_orderId (snd ?e))
      = mset (map ord_orderId (pm_pendingOrders p) @ filled)"
    using evaluate_loop_ids [of L symbol hi lo c ts "pm_pendingOrders p"] by (simp add: ac_simps)
  from mset_eq_setD [OF m] mset_eq_imp_distinct_iff [OF m] assms(1) show ?thesis
    by (simp add: orders_inv_def q)
qed

lemma accounted_orders_inv: "accounted p q gs \<Longrightarrow> orders_inv p filled \<Longrightarrow> orders_inv q filled"
  by (auto simp: accounted_def same_orders_def intro: orders_inv_cong)

lemma pm_step_orders_inv:
  assumes L: "ld_exact L" and env: "permutes order" "pm_inv p" and o: "orders_inv p filled"
    and s: "pm_step L order x p = (q, fills)"
  shows "orders_inv q (filled @ map ofr_orderId fills)"
proof -
  have unch: "orders_inv (or_unchanged p r) filled"
    if "\<And>q. r = Inr q \<Longrightarrow> \<exists>gs. accounted p q gs" for r
    using that o accounted_orders_inv by (cases r) auto
  show ?thesis
  proof (cases x)
    case PoOpen
    have "orders_inv (fst (pm_step L order x p)) filled" unfolding PoOpen pm_step.simps fst_conv
      by (rule unch, rule exI, rule openLong_accounted [OF _ L env], assumption)
    with s PoOpen show ?thesis by auto
  next
    case PoAdd
    have "orders_inv (fst (pm_step L order x p)) filled" unfolding PoAdd pm_step.simps fst_conv
      by (rule unch, rule exI, rule addToLong_accounted [OF _ L env], assumption)
    with s PoAdd show ?thesis by auto
  next
    case PoClose
    have "orders_inv (fst (pm_step L order x p)) filled" unfolding PoClose pm_step.simps fst_conv
      by (rule unch, rule closePosition_accounted [OF _ L env], assumption)
    with s PoClose show ?thesis by auto
  next
    case PoMark
    have "orders_inv (fst (pm_step L order x p)) filled" unfolding PoMark pm_step.simps fst_conv
      by (rule unch, rule exI, rule updatePnL_accounted [OF _ L env], assumption)
    with s PoMark show ?thesis by auto
  next
    case PoPlace
    with s place_orders_inv [OF o] show ?thesis by auto
  next
    case PoCancel
    with s cancel_orders_inv [OF o] show ?thesis by auto
  next
    case PoEvaluate
    with s evaluate_orders_inv [OF o] show ?thesis by simp
  qed
qed

lemma pm_run_orders_inv:
  assumes "ld_exact L" and "permutes order" and "pm_inv p" and "orders_inv p filled"
    and "pm_run L order xs p = (q, fills)"
  shows "orders_inv q (filled @ map ofr_orderId fills)"
  using assms(3-)
proof (induction xs arbitrary: p filled fills)
  case (Cons x xs)
  obtain r fs where r: "pm_step L order x p = (r, fs)" by fastforce
  obtain fs' where fs': "pm_run L order xs r = (q, fs')" "fills = fs @ fs'"
    using Cons.prems(3) by (auto simp: r split: prod.splits)
  have "pm_inv r" using pm_step_books [OF assms(1,2) Cons.prems(1), of x] r by (auto simp: books_def)
  from Cons.IH [OF this pm_step_orders_inv [OF assms(1,2) Cons.prems(1,2) r] fs'(1)] fs'(2)
  show ?case by simp
qed simp

end
