(* ===== verification/PortfolioRestore.thy ===== *)
theory PortfolioRestore
  imports PortfolioProps
begin

text \<open>
  A snapshot and its restoration.  A snapshot holds \<open>double\<close>s and lists the positions by symbol;
  restoring converts them back, values the positions again and compares.  Amounts below 2^51
  units survive both conversions.
\<close>

definition small :: "'a fvalue \<Rightarrow> bool" where
  "small v \<longleftrightarrow> \<bar>units v\<bar> < 2 ^ 51"

definition restorable :: "position_state \<Rightarrow> bool" where
  "restorable s \<longleftrightarrow> position_ok s \<and> 0 < units (ps_costBasis s) \<and> 0 < units (ps_averageEntryPrice s)
     \<and> small (ps_quantity s) \<and> small (ps_costBasis s) \<and> small (ps_averageEntryPrice s)
     \<and> small (ps_entryFee s) \<and> small (ps_lastMarkPrice s)"

lemma of_toDouble:
  assumes "fmt_ok L"
  shows "small a \<Longrightarrow> price_of L (toDouble a) RejectUnaligned = Some a"
    and "small b \<Longrightarrow> quantity_of L (toDouble b) RejectUnaligned = Some b"
    and "small c \<Longrightarrow> money_of L (toDouble c) RejectUnaligned = Some c"
  by (simp_all add: small_def price_of_def quantity_of_def money_of_def normalized_def
      normalize_toDouble [OF assms])

lemma restore_snapshot_position:
  assumes "fmt_ok L" and "restorable s" and "k \<noteq> []"
  shows "restore_position L (snapshot_position (k, s)) = Some s"
  using assms(2,3)
  by (simp add: restore_position_def snapshot_position_def of_toDouble [OF assms(1)]
      restorable_def position_ok_def isPositive_def isNegative_def)

lemma restore_loop_snapshot:
  assumes "fmt_ok L" and "distinct (map fst (acc @ ps))"
    and "\<forall>x \<in> set ps. fst x \<noteq> [] \<and> restorable (snd x)"
  shows "restore_loop L (map snapshot_position ps) acc = Inr (acc @ ps)"
  using assms(2,3)
proof (induction ps arbitrary: acc)
  case (Cons x ps)
  obtain k s where x: "x = (k, s)" by fastforce
  have "restore_position L (snapshot_position x) = Some s"
    using Cons.prems(2) by (simp add: x restore_snapshot_position [OF assms(1)])
  moreover have "map_of acc k = None"
    using Cons.prems(1) by (auto simp: x map_of_eq_None_iff)
  moreover have "restore_loop L (map snapshot_position ps) (acc @ [(k, s)]) = Inr (acc @ x # ps)"
    using Cons.IH [of "acc @ [(k, s)]"] Cons.prems by (simp add: x)
  moreover have "psn_symbol (pss_position (snapshot_position x)) = k"
    by (simp add: x snapshot_position_def)
  ultimately show ?case by (simp add: x throw_if_def)
qed simp

lemma insort_key_map: "insort_key f (g x) (map g xs) = map g (insort_key (\<lambda>x. f (g x)) x xs)"
  by (induction xs) simp_all

lemma sort_key_map: "sort_key f (map g xs) = map g (sort_key (\<lambda>x. f (g x)) xs)"
  by (induction xs) (simp_all add: insort_key_map)

text \<open>A valuation that cannot overflow, in whatever order it is summed.\<close>

lemma value_loop_total:
  assumes "\<forall>x \<in> set ps. position_ok (snd x) \<and> valued (snd x)"
    and "0 \<le> units m" and "units m + position_sum mark_units ps < 2 ^ 60"
    and "\<bar>units u\<bar> + position_sum mark_units ps + position_sum cost_units ps < 2 ^ 60"
  shows "\<exists>r. value_loop ps m u = Inr r"
  using assms
proof (induction ps arbitrary: m u)
  case (Cons x ps)
  obtain k s where x: "x = (k, s)" by fastforce
  have ok: "position_ok s" "valued s" using Cons.prems(1) by (simp_all add: x)
  then obtain a where a: "notional (ps_lastMarkPrice s) (ps_quantity s) NearestTiesAwayFromZero = Some a"
    by (auto simp: valued_def)
  have mk: "mark_units s = units a" "0 \<le> units a"
    using mark_units_nonneg [OF ok(1)] by (simp_all add: mark_units_def a)
  have rest: "0 \<le> position_sum mark_units ps" "0 \<le> position_sum cost_units ps"
    using Cons.prems(1) by (auto intro!: position_sum_nonneg mark_units_nonneg
        simp: cost_units_def position_ok_def)
  have ck: "cost_units s = units (ps_costBasis s)" by (simp add: cost_units_def)
  have c: "0 \<le> units (ps_costBasis s)" using ok(1) by (simp add: position_ok_def)
  let ?m = "FValue (units m + units a) :: money" and ?d = "FValue (units a - units (ps_costBasis s)) :: money"
  let ?u = "FValue (units u + (units a - units (ps_costBasis s))) :: money"
  have b: "units m + units a < 2 ^ 60" "\<bar>units u\<bar> < 2 ^ 60" "units m < 2 ^ 60"
    "units a < 2 ^ 60" "units (ps_costBasis s) < 2 ^ 60"
    "\<bar>units u\<bar> + units a + units (ps_costBasis s) < 2 ^ 60"
    using Cons.prems(2-4) mk rest c by (simp_all add: x ck)
  have rg: "in_i64 (units m)" "in_i64 (units a)" "in_i64 (units ?m)" "in_i64 (units ?d)"
    "in_i64 (units u)" "in_i64 (units ?u)" "in_i64 (units (ps_costBasis s))"
    using b mk c Cons.prems(2) by (simp_all add: in_i64_def INT64_MIN_def INT64_MAX_def abs_less_iff)
  have steps: "add_value m a = Some ?m" "subtract_value a (ps_costBasis s) = Some ?d"
    "add_value u ?d = Some ?u"
    unfolding add_value_iff [OF rg(1,2)] subtract_value_iff [OF rg(2,7)] add_value_iff [OF rg(5,4)]
    using rg by simp_all
  have "\<exists>r. value_loop ps ?m ?u = Inr r"
    using Cons.prems mk c rest by (intro Cons.IH) (auto simp: x ck)
  then show ?case by (auto simp: x requireValue_def a steps)
qed simp

lemma valueState_total:
  assumes "permutes order" and "\<forall>x \<in> set ps. position_ok (snd x) \<and> valued (snd x)"
    and "0 \<le> units cash" and "units cash < 2 ^ 60" and "position_sum mark_units ps < 2 ^ 60"
    and "position_sum mark_units ps + position_sum cost_units ps < 2 ^ 60"
  shows "\<exists>v. valueState order cash ps p = Inr v"
proof -
  have "mset (order ps) = mset ps" using assms(1) by (simp add: permutes_def)
  note tot = position_sum_perm [OF this]
  have ok: "\<forall>x \<in> set (order ps). position_ok (snd x) \<and> valued (snd x)"
    using assms(2) permutes_set [OF assms(1)] by simp
  obtain m u where loop: "value_loop (order ps) (FValue 0) (FValue 0) = Inr (m, u)"
    using value_loop_total [OF ok, of "FValue 0" "FValue 0"] assms(5,6) by (auto simp: tot)
  have "0 \<le> position_sum mark_units ps"
    using assms(2) by (auto intro!: position_sum_nonneg mark_units_nonneg)
  moreover have "units m = position_sum mark_units ps"
    using value_loop_sum [OF loop] ok by (auto simp: tot)
  ultimately have "\<exists>e. add_value cash m = Some e"
    using assms(3-5) add_value_iff [of cash m "FValue (units cash + units m)"]
    by (auto simp: in_i64_def INT64_MIN_def INT64_MAX_def)
  then show ?thesis by (auto simp: valueState_def loop requireValue_def Let_def)
qed

lemma drawdown_same: "\<not> drawdowns_differ (Fin d) (Fin d)"
proof -
  have "fp_round binary64 (1 / 10 ^ 12) \<noteq> Infinite True"
    using fp_round_finite [OF fmt_ok_formats(1), of "1 / 10 ^ 12"] by (auto simp: fp_round_def Let_def)
  moreover have "0 \<le> fl_rat binary64 (1 / 10 ^ 12)" by (rule fl_rat_nonneg) simp
  moreover have "fp_round binary64 0 = Fin 0" by (simp add: fp_round_def fp_overflows_def)
  ultimately show ?thesis
    by (auto simp: drawdowns_differ_def fp_sub_def fp_round_def Let_def fp_overflows_def split: if_splits)
qed

definition snapshot_small :: "portfolio \<Rightarrow> bool" where
  "snapshot_small p \<longleftrightarrow> small (pm_cash p) \<and> small (pm_unrealizedPnL p) \<and> small (pm_totalEquity p)
     \<and> small (pm_maxEquity p) \<and> small (pm_totalFeesPaid p)
     \<and> (\<forall>x \<in> set (pm_positions p). restorable (snd x))"

lemma restore_snapshot:
  assumes L: "fmt_ok L" and o: "permutes o1" "permutes o2" and inv: "pm_inv p"
    and small: "snapshot_small p"
  defines "ps \<equiv> sort_key fst (o1 (pm_positions p))"
  shows "restoreState L o2 (snapshotState o1 p) r = Inr (p\<lparr>pm_positions := ps\<rparr>)"
    and "mset ps = mset (pm_positions p)"
proof -
  show m: "mset ps = mset (pm_positions p)" using o(1) by (simp add: ps_def permutes_def)
  then have st: "set ps = set (pm_positions p)" by (metis set_mset_mset)
  note inv' = inv [unfolded pm_inv_def] and sm = small [unfolded snapshot_small_def]
  have snap: "snp_positions (snapshotState o1 p) = map snapshot_position ps"
    by (simp add: snapshotState_def sort_key_map ps_def comp_def snapshot_position_def case_prod_beta)
  have am: "restore_amounts L (snapshotState o1 p)
      = Some (pm_cash p, pm_unrealizedPnL p, pm_totalEquity p, pm_maxEquity p, pm_totalFeesPaid p)"
    using inv' sm equity_nonneg [OF inv]
    by (auto simp: restore_amounts_def snapshotState_def of_toDouble [OF L] isNegative_def not_less)
  have "distinct (map fst ps)" using inv' m by (metis mset_eq_imp_distinct_iff mset_map)
  then have loop: "restore_loop L (map snapshot_position ps) [] = Inr ps"
    using restore_loop_snapshot [OF L, of "[]" ps] inv' sm st by auto
  have sums: "position_sum f ps = position_sum f (pm_positions p)" for f by (rule position_sum_perm [OF m])
  let ?i = "pm_init\<lparr>pm_maxEquity := pm_maxEquity p, pm_maxDrawdown := pm_maxDrawdown p\<rparr>"
  have ok: "\<forall>x \<in> set ps. position_ok (snd x) \<and> valued (snd x)" using inv' st by blast
  have "position_sum mark_units ps < 2 ^ 52" "position_sum cost_units ps < 2 ^ 53"
    using inv' sm unfolding sums small_def abs_less_iff by (auto; linarith)+
  then obtain v where v: "valueState o2 (pm_cash p) ps ?i = Inr v"
    using valueState_total [OF o(2) ok, of "pm_cash p" ?i] inv' sm by (auto simp: small_def)
  have w: "units (val_totalEquity v) = units (pm_totalEquity p)"
    "units (val_unrealizedPnL v) = units (pm_unrealizedPnL p)"
    "units (val_maxEquity v) = max (units (pm_maxEquity p)) (units (val_totalEquity v))"
    "val_currentDrawdown v = drawdown_of (val_maxEquity v) (val_totalEquity v)"
    "val_maxDrawdown v = fp_max (pm_maxDrawdown p) (val_currentDrawdown v)"
    using valueState_sum [OF v o(2)] ok inv' by (simp_all add: sums)
  have eq: "val_totalEquity v = pm_totalEquity p" "val_unrealizedPnL v = pm_unrealizedPnL p"
    "val_maxEquity v = pm_maxEquity p"
    using w(1-3) inv' by (auto intro: fvalue.expand)
  obtain d md where dd: "pm_currentDrawdown p = Fin d" "pm_maxDrawdown p = Fin md" "d \<le> md"
    "drawdown_of (pm_maxEquity p) (pm_totalEquity p) = Fin d"
    using inv' by (auto simp: drawdowns_ok_def split: fp.splits)
  have "val_currentDrawdown v = Fin d" "val_maxDrawdown v = Fin md"
    using w(4,5) dd by (simp_all add: eq fp_max_def)
  then show "restoreState L o2 (snapshotState o1 p) r = Inr (p\<lparr>pm_positions := ps\<rparr>)"
    unfolding restoreState_def am snap
    using v dd by (simp add: loop bind_result_def throw_if_def snapshotState_def eq drawdown_same)
qed

end
