(* ===== verification/PortfolioOrders.thy ===== *)
theory PortfolioOrders
  imports PortfolioProps
begin

text \<open>
  Pending orders: conversion to units is monotone, so a trailing stop only moves up once it has
  been set from a best price, and when an order of each type is filled, and at what price.
\<close>

subsection \<open>Conversions are monotone\<close>

lemma round_half_away_mono:
  assumes "x \<le> y"
  shows "round_half_away x \<le> round_half_away y"
proof (cases "x < 0 \<and> \<not> y < 0")
  case True
  then have "round_half_away x \<le> 0" "0 \<le> round_half_away y"
    by (simp_all add: round_half_away_def)
  then show ?thesis by simp
next
  case False
  have "\<lfloor>x + 1 / 2\<rfloor> \<le> \<lfloor>y + 1 / 2\<rfloor>" "\<lfloor>- y + 1 / 2\<rfloor> \<le> \<lfloor>- x + 1 / 2\<rfloor>"
    using assms by (intro floor_mono; simp)+
  with False assms show ?thesis by (auto simp: round_half_away_def)
qed

text \<open>What a conversion that succeeds has computed.\<close>

lemma normalize_nearest:
  assumes L: "ld_exact L" and n: "normalize L a NearestTiesAwayFromZero = Some u"
  shows "\<exists>x. a = Fin x \<and> u = round_half_away (fl_rat L (fl_rat L x * of_int SCALE_FACTOR))"
proof -
  have fmt: "fmt_ok L" using L by (simp add: ld_exact_def)
  have sc: "fp_of_int L SCALE_FACTOR = Fin (of_int SCALE_FACTOR)"
    by (rule fp_of_int_small [OF fmt]) (simp add: SCALE_FACTOR_def)
  have lim: "fp_of_int L INT64_MIN = Fin (of_int INT64_MIN)" "fp_of_int L INT64_MAX = Fin (of_int INT64_MAX)"
    using L fp_of_int_min [OF fmt] by (simp_all add: ld_exact_def)
  from n obtain x where x: "a = Fin x" by (cases a) (simp_all add: normalize_def)
  have sp: "0 < rat_of_int SCALE_FACTOR" by (simp add: SCALE_FACTOR_def)
  show ?thesis
  proof (cases "fp_round L x")
    case (Fin y)
    then have y: "y = fl_rat L x" by (auto simp: fp_round_def Let_def split: if_splits)
    show ?thesis
    proof (cases "fp_round L (y * of_int SCALE_FACTOR)")
      case (Fin z)
      then have "z = fl_rat L (y * of_int SCALE_FACTOR)" by (auto simp: fp_round_def Let_def split: if_splits)
      with n Fin \<open>fp_round L x = Fin y\<close> y show ?thesis
        by (auto simp: x normalize_def fp_cast_def sc rounded_long_def fp_map_int_def Let_def
            fp_to_int_def split: if_splits)
    qed (use n Fin in \<open>auto simp: x normalize_def fp_cast_def sc rounded_long_def fp_map_int_def
        Let_def lim split: if_splits\<close>)
  qed (use n sp in \<open>auto simp: x normalize_def fp_cast_def sc rounded_long_def fp_map_int_def
        Let_def lim split: if_splits\<close>)
qed

lemma normalize_mono:
  assumes L: "ld_exact L" and "normalize L a NearestTiesAwayFromZero = Some u"
    and "normalize L b NearestTiesAwayFromZero = Some v" and "fp_le a b"
  shows "u \<le> v"
proof -
  note p = fmt_ok_prec
  have fmt: "0 < fmt_prec L" using L by (simp add: ld_exact_def fmt_ok_prec)
  from normalize_nearest [OF L assms(2)] normalize_nearest [OF L assms(3)] obtain x y
    where x: "a = Fin x" "u = round_half_away (fl_rat L (fl_rat L x * of_int SCALE_FACTOR))"
      and y: "b = Fin y" "v = round_half_away (fl_rat L (fl_rat L y * of_int SCALE_FACTOR))" by blast
  have "x \<le> y" using assms(4) by (simp add: x y)
  then have "fl_rat L x \<le> fl_rat L y" by (rule fl_rat_mono [OF _ fmt])
  then have "fl_rat L x * of_int SCALE_FACTOR \<le> fl_rat L y * of_int SCALE_FACTOR"
    by (rule mult_right_mono) (simp add: SCALE_FACTOR_def)
  then show ?thesis unfolding x y by (intro round_half_away_mono fl_rat_mono fmt)
qed

lemma price_of_mono:
  assumes "ld_exact L" and "price_of L a NearestTiesAwayFromZero = Some p"
    and "price_of L b NearestTiesAwayFromZero = Some q" and "fp_le a b"
  shows "units p \<le> units q"
  using assms normalize_mono [OF assms(1) _ _ assms(4)]
  by (auto simp: price_of_def normalized_def split: option.splits)

lemma price_of_toDouble:
  "fmt_ok L \<Longrightarrow> \<bar>units p\<bar> < 2 ^ 51 \<Longrightarrow> price_of L (toDouble p) NearestTiesAwayFromZero = Some p"
  by (simp add: price_of_def normalized_def normalize_toDouble)

subsection \<open>Trailing stops\<close>

text \<open>The stop has been computed from the best price seen.\<close>

definition trailing_set :: "fp_format \<Rightarrow> order_record \<Rightarrow> bool" where
  "trailing_set L r \<longleftrightarrow>
     (\<exists>(best :: price) (stop :: price). ord_trailBest r = toDouble best \<and> ord_limitPrice r = toDouble stop
        \<and> in_i64 (units best) \<and> \<bar>units best\<bar> < 2 ^ 51
        \<and> price_of L (fp_sub binary64 (toDouble best) (ord_trailOffset r)) NearestTiesAwayFromZero
           = Some stop)"

lemma trail_ratchet:
  assumes L: "ld_exact L" and set: "trailing_set L r"
    and c: "\<And>p. price_of L c NearestTiesAwayFromZero = Some p \<Longrightarrow> \<bar>units p\<bar> < 2 ^ 51"
  shows "trailing_set L (trail L c r)" and "fp_le (ord_limitPrice r) (ord_limitPrice (trail L c r))"
    and "fp_le (ord_trailBest r) (ord_trailBest (trail L c r))"
    and "ord_trailOffset (trail L c r) = ord_trailOffset r"
proof -
  from set obtain best stop :: price where b: "ord_trailBest r = toDouble best"
    "ord_limitPrice r = toDouble stop" "in_i64 (units best)" "\<bar>units best\<bar> < 2 ^ 51"
    "price_of L (fp_sub binary64 (toDouble best) (ord_trailOffset r)) NearestTiesAwayFromZero = Some stop"
    unfolding trailing_set_def by blast
  note rg = normalized_range(1) [OF L]
  have fmt: "fmt_ok L" using L by (simp add: ld_exact_def)
  have same: "fp_le (ord_limitPrice r) (ord_limitPrice r)" "fp_le (ord_trailBest r) (ord_trailBest r)"
    using toDouble_rat(1) [OF rg [OF b(5)]] toDouble_rat(1) [OF b(3)] by (simp_all add: b)
  show "ord_trailOffset (trail L c r) = ord_trailOffset r"
    by (simp add: trail_def split: option.splits)
  have "trailing_set L (trail L c r) \<and> fp_le (ord_limitPrice r) (ord_limitPrice (trail L c r))
      \<and> fp_le (ord_trailBest r) (ord_trailBest (trail L c r))"
  proof (cases "trail L c r = r")
    case False
    then obtain nb ns where n: "fp_less (toDouble best) c"
      "price_of L c NearestTiesAwayFromZero = Some nb"
      "price_of L (fp_sub binary64 (toDouble nb) (ord_trailOffset r)) NearestTiesAwayFromZero = Some ns"
      and t: "trail L c r = r\<lparr>ord_trailBest := toDouble nb, ord_limitPrice := toDouble ns\<rparr>"
      by (auto simp: trail_def b split: if_splits option.splits)
    have "fp_le (toDouble best) c" using n(1) by (simp add: fp_le_def)
    then have le: "units best \<le> units nb"
      by (rule price_of_mono [OF L price_of_toDouble [OF fmt b(4)] n(2)])
    note d = toDouble_rat [OF b(3)] toDouble_rat [OF rg [OF n(2)]]
    have dl: "double_rat (units best) \<le> double_rat (units nb)" by (rule double_rat_mono [OF le])
    obtain s1 where f1: "fp_sub binary64 (toDouble best) (ord_trailOffset r) = Fin s1"
      using normalize_nearest [OF L] b(5)
      by (auto simp: price_of_def normalized_def split: option.splits)
    obtain s0 where "ord_trailOffset r = Fin s0"
      using f1 by (cases "ord_trailOffset r") (auto simp: fp_sub_def d)
    note f = this f1
    obtain s2 where g: "fp_sub binary64 (toDouble nb) (ord_trailOffset r) = Fin s2"
      using normalize_nearest [OF L] n(3)
      by (auto simp: price_of_def normalized_def split: option.splits)
    have "s1 \<le> s2"
    proof -
      have "s1 = fl_rat binary64 (double_rat (units best) - s0)"
        "s2 = fl_rat binary64 (double_rat (units nb) - s0)"
        using f g by (auto simp: d fp_sub_def fp_round_def Let_def split: if_splits)
      with dl show ?thesis by (simp add: fl64_mono)
    qed
    then have "units stop \<le> units ns"
      by (intro price_of_mono [OF L b(5) n(3)]) (simp only: f(2) g fp_le_Fin)
    then have "fp_le (toDouble stop) (toDouble ns)"
      by (simp add: toDouble_rat(1) [OF rg [OF b(5)]] toDouble_rat(1) [OF rg [OF n(3)]] double_rat_mono)
    moreover have "fp_le (toDouble best) (toDouble nb)" using dl by (simp add: d)
    ultimately show ?thesis
      using n rg [OF n(2)] c [OF n(2)] by (auto simp: t b trailing_set_def)
  qed (use set same in simp)
  then show "trailing_set L (trail L c r)"
    "fp_le (ord_limitPrice r) (ord_limitPrice (trail L c r))"
    "fp_le (ord_trailBest r) (ord_trailBest (trail L c r))" by simp_all
qed

lemma trail_run_ratchet:
  assumes L: "ld_exact L" and "trailing_set L r"
    and "\<And>c p. c \<in> set cs \<Longrightarrow> price_of L c NearestTiesAwayFromZero = Some p \<Longrightarrow> \<bar>units p\<bar> < 2 ^ 51"
  shows "fp_le (ord_limitPrice r) (ord_limitPrice (fold (trail L) cs r))
    \<and> trailing_set L (fold (trail L) cs r)"
  using assms(2,3)
proof (induction cs arbitrary: r)
  case Nil
  then obtain stop :: price where "ord_limitPrice r = toDouble stop" "in_i64 (units stop)"
    using normalized_range(1) [OF L] unfolding trailing_set_def by blast
  with Nil show ?case by (simp add: toDouble_rat(1))
next
  case (Cons c cs)
  have "\<And>p. price_of L c NearestTiesAwayFromZero = Some p \<Longrightarrow> \<bar>units p\<bar> < 2 ^ 51"
    using Cons.prems(2) [of c] by simp
  note t = trail_ratchet [OF L Cons.prems(1) this]
  have "fp_le (ord_limitPrice (trail L c r)) (ord_limitPrice (fold (trail L) cs (trail L c r)))
      \<and> trailing_set L (fold (trail L) cs (trail L c r))"
    using Cons.prems(2) by (intro Cons.IH t(1)) auto
  moreover have "fp_le a b \<Longrightarrow> fp_le b c' \<Longrightarrow> fp_le a c'" for a b c'
    by (cases a; cases b; cases c') (auto simp: fp_le_def)
  ultimately show ?case using t(2) by auto
qed

subsection \<open>When a pending order is filled\<close>

lemma evaluate_loop_fills:
  "f \<in> set (snd (evaluate_loop L symbol hi lo c ts os)) \<longleftrightarrow>
     (\<exists>r \<in> set os. \<exists>r' t p. ord_symbol r = symbol \<and> evaluate_order L hi lo c r = (r', Some t)
        \<and> price_of L t NearestTiesAwayFromZero = Some p \<and> isPositive p \<and> f = fill_result r' p ts)"
proof (induction os)
  case (Cons r os)
  obtain kept fills where rest: "evaluate_loop L symbol hi lo c ts os = (kept, fills)" by fastforce
  obtain r' t where e: "evaluate_order L hi lo c r = (r', t)" by fastforce
  show ?case
    using Cons by (auto simp: rest e split: option.splits)
qed simp

lemma evaluate_loop_kept:
  "o' \<in> set (fst (evaluate_loop L symbol hi lo c ts os)) \<longleftrightarrow>
     (\<exists>r \<in> set os. if ord_symbol r \<noteq> symbol then o' = r
        else \<exists>t. evaluate_order L hi lo c r = (o', t)
           \<and> (\<forall>x p. t = Some x \<longrightarrow> price_of L x NearestTiesAwayFromZero = Some p \<longrightarrow> \<not> isPositive p))"
proof (induction os)
  case (Cons r os)
  obtain kept fills where rest: "evaluate_loop L symbol hi lo c ts os = (kept, fills)" by fastforce
  obtain r' t where e: "evaluate_order L hi lo c r = (r', t)" by fastforce
  show ?case
    using Cons by (auto simp: rest e split: option.splits if_splits)
qed simp

end
