(* ===== verification/PortfolioClaims.thy ===== *)
theory PortfolioClaims
  imports PortfolioRun PortfolioRestore PortfolioOrders
begin

text \<open>
  The properties of the portfolio: the books balance over every run, an order is filled at most
  once, a snapshot can be restored, pending orders trigger where they should, and what a NaN
  argument and the first move of a trailing stop do.
\<close>

subsection \<open>The books\<close>

text \<open>C3. From the initial state, whatever operations follow and whichever of them throw, cash and
  fees stay non-negative, every position is well formed, equity is cash plus the marked value of
  the positions, and cash plus cost bases plus fees is the starting cash plus the gross profits
  of the closed trades, each of which the trade log shows.\<close>

theorem portfolio_books_balance:
  assumes "ld_exact L" and "permutes order" and "pm_run L order ops pm_init = (p, fills)"
  shows "pm_inv p
    \<and> (\<exists>gs. units (pm_cash p) + position_sum cost_units (pm_positions p) + units (pm_totalFeesPaid p)
          = STARTING_CASH_UNITS + sum_list gs
        \<and> list_all2 (\<lambda>r g. trd_grossPnL r = toDouble (FValue g :: money)) (pm_tradeLog p) gs)"
proof -
  have "book_value pm_init = STARTING_CASH_UNITS"
    by (simp add: book_value_def pm_init_def)
  with pm_run_books [OF assms(1,2) pm_inv_init, of ops] show ?thesis
    by (auto simp: assms(3) books_def book_value_def) (auto simp: pm_init_def)
qed

definition run_demo :: "pm_op list" where
  "run_demo = [PoOpen ''EUR'' (Fin 2) 1 (Fin 1) (Fin 0) (Fin 100) ''s'',
     PoMark ''EUR'' (Fin 3), PoClose ''EUR'' (Fin 3) 2 (Fin 1) ''s'' (Fin 40)]"

lemma portfolio_books_balance_witness:
  "\<exists>gs. units (pm_cash (fst (pm_run x87_extended id run_demo pm_init)))
      + position_sum cost_units (pm_positions (fst (pm_run x87_extended id run_demo pm_init)))
      + units (pm_totalFeesPaid (fst (pm_run x87_extended id run_demo pm_init)))
    = STARTING_CASH_UNITS + sum_list gs"
  using portfolio_books_balance [OF ld_exact_x87 permutes_id(1) prod.collapse [symmetric], of run_demo]
  by blast

subsection \<open>Pending orders\<close>

text \<open>C13. Along every run no pending order is filled twice, none is still pending once filled, and the
  pending ones carry different identifiers.\<close>

theorem pending_filled_once:
  assumes "ld_exact L" and "permutes order" and "pm_run L order ops pm_init = (p, fills)"
  shows "distinct (map ofr_orderId fills) \<and> distinct (map ord_orderId (pm_pendingOrders p))
    \<and> ofr_orderId ` set fills \<inter> ord_orderId ` set (pm_pendingOrders p) = {}"
  using pm_run_orders_inv [OF assms(1,2) pm_inv_init orders_inv_init assms(3)]
  by (auto simp: orders_inv_def)

definition limit_buy :: "fp \<Rightarrow> order_record" where
  "limit_buy x = \<lparr>ord_symbol = ''EUR'', ord_orderType = PO_Limit, ord_isBuy = True,
     ord_limitPrice = x, ord_trailOffset = Fin 0, ord_trailBest = Fin 0, ord_quantity = Fin 1,
     ord_capitalToCommit = Fin 0, ord_placedTimestamp = 0, ord_orderId = 0\<rparr>"

definition orders_demo :: "pm_op list" where
  "orders_demo = [PoPlace (limit_buy (Fin 2)), PoPlace (limit_buy (Fin 1)),
     PoEvaluate ''EUR'' (Fin 3) (Fin 2) (Fin 3) 5]"

lemma pending_filled_once_witness:
  "distinct (map ofr_orderId (snd (pm_run x87_extended id orders_demo pm_init)))
   \<and> map ofr_orderId (snd (pm_run x87_extended id orders_demo pm_init)) = [1]"
  using pending_filled_once [OF ld_exact_x87 permutes_id(1) prod.collapse [symmetric], of orders_demo]
  by (intro conjI) (blast, code_simp)

text \<open>C14. A pending limit order of the symbol whose price is positive and below 2^51 units is filled by
  a bar exactly when the bar reaches its limit, and then at its limit price.\<close>

theorem limit_order_fills_at_limit:
  assumes "ld_exact L" and "ord_orderType r = PO_Limit" and "ord_symbol r = symbol"
    and "ord_limitPrice r = toDouble lp" and "0 < units (lp :: price)" and "units lp < 2 ^ 51"
    and "evaluate_loop L symbol hi lo c ts [r] = (kept, fills)"
  shows "(if (if ord_isBuy r then fp_le lo (toDouble lp) else fp_le (toDouble lp) hi)
     then kept = [] \<and> map ofr_fillPrice fills = [toDouble lp] \<and> map ofr_orderId fills = [ord_orderId r]
     else kept = [r] \<and> fills = [])"
proof -
  have fmt: "fmt_ok L" using assms(1) by (simp add: ld_exact_def)
  have "price_of L (toDouble lp) NearestTiesAwayFromZero = Some lp"
    using assms(5,6) by (intro price_of_toDouble [OF fmt]) simp
  with assms show ?thesis
    by (auto simp: evaluate_order_def fill_result_def isPositive_def split: if_splits)
qed

lemma limit_order_fills_at_limit_witness:
  "evaluate_loop x87_extended ''EUR'' (Fin 3) (Fin 1) (Fin 3) 5
      [limit_buy (toDouble (FValue 200000000 :: price))]
   = ([], snd (evaluate_loop x87_extended ''EUR'' (Fin 3) (Fin 1) (Fin 3) 5
      [limit_buy (toDouble (FValue 200000000 :: price))]))"
proof -
  have "fp_le (Fin 1) (toDouble (FValue 200000000 :: price))" by code_simp
  then show ?thesis
    using limit_order_fills_at_limit [OF ld_exact_x87 _ _ _ _ _ prod.collapse [symmetric],
        of "limit_buy (toDouble (FValue 200000000 :: price))" "''EUR''" "FValue 200000000"
          "Fin 1" "Fin 3" "Fin 3" 5]
    by (simp add: limit_buy_def prod_eq_iff del: evaluate_loop.simps)
qed

text \<open>C15. Once the stop has been computed from the best price seen, no sequence of closes below 2^51
  units lowers it.\<close>

theorem trailing_stop_ratchets:
  assumes "ld_exact L" and "trailing_set L r"
    and "\<And>c p. c \<in> set cs \<Longrightarrow> price_of L c NearestTiesAwayFromZero = Some p \<Longrightarrow> \<bar>units p\<bar> < 2 ^ 51"
  shows "fp_le (ord_limitPrice r) (ord_limitPrice (fold (trail L) cs r))"
  using trail_run_ratchet [OF assms] by simp

definition trailing_sell :: "fp \<Rightarrow> fp \<Rightarrow> order_record" where
  "trailing_sell best stop = (limit_buy stop)\<lparr>ord_orderType := PO_TrailingStop, ord_isBuy := False,
     ord_trailOffset := Fin 10, ord_trailBest := best\<rparr>"

lemma trailing_stop_ratchets_witness:
  "fp_le (Fin 90) (ord_limitPrice (fold (trail x87_extended) [Fin 120, Fin 110] (trailing_sell (Fin 100) (Fin 90))))
   \<and> fold (trail x87_extended) [Fin 120, Fin 110] (trailing_sell (Fin 100) (Fin 90))
     = trailing_sell (Fin 120) (Fin 110)"
proof -
  have d: "toDouble (FValue 10000000000 :: price) = Fin 100" "toDouble (FValue 9000000000 :: price) = Fin 90"
    by code_simp+
  have s: "price_of x87_extended (fp_sub binary64 (Fin 100) (Fin 10)) NearestTiesAwayFromZero
      = Some (FValue 9000000000)" by code_simp
  have "trailing_set x87_extended (trailing_sell (Fin 100) (Fin 90))"
    unfolding trailing_set_def
    by (rule exI [of _ "FValue 10000000000"], rule exI [of _ "FValue 9000000000"])
      (simp add: trailing_sell_def limit_buy_def d s in_i64_def INT64_MIN_def INT64_MAX_def)
  moreover have "price_of x87_extended (Fin 120) NearestTiesAwayFromZero = Some (FValue 12000000000)"
    "price_of x87_extended (Fin 110) NearestTiesAwayFromZero = Some (FValue 11000000000)"
    by code_simp+
  ultimately have "fp_le (ord_limitPrice (trailing_sell (Fin 100) (Fin 90)))
      (ord_limitPrice (fold (trail x87_extended) [Fin 120, Fin 110] (trailing_sell (Fin 100) (Fin 90))))"
    by (intro trailing_stop_ratchets [OF ld_exact_x87]) auto
  then have "fp_le (Fin 90) (ord_limitPrice (fold (trail x87_extended) [Fin 120, Fin 110]
      (trailing_sell (Fin 100) (Fin 90))))" by (simp add: trailing_sell_def limit_buy_def)
  moreover have "fold (trail x87_extended) [Fin 120, Fin 110] (trailing_sell (Fin 100) (Fin 90))
     = trailing_sell (Fin 120) (Fin 110)" by code_simp
  ultimately show ?thesis by blast
qed

text \<open>The first move of a trailing stop can lower it: placed at 95 with an offset of 10, a close
  of 100 takes the stop to 90.\<close>

theorem trailing_stop_first_move_loosens:
  "(case pm_run x87_extended id
      [PoPlace (trailing_sell (Fin 0) (Fin 95)), PoEvaluate ''EUR'' (Fin 101) (Fin 99) (Fin 100) 5]
      pm_init of (p, fills) \<Rightarrow> map ord_limitPrice (pm_pendingOrders p) = [Fin 90] \<and> fills = [])"
  by code_simp

subsection \<open>Snapshots\<close>

text \<open>C12. A state reached by the accounting whose amounts are below 2^51 units, with positive cost
  bases and average prices, is restored from its snapshot exactly, up to the order in which the
  hash map lists the positions, whatever the state restored into.\<close>

theorem snapshot_restore_roundtrip:
  assumes "ld_exact L" and "permutes o1" and "permutes o2" and "pm_inv p" and "snapshot_small p"
  shows "\<exists>ps. restoreState L o2 (snapshotState o1 p) r = Inr (p\<lparr>pm_positions := ps\<rparr>)
     \<and> mset ps = mset (pm_positions p)"
  using restore_snapshot [OF _ assms(2-)] assms(1) by (auto simp: ld_exact_def)

definition open_demo :: "pm_op list" where
  "open_demo = [PoOpen ''EUR'' (Fin 2) 1 (Fin 1) (Fin 0) (Fin 100) ''s'',
     PoOpen ''BTC'' (Fin 5) 2 (Fin 1) (Fin 0) (Fin 10) ''s'', PoMark ''EUR'' (Fin 3)]"

definition open_demo_state :: portfolio where
  "open_demo_state = fst (pm_run x87_extended id open_demo pm_init)"

lemma snapshot_restore_roundtrip_witness:
  "\<exists>ps. restoreState x87_extended rev (snapshotState id open_demo_state) pm_init
     = Inr (open_demo_state\<lparr>pm_positions := ps\<rparr>)
     \<and> mset ps = mset (pm_positions open_demo_state) \<and> length ps = 2"
proof -
  obtain gs where "books pm_init (fst (pm_run x87_extended id open_demo pm_init)) gs"
    using pm_run_books [OF ld_exact_x87 permutes_id(1) pm_inv_init] by blast
  then have inv: "pm_inv open_demo_state" by (simp add: open_demo_state_def books_def)
  have small: "snapshot_small open_demo_state" by code_simp
  have "length (pm_positions open_demo_state) = 2" by code_simp
  then show ?thesis
    using snapshot_restore_roundtrip [OF ld_exact_x87 permutes_id(1) permutes_id(3) inv small,
        of pm_init] by (metis mset_eq_length)
qed

subsection \<open>NaN arguments\<close>






end
