(* ===== verification/L2Book.thy ===== *)
theory L2Book
  imports Floats
begin

text \<open>
  The level-2 order book: include/L2OrderBook.hpp and src/L2OrderBook.cpp.  Each side is an array
  of quantities indexed by the distance in ticks from a base price, with the index of the best
  level kept beside it; -1 stands for none.  Where the code converts a floating-point number
  outside the range of \<open>int64_t\<close>, which is undefined, the model keeps the number.
\<close>

subsection \<open>State\<close>

record best_quote =
  bq_valid :: bool
  bq_bidPrice :: fp
  bq_bidSize :: fp
  bq_askPrice :: fp
  bq_askSize :: fp

definition best_quote_default :: best_quote where
  "best_quote_default = \<lparr>bq_valid = False, bq_bidPrice = Fin 0, bq_bidSize = Fin 0,
     bq_askPrice = Fin 0, bq_askSize = Fin 0\<rparr>"

record l2book =
  lb_tickSize :: fp
  lb_bidLevels :: "fp list"
  lb_askLevels :: "fp list"
  lb_basePrice :: fp
  lb_initialized :: bool
  lb_bestBidIdx :: i64
  lb_bestAskIdx :: i64
  lb_lastBboBidIdx :: i64
  lb_lastBboAskIdx :: i64
  lb_recenters :: u64

definition book_new :: "fp \<Rightarrow> nat \<Rightarrow> l2book" where
  "book_new tickSize levelCount =
     \<lparr>lb_tickSize = (if fp_less (Fin 0) tickSize then tickSize else fp_round binary64 (1 / 100)),
      lb_bidLevels = replicate levelCount (Fin 0), lb_askLevels = replicate levelCount (Fin 0),
      lb_basePrice = Fin 0, lb_initialized = False, lb_bestBidIdx = - 1, lb_bestAskIdx = - 1,
      lb_lastBboBidIdx = - 1, lb_lastBboAskIdx = - 1, lb_recenters = 0\<rparr>"

definition levelCount :: "l2book \<Rightarrow> nat" where
  "levelCount b = length (lb_bidLevels b)"

subsection \<open>Prices and indices\<close>

definition fp_to_i64 :: "fp \<Rightarrow> i64" where
  "fp_to_i64 a = (case a of Fin x \<Rightarrow> trunc_rat x | _ \<Rightarrow> 0)"

definition toIndex :: "fp \<Rightarrow> l2book \<Rightarrow> nat" where
  "toIndex price b =
     (if fp_le price (Fin 0) \<or> fp_le (lb_tickSize b) (Fin 0) then 0
      else
        let ticks = fp_map_int floor
              (fp_add binary64
                (fp_div binary64 (fp_sub binary64 price (lb_basePrice b)) (lb_tickSize b))
                (Fin (1 / 2)));
            mid = length (lb_bidLevels b) div 2
        in nat (max 0 (min (i64_of_u64 (of_nat mid + u64_of_i64 (fp_to_i64 ticks)))
                           (i64_of_u64 (of_nat (length (lb_bidLevels b)) - 1)))))"

definition toPrice :: "nat \<Rightarrow> l2book \<Rightarrow> fp" where
  "toPrice idx b =
     (let ticks = int idx - int (length (lb_bidLevels b) div 2)
      in fp_add binary64 (lb_basePrice b)
           (fp_mul binary64 (fp_of_int binary64 ticks) (lb_tickSize b)))"

definition recenter :: "fp \<Rightarrow> l2book \<Rightarrow> l2book" where
  "recenter referencePrice b =
     (if fp_le referencePrice (Fin 0) \<or> fp_le (lb_tickSize b) (Fin 0) then b
      else b\<lparr>lb_basePrice := referencePrice, lb_initialized := True, lb_bestBidIdx := - 1,
             lb_bestAskIdx := - 1, lb_lastBboBidIdx := - 1, lb_lastBboAskIdx := - 1,
             lb_bidLevels := map (\<lambda>_. Fin 0) (lb_bidLevels b),
             lb_askLevels := map (\<lambda>_. Fin 0) (lb_askLevels b),
             lb_recenters := lb_recenters b + 1\<rparr>)"

definition ensureMappable :: "fp \<Rightarrow> l2book \<Rightarrow> l2book \<times> bool" where
  "ensureMappable price b =
     (if fp_le price (Fin 0) then (b, False)
      else if \<not> lb_initialized b then (recenter price b, True)
      else
        let maxDistanceTicks = fp_of_int binary64 (int (length (lb_bidLevels b) div 4));
            diffTicks = fp_div binary64 (fp_abs (fp_sub binary64 price (lb_basePrice b)))
              (lb_tickSize b)
        in (if fp_less maxDistanceTicks diffTicks then recenter price b else b, True))"

definition book_reset :: "fp \<Rightarrow> l2book \<Rightarrow> l2book" where
  "book_reset referencePrice b =
     (let b = b\<lparr>lb_bidLevels := map (\<lambda>_. Fin 0) (lb_bidLevels b),
                lb_askLevels := map (\<lambda>_. Fin 0) (lb_askLevels b), lb_bestBidIdx := - 1,
                lb_bestAskIdx := - 1, lb_lastBboBidIdx := - 1, lb_lastBboAskIdx := - 1\<rparr>
      in if fp_less (Fin 0) referencePrice then recenter referencePrice b
         else b\<lparr>lb_basePrice := Fin 0, lb_initialized := False\<rparr>)"

subsection \<open>Best levels\<close>

text \<open>The two scans: downwards from below an index, upwards from an index.\<close>

fun scan_down :: "fp list \<Rightarrow> nat \<Rightarrow> i64" where
  "scan_down levels 0 = - 1"
| "scan_down levels (Suc i) =
     (if fp_less (Fin 0) (levels ! i) then int i else scan_down levels i)"

function scan_up :: "fp list \<Rightarrow> nat \<Rightarrow> i64" where
  "scan_up levels i =
     (if i < length levels
      then if fp_less (Fin 0) (levels ! i) then int i else scan_up levels (i + 1)
      else - 1)"
  by pat_completeness auto

termination scan_up
  by (relation "measure (\<lambda>(levels, i). length levels - i)") auto

text \<open>The start is an index or -1 read as \<open>size_t\<close>, which no array has.\<close>

definition refreshBestBidFrom :: "i64 \<Rightarrow> l2book \<Rightarrow> l2book" where
  "refreshBestBidFrom start b =
     b\<lparr>lb_bestBidIdx := (if start < 0 \<or> length (lb_bidLevels b) \<le> nat start then - 1
                         else scan_down (lb_bidLevels b) (nat start))\<rparr>"

definition refreshBestAskFrom :: "i64 \<Rightarrow> l2book \<Rightarrow> l2book" where
  "refreshBestAskFrom start b =
     b\<lparr>lb_bestAskIdx := (if start < 0 \<or> length (lb_askLevels b) \<le> nat start then - 1
                         else scan_up (lb_askLevels b) (nat start))\<rparr>"

subsection \<open>Updates\<close>

definition set_bid_level :: "nat \<Rightarrow> fp \<Rightarrow> l2book \<Rightarrow> l2book" where
  "set_bid_level idx qty b =
     (let best = lb_bestBidIdx b; b = b\<lparr>lb_bidLevels := (lb_bidLevels b)[idx := qty]\<rparr>
      in if fp_less (Fin 0) qty
         then if best < 0 \<or> best < int idx then b\<lparr>lb_bestBidIdx := int idx\<rparr> else b
         else if best = int idx then refreshBestBidFrom (int idx) b else b)"

definition applyBidLevel :: "fp \<Rightarrow> fp \<Rightarrow> l2book \<Rightarrow> l2book \<times> bool" where
  "applyBidLevel price qty b =
     (if fp_le price (Fin 0) \<or> fp_less qty (Fin 0) then (b, False)
      else case ensureMappable price b of (b, mappable) \<Rightarrow>
        if \<not> mappable then (b, False) else (set_bid_level (toIndex price b) qty b, True))"

definition set_ask_level :: "nat \<Rightarrow> fp \<Rightarrow> l2book \<Rightarrow> l2book" where
  "set_ask_level idx qty b =
     (let best = lb_bestAskIdx b; b = b\<lparr>lb_askLevels := (lb_askLevels b)[idx := qty]\<rparr>
      in if fp_less (Fin 0) qty
         then if best < 0 \<or> int idx < best then b\<lparr>lb_bestAskIdx := int idx\<rparr> else b
         else if best = int idx then refreshBestAskFrom (int idx) b else b)"

definition applyAskLevel :: "fp \<Rightarrow> fp \<Rightarrow> l2book \<Rightarrow> l2book \<times> bool" where
  "applyAskLevel price qty b =
     (if fp_le price (Fin 0) \<or> fp_less qty (Fin 0) then (b, False)
      else case ensureMappable price b of (b, mappable) \<Rightarrow>
        if \<not> mappable then (b, False) else (set_ask_level (toIndex price b) qty b, True))"

text \<open>The previous BBO's level is cleared, the new one written.\<close>

definition replace_level :: "i64 \<Rightarrow> i64 \<Rightarrow> fp \<Rightarrow> fp list \<Rightarrow> fp list" where
  "replace_level old new qty levels =
     (let levels = (if 0 \<le> old \<and> nat old < length levels then levels[nat old := Fin 0] else levels)
      in if fp_less (Fin 0) qty then levels[nat new := qty] else levels)"

text \<open>The two updates of the best indices.\<close>

definition bbo_best_bid :: "i64 \<Rightarrow> i64 \<Rightarrow> fp \<Rightarrow> l2book \<Rightarrow> l2book" where
  "bbo_best_bid old new qty b =
     (if fp_less (Fin 0) qty
      then if lb_bestBidIdx b < 0 \<or> lb_bestBidIdx b = old \<or> lb_bestBidIdx b < new
           then b\<lparr>lb_bestBidIdx := new\<rparr> else b
      else if lb_bestBidIdx b = old then refreshBestBidFrom old b else b)"

definition bbo_best_ask :: "i64 \<Rightarrow> i64 \<Rightarrow> fp \<Rightarrow> l2book \<Rightarrow> l2book" where
  "bbo_best_ask old new qty b =
     (if fp_less (Fin 0) qty
      then if lb_bestAskIdx b < 0 \<or> lb_bestAskIdx b = old \<or> new < lb_bestAskIdx b
           then b\<lparr>lb_bestAskIdx := new\<rparr> else b
      else if lb_bestAskIdx b = old then refreshBestAskFrom old b else b)"

definition bbo_commit :: "fp \<Rightarrow> fp \<Rightarrow> fp \<Rightarrow> fp \<Rightarrow> l2book \<Rightarrow> l2book" where
  "bbo_commit bidPrice bidQty askPrice askQty b =
     (let oldBid = lb_lastBboBidIdx b; oldAsk = lb_lastBboAskIdx b;
          bidQuantity = fp_max (Fin 0) bidQty; askQuantity = fp_max (Fin 0) askQty;
          newBid = int (toIndex bidPrice b); newAsk = int (toIndex askPrice b);
          b = b\<lparr>lb_bidLevels := replace_level oldBid newBid bidQuantity (lb_bidLevels b),
                lb_askLevels := replace_level oldAsk newAsk askQuantity (lb_askLevels b)\<rparr>;
          b = bbo_best_ask oldAsk newAsk askQuantity (bbo_best_bid oldBid newBid bidQuantity b)
      in b\<lparr>lb_lastBboBidIdx := (if fp_less (Fin 0) bidQuantity then newBid else - 1),
           lb_lastBboAskIdx := (if fp_less (Fin 0) askQuantity then newAsk else - 1)\<rparr>)"

definition applyBbo :: "fp \<Rightarrow> fp \<Rightarrow> fp \<Rightarrow> fp \<Rightarrow> l2book \<Rightarrow> l2book \<times> bool" where
  "applyBbo bidPrice bidQty askPrice askQty b =
     (if fp_le bidPrice (Fin 0) \<or> fp_le askPrice (Fin 0) \<or> fp_less askPrice bidPrice
      then (b, False)
      else case ensureMappable bidPrice b of (b, bid_ok) \<Rightarrow>
        if \<not> bid_ok then (b, False)
        else case ensureMappable askPrice b of (b, ask_ok) \<Rightarrow>
          if \<not> ask_ok then (b, False)
          else (bbo_commit bidPrice bidQty askPrice askQty b, True))"

subsection \<open>The best bid and offer\<close>

definition bbo :: "l2book \<Rightarrow> best_quote" where
  "bbo b =
     (if lb_bestBidIdx b < 0 \<or> lb_bestAskIdx b < 0 then best_quote_default
      else
        let bidIdx = nat (lb_bestBidIdx b); askIdx = nat (lb_bestAskIdx b)
        in if length (lb_bidLevels b) \<le> bidIdx \<or> length (lb_askLevels b) \<le> askIdx
           then best_quote_default
           else \<lparr>bq_valid = True, bq_bidPrice = toPrice bidIdx b, bq_bidSize = lb_bidLevels b ! bidIdx,
                 bq_askPrice = toPrice askIdx b, bq_askSize = lb_askLevels b ! askIdx\<rparr>)"

definition hasValidBbo :: "l2book \<Rightarrow> bool" where
  "hasValidBbo b = bq_valid (bbo b)"

end
