(* ===== verification/L2BookProps.thy ===== *)
theory L2BookProps
  imports L2Book FloatProps
begin

text \<open>
  Lemmas on the order book: indices stay in the arrays, the cached best levels of a side against
  a scan of its whole array, and what each update keeps of them.
\<close>

declare scan_up.simps [simp del]

subsection \<open>Scans\<close>

abbreviation live :: "fp \<Rightarrow> bool" where "live q \<equiv> fp_less (Fin 0) q"

lemma scan_down_spec:
  "scan_down levels n = - 1 \<and> (\<forall>i < n. \<not> live (levels ! i))
   \<or> (\<exists>k < n. scan_down levels n = int k \<and> live (levels ! k) \<and> (\<forall>i < n. live (levels ! i) \<longrightarrow> i \<le> k))"
proof (induction n)
  case (Suc n)
  show ?case
  proof (cases "live (levels ! n)")
    case True
    then show ?thesis by (intro disjI2 exI [of _ n]) auto
  next
    case False
    with Suc show ?thesis by (auto simp: less_Suc_eq)
  qed
qed simp

lemma scan_down_unique:
  "k < n \<Longrightarrow> live (levels ! k) \<Longrightarrow> (\<And>i. i < n \<Longrightarrow> live (levels ! i) \<Longrightarrow> i \<le> k)
   \<Longrightarrow> scan_down levels n = int k"
  using scan_down_spec [of levels n] by (metis le_antisym)

lemma scan_down_none: "(\<And>i. i < n \<Longrightarrow> \<not> live (levels ! i)) \<Longrightarrow> scan_down levels n = - 1"
  using scan_down_spec [of levels n] by blast

lemma scan_up_spec:
  "scan_up levels j = - 1 \<and> (\<forall>i. j \<le> i \<longrightarrow> i < length levels \<longrightarrow> \<not> live (levels ! i))
   \<or> (\<exists>k. j \<le> k \<and> k < length levels \<and> scan_up levels j = int k \<and> live (levels ! k)
        \<and> (\<forall>i. j \<le> i \<longrightarrow> i < length levels \<longrightarrow> live (levels ! i) \<longrightarrow> k \<le> i))"
proof (induction levels j rule: scan_up.induct)
  case (1 levels j)
  consider "\<not> j < length levels" | "j < length levels" "live (levels ! j)"
    | "j < length levels" "\<not> live (levels ! j)" by blast
  then show ?case
  proof cases
    case 2
    then show ?thesis by (intro disjI2 exI [of _ j]) (simp add: scan_up.simps [of levels j])
  next
    case 3
    note ih = "1.IH" [OF 3]
    have "scan_up levels j = scan_up levels (j + 1)" using 3 by (simp add: scan_up.simps [of levels j])
    moreover have "j \<le> i \<longleftrightarrow> i = j \<or> j + 1 \<le> i" for i by auto
    ultimately show ?thesis using ih 3 by (metis add_leD1)
  qed (simp add: scan_up.simps [of levels j])
qed

lemma scan_up_unique:
  "j \<le> k \<Longrightarrow> k < length levels \<Longrightarrow> live (levels ! k)
   \<Longrightarrow> (\<And>i. j \<le> i \<Longrightarrow> i < length levels \<Longrightarrow> live (levels ! i) \<Longrightarrow> k \<le> i)
   \<Longrightarrow> scan_up levels j = int k"
  using scan_up_spec [of levels j] by (metis le_antisym)

lemma scan_up_none:
  "(\<And>i. j \<le> i \<Longrightarrow> i < length levels \<Longrightarrow> \<not> live (levels ! i)) \<Longrightarrow> scan_up levels j = - 1"
  using scan_up_spec [of levels j] by blast

subsection \<open>One side of the book\<close>

text \<open>The cached index is live, or none; and it is the best live one.\<close>

definition side_live :: "fp list \<Rightarrow> int \<Rightarrow> bool" where
  "side_live levels best \<longleftrightarrow>
     best = - 1 \<or> (0 \<le> best \<and> nat best < length levels \<and> live (levels ! nat best))"

definition best_bid_ok :: "fp list \<Rightarrow> int \<Rightarrow> bool" where
  "best_bid_ok levels best \<longleftrightarrow> best = scan_down levels (length levels)"

definition best_ask_ok :: "fp list \<Rightarrow> int \<Rightarrow> bool" where
  "best_ask_ok levels best \<longleftrightarrow> best = scan_up levels 0"

lemma best_bid_iff:
  "best_bid_ok levels best \<longleftrightarrow> side_live levels best
     \<and> (\<forall>i < length levels. live (levels ! i) \<longrightarrow> int i \<le> best)"
proof
  assume "best_bid_ok levels best"
  then show "side_live levels best \<and> (\<forall>i < length levels. live (levels ! i) \<longrightarrow> int i \<le> best)"
    using scan_down_spec [of levels "length levels"] by (auto simp: best_bid_ok_def side_live_def)
next
  assume r: "side_live levels best \<and> (\<forall>i < length levels. live (levels ! i) \<longrightarrow> int i \<le> best)"
  show "best_bid_ok levels best"
  proof (cases "best = - 1")
    case True
    with r have "\<not> live (levels ! i)" if "i < length levels" for i using that by force
    with scan_down_none True show ?thesis by (simp add: best_bid_ok_def)
  next
    case False
    with r have "scan_down levels (length levels) = int (nat best)"
      by (intro scan_down_unique) (auto simp: side_live_def)
    with False r show ?thesis by (simp add: best_bid_ok_def side_live_def)
  qed
qed

lemma best_ask_iff:
  "best_ask_ok levels best \<longleftrightarrow> side_live levels best
     \<and> (\<forall>i < length levels. live (levels ! i) \<longrightarrow> 0 \<le> best \<and> best \<le> int i)"
proof
  assume "best_ask_ok levels best"
  then show "side_live levels best
      \<and> (\<forall>i < length levels. live (levels ! i) \<longrightarrow> 0 \<le> best \<and> best \<le> int i)"
    using scan_up_spec [of levels 0] by (auto simp: best_ask_ok_def side_live_def)
next
  assume r: "side_live levels best
      \<and> (\<forall>i < length levels. live (levels ! i) \<longrightarrow> 0 \<le> best \<and> best \<le> int i)"
  show "best_ask_ok levels best"
  proof (cases "best = - 1")
    case True
    with r have "\<not> live (levels ! i)" if "i < length levels" for i using that by force
    with scan_up_none True show ?thesis by (simp add: best_ask_ok_def)
  next
    case False
    with r have "scan_up levels 0 = int (nat best)"
      by (intro scan_up_unique) (auto simp: side_live_def)
    with False r show ?thesis by (simp add: best_ask_ok_def side_live_def)
  qed
qed

lemma not_live_0 [simp]: "\<not> live (Fin 0)" by simp

text \<open>Recentring or resetting empties a side.\<close>

lemma emptied_ok [simp]:
  "best_bid_ok (map (\<lambda>_. Fin 0) levels) (- 1)" "best_ask_ok (map (\<lambda>_. Fin 0) levels) (- 1)"
  "side_live levels (- 1)"
  by (simp_all add: best_bid_iff best_ask_iff side_live_def)

text \<open>One level of a side is written.\<close>

lemma bid_written:
  assumes ok: "best_bid_ok levels best" and k: "k < length levels"
  shows "live q \<Longrightarrow> best_bid_ok (levels[k := q]) (if best < 0 \<or> best < int k then int k else best)"
    and "\<not> live q \<Longrightarrow> best \<noteq> int k \<Longrightarrow> best_bid_ok (levels[k := q]) best"
    and "\<not> live q \<Longrightarrow> best = int k \<Longrightarrow> best_bid_ok (levels[k := q]) (scan_down (levels[k := q]) k)"
proof -
  note ok' = ok [unfolded best_bid_iff side_live_def]
  show "live q \<Longrightarrow> best_bid_ok (levels[k := q]) (if best < 0 \<or> best < int k then int k else best)"
    using ok' k by (auto simp: best_bid_iff side_live_def nth_list_update)
  show "\<not> live q \<Longrightarrow> best \<noteq> int k \<Longrightarrow> best_bid_ok (levels[k := q]) best"
    using ok' k by (auto simp: best_bid_iff side_live_def nth_list_update)
  assume q: "\<not> live q" "best = int k"
  then have "\<forall>i < length levels. live (levels[k := q] ! i) \<longrightarrow> i < k"
    using ok' k by (auto simp: nth_list_update)
  then show "best_bid_ok (levels[k := q]) (scan_down (levels[k := q]) k)"
    using scan_down_spec [of "levels[k := q]" k] k
    by (auto simp: best_bid_iff side_live_def)
qed

lemma ask_written:
  assumes ok: "best_ask_ok levels best" and k: "k < length levels"
  shows "live q \<Longrightarrow> best_ask_ok (levels[k := q]) (if best < 0 \<or> int k < best then int k else best)"
    and "\<not> live q \<Longrightarrow> best \<noteq> int k \<Longrightarrow> best_ask_ok (levels[k := q]) best"
    and "\<not> live q \<Longrightarrow> best = int k \<Longrightarrow> best_ask_ok (levels[k := q]) (scan_up (levels[k := q]) k)"
proof -
  note ok' = ok [unfolded best_ask_iff side_live_def]
  show "live q \<Longrightarrow> best_ask_ok (levels[k := q]) (if best < 0 \<or> int k < best then int k else best)"
    using ok' k by (auto simp: best_ask_iff side_live_def nth_list_update)
  show "\<not> live q \<Longrightarrow> best \<noteq> int k \<Longrightarrow> best_ask_ok (levels[k := q]) best"
    using ok' k by (auto simp: best_ask_iff side_live_def nth_list_update)
  assume q: "\<not> live q" "best = int k"
  then have "\<forall>i < length levels. live (levels[k := q] ! i) \<longrightarrow> k \<le> i"
    using ok' k by (auto simp: nth_list_update)
  then show "best_ask_ok (levels[k := q]) (scan_up (levels[k := q]) k)"
    using scan_up_spec [of "levels[k := q]" k] k
    by (auto simp: best_ask_iff side_live_def)
qed

subsection \<open>Indices\<close>

lemma toIndex_less:
  assumes "0 < levelCount b" and "levelCount b < 2 ^ 63"
  shows "toIndex price b < levelCount b"
proof -
  let ?n = "length (lb_bidLevels b)"
  have "(of_nat ?n :: u64) - 1 = of_nat (?n - 1)" using assms(1) by (cases ?n) (simp_all add: levelCount_def)
  moreover have "?n - 1 < 2 ^ 63" using assms(2) by (simp add: levelCount_def)
  then have "sint (of_nat (?n - 1) :: u64) = int (?n - 1)"
    by (subst sint_small) (simp_all add: word_le_nat_alt unat_of_nat_u64 INT64_MAX_U_def)
  ultimately have "i64_of_u64 ((of_nat ?n :: u64) - 1) = int (?n - 1)"
    by (simp add: i64_of_u64_def)
  moreover have "nat (max 0 (min x (int (n - 1)))) < n" if "0 < n" for x n
    using that by (auto simp: nat_less_iff max_def min_def)
  ultimately show ?thesis using assms(1) unfolding toIndex_def Let_def levelCount_def by simp
qed

subsection \<open>Runs\<close>

datatype book_op = BkReset fp | BkBid fp fp | BkAsk fp fp | BkBbo fp fp fp fp

fun book_step :: "book_op \<Rightarrow> l2book \<Rightarrow> l2book" where
  "book_step (BkReset p) b = book_reset p b"
| "book_step (BkBid p q) b = fst (applyBidLevel p q b)"
| "book_step (BkAsk p q) b = fst (applyAskLevel p q b)"
| "book_step (BkBbo bp bq ap aq) b = fst (applyBbo bp bq ap aq b)"

fun is_bbo :: "book_op \<Rightarrow> bool" where
  "is_bbo (BkBbo _ _ _ _) = True" | "is_bbo _ = False"

fun is_level :: "book_op \<Rightarrow> bool" where
  "is_level (BkBid _ _) = True" | "is_level (BkAsk _ _) = True" | "is_level _ = False"

definition emptied :: "l2book \<Rightarrow> l2book \<Rightarrow> bool" where
  "emptied b b' \<longleftrightarrow>
     lb_bidLevels b' = map (\<lambda>_. Fin 0) (lb_bidLevels b)
     \<and> lb_askLevels b' = map (\<lambda>_. Fin 0) (lb_askLevels b)
     \<and> lb_bestBidIdx b' = - 1 \<and> lb_bestAskIdx b' = - 1
     \<and> lb_lastBboBidIdx b' = - 1 \<and> lb_lastBboAskIdx b' = - 1"

lemma recenter_cases: "recenter p b = b \<or> emptied b (recenter p b)"
  by (auto simp: recenter_def emptied_def)

lemma ensureMappable_cases: "fst (ensureMappable p b) = b \<or> emptied b (fst (ensureMappable p b))"
  using recenter_cases [of p b] by (auto simp: ensureMappable_def Let_def)

lemma book_reset_emptied: "emptied b (book_reset p b)"
  by (simp add: book_reset_def recenter_def emptied_def Let_def comp_def)

text \<open>An invariant of the book that holds of an emptied one and that each kind of update keeps.\<close>

locale book_invariant =
  fixes I :: "l2book \<Rightarrow> bool" and ok :: "book_op \<Rightarrow> bool"
  assumes I_sized: "I b \<Longrightarrow> 0 < levelCount b \<and> levelCount b < 2 ^ 63"
    and I_emptied: "I b \<Longrightarrow> emptied b b' \<Longrightarrow> I b'"
    and I_bid: "ok (BkBid p q) \<Longrightarrow> I b \<Longrightarrow> k < levelCount b \<Longrightarrow> I (set_bid_level k q b)"
    and I_ask: "ok (BkAsk p q) \<Longrightarrow> I b \<Longrightarrow> k < levelCount b \<Longrightarrow> I (set_ask_level k q b)"
    and I_bbo: "ok (BkBbo bp bq ap aq) \<Longrightarrow> I b \<Longrightarrow> I (bbo_commit bp bq ap aq b)"
begin

lemma ensure: "I b \<Longrightarrow> I (fst (ensureMappable p b))"
  using ensureMappable_cases [of p b] I_emptied by auto

lemma reset: "I b \<Longrightarrow> I (book_reset p b)"
  using I_emptied book_reset_emptied by blast

lemma step: "ok x \<Longrightarrow> I b \<Longrightarrow> I (book_step x b)"
proof (cases x)
  case (BkReset p)
  then show "I b \<Longrightarrow> I (book_step x b)" by (simp add: reset)
next
  case (BkBid p q)
  assume "ok x" and "I b"
  from ensure [OF this(2), of p] I_bid [of p q] this(1) BkBid show "I (book_step x b)"
    using I_sized toIndex_less \<open>I b\<close> by (auto simp: applyBidLevel_def split: prod.splits)
next
  case (BkAsk p q)
  assume "ok x" and "I b"
  from ensure [OF this(2), of p] I_ask [of p q] this(1) BkAsk show "I (book_step x b)"
    using I_sized toIndex_less \<open>I b\<close> by (auto simp: applyAskLevel_def split: prod.splits)
next
  case (BkBbo bp bq ap aq)
  assume "ok x" and b: "I b"
  obtain b1 m1 where e1: "ensureMappable bp b = (b1, m1)" by fastforce
  obtain b2 m2 where e2: "ensureMappable ap b1 = (b2, m2)" by fastforce
  have "I b1" using ensure [OF b, of bp] e1 by simp
  moreover from ensure [OF this, of ap] e2 have "I b2" by simp
  ultimately show "I (book_step x b)"
    using I_bbo [of bp bq ap aq] \<open>ok x\<close> BkBbo b by (simp add: applyBbo_def e1 e2)
qed

lemma run: "list_all ok xs \<Longrightarrow> I b \<Longrightarrow> I (run_machine book_step xs b)"
  by (induction xs arbitrary: b) (simp_all add: step)

end

definition sized :: "l2book \<Rightarrow> bool" where
  "sized b \<longleftrightarrow> 0 < levelCount b \<and> levelCount b < 2 ^ 63
     \<and> length (lb_askLevels b) = length (lb_bidLevels b)"

subsubsection \<open>Every update: the best levels hold quantity\<close>

definition book_live :: "l2book \<Rightarrow> bool" where
  "book_live b \<longleftrightarrow> sized b \<and> side_live (lb_bidLevels b) (lb_bestBidIdx b)
     \<and> side_live (lb_askLevels b) (lb_bestAskIdx b)"

lemma scan_live: "k \<le> length levels \<Longrightarrow> side_live levels (scan_down levels k)"
  "side_live levels (scan_up levels j)"
  using scan_down_spec [of levels k] scan_up_spec [of levels j] by (auto simp: side_live_def)

lemma nth_updated: "j < length xs \<Longrightarrow> xs[i := x] ! j = (if i = j then x else xs ! j)"
  by (cases "i = j") simp_all

lemma side_live_update:
  "side_live levels best \<Longrightarrow> best \<noteq> int k \<or> live q \<Longrightarrow> side_live (levels[k := q]) best"
  by (auto simp: side_live_def nth_updated)

lemma side_live_new: "k < length levels \<Longrightarrow> live q \<Longrightarrow> side_live (levels[k := q]) (int k)"
  by (simp add: side_live_def)

lemma replace_level_length [simp]: "length (replace_level old new q levels) = length levels"
  by (simp add: replace_level_def Let_def)

lemma replace_level_live:
  "side_live levels best \<Longrightarrow> best \<noteq> old \<or> best < 0 \<Longrightarrow> side_live (replace_level old new q levels) best"
  by (auto simp: side_live_def replace_level_def Let_def nth_updated)

lemma replace_level_new:
  "live q \<Longrightarrow> k < length levels \<Longrightarrow> side_live (replace_level old (int k) q levels) (int k)"
  by (auto simp: side_live_def replace_level_def Let_def nth_list_update)

text \<open>What \<open>applyBbo\<close> makes of a side.\<close>

definition bbo_bid_idx :: "i64 \<Rightarrow> i64 \<Rightarrow> fp \<Rightarrow> fp list \<Rightarrow> i64 \<Rightarrow> i64" where
  "bbo_bid_idx old new q levels best =
     (if live q then if best < 0 \<or> best = old \<or> best < new then new else best
      else if best = old
           then if old < 0 \<or> length levels \<le> nat old then - 1 else scan_down levels (nat old)
           else best)"

definition bbo_ask_idx :: "i64 \<Rightarrow> i64 \<Rightarrow> fp \<Rightarrow> fp list \<Rightarrow> i64 \<Rightarrow> i64" where
  "bbo_ask_idx old new q levels best =
     (if live q then if best < 0 \<or> best = old \<or> new < best then new else best
      else if best = old
           then if old < 0 \<or> length levels \<le> nat old then - 1 else scan_up levels (nat old)
           else best)"

lemma bbo_commit_fields:
  fixes b :: l2book and bp bq ap aq :: fp
  defines "bl \<equiv> replace_level (lb_lastBboBidIdx b) (int (toIndex bp b)) (fp_max (Fin 0) bq) (lb_bidLevels b)"
    and "al \<equiv> replace_level (lb_lastBboAskIdx b) (int (toIndex ap b)) (fp_max (Fin 0) aq) (lb_askLevels b)"
  shows "lb_bidLevels (bbo_commit bp bq ap aq b) = bl"
    and "lb_askLevels (bbo_commit bp bq ap aq b) = al"
    and "lb_bestBidIdx (bbo_commit bp bq ap aq b)
      = bbo_bid_idx (lb_lastBboBidIdx b) (int (toIndex bp b)) (fp_max (Fin 0) bq) bl (lb_bestBidIdx b)"
    and "lb_bestAskIdx (bbo_commit bp bq ap aq b)
      = bbo_ask_idx (lb_lastBboAskIdx b) (int (toIndex ap b)) (fp_max (Fin 0) aq) al (lb_bestAskIdx b)"
    and "lb_lastBboBidIdx (bbo_commit bp bq ap aq b)
      = (if live (fp_max (Fin 0) bq) then int (toIndex bp b) else - 1)"
    and "lb_lastBboAskIdx (bbo_commit bp bq ap aq b)
      = (if live (fp_max (Fin 0) aq) then int (toIndex ap b) else - 1)"
  by (simp_all add: bbo_commit_def bbo_best_bid_def bbo_best_ask_def refreshBestBidFrom_def
      refreshBestAskFrom_def bbo_bid_idx_def bbo_ask_idx_def Let_def bl_def al_def)

lemma bbo_side_live:
  assumes "side_live levels best" and "k < length levels"
  shows "side_live (replace_level old (int k) q levels)
      (bbo_bid_idx old (int k) q (replace_level old (int k) q levels) best)"
    and "side_live (replace_level old (int k) q levels)
      (bbo_ask_idx old (int k) q (replace_level old (int k) q levels) best)"
  using assms replace_level_live [OF assms(1), of old "int k" q]
  by (auto simp: bbo_bid_idx_def bbo_ask_idx_def replace_level_new scan_live)

interpretation live: book_invariant book_live "\<lambda>_. True"
proof
  show "book_live b \<Longrightarrow> 0 < levelCount b \<and> levelCount b < 2 ^ 63" for b
    by (simp add: book_live_def sized_def)
  show "book_live b \<Longrightarrow> emptied b b' \<Longrightarrow> book_live b'" for b b'
    by (simp add: book_live_def sized_def emptied_def levelCount_def)
  show "book_live b \<Longrightarrow> k < levelCount b \<Longrightarrow> book_live (set_bid_level k q b)" for b k q
    by (auto simp: book_live_def sized_def set_bid_level_def refreshBestBidFrom_def levelCount_def
        Let_def side_live_update side_live_new scan_live)
  show "book_live b \<Longrightarrow> k < levelCount b \<Longrightarrow> book_live (set_ask_level k q b)" for b k q
    by (auto simp: book_live_def sized_def set_ask_level_def refreshBestAskFrom_def levelCount_def
        Let_def side_live_update side_live_new scan_live)
  show "book_live b \<Longrightarrow> book_live (bbo_commit bp bq ap aq b)" for b bp bq ap aq
  proof -
    assume b: "book_live b"
    have "toIndex p b < length (lb_bidLevels b)" for p
      using toIndex_less [of b] b by (simp add: book_live_def sized_def levelCount_def)
    with b show ?thesis
      by (simp add: book_live_def sized_def levelCount_def bbo_commit_fields bbo_side_live)
  qed
qed

subsubsection \<open>Level updates: the best levels are the best ones\<close>

definition book_exact :: "l2book \<Rightarrow> bool" where
  "book_exact b \<longleftrightarrow> sized b \<and> best_bid_ok (lb_bidLevels b) (lb_bestBidIdx b)
     \<and> best_ask_ok (lb_askLevels b) (lb_bestAskIdx b)"

interpretation levels: book_invariant book_exact "\<lambda>x. \<not> is_bbo x"
proof
  show "book_exact b \<Longrightarrow> 0 < levelCount b \<and> levelCount b < 2 ^ 63" for b
    by (simp add: book_exact_def sized_def)
  show "book_exact b \<Longrightarrow> emptied b b' \<Longrightarrow> book_exact b'" for b b'
    by (simp add: book_exact_def sized_def emptied_def levelCount_def)
  show "\<not> is_bbo (BkBid p q) \<Longrightarrow> book_exact b \<Longrightarrow> k < levelCount b
      \<Longrightarrow> book_exact (set_bid_level k q b)" for p b k q
    using bid_written [of "lb_bidLevels b" "lb_bestBidIdx b" k q]
    by (auto simp: book_exact_def sized_def set_bid_level_def refreshBestBidFrom_def levelCount_def
        Let_def split: if_splits)
  show "\<not> is_bbo (BkAsk p q) \<Longrightarrow> book_exact b \<Longrightarrow> k < levelCount b
      \<Longrightarrow> book_exact (set_ask_level k q b)" for p b k q
    using ask_written [of "lb_askLevels b" "lb_bestAskIdx b" k q]
    by (auto simp: book_exact_def sized_def set_ask_level_def refreshBestAskFrom_def levelCount_def
        Let_def split: if_splits)
qed simp

subsubsection \<open>BBO updates: one level a side\<close>

definition only_level :: "fp list \<Rightarrow> int \<Rightarrow> bool" where
  "only_level levels k \<longleftrightarrow>
     side_live levels k \<and> (\<forall>i < length levels. live (levels ! i) \<longrightarrow> int i = k)"

definition book_single :: "l2book \<Rightarrow> bool" where
  "book_single b \<longleftrightarrow> sized b \<and> only_level (lb_bidLevels b) (lb_bestBidIdx b)
     \<and> only_level (lb_askLevels b) (lb_bestAskIdx b)
     \<and> lb_lastBboBidIdx b = lb_bestBidIdx b \<and> lb_lastBboAskIdx b = lb_bestAskIdx b"

lemma only_level_exact: "only_level levels k \<Longrightarrow> best_bid_ok levels k \<and> best_ask_ok levels k"
  by (auto simp: only_level_def best_bid_iff best_ask_iff)

lemma bbo_only_level:
  assumes "only_level levels best" and "k < length levels"
  shows "only_level (replace_level best (int k) q levels) (if live q then int k else - 1)"
  using assms by (auto simp: only_level_def side_live_def replace_level_def Let_def nth_updated)

lemma bbo_idx_single:
  fixes q :: fp
  assumes "only_level levels best" and "k < length levels"
  defines "l \<equiv> replace_level best (int k) q levels"
  shows "bbo_bid_idx best (int k) q l best = (if live q then int k else - 1)"
    and "bbo_ask_idx best (int k) q l best = (if live q then int k else - 1)"
proof -
  have "scan_down l (nat best) = - 1 \<and> scan_up l (nat best) = - 1" if "\<not> live q"
  proof -
    have none: "\<not> live (l ! i)" if "i < length l" for i
      using bbo_only_level [OF assms(1,2), of q] \<open>\<not> live q\<close> that
      by (auto simp: only_level_def l_def)
    have "nat best \<le> length l" using assms(1) by (auto simp: only_level_def side_live_def l_def)
    with none show ?thesis by (intro conjI scan_down_none scan_up_none) auto
  qed
  then show "bbo_bid_idx best (int k) q l best = (if live q then int k else - 1)"
    "bbo_ask_idx best (int k) q l best = (if live q then int k else - 1)"
    by (auto simp: bbo_bid_idx_def bbo_ask_idx_def)
qed

interpretation bbos: book_invariant book_single "\<lambda>x. \<not> is_level x"
proof
  show "book_single b \<Longrightarrow> 0 < levelCount b \<and> levelCount b < 2 ^ 63" for b
    by (simp add: book_single_def sized_def)
  show "book_single b \<Longrightarrow> emptied b b' \<Longrightarrow> book_single b'" for b b'
    by (simp add: book_single_def sized_def emptied_def levelCount_def only_level_def)
  show "book_single b \<Longrightarrow> book_single (bbo_commit bp bq ap aq b)" for b bp bq ap aq
  proof -
    assume b: "book_single b"
    have "toIndex p b < length (lb_bidLevels b)" for p
      using toIndex_less [of b] b by (simp add: book_single_def sized_def levelCount_def)
    with b show ?thesis
      by (simp add: book_single_def sized_def levelCount_def bbo_commit_fields bbo_only_level
          bbo_idx_single)
  qed
qed simp_all

end
