(* ===== verification/L2BookClaims.thy ===== *)
theory L2BookClaims
  imports L2BookProps
begin

text \<open>
  The properties of the order book: the cached best levels against a scan of the arrays, quotes
  with quantity on both sides, what mixing the two kinds of update hides, and a NaN price.
\<close>

lemma book_new_exact:
  assumes "0 < n" and "n < 2 ^ 63"
  shows "book_exact (book_new t n)" and "book_single (book_new t n)" and "book_live (book_new t n)"
  using assms
  by (auto simp: book_exact_def book_single_def book_live_def book_new_def sized_def levelCount_def
      only_level_def side_live_def best_bid_iff best_ask_iff)

text \<open>C18. As long as a book is fed level updates only, or BBO updates only, with resets in between,
  its cached best bid is the highest level with quantity and its best ask the lowest.\<close>

theorem l2_best_levels_exact:
  assumes "0 < n" and "n < 2 ^ 63" and "b = run_machine book_step ops (book_new t n)"
    and "list_all (\<lambda>x. \<not> is_bbo x) ops \<or> list_all (\<lambda>x. \<not> is_level x) ops"
  shows "lb_bestBidIdx b = scan_down (lb_bidLevels b) (length (lb_bidLevels b))
    \<and> lb_bestAskIdx b = scan_up (lb_askLevels b) 0"
proof -
  have "book_exact b"
    using assms(4)
  proof
    assume "list_all (\<lambda>x. \<not> is_bbo x) ops"
    then show ?thesis unfolding assms(3) by (rule levels.run) (rule book_new_exact [OF assms(1,2)])
  next
    assume "list_all (\<lambda>x. \<not> is_level x) ops"
    then have "book_single b"
      unfolding assms(3) by (rule bbos.run) (rule book_new_exact [OF assms(1,2)])
    then show ?thesis
      using only_level_exact by (simp add: book_single_def book_exact_def)
  qed
  then show ?thesis by (simp add: book_exact_def best_bid_ok_def best_ask_ok_def)
qed

definition level_demo :: "book_op list" where
  "level_demo = [BkBid (Fin 100) (Fin 1), BkBid (Fin 101) (Fin 2), BkAsk (Fin 102) (Fin 1),
     BkBid (Fin 101) (Fin 0)]"

lemma l2_best_levels_exact_witness:
  "lb_bestBidIdx (run_machine book_step level_demo (book_new (Fin 1) 16)) = 8
   \<and> scan_down (lb_bidLevels (run_machine book_step level_demo (book_new (Fin 1) 16)))
       (length (lb_bidLevels (run_machine book_step level_demo (book_new (Fin 1) 16)))) = 8"
proof -
  have "lb_bestBidIdx (run_machine book_step level_demo (book_new (Fin 1) 16)) = 8" by code_simp
  moreover have "list_all (\<lambda>x. \<not> is_bbo x) level_demo" by (simp add: level_demo_def)
  ultimately show ?thesis using l2_best_levels_exact [of 16 _ level_demo "Fin 1", OF _ _ refl] by simp
qed

text \<open>Whatever updates a book has seen, a valid best quote shows a positive quantity on both
  sides.\<close>

theorem l2_quote_has_quantity:
  assumes "0 < n" and "n < 2 ^ 63" and "b = run_machine book_step ops (book_new t n)"
    and "bq_valid (bbo b)"
  shows "fp_less (Fin 0) (bq_bidSize (bbo b)) \<and> fp_less (Fin 0) (bq_askSize (bbo b))"
proof -
  have "list_all (\<lambda>_. True) ops" by (simp add: list_all_iff)
  then have "book_live b"
    unfolding assms(3) by (rule live.run) (rule book_new_exact [OF assms(1,2)])
  with assms(4) show ?thesis
    by (auto simp: book_live_def side_live_def bbo_def best_quote_default_def Let_def split: if_splits)
qed

lemma l2_quote_has_quantity_witness:
  "bq_bidSize (bbo (run_machine book_step level_demo (book_new (Fin 1) 16))) = Fin 1
   \<and> fp_less (Fin 0) (bq_askSize (bbo (run_machine book_step level_demo (book_new (Fin 1) 16))))"
proof -
  have "bq_bidSize (bbo (run_machine book_step level_demo (book_new (Fin 1) 16))) = Fin 1"
    "bq_valid (bbo (run_machine book_step level_demo (book_new (Fin 1) 16)))" by code_simp+
  then show ?thesis using l2_quote_has_quantity [of 16 _ level_demo "Fin 1", OF _ _ refl] by simp
qed

text \<open>Mixing the two kinds of update can hide the best level: after a BBO at 100, a level of 2 at
  99.5 and a BBO at 99, the book quotes 99 although the level at 99.5 still holds quantity.\<close>

theorem l2_mixed_updates_hide_best:
  "(let b = run_machine book_step
        [BkBbo (Fin 100) (Fin 1) (Fin 101) (Fin 1), BkBid (Fin (199 / 2)) (Fin 2),
         BkBbo (Fin 99) (Fin 1) (Fin 101) (Fin 1)] (book_new (Fin (1 / 2)) 16)
    in bq_bidPrice (bbo b) = Fin 99 \<and> lb_bidLevels b ! toIndex (Fin (199 / 2)) b = Fin 2
       \<and> toPrice (toIndex (Fin (199 / 2)) b) b = Fin (199 / 2))"
  by code_simp

lemma tick_positive: "\<not> fp_le (lb_tickSize (book_new t n)) (Fin 0)"
proof -
  have "fp_less (Fin 0) (fp_round binary64 (1 / 100))" by code_simp
  moreover have "fp_less (Fin 0) x \<Longrightarrow> \<not> fp_le x (Fin 0)" for x
    by (cases x) (auto simp: fp_le_def)
  ultimately show ?thesis by (auto simp: book_new_def)
qed

definition base_nan :: "l2book \<Rightarrow> bool" where
  "base_nan b \<longleftrightarrow> lb_basePrice b = NaN \<and> lb_initialized b"

lemma ensure_nan: "base_nan b \<Longrightarrow> ensureMappable p b = (b, \<not> fp_le p (Fin 0))"
proof -
  have "fp_sub binary64 p NaN = NaN" by (cases p) (simp_all add: fp_sub_def)
  then show "base_nan b \<Longrightarrow> ensureMappable p b = (b, \<not> fp_le p (Fin 0))"
    by (simp add: ensureMappable_def base_nan_def Let_def)
qed

lemma set_level_base:
  "base_nan (set_bid_level k q b) = base_nan b" "base_nan (set_ask_level k q b) = base_nan b"
  "base_nan (bbo_commit bp bq ap aq b) = base_nan b"
  by (simp_all add: base_nan_def set_bid_level_def set_ask_level_def bbo_commit_def Let_def
      bbo_best_bid_def bbo_best_ask_def refreshBestBidFrom_def refreshBestAskFrom_def)

lemma step_nan: "base_nan b \<Longrightarrow> (\<And>p. x \<noteq> BkReset p) \<Longrightarrow> base_nan (book_step x b)"
  by (cases x) (auto simp: applyBidLevel_def applyAskLevel_def applyBbo_def set_level_base
      ensure_nan)

lemma run_nan:
  "base_nan b \<Longrightarrow> (\<And>p. BkReset p \<notin> set ops) \<Longrightarrow> base_nan (run_machine book_step ops b)"
proof (induction ops arbitrary: b)
  case (Cons x ops)
  have "base_nan (book_step x b)" using Cons.prems by (intro step_nan) auto
  with Cons show ?case by simp
qed simp

text \<open>A NaN price passes the checks of an uninitialised book and becomes its base price; from then
  on no update moves the base, so both prices of every valid quote are NaN, until a reset.\<close>

theorem l2_nan_price_sticks:
  assumes "\<not> fp_less qty (Fin 0)" and "\<And>p. BkReset p \<notin> set ops"
    and "b = run_machine book_step ops (fst (applyBidLevel NaN qty (book_new t n)))"
  shows "lb_basePrice b = NaN
    \<and> (bq_valid (bbo b) \<longrightarrow> bq_bidPrice (bbo b) = NaN \<and> bq_askPrice (bbo b) = NaN)"
proof -
  have "base_nan (fst (applyBidLevel NaN qty (book_new t n)))"
  proof -
    have "ensureMappable NaN (book_new t n) = (recenter NaN (book_new t n), True)"
      by (simp add: ensureMappable_def fp_le_def book_new_def)
    moreover have "base_nan (recenter NaN (book_new t n))"
      using tick_positive [of t n] by (simp add: recenter_def fp_le_def [of NaN] base_nan_def)
    ultimately show ?thesis
      using assms(1) by (simp add: applyBidLevel_def fp_le_def [of NaN] set_level_base)
  qed
  then have "base_nan b" unfolding assms(3) using assms(2) by (rule run_nan)
  then show ?thesis
    by (auto simp: base_nan_def bbo_def best_quote_default_def toPrice_def Let_def)
qed

lemma l2_nan_price_sticks_witness:
  "bq_bidPrice (bbo (run_machine book_step [BkAsk (Fin 102) (Fin 1)] (fst (applyBidLevel NaN (Fin 1) (book_new (Fin 1) 16)))))
    = NaN"
proof -
  have "bq_valid (bbo (run_machine book_step [BkAsk (Fin 102) (Fin 1)] (fst (applyBidLevel NaN (Fin 1) (book_new (Fin 1) 16)))))"
    by code_simp
  moreover have "BkReset p \<notin> set [BkAsk (Fin 102) (Fin 1)]" for p by simp
  ultimately show ?thesis using l2_nan_price_sticks [of "Fin 1" "[BkAsk (Fin 102) (Fin 1)]" _ "Fin 1" 16, OF _ _ refl] by simp
qed

end
