(* ===== verification/TriggerOrders.thy ===== *)
theory TriggerOrders
  imports L2Book
begin

text \<open>
  Protective orders: include/TriggerOrderManager.hpp and src/TriggerOrderManager.cpp.  A fixed
  array of slots with a stack of free indices; evaluation reports the orders a quote triggers
  without removing them.
\<close>

subsection \<open>State\<close>

datatype trigger_order_type = TOT_StopLoss | TOT_Oco

datatype trigger_reason = TR_None | TR_StopTrigger | TR_TakeProfit

record trigger_fill_event =
  tfe_orderId :: u64
  tfe_symbol :: string
  tfe_orderType :: trigger_order_type
  tfe_triggerReason :: trigger_reason
  tfe_isBuy :: bool
  tfe_triggerPrice :: fp
  tfe_executionPrice :: fp
  tfe_quantity :: fp
  tfe_timestamp :: u64
  tfe_strategyId :: string

record order_slot =
  slt_inUse :: bool
  slt_orderId :: u64
  slt_symbol :: string
  slt_orderType :: trigger_order_type
  slt_isBuy :: bool
  slt_stopPrice :: fp
  slt_takeProfitPrice :: fp
  slt_quantity :: fp
  slt_placedTs :: u64
  slt_strategyId :: string

definition slot_empty :: order_slot where
  "slot_empty = \<lparr>slt_inUse = False, slt_orderId = 0, slt_symbol = [], slt_orderType = TOT_StopLoss,
     slt_isBuy = False, slt_stopPrice = Fin 0, slt_takeProfitPrice = Fin 0, slt_quantity = Fin 0,
     slt_placedTs = 0, slt_strategyId = []\<rparr>"

text \<open>The free indices, the back of the vector first.\<close>

record triggers =
  tm_slots :: "order_slot list"
  tm_freeIdx :: "nat list"
  tm_nextOrderId :: u64
  tm_activeCount :: nat

definition tm_new :: "nat \<Rightarrow> triggers" where
  "tm_new capacity = \<lparr>tm_slots = replicate capacity slot_empty, tm_freeIdx = [0..<capacity],
     tm_nextOrderId = 1, tm_activeCount = 0\<rparr>"

subsection \<open>Placing and cancelling\<close>

definition placeOrder ::
  "string \<Rightarrow> trigger_order_type \<Rightarrow> bool \<Rightarrow> fp \<Rightarrow> fp \<Rightarrow> fp \<Rightarrow> string \<Rightarrow> triggers \<Rightarrow> triggers \<times> u64" where
  "placeOrder symbol ty isBuy stopPrice takeProfitPrice quantity strategyId m =
     (if symbol = [] \<or> fp_le stopPrice (Fin 0) then (m, 0)
      else if ty = TOT_Oco \<and> fp_le takeProfitPrice (Fin 0) then (m, 0)
      else case tm_freeIdx m of
        [] \<Rightarrow> (m, 0)
      | idx # freeIdx \<Rightarrow>
          (m\<lparr>tm_freeIdx := freeIdx,
             tm_slots := (tm_slots m)[idx := (tm_slots m ! idx)
               \<lparr>slt_inUse := True, slt_orderId := tm_nextOrderId m, slt_symbol := symbol,
                slt_orderType := ty, slt_isBuy := isBuy, slt_stopPrice := stopPrice,
                slt_takeProfitPrice := takeProfitPrice, slt_quantity := quantity,
                slt_strategyId := strategyId\<rparr>],
             tm_nextOrderId := tm_nextOrderId m + 1, tm_activeCount := tm_activeCount m + 1\<rparr>,
           tm_nextOrderId m))"

definition placeStopLoss ::
  "string \<Rightarrow> bool \<Rightarrow> fp \<Rightarrow> fp \<Rightarrow> string \<Rightarrow> triggers \<Rightarrow> triggers \<times> u64" where
  "placeStopLoss symbol isBuy stopTriggerPrice quantity strategyId m =
     placeOrder symbol TOT_StopLoss isBuy stopTriggerPrice (Fin 0) quantity strategyId m"

definition placeOco ::
  "string \<Rightarrow> bool \<Rightarrow> fp \<Rightarrow> fp \<Rightarrow> fp \<Rightarrow> string \<Rightarrow> triggers \<Rightarrow> triggers \<times> u64" where
  "placeOco symbol isBuy stopTriggerPrice takeProfitPrice quantity strategyId m =
     placeOrder symbol TOT_Oco isBuy stopTriggerPrice takeProfitPrice quantity strategyId m"

definition releaseSlot :: "nat \<Rightarrow> triggers \<Rightarrow> triggers" where
  "releaseSlot idx m =
     (if length (tm_slots m) \<le> idx \<or> \<not> slt_inUse (tm_slots m ! idx) then m
      else m\<lparr>tm_slots := (tm_slots m)[idx := slot_empty], tm_freeIdx := idx # tm_freeIdx m,
             tm_activeCount := (if 0 < tm_activeCount m then tm_activeCount m - 1
                                else tm_activeCount m)\<rparr>)"

text \<open>The search of \<open>cancel\<close>: the first slot in use with the identifier.\<close>

fun find_slot :: "u64 \<Rightarrow> order_slot list \<Rightarrow> nat \<Rightarrow> nat option" where
  "find_slot orderId [] i = None"
| "find_slot orderId (slot # slots) i =
     (if \<not> slt_inUse slot \<or> slt_orderId slot \<noteq> orderId then find_slot orderId slots (i + 1)
      else Some i)"

definition tm_cancel :: "u64 \<Rightarrow> triggers \<Rightarrow> triggers \<times> bool" where
  "tm_cancel orderId m =
     (case find_slot orderId (tm_slots m) 0 of
        None \<Rightarrow> (m, False) | Some i \<Rightarrow> (releaseSlot i m, True))"

definition hasOrder :: "u64 \<Rightarrow> triggers \<Rightarrow> bool" where
  "hasOrder orderId m \<longleftrightarrow>
     list_ex (\<lambda>slot. slt_inUse slot \<and> slt_orderId slot = orderId) (tm_slots m)"

definition activeOrderCount :: "triggers \<Rightarrow> nat" where
  "activeOrderCount m = tm_activeCount m"

definition tm_capacity :: "triggers \<Rightarrow> nat" where
  "tm_capacity m = length (tm_slots m)"

subsection \<open>Evaluation\<close>

text \<open>The reason and the price of a trigger.\<close>

definition trigger_of :: "order_slot \<Rightarrow> best_quote \<Rightarrow> trigger_reason \<times> fp" where
  "trigger_of slot q =
     (case slt_orderType slot of
        TOT_StopLoss \<Rightarrow>
          if \<not> slt_isBuy slot
          then if fp_le (bq_bidPrice q) (slt_stopPrice slot)
               then (TR_StopTrigger, slt_stopPrice slot) else (TR_None, Fin 0)
          else if fp_le (slt_stopPrice slot) (bq_askPrice q)
               then (TR_StopTrigger, slt_stopPrice slot) else (TR_None, Fin 0)
      | TOT_Oco \<Rightarrow>
          if \<not> slt_isBuy slot
          then if fp_le (bq_bidPrice q) (slt_stopPrice slot)
               then (TR_StopTrigger, slt_stopPrice slot)
               else if fp_le (slt_takeProfitPrice slot) (bq_askPrice q)
               then (TR_TakeProfit, slt_takeProfitPrice slot) else (TR_None, Fin 0)
          else if fp_le (slt_stopPrice slot) (bq_askPrice q)
               then (TR_StopTrigger, slt_stopPrice slot)
               else if fp_le (bq_bidPrice q) (slt_takeProfitPrice slot)
               then (TR_TakeProfit, slt_takeProfitPrice slot) else (TR_None, Fin 0))"

definition fill_event :: "order_slot \<Rightarrow> best_quote \<Rightarrow> u64 \<Rightarrow> trigger_fill_event" where
  "fill_event slot q timestamp =
     \<lparr>tfe_orderId = slt_orderId slot, tfe_symbol = slt_symbol slot,
      tfe_orderType = slt_orderType slot, tfe_triggerReason = fst (trigger_of slot q),
      tfe_isBuy = slt_isBuy slot, tfe_triggerPrice = snd (trigger_of slot q),
      tfe_executionPrice = (if slt_isBuy slot then bq_askPrice q else bq_bidPrice q),
      tfe_quantity = slt_quantity slot, tfe_timestamp = timestamp,
      tfe_strategyId = slt_strategyId slot\<rparr>"

fun tm_evaluate_loop ::
  "string \<Rightarrow> best_quote \<Rightarrow> u64 \<Rightarrow> order_slot list \<Rightarrow> trigger_fill_event list" where
  "tm_evaluate_loop symbol q timestamp [] = []"
| "tm_evaluate_loop symbol q timestamp (slot # slots) =
     (if \<not> slt_inUse slot \<or> slt_symbol slot \<noteq> symbol \<or> fst (trigger_of slot q) = TR_None
      then tm_evaluate_loop symbol q timestamp slots
      else fill_event slot q timestamp # tm_evaluate_loop symbol q timestamp slots)"

text \<open>The events are appended to the caller's vector; the result is their number.\<close>

definition tm_evaluate ::
  "string \<Rightarrow> best_quote \<Rightarrow> u64 \<Rightarrow> triggers \<Rightarrow> trigger_fill_event list
   \<Rightarrow> trigger_fill_event list \<times> nat" where
  "tm_evaluate symbol q timestamp m outFills =
     (if \<not> bq_valid q then (outFills, 0)
      else let fills = tm_evaluate_loop symbol q timestamp (tm_slots m)
           in (outFills @ fills, length fills))"

end
