(* ===== verification/TriggerClaims.thy ===== *)
theory TriggerClaims
  imports TriggerOrders FloatProps
begin

text \<open>
  The slots with their free stack refine a finite map from identifiers to orders; what an
  evaluation reports; and an order with a NaN stop price.
\<close>

subsection \<open>The invariant\<close>

definition ids_of :: "order_slot list \<Rightarrow> u64 list" where
  "ids_of slots = map slt_orderId (filter slt_inUse slots)"

definition tm_inv :: "triggers \<Rightarrow> bool" where
  "tm_inv m \<longleftrightarrow>
     distinct (tm_freeIdx m)
     \<and> set (tm_freeIdx m) = {i. i < length (tm_slots m) \<and> \<not> slt_inUse (tm_slots m ! i)}
     \<and> (\<forall>s \<in> set (tm_slots m). \<not> slt_inUse s \<longrightarrow> s = slot_empty)
     \<and> tm_activeCount m = length (filter slt_inUse (tm_slots m))
     \<and> distinct (ids_of (tm_slots m)) \<and> (\<forall>i \<in> set (ids_of (tm_slots m)). i < tm_nextOrderId m)"

lemma split_at:
  assumes "i < length xs"
  shows "xs = take i xs @ xs ! i # drop (Suc i) xs"
    and "xs[i := x] = take i xs @ x # drop (Suc i) xs"
  by (rule id_take_nth_drop [OF assms], rule upd_conv_take_nth_drop [OF assms])

lemma filter_at:
  assumes "i < length xs"
  shows "filter P xs = filter P (take i xs) @ (if P (xs ! i) then [xs ! i] else []) @ filter P (drop (Suc i) xs)"
    and "filter P (xs[i := x]) = filter P (take i xs) @ (if P x then [x] else []) @ filter P (drop (Suc i) xs)"
proof -
  show "filter P xs = filter P (take i xs) @ (if P (xs ! i) then [xs ! i] else []) @ filter P (drop (Suc i) xs)"
    by (subst split_at(1) [OF assms], simp only: filter_append filter.simps split: if_split) simp
  show "filter P (xs[i := x]) = filter P (take i xs) @ (if P x then [x] else []) @ filter P (drop (Suc i) xs)"
    by (simp add: split_at(2) [OF assms])
qed

subsection \<open>The map of orders\<close>

definition tm_abs :: "triggers \<Rightarrow> u64 \<Rightarrow> order_slot option" where
  "tm_abs m = map_of (map (\<lambda>s. (slt_orderId s, s)) (filter slt_inUse (tm_slots m)))"

lemma dom_tm_abs: "dom (tm_abs m) = set (ids_of (tm_slots m))"
  by (simp add: tm_abs_def dom_map_of_conv_image_fst ids_of_def image_image)

lemma map_of_middle:
  assumes "distinct (map fst (xs @ (k, v) # ys))"
  shows "map_of (xs @ (k, v) # ys) = (map_of (xs @ ys))(k \<mapsto> v)"
    and "map_of (xs @ ys) = (map_of (xs @ (k, v) # ys))(k := None)"
proof -
  have "k \<notin> fst ` set xs" "k \<notin> fst ` set ys" using assms by auto
  then have "map_of xs k = None" "map_of ys k = None" by (simp_all add: map_of_eq_None_iff)
  then show "map_of (xs @ (k, v) # ys) = (map_of (xs @ ys))(k \<mapsto> v)"
    "map_of (xs @ ys) = (map_of (xs @ (k, v) # ys))(k := None)"
    by (auto simp: fun_eq_iff map_add_def split: option.splits)
qed

lemma find_slot_None:
  "find_slot orderId slots i = None \<longleftrightarrow> orderId \<notin> set (ids_of slots)"
  by (induction slots arbitrary: i) (auto simp: ids_of_def)

lemma find_slot_Some:
  "find_slot orderId slots i = Some k \<Longrightarrow>
     i \<le> k \<and> k - i < length slots \<and> slt_inUse (slots ! (k - i)) \<and> slt_orderId (slots ! (k - i)) = orderId"
proof (induction slots arbitrary: i)
  case (Cons s slots)
  show ?case
  proof (cases "\<not> slt_inUse s \<or> slt_orderId s \<noteq> orderId")
    case True
    with Cons.prems Cons.IH [of "Suc i"] have ih: "Suc i \<le> k \<and> k - Suc i < length slots
      \<and> slt_inUse (slots ! (k - Suc i)) \<and> slt_orderId (slots ! (k - Suc i)) = orderId" by simp
    then have "k - i = Suc (k - Suc i)" by linarith
    with ih show ?thesis by simp
  qed (use Cons.prems in auto)
qed simp

subsection \<open>The specification\<close>

text \<open>A map from identifiers to orders with the next identifier; placing fails when an argument is
  out of range or the capacity is reached.\<close>

datatype tm_op =
    TmPlace string trigger_order_type bool fp fp fp string
  | TmCancel u64

type_synonym tm_spec = "(u64 \<Rightarrow> order_slot option) \<times> u64"

fun tm_step :: "tm_op \<Rightarrow> triggers \<Rightarrow> triggers" where
  "tm_step (TmPlace symbol ty buy stop tp q sid) m = fst (placeOrder symbol ty buy stop tp q sid m)"
| "tm_step (TmCancel i) m = fst (tm_cancel i m)"

definition placed_slot ::
  "string \<Rightarrow> trigger_order_type \<Rightarrow> bool \<Rightarrow> fp \<Rightarrow> fp \<Rightarrow> fp \<Rightarrow> string \<Rightarrow> u64 \<Rightarrow> order_slot" where
  "placed_slot symbol ty buy stop tp q sid i =
     \<lparr>slt_inUse = True, slt_orderId = i, slt_symbol = symbol, slt_orderType = ty, slt_isBuy = buy,
      slt_stopPrice = stop, slt_takeProfitPrice = tp, slt_quantity = q, slt_placedTs = 0,
      slt_strategyId = sid\<rparr>"

definition place_refused :: "string \<Rightarrow> trigger_order_type \<Rightarrow> fp \<Rightarrow> fp \<Rightarrow> bool" where
  "place_refused symbol ty stop tp \<longleftrightarrow>
     symbol = [] \<or> fp_le stop (Fin 0) \<or> (ty = TOT_Oco \<and> fp_le tp (Fin 0))"

fun spec_step :: "nat \<Rightarrow> tm_op \<Rightarrow> tm_spec \<Rightarrow> tm_spec" where
  "spec_step cap (TmPlace symbol ty buy stop tp q sid) (M, n) =
     (if place_refused symbol ty stop tp \<or> card (dom M) = cap then (M, n)
      else (M(n \<mapsto> placed_slot symbol ty buy stop tp q sid n), n + 1))"
| "spec_step cap (TmCancel i) (M, n) = (M(i := None), n)"

lemma active_card:
  "tm_inv m \<Longrightarrow> tm_activeCount m = card (dom (tm_abs m))"
  unfolding dom_tm_abs tm_inv_def by (metis distinct_card ids_of_def length_map)

lemma free_full: "tm_inv m \<Longrightarrow> tm_freeIdx m = [] \<longleftrightarrow> tm_activeCount m = length (tm_slots m)"
proof -
  assume i: "tm_inv m"
  have "tm_freeIdx m = [] \<longleftrightarrow> (\<forall>s \<in> set (tm_slots m). slt_inUse s)"
    using i unfolding tm_inv_def by (metis (mono_tags, lifting) Collect_empty_eq all_set_conv_all_nth set_empty)
  also have "\<dots> \<longleftrightarrow> length (filter slt_inUse (tm_slots m)) = length (tm_slots m)"
    by (metis filter_id_conv filter_True length_filter_less nat_less_le)
  finally show ?thesis using i by (simp add: tm_inv_def)
qed

lemma place_cases:
  "placeOrder symbol ty buy stop tp q sid m =
     (if place_refused symbol ty stop tp then (m, 0)
      else case tm_freeIdx m of [] \<Rightarrow> (m, 0)
        | idx # freeIdx \<Rightarrow>
          (m\<lparr>tm_freeIdx := freeIdx, tm_slots := (tm_slots m)[idx := (tm_slots m ! idx)
               \<lparr>slt_inUse := True, slt_orderId := tm_nextOrderId m, slt_symbol := symbol,
                slt_orderType := ty, slt_isBuy := buy, slt_stopPrice := stop,
                slt_takeProfitPrice := tp, slt_quantity := q, slt_strategyId := sid\<rparr>],
             tm_nextOrderId := tm_nextOrderId m + 1, tm_activeCount := tm_activeCount m + 1\<rparr>,
           tm_nextOrderId m))"
  by (auto simp: placeOrder_def place_refused_def)

lemma place_step:
  fixes buy :: bool and q :: fp and sid :: string
  assumes i: "tm_inv m" and n: "tm_nextOrderId m < tm_nextOrderId m + 1"
    and ok: "\<not> place_refused symbol ty stop tp" and free: "tm_freeIdx m = idx # free"
  defines "m' \<equiv> fst (placeOrder symbol ty buy stop tp q sid m)"
  shows "tm_inv m'"
    and "tm_abs m' = (tm_abs m)(tm_nextOrderId m \<mapsto> placed_slot symbol ty buy stop tp q sid (tm_nextOrderId m))"
    and "tm_nextOrderId m' = tm_nextOrderId m + 1" and "length (tm_slots m') = length (tm_slots m)"
proof -
  note i' = i [unfolded tm_inv_def]
  have idx: "idx < length (tm_slots m)" "\<not> slt_inUse (tm_slots m ! idx)" using i' free by auto
  then have "tm_slots m ! idx = slot_empty" using i' by simp
  then have m': "m' = m\<lparr>tm_freeIdx := free,
      tm_slots := (tm_slots m)[idx := placed_slot symbol ty buy stop tp q sid (tm_nextOrderId m)],
      tm_nextOrderId := tm_nextOrderId m + 1, tm_activeCount := tm_activeCount m + 1\<rparr>"
    using ok by (simp add: m'_def place_cases free placed_slot_def slot_empty_def)
  let ?s = "placed_slot symbol ty buy stop tp q sid (tm_nextOrderId m)"
  let ?l = "filter slt_inUse (take idx (tm_slots m))" and ?r = "filter slt_inUse (drop (Suc idx) (tm_slots m))"
  have f: "filter slt_inUse (tm_slots m) = ?l @ ?r"
    "filter slt_inUse (tm_slots m') = ?l @ ?s # ?r"
    using filter_at [OF idx(1), of slt_inUse] idx by (simp_all add: m' placed_slot_def)
  have fresh: "tm_nextOrderId m \<notin> set (ids_of (tm_slots m))" using i' by auto
  have ids: "ids_of (tm_slots m') = map slt_orderId ?l @ tm_nextOrderId m # map slt_orderId ?r"
    "ids_of (tm_slots m) = map slt_orderId ?l @ map slt_orderId ?r"
    by (simp_all add: ids_of_def f placed_slot_def)
  have d: "distinct (ids_of (tm_slots m'))" using i' fresh unfolding ids by auto
  have lt: "\<forall>j \<in> set (ids_of (tm_slots m')). j < tm_nextOrderId m'"
  proof
    fix j assume "j \<in> set (ids_of (tm_slots m'))"
    then have "j = tm_nextOrderId m \<or> j \<in> set (ids_of (tm_slots m))" by (auto simp: ids)
    then have "j \<le> tm_nextOrderId m" using i' by auto
    then show "j < tm_nextOrderId m'" using n by (simp add: m')
  qed
  have "\<forall>s \<in> set (tm_slots m'). \<not> slt_inUse s \<longrightarrow> s = slot_empty"
    using i' set_update_subset_insert [of "tm_slots m" idx ?s] by (auto simp: m' placed_slot_def)
  moreover have "set (tm_freeIdx m') = {j. j < length (tm_slots m') \<and> \<not> slt_inUse (tm_slots m' ! j)}"
  proof -
    have "distinct (idx # free)"
      "set (idx # free) = {j. j < length (tm_slots m) \<and> \<not> slt_inUse (tm_slots m ! j)}"
      using i' free by simp_all
    then have "set free = {j. j < length (tm_slots m) \<and> \<not> slt_inUse (tm_slots m ! j)} - {idx}"
      by auto
    moreover have "slt_inUse ?s" by (simp add: placed_slot_def)
    then have "slt_inUse ((tm_slots m)[idx := ?s] ! j) \<longleftrightarrow> j = idx \<or> slt_inUse (tm_slots m ! j)" for j
      using idx(1) by (cases "j = idx") simp_all
    ultimately show ?thesis by (auto simp: m')
  qed
  ultimately show "tm_inv m'"
    using i' free d lt f by (simp add: tm_inv_def) (simp add: m')
  show "tm_abs m' = (tm_abs m)(tm_nextOrderId m \<mapsto> ?s)"
    using d unfolding tm_abs_def f ids
    by (subst map_append, subst list.map(2), subst map_of_middle(1))
      (auto simp: comp_def placed_slot_def)
  show "tm_nextOrderId m' = tm_nextOrderId m + 1" "length (tm_slots m') = length (tm_slots m)"
    by (simp_all add: m')
qed

lemma tm_cancel_step:
  fixes k :: u64
  assumes i: "tm_inv m"
  defines "m' \<equiv> fst (tm_cancel k m)"
  shows "tm_inv m'" and "tm_abs m' = (tm_abs m)(k := None)"
    and "tm_nextOrderId m' = tm_nextOrderId m" and "length (tm_slots m') = length (tm_slots m)"
    and "snd (tm_cancel k m) \<longleftrightarrow> k \<in> dom (tm_abs m)"
proof -
  note i' = i [unfolded tm_inv_def]
  have "tm_inv m' \<and> tm_abs m' = (tm_abs m)(k := None) \<and> tm_nextOrderId m' = tm_nextOrderId m
    \<and> length (tm_slots m') = length (tm_slots m) \<and> (snd (tm_cancel k m) \<longleftrightarrow> k \<in> dom (tm_abs m))"
  proof (cases "find_slot k (tm_slots m) 0")
    case None
    then have "k \<notin> dom (tm_abs m)" by (simp add: find_slot_None dom_tm_abs)
    with None i show ?thesis by (auto simp: m'_def tm_cancel_def fun_eq_iff)
  next
    case (Some j)
    from find_slot_Some [OF this] have j: "j < length (tm_slots m)" "slt_inUse (tm_slots m ! j)"
      "slt_orderId (tm_slots m ! j) = k" by simp_all
    let ?l = "filter slt_inUse (take j (tm_slots m))" and ?r = "filter slt_inUse (drop (Suc j) (tm_slots m))"
    have act: "0 < tm_activeCount m"
      using i' j by (auto simp: filter_empty_conv intro!: Nat.gr0I)
    have m': "m' = m\<lparr>tm_slots := (tm_slots m)[j := slot_empty], tm_freeIdx := j # tm_freeIdx m,
        tm_activeCount := tm_activeCount m - 1\<rparr>"
      using Some j act by (simp add: m'_def tm_cancel_def releaseSlot_def)
    have f: "filter slt_inUse (tm_slots m) = ?l @ tm_slots m ! j # ?r"
      "filter slt_inUse (tm_slots m') = ?l @ ?r"
      using filter_at [OF j(1), of slt_inUse] j by (simp_all add: m' slot_empty_def)
    have ids: "ids_of (tm_slots m) = map slt_orderId ?l @ k # map slt_orderId ?r"
      "ids_of (tm_slots m') = map slt_orderId ?l @ map slt_orderId ?r"
      by (simp_all add: ids_of_def f j)
    have "\<forall>s \<in> set (tm_slots m'). \<not> slt_inUse s \<longrightarrow> s = slot_empty"
      using i' set_update_subset_insert [of "tm_slots m" j slot_empty] by (auto simp: m')
    moreover have "set (tm_freeIdx m') = {x. x < length (tm_slots m') \<and> \<not> slt_inUse (tm_slots m' ! x)}"
      using i' j by (auto simp: m' nth_list_update slot_empty_def)
    moreover have "distinct (tm_freeIdx m')" using i' j by (simp add: m')
    moreover have "distinct (ids_of (tm_slots m'))"
      "\<forall>x \<in> set (ids_of (tm_slots m')). x < tm_nextOrderId m'"
      using i' by (auto simp: ids) (simp_all add: m')
    moreover have "tm_activeCount m' = length (filter slt_inUse (tm_slots m'))"
      using i' f by (simp add: m')
    ultimately have inv: "tm_inv m'" by (simp add: tm_inv_def)
    have "distinct (map fst (map (\<lambda>s. (slt_orderId s, s)) ?l @ (k, tm_slots m ! j) # map (\<lambda>s. (slt_orderId s, s)) ?r))"
      using i' by (simp add: ids comp_def)
    from map_of_middle(2) [OF this] have "tm_abs m' = (tm_abs m)(k := None)"
      by (simp add: tm_abs_def f j)
    moreover have "k \<in> dom (tm_abs m)" by (simp add: dom_tm_abs ids)
    ultimately show ?thesis using inv Some by (simp add: m' tm_cancel_def)
  qed
  then show "tm_inv m'" "tm_abs m' = (tm_abs m)(k := None)"
    "tm_nextOrderId m' = tm_nextOrderId m" "length (tm_slots m') = length (tm_slots m)"
    "snd (tm_cancel k m) \<longleftrightarrow> k \<in> dom (tm_abs m)" by blast+
qed

lemma place_rejected:
  assumes "place_refused symbol ty stop tp \<or> tm_freeIdx m = []"
  shows "placeOrder symbol ty buy stop tp q sid m = (m, 0)"
  using assms by (auto simp: place_cases)

text \<open>One operation, and a run of them, below the wrap-around of the identifiers.\<close>

definition tm_ref :: "nat \<Rightarrow> triggers \<Rightarrow> tm_spec \<Rightarrow> bool" where
  "tm_ref cap m s \<longleftrightarrow> tm_inv m \<and> length (tm_slots m) = cap \<and> tm_abs m = fst s \<and> tm_nextOrderId m = snd s"

lemma tm_ref_step:
  assumes "tm_ref cap m s" and n: "unat (tm_nextOrderId m) < 2 ^ 64 - 1"
  shows "tm_ref cap (tm_step x m) (spec_step cap x s)
    \<and> unat (tm_nextOrderId (tm_step x m)) \<le> Suc (unat (tm_nextOrderId m))"
proof -
  have i: "tm_inv m" and l: "length (tm_slots m) = cap"
    and s: "s = (tm_abs m, tm_nextOrderId m)" using assms(1) by (cases s; simp add: tm_ref_def)+
  show ?thesis
  proof (cases x)
    case (TmPlace symbol ty buy stop tp q sid)
    have full: "tm_freeIdx m = [] \<longleftrightarrow> card (dom (tm_abs m)) = cap"
      using free_full [OF i] active_card [OF i] l by simp
    have "1 + tm_nextOrderId m \<noteq> 0"
    proof
      assume "1 + tm_nextOrderId m = 0"
      then have "tm_nextOrderId m = - 1" by (simp add: add_eq_0_iff)
      moreover have "unat (- 1 :: u64) = 18446744073709551615"
        by (transfer, simp add: mask_eq_exp_minus_1)
      ultimately show False using n by simp
    qed
    from unatSuc [OF this] have u: "unat (tm_nextOrderId m + 1) = Suc (unat (tm_nextOrderId m))"
      by (simp add: add.commute)
    then have lt: "tm_nextOrderId m < tm_nextOrderId m + 1" by (simp add: word_less_nat_alt)
    show ?thesis
    proof (cases "place_refused symbol ty stop tp \<or> tm_freeIdx m = []")
      case True
      with full assms(1) show ?thesis
        by (simp add: TmPlace place_rejected [OF True] s tm_ref_def)
    next
      case False
      then obtain idx free where f: "tm_freeIdx m = idx # free" "\<not> place_refused symbol ty stop tp"
        by (cases "tm_freeIdx m") auto
      with full have nf: "card (dom (tm_abs m)) \<noteq> cap" by simp
      from place_step [OF i lt f(2,1), of buy q sid] nf f(2) l u show ?thesis
        by (simp add: TmPlace s tm_ref_def)
    qed
  next
    case (TmCancel k)
    from tm_cancel_step [OF i, of k] l show ?thesis by (simp add: TmCancel s tm_ref_def)
  qed
qed

lemma tm_ref_run:
  assumes "tm_ref cap m s" and "unat (tm_nextOrderId m) + length xs < 2 ^ 64"
  shows "tm_ref cap (run_machine tm_step xs m) (run_machine (spec_step cap) xs s)"
  using assms
proof (induction xs arbitrary: m s)
  case (Cons x xs)
  have "unat (tm_nextOrderId m) < 2 ^ 64 - 1" using Cons.prems(2) by simp
  from tm_ref_step [OF Cons.prems(1) this, of x] Cons.prems(2)
  have "tm_ref cap (tm_step x m) (spec_step cap x s)"
    "unat (tm_nextOrderId (tm_step x m)) + length xs < 2 ^ 64" by auto
  from Cons.IH [OF this] show ?case by simp
qed simp

lemma tm_ref_new: "tm_ref cap (tm_new cap) (Map.empty, 1)"
  by (auto simp: tm_ref_def tm_inv_def tm_new_def tm_abs_def ids_of_def slot_empty_def)

subsection \<open>Evaluation\<close>

lemma evaluate_loop_set:
  "set (tm_evaluate_loop symbol q ts slots) =
     (\<lambda>s. fill_event s q ts) ` {s \<in> set slots. slt_inUse s \<and> slt_symbol s = symbol
        \<and> fst (trigger_of s q) \<noteq> TR_None}"
  by (induction slots) auto

lemma tm_evaluate_loop_ids:
  "map tfe_orderId (tm_evaluate_loop symbol q ts slots) =
     map slt_orderId (filter (\<lambda>s. slt_inUse s \<and> slt_symbol s = symbol
        \<and> fst (trigger_of s q) \<noteq> TR_None) slots)"
  by (induction slots) (auto simp: fill_event_def)

subsection \<open>Properties\<close>

text \<open>C19. After any sequence of fewer than 2^64 - 1 placements and cancellations the manager holds
  exactly the orders of the specification: a finite map bounded by the capacity, with every
  identifier given out once.  It reports an order as present, and the number of active orders,
  as the map does.\<close>

theorem triggers_refine_map:
  assumes "length ops < 2 ^ 64 - 1"
    and "m = run_machine tm_step ops (tm_new cap)"
    and "s = run_machine (spec_step cap) ops (Map.empty, 1)"
  shows "tm_abs m = fst s \<and> (hasOrder i m \<longleftrightarrow> i \<in> dom (fst s))
    \<and> (snd (tm_cancel i m) \<longleftrightarrow> i \<in> dom (fst s))
    \<and> activeOrderCount m = card (dom (fst s)) \<and> activeOrderCount m \<le> cap"
proof -
  have "tm_ref cap m s"
    unfolding assms(2,3) using assms(1) by (intro tm_ref_run tm_ref_new) (simp add: tm_new_def)
  then have r: "tm_inv m" "tm_abs m = fst s" "length (tm_slots m) = cap" by (simp_all add: tm_ref_def)
  have "activeOrderCount m \<le> cap"
    using r(1,3) length_filter_le [of slt_inUse "tm_slots m"] by (simp add: tm_inv_def activeOrderCount_def)
  moreover have "hasOrder i m \<longleftrightarrow> i \<in> dom (tm_abs m)"
    by (auto simp: hasOrder_def dom_tm_abs ids_of_def list_ex_iff)
  ultimately show ?thesis
    using r tm_cancel_step(5) [OF r(1)] active_card [OF r(1)] by (simp add: activeOrderCount_def)
qed

definition trigger_demo :: "tm_op list" where
  "trigger_demo = [TmPlace ''EUR'' TOT_Oco False (Fin 90) (Fin 110) (Fin 1) [],
     TmPlace ''EUR'' TOT_StopLoss False (Fin 80) (Fin 0) (Fin 1) [], TmCancel 1]"

lemma triggers_refine_map_witness:
  "2 \<in> dom (fst (run_machine (spec_step 2) trigger_demo (Map.empty, 1)))
   \<and> hasOrder 2 (run_machine tm_step trigger_demo (tm_new 2))"
proof -
  have "hasOrder 2 (run_machine tm_step trigger_demo (tm_new 2))" by code_simp
  moreover have "length trigger_demo < 2 ^ 64 - 1" by (simp add: trigger_demo_def)
  ultimately show ?thesis using triggers_refine_map [OF _ refl refl, of trigger_demo 2 2] by blast
qed

text \<open>What an order waits for, written from its own prices: a sale's stop for a bid at or below it,
  a purchase's stop for an ask at or above it; the take-profit of an OCO sale for an ask at or
  above it, of an OCO purchase for a bid at or below it.  The stop comes first, and the price of
  the fill is the bid of a sale and the ask of a purchase.\<close>

definition stop_hit :: "order_slot \<Rightarrow> best_quote \<Rightarrow> bool" where
  "stop_hit o' q \<longleftrightarrow>
     (slt_isBuy o' \<longrightarrow> fp_le (slt_stopPrice o') (bq_askPrice q))
     \<and> (\<not> slt_isBuy o' \<longrightarrow> fp_le (bq_bidPrice q) (slt_stopPrice o'))"

definition profit_hit :: "order_slot \<Rightarrow> best_quote \<Rightarrow> bool" where
  "profit_hit o' q \<longleftrightarrow> slt_orderType o' = TOT_Oco
     \<and> (slt_isBuy o' \<longrightarrow> fp_le (bq_bidPrice q) (slt_takeProfitPrice o'))
     \<and> (\<not> slt_isBuy o' \<longrightarrow> fp_le (slt_takeProfitPrice o') (bq_askPrice q))"

definition reported :: "order_slot \<Rightarrow> best_quote \<Rightarrow> u64 \<Rightarrow> trigger_fill_event" where
  "reported o' q ts =
     \<lparr>tfe_orderId = slt_orderId o', tfe_symbol = slt_symbol o', tfe_orderType = slt_orderType o',
      tfe_triggerReason = (if stop_hit o' q then TR_StopTrigger else TR_TakeProfit),
      tfe_isBuy = slt_isBuy o',
      tfe_triggerPrice = (if stop_hit o' q then slt_stopPrice o' else slt_takeProfitPrice o'),
      tfe_executionPrice = (if slt_isBuy o' then bq_askPrice q else bq_bidPrice q),
      tfe_quantity = slt_quantity o', tfe_timestamp = ts, tfe_strategyId = slt_strategyId o'\<rparr>"

lemma trigger_of_eq:
  "trigger_of o' q = (if stop_hit o' q then (TR_StopTrigger, slt_stopPrice o')
     else if profit_hit o' q then (TR_TakeProfit, slt_takeProfitPrice o') else (TR_None, Fin 0))"
  by (cases "slt_orderType o'"; cases "slt_isBuy o'")
    (simp_all add: trigger_of_def stop_hit_def profit_hit_def)

lemma trigger_of_hits: "fst (trigger_of o' q) \<noteq> TR_None \<longleftrightarrow> stop_hit o' q \<or> profit_hit o' q"
  by (simp add: trigger_of_eq)

lemma fill_event_reported: "stop_hit o' q \<or> profit_hit o' q \<Longrightarrow> fill_event o' q ts = reported o' q ts"
  by (cases "stop_hit o' q") (simp_all add: fill_event_def reported_def trigger_of_eq)

text \<open>C20. An evaluation after such a sequence appends one event for each order of the specification
  that is for the symbol and whose stop or take-profit the quote reaches, each order once, with
  the stop before the take-profit and the fill priced at the bid of a sale or the ask of a
  purchase; it returns their number, and reports nothing for an invalid quote.\<close>

theorem trigger_evaluation_exact:
  assumes "length ops < 2 ^ 64 - 1"
    and "m = run_machine tm_step ops (tm_new cap)"
    and "s = run_machine (spec_step cap) ops (Map.empty, 1)"
    and "tm_evaluate symbol q ts m outFills = (fills, count)"
  shows "\<exists>new. fills = outFills @ new \<and> count = length new \<and> distinct (map tfe_orderId new)
    \<and> set new = (if bq_valid q
        then {reported o' q ts | i o'. fst s i = Some o' \<and> slt_symbol o' = symbol
              \<and> (stop_hit o' q \<or> profit_hit o' q)}
        else {})"
proof -
  have "tm_ref cap m s"
    unfolding assms(2,3) using assms(1) by (intro tm_ref_run tm_ref_new) (simp add: tm_new_def)
  then have r: "tm_inv m" "tm_abs m = fst s" by (simp_all add: tm_ref_def)
  have d: "distinct (map slt_orderId (filter slt_inUse (tm_slots m)))"
    using r(1) by (simp add: tm_inv_def ids_of_def)
  have "filter (\<lambda>s. slt_inUse s \<and> slt_symbol s = symbol \<and> fst (trigger_of s q) \<noteq> TR_None) (tm_slots m)
      = filter (\<lambda>s. slt_symbol s = symbol \<and> fst (trigger_of s q) \<noteq> TR_None) (filter slt_inUse (tm_slots m))"
    by simp
  then have "distinct (map tfe_orderId (tm_evaluate_loop symbol q ts (tm_slots m)))"
    unfolding tm_evaluate_loop_ids by (simp only: distinct_map_filter [OF d])
  moreover have "fst s i = Some o' \<longleftrightarrow> o' \<in> set (tm_slots m) \<and> slt_inUse o' \<and> slt_orderId o' = i" for i o'
  proof -
    have "distinct (map fst (map (\<lambda>s. (slt_orderId s, s)) (filter slt_inUse (tm_slots m))))"
      using d by (simp add: comp_def)
    from map_of_eq_Some_iff [OF this, of i o'] show ?thesis by (auto simp: r(2) [symmetric] tm_abs_def)
  qed
  then have "set (tm_evaluate_loop symbol q ts (tm_slots m)) =
      {reported o' q ts | i o'. fst s i = Some o' \<and> slt_symbol o' = symbol
        \<and> (stop_hit o' q \<or> profit_hit o' q)}"
    unfolding evaluate_loop_set trigger_of_hits using fill_event_reported
    by (auto simp: image_def)
  moreover have "(fills, count) = (if bq_valid q
      then (outFills @ tm_evaluate_loop symbol q ts (tm_slots m), length (tm_evaluate_loop symbol q ts (tm_slots m)))
      else (outFills, 0))"
    using assms(4) by (auto simp: tm_evaluate_def Let_def split: if_splits)
  ultimately show ?thesis by (cases "bq_valid q") simp_all
qed

lemma trigger_evaluation_exact_witness:
  "\<exists>new. tm_evaluate ''EUR'' \<lparr>bq_valid = True, bq_bidPrice = Fin 79, bq_bidSize = Fin 1,
       bq_askPrice = Fin 81, bq_askSize = Fin 1\<rparr> 7 (run_machine tm_step trigger_demo (tm_new 2)) []
     = (new, length new) \<and> distinct (map tfe_orderId new)"
proof -
  have "length trigger_demo < 2 ^ 64 - 1" by (simp add: trigger_demo_def)
  from trigger_evaluation_exact [where cap = 2 and symbol = "''EUR''" and ts = 7 and outFills = "[]"
      and q = "\<lparr>bq_valid = True, bq_bidPrice = Fin 79, bq_bidSize = Fin 1, bq_askPrice = Fin 81,
        bq_askSize = Fin 1\<rparr>", OF this refl refl prod.collapse [symmetric]]
  obtain new where "fst (tm_evaluate ''EUR'' \<lparr>bq_valid = True, bq_bidPrice = Fin 79,
        bq_bidSize = Fin 1, bq_askPrice = Fin 81, bq_askSize = Fin 1\<rparr> 7
        (run_machine tm_step trigger_demo (tm_new 2)) []) = [] @ new"
    "snd (tm_evaluate ''EUR'' \<lparr>bq_valid = True, bq_bidPrice = Fin 79,
        bq_bidSize = Fin 1, bq_askPrice = Fin 81, bq_askSize = Fin 1\<rparr> 7
        (run_machine tm_step trigger_demo (tm_new 2)) []) = length new"
    "distinct (map tfe_orderId new)" by blast
  then show ?thesis by (intro exI [of _ new]) (simp only: append_Nil prod_eq_iff fst_conv snd_conv)
qed

text \<open>A stop price that is NaN is accepted, and no quote ever triggers it.\<close>

theorem trigger_nan_stop_never_fires:
  "snd (placeStopLoss (CHR 0x45 # symbol) isBuy NaN qty sid (tm_new (Suc n))) = 1
   \<and> tm_evaluate (CHR 0x45 # symbol) q ts
       (fst (placeStopLoss (CHR 0x45 # symbol) isBuy NaN qty sid (tm_new (Suc n)))) [] = ([], 0)"
proof -
  have cmp: "fp_le a NaN = False" "fp_le NaN a = False" for a by (cases a; simp add: fp_le_def)+
  have empty: "tm_evaluate_loop symbol q ts (replicate k slot_empty) = []" for symbol k
    by (induction k) (simp_all add: slot_empty_def)
  have upt: "[0..<Suc n] = 0 # [1..<Suc n]" by (simp add: upt_conv_Cons del: upt_Suc)
  have "snd (placeStopLoss (CHR 0x45 # symbol) isBuy NaN qty sid (tm_new (Suc n))) = 1"
    by (simp add: placeStopLoss_def placeOrder_def cmp tm_new_def upt del: upt_Suc)
  moreover have "tm_slots (fst (placeStopLoss (CHR 0x45 # symbol) isBuy NaN qty sid (tm_new (Suc n))))
      = slot_empty\<lparr>slt_inUse := True, slt_orderId := 1, slt_symbol := CHR 0x45 # symbol,
          slt_orderType := TOT_StopLoss, slt_isBuy := isBuy, slt_stopPrice := NaN,
          slt_takeProfitPrice := Fin 0, slt_quantity := qty, slt_strategyId := sid\<rparr>
        # replicate n slot_empty"
    by (simp add: placeStopLoss_def placeOrder_def cmp tm_new_def upt del: upt_Suc)
  ultimately show ?thesis by (simp add: tm_evaluate_def trigger_of_def cmp empty)
qed

end
