(* ===== verification/FloatSqrt.thy ===== *)
theory FloatSqrt
  imports Floats FloatProps
begin

text \<open>
  \<open>std::sqrt\<close> on \<open>double\<close>: the square root of a rational rounded to nearest, computed on integers
  with an integer square root.
\<close>

function isqrt :: "int \<Rightarrow> int" where
  "isqrt n = (if n \<le> 0 then 0
     else let r = 2 * isqrt (n div 4) in if (r + 1) * (r + 1) \<le> n then r + 1 else r)"
  by pat_completeness auto

termination isqrt
  by (relation "measure nat") auto

declare isqrt.simps [simp del]

lemma isqrt_correct:
  "0 \<le> n \<Longrightarrow> 0 \<le> isqrt n \<and> isqrt n * isqrt n \<le> n \<and> n < (isqrt n + 1) * (isqrt n + 1)"
proof (induction n rule: isqrt.induct)
  case (1 n)
  show ?case
  proof (cases "n \<le> 0")
    case False
    let ?s = "isqrt (n div 4)"
    from "1.IH" [OF False] False
    have ih: "0 \<le> ?s" "?s * ?s \<le> n div 4" "n div 4 < (?s + 1) * (?s + 1)" by simp_all
    from ih(2) have lo: "4 * (?s * ?s) \<le> n" by linarith
    from ih(3) have "n div 4 + 1 \<le> (?s + 1) * (?s + 1)" by simp
    then have hi: "n < 4 * ((?s + 1) * (?s + 1))" by linarith
    have "isqrt n = (if (2 * ?s + 1) * (2 * ?s + 1) \<le> n then 2 * ?s + 1 else 2 * ?s)"
      using False by (simp add: isqrt.simps [of n] Let_def)
    with lo hi ih(1) show ?thesis by (auto simp: algebra_simps)
  qed (use 1 in \<open>simp add: isqrt.simps\<close>)
qed

text \<open>The exponent of the result's last place, and the root in units of it, rounded to nearest:
  \<open>m\<close> is the root truncated to units, and the square decides on which side of \<open>m + 1/2\<close> it is.\<close>

definition sqrt_exponent :: "fp_format \<Rightarrow> rat \<Rightarrow> int" where
  "sqrt_exponent F x = ilog2 x div 2 - int (fmt_prec F) + 1"

definition fl_sqrt :: "fp_format \<Rightarrow> rat \<Rightarrow> rat" where
  "fl_sqrt F x = (if x \<le> 0 then 0
     else let q = sqrt_exponent F x; y = x / 2 powi (2 * q);
              m = isqrt \<lfloor>y\<rfloor>; h = of_int m + 1 / 2
          in of_int (if y < h * h \<or> (y = h * h \<and> even m) then m else m + 1) * 2 powi q)"

fun fp_sqrt :: "fp_format \<Rightarrow> fp \<Rightarrow> fp" where
  "fp_sqrt F (Fin x) = (if x < 0 then NaN else Fin (fl_sqrt F x))"
| "fp_sqrt F (Infinite s) = (if s then NaN else Infinite False)"
| "fp_sqrt F NaN = NaN"

text \<open>The rounded root is within half a unit of the exact one.\<close>

lemma fl_sqrt_correct:
  fixes F :: fp_format
  assumes "0 < x"
  defines "q \<equiv> sqrt_exponent F x"
  obtains m where "fl_sqrt F x = of_int m * 2 powi q" and "0 \<le> m"
    and "(rat_of_int m - 1 / 2) * 2 powi q \<le> 0 \<or> ((of_int m - 1 / 2) * 2 powi q) ^ 2 \<le> x"
    and "x \<le> ((of_int m + 1 / 2) * 2 powi q) ^ 2"
proof -
  define y where "y = x / 2 powi (2 * q)"
  define k where "k = isqrt \<lfloor>y\<rfloor>"
  define h where "h = rat_of_int k + 1 / 2"
  define m where "m = (if y < h * h \<or> (y = h * h \<and> even k) then k else k + 1)"
  have y0: "0 \<le> y" using assms(1) by (simp add: y_def)
  then have "0 \<le> \<lfloor>y\<rfloor>" by simp
  from isqrt_correct [OF this] have k0: "0 \<le> k" and kk: "k * k \<le> \<lfloor>y\<rfloor>" "\<lfloor>y\<rfloor> < (k + 1) * (k + 1)"
    by (simp_all only: k_def)
  have lo: "of_int (k * k) \<le> y" by (rule iffD1 [OF le_floor_iff kk(1)])
  have hi: "y < of_int ((k + 1) * (k + 1))" by (rule iffD1 [OF floor_less_iff kk(2)])
  have x: "x = y * (2 powi q) ^ 2"
  proof -
    have "2 * q = q + q" by simp
    then have "(2 powi (2 * q) :: rat) = 2 powi q * 2 powi q" by (simp only: powi_add)
    then show ?thesis by (simp add: y_def power2_eq_square)
  qed
  have sq: "y \<le> (of_int m + 1 / 2) ^ 2"
  proof (cases "m = k")
    case True
    then have "y \<le> h * h" by (auto simp: m_def split: if_splits)
    with True show ?thesis by (simp add: h_def power2_eq_square)
  next
    case False
    then have m: "m = k + 1" by (auto simp: m_def split: if_splits)
    have "rat_of_int ((k + 1) * (k + 1)) \<le> (rat_of_int (k + 1) + 1 / 2) ^ 2"
      using k0 by (simp add: power2_eq_square algebra_simps)
    with hi m show ?thesis by simp
  qed
  have ge: "rat_of_int m - 1 / 2 \<le> 0 \<or> (of_int m - 1 / 2) ^ 2 \<le> y"
  proof (cases "m = k")
    case True
    have "(rat_of_int k - 1 / 2) ^ 2 \<le> of_int (k * k)" if "1 \<le> k"
      using that by (simp add: power2_eq_square algebra_simps)
    with lo True show ?thesis by (cases "1 \<le> k") (use k0 in \<open>auto intro: order_trans\<close>)
  next
    case False
    then have m: "m = k + 1" and "h * h \<le> y" by (auto simp: m_def split: if_splits)
    then show ?thesis by (simp add: h_def power2_eq_square add.commute)
  qed
  show ?thesis
  proof (rule that [of m])
    show "fl_sqrt F x = of_int m * 2 powi q"
      using assms(1) by (simp add: fl_sqrt_def Let_def m_def h_def k_def y_def q_def)
    show "0 \<le> m" using k0 by (simp add: m_def)
    show "x \<le> ((of_int m + 1 / 2) * 2 powi q) ^ 2"
      unfolding x power_mult_distrib using sq by (rule mult_right_mono) simp
    show "(rat_of_int m - 1 / 2) * 2 powi q \<le> 0 \<or> ((of_int m - 1 / 2) * 2 powi q) ^ 2 \<le> x"
      using ge
    proof
      assume "rat_of_int m - 1 / 2 \<le> 0"
      then have "(rat_of_int m - 1 / 2) * 2 powi q \<le> 0"
        by (rule mult_nonpos_nonneg) (simp add: less_imp_le)
      then show ?thesis ..
    next
      assume "(rat_of_int m - 1 / 2) ^ 2 \<le> y"
      then have "((rat_of_int m - 1 / 2) * 2 powi q) ^ 2 \<le> x"
        unfolding x power_mult_distrib by (rule mult_right_mono) simp
      then show ?thesis ..
    qed
  qed
qed

lemma fl_sqrt_nonneg: "0 \<le> fl_sqrt F x"
proof (cases "0 < x")
  case True
  from fl_sqrt_correct [OF True, of F] obtain m where
    "fl_sqrt F x = of_int m * 2 powi (sqrt_exponent F x)" "0 \<le> m" by blast
  then show ?thesis by (simp add: less_imp_le)
qed (simp add: fl_sqrt_def)

end
