(* ===== verification/Risk.thy ===== *)
theory Risk
  imports Portfolio SystemConfig FloatSqrt
begin

text \<open>
  The risk engine: include/RiskEngine.hpp and src/RiskEngine.cpp.  Hash maps are association
  lists; the code sorts what it collects from them.  The portfolio it refers to is an argument
  where it is read, the steady clock's reading (in nanoseconds) where it is taken.
\<close>

subsection \<open>State\<close>

record asset_return_state =
  ars_symbol :: string
  ars_returnWindow :: "fp list"
  ars_prevPrice :: fp
  ars_prevPriceValid :: bool
  ars_positionValue :: fp

definition asset_default :: asset_return_state where
  "asset_default = \<lparr>ars_symbol = [], ars_returnWindow = [], ars_prevPrice = Fin 0,
     ars_prevPriceValid = False, ars_positionValue = Fin 0\<rparr>"

record risk_snapshot =
  rsn_configuredMaxPositions :: nat
  rsn_configuredVarLimit :: fp
  rsn_configuredVarWindow :: nat
  rsn_totalDrawdown :: fp
  rsn_dailyDrawdown :: fp
  rsn_prevEquity :: fp
  rsn_prevEquityValid :: bool
  rsn_returnWindow :: "fp list"
  rsn_currentVaR95 :: fp
  rsn_returnStdDev :: fp
  rsn_assetStates :: "(string \<times> asset_return_state) list"
  rsn_covarianceMatrix :: "fp list"
  rsn_assetOrder :: "string list"
  rsn_multiAssetMode :: bool
  rsn_closeOnly :: bool
  rsn_lastLatencyMs :: u32
  rsn_halted :: bool
  rsn_syncedPositions :: "(string \<times> fp) list"
  rsn_effectiveMaxPositions :: nat
  rsn_effectiveVarLimit :: fp
  rsn_volatilityScaled :: bool

record risk =
  rk_totalDrawdown :: fp
  rk_dailyDrawdown :: fp
  rk_maxConcurrentPositions :: nat
  rk_varLimitFraction :: fp
  rk_varWindow :: nat
  rk_prevEquity :: fp
  rk_prevEquityValid :: bool
  rk_returnWindow :: "fp list"
  rk_currentVaR95 :: fp
  rk_returnStdDev :: fp
  rk_assetStates :: "(string \<times> asset_return_state) list"
  rk_covMatrix :: "fp list"
  rk_assetOrder :: "string list"
  rk_multiAssetMode :: bool
  rk_sysCfg :: "system_config option"
  rk_closeOnly :: bool
  rk_lastLatencyMs :: u32
  rk_halted :: bool
  rk_errorTimestamps :: "i64 list"
  rk_syncedPositions :: "(string \<times> fp) list"
  rk_effectiveMaxPositions :: nat
  rk_effectiveVarLimit :: fp
  rk_volatilityScaled :: bool

definition risk_new :: "nat \<Rightarrow> fp \<Rightarrow> nat \<Rightarrow> risk" where
  "risk_new maxConcurrentPositions varLimitFraction varWindow =
     \<lparr>rk_totalDrawdown = Fin 0, rk_dailyDrawdown = Fin 0,
      rk_maxConcurrentPositions = maxConcurrentPositions,
      rk_varLimitFraction = varLimitFraction, rk_varWindow = varWindow,
      rk_prevEquity = Fin 0, rk_prevEquityValid = False, rk_returnWindow = [],
      rk_currentVaR95 = Fin 0, rk_returnStdDev = Fin 0, rk_assetStates = [], rk_covMatrix = [],
      rk_assetOrder = [], rk_multiAssetMode = False, rk_sysCfg = None, rk_closeOnly = False,
      rk_lastLatencyMs = 0, rk_halted = False, rk_errorTimestamps = [], rk_syncedPositions = [],
      rk_effectiveMaxPositions = 0, rk_effectiveVarLimit = Fin 0, rk_volatilityScaled = False\<rparr>"

definition MAX_TOTAL_DRAWDOWN :: fp where "MAX_TOTAL_DRAWDOWN = fp_round binary64 (1 / 10)"
definition MAX_DAILY_DRAWDOWN :: fp where "MAX_DAILY_DRAWDOWN = fp_round binary64 (4 / 100)"
definition Z_95 :: fp where "Z_95 = fp_round binary64 (1645 / 1000)"

definition setSystemConfig :: "system_config option \<Rightarrow> risk \<Rightarrow> risk" where
  "setSystemConfig cfg r =
     r\<lparr>rk_sysCfg := cfg, rk_effectiveMaxPositions := rk_maxConcurrentPositions r,
       rk_effectiveVarLimit := rk_varLimitFraction r\<rparr>"

subsection \<open>The gate\<close>

definition position_cap :: "risk \<Rightarrow> nat" where
  "position_cap r = (if 0 < rk_effectiveMaxPositions r then rk_effectiveMaxPositions r
                     else rk_maxConcurrentPositions r)"

definition var_limit :: "risk \<Rightarrow> fp" where
  "var_limit r = (if fp_less (Fin 0) (rk_effectiveVarLimit r) then rk_effectiveVarLimit r
                  else rk_varLimitFraction r)"

definition canTrade :: "portfolio \<Rightarrow> risk \<Rightarrow> bool" where
  "canTrade p r =
     (if rk_halted r then False
      else if rk_closeOnly r then False
      else if fp_le MAX_TOTAL_DRAWDOWN (rk_totalDrawdown r) then False
      else if fp_le MAX_DAILY_DRAWDOWN (rk_dailyDrawdown r) then False
      else if 0 < position_cap r \<and> position_cap r \<le> getOpenPositionCount p then False
      else if fp_less (Fin 0) (var_limit r) \<and> fp_less (Fin 0) (rk_currentVaR95 r)
        then let equity = getTotalEquity p
             in \<not> (fp_less (Fin 0) equity
                   \<and> fp_less (fp_mul binary64 equity (var_limit r)) (rk_currentVaR95 r))
      else True)"

definition setTotalDrawdown :: "fp \<Rightarrow> risk \<Rightarrow> risk" where
  "setTotalDrawdown drawdown r = r\<lparr>rk_totalDrawdown := drawdown\<rparr>"

definition setDailyDrawdown :: "fp \<Rightarrow> risk \<Rightarrow> risk" where
  "setDailyDrawdown drawdown r = r\<lparr>rk_dailyDrawdown := drawdown\<rparr>"

subsection \<open>Value at risk from equity returns\<close>

definition fp_sum :: "fp list \<Rightarrow> fp" where
  "fp_sum xs = foldl (fp_add binary64) (Fin 0) xs"

definition push_window :: "nat \<Rightarrow> fp \<Rightarrow> fp list \<Rightarrow> fp list" where
  "push_window limit ret window =
     (let window = window @ [ret] in if limit < length window then tl window else window)"

definition window_variance :: "fp list \<Rightarrow> fp" where
  "window_variance window =
     (let n = fp_of_int binary64 (int (length window));
          mean = fp_div binary64 (fp_sum window) n;
          variance = foldl (\<lambda>variance r. fp_add binary64 variance
            (fp_mul binary64 (fp_sub binary64 r mean) (fp_sub binary64 r mean))) (Fin 0) window
      in fp_div binary64 variance n)"

definition pushEquityReturn :: "fp \<Rightarrow> risk \<Rightarrow> risk" where
  "pushEquityReturn currentEquity r =
     (let r =
        (if rk_prevEquityValid r \<and> fp_less (Fin 0) (rk_prevEquity r) then
           let ret = fp_div binary64 (fp_sub binary64 currentEquity (rk_prevEquity r))
                       (rk_prevEquity r);
               r = r\<lparr>rk_returnWindow := push_window (rk_varWindow r) ret (rk_returnWindow r)\<rparr>
           in if 2 \<le> length (rk_returnWindow r) then
                let r = r\<lparr>rk_returnStdDev := fp_sqrt binary64 (window_variance (rk_returnWindow r))\<rparr>
                in r\<lparr>rk_currentVaR95 :=
                      fp_mul binary64 (fp_mul binary64 Z_95 (rk_returnStdDev r)) currentEquity\<rparr>
              else r
         else r)
      in r\<lparr>rk_prevEquity := currentEquity, rk_prevEquityValid := True\<rparr>)"

subsection \<open>The covariance matrix\<close>

definition window_of :: "risk \<Rightarrow> string \<Rightarrow> fp list" where
  "window_of r symbol =
     (case map_of (rk_assetStates r) symbol of None \<Rightarrow> [] | Some st \<Rightarrow> ars_returnWindow st)"

definition participating :: "risk \<Rightarrow> string list" where
  "participating r = sort (map fst (filter (\<lambda>(symbol, st). 2 \<le> length (ars_returnWindow st))
     (rk_assetStates r)))"

definition min_window :: "fp list list \<Rightarrow> nat" where
  "min_window windows = fold (\<lambda>w m. min m (length w)) windows (2 ^ 64 - 1)"

text \<open>The most recent \<open>minLen\<close> observations, their mean, and the covariance of two of them.\<close>

definition recent :: "nat \<Rightarrow> fp list \<Rightarrow> fp list" where
  "recent minLen window = drop (length window - minLen) window"

definition window_mean :: "nat \<Rightarrow> fp list \<Rightarrow> fp" where
  "window_mean minLen window =
     fp_div binary64 (fp_sum (take minLen (recent minLen window))) (fp_of_int binary64 (int minLen))"

definition covariance :: "nat \<Rightarrow> fp \<Rightarrow> fp \<Rightarrow> fp list \<Rightarrow> fp list \<Rightarrow> fp" where
  "covariance minLen mean_i mean_j win_i win_j =
     fp_div binary64
       (foldl (\<lambda>cov t. fp_add binary64 cov
          (fp_mul binary64 (fp_sub binary64 (recent minLen win_i ! t) mean_i)
             (fp_sub binary64 (recent minLen win_j ! t) mean_j))) (Fin 0) [0..<minLen])
       (fp_of_int binary64 (int minLen))"

text \<open>The two nested loops write each covariance to both of its places.\<close>

definition cov_row :: "nat \<Rightarrow> (nat \<Rightarrow> nat \<Rightarrow> fp) \<Rightarrow> nat \<Rightarrow> fp list \<Rightarrow> fp list" where
  "cov_row n cov i matrix =
     foldl (\<lambda>m j. m[i * n + j := cov i j, j * n + i := cov i j]) matrix [i..<n]"

definition cov_matrix :: "nat \<Rightarrow> (nat \<Rightarrow> nat \<Rightarrow> fp) \<Rightarrow> fp list" where
  "cov_matrix n cov =
     foldl (\<lambda>m i. cov_row n cov i m) (replicate (n * n) (Fin 0)) [0..<n]"

definition rebuildCovMatrix :: "risk \<Rightarrow> risk" where
  "rebuildCovMatrix r =
     (let symbols = participating r; n = length symbols
      in if n = 0 then r\<lparr>rk_assetOrder := [], rk_covMatrix := []\<rparr>
         else
           let windows = map (window_of r) symbols; minLen = min_window windows;
               means = map (window_mean minLen) windows
           in r\<lparr>rk_assetOrder := symbols,
                rk_covMatrix := cov_matrix n (\<lambda>i j.
                  covariance minLen (means ! i) (means ! j) (windows ! i) (windows ! j))\<rparr>)"

definition position_value_of :: "risk \<Rightarrow> string \<Rightarrow> fp" where
  "position_value_of r symbol =
     (case map_of (rk_assetStates r) symbol of None \<Rightarrow> Fin 0 | Some st \<Rightarrow> ars_positionValue st)"

text \<open>The quadratic form of the weights, in the order of the loops.\<close>

definition quadratic_form :: "nat \<Rightarrow> fp list \<Rightarrow> fp list \<Rightarrow> fp" where
  "quadratic_form n w matrix =
     foldl (\<lambda>varP i. foldl (\<lambda>varP j. fp_add binary64 varP
        (fp_mul binary64 (fp_mul binary64 (w ! i) (matrix ! (i * n + j))) (w ! j)))
       varP [0..<n]) (Fin 0) [0..<n]"

definition updateDiversifiedVaR :: "fp \<Rightarrow> risk \<Rightarrow> risk" where
  "updateDiversifiedVaR totalEquity r =
     (let n = length (rk_assetOrder r)
      in if n = 0 \<or> rk_covMatrix r = [] then r
         else
           let w = map (\<lambda>symbol. fp_div binary64 (position_value_of r symbol) totalEquity)
                     (rk_assetOrder r);
               varP = quadratic_form n w (rk_covMatrix r);
               stdDev = (if fp_less (Fin 0) varP then fp_sqrt binary64 varP else Fin 0)
           in r\<lparr>rk_returnStdDev := stdDev,
                rk_currentVaR95 := fp_mul binary64 (fp_mul binary64 Z_95 stdDev) totalEquity\<rparr>)"

text \<open>\<open>m_assetStates[symbol]\<close> inserts a default state.\<close>

definition asset_of :: "risk \<Rightarrow> string \<Rightarrow> asset_return_state" where
  "asset_of r symbol =
     (case map_of (rk_assetStates r) symbol of None \<Rightarrow> asset_default | Some st \<Rightarrow> st)"

definition pushed_asset :: "nat \<Rightarrow> string \<Rightarrow> fp \<Rightarrow> fp \<Rightarrow> asset_return_state \<Rightarrow> asset_return_state" where
  "pushed_asset varWindow symbol closingPrice positionValue state =
     (let state = state\<lparr>ars_symbol := symbol, ars_positionValue := positionValue\<rparr>;
          state = (if ars_prevPriceValid state \<and> fp_less (Fin 0) (ars_prevPrice state)
            then state\<lparr>ars_returnWindow := push_window varWindow
                   (fp_div binary64 (fp_sub binary64 closingPrice (ars_prevPrice state))
                      (ars_prevPrice state)) (ars_returnWindow state)\<rparr>
            else state)
      in state\<lparr>ars_prevPrice := closingPrice, ars_prevPriceValid := True\<rparr>)"

definition pushAssetReturn :: "portfolio \<Rightarrow> string \<Rightarrow> fp \<Rightarrow> fp \<Rightarrow> risk \<Rightarrow> risk" where
  "pushAssetReturn p symbol closingPrice positionValue r =
     (let r = rebuildCovMatrix (r\<lparr>rk_multiAssetMode := True,
            rk_assetStates := AList.update symbol
              (pushed_asset (rk_varWindow r) symbol closingPrice positionValue (asset_of r symbol))
              (rk_assetStates r)\<rparr>);
          equity = getTotalEquity p
      in if fp_less (Fin 0) equity then updateDiversifiedVaR equity r else r)"

subsection \<open>Circuit breakers\<close>

definition reportLatency :: "u32 \<Rightarrow> risk \<Rightarrow> risk" where
  "reportLatency latencyMs r =
     (let r = r\<lparr>rk_lastLatencyMs := latencyMs\<rparr>;
          threshold = (case rk_sysCfg r of None \<Rightarrow> 500 | Some c \<Rightarrow> cfg_latencyMaxMs c)
      in if latencyMs > threshold then r\<lparr>rk_closeOnly := True\<rparr> else r)"

definition ERROR_WINDOW_NS :: i64 where "ERROR_WINDOW_NS = 60000000000"

definition reportApiError :: "i64 \<Rightarrow> risk \<Rightarrow> risk" where
  "reportApiError now r =
     (let thresh = (case rk_sysCfg r of None \<Rightarrow> 5 | Some c \<Rightarrow> cfg_errorRateThresh c);
          timestamps = dropWhile (\<lambda>t. t < now - ERROR_WINDOW_NS) (rk_errorTimestamps r @ [now]);
          rate = (of_nat (length timestamps) :: u32);
          r = r\<lparr>rk_errorTimestamps := timestamps\<rparr>
      in if rate > thresh \<and> \<not> rk_halted r then r\<lparr>rk_halted := True\<rparr> else r)"

definition clearHalt :: "risk \<Rightarrow> risk" where
  "clearHalt r = r\<lparr>rk_halted := False, rk_errorTimestamps := []\<rparr>"

definition setHaltTrading :: "bool \<Rightarrow> risk \<Rightarrow> risk" where
  "setHaltTrading halt r = r\<lparr>rk_halted := halt\<rparr>"

definition clearLatencyBreach :: "risk \<Rightarrow> risk" where
  "clearLatencyBreach r = r\<lparr>rk_closeOnly := False\<rparr>"

definition updateLiveVolatility :: "fp \<Rightarrow> fp \<Rightarrow> risk \<Rightarrow> risk" where
  "updateLiveVolatility liveAtr baselineAtr r =
     (case rk_sysCfg r of
        None \<Rightarrow> r
      | Some cfg \<Rightarrow>
          if fp_le baselineAtr (Fin 0) then r
          else
            let ratio = fp_div binary64 liveAtr baselineAtr;
                threshold = cfg_atrScaleUpThreshold cfg
            in if fp_less threshold ratio \<and> \<not> rk_volatilityScaled r
               then r\<lparr>rk_volatilityScaled := True,
                      rk_effectiveMaxPositions := max 1 (rk_maxConcurrentPositions r div 2),
                      rk_effectiveVarLimit := fp_mul binary64 (rk_varLimitFraction r)
                        (cfg_varScaleHighVolFactor cfg)\<rparr>
               else if fp_le ratio threshold \<and> rk_volatilityScaled r
               then r\<lparr>rk_volatilityScaled := False,
                      rk_effectiveMaxPositions := rk_maxConcurrentPositions r,
                      rk_effectiveVarLimit := rk_varLimitFraction r\<rparr>
               else r)"

definition currentErrorRate :: "i64 \<Rightarrow> risk \<Rightarrow> u32" where
  "currentErrorRate now r =
     foldl (\<lambda>count ts. if now - ERROR_WINDOW_NS \<le> ts then count + 1 else count) 0
       (rk_errorTimestamps r)"

subsection \<open>Positions reported by the broker\<close>

definition syncPosition :: "string \<Rightarrow> fp \<Rightarrow> risk \<Rightarrow> risk" where
  "syncPosition symbol quantity r =
     (if fp_le quantity (Fin 0)
      then r\<lparr>rk_syncedPositions := AList.delete symbol (rk_syncedPositions r)\<rparr>
      else r\<lparr>rk_syncedPositions := AList.update symbol quantity (rk_syncedPositions r)\<rparr>)"

definition syncedPosition :: "string \<Rightarrow> risk \<Rightarrow> fp" where
  "syncedPosition symbol r =
     (case map_of (rk_syncedPositions r) symbol of None \<Rightarrow> Fin 0 | Some q \<Rightarrow> q)"

subsection \<open>Snapshots\<close>

definition risk_snapshotState :: "risk \<Rightarrow> risk_snapshot" where
  "risk_snapshotState r =
     \<lparr>rsn_configuredMaxPositions = rk_maxConcurrentPositions r,
      rsn_configuredVarLimit = rk_varLimitFraction r, rsn_configuredVarWindow = rk_varWindow r,
      rsn_totalDrawdown = rk_totalDrawdown r, rsn_dailyDrawdown = rk_dailyDrawdown r,
      rsn_prevEquity = rk_prevEquity r, rsn_prevEquityValid = rk_prevEquityValid r,
      rsn_returnWindow = rk_returnWindow r, rsn_currentVaR95 = rk_currentVaR95 r,
      rsn_returnStdDev = rk_returnStdDev r, rsn_assetStates = rk_assetStates r,
      rsn_covarianceMatrix = rk_covMatrix r, rsn_assetOrder = rk_assetOrder r,
      rsn_multiAssetMode = rk_multiAssetMode r, rsn_closeOnly = rk_closeOnly r,
      rsn_lastLatencyMs = rk_lastLatencyMs r, rsn_halted = rk_halted r,
      rsn_syncedPositions = rk_syncedPositions r,
      rsn_effectiveMaxPositions = rk_effectiveMaxPositions r,
      rsn_effectiveVarLimit = rk_effectiveVarLimit r,
      rsn_volatilityScaled = rk_volatilityScaled r\<rparr>"

definition canRestoreSnapshot :: "risk_snapshot \<Rightarrow> risk \<Rightarrow> string option" where
  "canRestoreSnapshot s r =
     (if rsn_configuredMaxPositions s \<noteq> rk_maxConcurrentPositions r
         \<or> \<not> fp_eq (rsn_configuredVarLimit s) (rk_varLimitFraction r)
         \<or> rsn_configuredVarWindow s \<noteq> rk_varWindow r
      then Some ''snapshot risk configuration does not match runtime''
      else if rk_maxConcurrentPositions r < rsn_effectiveMaxPositions s
              \<or> fp_less (rk_varLimitFraction r) (rsn_effectiveVarLimit s)
      then Some ''snapshot would widen an effective risk limit''
      else None)"

definition risk_restoreState :: "risk_snapshot \<Rightarrow> risk \<Rightarrow> risk" where
  "risk_restoreState s r =
     r\<lparr>rk_totalDrawdown := rsn_totalDrawdown s, rk_dailyDrawdown := rsn_dailyDrawdown s,
       rk_prevEquity := rsn_prevEquity s, rk_prevEquityValid := rsn_prevEquityValid s,
       rk_returnWindow := rsn_returnWindow s, rk_currentVaR95 := rsn_currentVaR95 s,
       rk_returnStdDev := rsn_returnStdDev s, rk_assetStates := rsn_assetStates s,
       rk_covMatrix := rsn_covarianceMatrix s, rk_assetOrder := rsn_assetOrder s,
       rk_multiAssetMode := rsn_multiAssetMode s, rk_closeOnly := rsn_closeOnly s,
       rk_lastLatencyMs := rsn_lastLatencyMs s, rk_halted := rsn_halted s,
       rk_syncedPositions := rsn_syncedPositions s,
       rk_effectiveMaxPositions := rsn_effectiveMaxPositions s,
       rk_effectiveVarLimit := rsn_effectiveVarLimit s,
       rk_volatilityScaled := rsn_volatilityScaled s, rk_errorTimestamps := []\<rparr>"

end
