(* ===== verification/RiskProps.thy ===== *)
theory RiskProps
  imports Risk PortfolioProps
begin

text \<open>
  Lemmas on the risk engine: what each operation keeps, the sliding window of errors, the
  covariance matrix against its reference, and the adaptive limits.
\<close>

subsection \<open>Runs\<close>

datatype risk_op =
    RkTotalDrawdown fp
  | RkDailyDrawdown fp
  | RkEquity fp
  | RkAsset portfolio string fp fp
  | RkLatency u32
  | RkApiError i64
  | RkVolatility fp fp
  | RkSync string fp
  | RkClearHalt
  | RkSetHalt bool
  | RkClearLatency

fun risk_step :: "risk_op \<Rightarrow> risk \<Rightarrow> risk" where
  "risk_step (RkTotalDrawdown d) r = setTotalDrawdown d r"
| "risk_step (RkDailyDrawdown d) r = setDailyDrawdown d r"
| "risk_step (RkEquity e) r = pushEquityReturn e r"
| "risk_step (RkAsset p symbol price v) r = pushAssetReturn p symbol price v r"
| "risk_step (RkLatency ms) r = reportLatency ms r"
| "risk_step (RkApiError now) r = reportApiError now r"
| "risk_step (RkVolatility live base) r = updateLiveVolatility live base r"
| "risk_step (RkSync symbol q) r = syncPosition symbol q r"
| "risk_step RkClearHalt r = clearHalt r"
| "risk_step (RkSetHalt b) r = setHaltTrading b r"
| "risk_step RkClearLatency r = clearLatencyBreach r"

text \<open>The valuation operations change neither the configuration nor the breakers nor the limits.\<close>

definition same_controls :: "risk \<Rightarrow> risk \<Rightarrow> bool" where
  "same_controls r q \<longleftrightarrow>
     rk_halted q = rk_halted r \<and> rk_closeOnly q = rk_closeOnly r
     \<and> rk_sysCfg q = rk_sysCfg r \<and> rk_maxConcurrentPositions q = rk_maxConcurrentPositions r
     \<and> rk_varLimitFraction q = rk_varLimitFraction r \<and> rk_varWindow q = rk_varWindow r
     \<and> rk_effectiveMaxPositions q = rk_effectiveMaxPositions r
     \<and> rk_effectiveVarLimit q = rk_effectiveVarLimit r
     \<and> rk_volatilityScaled q = rk_volatilityScaled r
     \<and> rk_errorTimestamps q = rk_errorTimestamps r"

lemma same_controls_ops:
  "same_controls r (setTotalDrawdown d r)" "same_controls r (setDailyDrawdown d r)"
  "same_controls r (pushEquityReturn e r)" "same_controls r (pushAssetReturn p symbol price v r)"
  "same_controls r (syncPosition symbol q r)"
  by (simp_all add: same_controls_def setTotalDrawdown_def setDailyDrawdown_def pushEquityReturn_def
      pushAssetReturn_def syncPosition_def rebuildCovMatrix_def updateDiversifiedVaR_def Let_def)

subsection \<open>The adaptive limits\<close>

definition fraction_ok :: "fp \<Rightarrow> bool" where
  "fraction_ok f \<longleftrightarrow> (case f of Fin x \<Rightarrow> 0 \<le> x \<and> x \<le> 1 \<and> fl_rat binary64 x = x | _ \<Rightarrow> False)"

definition limits_inv :: "nat \<Rightarrow> fp \<Rightarrow> nat \<Rightarrow> system_config \<Rightarrow> risk \<Rightarrow> bool" where
  "limits_inv n f w cfg r \<longleftrightarrow>
     rk_maxConcurrentPositions r = n \<and> rk_varLimitFraction r = f \<and> rk_varWindow r = w
     \<and> rk_sysCfg r = Some cfg
     \<and> (if rk_volatilityScaled r
        then rk_effectiveMaxPositions r = max 1 (n div 2)
           \<and> rk_effectiveVarLimit r = fp_mul binary64 f (cfg_varScaleHighVolFactor cfg)
        else rk_effectiveMaxPositions r = n \<and> rk_effectiveVarLimit r = f)"

lemma limits_same_controls: "same_controls r q \<Longrightarrow> limits_inv n f w cfg r \<Longrightarrow> limits_inv n f w cfg q"
  by (simp add: same_controls_def limits_inv_def)

lemma limits_step: "limits_inv n f w cfg r \<Longrightarrow> limits_inv n f w cfg (risk_step x r)"
proof (cases x)
  case (RkVolatility live base)
  then show "limits_inv n f w cfg r \<Longrightarrow> limits_inv n f w cfg (risk_step x r)"
    by (simp add: limits_inv_def updateLiveVolatility_def Let_def)
qed (simp_all add: limits_same_controls [OF same_controls_ops(1)] limits_same_controls [OF same_controls_ops(2)]
    limits_same_controls [OF same_controls_ops(3)] limits_same_controls [OF same_controls_ops(4)]
    limits_same_controls [OF same_controls_ops(5)],
   simp_all add: limits_inv_def reportLatency_def reportApiError_def clearHalt_def
    setHaltTrading_def clearLatencyBreach_def Let_def)

lemma limits_run: "limits_inv n f w cfg r \<Longrightarrow> limits_inv n f w cfg (run_machine risk_step xs r)"
  by (rule run_machine_invariant [of "limits_inv n f w cfg"]) (rule limits_step)

lemma limits_new: "limits_inv n f w cfg (setSystemConfig (Some cfg) (risk_new n f w))"
  by (simp add: limits_inv_def setSystemConfig_def risk_new_def)

lemma scaled_fraction:
  assumes "fraction_ok f" and "fraction_ok g"
  shows "fp_le (fp_mul binary64 f g) f" and "fp_mul binary64 f g \<noteq> NaN"
proof -
  obtain x y where x: "f = Fin x" "0 \<le> x" "x \<le> 1" "fl_rat binary64 x = x"
    and y: "g = Fin y" "0 \<le> y" "y \<le> 1"
    using assms by (auto simp: fraction_ok_def split: fp.splits)
  have le: "x * y \<le> x" using x y by (simp add: mult_left_le)
  then have "fl_rat binary64 (x * y) \<le> x" using fl64_mono [OF le] x(4) by simp
  moreover have "\<bar>x * y\<bar> \<le> 2 powi 1000"
  proof -
    have "\<bar>x * y\<bar> \<le> 1" using le x y by simp
    also have "(1 :: rat) \<le> 2 powi 1000" using powi_le_iff [of 0 1000] by (simp del: powi_le_iff)
    finally show ?thesis .
  qed
  note fp_round_finite [OF fmt_ok_formats(1) this]
  ultimately show "fp_le (fp_mul binary64 f g) f" "fp_mul binary64 f g \<noteq> NaN" by (simp_all add: x y)
qed

subsection \<open>The window of errors\<close>

lemma dropWhile_sorted_filter:
  "sorted ts \<Longrightarrow> dropWhile (\<lambda>t. t < c) ts = filter (\<lambda>t. c \<le> t) ts" for c :: int
proof (induction ts)
  case (Cons t ts)
  then have "c \<le> t \<Longrightarrow> \<forall>s \<in> set ts. c \<le> s" by auto
  with Cons show ?case by (auto simp: filter_True)
qed simp

definition error_window :: "i64 list \<Rightarrow> i64 \<Rightarrow> i64 list" where
  "error_window ts now = filter (\<lambda>t. now - ERROR_WINDOW_NS \<le> t) ts"

lemma error_window_later:
  "now \<le> now' \<Longrightarrow> error_window (error_window ts now @ us) now' = error_window (ts @ us) now'"
  by (auto simp: error_window_def intro: filter_cong)

definition error_thresh :: "risk \<Rightarrow> u32" where
  "error_thresh r = (case rk_sysCfg r of None \<Rightarrow> 5 | Some c \<Rightarrow> cfg_errorRateThresh c)"

text \<open>The errors so far: the timestamps kept are those of the last minute, and the engine is
  halted when some error made more than the threshold in the minute up to it.\<close>

definition too_many :: "u32 \<Rightarrow> i64 list \<Rightarrow> bool" where
  "too_many thresh ts \<longleftrightarrow>
     (\<exists>k < length ts. unat thresh < length (error_window (take (Suc k) ts) (ts ! k)))"

lemma too_many_snoc:
  "too_many thresh (ts @ [t]) \<longleftrightarrow>
     too_many thresh ts \<or> unat thresh < length (error_window (ts @ [t]) t)"
proof -
  let ?P = "\<lambda>us k. unat thresh < length (error_window (take (Suc k) us) (us ! k))"
  have "too_many thresh (ts @ [t])
      \<longleftrightarrow> (\<exists>k < length ts. ?P (ts @ [t]) k) \<or> ?P (ts @ [t]) (length ts)"
    by (simp only: too_many_def length_append list.size add_0_right add_Suc_right Ex_less_Suc
        conj_commute disj_commute)
  moreover have "(\<exists>k < length ts. ?P (ts @ [t]) k) \<longleftrightarrow> (\<exists>k < length ts. ?P ts k)"
    by (intro ex_cong1) (auto simp: nth_append)
  ultimately show ?thesis by (simp add: too_many_def)
qed

lemma errors_run:
  assumes "sorted ts" and "length ts < 2 ^ 32" and "rk_errorTimestamps r = []" and "\<not> rk_halted r"
  defines "q \<equiv> foldl (\<lambda>r t. reportApiError t r) r ts"
  shows "(rk_halted q \<longleftrightarrow> too_many (error_thresh r) ts)
    \<and> rk_errorTimestamps q = (if ts = [] then [] else error_window ts (last ts))
    \<and> rk_sysCfg q = rk_sysCfg r"
  using assms(1,2) unfolding q_def
proof (induction ts rule: rev_induct)
  case Nil
  then show ?case using assms(3,4) by (simp add: too_many_def)
next
  case (snoc t ts)
  let ?q = "foldl (\<lambda>r t. reportApiError t r) r ts"
  have ih: "rk_halted ?q \<longleftrightarrow> too_many (error_thresh r) ts"
    "rk_errorTimestamps ?q = (if ts = [] then [] else error_window ts (last ts))"
    "rk_sysCfg ?q = rk_sysCfg r" using snoc by (simp_all add: sorted_append)
  have s: "sorted (rk_errorTimestamps ?q @ [t])"
    using snoc.prems(1) by (auto simp: ih(2) error_window_def sorted_append sorted_filter [of id, simplified])
  have w: "dropWhile (\<lambda>s. s < t - ERROR_WINDOW_NS) (rk_errorTimestamps ?q @ [t]) = error_window (ts @ [t]) t"
  proof (cases "ts = []")
    case True
    then show ?thesis by (simp add: assms(3) error_window_def ERROR_WINDOW_NS_def)
  next
    case False
    then have "last ts \<le> t" using snoc.prems(1) by (simp add: sorted_append)
    note later = error_window_later [OF this, of ts "[t]"]
    have "dropWhile (\<lambda>s. s < t - ERROR_WINDOW_NS) (rk_errorTimestamps ?q @ [t])
        = error_window (rk_errorTimestamps ?q @ [t]) t"
      by (simp only: dropWhile_sorted_filter [OF s] error_window_def)
    with later False ih(2) show ?thesis by simp
  qed
  have len: "length (error_window (ts @ [t]) t) < 2 ^ 32"
    using snoc.prems(2) length_filter_le [of _ "ts @ [t]"] unfolding error_window_def
    by (rule le_less_trans [rotated])
  then have rate: "(of_nat (length (error_window (ts @ [t]) t)) :: u32) > error_thresh r
      \<longleftrightarrow> unat (error_thresh r) < length (error_window (ts @ [t]) t)"
    by (simp add: word_less_nat_alt unat_of_nat take_bit_nat_eq_self)
  have th: "(case rk_sysCfg ?q of None \<Rightarrow> 5 | Some c \<Rightarrow> cfg_errorRateThresh c) = error_thresh r"
    by (simp add: ih(3) error_thresh_def)
  show ?case
    unfolding foldl_append foldl.simps reportApiError_def [of t ?q] w th Let_def
    using ih rate by (auto simp: too_many_snoc)
qed

subsection \<open>The covariance matrix\<close>

lemma index_inj:
  assumes "j < n" and "j' < n"
  shows "i * n + j = i' * n + j' \<longleftrightarrow> i = i' \<and> j = (j' :: nat)"
proof
  assume e: "i * n + j = i' * n + j'"
  then have "(i * n + j) div n = (i' * n + j') div n" "(i * n + j) mod n = (i' * n + j') mod n"
    by simp_all
  with assms show "i = i' \<and> j = j'" by simp
qed simp

lemma index_less: "i < n \<Longrightarrow> j < n \<Longrightarrow> i * n + j < n * (n :: nat)"
proof -
  assume "i < n" and "j < n"
  then have "i * n + j < (i + 1) * n" by simp
  also have "\<dots> \<le> n * n" using \<open>i < n\<close> by (intro mult_le_mono) simp_all
  finally show ?thesis .
qed

lemma cov_row_foldl:
  assumes "i < n" and "length m = n * n" and "i \<le> k" and "k \<le> n" and "a < n" and "b < n"
  shows "length (foldl (\<lambda>m j. m[i * n + j := cov i j, j * n + i := cov i j]) m [i..<k]) = n * n
    \<and> foldl (\<lambda>m j. m[i * n + j := cov i j, j * n + i := cov i j]) m [i..<k] ! (a * n + b) =
     (if a = i \<and> i \<le> b \<and> b < k then cov i b
      else if b = i \<and> i \<le> a \<and> a < k then cov i a else m ! (a * n + b))"
  using assms(3,4)
proof (induction k rule: dec_induct)
  case base
  then show ?case using assms by auto
next
  case (step k)
  let ?f = "foldl (\<lambda>m j. m[i * n + j := cov i j, j * n + i := cov i j]) m [i..<k]"
  have k: "k < n" using step.prems by simp
  have ih: "length ?f = n * n" "?f ! (a * n + b) =
     (if a = i \<and> i \<le> b \<and> b < k then cov i b
      else if b = i \<and> i \<le> a \<and> a < k then cov i a else m ! (a * n + b))"
    using step.IH k by simp_all
  have lt: "i * n + k < length ?f" "k * n + i < length ?f"
    using assms k by (simp_all only: ih(1) index_less)
  have eq: "k * n + i = a * n + b \<longleftrightarrow> k = a \<and> i = b" "i * n + k = a * n + b \<longleftrightarrow> i = a \<and> k = b"
    using assms k by (simp_all only: index_inj)
  have nth: "?f[i * n + k := cov i k, k * n + i := cov i k] ! (a * n + b)
      = (if a = k \<and> b = i \<or> a = i \<and> b = k then cov i k else ?f ! (a * n + b))"
    using lt by (subst nth_list_update) (simp_all only: nth_list_update eq length_list_update
        eq_commute [of a] eq_commute [of b] split: if_split, blast)
  have upt: "[i..<Suc k] = [i..<k] @ [k]" using step.hyps by simp
  have merge: "(if a = k \<and> b = i \<or> a = i \<and> b = k then cov i k
        else if a = i \<and> i \<le> b \<and> b < k then cov i b
        else if b = i \<and> i \<le> a \<and> a < k then cov i a else m ! (a * n + b))
      = (if a = i \<and> i \<le> b \<and> b < Suc k then cov i b
         else if b = i \<and> i \<le> a \<and> a < Suc k then cov i a else m ! (a * n + b))"
    using step.hyps(1) by (auto simp: less_Suc_eq)
  show ?case
    by (simp only: upt foldl_append foldl.simps length_list_update ih nth merge simp_thms)
qed

lemma cov_matrix_nth:
  assumes "a < n" and "b < n"
  shows "cov_matrix n cov ! (a * n + b) = cov (min a b) (max a b)"
proof -
  have "length (foldl (\<lambda>m i. cov_row n cov i m) (replicate (n * n) (Fin 0)) [0..<k]) = n * n
    \<and> (min a b < k \<longrightarrow> foldl (\<lambda>m i. cov_row n cov i m) (replicate (n * n) (Fin 0)) [0..<k] ! (a * n + b)
        = cov (min a b) (max a b))" if "k \<le> n" for k
    using that
  proof (induction k)
    case (Suc k)
    let ?f = "foldl (\<lambda>m i. cov_row n cov i m) (replicate (n * n) (Fin 0)) [0..<k]"
    have ih: "length ?f = n * n" "min a b < k \<longrightarrow> ?f ! (a * n + b) = cov (min a b) (max a b)"
      using Suc by simp_all
    have "k < n" "k \<le> n" using Suc.prems by simp_all
    from cov_row_foldl [OF this(1) ih(1) this(2) order_refl assms, of cov] ih(2) assms
    show ?case by (auto simp: cov_row_def min_def max_def)
  qed simp
  from this [of n] assms show ?thesis by (simp add: cov_matrix_def)
qed

end
