(* ===== verification/RiskClaims.thy ===== *)
theory RiskClaims
  imports RiskProps
begin

text \<open>
  The properties of the risk engine: the circuit breakers, the adaptive limits, the covariance
  matrix, snapshots, and what a NaN or the data integrity guard do to the gate.
\<close>

text \<open>C21. A latency above the threshold stops trading until the breach is cleared, whatever else
  happens; so does a halt until one of the two operations that lift it.\<close>

theorem risk_breakers_latch:
  assumes "RkClearLatency \<notin> set xs" and "ms > (case rk_sysCfg r of None \<Rightarrow> 500 | Some c \<Rightarrow> cfg_latencyMaxMs c)"
    and "RkClearHalt \<notin> set ys" and "RkSetHalt False \<notin> set ys" and "rk_halted q"
  shows "\<not> canTrade p (run_machine risk_step xs (reportLatency ms r))
    \<and> \<not> canTrade p (run_machine risk_step ys q)"
proof -
  have "rk_closeOnly (run_machine risk_step xs s)" if "rk_closeOnly s" for s
    using that assms(1)
  proof (induction xs arbitrary: s)
    case (Cons x xs)
    have "rk_closeOnly (risk_step x s)"
      using Cons.prems same_controls_ops [where r = s]
      by (cases x) (auto simp: same_controls_def reportLatency_def reportApiError_def clearHalt_def
          setHaltTrading_def updateLiveVolatility_def Let_def split: option.splits)
    with Cons show ?case by simp
  qed simp
  moreover have "rk_closeOnly (reportLatency ms r)" using assms(2) by (simp add: reportLatency_def Let_def)
  moreover have "rk_halted (run_machine risk_step ys s)" if "rk_halted s" for s
    using that assms(3,4)
  proof (induction ys arbitrary: s)
    case (Cons x ys)
    have "rk_halted (risk_step x s)"
      using Cons.prems same_controls_ops [where r = s]
      by (cases x) (auto simp: same_controls_def reportLatency_def reportApiError_def
          clearLatencyBreach_def setHaltTrading_def updateLiveVolatility_def Let_def split: option.splits)
    with Cons show ?case by simp
  qed simp
  ultimately show ?thesis using assms(5) by (simp add: canTrade_def)
qed

definition demo_risk :: risk where
  "demo_risk = setSystemConfig (Some config_default) (risk_new 4 (Fin (1 / 16)) 252)"

lemma risk_breakers_latch_witness:
  "\<not> canTrade pm_init (run_machine risk_step [RkLatency 10] (reportLatency 501 demo_risk))
   \<and> canTrade pm_init demo_risk"
proof -
  have "(case rk_sysCfg demo_risk of None \<Rightarrow> 500 | Some c \<Rightarrow> cfg_latencyMaxMs c) < (501 :: u32)"
    "rk_halted (setHaltTrading True demo_risk)" "canTrade pm_init demo_risk" by code_simp+
  with risk_breakers_latch [of "[RkLatency 10]" demo_risk 501 "[]" "setHaltTrading True demo_risk" pm_init]
  show ?thesis by simp
qed

text \<open>C22. From an engine with no errors, errors at increasing times halt it exactly when some error
  made more than the threshold in the sixty seconds up to it, and the error rate read at a later
  time is the number of errors in the last sixty seconds.\<close>

theorem risk_error_window_exact:
  assumes "sorted ts" and "length ts < 2 ^ 32" and "rk_errorTimestamps r = []" and "\<not> rk_halted r"
    and "ts \<noteq> [] \<Longrightarrow> last ts \<le> now"
    and "q = foldl (\<lambda>r t. reportApiError t r) r ts"
  shows "(rk_halted q \<longleftrightarrow> too_many (error_thresh r) ts)
    \<and> currentErrorRate now q = of_nat (length (error_window ts now))"
proof -
  have "foldl (\<lambda>count t. if now - ERROR_WINDOW_NS \<le> t then count + 1 else count) c us
      = c + of_nat (length (error_window us now))" for us and c :: u32
    by (induction us arbitrary: c) (simp_all add: error_window_def)
  then have "currentErrorRate now q = of_nat (length (error_window (rk_errorTimestamps q) now))"
    by (simp add: currentErrorRate_def)
  moreover have "error_window (rk_errorTimestamps q) now = error_window ts now"
    using errors_run [OF assms(1-4)] error_window_later [of "last ts" now ts "[]"] assms(5,6)
    by (auto simp: error_window_def)
  ultimately show ?thesis using errors_run [OF assms(1-4)] assms(6) by simp
qed

lemma risk_error_window_exact_witness:
  "rk_halted (foldl (\<lambda>r t. reportApiError t r) demo_risk [1, 2, 3, 4, 5, 6])
   \<and> currentErrorRate 60000000003 (foldl (\<lambda>r t. reportApiError t r) demo_risk [1, 2, 3, 4, 5, 6])
     = of_nat (length (error_window [1, 2, 3, 4, 5, 6] 60000000003))"
proof -
  have "rk_errorTimestamps demo_risk = []" "\<not> rk_halted demo_risk"
    "rk_halted (foldl (\<lambda>r t. reportApiError t r) demo_risk [1, 2, 3, 4, 5, 6])" by code_simp+
  with risk_error_window_exact [of "[1, 2, 3, 4, 5, 6]" demo_risk 60000000003, OF _ _ _ _ _ refl]
  show ?thesis by simp
qed

text \<open>C23. Whatever is reported to a configured engine with at least one position allowed and fractions
  between 0 and 1, the adaptive position cap stays between 1 and the configured one and the
  adaptive VaR limit does not exceed the configured one.\<close>

theorem risk_limits_never_widen:
  assumes "0 < n" and "fraction_ok f" and "fraction_ok (cfg_varScaleHighVolFactor cfg)"
    and "r = run_machine risk_step xs (setSystemConfig (Some cfg) (risk_new n f w))"
  shows "1 \<le> position_cap r \<and> position_cap r \<le> n \<and> fp_le (var_limit r) f"
proof -
  have inv: "limits_inv n f w cfg r" unfolding assms(4) by (intro limits_run limits_new)
  have "fp_le f f" using assms(2) by (auto simp: fraction_ok_def split: fp.splits)
  moreover have "max 1 (n div 2) \<le> n" using assms(1) by simp
  ultimately show ?thesis
    using inv scaled_fraction(1) [OF assms(2,3)] assms(1)
    by (auto simp: limits_inv_def position_cap_def var_limit_def split: if_splits)
qed

lemma fraction_ok_half: "fraction_ok (Fin (1 / 2))" "fraction_ok (Fin (1 / 16))"
  by code_simp+

lemma risk_limits_never_widen_witness:
  "position_cap (run_machine risk_step [RkVolatility (Fin 3) (Fin 1)] demo_risk) = 2
   \<and> fp_le (var_limit (run_machine risk_step [RkVolatility (Fin 3) (Fin 1)] demo_risk)) (Fin (1 / 16))"
proof -
  have "position_cap (run_machine risk_step [RkVolatility (Fin 3) (Fin 1)] demo_risk) = 2" by code_simp
  moreover have "cfg_varScaleHighVolFactor config_default = Fin (1 / 2)" by (simp add: config_default_def)
  ultimately show ?thesis
    using risk_limits_never_widen [of 4 "Fin (1 / 16)" config_default _ "[RkVolatility (Fin 3) (Fin 1)]" 252,
        OF _ _ _ refl] fraction_ok_half
    by (simp add: demo_risk_def)
qed

text \<open>What the covariance matrix should hold, written without the loops: the newest observations of a
  window, their mean, and the population covariance of two series of observations, summed from the
  oldest to the newest and divided by their number.\<close>

definition newest :: "nat \<Rightarrow> fp list \<Rightarrow> fp list" where
  "newest m window = rev (take m (rev window))"

definition series_mean :: "fp list \<Rightarrow> fp" where
  "series_mean xs =
     fp_div binary64 (foldl (fp_add binary64) (Fin 0) xs) (fp_of_int binary64 (int (length xs)))"

definition deviations :: "fp list \<Rightarrow> fp list" where
  "deviations xs = map (\<lambda>x. fp_sub binary64 x (series_mean xs)) xs"

definition population_covariance :: "fp list \<Rightarrow> fp list \<Rightarrow> fp" where
  "population_covariance xs ys =
     fp_div binary64
       (foldl (fp_add binary64) (Fin 0) (map2 (fp_mul binary64) (deviations xs) (deviations ys)))
       (fp_of_int binary64 (int (length xs)))"

lemma newest_length [simp]: "m \<le> length w \<Longrightarrow> length (newest m w) = m"
  by (simp add: newest_def)

lemma recent_newest: "recent m w = newest m w"
  by (simp add: recent_def newest_def rev_take)

lemma fp_mul_commute: "fp_mul f x y = fp_mul f y x"
  by (cases x; cases y) (auto simp: mult.commute)

lemma window_mean_series:
  assumes "m \<le> length w"
  shows "window_mean m w = series_mean (newest m w)"
  using assms by (simp add: window_mean_def series_mean_def recent_newest fp_sum_def)

lemma covariance_population:
  assumes "m \<le> length u" and "m \<le> length v"
  shows "covariance m (window_mean m u) (window_mean m v) u v
    = population_covariance (newest m u) (newest m v)"
proof -
  let ?prod = "\<lambda>t. fp_mul binary64 (fp_sub binary64 (newest m u ! t) (series_mean (newest m u)))
    (fp_sub binary64 (newest m v ! t) (series_mean (newest m v)))"
  have "map2 (fp_mul binary64) (deviations (newest m u)) (deviations (newest m v))
      = map ?prod [0..<m]"
    using assms by (intro nth_equalityI) (simp_all add: deviations_def)
  then show ?thesis
    using assms by (simp add: covariance_def population_covariance_def recent_newest foldl_map
        window_mean_series)
qed

lemma population_covariance_commute:
  "length xs = length ys \<Longrightarrow> population_covariance xs ys = population_covariance ys xs"
proof -
  assume len: "length xs = length ys"
  then have "map2 (fp_mul binary64) (deviations xs) (deviations ys)
      = map2 (fp_mul binary64) (deviations ys) (deviations xs)"
    by (intro nth_equalityI) (simp_all add: deviations_def fp_mul_commute)
  with len show ?thesis by (simp add: population_covariance_def)
qed

lemma min_fold: "fold (\<lambda>w m. min m (length w)) ws k = Min (insert k (length ` set ws))"
proof (induction ws arbitrary: k)
  case (Cons w ws)
  have "insert (min k (length w)) (length ` set ws) \<noteq> {}" by simp
  show ?case
  proof (cases "ws = []")
    case False
    then show ?thesis using Cons by (simp add: min.assoc)
  qed simp
qed simp

lemma min_window_Min:
  assumes "ws \<noteq> []" and "\<And>w. w \<in> set ws \<Longrightarrow> length w < 2 ^ 64"
  shows "min_window ws = Min (length ` set ws)"
proof -
  have "Min (length ` set ws) \<in> length ` set ws" using assms(1) by (intro Min_in) auto
  then have "Min (length ` set ws) \<le> 2 ^ 64 - 1" using assms(2) by fastforce
  then show ?thesis using assms(1) by (simp add: min_window_def min_fold)
qed

lemma window_of_short:
  assumes "\<forall>st \<in> snd ` set (rk_assetStates r). length (ars_returnWindow st) < 2 ^ 64"
  shows "length (window_of r s) < 2 ^ 64"
proof (cases "map_of (rk_assetStates r) s")
  case (Some st)
  then have "st \<in> snd ` set (rk_assetStates r)" by (metis map_of_SomeD image_eqI snd_conv)
  with assms have "length (ars_returnWindow st) < 2 ^ 64" by blast
  with Some show ?thesis by (simp add: window_of_def)
qed (simp add: window_of_def)

lemma participating_set:
  assumes "distinct (map fst (rk_assetStates r))"
  shows "distinct (participating r)"
    and "s \<in> set (participating r)
      \<longleftrightarrow> (\<exists>st. map_of (rk_assetStates r) s = Some st \<and> 2 \<le> length (ars_returnWindow st))"
  using assms by (auto simp: participating_def distinct_map inj_on_filter_key_eq intro: inj_on_subset
      dest: map_of_SomeD intro!: image_eqI)

lemma cov_row_length [simp]: "length (cov_row n cov i m) = length m"
proof -
  have "length (foldl (\<lambda>m j. m[i * n + j := cov i j, j * n + i := cov i j]) m js) = length m" for js
    by (induction js arbitrary: m) simp_all
  then show ?thesis by (simp add: cov_row_def)
qed

lemma cov_matrix_length: "length (cov_matrix n cov) = n * n"
proof -
  have "length (foldl (\<lambda>m i. cov_row n cov i m) m is) = length m" for m and "is" :: "nat list"
    by (induction "is" arbitrary: m) simp_all
  then show ?thesis by (simp add: cov_matrix_def)
qed

text \<open>C24. When the asset states are a map and windows are shorter than \<open>2 ^ 64\<close>, the rebuilt
  matrix is over exactly the symbols with at least two observations, in ascending order and each once;
  it has a row and a column for each, and the entry in row \<open>a\<close> and column \<open>b\<close> is the population
  covariance (divided by the number of observations, not by one less) of the newest \<open>m\<close> returns of the
  two symbols, where \<open>m\<close> is the shortest of the windows; so it is symmetric.\<close>

theorem risk_covariance_matrix:
  assumes "distinct (map fst (rk_assetStates r))"
    and "\<And>s. length (window_of r s) < 2 ^ 64"
    and "symbols = rk_assetOrder (rebuildCovMatrix r)"
    and "a < length symbols" and "b < length symbols"
    and "m = Min (length ` window_of r ` set symbols)"
  shows "sorted symbols \<and> distinct symbols
    \<and> (\<forall>s. s \<in> set symbols \<longleftrightarrow>
         (\<exists>st. map_of (rk_assetStates r) s = Some st \<and> 2 \<le> length (ars_returnWindow st)))
    \<and> length (rk_covMatrix (rebuildCovMatrix r)) = length symbols * length symbols
    \<and> rk_covMatrix (rebuildCovMatrix r) ! (a * length symbols + b)
      = population_covariance (newest m (window_of r (symbols ! a))) (newest m (window_of r (symbols ! b)))
    \<and> rk_covMatrix (rebuildCovMatrix r) ! (a * length symbols + b)
      = rk_covMatrix (rebuildCovMatrix r) ! (b * length symbols + a)"
proof -
  have order: "symbols = participating r"
    using assms(3) by (simp add: rebuildCovMatrix_def Let_def)
  have ne: "symbols \<noteq> []" using assms(4) by auto
  let ?w = "\<lambda>k. window_of r (symbols ! k)"
  have m: "min_window (map (window_of r) symbols) = m"
    using ne assms(2) by (subst min_window_Min) (auto simp: assms(6))
  have le: "m \<le> length (?w k)" if "k < length symbols" for k
    using that by (simp add: assms(6))
  have entry: "rk_covMatrix (rebuildCovMatrix r) ! (i * length symbols + j)
      = population_covariance (newest m (?w i)) (newest m (?w j))"
    if "i < length symbols" "j < length symbols" for i j
    using that ne le
    by (cases "i \<le> j") (simp_all add: rebuildCovMatrix_def order [symmetric] Let_def cov_matrix_nth m
        covariance_population min_def max_def population_covariance_commute)
  have "length (rk_covMatrix (rebuildCovMatrix r)) = length symbols * length symbols"
    using ne by (simp add: rebuildCovMatrix_def order [symmetric] Let_def cov_matrix_length)
  moreover have "sorted symbols" by (simp add: order participating_def)
  moreover have "distinct symbols" using assms(1) by (simp add: order participating_set(1))
  moreover have "s \<in> set symbols \<longleftrightarrow>
      (\<exists>st. map_of (rk_assetStates r) s = Some st \<and> 2 \<le> length (ars_returnWindow st))" for s
    using participating_set(2) [OF assms(1)] by (simp add: order)
  ultimately show ?thesis
    using entry [OF assms(4,5)] entry [OF assms(5,4)] le assms(4,5)
    by (simp add: population_covariance_commute)
qed

definition two_assets :: risk where
  "two_assets = risk_new 4 (Fin 1) 252
     \<lparr>rk_assetStates :=
        [(''C'', asset_default\<lparr>ars_returnWindow := [Fin 8]\<rparr>),
         (''B'', asset_default\<lparr>ars_returnWindow := [Fin 1, Fin 2]\<rparr>),
         (''A'', asset_default\<lparr>ars_returnWindow := [Fin 9, Fin 1, Fin 3]\<rparr>)]\<rparr>"

lemma risk_covariance_matrix_witness:
  "rk_assetOrder (rebuildCovMatrix two_assets) = [''A'', ''B'']
   \<and> rk_covMatrix (rebuildCovMatrix two_assets) ! 1 = Fin (1 / 2)
   \<and> rk_covMatrix (rebuildCovMatrix two_assets) ! 0 = Fin 1"
proof -
  have order: "rk_assetOrder (rebuildCovMatrix two_assets) = [''A'', ''B'']"
  proof -
    have "participating two_assets = [''A'', ''B'']" by code_simp
    then show ?thesis by (simp add: rebuildCovMatrix_def Let_def)
  qed
  have windows: "window_of two_assets ''A'' = [Fin 9, Fin 1, Fin 3]"
    "window_of two_assets ''B'' = [Fin 1, Fin 2]"
    by (simp_all add: window_of_def two_assets_def)
  have short: "\<forall>st \<in> snd ` set (rk_assetStates two_assets). length (ars_returnWindow st) < 2 ^ 64"
    by (simp add: two_assets_def)
  have keys: "distinct (map fst (rk_assetStates two_assets))" by (simp add: two_assets_def)
  note hyps = keys window_of_short [OF short]
  have two: "2 = Min (length ` window_of two_assets ` set [''A'', ''B''])"
    by (simp add: windows)
  have "population_covariance (newest 2 [Fin 9, Fin 1, Fin 3]) (newest 2 [Fin 1, Fin 2]) = Fin (1 / 2)"
    "population_covariance (newest 2 [Fin 9, Fin 1, Fin 3]) (newest 2 [Fin 9, Fin 1, Fin 3]) = Fin 1"
    by code_simp+
  then show ?thesis
    using risk_covariance_matrix [OF hyps order [symmetric], of 0 1 2]
      risk_covariance_matrix [OF hyps order [symmetric], of 0 0 2] two
    by (simp add: order windows)
qed

text \<open>C25. A snapshot of a configured engine with at least one position allowed and fractions between 0 and
  1 can be restored, after whatever was reported to either, into an
  engine of the same configuration, and restores everything but the window of errors.\<close>

theorem risk_snapshot_roundtrip:
  assumes "0 < n" and "fraction_ok f" and "fraction_ok (cfg_varScaleHighVolFactor cfg)"
    and "r = run_machine risk_step xs (setSystemConfig (Some cfg) (risk_new n f w))"
    and "q = run_machine risk_step ys (setSystemConfig (Some cfg) (risk_new n f w))"
  shows "canRestoreSnapshot (risk_snapshotState r) q = None
    \<and> risk_restoreState (risk_snapshotState r) q = r\<lparr>rk_errorTimestamps := []\<rparr>"
proof -
  have inv: "limits_inv n f w cfg r" "limits_inv n f w cfg q"
    unfolding assms(4,5) by (intro limits_run limits_new)+
  obtain x where x: "f = Fin x" "fp_mul binary64 f (cfg_varScaleHighVolFactor cfg) \<noteq> NaN"
    using assms(2) scaled_fraction(2) [OF assms(2,3)] by (auto simp: fraction_ok_def split: fp.splits)
  have "\<not> fp_less f (fp_mul binary64 f (cfg_varScaleHighVolFactor cfg))"
    using scaled_fraction(1) [OF assms(2,3)] x
    by (cases "fp_mul binary64 f (cfg_varScaleHighVolFactor cfg)") (auto simp: fp_le_def)
  moreover have "max 1 (n div 2) \<le> n" using assms(1) by simp
  ultimately have "canRestoreSnapshot (risk_snapshotState r) q = None"
    using inv x(1)
    by (auto simp: canRestoreSnapshot_def risk_snapshotState_def limits_inv_def split: if_splits)
  moreover have "risk_restoreState (risk_snapshotState r) q = r\<lparr>rk_errorTimestamps := []\<rparr>"
    using inv by (cases r; cases q)
      (simp add: risk_restoreState_def risk_snapshotState_def limits_inv_def)
  ultimately show ?thesis ..
qed

lemma risk_snapshot_roundtrip_witness:
  "canRestoreSnapshot (risk_snapshotState (run_machine risk_step [RkVolatility (Fin 3) (Fin 1), RkLatency 900] demo_risk))
     demo_risk = None"
proof -
  have "cfg_varScaleHighVolFactor config_default = Fin (1 / 2)" by (simp add: config_default_def)
  then show ?thesis
    using risk_snapshot_roundtrip [of 4 "Fin (1 / 16)" config_default _
        "[RkVolatility (Fin 3) (Fin 1), RkLatency 900]" 252 _ "[]", OF _ _ _ refl refl] fraction_ok_half
    by (simp add: demo_risk_def)
qed

text \<open>With the cap disabled, the high-volatility state caps positions at one, and a snapshot taken in
  it is refused by an engine of the same configuration.\<close>

theorem risk_unlimited_snapshot_refused:
  "(let start = setSystemConfig (Some config_default) (risk_new 0 (Fin (1 / 16)) 252);
        r = run_machine risk_step [RkVolatility (Fin 3) (Fin 1)] start
    in position_cap start = 0 \<and> position_cap r = 1
       \<and> canRestoreSnapshot (risk_snapshotState r) start
         = Some ''snapshot would widen an effective risk limit'')"
  by code_simp

text \<open>The gate fails open on NaN: with NaN drawdowns and a NaN value at risk an engine that is not
  stopped and below its position cap lets trading go on, whatever its limits; one NaN equity
  is enough for a NaN value at risk.\<close>

theorem risk_nan_fails_open:
  assumes "\<not> rk_halted r" and "\<not> rk_closeOnly r"
    and "getOpenPositionCount p < position_cap r \<or> position_cap r = 0"
    and "rk_totalDrawdown r = NaN" and "rk_dailyDrawdown r = NaN"
    and "rk_prevEquityValid r" and "fp_less (Fin 0) (rk_prevEquity r)"
    and "rk_returnWindow r \<noteq> []" and "2 \<le> rk_varWindow r"
  shows "canTrade p (pushEquityReturn NaN r)"
proof -
  have nan: "\<not> fp_less a NaN" "\<not> fp_le a NaN" for a by (cases a; simp add: fp_le_def)+
  have "fp_mul binary64 a NaN = NaN" for a by (cases a) simp_all
  moreover have "2 \<le> length (push_window (rk_varWindow r) x (rk_returnWindow r))" for x
    using assms(8,9) by (cases "rk_returnWindow r") (auto simp: push_window_def Let_def)
  ultimately have "rk_currentVaR95 (pushEquityReturn NaN r) = NaN"
    using assms(6,7) by (simp add: pushEquityReturn_def Let_def)
  moreover have "same_controls r (pushEquityReturn NaN r)" by (rule same_controls_ops)
  moreover have "rk_totalDrawdown (pushEquityReturn NaN r) = NaN" "rk_dailyDrawdown (pushEquityReturn NaN r) = NaN"
    using assms(4,5) by (simp_all add: pushEquityReturn_def Let_def)
  ultimately show ?thesis
    using assms(1-3) by (auto simp: canTrade_def nan same_controls_def position_cap_def)
qed

lemma risk_nan_fails_open_witness:
  "canTrade pm_init (pushEquityReturn NaN (demo_risk\<lparr>rk_totalDrawdown := NaN, rk_dailyDrawdown := NaN,
     rk_prevEquityValid := True, rk_prevEquity := Fin 1, rk_returnWindow := [Fin (- 1)]\<rparr>))"
  by (rule risk_nan_fails_open)
    (simp_all add: demo_risk_def setSystemConfig_def risk_new_def position_cap_def pm_init_def
      getOpenPositionCount_def)

text \<open>The data integrity guard's all-clear lifts a halt that too many errors caused, which the
  documentation reserves to the operator, and the next error halts the engine again.\<close>

theorem risk_halt_lifted_by_guard:
  "(let r = foldl (\<lambda>r t. reportApiError t r) demo_risk [1, 2, 3, 4, 5, 6];
        q = setHaltTrading False r
    in \<not> canTrade pm_init r \<and> canTrade pm_init q \<and> \<not> canTrade pm_init (reportApiError 7 q))"
  by code_simp

text \<open>In multi-asset mode too, the next equity observation replaces the diversified value at risk by
  that of the single equity stream, as soon as its window holds two returns.\<close>

theorem risk_equity_var_replaces_diversified:
  assumes "rk_multiAssetMode r" and "rk_prevEquityValid r" and "fp_less (Fin 0) (rk_prevEquity r)"
    and "rk_returnWindow r \<noteq> []" and "2 \<le> rk_varWindow r"
  shows "rk_currentVaR95 (pushEquityReturn e r) =
      fp_mul binary64 (fp_mul binary64 Z_95 (fp_sqrt binary64
        (window_variance (rk_returnWindow (pushEquityReturn e r))))) e
    \<and> rk_currentVaR95 (pushEquityReturn e (r\<lparr>rk_currentVaR95 := v\<rparr>)) = rk_currentVaR95 (pushEquityReturn e r)"
proof -
  have "2 \<le> length (push_window (rk_varWindow r) x (rk_returnWindow r))" for x
    using assms(4,5) by (cases "rk_returnWindow r") (auto simp: push_window_def Let_def)
  then show ?thesis using assms by (simp add: pushEquityReturn_def Let_def)
qed

lemma risk_equity_var_replaces_diversified_witness:
  "rk_currentVaR95 (pushEquityReturn (Fin 1) (demo_risk\<lparr>rk_multiAssetMode := True,
     rk_prevEquityValid := True, rk_prevEquity := Fin 1, rk_returnWindow := [Fin 0],
     rk_currentVaR95 := Fin 100\<rparr>)) = Fin 0"
proof -
  let ?r = "demo_risk\<lparr>rk_multiAssetMode := True, rk_prevEquityValid := True, rk_prevEquity := Fin 1,
    rk_returnWindow := [Fin 0]\<rparr>"
  have "rk_currentVaR95 (pushEquityReturn (Fin 1) (?r\<lparr>rk_currentVaR95 := Fin 100\<rparr>))
      = rk_currentVaR95 (pushEquityReturn (Fin 1) ?r)"
    by (rule conjunct2 [OF risk_equity_var_replaces_diversified])
      (simp_all add: demo_risk_def setSystemConfig_def risk_new_def)
  moreover have "rk_currentVaR95 (pushEquityReturn (Fin 1) ?r) = Fin 0" by code_simp
  ultimately show ?thesis by simp
qed

end
