(* ===== verification/Alpha.thy ===== *)
theory Alpha
  imports Risk
begin

text \<open>
  The strategies: include/IStrategy.hpp, include/MarketCandle.hpp, SmaCrossStrategy and
  MeanReversionStrategy (include/ and src/).  A strategy turns each candle into a conviction; its
  rolling buffers are lists with the newest value last.
\<close>

subsection \<open>Candles and signals\<close>

record market_candle =
  mc_date :: string
  mc_time :: string
  mc_symbol :: string
  mc_epochTimestamp :: u64
  mc_open :: fp
  mc_high :: fp
  mc_low :: fp
  mc_close :: fp
  mc_volume :: fp

record alpha_signal =
  als_symbol :: string
  als_strategy_id :: string
  als_conviction :: fp

datatype signal = S_None | S_Buy | S_Sell

definition alphaToSignal :: "alpha_signal \<Rightarrow> signal" where
  "alphaToSignal a =
     (if fp_le (fp_round binary64 (1 / 10)) (als_conviction a) then S_Buy
      else if fp_le (als_conviction a) (fp_neg (fp_round binary64 (1 / 10))) then S_Sell
      else S_None)"

definition candle_signal :: "market_candle \<Rightarrow> string \<Rightarrow> fp \<Rightarrow> alpha_signal" where
  "candle_signal candle strategyId conviction =
     \<lparr>als_symbol = mc_symbol candle, als_strategy_id = strategyId, als_conviction = conviction\<rparr>"

definition fp_size :: "nat \<Rightarrow> fp" where
  "fp_size n = fp_of_int binary64 (int n)"

definition fp_clamp :: "fp \<Rightarrow> fp \<Rightarrow> fp \<Rightarrow> fp" where
  "fp_clamp v lo hi = (if fp_less v lo then lo else if fp_less hi v then hi else v)"

subsection \<open>Moving averages: SmaCrossStrategy\<close>

record sma =
  sma_strategyId :: string
  sma_fastPeriod :: nat
  sma_slowPeriod :: nat
  sma_priceBuffer :: "fp list"
  sma_prevFastSma :: fp
  sma_prevSlowSma :: fp
  sma_prevValid :: bool
  sma_trueRanges :: "fp list"
  sma_prevClose :: fp
  sma_prevCloseValid :: bool
  sma_currentATR :: fp
  sma_atrValid :: bool

definition ATR_PERIOD :: nat where "ATR_PERIOD = 14"

definition sma_new :: "nat \<Rightarrow> nat \<Rightarrow> string \<Rightarrow> pm_error + sma" where
  "sma_new fast slow strategyId =
     throw_if (fast = 0 \<or> slow = 0) (InvalidArgument ''SMA periods must be > 0'') (
     throw_if (slow \<le> fast) (InvalidArgument ''Fast period must be less than slow period'') (
     Inr \<lparr>sma_strategyId = strategyId, sma_fastPeriod = fast, sma_slowPeriod = slow,
          sma_priceBuffer = [], sma_prevFastSma = Fin 0, sma_prevSlowSma = Fin 0,
          sma_prevValid = False, sma_trueRanges = [], sma_prevClose = Fin 0,
          sma_prevCloseValid = False, sma_currentATR = Fin 0, sma_atrValid = False\<rparr>))"

definition calcSma :: "fp list \<Rightarrow> nat \<Rightarrow> fp" where
  "calcSma buf period = fp_div binary64 (fp_sum (drop (length buf - period) buf)) (fp_size period)"

definition trueRange :: "fp \<Rightarrow> fp \<Rightarrow> fp \<Rightarrow> fp \<Rightarrow> fp" where
  "trueRange h l prevHigh prevLow =
     fp_max (fp_max (fp_sub binary64 h l) (fp_abs (fp_sub binary64 h prevHigh)))
       (fp_abs (fp_sub binary64 l prevLow))"

text \<open>Wilder's average: seeded by a mean, then smoothed.\<close>

definition wilder :: "nat \<Rightarrow> fp \<Rightarrow> fp \<Rightarrow> fp" where
  "wilder n avg x =
     fp_div binary64 (fp_add binary64 (fp_mul binary64 avg (fp_size (n - 1))) x) (fp_size n)"

definition sma_updateATR :: "market_candle \<Rightarrow> sma \<Rightarrow> sma" where
  "sma_updateATR candle s =
     (let s = (if sma_prevCloseValid s then
            let tr = trueRange (mc_high candle) (mc_low candle) (sma_prevClose s) (sma_prevClose s);
                s = s\<lparr>sma_trueRanges := push_window ATR_PERIOD tr (sma_trueRanges s)\<rparr>
            in if length (sma_trueRanges s) = ATR_PERIOD then
                 if \<not> sma_atrValid s
                 then s\<lparr>sma_currentATR := fp_div binary64 (fp_sum (sma_trueRanges s))
                          (fp_size ATR_PERIOD), sma_atrValid := True\<rparr>
                 else s\<lparr>sma_currentATR := wilder ATR_PERIOD (sma_currentATR s) tr\<rparr>
               else s
          else s)
      in s\<lparr>sma_prevClose := mc_close candle, sma_prevCloseValid := True\<rparr>)"

text \<open>The crossing of the two averages since the previous bar.\<close>

definition sma_cross :: "fp \<Rightarrow> fp \<Rightarrow> sma \<Rightarrow> fp" where
  "sma_cross fastSma slowSma s =
     (if sma_prevValid s then
        if fp_less slowSma fastSma \<and> fp_le (sma_prevFastSma s) (sma_prevSlowSma s) then Fin 1
        else if fp_less fastSma slowSma \<and> fp_le (sma_prevSlowSma s) (sma_prevFastSma s)
        then Fin (-1) else Fin 0
      else Fin 0)"

definition sma_generateSignal :: "market_candle \<Rightarrow> sma \<Rightarrow> sma \<times> alpha_signal" where
  "sma_generateSignal candle s =
     (let s = s\<lparr>sma_priceBuffer :=
                  push_window (sma_slowPeriod s) (mc_close candle) (sma_priceBuffer s)\<rparr>;
          s = sma_updateATR candle s
      in if length (sma_priceBuffer s) < sma_slowPeriod s
         then (s, candle_signal candle (sma_strategyId s) (Fin 0))
         else
           let fastSma = calcSma (sma_priceBuffer s) (sma_fastPeriod s);
               slowSma = calcSma (sma_priceBuffer s) (sma_slowPeriod s);
               conviction = sma_cross fastSma slowSma s
           in (s\<lparr>sma_prevFastSma := fastSma, sma_prevSlowSma := slowSma, sma_prevValid := True\<rparr>,
               candle_signal candle (sma_strategyId s) conviction))"

definition sma_getATR :: "sma \<Rightarrow> fp" where "sma_getATR s = sma_currentATR s"

definition sma_isATRValid :: "sma \<Rightarrow> bool" where "sma_isATRValid s = sma_atrValid s"

subsection \<open>Mean reversion: MeanReversionStrategy\<close>

record mean_reversion =
  mr_strategyId :: string
  mr_bbPeriod :: nat
  mr_bbStdDevMult :: fp
  mr_rsiPeriod :: nat
  mr_priceBuffer :: "fp list"
  mr_avgGain :: fp
  mr_avgLoss :: fp
  mr_prevClose :: fp
  mr_prevCloseValid :: bool
  mr_rsiSeeded :: bool
  mr_rsiSeedCount :: int
  mr_seedGainSum :: fp
  mr_seedLossSum :: fp
  mr_ready :: bool

definition mr_new :: "nat \<Rightarrow> fp \<Rightarrow> nat \<Rightarrow> string \<Rightarrow> mean_reversion" where
  "mr_new bbPeriod bbStdDevMult rsiPeriod strategyId =
     \<lparr>mr_strategyId = strategyId, mr_bbPeriod = bbPeriod, mr_bbStdDevMult = bbStdDevMult,
      mr_rsiPeriod = rsiPeriod, mr_priceBuffer = [], mr_avgGain = Fin 0, mr_avgLoss = Fin 0,
      mr_prevClose = Fin 0, mr_prevCloseValid = False, mr_rsiSeeded = False,
      mr_rsiSeedCount = 0, mr_seedGainSum = Fin 0, mr_seedLossSum = Fin 0, mr_ready = False\<rparr>"

definition calcMean :: "fp list \<Rightarrow> fp" where
  "calcMean buf = (if buf = [] then Fin 0 else fp_div binary64 (fp_sum buf) (fp_size (length buf)))"

definition calcStdDev :: "fp list \<Rightarrow> fp \<Rightarrow> fp" where
  "calcStdDev buf mean =
     (if length buf < 2 then Fin 0
      else
        let sumSq = foldl (\<lambda>sumSq v. let d = fp_sub binary64 v mean
              in fp_add binary64 sumSq (fp_mul binary64 d d)) (Fin 0) buf
        in fp_sqrt binary64 (fp_div binary64 sumSq (fp_size (length buf))))"

text \<open>A \<open>size_t\<close> converted to \<open>int\<close>.\<close>

definition size_to_int :: "nat \<Rightarrow> int" where
  "size_to_int n = signed_take_bit 31 (int n)"

definition mr_updateRSI :: "fp \<Rightarrow> mean_reversion \<Rightarrow> mean_reversion" where
  "mr_updateRSI close_price m =
     (let m = (if mr_prevCloseValid m then
            let change = fp_sub binary64 close_price (mr_prevClose m);
                gain = (if fp_less (Fin 0) change then change else Fin 0);
                loss = (if fp_less change (Fin 0) then fp_neg change else Fin 0)
            in if \<not> mr_rsiSeeded m then
                 let m = m\<lparr>mr_seedGainSum := fp_add binary64 (mr_seedGainSum m) gain,
                           mr_seedLossSum := fp_add binary64 (mr_seedLossSum m) loss,
                           mr_rsiSeedCount := mr_rsiSeedCount m + 1\<rparr>
                 in if mr_rsiSeedCount m = size_to_int (mr_rsiPeriod m)
                    then m\<lparr>mr_avgGain :=
                             fp_div binary64 (mr_seedGainSum m) (fp_size (mr_rsiPeriod m)),
                           mr_avgLoss :=
                             fp_div binary64 (mr_seedLossSum m) (fp_size (mr_rsiPeriod m)),
                           mr_rsiSeeded := True\<rparr>
                    else m
               else m\<lparr>mr_avgGain := wilder (mr_rsiPeriod m) (mr_avgGain m) gain,
                      mr_avgLoss := wilder (mr_rsiPeriod m) (mr_avgLoss m) loss\<rparr>
          else m)
      in m\<lparr>mr_prevClose := close_price, mr_prevCloseValid := True\<rparr>)"

definition bb_conviction :: "fp \<Rightarrow> mean_reversion \<Rightarrow> fp" where
  "bb_conviction close_price m =
     (let bbMean = calcMean (mr_priceBuffer m);
          bbStdDev = calcStdDev (mr_priceBuffer m) bbMean
      in if fp_less (Fin 0) bbStdDev then
           let upperBand = fp_add binary64 bbMean (fp_mul binary64 (mr_bbStdDevMult m) bbStdDev);
               lowerBand = fp_sub binary64 bbMean (fp_mul binary64 (mr_bbStdDevMult m) bbStdDev);
               bandWidth = fp_sub binary64 upperBand lowerBand
           in if fp_less (Fin 0) bandWidth then
                let pB = fp_div binary64 (fp_sub binary64 close_price lowerBand) bandWidth
                in fp_clamp (fp_sub binary64 (Fin 1) (fp_mul binary64 (Fin 2) pB)) (Fin (-1)) (Fin 1)
              else Fin 0
         else Fin 0)"

definition rsi_conviction :: "mean_reversion \<Rightarrow> fp" where
  "rsi_conviction m =
     (if fp_less (Fin 0) (mr_avgLoss m) then
        let rs = fp_div binary64 (mr_avgGain m) (mr_avgLoss m);
            rsi = fp_sub binary64 (Fin 100) (fp_div binary64 (Fin 100) (fp_add binary64 (Fin 1) rs));
            rsiNorm = fp_div binary64 (fp_sub binary64 rsi (Fin 50)) (Fin 50)
        in fp_neg rsiNorm
      else if fp_less (Fin 0) (mr_avgGain m) then Fin (-1) else Fin 0)"

definition mr_conviction :: "fp \<Rightarrow> mean_reversion \<Rightarrow> fp" where
  "mr_conviction close_price m =
     fp_clamp (fp_add binary64 (fp_mul binary64 (Fin (1 / 2)) (bb_conviction close_price m))
                 (fp_mul binary64 (Fin (1 / 2)) (rsi_conviction m))) (Fin (-1)) (Fin 1)"

definition mr_generateSignal ::
  "market_candle \<Rightarrow> mean_reversion \<Rightarrow> mean_reversion \<times> alpha_signal" where
  "mr_generateSignal candle m =
     (let m = m\<lparr>mr_priceBuffer :=
                  push_window (mr_bbPeriod m) (mc_close candle) (mr_priceBuffer m)\<rparr>;
          m = mr_updateRSI (mc_close candle) m;
          m = m\<lparr>mr_ready := (length (mr_priceBuffer m) = mr_bbPeriod m \<and> mr_rsiSeeded m)\<rparr>
      in if \<not> mr_ready m then (m, candle_signal candle (mr_strategyId m) (Fin 0))
         else (m, candle_signal candle (mr_strategyId m) (mr_conviction (mc_close candle) m)))"

definition mr_isReady :: "mean_reversion \<Rightarrow> bool" where "mr_isReady m = mr_ready m"

subsection \<open>The strategies of an event loop\<close>

datatype strategy = SmaCross sma | MeanReversion mean_reversion

fun generateSignal :: "market_candle \<Rightarrow> strategy \<Rightarrow> strategy \<times> alpha_signal" where
  "generateSignal candle (SmaCross s) =
     (case sma_generateSignal candle s of (s, a) \<Rightarrow> (SmaCross s, a))"
| "generateSignal candle (MeanReversion m) =
     (case mr_generateSignal candle m of (m, a) \<Rightarrow> (MeanReversion m, a))"

end
