(* ===== verification/Regime.thy ===== *)
theory Regime
  imports Alpha
begin

text \<open>
  The regime detector: include/RegimeDetector.hpp and src/RegimeDetector.cpp.  It smooths the
  directional movement of the candles it is fed and the variance of their returns, and classifies
  the market as trending, ranging or chaotic.
\<close>

datatype market_regime = Trend | Range | Chaos

record regime_state =
  rgs_smoothTR :: fp
  rgs_smoothDMPlus :: fp
  rgs_smoothDMMinus :: fp
  rgs_adx :: fp
  rgs_adxObservations :: int
  rgs_returnWindow :: "fp list"
  rgs_prevClose :: fp
  rgs_prevCloseValid :: bool
  rgs_variance :: fp
  rgs_prevHigh :: fp
  rgs_prevLow :: fp
  rgs_prevHLValid :: bool
  rgs_regime :: market_regime

record regime_detector =
  rd_adxPeriod :: int
  rd_varWindow :: int
  rd_varThreshold :: fp
  rd_adxTrendAbove :: fp
  rd_adxRangeBelow :: fp
  rd_state :: regime_state
  rd_regime :: market_regime
  rd_adx :: fp
  rd_variance :: fp

definition regime_state_default :: regime_state where
  "regime_state_default =
     \<lparr>rgs_smoothTR = Fin 0, rgs_smoothDMPlus = Fin 0, rgs_smoothDMMinus = Fin 0, rgs_adx = Fin 0,
      rgs_adxObservations = 0, rgs_returnWindow = [], rgs_prevClose = Fin 0,
      rgs_prevCloseValid = False, rgs_variance = Fin 0, rgs_prevHigh = Fin 0, rgs_prevLow = Fin 0,
      rgs_prevHLValid = False, rgs_regime = Chaos\<rparr>"

definition rd_new :: "int \<Rightarrow> int \<Rightarrow> fp \<Rightarrow> fp \<Rightarrow> fp \<Rightarrow> regime_detector" where
  "rd_new adxPeriod varWindow varThreshold adxTrendAbove adxRangeBelow =
     \<lparr>rd_adxPeriod = adxPeriod, rd_varWindow = varWindow, rd_varThreshold = varThreshold,
      rd_adxTrendAbove = adxTrendAbove, rd_adxRangeBelow = adxRangeBelow,
      rd_state = regime_state_default, rd_regime = Chaos, rd_adx = Fin 0, rd_variance = Fin 0\<rparr>"

definition rd_default :: regime_detector where
  "rd_default = rd_new 14 20 (fp_round binary64 (1 / 10000)) (Fin 25) (Fin 20)"

definition push_return :: "int \<Rightarrow> fp \<Rightarrow> fp list \<Rightarrow> fp list" where
  "push_return limit ret window =
     (let window = window @ [ret] in if limit < int (length window) then tl window else window)"

definition rd_updateVariance :: "int \<Rightarrow> fp \<Rightarrow> regime_state \<Rightarrow> regime_state" where
  "rd_updateVariance varWindow close_price s =
     (let s = (if rgs_prevCloseValid s \<and> fp_less (Fin 0) (rgs_prevClose s) then
            let ret = fp_div binary64 (fp_sub binary64 close_price (rgs_prevClose s))
                        (rgs_prevClose s);
                s = s\<lparr>rgs_returnWindow := push_return varWindow ret (rgs_returnWindow s)\<rparr>
            in if 2 \<le> length (rgs_returnWindow s)
               then s\<lparr>rgs_variance := window_variance (rgs_returnWindow s)\<rparr> else s
          else s)
      in s\<lparr>rgs_prevClose := close_price, rgs_prevCloseValid := True\<rparr>)"

text \<open>The directional index of the three smoothed sums.\<close>

definition di :: "fp \<Rightarrow> fp \<Rightarrow> fp" where
  "di smoothDM smoothTR =
     (if fp_less (Fin 0) smoothTR
      then fp_mul binary64 (fp_div binary64 smoothDM smoothTR) (Fin 100) else Fin 0)"

definition dx_of :: "regime_state \<Rightarrow> fp" where
  "dx_of s =
     (let diPlus = di (rgs_smoothDMPlus s) (rgs_smoothTR s);
          diMinus = di (rgs_smoothDMMinus s) (rgs_smoothTR s);
          diSum = fp_add binary64 diPlus diMinus
      in if fp_less (Fin 0) diSum
         then fp_mul binary64 (fp_div binary64 (fp_abs (fp_sub binary64 diPlus diMinus)) diSum)
                (Fin 100)
         else Fin 0)"

definition wilder_sum :: "int \<Rightarrow> fp \<Rightarrow> fp \<Rightarrow> fp" where
  "wilder_sum period old x =
     fp_add binary64 (fp_sub binary64 old (fp_div binary64 old (fp_of_int binary64 period))) x"

definition dm_plus :: "fp \<Rightarrow> fp \<Rightarrow> regime_state \<Rightarrow> fp" where
  "dm_plus h l s =
     (let up = fp_sub binary64 h (rgs_prevHigh s); down = fp_sub binary64 (rgs_prevLow s) l
      in if fp_less down up \<and> fp_less (Fin 0) up then up else Fin 0)"

definition dm_minus :: "fp \<Rightarrow> fp \<Rightarrow> regime_state \<Rightarrow> fp" where
  "dm_minus h l s =
     (let up = fp_sub binary64 h (rgs_prevHigh s); down = fp_sub binary64 (rgs_prevLow s) l
      in if fp_less up down \<and> fp_less (Fin 0) down then down else Fin 0)"

definition rd_updateADX :: "int \<Rightarrow> fp \<Rightarrow> fp \<Rightarrow> regime_state \<Rightarrow> regime_state" where
  "rd_updateADX adxPeriod h l s =
     (let s = (if rgs_prevHLValid s then
            let tr = trueRange h l (rgs_prevHigh s) (rgs_prevLow s);
                dmPlus = dm_plus h l s; dmMinus = dm_minus h l s;
                s = s\<lparr>rgs_adxObservations := rgs_adxObservations s + 1\<rparr>
            in if rgs_adxObservations s \<le> adxPeriod then
                 let s = s\<lparr>rgs_smoothTR := fp_add binary64 (rgs_smoothTR s) tr,
                           rgs_smoothDMPlus := fp_add binary64 (rgs_smoothDMPlus s) dmPlus,
                           rgs_smoothDMMinus := fp_add binary64 (rgs_smoothDMMinus s) dmMinus\<rparr>
                 in if rgs_adxObservations s = adxPeriod then s\<lparr>rgs_adx := dx_of s\<rparr> else s
               else
                 let s = s\<lparr>rgs_smoothTR := wilder_sum adxPeriod (rgs_smoothTR s) tr,
                           rgs_smoothDMPlus := wilder_sum adxPeriod (rgs_smoothDMPlus s) dmPlus,
                           rgs_smoothDMMinus := wilder_sum adxPeriod (rgs_smoothDMMinus s) dmMinus\<rparr>
                 in s\<lparr>rgs_adx := wilder_sum adxPeriod (rgs_adx s)
                       (fp_div binary64 (dx_of s) (fp_of_int binary64 adxPeriod))\<rparr>
          else s)
      in s\<lparr>rgs_prevHigh := h, rgs_prevLow := l, rgs_prevHLValid := True\<rparr>)"

definition classifyRegime :: "regime_detector \<Rightarrow> regime_detector" where
  "classifyRegime d =
     (let highVariance = fp_less (rd_varThreshold d) (rd_variance d)
      in if fp_less (rd_adxTrendAbove d) (rd_adx d) \<and> \<not> highVariance
         then d\<lparr>rd_regime := Trend\<rparr>
         else if fp_less (rd_adx d) (rd_adxRangeBelow d) \<and> \<not> highVariance
         then d\<lparr>rd_regime := Range\<rparr>
         else d\<lparr>rd_regime := Chaos\<rparr>)"

definition rd_update :: "fp \<Rightarrow> fp \<Rightarrow> fp \<Rightarrow> regime_detector \<Rightarrow> regime_detector \<times> market_regime" where
  "rd_update h l close_price d =
     (let s = rd_updateVariance (rd_varWindow d) close_price (rd_state d);
          d = d\<lparr>rd_variance := rgs_variance s\<rparr>;
          s = rd_updateADX (rd_adxPeriod d) h l s;
          d = classifyRegime (d\<lparr>rd_adx := rgs_adx s\<rparr>)
      in (d\<lparr>rd_state := s\<lparr>rgs_regime := rd_regime d\<rparr>\<rparr>, rd_regime d))"

definition rd_restoreState :: "regime_state \<Rightarrow> regime_detector \<Rightarrow> regime_detector" where
  "rd_restoreState s d =
     d\<lparr>rd_state := s, rd_regime := rgs_regime s, rd_adx := rgs_adx s,
       rd_variance := rgs_variance s\<rparr>"

fun regimeName :: "market_regime \<Rightarrow> string" where
  "regimeName Trend = ''TREND''"
| "regimeName Range = ''RANGE''"
| "regimeName Chaos = ''CHAOS''"

definition affinity :: "string \<Rightarrow> market_regime \<Rightarrow> fp" where
  "affinity sid r =
     (if r = Chaos then Fin 0
      else if sid = ''SMA_01'' then if r = Trend then Fin 1 else Fin (- 1 / 2)
      else if sid = ''MR_01'' then if r = Range then Fin 1 else Fin (- 1 / 2)
      else Fin 0)"

end
