(* ===== verification/Allocator.thy ===== *)
theory Allocator
  imports Regime
begin

text \<open>
  The allocator of the ensemble (include/PortfolioAllocator.hpp, src/PortfolioAllocator.cpp) and
  the telemetry that feeds it (include/AnalyticsEngine.hpp, src/AnalyticsEngine.cpp).  Hash maps
  are association lists; \<open>recomputeWeights\<close> adds up in the hash map's iteration order, which is the
  parameter \<open>order\<close>, a permutation.  The regime detector the allocator may point to is an
  argument.
\<close>

subsection \<open>The allocator\<close>

record phi_state =
  phs_strategyId :: string
  phs_pnlWindow :: "fp list"
  phs_phi :: fp

definition phi_default :: phi_state where
  "phi_default = \<lparr>phs_strategyId = [], phs_pnlWindow = [], phs_phi = Fin 0\<rparr>"

record allocation_result =
  alr_symbol :: string
  alr_action :: signal
  alr_totalConviction :: fp
  alr_dominantStrategyId :: string
  alr_regime :: market_regime

definition allocation_default :: allocation_result where
  "allocation_default =
     \<lparr>alr_symbol = [], alr_action = S_None, alr_totalConviction = Fin 0,
      alr_dominantStrategyId = [], alr_regime = Chaos\<rparr>"

record allocator =
  al_weights :: "(string \<times> fp) list"
  al_phiStates :: "(string \<times> phi_state) list"
  al_cachedDynamicWeights :: "(string \<times> fp) list"
  al_longThreshold :: fp
  al_shortThreshold :: fp
  al_hasDetector :: bool
  al_recomputeCount :: u64

definition al_new :: "fp \<Rightarrow> fp \<Rightarrow> allocator" where
  "al_new longThreshold shortThreshold =
     \<lparr>al_weights = [], al_phiStates = [], al_cachedDynamicWeights = [],
      al_longThreshold = longThreshold, al_shortThreshold = shortThreshold,
      al_hasDetector = False, al_recomputeCount = 0\<rparr>"

definition LAMBDA_REGIME :: fp where "LAMBDA_REGIME = fp_round binary64 (7 / 10)"
definition LAMBDA_PERF :: fp where "LAMBDA_PERF = fp_round binary64 (3 / 10)"
definition PHI_WINDOW :: int where "PHI_WINDOW = 20"

definition setWeight :: "string \<Rightarrow> fp \<Rightarrow> allocator \<Rightarrow> allocator" where
  "setWeight strategyId weight a = a\<lparr>al_weights := AList.update strategyId weight (al_weights a)\<rparr>"

definition getWeight :: "string \<Rightarrow> allocator \<Rightarrow> fp" where
  "getWeight strategyId a =
     (case map_of (al_weights a) strategyId of None \<Rightarrow> Fin 0 | Some w \<Rightarrow> w)"

definition setRegimeDetector :: "bool \<Rightarrow> allocator \<Rightarrow> allocator" where
  "setRegimeDetector attached a = a\<lparr>al_hasDetector := attached\<rparr>"

text \<open>The performance score of a window of closed trades.\<close>

definition gross_profit :: "fp list \<Rightarrow> fp" where
  "gross_profit window =
     foldl (\<lambda>s pnl. if fp_le (Fin 0) pnl then fp_add binary64 s pnl else s) (Fin 0) window"

definition gross_loss :: "fp list \<Rightarrow> fp" where
  "gross_loss window =
     foldl (\<lambda>s pnl. if fp_le (Fin 0) pnl then s else fp_add binary64 s (fp_abs pnl)) (Fin 0) window"

definition profit_factor :: "fp list \<Rightarrow> fp" where
  "profit_factor window =
     (if fp_eq (gross_loss window) (Fin 0)
      then if fp_less (Fin 0) (gross_profit window) then Fin 10 else Fin 1
      else fp_div binary64 (gross_profit window) (gross_loss window))"

definition phi_of_window :: "fp list \<Rightarrow> fp" where
  "phi_of_window window =
     (if window = [] then Fin 0
      else fp_max (Fin (-1)) (fp_min (Fin 1)
        (fp_div binary64 (fp_sub binary64 (profit_factor window) (Fin 1)) (Fin 2))))"

definition recomputePhi :: "phi_state \<Rightarrow> phi_state" where
  "recomputePhi ps = ps\<lparr>phs_phi := phi_of_window (phs_pnlWindow ps)\<rparr>"

text \<open>\<open>m_phiStates[strategyId]\<close> inserts a default state.\<close>

definition onTradeClosed :: "string \<Rightarrow> fp \<Rightarrow> allocator \<Rightarrow> allocator" where
  "onTradeClosed strategyId realizedPnL a =
     (let ps = (case map_of (al_phiStates a) strategyId of None \<Rightarrow> phi_default | Some ps \<Rightarrow> ps);
          ps = (if phs_strategyId ps = [] then ps\<lparr>phs_strategyId := strategyId\<rparr> else ps);
          ps = ps\<lparr>phs_pnlWindow := push_return PHI_WINDOW realizedPnL (phs_pnlWindow ps)\<rparr>
      in a\<lparr>al_phiStates := AList.update strategyId (recomputePhi ps) (al_phiStates a)\<rparr>)"

definition getPhi :: "string \<Rightarrow> allocator \<Rightarrow> fp" where
  "getPhi strategyId a =
     (case map_of (al_phiStates a) strategyId of None \<Rightarrow> Fin 0 | Some ps \<Rightarrow> phs_phi ps)"

definition fresh_weight :: "string \<Rightarrow> market_regime \<Rightarrow> allocator \<Rightarrow> fp" where
  "fresh_weight sid regime a =
     fp_add binary64 (fp_mul binary64 LAMBDA_REGIME (affinity sid regime))
       (fp_mul binary64 LAMBDA_PERF (getPhi sid a))"

definition computeDynamicWeight :: "string \<Rightarrow> market_regime \<Rightarrow> allocator \<Rightarrow> fp" where
  "computeDynamicWeight strategyId regime a =
     (case map_of (al_cachedDynamicWeights a) strategyId of
        Some w \<Rightarrow> w
      | None \<Rightarrow> fresh_weight strategyId regime a)"

definition sum_abs :: "fp list \<Rightarrow> fp" where
  "sum_abs ws = foldl (\<lambda>s w. fp_add binary64 s (fp_abs w)) (Fin 0) ws"

definition scale_weights :: "fp list \<Rightarrow> fp list" where
  "scale_weights ws =
     (if fp_less (Fin 1) (sum_abs ws) then map (\<lambda>w. fp_div binary64 w (sum_abs ws)) ws else ws)"

definition known_strategies :: "allocator \<Rightarrow> string list" where
  "known_strategies a =
     (let seen = remdups (map fst (al_weights a) @ map fst (al_phiStates a))
      in if seen = [] then [''SMA_01'', ''MR_01''] else seen)"

definition recomputeWeights ::
  "(string list \<Rightarrow> string list) \<Rightarrow> market_regime \<Rightarrow> allocator \<Rightarrow> allocator" where
  "recomputeWeights order regime a =
     (let sids = order (known_strategies a);
          ws = map (\<lambda>sid. fresh_weight sid regime a) sids
      in a\<lparr>al_cachedDynamicWeights := zip sids (scale_weights ws),
           al_recomputeCount := al_recomputeCount a + 1\<rparr>)"

definition signal_weight :: "bool \<Rightarrow> market_regime \<Rightarrow> allocator \<Rightarrow> alpha_signal \<Rightarrow> fp" where
  "signal_weight dynamic regime a s =
     (if dynamic then computeDynamicWeight (als_strategy_id s) regime a
      else case map_of (al_weights a) (als_strategy_id s) of None \<Rightarrow> Fin 1 | Some w \<Rightarrow> w)"

text \<open>The weighted sum, the largest weighted conviction so far and the strategy it is of.\<close>

fun weigh :: "(fp \<times> alpha_signal) list \<Rightarrow> fp \<times> fp \<times> string \<Rightarrow> fp \<times> fp \<times> string" where
  "weigh [] acc = acc"
| "weigh ((w, s) # rest) (conv, best, dominant) =
     (let x = fp_mul binary64 w (als_conviction s);
          conv = fp_add binary64 conv x;
          wAbs = fp_abs x
      in weigh rest (if fp_less best wAbs then (conv, wAbs, als_strategy_id s)
                     else (conv, best, dominant)))"

definition gate_action :: "fp \<Rightarrow> allocator \<Rightarrow> signal" where
  "gate_action totalConviction a =
     (if fp_le (al_longThreshold a) totalConviction then S_Buy
      else if fp_le totalConviction (fp_neg (al_shortThreshold a)) then S_Sell
      else S_None)"

definition ensemble :: "market_regime \<Rightarrow> alpha_signal list \<Rightarrow> allocator \<Rightarrow> allocation_result" where
  "ensemble detectorRegime signals a =
     (case signals of
        [] \<Rightarrow> allocation_default
      | front # _ \<Rightarrow>
          (let dynamic = al_hasDetector a;
               regime = (if dynamic then detectorRegime else Chaos);
               weights = map (signal_weight dynamic regime a) signals;
               weights = (if dynamic then scale_weights weights else weights)
           in case weigh (zip weights signals) (Fin 0, Fin (-1), []) of
                (conv, best, dominant) \<Rightarrow>
                  \<lparr>alr_symbol = als_symbol front, alr_action = gate_action conv a,
                   alr_totalConviction = conv, alr_dominantStrategyId = dominant,
                   alr_regime = regime\<rparr>))"

definition restorePhiStates :: "(string \<times> phi_state) list \<Rightarrow> allocator \<Rightarrow> allocator" where
  "restorePhiStates s a = a\<lparr>al_phiStates := s\<rparr>"

subsection \<open>Telemetry: AnalyticsEngine\<close>

record trade_log_entry =
  tle_timestamp :: u64
  tle_side :: char
  tle_price :: fp
  tle_quantity :: fp
  tle_fee :: fp
  tle_realizedPnL :: fp
  tle_grossPnL :: fp
  tle_strategy_id :: string

record equity_point =
  eqp_timestamp :: u64
  eqp_equity :: fp
  eqp_drawdownPct :: fp
  eqp_openPositions :: int
  eqp_var95 :: fp

record slippage_point =
  slp_timestamp :: u64
  slp_symbol :: string
  slp_expectedPrice :: fp
  slp_actualPrice :: fp
  slp_quantity :: fp
  slp_slippageBps :: fp

record regime_matrix_point =
  rmp_timestamp :: u64
  rmp_symbol :: string
  rmp_regime :: string
  rmp_adx :: fp
  rmp_variance :: fp

record analytics =
  an_trades :: "trade_log_entry list"
  an_equity :: "equity_point list"
  an_slippage :: "slippage_point list"
  an_regimeMatrix :: "regime_matrix_point list"
  an_hasAllocator :: bool
  an_slippageEwmaBps :: fp

definition an_new :: analytics where
  "an_new = \<lparr>an_trades = [], an_equity = [], an_slippage = [], an_regimeMatrix = [],
     an_hasAllocator = False, an_slippageEwmaBps = Fin 0\<rparr>"

definition SLIPPAGE_ALPHA :: fp where "SLIPPAGE_ALPHA = fp_round binary64 (2 / 10)"

definition setPortfolioAllocator :: "bool \<Rightarrow> analytics \<Rightarrow> analytics" where
  "setPortfolioAllocator attached an = an\<lparr>an_hasAllocator := attached\<rparr>"

definition recordTrade ::
  "trade_log_entry \<Rightarrow> analytics \<Rightarrow> allocator \<Rightarrow> analytics \<times> allocator" where
  "recordTrade entry an a =
     (an\<lparr>an_trades := an_trades an @ [entry]\<rparr>,
      if an_hasAllocator an \<and> tle_side entry = CHR ''S'' \<and> tle_strategy_id entry \<noteq> []
      then onTradeClosed (tle_strategy_id entry) (tle_realizedPnL entry) a else a)"

definition recordEquity :: "equity_point \<Rightarrow> analytics \<Rightarrow> analytics" where
  "recordEquity point an = an\<lparr>an_equity := an_equity an @ [point]\<rparr>"

definition ewma_step :: "fp \<Rightarrow> fp \<Rightarrow> fp" where
  "ewma_step ewma bps =
     fp_add binary64 (fp_mul binary64 SLIPPAGE_ALPHA bps)
       (fp_mul binary64 (fp_sub binary64 (Fin 1) SLIPPAGE_ALPHA) ewma)"

definition recordSlippage ::
  "u64 \<Rightarrow> string \<Rightarrow> fp \<Rightarrow> fp \<Rightarrow> fp \<Rightarrow> analytics \<Rightarrow> analytics" where
  "recordSlippage timestamp symbol expectedPrice actualPrice quantity an =
     (if fp_le expectedPrice (Fin 0) \<or> fp_le quantity (Fin 0) then an
      else
        let bps = fp_mul binary64
                    (fp_div binary64 (fp_sub binary64 actualPrice expectedPrice) expectedPrice)
                    (Fin 10000);
            an = an\<lparr>an_slippage := an_slippage an @
              [\<lparr>slp_timestamp = timestamp, slp_symbol = symbol, slp_expectedPrice = expectedPrice,
                slp_actualPrice = actualPrice, slp_quantity = quantity, slp_slippageBps = bps\<rparr>]\<rparr>
        in if length (an_slippage an) = 1 then an\<lparr>an_slippageEwmaBps := bps\<rparr>
           else an\<lparr>an_slippageEwmaBps := ewma_step (an_slippageEwmaBps an) bps\<rparr>)"

definition recordRegimeMatrix :: "regime_matrix_point \<Rightarrow> analytics \<Rightarrow> analytics" where
  "recordRegimeMatrix point an = an\<lparr>an_regimeMatrix := an_regimeMatrix an @ [point]\<rparr>"

text \<open>The column of averages that \<open>finalize\<close> writes beside the slippage points.\<close>

fun ewma_column :: "nat \<Rightarrow> fp \<Rightarrow> slippage_point list \<Rightarrow> fp list" where
  "ewma_column i ewma [] = []"
| "ewma_column i ewma (s # rest) =
     (let ewma = (if i = 0 then slp_slippageBps s else ewma_step ewma (slp_slippageBps s))
      in ewma # ewma_column (i + 1) ewma rest)"

end
