(* ===== verification/Execution.thy ===== *)
theory Execution
  imports Gateway Allocator TriggerOrders
begin

text \<open>
  The execution engine: include/ExecutionEngine.hpp and src/ExecutionEngine.cpp.  The engines of
  a process, one per symbol, share the portfolio, the risk engine, the telemetry, the allocator
  and the broker gateway they refer to; all of them are one state here, and an engine is named by
  its index.  The gateway's observers are the engines in the order they were bound.

  An operation's result is the new state with what the function returns or the exception that
  leaves it; the state keeps what was changed before the throw.  Every reading of the steady clock
  is a reading of its own, in nanoseconds.  The strategy an engine takes its volatility from is
  an argument.  Counters of type \<open>int\<close> are unbounded.
\<close>

subsection \<open>State\<close>

text \<open>What surrounds a run: the format of \<open>long double\<close>, the iteration order of the positions,
  an adapter's functions, and the clock.\<close>

record 'x host =
  hs_format :: fp_format
  hs_order :: "positions \<Rightarrow> positions"
  hs_ops :: "'x adapter_ops"
  hs_clock :: "nat \<Rightarrow> i64"

record engine =
  en_symbol :: string
  en_feeRate :: fraction
  en_slippage :: fraction
  en_riskPct :: fp
  en_hasAnalytics :: bool
  en_hasGateway :: bool
  en_triggers :: "triggers option"
  en_signalCount :: int
  en_filledCount :: int
  en_blockedCount :: int
  en_nextLocalOrderId :: u64
  en_lastRouteLatencyMs :: fp
  en_maxRouteLatencyMs :: fp
  en_latencyBreaches :: u64
  en_pendingBrokerQty :: "u64 \<rightharpoonup> quantity"
  en_appliedBrokerQty :: "u64 \<rightharpoonup> quantity"
  en_lastBrokerOrderId :: u64

record 'x sys =
  sys_portfolio :: portfolio
  sys_risk :: risk
  sys_analytics :: analytics
  sys_allocator :: allocator
  sys_gateway :: "'x gateway"
  sys_engines :: "engine list"
  sys_observers :: "nat list"
  sys_ticks :: nat

type_synonym ('x, 'r) outcome = "'x sys \<times> (pm_error + 'r)"

definition engine_at :: "nat \<Rightarrow> 'x sys \<Rightarrow> engine" where
  "engine_at k s = sys_engines s ! k"

definition on_engine :: "nat \<Rightarrow> (engine \<Rightarrow> engine) \<Rightarrow> 'x sys \<Rightarrow> 'x sys" where
  "on_engine k f s = s\<lparr>sys_engines := (sys_engines s)[k := f (sys_engines s ! k)]\<rparr>"

definition count_signal :: "engine \<Rightarrow> engine" where
  "count_signal e = e\<lparr>en_signalCount := en_signalCount e + 1\<rparr>"

definition count_filled :: "engine \<Rightarrow> engine" where
  "count_filled e = e\<lparr>en_filledCount := en_filledCount e + 1\<rparr>"

definition count_blocked :: "engine \<Rightarrow> engine" where
  "count_blocked e = e\<lparr>en_blockedCount := en_blockedCount e + 1\<rparr>"

definition clock_now :: "'x host \<Rightarrow> 'x sys \<Rightarrow> i64" where
  "clock_now host s = hs_clock host (sys_ticks s)"

definition tick :: "'x sys \<Rightarrow> 'x sys" where
  "tick s = s\<lparr>sys_ticks := sys_ticks s + 1\<rparr>"

text \<open>\<open>m_riskEngine.reportApiError()\<close>, which reads the clock.\<close>

definition report_error :: "'x host \<Rightarrow> 'x sys \<Rightarrow> 'x sys" where
  "report_error host s =
     tick (s\<lparr>sys_risk := reportApiError (clock_now host s) (sys_risk s)\<rparr>)"

definition sys_canTrade :: "'x sys \<Rightarrow> bool" where
  "sys_canTrade s = canTrade (sys_portfolio s) (sys_risk s)"

definition fraction_config :: "fp_format \<Rightarrow> fp \<Rightarrow> fraction option" where
  "fraction_config L v =
     (case fraction_of L v NearestTiesAwayFromZero of
        None \<Rightarrow> None
      | Some f \<Rightarrow> if isNegative f \<or> units f \<ge> SCALE_FACTOR then None else Some f)"

definition engine_new :: "fp_format \<Rightarrow> string \<Rightarrow> fp \<Rightarrow> fp \<Rightarrow> fp \<Rightarrow> pm_error + engine" where
  "engine_new L symbol feeRate slippageBps riskPct =
     (case (fraction_config L feeRate,
            fraction_config L (fp_div binary64 slippageBps (Fin 10000))) of
        (Some f, Some sl) \<Rightarrow>
          if \<not> fp_isfinite riskPct \<or> fp_less riskPct (Fin 0)
          then Inl (InvalidArgument ''ExecutionEngine: invalid financial configuration'')
          else Inr \<lparr>en_symbol = symbol, en_feeRate = f, en_slippage = sl, en_riskPct = riskPct,
            en_hasAnalytics = False, en_hasGateway = False, en_triggers = None,
            en_signalCount = 0, en_filledCount = 0, en_blockedCount = 0,
            en_nextLocalOrderId = 1, en_lastRouteLatencyMs = Fin 0,
            en_maxRouteLatencyMs = Fin 0, en_latencyBreaches = 0,
            en_pendingBrokerQty = Map.empty, en_appliedBrokerQty = Map.empty,
            en_lastBrokerOrderId = 0\<rparr>
      | _ \<Rightarrow> Inl (InvalidArgument ''ExecutionEngine: invalid financial configuration''))"

definition setAnalyticsEngine :: "bool \<Rightarrow> engine \<Rightarrow> engine" where
  "setAnalyticsEngine attached e = e\<lparr>en_hasAnalytics := attached\<rparr>"

definition bindTriggerOrderManager :: "triggers option \<Rightarrow> engine \<Rightarrow> engine" where
  "bindTriggerOrderManager manager e = e\<lparr>en_triggers := manager\<rparr>"

text \<open>Binding a gateway sets the paper adapter's costs and adds the engine as an observer.\<close>

definition bindBrokerGateway :: "'x host \<Rightarrow> nat \<Rightarrow> bool \<Rightarrow> 'x sys \<Rightarrow> 'x sys" where
  "bindBrokerGateway host k gateway s =
     (let s = on_engine k (\<lambda>e. e\<lparr>en_hasGateway := gateway\<rparr>) s; e = engine_at k s
      in if \<not> gateway then s
         else
           let g = fst (gw_setPaperSimulationCosts (hs_format host) (toDouble (en_feeRate e))
                 (fp_mul binary64 (toDouble (en_slippage e)) (Fin 10000)) (sys_gateway s))
           in s\<lparr>sys_gateway := gw_addExecutionCallback True g,
                sys_observers := sys_observers s @ [k]\<rparr>)"

subsection \<open>Telemetry of a fill\<close>

text \<open>Two records per fill: the trade, and the slippage against the requested price.\<close>

definition record_trade :: "engine \<Rightarrow> trade_log_entry \<Rightarrow> 'x sys \<Rightarrow> 'x sys" where
  "record_trade e entry s =
     (if en_hasAnalytics e then
        (case recordTrade entry (sys_analytics s) (sys_allocator s) of
           (an, al) \<Rightarrow> s\<lparr>sys_analytics := an, sys_allocator := al\<rparr>)
      else s)"

definition record_slippage ::
  "engine \<Rightarrow> u64 \<Rightarrow> fp \<Rightarrow> fp \<Rightarrow> fp \<Rightarrow> 'x sys \<Rightarrow> 'x sys" where
  "record_slippage e timestamp expected actual quantity s =
     (if en_hasAnalytics e
      then s\<lparr>sys_analytics := recordSlippage timestamp (en_symbol e) expected actual quantity
               (sys_analytics s)\<rparr>
      else s)"

text \<open>The profit of the trade just recorded in the portfolio's log.\<close>

definition last_pnl :: "portfolio \<Rightarrow> fp \<times> fp" where
  "last_pnl p = (if pm_tradeLog p = [] then (Fin 0, Fin 0)
     else (trd_realizedPnL (last (pm_tradeLog p)), trd_grossPnL (last (pm_tradeLog p))))"

definition buy_entry :: "u64 \<Rightarrow> fp \<Rightarrow> fp \<Rightarrow> fp \<Rightarrow> string \<Rightarrow> trade_log_entry" where
  "buy_entry timestamp price quantity feeValue strategyId =
     \<lparr>tle_timestamp = timestamp, tle_side = CHR ''B'', tle_price = price,
      tle_quantity = quantity, tle_fee = feeValue, tle_realizedPnL = Fin 0,
      tle_grossPnL = Fin 0, tle_strategy_id = strategyId\<rparr>"

definition sell_entry :: "u64 \<Rightarrow> fp \<Rightarrow> fp \<Rightarrow> fp \<Rightarrow> string \<Rightarrow> portfolio \<Rightarrow> trade_log_entry" where
  "sell_entry timestamp price quantity feeValue strategyId p =
     \<lparr>tle_timestamp = timestamp, tle_side = CHR ''S'', tle_price = price,
      tle_quantity = quantity, tle_fee = feeValue, tle_realizedPnL = fst (last_pnl p),
      tle_grossPnL = snd (last_pnl p), tle_strategy_id = strategyId\<rparr>"

subsection \<open>Fills reported by the broker\<close>

text \<open>The four amounts of an execution, if they are representable and have the right signs.\<close>

definition execution_amounts ::
  "fp_format \<Rightarrow> execution_event \<Rightarrow> (quantity \<times> quantity \<times> price \<times> money) option" where
  "execution_amounts L execution =
     (case (quantity_of L (decimal_toDouble (exe_cumulativeFilledQuantity execution))
              RejectUnaligned,
            quantity_of L (decimal_toDouble (exe_remainingQuantity execution)) RejectUnaligned,
            price_of L (decimal_toDouble (exe_fillPrice execution)) RejectUnaligned,
            money_of L (decimal_toDouble (exe_fee execution)) RejectUnaligned) of
        (Some cumulative, Some remaining, Some fillPrice, Some fillFee) \<Rightarrow>
          if \<not> isPositive cumulative \<or> isNegative remaining \<or> \<not> isPositive fillPrice
             \<or> isNegative fillFee then None
          else Some (cumulative, remaining, fillPrice, fillFee)
      | _ \<Rightarrow> None)"

text \<open>The accounting of the increment; \<open>None\<close> where the code reports an API error instead.\<close>

definition apply_buy_fill ::
  "'x host \<Rightarrow> engine \<Rightarrow> price \<Rightarrow> quantity \<Rightarrow> money \<Rightarrow> u64 \<Rightarrow> string \<Rightarrow> portfolio
   \<Rightarrow> portfolio option" where
  "apply_buy_fill host e fillPrice incremental fillFee timestamp strategyId p =
     (let L = hs_format host
      in case notional fillPrice incremental NearestTiesAwayFromZero of
        None \<Rightarrow> None
      | Some cost \<Rightarrow> (case add_value cost fillFee of
          None \<Rightarrow> None
        | Some debit \<Rightarrow>
            (case (if \<not> hasPosition (en_symbol e) p
                   then openLong L (hs_order host) (en_symbol e) (toDouble fillPrice) timestamp
                          (toDouble fillFee) (toDouble debit) (toDouble incremental) strategyId p
                   else addToLong L (hs_order host) (en_symbol e) (toDouble fillPrice)
                          (toDouble incremental) (toDouble fillFee) (toDouble debit) strategyId p) of
               Inl _ \<Rightarrow> None
             | Inr p \<Rightarrow> Some p)))"

definition apply_sell_fill ::
  "'x host \<Rightarrow> engine \<Rightarrow> price \<Rightarrow> quantity \<Rightarrow> money \<Rightarrow> u64 \<Rightarrow> string \<Rightarrow> portfolio
   \<Rightarrow> portfolio option" where
  "apply_sell_fill host e fillPrice incremental fillFee timestamp strategyId p =
     (let L = hs_format host
      in case quantity_of L (getPositionQuantity (en_symbol e) p) RejectUnaligned of
        None \<Rightarrow> None
      | Some held \<Rightarrow>
          if \<not> isPositive held \<or> units incremental > units held then None
          else (case closePosition L (hs_order host) (en_symbol e) (toDouble fillPrice) timestamp
                  (toDouble fillFee) strategyId (toDouble incremental) p of
                  Inl _ \<Rightarrow> None
                | Inr p \<Rightarrow> Some p))"

definition settle_fill :: "u64 \<Rightarrow> quantity \<Rightarrow> quantity \<Rightarrow> engine \<Rightarrow> engine" where
  "settle_fill i cumulative remaining e =
     (if isPositive remaining
      then e\<lparr>en_appliedBrokerQty := (en_appliedBrokerQty e)(i \<mapsto> cumulative),
             en_pendingBrokerQty := (en_pendingBrokerQty e)(i \<mapsto> remaining)\<rparr>
      else e\<lparr>en_appliedBrokerQty := (en_appliedBrokerQty e)(i := None),
             en_pendingBrokerQty := (en_pendingBrokerQty e)(i := None)\<rparr>)"

text \<open>The fill of a known order, once the state has been brought up to date.\<close>

definition finish_fill ::
  "nat \<Rightarrow> u64 \<Rightarrow> quantity \<Rightarrow> quantity \<Rightarrow> 'x sys \<Rightarrow> 'x sys" where
  "finish_fill k i cumulative remaining s =
     (let e = engine_at k s;
          s = s\<lparr>sys_risk := syncPosition (en_symbol e)
                 (getPositionQuantity (en_symbol e) (sys_portfolio s)) (sys_risk s)\<rparr>
      in on_engine k (\<lambda>e. settle_fill i cumulative remaining
           ((count_filled e)\<lparr>en_lastBrokerOrderId := i\<rparr>)) s)"

definition previous_fill :: "engine \<Rightarrow> u64 \<Rightarrow> quantity" where
  "previous_fill e i =
     (case en_appliedBrokerQty e i of None \<Rightarrow> FValue 0 | Some q \<Rightarrow> q)"

text \<open>The fill in the portfolio, by the side of the order, and its two records.\<close>

definition apply_fill ::
  "'x host \<Rightarrow> engine \<Rightarrow> order_request \<Rightarrow> price \<Rightarrow> quantity \<Rightarrow> money \<Rightarrow> u64 \<Rightarrow> portfolio
   \<Rightarrow> portfolio option" where
  "apply_fill host e request fillPrice incremental fillFee timestamp p =
     (if req_side request = Buy
      then apply_buy_fill host e fillPrice incremental fillFee timestamp (req_sourceId request) p
      else apply_sell_fill host e fillPrice incremental fillFee timestamp (req_sourceId request) p)"

definition record_fill ::
  "engine \<Rightarrow> order_request \<Rightarrow> price \<Rightarrow> quantity \<Rightarrow> money \<Rightarrow> u64 \<Rightarrow> portfolio \<Rightarrow> 'x sys \<Rightarrow> 'x sys"
where
  "record_fill e request fillPrice incremental fillFee timestamp p s =
     (let strategyId = req_sourceId request;
          requestedPrice = (case req_referencePrice request of
              Some d \<Rightarrow> decimal_toDouble d | None \<Rightarrow> toDouble fillPrice);
          entry = (if req_side request = Buy
            then buy_entry timestamp (toDouble fillPrice) (toDouble incremental)
                   (toDouble fillFee) strategyId
            else sell_entry timestamp (toDouble fillPrice) (toDouble incremental)
                   (toDouble fillFee) strategyId p)
      in record_slippage e timestamp requestedPrice (toDouble fillPrice) (toDouble incremental)
           (record_trade e entry (s\<lparr>sys_portfolio := p\<rparr>)))"

definition onBrokerExecution :: "'x host \<Rightarrow> nat \<Rightarrow> execution_event \<Rightarrow> 'x sys \<Rightarrow> 'x sys" where
  "onBrokerExecution host k execution s =
     (let e = engine_at k s; i = exe_localOrderId execution; t = exe_timestampNs execution
      in if \<not> en_hasGateway e then s
         else case gw_orderLifecycle i (sys_gateway s) of
           None \<Rightarrow> report_error host s
         | Some lifecycle \<Rightarrow>
             let request = lr_request lifecycle
             in if req_canonicalSymbol request \<noteq> en_symbol e then report_error host s
                else case execution_amounts (hs_format host) execution of
                  None \<Rightarrow> report_error host s
                | Some (cumulative, remaining, fillPrice, fillFee) \<Rightarrow>
                  (case subtract_value cumulative (previous_fill e i) of
                     None \<Rightarrow> report_error host s
                   | Some incremental \<Rightarrow>
                     if \<not> isPositive incremental then report_error host s
                     else case apply_fill host e request fillPrice incremental fillFee t
                                 (sys_portfolio s) of
                            None \<Rightarrow> report_error host s
                          | Some p \<Rightarrow>
                              finish_fill k i cumulative remaining
                                (record_fill e request fillPrice incremental fillFee t p s)))"

text \<open>What the gateway reports while it runs: the observers are the engines bound to it, and the
  acknowledgement callback is the one main.cpp installs.\<close>

fun deliver :: "'x host \<Rightarrow> gw_output \<Rightarrow> 'x sys \<Rightarrow> 'x sys" where
  "deliver host (OutAck ack) s = (if \<not> ack_accepted ack then report_error host s else s)"
| "deliver host (OutObserver j execution) s =
     onBrokerExecution host (sys_observers s ! j) execution s"
| "deliver host _ s = s"

definition deliver_all :: "'x host \<Rightarrow> gw_output list \<Rightarrow> 'x sys \<Rightarrow> 'x sys" where
  "deliver_all host out s = fold (deliver host) out s"

text \<open>An event the adapter reports on its own: the gateway's handler, then the callbacks.\<close>

definition broker_event :: "'x host \<Rightarrow> adapter_event \<Rightarrow> 'x sys \<Rightarrow> 'x sys" where
  "broker_event host ev s =
     (case gw_event ev (sys_gateway s) of
        (g, out) \<Rightarrow> deliver_all host out (s\<lparr>sys_gateway := g\<rparr>))"

subsection \<open>Routing an order to the gateway\<close>

definition executionKey :: "u64 \<Rightarrow> string" where
  "executionKey localOrderId = ''execution-'' @ to_string localOrderId"

definition market_request ::
  "engine \<Rightarrow> bool \<Rightarrow> quantity \<Rightarrow> price \<Rightarrow> u64 \<Rightarrow> string \<Rightarrow> order_request" where
  "market_request e isBuy quantity requestedPrice timestamp strategyId =
     \<lparr>req_schemaVersion = 1, req_localOrderId = en_nextLocalOrderId e,
      req_canonicalSymbol = en_symbol e, req_side = (if isBuy then Buy else Sell),
      req_type = OT_Market, req_quantity = decimal (units quantity) SCALE,
      req_limitPrice = None, req_stopPrice = None,
      req_referencePrice = Some (decimal (units requestedPrice) SCALE),
      req_sourceId = strategyId, req_timestampNs = timestamp, req_sequence = 1,
      req_idempotencyKey = executionKey (en_nextLocalOrderId e)\<rparr>"

definition final_risk :: "bool \<Rightarrow> bool \<Rightarrow> risk_decision" where
  "final_risk isBuy tradable =
     (let allowed = (\<not> isBuy \<or> tradable)
      in \<lparr>rsk_allowed = allowed, rsk_riskIncreasing = isBuy,
          rsk_failure = (if allowed then F_None else F_Validation), rsk_action = B_Halt,
          rsk_reason = (if allowed then []
                        else ''RiskEngine rejected risk-increasing entry'')\<rparr>)"

definition ceil_u32 :: "fp \<Rightarrow> u32" where
  "ceil_u32 v = (case v of Fin x \<Rightarrow> word_of_int \<lceil>x\<rceil> | _ \<Rightarrow> 0)"

definition elapsed_ms :: "i64 \<Rightarrow> i64 \<Rightarrow> fp" where
  "elapsed_ms t0 t1 =
     fp_div binary64 (fp_of_int binary64 (t1 - t0)) (fp_of_int binary64 1000000)"

definition note_latency :: "nat \<Rightarrow> fp \<Rightarrow> 'x sys \<Rightarrow> 'x sys" where
  "note_latency k elapsed s =
     (let s = on_engine k (\<lambda>e. e\<lparr>en_lastRouteLatencyMs := elapsed,
            en_maxRouteLatencyMs := (if fp_less (en_maxRouteLatencyMs e) elapsed then elapsed
                                     else en_maxRouteLatencyMs e)\<rparr>) s
      in if fp_less (Fin 5) elapsed
         then on_engine k (\<lambda>e. e\<lparr>en_latencyBreaches := en_latencyBreaches e + 1\<rparr>)
                (s\<lparr>sys_risk := reportLatency (ceil_u32 elapsed) (sys_risk s)\<rparr>)
         else s)"

definition dispatchBrokerOrder ::
  "'x host \<Rightarrow> nat \<Rightarrow> bool \<Rightarrow> quantity \<Rightarrow> price \<Rightarrow> u64 \<Rightarrow> string \<Rightarrow> 'x sys \<Rightarrow> 'x sys \<times> bool" where
  "dispatchBrokerOrder host k isBuy quantity requestedPrice timestamp strategyId s =
     (let signalNs = clock_now host s; s = tick s
      in if \<not> en_hasGateway (engine_at k s) \<or> \<not> gw_isConnected (hs_ops host) (sys_gateway s)
         then (on_engine k count_blocked s, False)
         else
           let request = market_request (engine_at k s) isBuy quantity requestedPrice timestamp
                 strategyId;
               s = on_engine k (\<lambda>e. e\<lparr>en_nextLocalOrderId := en_nextLocalOrderId e + 1\<rparr>) s
           in case normalizeOrder request (sys_gateway s) of
                Inl _ \<Rightarrow> (on_engine k count_blocked s, False)
              | Inr order \<Rightarrow>
                let finalRisk = final_risk isBuy (isBuy \<and> sys_canTrade s);
                    s = (if rsk_allowed finalRisk then s else on_engine k count_blocked s);
                    elapsed = elapsed_ms signalNs (clock_now host s);
                    s = note_latency k elapsed (tick s)
                in case dispatchOrder (hs_format host) (hs_ops host) order finalRisk
                          (sys_gateway s) of
                     (g, result, out) \<Rightarrow>
                       let s = deliver_all host out (s\<lparr>sys_gateway := g\<rparr>)
                       in if \<not> dsp_dispatched result then
                            if rsk_allowed finalRisk \<and> dsp_failure result \<noteq> F_None
                            then (on_engine k count_blocked (report_error host s), False)
                            else (s, False)
                          else (on_engine k (\<lambda>e. e\<lparr>en_lastBrokerOrderId :=
                                  dsp_localOrderId result\<rparr>) s, True))"

end
