(* ===== verification/ExecutionOrders.thy ===== *)
theory ExecutionOrders
  imports Execution
begin

text \<open>
  The execution engine's orders: market orders on a signal, pending orders on a candle, and
  trigger orders on the order book (src/ExecutionEngine.cpp, from \<open>execute\<close> on).
\<close>

subsection \<open>Sizing\<close>

text \<open>Cost, fee and debit of a quantity at a price.\<close>

definition order_amounts ::
  "price \<Rightarrow> fraction \<Rightarrow> quantity \<Rightarrow> (money \<times> money \<times> money) option" where
  "order_amounts price rate quantity =
     (case notional price quantity NearestTiesAwayFromZero of
        None \<Rightarrow> None
      | Some cost \<Rightarrow> (case fee cost rate NearestTiesAwayFromZero of
          None \<Rightarrow> None
        | Some feeValue \<Rightarrow> (case add_value cost feeValue of
            None \<Rightarrow> None
          | Some debit \<Rightarrow> Some (cost, feeValue, debit))))"

definition affordable_units :: "money \<Rightarrow> fraction \<Rightarrow> price \<Rightarrow> quantity option" where
  "affordable_units budget rate price =
     (case notionalBeforeFee budget rate TowardZero of
        None \<Rightarrow> None
      | Some notionalBudget \<Rightarrow> (case quantityForNotional notionalBudget price TowardZero of
          None \<Rightarrow> None
        | Some q \<Rightarrow> if isPositive q then Some q else None))"

definition within_budget ::
  "price \<Rightarrow> fraction \<Rightarrow> money \<Rightarrow> quantity \<Rightarrow> (quantity \<times> money \<times> money) option" where
  "within_budget price rate budget quantity =
     (case order_amounts price rate quantity of
        None \<Rightarrow> None
      | Some (cost, feeValue, debit) \<Rightarrow>
          if units debit > units budget then None else Some (quantity, feeValue, debit))"

text \<open>Quantity, fee and debit: the wanted quantity, or else what the budget affords.\<close>

definition fit_budget ::
  "price \<Rightarrow> fraction \<Rightarrow> money \<Rightarrow> quantity \<Rightarrow> (quantity \<times> money \<times> money) option" where
  "fit_budget price rate budget wanted =
     (case within_budget price rate budget wanted of
        Some sized \<Rightarrow> Some sized
      | None \<Rightarrow> (case affordable_units budget rate price of
          None \<Rightarrow> None
        | Some q \<Rightarrow> within_budget price rate budget q))"

definition slice_budget :: "nat \<Rightarrow> nat \<Rightarrow> money \<Rightarrow> money" where
  "slice_budget maxPos openPos cash =
     (let remaining = (if openPos < maxPos then maxPos - openPos else 1)
      in if maxPos = 0 then cash
         else FValue (cdiv (units cash) (signed_take_bit 63 (int remaining))))"

text \<open>Budget and wanted quantity: by volatility if the strategy has a valid one, else a slice.\<close>

definition wanted_size ::
  "fp_format \<Rightarrow> engine \<Rightarrow> sma option \<Rightarrow> price \<Rightarrow> money \<Rightarrow> nat \<Rightarrow> nat \<Rightarrow> fp
   \<Rightarrow> (money \<times> quantity) option" where
  "wanted_size L e strategy fillPrice cash maxPos openPos equity =
     (case strategy of
        Some st \<Rightarrow>
          if sma_isATRValid st \<and> fp_less (Fin 0) (sma_getATR st) then
            (case quantity_of L (fp_div binary64 (fp_mul binary64 equity (en_riskPct e))
                   (sma_getATR st)) TowardZero of
               None \<Rightarrow> None
             | Some q \<Rightarrow> if isPositive q then Some (cash, q) else None)
          else map_option (Pair (slice_budget maxPos openPos cash))
                 (affordable_units (slice_budget maxPos openPos cash) (en_feeRate e) fillPrice)
      | None \<Rightarrow> map_option (Pair (slice_budget maxPos openPos cash))
                  (affordable_units (slice_budget maxPos openPos cash) (en_feeRate e) fillPrice))"

definition plan_buy ::
  "fp_format \<Rightarrow> engine \<Rightarrow> sma option \<Rightarrow> price \<Rightarrow> money \<Rightarrow> nat \<Rightarrow> nat \<Rightarrow> fp
   \<Rightarrow> (quantity \<times> money \<times> money) option" where
  "plan_buy L e strategy fillPrice cash maxPos openPos equity =
     (case wanted_size L e strategy fillPrice cash maxPos openPos equity of
        None \<Rightarrow> None
      | Some (budget, wanted) \<Rightarrow> fit_budget fillPrice (en_feeRate e) budget wanted)"

subsection \<open>Orders on a signal\<close>

definition blocked :: "nat \<Rightarrow> 'x sys \<Rightarrow> ('x, bool) outcome" where
  "blocked k s = (on_engine k count_blocked s, Inr False)"

definition route :: "'x sys \<times> bool \<Rightarrow> ('x, bool) outcome" where
  "route r = (fst r, Inr (snd r))"

definition local_buy ::
  "'x host \<Rightarrow> nat \<Rightarrow> price \<Rightarrow> price \<Rightarrow> quantity \<times> money \<times> money \<Rightarrow> u64 \<Rightarrow> string \<Rightarrow> 'x sys
   \<Rightarrow> ('x, bool) outcome" where
  "local_buy host k marketPrice fillPrice sized timestamp strategyId s =
     (case sized of (quantity, executionFee, debit) \<Rightarrow>
        if \<not> sys_canTrade s then blocked k s
        else
          let e = engine_at k s
          in case openLong (hs_format host) (hs_order host) (en_symbol e) (toDouble fillPrice)
                 timestamp (toDouble executionFee) (toDouble debit) (toDouble quantity) strategyId
                 (sys_portfolio s) of
               Inl err \<Rightarrow> (s, Inl err)
             | Inr p \<Rightarrow>
                 (record_slippage e timestamp (toDouble marketPrice) (toDouble fillPrice)
                    (getPositionQuantity (en_symbol e) p)
                    (record_trade e
                       (buy_entry timestamp (toDouble fillPrice)
                          (getPositionQuantity (en_symbol e) p) (toDouble executionFee) strategyId)
                       (on_engine k count_filled (s\<lparr>sys_portfolio := p\<rparr>))), Inr True))"

definition execute_buy ::
  "'x host \<Rightarrow> nat \<Rightarrow> sma option \<Rightarrow> price \<Rightarrow> u64 \<Rightarrow> string \<Rightarrow> 'x sys \<Rightarrow> ('x, bool) outcome" where
  "execute_buy host k strategy marketPrice timestamp strategyId s =
     (let e = engine_at k s; L = hs_format host; p = sys_portfolio s
      in if hasPosition (en_symbol e) p then (s, Inr False)
         else case (applySlippage marketPrice (en_slippage e) True NearestTiesAwayFromZero,
                    money_of L (getCashBalance p) RejectUnaligned) of
           (Some fillPrice, Some availableCash) \<Rightarrow>
             if \<not> isPositive availableCash then blocked k s
             else (case plan_buy L e strategy fillPrice availableCash
                     (rk_maxConcurrentPositions (sys_risk s)) (getOpenPositionCount p)
                     (getTotalEquity p) of
                     None \<Rightarrow> blocked k s
                   | Some sized \<Rightarrow>
                       if en_hasGateway e
                       then route (dispatchBrokerOrder host k True (fst sized) marketPrice timestamp
                              strategyId s)
                       else local_buy host k marketPrice fillPrice sized timestamp strategyId s)
         | _ \<Rightarrow> blocked k s)"

definition local_sell ::
  "'x host \<Rightarrow> nat \<Rightarrow> price \<Rightarrow> price \<Rightarrow> quantity \<Rightarrow> money \<Rightarrow> u64 \<Rightarrow> string \<Rightarrow> 'x sys
   \<Rightarrow> ('x, bool) outcome" where
  "local_sell host k marketPrice fillPrice qty executionFee timestamp strategyId s =
     (let e = engine_at k s
      in case closePosition (hs_format host) (hs_order host) (en_symbol e) (toDouble fillPrice)
             timestamp (toDouble executionFee) strategyId (Fin 0) (sys_portfolio s) of
           Inl err \<Rightarrow> (s, Inl err)
         | Inr p \<Rightarrow>
             (record_slippage e timestamp (toDouble marketPrice) (toDouble fillPrice)
                (toDouble qty)
                (record_trade e
                   (sell_entry timestamp (toDouble fillPrice) (toDouble qty)
                      (toDouble executionFee) strategyId p)
                   (on_engine k count_filled (s\<lparr>sys_portfolio := p\<rparr>))), Inr True))"

text \<open>Fill price, quantity and fee of the sale of a whole position.\<close>

definition sale_amounts ::
  "fp_format \<Rightarrow> engine \<Rightarrow> price \<Rightarrow> string \<Rightarrow> portfolio \<Rightarrow> (price \<times> quantity \<times> money) option" where
  "sale_amounts L e marketPrice symbol p =
     (case (applySlippage marketPrice (en_slippage e) False NearestTiesAwayFromZero,
            quantity_of L (getPositionQuantity symbol p) RejectUnaligned) of
        (Some fillPrice, Some qty) \<Rightarrow>
          (case notional fillPrice qty NearestTiesAwayFromZero of
             None \<Rightarrow> None
           | Some proceeds \<Rightarrow>
               (case fee proceeds (en_feeRate e) NearestTiesAwayFromZero of
                  None \<Rightarrow> None
                | Some executionFee \<Rightarrow>
                    if isPositive qty then Some (fillPrice, qty, executionFee) else None))
      | _ \<Rightarrow> None)"

definition execute_sell ::
  "'x host \<Rightarrow> nat \<Rightarrow> price \<Rightarrow> u64 \<Rightarrow> string \<Rightarrow> 'x sys \<Rightarrow> ('x, bool) outcome" where
  "execute_sell host k marketPrice timestamp strategyId s =
     (let e = engine_at k s; p = sys_portfolio s
      in if \<not> hasPosition (en_symbol e) p then (s, Inr False)
         else case sale_amounts (hs_format host) e marketPrice (en_symbol e) p of
           None \<Rightarrow> blocked k s
         | Some (fillPrice, qty, executionFee) \<Rightarrow>
             if en_hasGateway e
             then route (dispatchBrokerOrder host k False qty marketPrice timestamp strategyId s)
             else local_sell host k marketPrice fillPrice qty executionFee timestamp strategyId s)"

definition execute ::
  "'x host \<Rightarrow> nat \<Rightarrow> sma option \<Rightarrow> signal \<Rightarrow> fp \<Rightarrow> u64 \<Rightarrow> string \<Rightarrow> 'x sys \<Rightarrow> ('x, bool) outcome"
where
  "execute host k strategy sig marketPrice timestamp strategyId s =
     (if sig = S_None then (s, Inr False)
      else
        let s = on_engine k count_signal s
        in case price_of (hs_format host) marketPrice NearestTiesAwayFromZero of
             None \<Rightarrow> blocked k s
           | Some price \<Rightarrow>
               if \<not> isPositive price then blocked k s
               else if en_hasGateway (engine_at k s)
                       \<and> \<not> gw_isConnected (hs_ops host) (sys_gateway s) then blocked k s
               else if sig = S_Buy then execute_buy host k strategy price timestamp strategyId s
               else execute_sell host k price timestamp strategyId s)"

definition pendingBrokerQuantity :: "u64 \<Rightarrow> engine \<Rightarrow> fp" where
  "pendingBrokerQuantity orderId e =
     (case en_pendingBrokerQty e orderId of None \<Rightarrow> Fin 0 | Some q \<Rightarrow> toDouble q)"

subsection \<open>Pending orders\<close>

definition ex_placePendingOrder :: "'x host \<Rightarrow> order_record \<Rightarrow> 'x sys \<Rightarrow> 'x sys \<times> u64" where
  "ex_placePendingOrder host order s =
     (case placePendingOrder (hs_format host) order (sys_portfolio s) of
        (p, i) \<Rightarrow> (s\<lparr>sys_portfolio := p\<rparr>, i))"

definition pending_budget :: "fp_format \<Rightarrow> fp \<Rightarrow> money \<Rightarrow> money option" where
  "pending_budget L capitalToCommit cash =
     (if fp_less (Fin 0) capitalToCommit then
        (case money_of L capitalToCommit NearestTiesAwayFromZero of
           None \<Rightarrow> None
         | Some requested \<Rightarrow>
             if \<not> isPositive requested then None
             else Some (if units requested < units cash then requested else cash))
      else Some cash)"

definition pending_wanted ::
  "fp_format \<Rightarrow> fp \<Rightarrow> money \<Rightarrow> fraction \<Rightarrow> price \<Rightarrow> quantity option" where
  "pending_wanted L quantity budget rate price =
     (case (if fp_less (Fin 0) quantity then quantity_of L quantity TowardZero else None) of
        None \<Rightarrow> affordable_units budget rate price
      | Some q \<Rightarrow> if isPositive q then Some q else affordable_units budget rate price)"

definition pending_plan ::
  "fp_format \<Rightarrow> engine \<Rightarrow> order_fill_result \<Rightarrow> price \<Rightarrow> portfolio
   \<Rightarrow> (price \<times> quantity \<times> money \<times> money) option" where
  "pending_plan L e res fillPrice p =
     (case (applySlippage fillPrice (en_slippage e) True NearestTiesAwayFromZero,
            money_of L (getCashBalance p) RejectUnaligned) of
        (Some slippedPrice, Some cash) \<Rightarrow>
          if \<not> isPositive cash then None
          else (case pending_budget L (ofr_capitalToCommit res) cash of
             None \<Rightarrow> None
           | Some budget \<Rightarrow>
               (case pending_wanted L (ofr_quantity res) budget (en_feeRate e) slippedPrice of
                  None \<Rightarrow> None
                | Some wanted \<Rightarrow>
                    map_option (Pair slippedPrice)
                      (fit_budget slippedPrice (en_feeRate e) budget wanted)))
      | _ \<Rightarrow> None)"

definition pending_buy ::
  "'x host \<Rightarrow> nat \<Rightarrow> order_fill_result \<Rightarrow> price \<Rightarrow> 'x sys \<Rightarrow> ('x, bool) outcome" where
  "pending_buy host k res fillPrice s =
     (let e = engine_at k s; L = hs_format host
      in if \<not> sys_canTrade s then blocked k s
         else if hasPosition (ofr_symbol res) (sys_portfolio s) then (s, Inr False)
         else case pending_plan L e res fillPrice (sys_portfolio s) of
           None \<Rightarrow> blocked k s
         | Some (slippedPrice, quantity, executionFee, debit) \<Rightarrow>
             (case openLong L (hs_order host) (ofr_symbol res) (toDouble slippedPrice)
                     (ofr_fillTimestamp res) (toDouble executionFee) (toDouble debit)
                     (toDouble quantity) [] (sys_portfolio s) of
                Inl err \<Rightarrow> (s, Inl err)
              | Inr p \<Rightarrow>
                  (record_trade e
                     (buy_entry (ofr_fillTimestamp res) (toDouble slippedPrice)
                        (getPositionQuantity (ofr_symbol res) p) (toDouble executionFee) [])
                     (on_engine k count_filled (s\<lparr>sys_portfolio := p\<rparr>)), Inr True)))"

definition pending_sell ::
  "'x host \<Rightarrow> nat \<Rightarrow> order_fill_result \<Rightarrow> price \<Rightarrow> 'x sys \<Rightarrow> ('x, bool) outcome" where
  "pending_sell host k res fillPrice s =
     (let e = engine_at k s; L = hs_format host
      in if \<not> hasPosition (ofr_symbol res) (sys_portfolio s) then (s, Inr False)
         else case sale_amounts L e fillPrice (ofr_symbol res) (sys_portfolio s) of
           None \<Rightarrow> blocked k s
         | Some (slippedPrice, qty, executionFee) \<Rightarrow>
             (case closePosition L (hs_order host) (ofr_symbol res) (toDouble slippedPrice)
                     (ofr_fillTimestamp res) (toDouble executionFee) [] (Fin 0)
                     (sys_portfolio s) of
                Inl err \<Rightarrow> (s, Inl err)
              | Inr p \<Rightarrow>
                  (record_trade e
                     (sell_entry (ofr_fillTimestamp res) (toDouble slippedPrice) (toDouble qty)
                        (toDouble executionFee) [] p)
                     (on_engine k count_filled (s\<lparr>sys_portfolio := p\<rparr>)), Inr True)))"

definition pending_fill ::
  "'x host \<Rightarrow> nat \<Rightarrow> order_fill_result \<Rightarrow> 'x sys \<Rightarrow> ('x, bool) outcome" where
  "pending_fill host k res s =
     (if \<not> ofr_filled res then (s, Inr False)
      else case price_of (hs_format host) (ofr_fillPrice res) NearestTiesAwayFromZero of
        None \<Rightarrow> blocked k s
      | Some fillPrice \<Rightarrow>
          if \<not> isPositive fillPrice then blocked k s
          else if ofr_isBuy res then pending_buy host k res fillPrice s
          else pending_sell host k res fillPrice s)"

fun pending_loop ::
  "'x host \<Rightarrow> nat \<Rightarrow> order_fill_result list \<Rightarrow> int \<Rightarrow> 'x sys \<Rightarrow> ('x, int) outcome" where
  "pending_loop host k [] filledCount s = (s, Inr filledCount)"
| "pending_loop host k (res # fills) filledCount s =
     (case pending_fill host k res s of
        (s, Inl err) \<Rightarrow> (s, Inl err)
      | (s, Inr filled) \<Rightarrow>
          pending_loop host k fills (if filled then filledCount + 1 else filledCount) s)"

definition processPendingOrders ::
  "'x host \<Rightarrow> nat \<Rightarrow> market_candle \<Rightarrow> 'x sys \<Rightarrow> ('x, int) outcome" where
  "processPendingOrders host k candle s =
     (case evaluatePendingOrders (hs_format host) (mc_symbol candle) (mc_high candle)
             (mc_low candle) (mc_close candle) (mc_epochTimestamp candle) (sys_portfolio s) of
        (p, fills) \<Rightarrow> pending_loop host k fills 0 (s\<lparr>sys_portfolio := p\<rparr>))"

subsection \<open>Trigger orders\<close>

definition trigger_quantity :: "nat \<Rightarrow> fp \<Rightarrow> 'x sys \<Rightarrow> fp" where
  "trigger_quantity k quantity s =
     (if fp_less (Fin 0) quantity then quantity
      else getPositionQuantity (en_symbol (engine_at k s)) (sys_portfolio s))"

definition placeStopLossTrigger ::
  "nat \<Rightarrow> fp \<Rightarrow> fp \<Rightarrow> string \<Rightarrow> 'x sys \<Rightarrow> 'x sys \<times> u64" where
  "placeStopLossTrigger k stopPrice quantity strategyId s =
     (case en_triggers (engine_at k s) of
        None \<Rightarrow> (s, 0)
      | Some m \<Rightarrow>
          (case placeStopLoss (en_symbol (engine_at k s)) False stopPrice
                  (trigger_quantity k quantity s) strategyId m of
             (m, i) \<Rightarrow> (on_engine k (\<lambda>e. e\<lparr>en_triggers := Some m\<rparr>) s, i)))"

definition placeOcoTrigger ::
  "nat \<Rightarrow> fp \<Rightarrow> fp \<Rightarrow> fp \<Rightarrow> string \<Rightarrow> 'x sys \<Rightarrow> 'x sys \<times> u64" where
  "placeOcoTrigger k stopPrice takeProfitPrice quantity strategyId s =
     (case en_triggers (engine_at k s) of
        None \<Rightarrow> (s, 0)
      | Some m \<Rightarrow>
          (case placeOco (en_symbol (engine_at k s)) False stopPrice takeProfitPrice
                  (trigger_quantity k quantity s) strategyId m of
             (m, i) \<Rightarrow> (on_engine k (\<lambda>e. e\<lparr>en_triggers := Some m\<rparr>) s, i)))"

definition cancel_trigger :: "nat \<Rightarrow> u64 \<Rightarrow> 'x sys \<Rightarrow> 'x sys" where
  "cancel_trigger k i s =
     on_engine k (\<lambda>e. e\<lparr>en_triggers := map_option (\<lambda>m. fst (tm_cancel i m)) (en_triggers e)\<rparr>) s"

fun trigger_loop ::
  "'x host \<Rightarrow> nat \<Rightarrow> sma option \<Rightarrow> trigger_fill_event list \<Rightarrow> nat \<Rightarrow> 'x sys \<Rightarrow> ('x, nat) outcome"
where
  "trigger_loop host k strategy [] executed s = (s, Inr executed)"
| "trigger_loop host k strategy (ev # events) executed s =
     (case execute host k strategy (if tfe_isBuy ev then S_Buy else S_Sell) (tfe_executionPrice ev)
             (tfe_timestamp ev)
             (if tfe_strategyId ev = [] then ''TRIGGER'' else tfe_strategyId ev) s of
        (s, Inl err) \<Rightarrow> (s, Inl err)
      | (s, Inr done_it) \<Rightarrow>
          if done_it
          then trigger_loop host k strategy events (executed + 1)
                 (cancel_trigger k (tfe_orderId ev) s)
          else trigger_loop host k strategy events executed s)"

definition processTriggerOrders ::
  "'x host \<Rightarrow> nat \<Rightarrow> sma option \<Rightarrow> l2book \<Rightarrow> u64 \<Rightarrow> 'x sys \<Rightarrow> ('x, nat) outcome" where
  "processTriggerOrders host k strategy orderBook timestamp s =
     (case en_triggers (engine_at k s) of
        None \<Rightarrow> (s, Inr 0)
      | Some m \<Rightarrow>
          let q = bbo orderBook
          in if \<not> bq_valid q then (s, Inr 0)
             else case tm_evaluate (en_symbol (engine_at k s)) q timestamp m [] of
               (events, triggeredCount) \<Rightarrow>
                 (case trigger_loop host k strategy events 0 s of
                    (s, Inl err) \<Rightarrow> (s, Inl err)
                  | (s, Inr executed) \<Rightarrow> (s, Inr (min executed triggeredCount))))"

end
