(* ===== verification/EventLoop.thy ===== *)
theory EventLoop
  imports ExecutionOrders
begin

text \<open>
  The event loop (include/EventLoop.hpp, src/EventLoop.cpp): what one candle does to the whole
  system.  The loops of a process, one per symbol, share the allocator and the regime detector.
  Writing the checkpoint file is the parameter \<open>save\<close>, a predicate of the state and the
  timestamp; the standard output is not modelled.
\<close>

record event_loop =
  ev_engine :: nat
  ev_strategies :: "strategy list"
  ev_atrStrategy :: "nat option"
  ev_hasDetector :: bool
  ev_hasAnalytics :: bool
  ev_totalSignals :: int
  ev_hasSerializer :: bool
  ev_checkpointIntervalSec :: u64
  ev_lastCheckpointTs :: u64

record 'x process =
  pr_sys :: "'x sys"
  pr_detector :: regime_detector
  pr_loops :: "event_loop list"

datatype loop_error = Thrown pm_error | RuntimeError string

definition loop_new :: "nat \<Rightarrow> strategy list \<Rightarrow> event_loop" where
  "loop_new k strategies =
     \<lparr>ev_engine = k, ev_strategies = strategies, ev_atrStrategy = None, ev_hasDetector = False,
      ev_hasAnalytics = False, ev_totalSignals = 0, ev_hasSerializer = False,
      ev_checkpointIntervalSec = 0, ev_lastCheckpointTs = 0\<rparr>"

definition setStateSerializer :: "bool \<Rightarrow> u64 \<Rightarrow> event_loop \<Rightarrow> event_loop" where
  "setStateSerializer attached checkpointIntervalSecs v =
     v\<lparr>ev_hasSerializer := attached, ev_checkpointIntervalSec := checkpointIntervalSecs\<rparr>"

text \<open>The strategy the engine was given for its volatility, in its current state.\<close>

definition atr_strategy :: "event_loop \<Rightarrow> sma option" where
  "atr_strategy v =
     (case ev_atrStrategy v of
        None \<Rightarrow> None
      | Some i \<Rightarrow> (case ev_strategies v ! i of SmaCross st \<Rightarrow> Some st | MeanReversion _ \<Rightarrow> None))"

definition generate_signals :: "market_candle \<Rightarrow> event_loop \<Rightarrow> event_loop \<times> alpha_signal list" where
  "generate_signals candle v =
     (let results = map (generateSignal candle) (ev_strategies v)
      in (v\<lparr>ev_strategies := map fst results\<rparr>, map snd results))"

definition dispatchSignal ::
  "'x host \<Rightarrow> signal \<Rightarrow> fp \<Rightarrow> u64 \<Rightarrow> string \<Rightarrow> event_loop \<Rightarrow> 'x sys
   \<Rightarrow> event_loop \<times> ('x, bool) outcome" where
  "dispatchSignal host sig price timestamp strategyId v s =
     (let v = (if sig \<noteq> S_None then v\<lparr>ev_totalSignals := ev_totalSignals v + 1\<rparr> else v)
      in (v, execute host (ev_engine v) (atr_strategy v) sig price timestamp strategyId s))"

text \<open>The signals of the strategies, ensembled and dispatched.\<close>

definition run_strategies ::
  "'x host \<Rightarrow> market_candle \<Rightarrow> market_regime \<Rightarrow> event_loop \<Rightarrow> 'x sys
   \<Rightarrow> event_loop \<times> ('x, bool) outcome" where
  "run_strategies host candle regime v s =
     (if ev_strategies v = [] then (v, (s, Inr False))
      else case generate_signals candle v of (v, signals) \<Rightarrow>
        let allocation = ensemble regime signals (sys_allocator s);
            attribution = (if alr_dominantStrategyId allocation \<noteq> []
                           then alr_dominantStrategyId allocation else ''ENSEMBLE'')
        in dispatchSignal host (alr_action allocation) (mc_close candle)
             (mc_epochTimestamp candle) attribution v s)"

definition update_risk :: "market_candle \<Rightarrow> 'x sys \<Rightarrow> 'x sys" where
  "update_risk candle s =
     (let p = sys_portfolio s;
          posVal = fp_mul binary64 (getPositionQuantity (mc_symbol candle) p) (mc_close candle);
          r = setTotalDrawdown (pm_currentDrawdown p) (sys_risk s);
          r = pushAssetReturn p (mc_symbol candle) (mc_close candle) posVal r
      in s\<lparr>sys_risk := pushEquityReturn (getTotalEquity p) r\<rparr>)"

definition record_equity :: "market_candle \<Rightarrow> event_loop \<Rightarrow> 'x sys \<Rightarrow> 'x sys" where
  "record_equity candle v s =
     (if ev_hasAnalytics v then
        let p = sys_portfolio s
        in s\<lparr>sys_analytics := recordEquity
             \<lparr>eqp_timestamp = mc_epochTimestamp candle, eqp_equity = getTotalEquity p,
              eqp_drawdownPct = fp_mul binary64 (pm_currentDrawdown p) (Fin 100),
              eqp_openPositions = size_to_int (getOpenPositionCount p),
              eqp_var95 = rk_currentVaR95 (sys_risk s)\<rparr> (sys_analytics s)\<rparr>
      else s)"

definition checkpoint ::
  "(u64 \<Rightarrow> 'x process \<Rightarrow> bool) \<Rightarrow> nat \<Rightarrow> u64 \<Rightarrow> 'x process \<Rightarrow> 'x process \<times> (loop_error + unit)" where
  "checkpoint save n timestamp w =
     (let v = pr_loops w ! n;
          mark = (\<lambda>w. w\<lparr>pr_loops := (pr_loops w)[n := v\<lparr>ev_lastCheckpointTs := timestamp\<rparr>]\<rparr>)
      in if ev_hasSerializer v \<and> ev_checkpointIntervalSec v > 0 then
           if ev_lastCheckpointTs v = 0 then (mark w, Inr ())
           else if timestamp - ev_lastCheckpointTs v \<ge> ev_checkpointIntervalSec v
           then if save timestamp w then (mark w, Inr ())
                else (w, Inl (RuntimeError ''checkpoint failed: ''))
           else (w, Inr ())
         else (w, Inr ()))"

definition update_regime :: "market_candle \<Rightarrow> event_loop \<Rightarrow> regime_detector \<Rightarrow> regime_detector" where
  "update_regime candle v d =
     (if ev_hasDetector v
      then fst (rd_update (mc_high candle) (mc_low candle) (mc_close candle) d) else d)"

text \<open>The portfolio is marked and the risk engine brought up to date; the mark may throw.\<close>

definition mark_candle ::
  "'x host \<Rightarrow> market_candle \<Rightarrow> event_loop \<Rightarrow> 'x sys \<Rightarrow> 'x sys \<times> (pm_error + unit)" where
  "mark_candle host candle v s =
     (case updatePnL (hs_format host) (hs_order host) (mc_symbol candle) (mc_close candle)
             (sys_portfolio s) of
        Inl err \<Rightarrow> (s, Inl err)
      | Inr p \<Rightarrow> (record_equity candle v (update_risk candle (s\<lparr>sys_portfolio := p\<rparr>)), Inr ()))"

definition processCandle ::
  "'x host \<Rightarrow> (u64 \<Rightarrow> 'x process \<Rightarrow> bool) \<Rightarrow> nat \<Rightarrow> market_candle \<Rightarrow> 'x process
   \<Rightarrow> 'x process \<times> (loop_error + unit)" where
  "processCandle host save n candle w =
     (let v = pr_loops w ! n
      in case processPendingOrders host (ev_engine v) candle (pr_sys w) of
           (s, Inl err) \<Rightarrow> (w\<lparr>pr_sys := s\<rparr>, Inl (Thrown err))
         | (s, Inr _) \<Rightarrow>
           (let d = update_regime candle v (pr_detector w);
                w = w\<lparr>pr_detector := d\<rparr>
            in case run_strategies host candle (rd_regime d) v s of
                 (v, (s, Inl err)) \<Rightarrow>
                   (w\<lparr>pr_sys := s, pr_loops := (pr_loops w)[n := v]\<rparr>, Inl (Thrown err))
               | (v, (s, Inr _)) \<Rightarrow>
                 (case mark_candle host candle v s of
                    (s, Inl err) \<Rightarrow>
                      (w\<lparr>pr_sys := s, pr_loops := (pr_loops w)[n := v]\<rparr>, Inl (Thrown err))
                  | (s, Inr _) \<Rightarrow>
                      checkpoint save n (mc_epochTimestamp candle)
                        (w\<lparr>pr_sys := s, pr_loops := (pr_loops w)[n := v]\<rparr>))))"

end
