(* ===== verification/ExecutionProps.thy ===== *)
theory ExecutionProps
  imports EventLoop PortfolioRun
begin

text \<open>
  What the operations of the execution engine and of the event loop leave alone, and the books:
  every operation takes the portfolio to one that its own accounting operations could have
  produced, whatever the broker reports and whatever throws.
\<close>

subsection \<open>Fields left alone\<close>

named_theorems sys_frame
  \<comment> \<open>what the small steps on the system leave alone\<close>

lemma on_engine_frame [simp]:
  "sys_portfolio (on_engine k f s) = sys_portfolio s" "sys_risk (on_engine k f s) = sys_risk s"
  "sys_gateway (on_engine k f s) = sys_gateway s" "sys_observers (on_engine k f s) = sys_observers s"
  "sys_ticks (on_engine k f s) = sys_ticks s" "sys_allocator (on_engine k f s) = sys_allocator s"
  "sys_analytics (on_engine k f s) = sys_analytics s"
  "length (sys_engines (on_engine k f s)) = length (sys_engines s)"
  by (simp_all add: on_engine_def)

lemma engine_at_on_engine [simp]:
  "k < length (sys_engines s) \<Longrightarrow> engine_at k (on_engine k f s) = f (engine_at k s)"
  "j \<noteq> k \<Longrightarrow> engine_at j (on_engine k f s) = engine_at j s"
  by (simp_all add: engine_at_def on_engine_def)

lemma engine_at_update [simp]:
  "engine_at k (s\<lparr>sys_portfolio := p\<rparr>) = engine_at k s"
  "engine_at k (s\<lparr>sys_risk := r\<rparr>) = engine_at k s"
  "engine_at k (s\<lparr>sys_gateway := g\<rparr>) = engine_at k s"
  "engine_at k (s\<lparr>sys_analytics := an\<rparr>) = engine_at k s"
  "engine_at k (s\<lparr>sys_allocator := al\<rparr>) = engine_at k s"
  "engine_at k (s\<lparr>sys_ticks := t\<rparr>) = engine_at k s"
  by (simp_all add: engine_at_def)

lemma tick_frame [simp]:
  "sys_portfolio (tick s) = sys_portfolio s" "sys_risk (tick s) = sys_risk s"
  "sys_gateway (tick s) = sys_gateway s" "sys_observers (tick s) = sys_observers s"
  "sys_engines (tick s) = sys_engines s" "engine_at k (tick s) = engine_at k s"
  "sys_ticks (tick s) = sys_ticks s + 1"
  by (simp_all add: tick_def)

lemma report_error_frame [simp]:
  "sys_portfolio (report_error host s) = sys_portfolio s"
  "sys_gateway (report_error host s) = sys_gateway s"
  "sys_observers (report_error host s) = sys_observers s"
  "sys_engines (report_error host s) = sys_engines s"
  "engine_at k (report_error host s) = engine_at k s"
  "sys_ticks (report_error host s) = sys_ticks s + 1"
  "sys_risk (report_error host s) = reportApiError (clock_now host s) (sys_risk s)"
  by (simp_all add: report_error_def)

lemma record_frame [simp]:
  "sys_portfolio (record_trade e entry s) = sys_portfolio s"
  "sys_portfolio (record_slippage e t x y q s) = sys_portfolio s"
  "sys_gateway (record_trade e entry s) = sys_gateway s"
  "sys_gateway (record_slippage e t x y q s) = sys_gateway s"
  "sys_risk (record_trade e entry s) = sys_risk s"
  "sys_risk (record_slippage e t x y q s) = sys_risk s"
  "sys_engines (record_trade e entry s) = sys_engines s"
  "sys_engines (record_slippage e t x y q s) = sys_engines s"
  "sys_observers (record_trade e entry s) = sys_observers s"
  "sys_observers (record_slippage e t x y q s) = sys_observers s"
  "sys_ticks (record_trade e entry s) = sys_ticks s"
  "sys_ticks (record_slippage e t x y q s) = sys_ticks s"
  "engine_at k (record_trade e entry s) = engine_at k s"
  "engine_at k (record_slippage e t x y q s) = engine_at k s"
  by (simp_all add: record_trade_def record_slippage_def engine_at_def split: prod.splits)

lemma finish_fill_frame [simp]:
  "sys_portfolio (finish_fill k i c r s) = sys_portfolio s"
  "sys_gateway (finish_fill k i c r s) = sys_gateway s"
  "sys_observers (finish_fill k i c r s) = sys_observers s"
  "sys_ticks (finish_fill k i c r s) = sys_ticks s"
  "length (sys_engines (finish_fill k i c r s)) = length (sys_engines s)"
  by (simp_all add: finish_fill_def Let_def)

lemma record_fill_frame [simp]:
  "sys_portfolio (record_fill e request x n f t p s) = p"
  "sys_gateway (record_fill e request x n f t p s) = sys_gateway s"
  "sys_risk (record_fill e request x n f t p s) = sys_risk s"
  "sys_engines (record_fill e request x n f t p s) = sys_engines s"
  "sys_observers (record_fill e request x n f t p s) = sys_observers s"
  "sys_ticks (record_fill e request x n f t p s) = sys_ticks s"
  "engine_at k (record_fill e request x n f t p s) = engine_at k s"
  by (simp_all add: record_fill_def Let_def)

lemma note_latency_frame [simp]:
  "sys_portfolio (note_latency k elapsed s) = sys_portfolio s"
  "sys_gateway (note_latency k elapsed s) = sys_gateway s"
  "sys_observers (note_latency k elapsed s) = sys_observers s"
  "length (sys_engines (note_latency k elapsed s)) = length (sys_engines s)"
  "sys_ticks (note_latency k elapsed s) = sys_ticks s"
  by (simp_all add: note_latency_def Let_def)

subsection \<open>The books\<close>

text \<open>From a good portfolio, a good portfolio whose books balance with it.\<close>

definition balanced :: "portfolio \<Rightarrow> portfolio \<Rightarrow> bool" where
  "balanced p q \<longleftrightarrow> (pm_inv p \<longrightarrow> (\<exists>gs. books p q gs))"

lemma balanced_refl [simp]: "balanced p p"
  using books_refl by (auto simp: balanced_def)

lemma balanced_trans: "balanced p q \<Longrightarrow> balanced q r \<Longrightarrow> balanced p r"
  unfolding balanced_def using books_trans by (metis books_def)

lemma balanced_accounts: "same_accounts p q \<Longrightarrow> balanced p q"
  unfolding balanced_def using same_accounts_books by blast

definition host_ok :: "'x host \<Rightarrow> bool" where
  "host_ok host \<longleftrightarrow> ld_exact (hs_format host) \<and> permutes (hs_order host)"

lemma balanced_openLong:
  assumes "host_ok host" and "openLong (hs_format host) (hs_order host) y x t f c n i p = Inr q"
  shows "balanced p q"
  unfolding balanced_def using openLong_accounted [OF assms(2)] assms(1) accounted_books
  by (metis host_ok_def)

lemma balanced_addToLong:
  assumes "host_ok host" and "addToLong (hs_format host) (hs_order host) y x n f c i p = Inr q"
  shows "balanced p q"
  unfolding balanced_def using addToLong_accounted [OF assms(2)] assms(1) accounted_books
  by (metis host_ok_def)

lemma balanced_closePosition:
  assumes "host_ok host" and "closePosition (hs_format host) (hs_order host) y x t f i n p = Inr q"
  shows "balanced p q"
  unfolding balanced_def using closePosition_accounted [OF assms(2)] assms(1) accounted_books
  by (metis host_ok_def)

lemma balanced_updatePnL:
  assumes "host_ok host" and "updatePnL (hs_format host) (hs_order host) y x p = Inr q"
  shows "balanced p q"
  unfolding balanced_def using updatePnL_accounted [OF assms(2)] assms(1) accounted_books
  by (metis host_ok_def)

lemmas balanced_ops = balanced_openLong balanced_addToLong balanced_closePosition balanced_updatePnL

lemma balanced_fill:
  assumes "host_ok host"
  shows "apply_fill host e request x n f t p = Some q \<Longrightarrow> balanced p q"
  using balanced_ops [OF assms]
  by (auto simp: apply_fill_def apply_buy_fill_def apply_sell_fill_def Let_def
      split: option.splits sum.splits if_splits)

abbreviation keeps_books :: "'x sys \<Rightarrow> 'x sys \<Rightarrow> bool" where
  "keeps_books s t \<equiv> balanced (sys_portfolio s) (sys_portfolio t)"

lemma execution_books:
  assumes "host_ok host"
  shows "keeps_books s (onBrokerExecution host k execution s)"
  using balanced_fill [OF assms]
  by (auto simp: onBrokerExecution_def Let_def split: option.splits prod.splits)

lemma deliver_books:
  assumes "host_ok host"
  shows "keeps_books s (deliver host x s)"
  by (cases "(host, x, s)" rule: deliver.cases) (simp_all add: execution_books [OF assms])

lemma deliver_all_books:
  assumes "host_ok host"
  shows "keeps_books s (deliver_all host out s)"
  unfolding deliver_all_def
proof (induction out arbitrary: s)
  case (Cons x out)
  from balanced_trans [OF deliver_books [OF assms] Cons.IH] show ?case by simp
qed simp

lemma dispatch_books:
  assumes "host_ok host"
  shows "keeps_books s (fst (dispatchBrokerOrder host k isBuy q x t i s))"
proof -
  have "keeps_books s (deliver_all host out u)" if "sys_portfolio u = sys_portfolio s" for out u
    using deliver_all_books [OF assms, of u out] that by simp
  then show ?thesis
    by (simp add: dispatchBrokerOrder_def Let_def split: sum.splits prod.splits)
qed

lemma execute_books:
  assumes "host_ok host"
  shows "keeps_books s (fst (execute host k strategy sig x t i s))"
proof -
  have buy: "keeps_books s (fst (execute_buy host k strategy y t i u))"
    if "sys_portfolio u = sys_portfolio s" for y u
    using dispatch_books [OF assms, of u] balanced_ops [OF assms] that
    by (auto simp: execute_buy_def local_buy_def Let_def blocked_def route_def
        split: option.splits prod.splits sum.splits)
  have sell: "keeps_books s (fst (execute_sell host k y t i u))"
    if "sys_portfolio u = sys_portfolio s" for y u
    using dispatch_books [OF assms, of u] balanced_ops [OF assms] that
    by (auto simp: execute_sell_def local_sell_def Let_def blocked_def route_def
        split: option.splits prod.splits sum.splits)
  show ?thesis
    by (auto simp: execute_def Let_def blocked_def buy sell split: option.splits)
qed

lemma pending_fill_books:
  assumes "host_ok host"
  shows "keeps_books s (fst (pending_fill host k res s))"
  using balanced_ops [OF assms]
  by (auto simp: pending_fill_def pending_buy_def pending_sell_def blocked_def Let_def
      split: option.splits prod.splits sum.splits)

lemma pending_loop_books:
  assumes "host_ok host"
  shows "keeps_books s (fst (pending_loop host k fills n s))"
proof (induction fills arbitrary: n s)
  case (Cons res fills)
  from pending_fill_books [OF assms, of s k res] show ?case
    by (auto split: prod.splits sum.splits intro: balanced_trans [OF _ Cons.IH])
qed simp

lemma pending_orders_books:
  assumes "host_ok host"
  shows "keeps_books s (fst (processPendingOrders host k candle s))"
proof -
  obtain p fills where e: "evaluatePendingOrders (hs_format host) (mc_symbol candle) (mc_high candle)
      (mc_low candle) (mc_close candle) (mc_epochTimestamp candle) (sys_portfolio s) = (p, fills)"
    by fastforce
  from orders_same_accounts(3) [of "sys_portfolio s" "hs_format host"] have "same_accounts (sys_portfolio s) p"
    by (metis e fst_conv)
  from balanced_trans [OF balanced_accounts [OF this]]
    pending_loop_books [OF assms, of "s\<lparr>sys_portfolio := p\<rparr>"] show ?thesis
    by (simp add: processPendingOrders_def e)
qed

lemma trigger_loop_books:
  assumes "host_ok host"
  shows "keeps_books s (fst (trigger_loop host k strategy events n s))"
proof (induction events arbitrary: n s)
  case (Cons ev events)
  obtain u r where e: "execute host k strategy (if tfe_isBuy ev then S_Buy else S_Sell)
      (tfe_executionPrice ev) (tfe_timestamp ev)
      (if tfe_strategyId ev = [] then ''TRIGGER'' else tfe_strategyId ev) s = (u, r)" by fastforce
  from execute_books [OF assms, of s k strategy] have "keeps_books s u" by (metis e fst_conv)
  then show ?case
    using balanced_trans [OF _ Cons.IH, of "sys_portfolio s"]
    by (auto simp: e cancel_trigger_def split: sum.splits)
qed simp

lemma trigger_orders_books:
  assumes "host_ok host"
  shows "keeps_books s (fst (processTriggerOrders host k strategy book t s))"
  using trigger_loop_books [OF assms, of s k strategy]
  by (auto simp: processTriggerOrders_def Let_def split: option.splits prod.splits sum.splits)
    (metis fst_conv)+

end
