(* ===== verification/ExecutionFills.thy ===== *)
theory ExecutionFills
  imports ExecutionProps PortfolioRestore
begin

text \<open>
  What a fill does to the position and to the cash, for amounts below 2^51 units, which survive
  the conversions to \<open>double\<close> and back between the engine and the portfolio.
\<close>

subsection \<open>Exact effects on the portfolio\<close>

definition held :: "string \<Rightarrow> portfolio \<Rightarrow> int" where
  "held y p = (case map_of (pm_positions p) y of None \<Rightarrow> 0 | Some st \<Rightarrow> units (ps_quantity st))"

lemma checked_units:
  "add_value a b = Some c \<Longrightarrow> units c = units a + units b"
  "subtract_value a b = Some c \<Longrightarrow> units c = units a - units b"
  by (auto simp: add_value_def checkedAdd_def subtract_value_def checkedSubtract_def split: if_splits)

lemma small_in_i64: "small v \<Longrightarrow> in_i64 (units v)"
  by (auto simp: small_def in_i64_def INT64_MIN_def INT64_MAX_def abs_less_iff)

lemma small_back:
  assumes "fmt_ok L"
  shows "small a \<Longrightarrow> price_of L (toDouble a) NearestTiesAwayFromZero = Some a"
    and "small c \<Longrightarrow> money_of L (toDouble c) NearestTiesAwayFromZero = Some c"
    and "small b \<Longrightarrow> quantity_of L (toDouble b) RejectUnaligned = Some b"
  by (simp_all add: small_def price_of_def quantity_of_def money_of_def normalized_def
      normalize_toDouble [OF assms])

lemma toDouble_pos: "small v \<Longrightarrow> 0 < units v \<Longrightarrow> fp_less (Fin 0) (toDouble v)"
  using double_rat_pos [of "units v"] by (simp add: toDouble_rat(1) [OF small_in_i64])

lemma commitValuation_frame [simp]:
  "pm_cash (commitValuation v p) = pm_cash p" "pm_positions (commitValuation v p) = pm_positions p"
  "pm_tradeLog (commitValuation v p) = pm_tradeLog p"
  by (simp_all add: commitValuation_def)

lemma openLong_effect:
  assumes run: "openLong L order y (toDouble px) t (toDouble f) c (toDouble n) sid p = Inr q"
    and L: "fmt_ok L" and sm: "small px" "small (f :: money)" "small n" and pos: "0 < units n"
  shows "\<exists>cost. notional px n NearestTiesAwayFromZero = Some cost
    \<and> units (pm_cash q) = units (pm_cash p) - units cost - units f
    \<and> held y p = 0 \<and> held y q = units n"
proof -
  note bk = small_back(1) [OF L sm(1)] small_back(2) [OF L sm(2)] small_back(3) [OF L sm(3)]
    toDouble_pos [OF sm(3) pos]
  from run bk have 1: "map_of (pm_positions p) y = None"
    and "open_budget L c p (\<lambda>budget. open_size L (toDouble n) px f budget
        (\<lambda>quantity costBasis debit. open_commit order y t sid px f quantity costBasis debit p)) = Inr q"
    unfolding openLong_def throw_if_Inr price_and_fee_Inr by auto
  from open_budget_Inr [OF this(2)] obtain b where "open_size L (toDouble n) px f b
        (\<lambda>quantity costBasis debit. open_commit order y t sid px f quantity costBasis debit p) = Inr q"
    by blast
  with bk obtain cost debit where cost: "notional px n NearestTiesAwayFromZero = Some cost"
    and debit: "add_value cost f = Some debit"
    and cm: "open_commit order y t sid px f n cost debit p = Inr q"
    by (auto simp: open_size_def)
  from cm obtain cash st where cash: "subtract_value (pm_cash p) debit = Some cash"
    and q: "pm_cash q = cash" "pm_positions q = pm_positions p @ [(y, st)]" "ps_quantity st = n"
    by (auto simp: open_commit_def Let_def)
  show ?thesis
    using cost checked_units(1) [OF debit] checked_units(2) [OF cash] q 1
    by (simp add: held_def map_add_def)
qed

lemma addToLong_effect:
  assumes run: "addToLong L order y (toDouble px) (toDouble n) (toDouble f) c sid p = Inr q"
    and has: "map_of (pm_positions p) y = Some st"
    and L: "fmt_ok L" and sm: "small px" "small (f :: money)" "small n"
  shows "\<exists>cost. notional px n NearestTiesAwayFromZero = Some cost
    \<and> units (pm_cash q) = units (pm_cash p) - units cost - units f
    \<and> held y q = held y p + units n"
proof -
  note bk = small_back(1) [OF L sm(1)] small_back(2) [OF L sm(2)] small_back(3) [OF L sm(3)]
  from run has bk obtain cost debit where cost: "notional px n NearestTiesAwayFromZero = Some cost"
    and debit: "add_value cost f = Some debit"
    and rest: "add_within_budget L c debit (add_to_state sid px n cost f st (\<lambda>st.
        add_commit order y st f debit p)) = Inr q"
    unfolding addToLong_def by (auto simp: price_and_fee_Inr)
  from add_within_budget_Inr [OF rest] obtain x xa xb xc
    where x: "add_value (ps_quantity st) n = Some x"
    and "add_commit order y (st\<lparr>ps_quantity := x, ps_costBasis := xa, ps_entryFee := xb,
        ps_averageEntryPrice := xc, ps_lastMarkPrice := px,
        ps_strategyId := (if sid \<noteq> [] then sid else ps_strategyId st)\<rparr>) f debit p = Inr q"
    unfolding add_to_state_def requireValue_Inr by blast
  then obtain st' where st': "add_value (ps_quantity st) n = Some (ps_quantity st')"
    and cm: "add_commit order y st' f debit p = Inr q" by force
  from cm obtain cash where cash: "subtract_value (pm_cash p) debit = Some cash"
    and q: "pm_cash q = cash" "pm_positions q = AList.update y st' (pm_positions p)"
    by (auto simp: add_commit_def Let_def)
  show ?thesis
    using cost checked_units(1) [OF debit] checked_units(2) [OF cash] checked_units(1) [OF st'] q has
    by (simp add: held_def update_conv')
qed

lemma close_accounting_parts:
  assumes "close_accounting px f n st k = Inr z"
  shows "\<exists>g a. notional px n NearestTiesAwayFromZero = Some g
    \<and> subtract_value g f = Some (cla_netProceeds a) \<and> k a = Inr z"
proof -
  from assms obtain g m a where "notional px n NearestTiesAwayFromZero = Some g"
    "subtract_value g f = Some m" "k a = Inr z" "cla_netProceeds a = m"
    by (force simp: close_accounting_def split: option.splits)
  then show ?thesis by blast
qed

lemma closePosition_effect:
  assumes run: "closePosition L order y (toDouble px) t (toDouble f) sid (toDouble n) p = Inr q"
    and inv: "pm_inv p" and has: "map_of (pm_positions p) y = Some st"
    and L: "fmt_ok L" and sm: "small px" "small (f :: money)" "small n" and pos: "0 < units n"
  shows "\<exists>proceeds. notional px n NearestTiesAwayFromZero = Some proceeds
    \<and> units (pm_cash q) = units (pm_cash p) + units proceeds - units f
    \<and> held y q = held y p - units n \<and> units n \<le> held y p
    \<and> (\<exists>r. pm_tradeLog q = pm_tradeLog p @ [r])"
proof -
  note bk = small_back(1) [OF L sm(1)] small_back(2) [OF L sm(2)] small_back(3) [OF L sm(3)]
    toDouble_pos [OF sm(3) pos]
  from run has bk have le: "units n \<le> units (ps_quantity st)"
    and acc: "close_accounting px f n st (\<lambda>amounts.
      close_remainder px n amounts st (\<lambda>next_state.
      close_commit order y t sid px f n amounts next_state st p)) = Inr q"
    unfolding closePosition_def close_quantity_def by (auto simp: price_and_fee_Inr)
  obtain g a where g: "notional px n NearestTiesAwayFromZero = Some g"
    and net: "subtract_value g f = Some (cla_netProceeds a)"
    and rem: "close_remainder px n a st (\<lambda>next_state.
      close_commit order y t sid px f n a next_state st p) = Inr q"
    using close_accounting_parts [OF acc] by blast
  obtain rq where rq: "subtract_value (ps_quantity st) n = Some rq"
    using rem by (auto simp: close_remainder_def)
  have commit: "units (pm_cash q) = units (pm_cash p) + units g - units f
      \<and> (\<exists>r. pm_tradeLog q = pm_tradeLog p @ [r])
      \<and> pm_positions q = (case ns of None \<Rightarrow> AList.delete y (pm_positions p)
          | Some u \<Rightarrow> AList.update y u (pm_positions p))"
    if "close_commit order y t sid px f n a ns st p = Inr q" for ns
    using that checked_units(2) [OF net]
    by (auto simp: close_commit_def Let_def dest!: checked_units(1))
  have h: "held y p = units (ps_quantity st)" by (simp add: held_def has)
  note u = checked_units(2) [OF rq]
  show ?thesis
  proof (cases "isZero rq")
    case True
    with rem rq have "close_commit order y t sid px f n a None st p = Inr q"
      by (auto simp: close_remainder_def)
    from commit [OF this] g h le u True show ?thesis
      by (auto simp: held_def delete_conv' isZero_def)
  next
    case False
    with rem rq obtain ns where "close_commit order y t sid px f n a (Some ns) st p = Inr q"
      and "ps_quantity ns = rq"
      by (auto simp: close_remainder_def)
    with commit g h le u show ?thesis
      by (auto simp: held_def update_conv')
  qed
qed

end
