(* ===== verification/ExecutionErrors.thy ===== *)
theory ExecutionErrors
  imports ExecutionFills RiskProps
begin

text \<open>
  What the delivery of executions to the engines does to the risk engine's window of errors, and
  what it leaves alone.
\<close>

subsection \<open>Delivery leaves the wiring alone\<close>

definition wiring :: "'x sys \<Rightarrow> (string \<times> bool \<times> u64) list \<times> nat list \<times> 'x gateway" where
  "wiring s = (map (\<lambda>e. (en_symbol e, en_hasGateway e, en_nextLocalOrderId e)) (sys_engines s),
     sys_observers s, sys_gateway s)"

lemma wiring_engine:
  assumes "wiring t = wiring s" and "k < length (sys_engines s)"
  shows "en_symbol (engine_at k t) = en_symbol (engine_at k s)"
    and "en_hasGateway (engine_at k t) = en_hasGateway (engine_at k s)"
    and "en_nextLocalOrderId (engine_at k t) = en_nextLocalOrderId (engine_at k s)"
proof -
  let ?f = "\<lambda>e. (en_symbol e, en_hasGateway e, en_nextLocalOrderId e)"
  from assms(1) have m: "map ?f (sys_engines t) = map ?f (sys_engines s)" by (simp add: wiring_def)
  then have len: "length (sys_engines t) = length (sys_engines s)" by (rule map_eq_imp_length_eq)
  from arg_cong [OF m, of "\<lambda>l. l ! k"] have "?f (engine_at k t) = ?f (engine_at k s)"
    using len assms(2) unfolding engine_at_def by (simp only: nth_map)
  then show "en_symbol (engine_at k t) = en_symbol (engine_at k s)"
    and "en_hasGateway (engine_at k t) = en_hasGateway (engine_at k s)"
    and "en_nextLocalOrderId (engine_at k t) = en_nextLocalOrderId (engine_at k s)" by simp_all
qed

lemma wiring_on_engine:
  assumes "\<And>e. en_symbol (f e) = en_symbol e" and "\<And>e. en_hasGateway (f e) = en_hasGateway e"
    and "\<And>e. en_nextLocalOrderId (f e) = en_nextLocalOrderId e"
  shows "wiring (on_engine k f s) = wiring s"
  using assms by (cases "k < length (sys_engines s)")
    (simp_all add: wiring_def on_engine_def map_update list_update_same_conv list_update_beyond)

lemma wiring_simps [simp]:
  "wiring (report_error host s) = wiring s" "wiring (record_trade e entry s) = wiring s"
  "wiring (record_slippage e t x y q s) = wiring s"
  "wiring (s\<lparr>sys_portfolio := p\<rparr>) = wiring s" "wiring (s\<lparr>sys_risk := r\<rparr>) = wiring s"
  by (simp_all add: wiring_def)

lemma wiring_record_fill [simp]: "wiring (record_fill e request x n f t p s) = wiring s"
  by (simp add: wiring_def)

lemma wiring_finish [simp]: "wiring (finish_fill k i c r s) = wiring s"
  unfolding finish_fill_def Let_def
  by (subst wiring_on_engine) (simp_all add: settle_fill_def count_filled_def)

lemma onBrokerExecution_wiring [simp]: "wiring (onBrokerExecution host k ex s) = wiring s"
  by (simp add: onBrokerExecution_def Let_def split: option.splits)

lemma deliver_wiring [simp]: "wiring (deliver host x s) = wiring s"
  by (cases "(host, x, s)" rule: deliver.cases) simp_all

lemma deliver_all_wiring [simp]: "wiring (deliver_all host out s) = wiring s"
  unfolding deliver_all_def by (induction out arbitrary: s) simp_all

subsection \<open>Errors reported while executions are delivered\<close>

text \<open>Either an error is reported, or the window and the halt stay as they were.\<close>

definition quiet :: "'x sys \<Rightarrow> 'x sys \<Rightarrow> bool" where
  "quiet s t \<longleftrightarrow> sys_ticks t = sys_ticks s
     \<and> rk_errorTimestamps (sys_risk t) = rk_errorTimestamps (sys_risk s)
     \<and> rk_halted (sys_risk t) = rk_halted (sys_risk s)
     \<and> rk_sysCfg (sys_risk t) = rk_sysCfg (sys_risk s)"

definition noisy :: "'x host \<Rightarrow> 'x sys \<Rightarrow> 'x sys \<Rightarrow> bool" where
  "noisy host s t \<longleftrightarrow> sys_ticks t = sys_ticks s + 1
     \<and> sys_risk t = reportApiError (clock_now host s) (sys_risk s)"

lemma syncPosition_frame [simp]:
  "rk_errorTimestamps (syncPosition y q r) = rk_errorTimestamps r"
  "rk_halted (syncPosition y q r) = rk_halted r" "rk_sysCfg (syncPosition y q r) = rk_sysCfg r"
  by (simp_all add: syncPosition_def)

lemma finish_fill_risk:
  "sys_risk (finish_fill k i c r s) = syncPosition (en_symbol (engine_at k s))
     (getPositionQuantity (en_symbol (engine_at k s)) (sys_portfolio s)) (sys_risk s)"
  by (simp add: finish_fill_def Let_def)

lemma execution_quiet_or_noisy:
  "quiet s (onBrokerExecution host k ex s) \<or> noisy host s (onBrokerExecution host k ex s)"
  by (auto simp: onBrokerExecution_def Let_def quiet_def noisy_def finish_fill_risk
      split: option.splits)

lemma foreign_execution:
  assumes "gw_orderLifecycle (exe_localOrderId ex) (sys_gateway s) = Some rec"
    and "req_canonicalSymbol (lr_request rec) \<noteq> en_symbol (engine_at k s)"
    and "en_hasGateway (engine_at k s)"
  shows "onBrokerExecution host k ex s = report_error host s"
  using assms by (simp add: onBrokerExecution_def Let_def)

text \<open>The errors of the last minute, counted from a time all of them are later than.\<close>

definition recent_errors :: "i64 \<Rightarrow> risk \<Rightarrow> nat" where
  "recent_errors base r = length (filter (\<lambda>t. base \<le> t) (rk_errorTimestamps r))"

lemma filter_dropWhile:
  assumes "\<And>x. P x \<Longrightarrow> \<not> Q x"
  shows "filter Q (dropWhile P xs) = filter Q xs"
  using assms by (induction xs) auto

lemma less_of_length:
  assumes "unat (w :: u32) < n" and "n < 2 ^ 32"
  shows "w < of_nat n"
  using assms by (simp add: word_less_nat_alt unat_of_nat)

lemma reportApiError_recent:
  assumes "base \<le> now" and "now \<le> base + ERROR_WINDOW_NS"
    and "Suc (length (rk_errorTimestamps r)) < 2 ^ 32"
  shows "recent_errors base (reportApiError now r) = Suc (recent_errors base r)"
    and "unat (error_thresh r) < recent_errors base (reportApiError now r)
      \<Longrightarrow> rk_halted (reportApiError now r)"
    and "rk_halted r \<Longrightarrow> rk_halted (reportApiError now r)"
    and "length (rk_errorTimestamps (reportApiError now r)) \<le> Suc (length (rk_errorTimestamps r))"
    and "error_thresh (reportApiError now r) = error_thresh r"
proof -
  let ?ts = "dropWhile (\<lambda>t. t < now - ERROR_WINDOW_NS) (rk_errorTimestamps r @ [now])"
  have ts: "rk_errorTimestamps (reportApiError now r) = ?ts"
    by (simp add: reportApiError_def Let_def)
  have f: "filter (\<lambda>t. base \<le> t) ?ts = filter (\<lambda>t. base \<le> t) (rk_errorTimestamps r @ [now])"
    using assms(2) by (intro filter_dropWhile) linarith
  then show r: "recent_errors base (reportApiError now r) = Suc (recent_errors base r)"
    using assms(1) by (simp add: recent_errors_def ts)
  have len: "length ?ts \<le> Suc (length (rk_errorTimestamps r))"
    using length_dropWhile_le [of _ "rk_errorTimestamps r @ [now]"] by simp
  then show "length (rk_errorTimestamps (reportApiError now r)) \<le> Suc (length (rk_errorTimestamps r))"
    by (simp add: ts)
  show "rk_halted r \<Longrightarrow> rk_halted (reportApiError now r)"
    "error_thresh (reportApiError now r) = error_thresh r"
    by (simp_all add: reportApiError_def Let_def error_thresh_def)
  assume "unat (error_thresh r) < recent_errors base (reportApiError now r)"
  also have "\<dots> \<le> length ?ts" by (simp add: recent_errors_def ts)
  finally have "unat (error_thresh r) < length ?ts" .
  then have "error_thresh r < of_nat (length ?ts)"
    using len assms(3) by (intro less_of_length) linarith+
  then show "rk_halted (reportApiError now r)"
    by (simp add: reportApiError_def Let_def error_thresh_def)
qed

subsection \<open>The errors a fill of one symbol causes at the engines of the others\<close>

definition foreign_to :: "string \<Rightarrow> 'x sys \<Rightarrow> nat \<Rightarrow> bool" where
  "foreign_to y s k \<longleftrightarrow> en_symbol (engine_at k s) \<noteq> y"

lemma deliver_errors:
  assumes "gw_orderLifecycle (exe_localOrderId ex) (sys_gateway s) = Some rec"
    and "\<And>n. base \<le> hs_clock host n \<and> hs_clock host n \<le> base + ERROR_WINDOW_NS"
    and "\<forall>j \<in> set js. sys_observers s ! j < length (sys_engines s)
          \<and> en_hasGateway (engine_at (sys_observers s ! j) s)"
    and "length (rk_errorTimestamps (sys_risk s)) + length js < 2 ^ 32"
    and "t = fold (deliver host) (map (\<lambda>j. OutObserver j ex) js) s"
    and "c \<le> recent_errors base (sys_risk s)"
    and "c < recent_errors base (sys_risk s)
      \<longrightarrow> unat (error_thresh (sys_risk s)) < recent_errors base (sys_risk s)
      \<longrightarrow> rk_halted (sys_risk s)"
  shows "recent_errors base (sys_risk s)
      + length (filter (\<lambda>j. foreign_to (req_canonicalSymbol (lr_request rec)) s (sys_observers s ! j)) js)
      \<le> recent_errors base (sys_risk t)
    \<and> (c < recent_errors base (sys_risk t)
       \<longrightarrow> unat (error_thresh (sys_risk s)) < recent_errors base (sys_risk t)
       \<longrightarrow> rk_halted (sys_risk t))"
  using assms
proof (induction js arbitrary: s)
  case Nil
  then show ?case by simp
next
  case (Cons j js)
  let ?k = "sys_observers s ! j"
  let ?y = "req_canonicalSymbol (lr_request rec)"
  define u where "u = onBrokerExecution host ?k ex s"
  have w: "wiring u = wiring s" by (simp add: u_def)
  then have g: "sys_gateway u = sys_gateway s" "sys_observers u = sys_observers s"
    and len: "length (sys_engines u) = length (sys_engines s)"
    by (auto simp: wiring_def dest: map_eq_imp_length_eq)
  have k: "?k < length (sys_engines s)" "en_hasGateway (engine_at ?k s)" using Cons.prems(3) by simp_all
  have same: "foreign_to ?y u (sys_observers u ! i) = foreign_to ?y s (sys_observers s ! i)
      \<and> sys_observers u ! i < length (sys_engines u)
      \<and> en_hasGateway (engine_at (sys_observers u ! i) u)" if "i \<in> set js" for i
  proof -
    have "sys_observers s ! i < length (sys_engines s)" "en_hasGateway (engine_at (sys_observers s ! i) s)"
      using Cons.prems(3) that by auto
    with wiring_engine(1,2) [OF w this(1)] show ?thesis by (simp add: foreign_to_def g len)
  qed
  then have fl: "filter (\<lambda>i. foreign_to ?y u (sys_observers u ! i)) js
      = filter (\<lambda>i. foreign_to ?y s (sys_observers s ! i)) js" by (intro filter_cong) auto
  have step: "recent_errors base (sys_risk s) + (if foreign_to ?y s ?k then 1 else 0)
        \<le> recent_errors base (sys_risk u)
      \<and> length (rk_errorTimestamps (sys_risk u)) \<le> Suc (length (rk_errorTimestamps (sys_risk s)))
      \<and> error_thresh (sys_risk u) = error_thresh (sys_risk s)
      \<and> (c < recent_errors base (sys_risk u)
         \<longrightarrow> unat (error_thresh (sys_risk u)) < recent_errors base (sys_risk u)
         \<longrightarrow> rk_halted (sys_risk u))"
  proof (cases "noisy host s u")
    case True
    have "Suc (length (rk_errorTimestamps (sys_risk s))) < 2 ^ 32" using Cons.prems(4) by simp
    note e = reportApiError_recent [OF conjunct1 [OF Cons.prems(2)] conjunct2 [OF Cons.prems(2)] this]
    from True have r: "sys_risk u = reportApiError (hs_clock host (sys_ticks s)) (sys_risk s)"
      by (simp add: noisy_def clock_now_def)
    show ?thesis using e [of "sys_ticks s"] by (simp add: r)
  next
    case False
    then have q: "quiet s u" using execution_quiet_or_noisy [of s host ?k ex] by (simp add: u_def)
    have "\<not> foreign_to ?y s ?k"
    proof
      assume "foreign_to ?y s ?k"
      then have "u = report_error host s"
        using foreign_execution [OF Cons.prems(1) _ k(2)] by (simp add: u_def foreign_to_def)
      with False show False by (simp add: noisy_def)
    qed
    with q Cons.prems(7) show ?thesis
      by (simp add: quiet_def recent_errors_def error_thresh_def)
  qed
  have t: "t = fold (deliver host) (map (\<lambda>j. OutObserver j ex) js) u"
    using Cons.prems(5) by (simp add: u_def)
  have "recent_errors base (sys_risk u)
      + length (filter (\<lambda>i. foreign_to ?y u (sys_observers u ! i)) js)
      \<le> recent_errors base (sys_risk t)
    \<and> (c < recent_errors base (sys_risk t)
       \<longrightarrow> unat (error_thresh (sys_risk u)) < recent_errors base (sys_risk t)
       \<longrightarrow> rk_halted (sys_risk t))"
  proof (rule Cons.IH [OF _ Cons.prems(2) _ _ t])
    show "gw_orderLifecycle (exe_localOrderId ex) (sys_gateway u) = Some rec"
      using Cons.prems(1) by (simp add: g)
    show "\<forall>i \<in> set js. sys_observers u ! i < length (sys_engines u)
        \<and> en_hasGateway (engine_at (sys_observers u ! i) u)" using same by blast
    show "length (rk_errorTimestamps (sys_risk u)) + length js < 2 ^ 32"
      using step Cons.prems(4) by simp
    show "c \<le> recent_errors base (sys_risk u)" using step Cons.prems(6) by simp
  qed (use step in blast)
  then show ?case using step by (auto simp: fl)
qed

end
