(* ===== verification/ExecutionHalt.thy ===== *)
theory ExecutionHalt
  imports ExecutionErrors
begin

text \<open>
  Sales do not depend on the risk engine: two states that agree on everything but the risk engine
  still do after the same sale, and the sale returns the same.  So no halt, latency breach,
  drawdown or limit can keep a position from being closed.
\<close>

definition but_risk :: "'x sys \<Rightarrow> 'x sys" where
  "but_risk s = s\<lparr>sys_risk := risk_new 0 NaN 0\<rparr>"

lemma but_risk_read [simp]:
  "sys_portfolio (but_risk s) = sys_portfolio s" "sys_gateway (but_risk s) = sys_gateway s"
  "sys_engines (but_risk s) = sys_engines s" "sys_observers (but_risk s) = sys_observers s"
  "sys_ticks (but_risk s) = sys_ticks s" "sys_analytics (but_risk s) = sys_analytics s"
  "sys_allocator (but_risk s) = sys_allocator s" "engine_at k (but_risk s) = engine_at k s"
  "clock_now host (but_risk s) = clock_now host s" "but_risk (but_risk s) = but_risk s"
  by (simp_all add: but_risk_def engine_at_def clock_now_def)

lemma but_risk_write [simp]:
  "but_risk (s\<lparr>sys_risk := r\<rparr>) = but_risk s"
  "but_risk (s\<lparr>sys_portfolio := p\<rparr>) = (but_risk s)\<lparr>sys_portfolio := p\<rparr>"
  "but_risk (s\<lparr>sys_gateway := g\<rparr>) = (but_risk s)\<lparr>sys_gateway := g\<rparr>"
  "but_risk (on_engine k f s) = on_engine k f (but_risk s)"
  "but_risk (tick s) = tick (but_risk s)"
  "but_risk (report_error host s) = tick (but_risk s)"
  "but_risk (record_trade e entry s) = record_trade e entry (but_risk s)"
  "but_risk (record_slippage e t x y q s) = record_slippage e t x y q (but_risk s)"
  "but_risk (record_fill e request px n ff t p s) = record_fill e request px n ff t p (but_risk s)"
  by (simp_all add: but_risk_def on_engine_def tick_def report_error_def record_trade_def
      record_slippage_def record_fill_def Let_def split: prod.splits)

lemma but_risk_eqD: "but_risk u = but_risk t \<Longrightarrow> u = t\<lparr>sys_risk := sys_risk u\<rparr>"
  by (cases u, cases t) (simp add: but_risk_def)

lemma but_risk_finish [simp]:
  "but_risk (finish_fill k i c r (but_risk s)) = but_risk (finish_fill k i c r s)"
  by (simp add: finish_fill_def Let_def)

lemma but_risk_latency [simp]:
  "but_risk (note_latency k x (but_risk s)) = but_risk (note_latency k x s)"
  by (simp add: note_latency_def Let_def)

lemma but_risk_execution:
  "but_risk (onBrokerExecution host k ex (but_risk s)) = but_risk (onBrokerExecution host k ex s)"
proof -
  have fill: "but_risk (finish_fill k i c r (record_fill e request px n f t p (but_risk s)))
      = but_risk (finish_fill k i c r (record_fill e request px n f t p s))" for i c r e request px n f t p
    using but_risk_finish [of k i c r "record_fill e request px n f t p s"] by simp
  show ?thesis
    by (auto simp: onBrokerExecution_def Let_def fill split: option.splits)
qed

lemma but_risk_deliver: "but_risk (deliver host x (but_risk s)) = but_risk (deliver host x s)"
  by (cases "(host, x, s)" rule: deliver.cases) (simp_all add: but_risk_execution)

lemma but_risk_deliver_all:
  "but_risk (deliver_all host out (but_risk s)) = but_risk (deliver_all host out s)"
  unfolding deliver_all_def
proof (induction out arbitrary: s)
  case (Cons x out)
  have "but_risk (fold (deliver host) out (deliver host x (but_risk s)))
      = but_risk (fold (deliver host) out (but_risk (deliver host x (but_risk s))))"
    by (simp add: Cons)
  also have "\<dots> = but_risk (fold (deliver host) out (but_risk (deliver host x s)))"
    by (simp add: but_risk_deliver)
  finally show ?case by (simp add: Cons)
qed simp

text \<open>A sale routed to the gateway: the final decision allows it whatever the risk engine says.\<close>

lemma dispatch_sale:
  "but_risk (fst (dispatchBrokerOrder host k False q x ts sid (but_risk s)))
     = but_risk (fst (dispatchBrokerOrder host k False q x ts sid s))
   \<and> snd (dispatchBrokerOrder host k False q x ts sid (but_risk s))
     = snd (dispatchBrokerOrder host k False q x ts sid s)"
proof -
  have late: "but_risk (deliver_all host out ((note_latency j y (tick
        (on_engine k f (tick (but_risk s)))))\<lparr>sys_gateway := g\<rparr>))
      = but_risk (deliver_all host out ((note_latency j y (tick
        (on_engine k f (tick s))))\<lparr>sys_gateway := g\<rparr>))" (is "?l = ?r") for out j y f g
  proof -
    let ?t = "tick (on_engine k f (tick s))"
    have u: "but_risk ((note_latency j y (but_risk ?t))\<lparr>sys_gateway := g\<rparr>)
        = but_risk ((note_latency j y ?t)\<lparr>sys_gateway := g\<rparr>)"
      by (simp only: but_risk_write(3) but_risk_latency)
    have "but_risk (deliver_all host out ((note_latency j y (but_risk ?t))\<lparr>sys_gateway := g\<rparr>))
        = but_risk (deliver_all host out ((note_latency j y ?t)\<lparr>sys_gateway := g\<rparr>))"
      unfolding but_risk_deliver_all [of host out "(note_latency j y (but_risk ?t))\<lparr>sys_gateway := g\<rparr>", symmetric]
        but_risk_deliver_all [of host out "(note_latency j y ?t)\<lparr>sys_gateway := g\<rparr>", symmetric] u ..
    then show ?thesis by simp
  qed
  show ?thesis
    by (simp add: dispatchBrokerOrder_def final_risk_def Let_def late clock_now_def split: sum.splits prod.splits)
qed

lemma sell_but_risk:
  "but_risk (fst (execute_sell host k y ts sid (but_risk s))) = but_risk (fst (execute_sell host k y ts sid s))
   \<and> snd (execute_sell host k y ts sid (but_risk s)) = snd (execute_sell host k y ts sid s)"
  using dispatch_sale [of host k _ y ts sid s]
  by (auto simp: execute_sell_def local_sell_def blocked_def route_def Let_def
      split: option.splits sum.splits)

lemma sale_but_risk:
  "but_risk (fst (execute host k strategy S_Sell x ts sid (but_risk s)))
     = but_risk (fst (execute host k strategy S_Sell x ts sid s))
   \<and> snd (execute host k strategy S_Sell x ts sid (but_risk s))
     = snd (execute host k strategy S_Sell x ts sid s)"
proof -
  let ?s = "on_engine k count_signal s"
  have b: "on_engine k count_signal (but_risk s) = but_risk ?s" by simp
  have e: "engine_at k (on_engine k count_signal (but_risk s)) = engine_at k ?s"
    by (simp add: engine_at_def on_engine_def)
  show ?thesis
    using sell_but_risk [of host k _ ts sid ?s]
    by (auto simp: execute_def Let_def blocked_def e split: option.splits)
qed

lemma sale_ignores_risk:
  fixes host k strategy x ts sid s r
  defines "t \<equiv> execute host k strategy S_Sell x ts sid s"
    and "u \<equiv> execute host k strategy S_Sell x ts sid (s\<lparr>sys_risk := r\<rparr>)"
  shows "fst u = (fst t)\<lparr>sys_risk := sys_risk (fst u)\<rparr> \<and> snd u = snd t"
proof -
  have "but_risk (fst u) = but_risk (fst t) \<and> snd u = snd t"
    using sale_but_risk [of host k strategy x ts sid "s\<lparr>sys_risk := r\<rparr>"]
      sale_but_risk [of host k strategy x ts sid s] unfolding t_def u_def by simp
  then show ?thesis using but_risk_eqD by blast
qed

end
