(* ===== verification/ExecutionClaims.thy ===== *)
theory ExecutionClaims
  imports ExecutionHalt GatewayClaims
begin

text \<open>
  The properties of the execution engine: what a broker's fill does, that it counts once, when
  nothing may be bought, and what goes wrong when several engines share a gateway.
\<close>

subsection \<open>Fills of the broker\<close>

lemma quantity_none:
  assumes "fmt_ok L"
  shows "quantity_of L (Fin 0) RejectUnaligned = Some (FValue 0)"
proof -
  have "toDouble (FValue 0 :: quantity) = Fin 0" by (simp add: toDouble_rat double_rat_def)
  moreover have "small (FValue 0 :: quantity)" by (simp add: small_def)
  ultimately show ?thesis using small_back(3) [OF assms, of "FValue 0"] by simp
qed

lemma buy_fill_effect:
  assumes "apply_buy_fill host e px n f t sid p = Some q" and "fmt_ok (hs_format host)"
    and "small px" "small (f :: money)" "small n" and "0 < units n"
  shows "\<exists>cost. notional px n NearestTiesAwayFromZero = Some cost
    \<and> units (pm_cash q) = units (pm_cash p) - units cost - units f
    \<and> held (en_symbol e) q = held (en_symbol e) p + units n"
proof (cases "map_of (pm_positions p) (en_symbol e)")
  case None
  with assms(1) obtain c where "openLong (hs_format host) (hs_order host) (en_symbol e) (toDouble px) t
      (toDouble f) c (toDouble n) sid p = Inr q"
    by (auto simp: apply_buy_fill_def Let_def hasPosition_def split: option.splits sum.splits)
  from openLong_effect [OF this assms(2-6)] show ?thesis by auto
next
  case (Some st)
  with assms(1) obtain c where "addToLong (hs_format host) (hs_order host) (en_symbol e) (toDouble px)
      (toDouble n) (toDouble f) c sid p = Inr q"
    by (auto simp: apply_buy_fill_def Let_def hasPosition_def split: option.splits sum.splits)
  from addToLong_effect [OF this Some assms(2-5)] show ?thesis by auto
qed

lemma sell_fill_effect:
  assumes "apply_sell_fill host e px n f t sid p = Some q" and "fmt_ok (hs_format host)"
    and "small px" "small (f :: money)" "small n" and "0 < units n" and "pm_inv p"
  shows "\<exists>proceeds. notional px n NearestTiesAwayFromZero = Some proceeds
    \<and> units (pm_cash q) = units (pm_cash p) + units proceeds - units f
    \<and> held (en_symbol e) q = held (en_symbol e) p - units n \<and> units n \<le> held (en_symbol e) p"
proof -
  from assms(1) have run: "closePosition (hs_format host) (hs_order host) (en_symbol e) (toDouble px) t
      (toDouble f) sid (toDouble n) p = Inr q"
    and pos: "\<exists>held. quantity_of (hs_format host) (getPositionQuantity (en_symbol e) p) RejectUnaligned
        = Some held \<and> isPositive held"
    by (auto simp: apply_sell_fill_def Let_def split: option.splits sum.splits if_splits)
  obtain st where "map_of (pm_positions p) (en_symbol e) = Some st"
    using pos quantity_none [OF assms(2)]
    by (cases "map_of (pm_positions p) (en_symbol e)")
      (auto simp: getPositionQuantity_def isPositive_def)
  from closePosition_effect [OF run assms(7) this assms(2-6)] show ?thesis by blast
qed

text \<open>An execution that reaches the accounting: the order is known and of the engine's symbol, and
  what it adds to the fills applied so far is positive.\<close>

lemma accepted_execution:
  assumes "en_filledCount (engine_at k (onBrokerExecution host k ex s)) \<noteq> en_filledCount (engine_at k s)"
    and "execution_amounts (hs_format host) ex = Some (cum, rem, px, f)"
    and "k < length (sys_engines s)"
  shows "\<exists>rec n p.
    gw_orderLifecycle (exe_localOrderId ex) (sys_gateway s) = Some rec
    \<and> req_canonicalSymbol (lr_request rec) = en_symbol (engine_at k s)
    \<and> units n = units cum - units (previous_fill (engine_at k s) (exe_localOrderId ex))
    \<and> 0 < units n
    \<and> apply_fill host (engine_at k s) (lr_request rec) px n f (exe_timestampNs ex)
        (sys_portfolio s) = Some p
    \<and> sys_portfolio (onBrokerExecution host k ex s) = p
    \<and> onBrokerExecution host k ex s = finish_fill k (exe_localOrderId ex) cum rem
        (record_fill (engine_at k s) (lr_request rec) px n f (exe_timestampNs ex) p s)
    \<and> engine_at k (onBrokerExecution host k ex s)
        = settle_fill (exe_localOrderId ex) cum rem
            ((count_filled (engine_at k s))\<lparr>en_lastBrokerOrderId := exe_localOrderId ex\<rparr>)"
proof -
  let ?e = "engine_at k s" and ?i = "exe_localOrderId ex"
  have no: "onBrokerExecution host k ex s \<notin> {s, report_error host s}" using assms(1) by auto
  then obtain rec where rec: "gw_orderLifecycle ?i (sys_gateway s) = Some rec"
    and gw: "en_hasGateway ?e" and y: "req_canonicalSymbol (lr_request rec) = en_symbol ?e"
    by (auto simp: onBrokerExecution_def Let_def split: option.splits if_splits)
  with no assms(2) obtain n where n: "subtract_value cum (previous_fill ?e ?i) = Some n" "isPositive n"
    by (auto simp: onBrokerExecution_def Let_def split: option.splits if_splits)
  with no assms(2) rec gw y obtain p where
    p: "apply_fill host ?e (lr_request rec) px n f (exe_timestampNs ex) (sys_portfolio s) = Some p"
    by (auto simp: onBrokerExecution_def Let_def split: option.splits)
  have "onBrokerExecution host k ex s = finish_fill k ?i cum rem
      (record_fill ?e (lr_request rec) px n f (exe_timestampNs ex) p s)"
    using rec gw y assms(2) n p by (simp add: onBrokerExecution_def Let_def)
  then show ?thesis
    using rec y n p assms(3) checked_units(2) [OF n(1)]
    by (intro exI [of _ rec] exI [of _ n] exI [of _ p])
      (simp add: finish_fill_def Let_def isPositive_def)
qed

text \<open>What the telemetry is to hold of a fill, written from the request and the amounts.\<close>

definition fill_record ::
  "order_request \<Rightarrow> price \<Rightarrow> quantity \<Rightarrow> money \<Rightarrow> u64 \<Rightarrow> portfolio \<Rightarrow> trade_log_entry" where
  "fill_record request px n f t q =
     (let bought = (req_side request = Buy);
          profit = (\<lambda>g. if bought \<or> pm_tradeLog q = [] then Fin 0 else g (last (pm_tradeLog q)))
      in \<lparr>tle_timestamp = t, tle_side = (if bought then CHR ''B'' else CHR ''S''),
          tle_price = toDouble px, tle_quantity = toDouble n, tle_fee = toDouble f,
          tle_realizedPnL = profit trd_realizedPnL, tle_grossPnL = profit trd_grossPnL,
          tle_strategy_id = req_sourceId request\<rparr>)"

definition fill_slippage ::
  "string \<Rightarrow> order_request \<Rightarrow> price \<Rightarrow> quantity \<Rightarrow> u64 \<Rightarrow> slippage_point list" where
  "fill_slippage y request px n t =
     (let expected = (case req_referencePrice request of
              None \<Rightarrow> toDouble px | Some d \<Rightarrow> decimal_toDouble d)
      in if fp_le expected (Fin 0) then []
         else [\<lparr>slp_timestamp = t, slp_symbol = y, slp_expectedPrice = expected,
                slp_actualPrice = toDouble px, slp_quantity = toDouble n,
                slp_slippageBps = fp_mul binary64 (fp_div binary64
                  (fp_sub binary64 (toDouble px) expected) expected) (Fin 10000)\<rparr>])"

definition fill_telemetry ::
  "engine \<Rightarrow> order_request \<Rightarrow> price \<Rightarrow> quantity \<Rightarrow> money \<Rightarrow> u64 \<Rightarrow> 'x sys \<Rightarrow> 'x sys \<Rightarrow> bool" where
  "fill_telemetry e request px n f ts s t \<longleftrightarrow>
     (if en_hasAnalytics e
      then let entry = fill_record request px n f ts (sys_portfolio t);
               a = sys_analytics s; b = sys_analytics t
           in an_trades b = an_trades a @ [entry]
              \<and> an_slippage b = an_slippage a @ fill_slippage (en_symbol e) request px n ts
              \<and> an_equity b = an_equity a \<and> an_regimeMatrix b = an_regimeMatrix a
              \<and> sys_allocator t
                = (if an_hasAllocator a \<and> req_side request \<noteq> Buy \<and> req_sourceId request \<noteq> []
                   then onTradeClosed (req_sourceId request) (tle_realizedPnL entry) (sys_allocator s)
                   else sys_allocator s)
      else sys_analytics t = sys_analytics s \<and> sys_allocator t = sys_allocator s)"

lemma record_fill_telemetry:
  assumes "small n" and "0 < units n" and "t = finish_fill k i c r (record_fill e request px n f ts q s)"
  shows "fill_telemetry e request px n f ts s t"
proof -
  have "\<not> fp_le (toDouble n) (Fin 0)"
    using toDouble_pos [OF assms(1,2)] by (cases "toDouble n") (auto simp: fp_le_def)
  then show ?thesis
    using assms(3)
    by (auto simp: fill_telemetry_def fill_record_def fill_slippage_def finish_fill_def
        record_fill_def record_trade_def record_slippage_def recordTrade_def recordSlippage_def
        buy_entry_def sell_entry_def last_pnl_def on_engine_def Let_def
        split: option.splits)
qed

lemma synced_holding:
  assumes "pm_inv q" and "x = getPositionQuantity y q"
  shows "syncedPosition y (syncPosition y x r) = x"
proof -
  have ok: "position_ok st" if "map_of (pm_positions q) y = Some st" for st
    using assms(1) map_of_SomeD [OF that] by (auto simp: pm_inv_def)
  obtain v where "x = Fin v" "0 \<le> v"
    using assms(2) ok
    by (auto simp: getPositionQuantity_def position_ok_def toDouble_rat(1) double_rat_nonneg
        split: option.splits)
  then show ?thesis
    by (auto simp: syncPosition_def syncedPosition_def fp_le_def delete_conv' update_conv'
        split: option.splits)
qed

text \<open>C4. A fill that an engine accepts, of amounts below 2^51 units, changes its position by exactly
  what the broker reports beyond the fills already applied, and the cash by the notional of that
  and the fee; a sale is never of more than is held.  The risk engine is told the new holding;
  telemetry, where attached, gets one trade and its slippage, and the allocator the profit of a
  sale; the engine remembers the cumulative and the remaining quantity of the order, or forgets
  it when nothing remains.  The gateway and the other engines are as before.\<close>

theorem broker_fill_exact:
  assumes "host_ok host" and "pm_inv (sys_portfolio s)" and "k < length (sys_engines s)"
    and "e = engine_at k s" and "t = onBrokerExecution host k ex s"
    and "en_filledCount (engine_at k t) \<noteq> en_filledCount e"
    and "execution_amounts (hs_format host) ex = Some (cum, rem, px, f)"
    and "small cum" "small px" "small f" "0 \<le> units (previous_fill e (exe_localOrderId ex))"
  shows "\<exists>rec amount.
    gw_orderLifecycle (exe_localOrderId ex) (sys_gateway s) = Some rec
    \<and> notional px (FValue (units cum - units (previous_fill e (exe_localOrderId ex))))
        NearestTiesAwayFromZero = Some amount
    \<and> (let n = units cum - units (previous_fill e (exe_localOrderId ex));
           p = sys_portfolio s; q = sys_portfolio t; y = en_symbol e
       in 0 < n
          \<and> (if req_side (lr_request rec) = Buy
             then held y q = held y p + n
               \<and> units (pm_cash q) = units (pm_cash p) - units amount - units f
             else held y q = held y p - n \<and> n \<le> held y p
               \<and> units (pm_cash q) = units (pm_cash p) + units amount - units f)
          \<and> syncedPosition y (sys_risk t) = getPositionQuantity y q
          \<and> fill_telemetry e (lr_request rec) px (FValue n) f (exe_timestampNs ex) s t)
    \<and> en_appliedBrokerQty (engine_at k t) (exe_localOrderId ex)
        = (if isPositive rem then Some cum else None)
    \<and> en_pendingBrokerQty (engine_at k t) (exe_localOrderId ex)
        = (if isPositive rem then Some rem else None)
    \<and> en_filledCount (engine_at k t) = en_filledCount e + 1
    \<and> en_lastBrokerOrderId (engine_at k t) = exe_localOrderId ex
    \<and> sys_gateway t = sys_gateway s \<and> (\<forall>j. j \<noteq> k \<longrightarrow> engine_at j t = engine_at j s)"
proof -
  from accepted_execution [OF _ assms(7,3)] assms(6)
  obtain rec n where rec: "gw_orderLifecycle (exe_localOrderId ex) (sys_gateway s) = Some rec"
    and n: "units n = units cum - units (previous_fill e (exe_localOrderId ex))" "0 < units n"
    and fill: "apply_fill host e (lr_request rec) px n f (exe_timestampNs ex) (sys_portfolio s)
        = Some (sys_portfolio t)"
    and t: "t = finish_fill k (exe_localOrderId ex) cum rem
        (record_fill e (lr_request rec) px n f (exe_timestampNs ex) (sys_portfolio t) s)"
    and e': "engine_at k t = settle_fill (exe_localOrderId ex) cum rem
        ((count_filled e)\<lparr>en_lastBrokerOrderId := exe_localOrderId ex\<rparr>)"
    unfolding assms(4,5) by blast
  have L: "fmt_ok (hs_format host)" using assms(1) by (simp add: host_ok_def ld_exact_def)
  have sn: "small n" using assms(8,11) n by (simp add: small_def)
  have nv: "FValue (units cum - units (previous_fill e (exe_localOrderId ex))) = n"
    using n(1) by (cases n) simp
  have tracked: "en_appliedBrokerQty (engine_at k t) (exe_localOrderId ex)
      = (if isPositive rem then Some cum else None)
    \<and> en_pendingBrokerQty (engine_at k t) (exe_localOrderId ex)
      = (if isPositive rem then Some rem else None)
    \<and> en_filledCount (engine_at k t) = en_filledCount e + 1
    \<and> en_lastBrokerOrderId (engine_at k t) = exe_localOrderId ex"
    by (simp add: e' settle_fill_def count_filled_def)
  have kept: "sys_gateway t = sys_gateway s" "\<forall>j. j \<noteq> k \<longrightarrow> engine_at j t = engine_at j s"
    by (subst t, simp) (subst t, simp add: finish_fill_def Let_def engine_at_def on_engine_def)
  have told: "fill_telemetry e (lr_request rec) px n f (exe_timestampNs ex) s t"
    by (rule record_fill_telemetry [OF sn n(2) t])
  have books: "\<exists>amount. notional px n NearestTiesAwayFromZero = Some amount
      \<and> (if req_side (lr_request rec) = Buy
         then held (en_symbol e) (sys_portfolio t) = held (en_symbol e) (sys_portfolio s) + units n
           \<and> units (pm_cash (sys_portfolio t)) = units (pm_cash (sys_portfolio s)) - units amount - units f
         else held (en_symbol e) (sys_portfolio t) = held (en_symbol e) (sys_portfolio s) - units n
           \<and> units n \<le> held (en_symbol e) (sys_portfolio s)
           \<and> units (pm_cash (sys_portfolio t)) = units (pm_cash (sys_portfolio s)) + units amount - units f)"
  proof (cases "req_side (lr_request rec) = Buy")
    case True
    with fill have "apply_buy_fill host e px n f (exe_timestampNs ex) (req_sourceId (lr_request rec))
        (sys_portfolio s) = Some (sys_portfolio t)" by (simp add: apply_fill_def)
    from buy_fill_effect [OF this L assms(9,10) sn n(2)] True show ?thesis by auto
  next
    case False
    with fill have "apply_sell_fill host e px n f (exe_timestampNs ex) (req_sourceId (lr_request rec))
        (sys_portfolio s) = Some (sys_portfolio t)" by (simp add: apply_fill_def)
    from sell_fill_effect [OF this L assms(9,10) sn n(2) assms(2)] False show ?thesis by auto
  qed
  have "pm_inv (sys_portfolio t)"
    using execution_books [OF assms(1), of s k ex] assms(2) unfolding assms(5)
    by (auto simp: balanced_def books_def)
  then have synced: "syncedPosition (en_symbol e) (sys_risk t)
      = getPositionQuantity (en_symbol e) (sys_portfolio t)"
    by (subst t) (simp add: finish_fill_risk synced_holding assms(4))
  show ?thesis
    using rec n books tracked kept told synced by (auto simp: nv Let_def)
qed


lemma deliver_all_gateway [simp]: "sys_gateway (deliver_all host out s) = sys_gateway s"
  using deliver_all_wiring [of host out s] by (simp add: wiring_def)

lemma deliver_all_Nil [simp]: "deliver_all host [] s = s"
  by (simp add: deliver_all_def)



subsection \<open>When nothing may be bought\<close>

lemma canTrade_frame [simp]:
  "sys_canTrade (on_engine k f s) = sys_canTrade s" "sys_canTrade (tick s) = sys_canTrade s"
  by (simp_all add: sys_canTrade_def)

lemma dispatch_halted:
  assumes "\<not> sys_canTrade s"
  shows "sys_portfolio (fst (dispatchBrokerOrder host k True q x ts sid s)) = sys_portfolio s
    \<and> sys_gateway (fst (dispatchBrokerOrder host k True q x ts sid s)) = sys_gateway s
    \<and> \<not> snd (dispatchBrokerOrder host k True q x ts sid s)"
  using assms
  by (simp add: dispatchBrokerOrder_def Let_def final_risk_def dispatchOrder_def dispatch_failed_def
      split: sum.splits)

text \<open>C9. While the risk engine forbids trading, no signal and no pending order buys anything: the
  portfolio and the gateway, with every order in it, stay as they are, with a gateway bound or
  without.  Positions can still be closed: a sale, local or through the gateway, returns the
  same and leaves the same state but for the risk engine as if that allowed everything.\<close>

theorem halted_engine_never_buys:
  assumes "\<not> sys_canTrade s"
  shows "sys_portfolio (fst (execute host k strategy S_Buy x ts sid s)) = sys_portfolio s
    \<and> sys_gateway (fst (execute host k strategy S_Buy x ts sid s)) = sys_gateway s
    \<and> snd (execute host k strategy S_Buy x ts sid s) = Inr False
    \<and> (ofr_isBuy res \<longrightarrow> sys_portfolio (fst (pending_fill host k res s)) = sys_portfolio s
        \<and> sys_gateway (fst (pending_fill host k res s)) = sys_gateway s
        \<and> snd (pending_fill host k res s) = Inr False)
    \<and> (let t = execute host k strategy S_Sell x ts sid s;
           u = execute host k strategy S_Sell x ts sid (s\<lparr>sys_risk := r\<rparr>)
       in fst u = (fst t)\<lparr>sys_risk := sys_risk (fst u)\<rparr> \<and> snd u = snd t)"
proof -
  have same: "\<not> sys_canTrade (on_engine k count_signal s)"
    using assms by simp
  have buy: "sys_portfolio (fst (execute_buy host k strategy y ts sid (on_engine k count_signal s))) = sys_portfolio s
      \<and> sys_gateway (fst (execute_buy host k strategy y ts sid (on_engine k count_signal s))) = sys_gateway s
      \<and> snd (execute_buy host k strategy y ts sid (on_engine k count_signal s)) = Inr False" for y
    using dispatch_halted [OF same, of host k] same
    by (auto simp: execute_buy_def local_buy_def blocked_def route_def Let_def
        split: option.splits prod.splits)
  have "sys_portfolio (fst (execute host k strategy S_Buy x ts sid s)) = sys_portfolio s
    \<and> sys_gateway (fst (execute host k strategy S_Buy x ts sid s)) = sys_gateway s
    \<and> snd (execute host k strategy S_Buy x ts sid s) = Inr False"
    using buy by (auto simp: execute_def Let_def blocked_def split: option.splits)
  moreover have "ofr_isBuy res \<longrightarrow> sys_portfolio (fst (pending_fill host k res s)) = sys_portfolio s
        \<and> sys_gateway (fst (pending_fill host k res s)) = sys_gateway s
        \<and> snd (pending_fill host k res s) = Inr False"
    using assms by (auto simp: pending_fill_def pending_buy_def blocked_def Let_def split: option.splits)
  moreover note sale_ignores_risk [where host = host and k = k and strategy = strategy and x = x
      and ts = ts and sid = sid and s = s and r = r]
  ultimately show ?thesis unfolding Let_def by blast
qed

text \<open>C10. An engine bound to a gateway never falls back to a local fill: while the gateway is not
  connected every signal is refused, and portfolio, risk engine, telemetry and gateway stay as
  they are.\<close>

theorem bound_engine_fails_closed:
  assumes "k < length (sys_engines s)" and "en_hasGateway (engine_at k s)"
    and "\<not> gw_isConnected (hs_ops host) (sys_gateway s)"
  shows "snd (execute host k strategy sig x ts sid s) = Inr False
    \<and> (let t = fst (execute host k strategy sig x ts sid s)
       in t\<lparr>sys_engines := sys_engines s\<rparr> = s)"
  using assms
  by (auto simp: execute_def Let_def blocked_def on_engine_def engine_at_def count_signal_def
      split: option.splits)

subsection \<open>Several engines at one gateway\<close>

lemma normalizeOrder_request: "normalizeOrder request g = Inr order \<Longrightarrow> nrm_request order = request"
  by (auto simp: normalizeOrder_def Let_def split: if_splits option.splits)

lemma create_known: "m_records store (req_localOrderId q) \<noteq> None \<Longrightarrow> create q store = (store, False)"
  by (simp add: create_def)

lemma dispatch_enter_known:
  assumes "m_records store (req_localOrderId (nrm_request order)) \<noteq> None"
  shows "dispatch_enter order store = (store, Some ''duplicate or invalid order identity'')"
proof -
  have "req_localOrderId (dispatch_request order) = req_localOrderId (nrm_request order)"
    by (simp add: dispatch_request_def)
  with assms create_known [of store "dispatch_request order"] show ?thesis
    by (simp add: dispatch_enter_def Let_def)
qed

lemma store_step_keeps: "m_records s i \<noteq> None \<Longrightarrow> m_records (store_step c s) i \<noteq> None"
  using exec_call_committed [of c s "fst (exec_call c s)" "snd (exec_call c s)"]
  by (auto simp: store_step_def committed_def split: if_splits)

lemma gw_reaches_keeps:
  assumes "gw_reaches s t" and "m_records s i \<noteq> None"
  shows "m_records t i \<noteq> None"
proof -
  have "m_records (run_machine store_step cs s) i \<noteq> None" for cs
    using assms(2)
  proof (induction cs arbitrary: s)
    case (Cons c cs)
    from Cons.IH [OF store_step_keeps [OF Cons.prems]] show ?case by simp
  qed simp
  with assms(1) show ?thesis by (auto simp: gw_reaches_def)
qed

lemma dispatch_enter_creates:
  assumes "dispatch_enter order store = (t, None)"
  shows "m_records t (req_localOrderId (nrm_request order)) \<noteq> None"
proof -
  let ?i = "req_localOrderId (nrm_request order)"
  have id: "req_localOrderId (dispatch_request order) = ?i" by (simp add: dispatch_request_def)
  obtain a b c where a: "create (dispatch_request order) store = (a, True)"
    and b: "fst (exec_call (Call_riskChecked ?i (riskKey ?i) (req_timestampNs (nrm_request order))
        (req_sequence (nrm_request order) + 1)) a) = b"
    and c: "fst (exec_call (Call_submitted ?i (submitKey ?i) (req_timestampNs (nrm_request order))
        (req_sequence (nrm_request order) + 2)) b) = t"
    using assms by (auto simp: dispatch_enter_def Let_def split: prod.splits if_splits)
  from a have "m_records a ?i \<noteq> None"
    by (auto simp: create_def id Let_def split: if_splits)
  from store_step_keeps [OF this] have "m_records b ?i \<noteq> None" unfolding b [symmetric] store_step_def .
  from store_step_keeps [OF this] show ?thesis unfolding c [symmetric] store_step_def .
qed

lemma dispatched_known:
  assumes "dispatchOrder L ops order risk g = (h, result, out)" and "dsp_dispatched result"
  shows "m_records (gw_lifecycle h) (req_localOrderId (nrm_request order)) \<noteq> None"
proof -
  from assms obtain store ad es where
    e: "dispatch_enter order (gw_lifecycle g) = (store, None)"
    and ev: "gw_events es (g\<lparr>gw_lifecycle := store,
        gw_totalOrdersSubmitted := gw_totalOrdersSubmitted g + 1, gw_adapter := ad\<rparr>) = (h, out)"
    by (auto simp: dispatchOrder_def Let_def dispatch_failed_def
        split: if_splits prod.splits option.splits)
  from gw_events_fst [OF ev] have "gw_reaches store (gw_lifecycle h)"
    using store_events_reaches by simp
  from gw_reaches_keeps [OF this dispatch_enter_creates [OF e]] show ?thesis .
qed

lemma dispatch_known_id:
  assumes "m_records (gw_lifecycle (sys_gateway s)) (en_nextLocalOrderId (engine_at k s)) \<noteq> None"
    and "k < length (sys_engines s)"
    and "dispatchBrokerOrder host k isBuy q x ts sid s = (t, ok)"
  shows "\<not> ok \<and> sys_portfolio t = sys_portfolio s
    \<and> gw_lifecycle (sys_gateway t) = gw_lifecycle (sys_gateway s)
    \<and> gw_adapter (sys_gateway t) = gw_adapter (sys_gateway s)
    \<and> en_blockedCount (engine_at k t) = en_blockedCount (engine_at k s) + 1"
proof -
  let ?request = "market_request (engine_at k s) isBuy q x ts sid"
  have d: "dispatchOrder L ops order risk g = (if \<not> rsk_allowed risk
      then (g, snd (dispatchOrder L ops order risk g)) else (gw_api_error g, snd (dispatchOrder L ops order risk g)))
    \<and> \<not> dsp_dispatched (fst (snd (dispatchOrder L ops order risk g)))
    \<and> dsp_failure (fst (snd (dispatchOrder L ops order risk g))) \<noteq> F_None
    \<and> snd (snd (dispatchOrder L ops order risk g)) = []"
    if "m_records (gw_lifecycle g) (req_localOrderId (nrm_request order)) \<noteq> None"
    for L ops order risk and g :: "'x gateway"
    using dispatch_enter_known [OF that]
    by (simp add: dispatchOrder_def Let_def dispatch_failed_def)
  have n: "req_localOrderId (nrm_request order) = en_nextLocalOrderId (engine_at k s)"
    if "normalizeOrder ?request (sys_gateway s) = Inr order" for order
    using normalizeOrder_request [OF that] by (simp add: market_request_def)
  have count: "en_blockedCount (count_blocked e) = en_blockedCount e + 1"
    "en_blockedCount (e\<lparr>en_nextLocalOrderId := i\<rparr>) = en_blockedCount e" for e i
    by (simp_all add: count_blocked_def)
  have lat: "en_blockedCount (engine_at k (note_latency k ms u)) = en_blockedCount (engine_at k u)"
    if "k < length (sys_engines u)" for ms and u :: "'x sys"
    using that by (simp add: note_latency_def Let_def)
  show ?thesis
  proof (cases "normalizeOrder ?request (sys_gateway s)")
    case (Inl why)
    with assms(2,3) show ?thesis
      by (auto simp: dispatchBrokerOrder_def Let_def count split: if_splits)
  next
    case (Inr order)
    have known: "m_records (gw_lifecycle (sys_gateway s)) (req_localOrderId (nrm_request order)) \<noteq> None"
      using n [OF Inr] assms(1) by simp
    obtain g result out where e: "dispatchOrder (hs_format host) (hs_ops host) order
        (final_risk isBuy (isBuy \<and> sys_canTrade s)) (sys_gateway s) = (g, result, out)"
      by (metis prod_cases3)
    from d [OF known, of "hs_format host" "hs_ops host" "final_risk isBuy (isBuy \<and> sys_canTrade s)"]
    have r: "\<not> dsp_dispatched result" "dsp_failure result \<noteq> F_None" "out = []"
      "g = sys_gateway s \<or> g = gw_api_error (sys_gateway s)"
      by (auto simp: e split: if_splits)
    have g: "gw_lifecycle g = gw_lifecycle (sys_gateway s)" "gw_adapter g = gw_adapter (sys_gateway s)"
      using r(4) by (auto simp: gw_api_error_def)
    show ?thesis
      using assms(2,3) Inr e r(1-3) g
      by (auto simp: dispatchBrokerOrder_def Let_def count lat split: if_splits)
  qed
qed

text \<open>C26. Every engine numbers its orders from one, and all of them share the gateway: when two
  engines have the same next number, as they have at the start, and the order of the one is
  dispatched, the next order of the other is refused, whatever it is; nothing reaches the
  portfolio, the order store or the adapter.\<close>

theorem engines_share_order_ids:
  assumes "a \<noteq> b" and "a < length (sys_engines s)" and "b < length (sys_engines s)"
    and "en_nextLocalOrderId (engine_at a s) = en_nextLocalOrderId (engine_at b s)"
    and "dispatchBrokerOrder host a isBuy q x ts sid s = (t, True)"
    and "dispatchBrokerOrder host b isBuy2 q2 x2 ts2 sid2 t = (u, ok)"
  shows "\<not> ok \<and> sys_portfolio u = sys_portfolio t
    \<and> gw_lifecycle (sys_gateway u) = gw_lifecycle (sys_gateway t)
    \<and> gw_adapter (sys_gateway u) = gw_adapter (sys_gateway t)
    \<and> en_blockedCount (engine_at b u) = en_blockedCount (engine_at b t) + 1"
proof -
  let ?request = "market_request (engine_at a s) isBuy q x ts sid"
  from assms(5) obtain order where order: "normalizeOrder ?request (sys_gateway s) = Inr order"
    by (auto simp: dispatchBrokerOrder_def Let_def split: if_splits sum.splits)
  obtain g result out where e: "dispatchOrder (hs_format host) (hs_ops host) order
      (final_risk isBuy (isBuy \<and> sys_canTrade s)) (sys_gateway s) = (g, result, out)"
    by (metis prod_cases3)
  define v where "v = (let s1 = on_engine a (\<lambda>e. e\<lparr>en_nextLocalOrderId := en_nextLocalOrderId e + 1\<rparr>) (tick s);
      s2 = (if rsk_allowed (final_risk isBuy (isBuy \<and> sys_canTrade s)) then s1 else on_engine a count_blocked s1)
      in note_latency a (elapsed_ms (clock_now host s) (clock_now host s2)) (tick s2))\<lparr>sys_gateway := g\<rparr>"
  have disp: "dsp_dispatched result" and t: "t = on_engine a (\<lambda>e. e\<lparr>en_lastBrokerOrderId := dsp_localOrderId result\<rparr>)
      (deliver_all host out v)"
    using assms(2,5) order e
    by (auto simp: dispatchBrokerOrder_def Let_def v_def split: if_splits)
  have "m_records (gw_lifecycle g) (en_nextLocalOrderId (engine_at a s)) \<noteq> None"
    using dispatched_known [OF e disp] normalizeOrder_request [OF order]
    by (simp add: market_request_def)
  moreover have "length (sys_engines v) = length (sys_engines s)"
    "en_nextLocalOrderId (engine_at b v) = en_nextLocalOrderId (engine_at b s)"
    using assms(1) by (simp_all add: v_def Let_def note_latency_def)
  moreover from this assms(3) have "en_nextLocalOrderId (engine_at b (deliver_all host out v))
      = en_nextLocalOrderId (engine_at b s)" using wiring_engine(3) [OF deliver_all_wiring, of b v host out] by simp
  moreover have "length (sys_engines (deliver_all host out v)) = length (sys_engines v)"
    using deliver_all_wiring [of host out v] by (auto simp: wiring_def dest: map_eq_imp_length_eq)
  moreover have "sys_gateway v = g" by (simp add: v_def Let_def)
  ultimately show ?thesis
    using dispatch_known_id [OF _ _ assms(6)] assms(1,3,4) by (simp add: t)
qed

subsection \<open>Two engines on a paper gateway\<close>

definition demo_engine :: "string \<Rightarrow> engine" where
  "demo_engine y = \<lparr>en_symbol = y, en_feeRate = FValue 100000, en_slippage = FValue 50000,
     en_riskPct = Fin (1 / 128), en_hasAnalytics = False, en_hasGateway = False,
     en_triggers = None, en_signalCount = 0, en_filledCount = 0, en_blockedCount = 0,
     en_nextLocalOrderId = 1, en_lastRouteLatencyMs = Fin 0, en_maxRouteLatencyMs = Fin 0,
     en_latencyBreaches = 0, en_pendingBrokerQty = Map.empty, en_appliedBrokerQty = Map.empty,
     en_lastBrokerOrderId = 0\<rparr>"

definition demo_host :: "unit host" where
  "demo_host = \<lparr>hs_format = x87_extended, hs_order = id, hs_ops = sample_ops, hs_clock = int\<rparr>"

definition unbound_sys :: "engine list \<Rightarrow> unit gateway \<Rightarrow> unit sys" where
  "unbound_sys es g =
     \<lparr>sys_portfolio = pm_init,
      sys_risk = setSystemConfig (Some (sample_config PAPER)) (risk_new 2 (Fin (1 / 16)) 20),
      sys_analytics = an_new, sys_allocator = al_new (Fin (1 / 4)) (Fin (1 / 4)),
      sys_gateway = g, sys_engines = es, sys_observers = [], sys_ticks = 0\<rparr>"

lemma demo_host_ok: "host_ok demo_host"
  by (simp add: host_ok_def demo_host_def ld_exact_x87)

definition light_sys :: "unit sys" where
  "light_sys = unbound_sys
     [(demo_engine ''BTC'')\<lparr>en_hasGateway := True\<rparr>, (demo_engine ''ETH'')\<lparr>en_hasGateway := True\<rparr>]
     (gw_init 0 sample_ops (sample_config PAPER) (OtherAdapter ()) False)"

lemma engines_share_order_ids_witness:
  "\<exists>t u ok. dispatchBrokerOrder demo_host 0 True (FValue 200000000) (FValue 100000000) 7 [] light_sys
      = (t, True)
    \<and> dispatchBrokerOrder demo_host 1 True (FValue 300000000) (FValue 100000000) 8 [] t = (u, ok)
    \<and> \<not> ok \<and> sys_portfolio u = sys_portfolio t"
proof -
  let ?r = "dispatchBrokerOrder demo_host 0 True (FValue 200000000) (FValue 100000000) 7 [] light_sys"
  have len: "0 < length (sys_engines light_sys)" "1 < length (sys_engines light_sys)" by code_simp+
  have ids: "en_nextLocalOrderId (engine_at 0 light_sys) = en_nextLocalOrderId (engine_at 1 light_sys)"
    by code_simp
  have "snd ?r" by code_simp
  then have r: "?r = (fst ?r, True)" by (cases ?r) simp
  obtain u ok where u: "dispatchBrokerOrder demo_host 1 True (FValue 300000000) (FValue 100000000) 8 []
      (fst ?r) = (u, ok)" by fastforce
  from engines_share_order_ids [OF zero_neq_one len ids r u] r u show ?thesis by blast
qed

text \<open>C27. Every engine an execution is delivered to whose symbol is another one reports it to the risk
  engine as an API error.  So one good fill halts all trading as soon as more engines of other
  symbols share the gateway than errors are tolerated in a minute.\<close>

theorem fill_halts_other_engines:
  assumes "gw_orderLifecycle (exe_localOrderId ex) (sys_gateway s) = Some rec"
    and "\<And>n. base \<le> hs_clock host n \<and> hs_clock host n \<le> base + ERROR_WINDOW_NS"
    and "\<forall>k \<in> set (sys_observers s). k < length (sys_engines s) \<and> en_hasGateway (engine_at k s)"
    and "unat (error_thresh (sys_risk s))
      < length (filter (\<lambda>k. en_symbol (engine_at k s) \<noteq> req_canonicalSymbol (lr_request rec))
          (sys_observers s))"
    and "rk_errorTimestamps (sys_risk s) = []" and "length (sys_observers s) < 2 ^ 32"
    and "t = deliver_all host (map (\<lambda>j. OutObserver j ex) [0..<length (sys_observers s)]) s"
  shows "rk_halted (sys_risk t)"
proof -
  let ?js = "[0..<length (sys_observers s)]" and ?y = "req_canonicalSymbol (lr_request rec)"
  have "length (filter (\<lambda>j. foreign_to ?y s (sys_observers s ! j)) ?js)
      = length (filter (foreign_to ?y s) (map (\<lambda>j. sys_observers s ! j) ?js))"
    by (simp add: filter_map comp_def)
  then have f: "length (filter (\<lambda>j. foreign_to ?y s (sys_observers s ! j)) ?js)
      = length (filter (\<lambda>k. en_symbol (engine_at k s) \<noteq> ?y) (sys_observers s))"
    by (simp add: map_nth) (simp add: foreign_to_def cong: filter_cong)
  have z: "recent_errors base (sys_risk s) = 0" by (simp add: recent_errors_def assms(5))
  have "recent_errors base (sys_risk s) + length (filter (\<lambda>j. foreign_to ?y s (sys_observers s ! j)) ?js)
      \<le> recent_errors base (sys_risk t)
    \<and> (0 < recent_errors base (sys_risk t)
       \<longrightarrow> unat (error_thresh (sys_risk s)) < recent_errors base (sys_risk t)
       \<longrightarrow> rk_halted (sys_risk t))"
    using assms(3,5,6,7)
    by (intro deliver_errors [OF assms(1,2)]) (auto simp: deliver_all_def z)
  with f z assms(4) show ?thesis by linarith
qed

definition light_gateway :: "unit gateway" where
  "light_gateway = (gw_init 0 sample_ops (sample_config PAPER) (OtherAdapter ()) False)
     \<lparr>gw_lifecycle := fst (create (market_request (demo_engine ''BTC'') True (FValue 200000000)
        (FValue 2000000000) 7 ''SMA_01'') empty_store)\<rparr>"

definition bound_engine :: "string \<Rightarrow> engine" where
  "bound_engine y = (demo_engine y)\<lparr>en_hasGateway := True\<rparr>"

definition demo_fill :: execution_event where
  "demo_fill = \<lparr>exe_schemaVersion = 1, exe_localOrderId = 1, exe_externalOrderId = ''x'',
     exe_cumulativeFilledQuantity = decimal 2 0, exe_remainingQuantity = decimal 0 0,
     exe_fillPrice = decimal 20 0, exe_fee = decimal 1 0, exe_timestampNs = 8, exe_sequence = 2,
     exe_eventKey = ''fill''\<rparr>"

definition six_others :: "unit sys" where
  "six_others = (unbound_sys (map bound_engine [''BTC'', ''A'', ''B'', ''C'', ''D'', ''E'', ''F''])
     light_gateway)\<lparr>sys_observers := [0, 1, 2, 3, 4, 5, 6]\<rparr>"

lemma fill_halts_other_engines_witness:
  "rk_halted (sys_risk (deliver_all (demo_host\<lparr>hs_clock := \<lambda>n. 9\<rparr>)
     (map (\<lambda>j. OutObserver j demo_fill) [0..<length (sys_observers six_others)]) six_others))"
proof -
  obtain rec where rec: "gw_orderLifecycle (exe_localOrderId demo_fill) (sys_gateway six_others) = Some rec"
    and y: "req_canonicalSymbol (lr_request rec) = ''BTC''"
    by (simp add: six_others_def unbound_sys_def light_gateway_def gw_orderLifecycle_def find_record_def
        demo_fill_def create_def market_request_def demo_engine_def dec_isPositive_def decimal_def
        MAX_SCALE_def SCALE_def executionKey_def empty_store_def Let_def appendAudit_def)
  have "\<forall>k \<in> set (sys_observers six_others). k < length (sys_engines six_others)
      \<and> en_hasGateway (engine_at k six_others)" by code_simp
  moreover have "unat (error_thresh (sys_risk six_others))
      < length (filter (\<lambda>k. en_symbol (engine_at k six_others) \<noteq> ''BTC'') (sys_observers six_others))"
    by code_simp
  moreover have "rk_errorTimestamps (sys_risk six_others) = []" "length (sys_observers six_others) < 2 ^ 32"
    by (simp_all add: six_others_def unbound_sys_def setSystemConfig_def risk_new_def)
  ultimately show ?thesis
    by (intro fill_halts_other_engines [OF rec, of 9]) (simp_all add: y ERROR_WINDOW_NS_def)
qed

subsection \<open>Witnesses on a system with one fill outstanding\<close>

definition one_engine :: "unit sys" where
  "one_engine = unbound_sys [bound_engine ''BTC''] light_gateway"

lemma broker_fill_exact_witness:
  "held ''BTC'' (sys_portfolio (onBrokerExecution demo_host 0 demo_fill one_engine)) = 200000000
   \<and> units (pm_cash (sys_portfolio (onBrokerExecution demo_host 0 demo_fill one_engine)))
     = STARTING_CASH_UNITS - 4100000000"
proof -
  have inv: "pm_inv (sys_portfolio one_engine)"
    by (simp add: one_engine_def unbound_sys_def pm_inv_init)
  have len: "0 < length (sys_engines one_engine)" by (simp add: one_engine_def unbound_sys_def)
  have n: "en_filledCount (engine_at 0 (onBrokerExecution demo_host 0 demo_fill one_engine))
      \<noteq> en_filledCount (engine_at 0 one_engine)" by code_simp
  have a: "execution_amounts (hs_format demo_host) demo_fill
      = Some (FValue 200000000, FValue 0, FValue 2000000000, FValue 100000000)" by code_simp
  have p: "previous_fill (engine_at 0 one_engine) (exe_localOrderId demo_fill) = FValue 0" by code_simp
  have s: "small (FValue 200000000 :: quantity)" "small (FValue 2000000000 :: price)"
    "small (FValue 100000000 :: money)" by (simp_all add: small_def)
  have m: "notional (FValue 2000000000) (FValue 200000000) NearestTiesAwayFromZero
      = Some (FValue 4000000000)" by code_simp
  have b: "\<And>rec. gw_orderLifecycle (exe_localOrderId demo_fill) (sys_gateway one_engine) = Some rec
      \<Longrightarrow> req_side (lr_request rec) = Buy"
    by (auto simp: one_engine_def unbound_sys_def light_gateway_def gw_orderLifecycle_def find_record_def
        demo_fill_def create_def market_request_def demo_engine_def dec_isPositive_def decimal_def
        MAX_SCALE_def SCALE_def executionKey_def empty_store_def Let_def appendAudit_def)
  have z: "held ''BTC'' (sys_portfolio one_engine) = 0"
    "units (pm_cash (sys_portfolio one_engine)) = STARTING_CASH_UNITS"
    "en_symbol (engine_at 0 one_engine) = ''BTC''" by code_simp+
  from broker_fill_exact [OF demo_host_ok inv len refl refl n a s] p b m z show ?thesis
    by (auto simp: Let_def)
qed



lemma bound_engine_fails_closed_witness:
  "snd (execute demo_host 0 None S_Sell (Fin 2) 7 []
     (unbound_sys [bound_engine ''BTC''] (gw_init_default 0 sample_ops (sample_config PAPER))))
   = Inr False"
  by (rule bound_engine_fails_closed [THEN conjunct1]) code_simp+

lemma halted_engine_never_buys_witness:
  "sys_portfolio (fst (execute demo_host 0 None S_Buy (Fin 2) 7 []
     (one_engine\<lparr>sys_risk := setHaltTrading True (sys_risk one_engine)\<rparr>)))
   = sys_portfolio one_engine"
proof -
  let ?s = "one_engine\<lparr>sys_risk := setHaltTrading True (sys_risk one_engine)\<rparr>"
  have "\<not> sys_canTrade ?s" by (simp add: sys_canTrade_def canTrade_def setHaltTrading_def)
  from halted_engine_never_buys [OF this, where host = demo_host and k = 0 and strategy = None
      and x = "Fin 2" and ts = 7 and sid = "[]"] show ?thesis by simp
qed

subsection \<open>Pending orders and triggers\<close>

lemma pending_loop_blocked:
  assumes "\<not> sys_canTrade s" and "\<forall>res \<in> set fills. ofr_isBuy res"
  shows "sys_portfolio (fst (pending_loop host k fills n s)) = sys_portfolio s
    \<and> snd (pending_loop host k fills n s) = Inr n"
  using assms
proof (induction fills arbitrary: s)
  case (Cons res fills)
  obtain t r where t: "pending_fill host k res s = (t, r)" by fastforce
  from Cons.prems have "sys_portfolio t = sys_portfolio s \<and> sys_risk t = sys_risk s \<and> r = Inr False"
    using t by (auto simp: pending_fill_def pending_buy_def blocked_def Let_def split: option.splits if_splits)
  moreover from this have "\<not> sys_canTrade t" using Cons.prems(1) by (simp add: sys_canTrade_def)
  ultimately show ?case using Cons.IH [of t] Cons.prems(2) by (simp add: t)
qed simp

text \<open>C17. A pending purchase that triggers while the risk engine forbids trading is lost: nothing is
  bought, and the order is no longer pending, so it cannot trigger again once trading resumes.\<close>

theorem blocked_pending_orders_are_lost:
  assumes "\<not> sys_canTrade s" and "orders_inv (sys_portfolio s) []"
    and "evaluatePendingOrders (hs_format host) (mc_symbol candle) (mc_high candle) (mc_low candle)
      (mc_close candle) (mc_epochTimestamp candle) (sys_portfolio s) = (p, fills)"
    and "\<forall>res \<in> set fills. ofr_isBuy res"
  shows "snd (processPendingOrders host k candle s) = Inr 0
    \<and> (let q = sys_portfolio (fst (processPendingOrders host k candle s))
       in pm_positions q = pm_positions (sys_portfolio s) \<and> pm_cash q = pm_cash (sys_portfolio s)
          \<and> (\<forall>res \<in> set fills. ofr_orderId res \<notin> ord_orderId ` set (pm_pendingOrders q)))"
proof -
  have q: "pm_positions p = pm_positions (sys_portfolio s)" "pm_cash p = pm_cash (sys_portfolio s)"
    "pm_totalEquity p = pm_totalEquity (sys_portfolio s)"
    using assms(3) by (auto simp: evaluatePendingOrders_def split: prod.splits)
  have no: "\<not> sys_canTrade (s\<lparr>sys_portfolio := p\<rparr>)"
  proof -
    have "canTrade p (sys_risk s) = canTrade (sys_portfolio s) (sys_risk s)"
      by (simp only: canTrade_def getOpenPositionCount_def getTotalEquity_def q)
    with assms(1) show ?thesis by (simp add: sys_canTrade_def)
  qed
  have "orders_inv p (map ofr_orderId fills)" using evaluate_orders_inv [OF assms(2,3)] by simp
  then have "\<forall>res \<in> set fills. ofr_orderId res \<notin> ord_orderId ` set (pm_pendingOrders p)"
    by (auto simp: orders_inv_def)
  with pending_loop_blocked [OF no assms(4), of host k 0] q show ?thesis
    by (simp add: processPendingOrders_def assms(3) Let_def)
qed

definition demo_candle :: market_candle where
  "demo_candle = \<lparr>mc_date = [], mc_time = [], mc_symbol = ''BTC'', mc_epochTimestamp = 9,
     mc_open = Fin 8, mc_high = Fin 9, mc_low = Fin 7, mc_close = Fin 8, mc_volume = Fin 1\<rparr>"

definition pending_limit_buy :: order_record where
  "pending_limit_buy = \<lparr>ord_symbol = ''BTC'', ord_orderType = PO_Limit, ord_isBuy = True,
     ord_limitPrice = Fin 8, ord_trailOffset = Fin 0, ord_trailBest = Fin 0, ord_quantity = Fin 1,
     ord_capitalToCommit = Fin 0, ord_placedTimestamp = 0, ord_orderId = 0\<rparr>"

definition halted_with_pending :: "unit sys" where
  "halted_with_pending = one_engine
     \<lparr>sys_risk := setHaltTrading True (sys_risk one_engine),
      sys_portfolio := fst (placePendingOrder x87_extended pending_limit_buy pm_init)\<rparr>"

lemma blocked_pending_orders_are_lost_witness:
  "snd (processPendingOrders demo_host 0 demo_candle halted_with_pending) = Inr 0
   \<and> length (pm_pendingOrders (sys_portfolio halted_with_pending)) = 1
   \<and> pm_positions (sys_portfolio (fst (processPendingOrders demo_host 0 demo_candle
       halted_with_pending))) = []"
proof -
  let ?e = "evaluatePendingOrders (hs_format demo_host) (mc_symbol demo_candle) (mc_high demo_candle)
      (mc_low demo_candle) (mc_close demo_candle) (mc_epochTimestamp demo_candle)
      (sys_portfolio halted_with_pending)"
  have h: "\<not> sys_canTrade halted_with_pending"
    by (simp add: halted_with_pending_def sys_canTrade_def canTrade_def setHaltTrading_def)
  have o: "orders_inv (sys_portfolio halted_with_pending) []"
    by (simp add: halted_with_pending_def place_orders_inv orders_inv_init)
  have b: "\<forall>res \<in> set (snd ?e). ofr_isBuy res" by code_simp
  have "length (pm_pendingOrders (sys_portfolio halted_with_pending)) = 1" by code_simp
  moreover have "pm_positions (sys_portfolio halted_with_pending) = []" by code_simp
  ultimately show ?thesis
    using blocked_pending_orders_are_lost [OF h o prod.collapse [symmetric] b, of 0]
    by (simp add: Let_def)
qed

text \<open>The quantity of a trigger order plays no part in its execution: whatever the quantities of the
  triggered orders are, the same is bought, and a sale is of the whole position.\<close>

theorem trigger_quantity_ignored:
  "trigger_loop host k strategy (map (\<lambda>ev. ev\<lparr>tfe_quantity := quantity ev\<rparr>) events) n s
     = trigger_loop host k strategy events n s"
  by (induction events arbitrary: n s) (simp_all split: prod.splits sum.splits)


end
