(* ===== verification/Spec2Isabelle.thy ===== *)
theory Spec2Isabelle
  imports FinancialProps LifecycleClaims RingBuffer OAuthClaims OAuthDiagnostics Gate6Claims
    Gate7Config Gate7Claims ConversionProps
    GatewayClaims PortfolioClaims L2BookClaims TriggerClaims RiskClaims ExecutionClaims
begin

text \<open>
  A verification library for TradeBot, a trading engine in C++ with a paper broker and two
  read-only cTrader proofs.  Paths below are relative to the repository.

  \<^bold>\<open>The program.\<close>  Candles arrive at one \<open>EventLoop\<close> per symbol.  It updates the regime detector,
  values the portfolio, feeds the risk engine, asks the strategies for their convictions, which
  the allocator weighs into a signal, and hands that to the \<open>ExecutionEngine\<close> of the symbol,
  which also runs pending orders on the candle and trigger orders on the order book.  An engine
  without a gateway fills in the portfolio itself.  One with a gateway sends an order through the
  \<open>BrokerGateway\<close>: it is normalised to the instrument's steps, checked against the final risk
  decision, entered in the \<open>OrderLifecycleStore\<close> and submitted to the adapter; the adapter's
  events drive the store and come back to every engine bound to the gateway, which applies the
  fills of its own orders to the portfolio.  The engines of a process share the portfolio, the
  risk engine, the allocator, the telemetry and the gateway.  Apart from this stand the account
  proof (gate 6) and the quote proof (gate 7), state machines fed by an OAuth callback and by
  decoded provider messages, which publish an account identifier or one quote only after a
  complete chain of evidence.

  \<^bold>\<open>The theories.\<close>  Each component has a theory of its state and operations; a theory
  \<open>...Props\<close> holds its lemmas and \<open>...Claims\<close> its main theorems with an instance of each at a
  concrete input (\<open>..._witness\<close>).  Records have the fields of the classes under a prefix, and
  a function that changes an object returns the changed record.

  \<^item> \<open>Prelude\<close>: machine integers, byte strings, generic lemmas.  \<open>Interfaces\<close>: the contracts as
    locales: machines with terminal states that keep no secret (\<open>one_shot\<close>, \<open>staged\<close>), stores
    that apply an event key once (\<open>idempotent_store\<close>), bounded queues (\<open>bounded_queue\<close>), and
    runs of a step function.  Each is interpreted in the theory of the component that provides
    it.  Two more stand beside their client: \<open>broker_adapter\<close> in \<open>GatewaySettle\<close>, which the paper
    adapter implements, and \<open>book_invariant\<close> in \<open>L2BookProps\<close>.
  \<^item> \<open>Financial\<close>, \<open>FinancialProps\<close>: the fixed-point operations of src/src/FinancialMath.cpp and
    src/include/FinancialMath.hpp, with the 128-bit product and the bit-serial division, against
    exact rational rounding (\<open>round_div\<close>): rounding in the right direction, no overflow, parts
    never more than the whole.
  \<^item> \<open>Floats\<close>, \<open>FloatProps\<close>, \<open>FloatSqrt\<close>: binary floating point.  \<open>BrokerContracts\<close>: the data of
    src/include/BrokerAdapterContracts.hpp.  \<open>Conversions\<close>, \<open>ConversionProps\<close>: amounts from and
    to \<open>double\<close>.
  \<^item> \<open>Lifecycle\<close>, \<open>LifecycleProps\<close>, \<open>LifecycleClaims\<close>: src/src/OrderLifecycleStore.cpp.  The abstract
    life of an order is the step relation \<open>order_step\<close>, which every call on the store simulates;
    the invariant of every run, event keys applied once, terminal records frozen.
  \<^item> \<open>PaperAdapter\<close>, \<open>Gateway\<close>, \<open>GatewayProps\<close>, \<open>GatewaySettle\<close>, \<open>GatewayClaims\<close>: the simulated broker
    (src/src/DeterministicBrokerAdapter.cpp) and the gateway (src/src/BrokerGateway.cpp) over
    any adapter: normalisation, the gates of a dispatch, refinement of the lifecycle store,
    nothing done when not authorised, no paper order left hanging.
  \<^item> \<open>Portfolio\<close>, \<open>PortfolioProps\<close>, \<open>PortfolioRun\<close>, \<open>PortfolioOrders\<close>, \<open>PortfolioRestore\<close>,
    \<open>PortfolioClaims\<close>: src/src/PortfolioManager.cpp: the books balance over every run, exceptions
    included; pending orders are filled once, at the right price; snapshots restore.
  \<^item> \<open>Risk\<close>, \<open>RiskProps\<close>, \<open>RiskClaims\<close>: src/src/RiskEngine.cpp: latching breakers, the window of
    errors, limits that never widen, the covariance matrix, snapshots.
  \<^item> \<open>L2Book\<close>, \<open>L2BookProps\<close>, \<open>L2BookClaims\<close> (src/src/L2OrderBook.cpp): the cached best levels
    against a scan.  \<open>TriggerOrders\<close>, \<open>TriggerClaims\<close> (src/src/TriggerOrderManager.cpp): the slot
    array refines a bounded map, and an evaluation reports exactly the orders hit.
    \<open>RingBuffer\<close> (src/include/LockFreeRingBuffer.hpp): every interleaving of a producer and a
    consumer is first-in first-out, without a race on a slot.
  \<^item> \<open>SystemConfig\<close> (src/include/SystemConfig.hpp), \<open>Alpha\<close> (both strategies), \<open>Regime\<close>
    (src/src/RegimeDetector.cpp), \<open>Allocator\<close> (src/src/PortfolioAllocator.cpp and the recording half
    of src/src/AnalyticsEngine.cpp), \<open>EventLoop\<close> (src/src/EventLoop.cpp): models that the execution
    engine and its properties rest on.
  \<^item> \<open>Execution\<close>, \<open>ExecutionOrders\<close> (src/src/ExecutionEngine.cpp), \<open>ExecutionFills\<close>,
    \<open>ExecutionProps\<close>, \<open>ExecutionErrors\<close>, \<open>ExecutionHalt\<close>, \<open>ExecutionClaims\<close>: all engines of a process
    and what they share are one record; an operation names its engine by index.  A fill is
    accounted exactly and once; a halted engine does not buy but can still sell (\<open>ExecutionHalt\<close>:
    a sale is the same in states that differ in the risk engine only); nothing falls back to a
    local fill; and what goes wrong when engines share a gateway.
  \<^item> \<open>OAuthCorrelation\<close>, \<open>OAuthQuery\<close>, \<open>OAuthProps\<close>, \<open>OAuthClaims\<close>, \<open>OAuthDiagnostics\<close>: the one-shot guard of
    the OAuth callback (src/src/CTraderOAuthCorrelation.cpp) with its query parser against a
    grammar, and src/src/CTraderGate7OAuthDiagnostics.cpp.
  \<^item> \<open>Gate6\<close>, \<open>Gate6Props\<close>, \<open>Gate6Claims\<close> (src/src/CTraderGate6Proof.cpp); \<open>Gate7Config\<close>,
    \<open>Gate7Numeric\<close>, \<open>Gate7NumericProps\<close>, \<open>Gate7\<close>, \<open>Gate7Props\<close>, \<open>Gate7Claims\<close>
    (src/src/CTraderGate7Proof.cpp): provenance of the account and of the quote, no phase skipped,
    nothing sensitive kept.

  \<^bold>\<open>Numbers.\<close>  Unsigned integers are words of their width; signed ones are \<open>int\<close>, with checked
  ranges where the code checks them and lemmas that values stay in range.  A \<open>double\<close> is a
  rational, an infinity or NaN; each operation is the exact result rounded to nearest even in
  binary64.  There is no negative zero, and no contraction of a product and a sum.  The format of
  \<open>long double\<close> is a parameter \<open>L\<close>: any format at least as wide as \<open>double\<close> (\<open>fmt_ok\<close>), such as
  binary64 itself or the x87 format; \<open>ld_exact\<close> and \<open>host_ok\<close> ask for one that holds the
  largest 64-bit integer.  The bound
  2^51 of many theorems is where an amount at eight decimals still survives a conversion to
  \<open>double\<close> and back; 22.5 million units of currency.

  \<^bold>\<open>Errors, loops and time.\<close>  An exception is the left part of a sum, with the state as it was at
  the throw where that matters; a refused call is \<open>None\<close> or the code's own result value.  Every
  loop of the models is structural recursion, a fold, or a bounded search that terminates by a
  proof, so no model needs fuel and none may be undefined.  What a class reads from its
  surroundings is an argument: readings of the clock, random bytes, failing allocations, the
  hash maps' order of iteration (any permutation), the build's live-runtime switch, whether a
  checkpoint could be written, and the adapter's functions.  The models are sequential; only
  the ring buffer, the one component that works without a lock, is modelled with its
  interleavings, its atomic accesses in one order.

  \<^bold>\<open>Not modelled.\<close>  The snapshot files (src/src/StateSerializer.cpp) and candle files
  (src/src/CsvReader.cpp, src/src/LocalDataReplayAdapter.cpp) are input and output through the
  standard library; src/src/LiveDataAdapter.cpp, src/src/AsyncNetworkClient.cpp and
  src/src/AuthManager.cpp are threads, sockets, TLS and operating system calls;
  src/src/MetricsAggregator.cpp and src/src/LocalMetricsExporter.cpp render and serve counters; the
  writing of CSV reports in src/src/AnalyticsEngine.cpp and all printing are left out; so are the
  main programs and the Objective-C++ runtimes, which connect the components.
\<close>

end
